(* ===== verification/Token_Prelude.thy ===== *)
theory Token_Prelude
  imports Main "HOL-Library.Word"
begin

text \<open>
  Shared vocabulary of the development: machine integers, byte strings and their
  little-endian codec, Rust's checked arithmetic, and the plumbing of fallible code.

  A Rust \<open>Result<T, E>\<close> is a value of \<open>'e + 'a\<close> (\<open>Inl\<close> the error); \<open>bindr\<close> is the \<open>?\<close>
  operator, \<open>ensure\<close> an early \<open>return Err\<close>. A \<open>usize\<close> that counts bytes of an account is a
  \<open>nat\<close>: the \<open>saturating_add\<close>s of the source on such lengths are plain additions, because an
  account never exceeds ten megabytes.
\<close>

section \<open>Types\<close>

type_synonym u8 = "8 word"
type_synonym u16 = "16 word"
type_synonym u32 = "32 word"
type_synonym u64 = "64 word"
type_synonym u128 = "128 word"
type_synonym bytes = "u8 list"

text \<open>
  A 32-byte address is compared and copied, never computed with: the model keeps it as the
  256-bit number its 32 bytes spell in little-endian order.
\<close>

type_synonym address = "256 word"

named_theorems codec_simps
named_theorems result_simps

section \<open>Fallible code\<close>

definition bindr :: "'e + 'a \<Rightarrow> ('a \<Rightarrow> 'e + 'b) \<Rightarrow> 'e + 'b" where
  "bindr m f = (case m of Inl e \<Rightarrow> Inl e | Inr x \<Rightarrow> f x)"

definition ensure :: "bool \<Rightarrow> 'e \<Rightarrow> 'e + unit" where
  "ensure c e = (if c then Inr () else Inl e)"

definition ok_or :: "'a option \<Rightarrow> 'e \<Rightarrow> 'e + 'a" where
  "ok_or m e = (case m of None \<Rightarrow> Inl e | Some x \<Rightarrow> Inr x)"

definition map_err :: "'e + 'a \<Rightarrow> 'f \<Rightarrow> 'f + 'a" where
  "map_err m e = (case m of Inl _ \<Rightarrow> Inl e | Inr x \<Rightarrow> Inr x)"

definition result_ok :: "'e + 'a \<Rightarrow> 'a option" where
  "result_ok m = (case m of Inl _ \<Rightarrow> None | Inr x \<Rightarrow> Some x)"

definition is_ok :: "'e + 'a \<Rightarrow> bool" where
  "is_ok m = (case m of Inl _ \<Rightarrow> False | Inr _ \<Rightarrow> True)"

fun try_for_each :: "('a \<Rightarrow> 's \<Rightarrow> 'e + 's) \<Rightarrow> 'a list \<Rightarrow> 's \<Rightarrow> 'e + 's" where
  "try_for_each f [] s = Inr s"
| "try_for_each f (x # xs) s = bindr (f x s) (try_for_each f xs)"

lemma bindr_Inl [simp]: "bindr (Inl e) f = Inl e"
  by (simp add: bindr_def)

lemma bindr_Inr [simp]: "bindr (Inr x) f = f x"
  by (simp add: bindr_def)

lemma bindr_eq_Inr [result_simps]: "bindr m f = Inr y \<longleftrightarrow> (\<exists>x. m = Inr x \<and> f x = Inr y)"
  by (cases m) auto

lemma bindr_assoc: "bindr (bindr m f) g = bindr m (\<lambda>x. bindr (f x) g)"
  by (cases m) auto

lemma ensure_eq_Inr [result_simps]: "ensure c e = Inr u \<longleftrightarrow> c"
  by (simp add: ensure_def)

lemma ensure_eq_Inl [result_simps]: "ensure c e = Inl e' \<longleftrightarrow> \<not> c \<and> e' = e"
  by (auto simp: ensure_def)

lemma ensure_True [simp]: "ensure True e = Inr ()"
  by (simp add: ensure_def)

lemma ensure_False [simp]: "ensure False e = Inl e"
  by (simp add: ensure_def)

lemma ok_or_eq_Inr [result_simps]: "ok_or m e = Inr x \<longleftrightarrow> m = Some x"
  by (cases m) (auto simp: ok_or_def)

lemma ok_or_Some [simp]: "ok_or (Some x) e = Inr x"
  by (simp add: ok_or_def)

lemma ok_or_None [simp]: "ok_or None e = Inl e"
  by (simp add: ok_or_def)

lemma map_err_eq_Inr [result_simps]: "map_err m e = Inr x \<longleftrightarrow> m = Inr x"
  by (cases m) (auto simp: map_err_def)

lemma map_err_Inr [simp]: "map_err (Inr x) e = Inr x"
  by (simp add: map_err_def)

lemma map_err_Inl [simp]: "map_err (Inl x) e = Inl e"
  by (simp add: map_err_def)

lemma result_ok_eq_Some [result_simps]: "result_ok m = Some x \<longleftrightarrow> m = Inr x"
  by (cases m) (auto simp: result_ok_def)

lemma result_ok_Inr [simp]: "result_ok (Inr x) = Some x"
  by (simp add: result_ok_def)

lemma result_ok_Inl [simp]: "result_ok (Inl e) = None"
  by (simp add: result_ok_def)

lemma result_ok_eq_None: "result_ok m = None \<longleftrightarrow> (\<exists>e. m = Inl e)"
  by (cases m) auto

lemma is_ok_Inr [simp]: "is_ok (Inr x)"
  by (simp add: is_ok_def)

lemma is_ok_Inl [simp]: "\<not> is_ok (Inl e)"
  by (simp add: is_ok_def)

lemma is_ok_iff: "is_ok m \<longleftrightarrow> (\<exists>x. m = Inr x)"
  by (cases m) auto

text \<open>A loop that may fail keeps every invariant that its body keeps.\<close>

lemma try_for_each_invariant:
  assumes "try_for_each f xs s = Inr t"
    and "P s"
    and "\<And>x s t. x \<in> set xs \<Longrightarrow> P s \<Longrightarrow> f x s = Inr t \<Longrightarrow> P t"
  shows "P t"
  using assms
proof (induction xs arbitrary: s)
  case Nil
  then show ?case by simp
next
  case (Cons x xs)
  then show ?case by (auto simp: result_simps)
qed

section \<open>Checked arithmetic\<close>

definition checked_add :: "'a::len word \<Rightarrow> 'a word \<Rightarrow> 'a word option" where
  "checked_add a b = (if unat a + unat b < 2 ^ LENGTH('a) then Some (a + b) else None)"

definition checked_sub :: "'a::len word \<Rightarrow> 'a word \<Rightarrow> 'a word option" where
  "checked_sub a b = (if b \<le> a then Some (a - b) else None)"

definition checked_mul :: "'a::len word \<Rightarrow> 'a word \<Rightarrow> 'a word option" where
  "checked_mul a b = (if unat a * unat b < 2 ^ LENGTH('a) then Some (a * b) else None)"

definition checked_div :: "'a::len word \<Rightarrow> 'a word \<Rightarrow> 'a word option" where
  "checked_div a b = (if b = 0 then None else Some (a div b))"

definition saturating_add :: "'a::len word \<Rightarrow> 'a word \<Rightarrow> 'a word" where
  "saturating_add a b = (case checked_add a b of None \<Rightarrow> - 1 | Some c \<Rightarrow> c)"

definition saturating_sub :: "'a::len word \<Rightarrow> 'a word \<Rightarrow> 'a word" where
  "saturating_sub a b = (case checked_sub a b of None \<Rightarrow> 0 | Some c \<Rightarrow> c)"

lemma checked_add_SomeD:
  "checked_add a b = Some c \<Longrightarrow> unat c = unat a + unat b"
  by (auto simp: checked_add_def unat_word_ariths split: if_splits)

lemma checked_sub_SomeD:
  "checked_sub a b = Some c \<Longrightarrow> unat b \<le> unat a \<and> unat c = unat a - unat b"
  by (auto simp: checked_sub_def unat_sub word_le_nat_alt split: if_splits)

lemma checked_mul_SomeD:
  "checked_mul a b = Some c \<Longrightarrow> unat c = unat a * unat b"
  by (auto simp: checked_mul_def unat_word_ariths split: if_splits)

lemma checked_div_SomeD:
  "checked_div a b = Some c \<Longrightarrow> b \<noteq> 0 \<and> unat c = unat a div unat b"
  by (auto simp: checked_div_def unat_div split: if_splits)

lemma checked_sub_None: "checked_sub a b = None \<longleftrightarrow> unat a < unat b"
  by (simp add: checked_sub_def word_le_nat_alt not_le)

lemma checked_add_None:
  "checked_add (a :: 'a::len word) b = None \<longleftrightarrow> 2 ^ LENGTH('a) \<le> unat a + unat b"
  by (simp add: checked_add_def not_less)

lemmas checked_SomeD = checked_add_SomeD checked_sub_SomeD checked_mul_SomeD checked_div_SomeD

lemma unat_ucast_up:
  "LENGTH('a) \<le> LENGTH('b) \<Longrightarrow> unat (ucast (w :: 'a::len word) :: 'b::len word) = unat w"
  by (metis unsigned_ucast_eq take_bit_nat_eq_self unsigned_less order_less_le_trans
      power_increasing one_le_numeral)

section \<open>Little-endian integers\<close>

fun le_nat :: "bytes \<Rightarrow> nat" where
  "le_nat [] = 0"
| "le_nat (b # bs) = unat b + 256 * le_nat bs"

fun nat_le :: "nat \<Rightarrow> nat \<Rightarrow> bytes" where
  "nat_le 0 k = []"
| "nat_le (Suc n) k = of_nat (k mod 256) # nat_le n (k div 256)"

definition le_bytes :: "nat \<Rightarrow> 'a::len word \<Rightarrow> bytes" where
  "le_bytes n w = nat_le n (unat w)"

definition of_le :: "bytes \<Rightarrow> 'a::len word" where
  "of_le bs = of_nat (le_nat bs)"

lemma length_nat_le [simp]: "length (nat_le n k) = n"
  by (induction n arbitrary: k) auto

lemma length_le_bytes [simp]: "length (le_bytes n w) = n"
  by (simp add: le_bytes_def)

lemma le_nat_nat_le: "le_nat (nat_le n k) = k mod 256 ^ n"
proof (induction n arbitrary: k)
  case 0
  then show ?case by simp
next
  case (Suc n)
  have "unat (of_nat (k mod 256) :: u8) = k mod 256"
    by (simp add: unat_of_nat)
  then show ?case
    by (simp add: Suc.IH mod_mult2_eq)
qed

lemma le_nat_less: "le_nat bs < 256 ^ length bs"
proof (induction bs)
  case Nil
  then show ?case by simp
next
  case (Cons b bs)
  have "unat b < 256"
    using unsigned_less [of b, where ?'a = nat] by simp
  with Cons show ?case by simp
qed

lemma nat_le_le_nat: "nat_le (length bs) (le_nat bs) = bs"
proof (induction bs)
  case Nil
  then show ?case by simp
next
  case (Cons b bs)
  have b: "unat b < 256"
    using unsigned_less [of b, where ?'a = nat] by simp
  then have m: "(unat b + 256 * le_nat bs) mod 256 = unat b"
    and d: "(unat b + 256 * le_nat bs) div 256 = le_nat bs"
    by simp_all
  show ?case
    by (simp only: le_nat.simps length_Cons nat_le.simps m d Cons.IH) simp
qed

lemma of_le_le_bytes [codec_simps]:
  assumes "LENGTH('a) \<le> 8 * n"
  shows "of_le (le_bytes n w) = (w :: 'a::len word)"
proof -
  have "unat w < 2 ^ LENGTH('a)"
    by simp
  also have "\<dots> \<le> 2 ^ (8 * n)"
    using assms by (intro power_increasing) auto
  also have "\<dots> = 256 ^ n"
    by (simp add: power_mult)
  finally have "unat w mod 256 ^ n = unat w"
    by simp
  then show ?thesis
    by (simp add: of_le_def le_bytes_def le_nat_nat_le)
qed

lemma le_bytes_of_le [codec_simps]:
  assumes "length bs = n" and "8 * n \<le> LENGTH('a)"
  shows "le_bytes n (of_le bs :: 'a::len word) = bs"
proof -
  have "le_nat bs < 256 ^ n"
    using le_nat_less [of bs] assms by simp
  also have "(256 :: nat) ^ n = 2 ^ (8 * n)"
    by (simp add: power_mult)
  also have "\<dots> \<le> 2 ^ LENGTH('a)"
    using assms by (intro power_increasing) auto
  finally have "unat (of_nat (le_nat bs) :: 'a word) = le_nat bs"
    by (simp add: unat_of_nat)
  then show ?thesis
    using nat_le_le_nat [of bs] assms by (simp add: le_bytes_def of_le_def)
qed

lemma le_nat_zeros [simp]: "le_nat (replicate n 0) = 0"
  by (induction n) auto

lemma of_le_zeros [simp]: "of_le (replicate n 0) = 0"
  by (simp add: of_le_def)

lemma le_bytes_zero: "le_bytes n 0 = replicate n 0"
  by (simp add: le_bytes_def) (induction n, auto)

section \<open>Slices\<close>

text \<open>\<open>seg i n bs\<close> is \<open>&bs[i..i + n]\<close>; \<open>patch i vs bs\<close> overwrites \<open>bs[i..i + vs.len()]\<close>.\<close>

definition seg :: "nat \<Rightarrow> nat \<Rightarrow> 'a list \<Rightarrow> 'a list" where
  "seg i n bs = take n (drop i bs)"

definition patch :: "nat \<Rightarrow> 'a list \<Rightarrow> 'a list \<Rightarrow> 'a list" where
  "patch i vs bs = take i bs @ vs @ drop (i + length vs) bs"

lemma length_seg: "length (seg i n bs) = min n (length bs - i)"
  by (simp add: seg_def)

lemma length_seg_eq [simp]: "i + n \<le> length bs \<Longrightarrow> length (seg i n bs) = n"
  by (simp add: seg_def)

lemma length_patch [simp]: "i + length vs \<le> length bs \<Longrightarrow> length (patch i vs bs) = length bs"
  by (simp add: patch_def)

lemma seg_patch_same [simp]:
  "i + length vs \<le> length bs \<Longrightarrow> n = length vs \<Longrightarrow> seg i n (patch i vs bs) = vs"
  by (simp add: seg_def patch_def)

lemma take_patch_before: "j \<le> i \<Longrightarrow> i \<le> length bs \<Longrightarrow> take j (patch i vs bs) = take j bs"
  by (simp add: patch_def min_def)

lemma drop_patch_after:
  assumes "i + length vs \<le> length bs" and "i + length vs \<le> j"
  shows "drop j (patch i vs bs) = drop j bs"
proof -
  have "j - (i + length vs) + (i + length vs) = j"
    using assms by simp
  moreover have "drop j (patch i vs bs) = drop (j - i - length vs) (drop (i + length vs) bs)"
    using assms by (simp add: patch_def min_def)
  ultimately show ?thesis
    by (simp add: add.commute)
qed

lemma seg_patch_before:
  assumes "j + n \<le> i" and "i \<le> length bs"
  shows "seg j n (patch i vs bs) = seg j n bs"
proof -
  from assms have "take (j + n) (patch i vs bs) = take (j + n) bs"
    by (rule take_patch_before)
  then show ?thesis
    by (metis seg_def take_drop add.commute)
qed

lemma seg_patch_after:
  "i + length vs \<le> length bs \<Longrightarrow> i + length vs \<le> j \<Longrightarrow> seg j n (patch i vs bs) = seg j n bs"
  by (simp add: seg_def drop_patch_after)

lemma patch_seg_id: "i + n \<le> length bs \<Longrightarrow> patch i (seg i n bs) bs = bs"
  by (simp add: patch_def seg_def) (metis add.commute append_take_drop_id drop_drop)

lemma patch_patch [simp]:
  "length us = length vs \<Longrightarrow> i + length vs \<le> length bs \<Longrightarrow> patch i us (patch i vs bs) = patch i us bs"
  by (simp add: patch_def)

lemma seg_append_left [codec_simps]: "i + n \<le> length xs \<Longrightarrow> seg i n (xs @ ys) = seg i n xs"
  by (simp add: seg_def)

lemma seg_append_right [codec_simps]:
  "length xs \<le> i \<Longrightarrow> seg i n (xs @ ys) = seg (i - length xs) n ys"
  by (simp add: seg_def)

lemma seg_0_all [simp]: "n = length xs \<Longrightarrow> seg 0 n xs = xs"
  by (simp add: seg_def)

lemma seg_0_append [simp]: "n = length xs \<Longrightarrow> seg 0 n (xs @ ys) = xs"
  by (simp add: seg_def)

lemma seg_join: "seg i n bs @ seg (i + n) k bs = seg i (n + k) bs"
  by (simp add: seg_def take_add add.commute [of n i])

lemma seg_join_eq: "j = i + n \<Longrightarrow> seg i n bs @ seg j k bs = seg i (n + k) bs"
  by (simp add: seg_join)

lemma seg_join_eq_append: "j = i + n \<Longrightarrow> seg i n bs @ seg j k bs @ zs = seg i (n + k) bs @ zs"
  by (metis append.assoc seg_join)

lemma seg_seg: "j + k \<le> n \<Longrightarrow> seg j k (seg i n bs) = seg (i + j) k bs"
  by (simp add: seg_def drop_take min_def add.commute)

lemma seg_take_cong:
  assumes "take n xs = take n ys" and "i + k \<le> n"
  shows "seg i k xs = seg i k ys"
proof -
  have "seg i k zs = drop i (take (i + k) (take n zs))" for zs :: "'a list"
    using assms(2) by (simp add: seg_def take_drop min_def add.commute)
  with assms(1) show ?thesis by metis
qed

lemma patch_patch_adjacent:
  assumes "i + length us + length vs \<le> length bs" and "j = i + length us"
  shows "patch j vs (patch i us bs) = patch i (us @ vs) bs"
proof -
  have "min (length bs) i = i" using assms by simp
  then show ?thesis using assms by (simp add: patch_def add.commute add.left_commute)
qed

lemma seg_patch_inside:
  assumes "i \<le> j" and "j + n \<le> i + length vs" and "i + length vs \<le> length bs"
  shows "seg j n (patch i vs bs) = seg (j - i) n vs"
  using assms by (simp add: patch_def seg_def min_def)

lemma patch_take_same:
  assumes "k \<le> length vs" and "i + length vs \<le> length bs" and "take k vs = seg i k bs"
  shows "patch i vs bs = patch (i + k) (drop k vs) bs"
proof -
  have "take (i + k) bs = take i bs @ take k vs"
    using assms(3) by (simp add: seg_def take_add)
  then show ?thesis
    using assms(1,2) by (simp add: patch_def add.assoc)
qed

lemmas seg_joins = seg_join_eq seg_join_eq_append

end
