(* ===== verification/Token_Error.thy ===== *)
theory Token_Error
  imports Token_Prelude
begin

text \<open>
  The errors a handler can return: \<open>TokenError\<close> (interface/src/error.rs), whose values travel as
  \<open>ProgramError::Custom\<close>, and the variants of the runtime's \<open>ProgramError\<close> that the sources name.
  \<open>Panic\<close> stands for a Rust panic (a failed \<open>RefCell\<close> borrow, \<open>unreachable!()\<close>, an index out of
  range): the runtime aborts the transaction and rolls every account back, as for an error.
\<close>

datatype (plugins only: code) token_error =
    NotRentExempt | InsufficientFunds | InvalidMint | MintMismatch | OwnerMismatch
  | FixedSupply | AlreadyInUse | InvalidNumberOfProvidedSigners | InvalidNumberOfRequiredSigners
  | UninitializedState
  | NativeNotSupported | NonNativeHasBalance | InvalidInstruction | InvalidState | Overflow
  | AuthorityTypeNotSupported | MintCannotFreeze | AccountFrozen | MintDecimalsMismatch
  | NonNativeNotSupported
  | ExtensionTypeMismatch | ExtensionBaseMismatch | ExtensionAlreadyInitialized
  | ConfidentialTransferAccountHasBalance | ConfidentialTransferAccountNotApproved
  | ConfidentialTransferDepositsAndTransfersDisabled | ConfidentialTransferElGamalPubkeyMismatch
  | ConfidentialTransferBalanceMismatch | MintHasSupply | NoAuthorityExists
  | TransferFeeExceedsMaximum | MintRequiredForTransfer | FeeMismatch | FeeParametersMismatch
  | ImmutableOwnerError
  | AccountHasWithheldTransferFees | NoMemo | NonTransferableError
  | NonTransferableNeedsImmutableOwnership | MaximumPendingBalanceCreditCounterExceeded
  | MaximumDepositAmountExceeded | CpiGuardSettingsLocked | CpiGuardTransferBlocked
  | CpiGuardBurnBlocked | CpiGuardCloseAccountBlocked
  | CpiGuardApproveBlocked | CpiGuardSetAuthorityBlocked | CpiGuardOwnerChangeBlocked
  | ExtensionNotFound | NonConfidentialTransfersDisabled
  | ConfidentialTransferFeeAccountHasWithheldFee | InvalidExtensionCombination
  | InvalidLengthForAlloc | AccountDecryption | ProofGeneration
  | InvalidProofInstructionOffset | HarvestToMintDisabled
  | SplitProofContextStateAccountsNotSupported | NotEnoughProofContextStateAccounts
  | MalformedCiphertext
  | CiphertextArithmeticFailed | PedersenCommitmentMismatch | RangeProofLengthMismatch
  | IllegalBitLength | FeeCalculation
  | IllegalMintBurnConversion | InvalidScale | MintPaused | PendingBalanceNonZero

text \<open>
  The errors of the token-metadata and token-group interfaces that this program returns; the error
  types belong to other crates.
\<close>

datatype (plugins only: code) token_metadata_error =
    ImmutableMetadata | MetadataIncorrectMintAuthority | MetadataIncorrectUpdateAuthority | KeyNotFound

datatype (plugins only: code) token_group_error =
    ImmutableGroup | GroupIncorrectMintAuthority | GroupIncorrectUpdateAuthority | MemberAccountIsGroupAccount

datatype program_error =
    Custom token_error
  | MetadataError token_metadata_error
  | GroupError token_group_error
  | InvalidArgument
  | InvalidInstructionData
  | InvalidAccountData
  | AccountDataTooSmall
  | IncorrectProgramId
  | MissingRequiredSignature
  | UninitializedAccount
  | NotEnoughAccountKeys
  | AccountBorrowFailed
  | InvalidSeeds
  | InvalidAccountOwner
  | AccountNotRentExempt
  | RuntimeError nat
  | Panic

type_synonym 'a result = "program_error + 'a"

end
