(* ===== verification/Pod.thy ===== *)
theory Pod
  imports Token_Error
begin

text \<open>
  Zero-copy layouts (interface/src/pod.rs): a \<open>Pod\<close> type is a record together with the exact bytes
  it occupies. The locale \<open>pod_codec\<close> states what reinterpreting bytes as a \<open>repr(C)\<close> struct of
  alignment one guarantees; the base states \<open>PodMint\<close>, \<open>PodAccount\<close> and \<open>PodMultisig\<close> interpret it
  here, the extension structs in theory Extension_Data.

  A \<open>PodCOption\<close> keeps its four raw tag bytes, and a \<open>Bool\<close> its raw byte, because the code
  compares and copies them unvalidated.
\<close>

section \<open>The contract of a fixed-size layout\<close>

locale pod_codec =
  fixes size_of :: nat
    and to_bytes :: "'a \<Rightarrow> bytes"
    and of_bytes :: "bytes \<Rightarrow> 'a"
  assumes length_to_bytes: "length (to_bytes x) = size_of"
    and of_to_bytes: "of_bytes (to_bytes x) = x"
    and to_of_bytes: "length bs = size_of \<Longrightarrow> to_bytes (of_bytes bs) = bs"
begin

lemma to_bytes_inject: "to_bytes x = to_bytes y \<longleftrightarrow> x = y"
  by (metis of_to_bytes)

text \<open>A struct at the front of a buffer can be read, replaced and read again.\<close>

lemma read_front: "of_bytes (take size_of (to_bytes x @ rest)) = x"
  by (simp add: length_to_bytes of_to_bytes)

lemma rewrite_front: "size_of \<le> length bs \<Longrightarrow> to_bytes (of_bytes (take size_of bs)) @ drop size_of bs = bs"
  by (simp add: to_of_bytes)

lemma patch_read:
  "i + size_of \<le> length bs \<Longrightarrow> of_bytes (seg i size_of (patch i (to_bytes x) bs)) = x"
  by (simp add: length_to_bytes of_to_bytes)

end

section \<open>PodCOption\<close>

record 'a pod_coption =
  co_option :: u32
  co_value :: 'a

definition COPTION_NONE :: u32 where
  "COPTION_NONE = 0"

definition COPTION_SOME :: u32 where
  "COPTION_SOME = 1"

definition coption_none :: "'a::zero pod_coption" where
  "coption_none = \<lparr>co_option = COPTION_NONE, co_value = 0\<rparr>"

definition coption_some :: "'a \<Rightarrow> 'a pod_coption" where
  "coption_some v = \<lparr>co_option = COPTION_SOME, co_value = v\<rparr>"

definition coption_unwrap_or :: "'a pod_coption \<Rightarrow> 'a \<Rightarrow> 'a" where
  "coption_unwrap_or c d = (if co_option c = COPTION_NONE then d else co_value c)"

definition coption_is_some :: "'a pod_coption \<Rightarrow> bool" where
  "coption_is_some c \<longleftrightarrow> co_option c = COPTION_SOME"

definition coption_is_none :: "'a pod_coption \<Rightarrow> bool" where
  "coption_is_none c \<longleftrightarrow> co_option c = COPTION_NONE"

definition coption_ok_or :: "'a pod_coption \<Rightarrow> 'e \<Rightarrow> 'e + 'a" where
  "coption_ok_or c e = (if co_option c = COPTION_SOME then Inr (co_value c) else Inl e)"

definition coption_of_option :: "'a::zero option \<Rightarrow> 'a pod_coption" where
  "coption_of_option x = (case x of None \<Rightarrow> coption_none | Some v \<Rightarrow> coption_some v)"

text \<open>
  \<open>TryFrom<PodCOption<Address>> for MaybeNull<Address>\<close>: \<open>Some\<close> of the zero address is refused,
  \<open>None\<close> becomes the zero address, and a malformed tag hits \<open>unreachable!()\<close>.
\<close>

definition maybe_null_try_from_coption :: "address pod_coption \<Rightarrow> address result" where
  "maybe_null_try_from_coption p =
     (if co_option p = COPTION_SOME \<and> co_value p = 0 then Inl InvalidArgument
      else if co_option p = COPTION_SOME then Inr (co_value p)
      else if co_option p = COPTION_NONE then Inr 0
      else Inl Panic)"

definition coption_to_bytes :: "nat \<Rightarrow> 'a::len word pod_coption \<Rightarrow> bytes" where
  "coption_to_bytes n c = le_bytes 4 (co_option c) @ le_bytes n (co_value c)"

definition coption_of_bytes :: "nat \<Rightarrow> bytes \<Rightarrow> 'a::len word pod_coption" where
  "coption_of_bytes n bs = \<lparr>co_option = of_le (seg 0 4 bs), co_value = of_le (seg 4 n bs)\<rparr>"

lemma length_coption_to_bytes [simp]: "length (coption_to_bytes n c) = 4 + n"
  by (simp add: coption_to_bytes_def)

lemma coption_of_to_bytes [codec_simps]:
  "LENGTH('a) \<le> 8 * n \<Longrightarrow> coption_of_bytes n (coption_to_bytes n (c :: 'a::len word pod_coption)) = c"
  by (simp add: coption_of_bytes_def coption_to_bytes_def codec_simps)

lemma coption_to_of_bytes [codec_simps]:
  "length bs = 4 + n \<Longrightarrow> 8 * n \<le> LENGTH('a) \<Longrightarrow>
     coption_to_bytes n (coption_of_bytes n bs :: 'a::len word pod_coption) = bs"
  by (simp add: coption_of_bytes_def coption_to_bytes_def codec_simps seg_joins)

section \<open>Base states\<close>

record pod_mint =
  m_mint_authority :: "address pod_coption"
  m_supply :: u64
  m_decimals :: u8
  m_is_initialized :: u8
  m_freeze_authority :: "address pod_coption"

record pod_account =
  a_mint :: address
  a_owner :: address
  a_amount :: u64
  a_delegate :: "address pod_coption"
  a_state :: u8
  a_is_native :: "u64 pod_coption"
  a_delegated_amount :: u64
  a_close_authority :: "address pod_coption"

record pod_multisig =
  ms_m :: u8
  ms_n :: u8
  ms_is_initialized :: u8
  ms_signers :: "address list"

datatype account_state = Uninitialized | Initialized | Frozen

definition account_state_u8 :: "account_state \<Rightarrow> u8" where
  "account_state_u8 s = (case s of Uninitialized \<Rightarrow> 0 | Initialized \<Rightarrow> 1 | Frozen \<Rightarrow> 2)"

definition account_state_try_from :: "u8 \<Rightarrow> account_state option" where
  "account_state_try_from b =
     (if b = 0 then Some Uninitialized else if b = 1 then Some Initialized
      else if b = 2 then Some Frozen else None)"

definition is_frozen :: "pod_account \<Rightarrow> bool" where
  "is_frozen a \<longleftrightarrow> a_state a = account_state_u8 Frozen"

definition is_native :: "pod_account \<Rightarrow> bool" where
  "is_native a \<longleftrightarrow> coption_is_some (a_is_native a)"

definition pod_account_is_initialized :: "pod_account \<Rightarrow> bool" where
  "pod_account_is_initialized a \<longleftrightarrow>
     a_state a = account_state_u8 Initialized \<or> a_state a = account_state_u8 Frozen"

definition MAX_SIGNERS :: nat where
  "MAX_SIGNERS = 11"

definition MINT_LEN :: nat where "MINT_LEN = 82"
definition ACCOUNT_LEN :: nat where "ACCOUNT_LEN = 165"
definition MULTISIG_LEN :: nat where "MULTISIG_LEN = 355"

definition pod_mint_to_bytes :: "pod_mint \<Rightarrow> bytes" where
  "pod_mint_to_bytes m =
     coption_to_bytes 32 (m_mint_authority m) @ le_bytes 8 (m_supply m) @ le_bytes 1 (m_decimals m) @
     le_bytes 1 (m_is_initialized m) @ coption_to_bytes 32 (m_freeze_authority m)"

definition pod_mint_of_bytes :: "bytes \<Rightarrow> pod_mint" where
  "pod_mint_of_bytes bs =
     \<lparr>m_mint_authority = coption_of_bytes 32 (seg 0 36 bs),
      m_supply = of_le (seg 36 8 bs),
      m_decimals = of_le (seg 44 1 bs),
      m_is_initialized = of_le (seg 45 1 bs),
      m_freeze_authority = coption_of_bytes 32 (seg 46 36 bs)\<rparr>"

definition pod_account_to_bytes :: "pod_account \<Rightarrow> bytes" where
  "pod_account_to_bytes a =
     le_bytes 32 (a_mint a) @ le_bytes 32 (a_owner a) @ le_bytes 8 (a_amount a) @
     coption_to_bytes 32 (a_delegate a) @ le_bytes 1 (a_state a) @
     coption_to_bytes 8 (a_is_native a) @ le_bytes 8 (a_delegated_amount a) @
     coption_to_bytes 32 (a_close_authority a)"

definition pod_account_of_bytes :: "bytes \<Rightarrow> pod_account" where
  "pod_account_of_bytes bs =
     \<lparr>a_mint = of_le (seg 0 32 bs),
      a_owner = of_le (seg 32 32 bs),
      a_amount = of_le (seg 64 8 bs),
      a_delegate = coption_of_bytes 32 (seg 72 36 bs),
      a_state = of_le (seg 108 1 bs),
      a_is_native = coption_of_bytes 8 (seg 109 12 bs),
      a_delegated_amount = of_le (seg 121 8 bs),
      a_close_authority = coption_of_bytes 32 (seg 129 36 bs)\<rparr>"

text \<open>An array of addresses: consecutive chunks of 32 bytes.\<close>

fun addresses_of_bytes :: "nat \<Rightarrow> bytes \<Rightarrow> address list" where
  "addresses_of_bytes 0 bs = []"
| "addresses_of_bytes (Suc n) bs = of_le (take 32 bs) # addresses_of_bytes n (drop 32 bs)"

definition pod_multisig_to_bytes :: "pod_multisig \<Rightarrow> bytes" where
  "pod_multisig_to_bytes m =
     le_bytes 1 (ms_m m) @ le_bytes 1 (ms_n m) @ le_bytes 1 (ms_is_initialized m) @
     concat (map (le_bytes 32) (ms_signers m))"

definition pod_multisig_of_bytes :: "bytes \<Rightarrow> pod_multisig" where
  "pod_multisig_of_bytes bs =
     \<lparr>ms_m = of_le (seg 0 1 bs), ms_n = of_le (seg 1 1 bs), ms_is_initialized = of_le (seg 2 1 bs),
      ms_signers = addresses_of_bytes MAX_SIGNERS (drop 3 bs)\<rparr>"

text \<open>\<open>bytemuck::try_from_bytes\<close> at alignment one: the length must be exact.\<close>

definition pod_multisig_try_from_bytes :: "bytes \<Rightarrow> pod_multisig option" where
  "pod_multisig_try_from_bytes bs =
     (if length bs = MULTISIG_LEN then Some (pod_multisig_of_bytes bs) else None)"

section \<open>Layout laws\<close>

interpretation mint_pod: pod_codec MINT_LEN pod_mint_to_bytes pod_mint_of_bytes
proof unfold_locales
  show "length (pod_mint_to_bytes x) = MINT_LEN" for x
    by (simp add: pod_mint_to_bytes_def MINT_LEN_def)
  show "pod_mint_of_bytes (pod_mint_to_bytes x) = x" for x
    by (simp add: pod_mint_to_bytes_def pod_mint_of_bytes_def codec_simps)
  show "pod_mint_to_bytes (pod_mint_of_bytes bs) = bs" if "length bs = MINT_LEN" for bs
    using that by (simp add: pod_mint_to_bytes_def pod_mint_of_bytes_def MINT_LEN_def codec_simps seg_joins)
qed

interpretation account_pod: pod_codec ACCOUNT_LEN pod_account_to_bytes pod_account_of_bytes
proof unfold_locales
  show "length (pod_account_to_bytes x) = ACCOUNT_LEN" for x
    by (simp add: pod_account_to_bytes_def ACCOUNT_LEN_def)
  show "pod_account_of_bytes (pod_account_to_bytes x) = x" for x
    by (simp add: pod_account_to_bytes_def pod_account_of_bytes_def codec_simps)
  show "pod_account_to_bytes (pod_account_of_bytes bs) = bs" if "length bs = ACCOUNT_LEN" for bs
    using that
    by (simp add: pod_account_to_bytes_def pod_account_of_bytes_def ACCOUNT_LEN_def codec_simps seg_joins)
qed

lemma length_concat_le_bytes [simp]: "length (concat (map (le_bytes n) ws)) = n * length ws"
  by (induction ws) auto

lemma addresses_of_to_bytes:
  "length ws = n \<Longrightarrow> addresses_of_bytes n (concat (map (le_bytes 32) ws)) = ws"
  by (induction ws arbitrary: n) (auto simp: codec_simps)

lemma length_addresses_of_bytes [simp]: "length (addresses_of_bytes n bs) = n"
  by (induction n arbitrary: bs) auto

lemma addresses_to_of_bytes:
  "length bs = 32 * n \<Longrightarrow> concat (map (le_bytes 32) (addresses_of_bytes n bs)) = bs"
  by (induction n arbitrary: bs) (auto simp: codec_simps)

lemma pod_multisig_of_to_bytes:
  "length (ms_signers m) = MAX_SIGNERS \<Longrightarrow> pod_multisig_of_bytes (pod_multisig_to_bytes m) = m"
  by (simp add: pod_multisig_of_bytes_def pod_multisig_to_bytes_def codec_simps addresses_of_to_bytes)

lemma length_pod_multisig_to_bytes:
  "length (ms_signers m) = MAX_SIGNERS \<Longrightarrow> length (pod_multisig_to_bytes m) = MULTISIG_LEN"
  by (simp add: pod_multisig_to_bytes_def MAX_SIGNERS_def MULTISIG_LEN_def)

lemma pod_multisig_to_of_bytes:
  assumes "length bs = MULTISIG_LEN"
  shows "pod_multisig_to_bytes (pod_multisig_of_bytes bs) = bs"
proof -
  have "length (drop 3 bs) = 32 * MAX_SIGNERS"
    using assms by (simp add: MAX_SIGNERS_def MULTISIG_LEN_def)
  moreover have "seg 0 (Suc (Suc (Suc 0))) bs @ drop 3 bs = bs"
    by (simp add: seg_def flip: numeral_3_eq_3)
  ultimately show ?thesis
    using assms
    by (simp add: pod_multisig_to_bytes_def pod_multisig_of_bytes_def addresses_to_of_bytes
        codec_simps seg_joins MULTISIG_LEN_def)
qed

lemma pod_multisig_to_bytes_try:
  "length (ms_signers m) = MAX_SIGNERS \<Longrightarrow> pod_multisig_try_from_bytes (pod_multisig_to_bytes m) = Some m"
  by (simp add: pod_multisig_try_from_bytes_def length_pod_multisig_to_bytes pod_multisig_of_to_bytes)

lemmas coption_simps [simp] =
  coption_is_some_def coption_is_none_def coption_unwrap_or_def coption_ok_or_def
  coption_some_def coption_none_def COPTION_NONE_def COPTION_SOME_def

lemma account_state_u8_simps [simp]:
  "account_state_u8 Uninitialized = 0" "account_state_u8 Initialized = 1" "account_state_u8 Frozen = 2"
  by (simp_all add: account_state_u8_def)

lemma account_state_roundtrip [simp]: "account_state_try_from (account_state_u8 s) = Some s"
  by (cases s) (simp_all add: account_state_try_from_def)

end
