(* ===== verification/Platform.thy ===== *)
theory Platform
  imports Pod
begin

text \<open>
  The world a handler runs in. Accounts live in a store indexed by address, so that an account
  listed twice in an instruction is one account: the aliasing of \<open>AccountInfo\<close> clones is explicit.
  An address that was never funded is an empty account, as in the runtime.

  Everything that comes from a crate outside this repository is a field of the record \<open>platform\<close>:
  sysvars, the call stack height, the previous sibling instruction, identifiers of other programs,
  cross-program invocations, account reallocation, and the conversions of the \<open>Bool\<close> and
  \<open>MaybeNull\<close> wrapper types. What the theorems rely on of their documented behaviour is stated in
  \<open>platform_laws\<close> and the predicates beside it, and appears as a hypothesis where it is used.
\<close>

section \<open>Accounts and the store\<close>

record acct =
  ac_owner :: address
  ac_lamports :: u64
  ac_data :: bytes

record account_info =
  ai_key :: address
  ai_is_signer :: bool
  ai_is_writable :: bool

type_synonym store = "address \<Rightarrow> acct"

definition info_owner :: "store \<Rightarrow> account_info \<Rightarrow> address" where
  "info_owner st i = ac_owner (st (ai_key i))"

definition info_data :: "store \<Rightarrow> account_info \<Rightarrow> bytes" where
  "info_data st i = ac_data (st (ai_key i))"

definition info_lamports :: "store \<Rightarrow> account_info \<Rightarrow> u64" where
  "info_lamports st i = ac_lamports (st (ai_key i))"

definition set_data :: "address \<Rightarrow> bytes \<Rightarrow> store \<Rightarrow> store" where
  "set_data k d st = st(k := (st k)\<lparr>ac_data := d\<rparr>)"

definition set_lamports :: "address \<Rightarrow> u64 \<Rightarrow> store \<Rightarrow> store" where
  "set_lamports k n st = st(k := (st k)\<lparr>ac_lamports := n\<rparr>)"

definition set_owner :: "address \<Rightarrow> address \<Rightarrow> store \<Rightarrow> store" where
  "set_owner k ow st = st(k := (st k)\<lparr>ac_owner := ow\<rparr>)"

text \<open>\<open>next_account_info\<close> on the iterator over an instruction's accounts.\<close>

definition next_account_info :: "account_info list \<Rightarrow> (account_info \<times> account_info list) result" where
  "next_account_info it = (case it of [] \<Rightarrow> Inl NotEnoughAccountKeys | i # rest \<Rightarrow> Inr (i, rest))"

lemma next_account_info_Cons [simp]: "next_account_info (i # rest) = Inr (i, rest)"
  by (simp add: next_account_info_def)

lemma next_account_info_Nil [simp]: "next_account_info [] = Inl NotEnoughAccountKeys"
  by (simp add: next_account_info_def)

lemma next_account_info_eq [result_simps]:
  "next_account_info it = Inr p \<longleftrightarrow> it = fst p # snd p"
  by (cases it; cases p) (auto simp: next_account_info_def)

lemma set_data_simps [simp]:
  "ac_data (set_data k d st a) = (if a = k then d else ac_data (st a))"
  "ac_owner (set_data k d st a) = ac_owner (st a)"
  "ac_lamports (set_data k d st a) = ac_lamports (st a)"
  by (simp_all add: set_data_def)

lemma set_lamports_simps [simp]:
  "ac_data (set_lamports k n st a) = ac_data (st a)"
  "ac_owner (set_lamports k n st a) = ac_owner (st a)"
  "ac_lamports (set_lamports k n st a) = (if a = k then n else ac_lamports (st a))"
  by (simp_all add: set_lamports_def)

lemma set_owner_simps [simp]:
  "ac_data (set_owner k ow st a) = ac_data (st a)"
  "ac_owner (set_owner k ow st a) = (if a = k then ow else ac_owner (st a))"
  "ac_lamports (set_owner k ow st a) = ac_lamports (st a)"
  by (simp_all add: set_owner_def)

lemma set_data_other: "a \<noteq> k \<Longrightarrow> set_data k d st a = st a"
  by (simp add: set_data_def)

lemma set_lamports_other: "a \<noteq> k \<Longrightarrow> set_lamports k d st a = st a"
  by (simp add: set_lamports_def)

lemma set_data_set_data [simp]: "set_data k d (set_data k d' st) = set_data k d st"
  by (simp add: set_data_def)

section \<open>The platform\<close>

record rent =
  rent_minimum_balance :: "nat \<Rightarrow> u64"
  rent_is_exempt :: "u64 \<Rightarrow> nat \<Rightarrow> bool"

record clock =
  clock_epoch :: u64
  clock_unix_timestamp :: u64

record platform =
  pl_rent_get :: "rent result"
  pl_rent_from_account_info :: "address \<Rightarrow> acct \<Rightarrow> rent result"
  pl_clock_get :: "clock result"
  pl_stack_height :: nat
  pl_transaction_level_stack_height :: nat
  pl_sibling_program :: "address option"
  pl_memo_v1_id :: address
  pl_memo_v3_id :: address
  pl_memo_v4_id :: address
  pl_system_program_id :: address
  pl_incinerator_id :: address
  pl_bool_from_pod :: "u8 \<Rightarrow> bool"
  pl_pod_from_bool :: "bool \<Rightarrow> u8"
  pl_option_from_maybe_null :: "address \<Rightarrow> address option"
  pl_maybe_null_try_from :: "address option \<Rightarrow> address option"
  pl_token_group_len :: nat
  pl_token_group_member_len :: nat
  pl_resize :: "bytes \<Rightarrow> nat \<Rightarrow> bytes result"
  pl_system_transfer :: "account_info \<Rightarrow> account_info \<Rightarrow> u64 \<Rightarrow> store \<Rightarrow> store result"
  pl_system_allocate :: "account_info \<Rightarrow> nat \<Rightarrow> store \<Rightarrow> store result"
  pl_system_assign :: "account_info \<Rightarrow> address \<Rightarrow> store \<Rightarrow> store result"
  pl_transfer_hook_execute ::
    "address \<Rightarrow> account_info \<Rightarrow> account_info \<Rightarrow> account_info \<Rightarrow> account_info \<Rightarrow>
     account_info list \<Rightarrow> u64 \<Rightarrow> store \<Rightarrow> store result"

text \<open>
  Documented behaviour of the wrapper types: a \<open>Bool\<close> reads back what was written and a zero byte is
  false; \<open>MaybeNull\<close> represents \<open>None\<close> by the zero address and refuses \<open>Some\<close> of it.
\<close>

definition bool_laws :: "platform \<Rightarrow> bool" where
  "bool_laws P \<longleftrightarrow>
     (\<forall>b. pl_bool_from_pod P (pl_pod_from_bool P b) = b) \<and> \<not> pl_bool_from_pod P 0"

definition maybe_null_laws :: "platform \<Rightarrow> bool" where
  "maybe_null_laws P \<longleftrightarrow>
     (\<forall>a. pl_option_from_maybe_null P a = (if a = 0 then None else Some a)) \<and>
     (\<forall>x. pl_maybe_null_try_from P x =
        (case x of None \<Rightarrow> Some 0 | Some a \<Rightarrow> if a = 0 then None else Some a))"

definition platform_laws :: "platform \<Rightarrow> bool" where
  "platform_laws P \<longleftrightarrow> bool_laws P \<and> maybe_null_laws P"

text \<open>Documented behaviour of resizing an account: truncation, or extension with zeros.\<close>

definition resize_laws :: "platform \<Rightarrow> bool" where
  "resize_laws P \<longleftrightarrow>
     (\<forall>d n d'. pl_resize P d n = Inr d' \<longrightarrow> d' = take n d @ replicate (n - length d) 0)"

text \<open>
  What the runtime guarantees about a cross-program invocation of a transfer hook: another program
  cannot write the data or change the owner of an account the token program owns, cannot take
  lamports from it, can hand over an account to the token program only with zeroed data, and no
  invocation creates or destroys lamports.
\<close>

definition total_lamports :: "store \<Rightarrow> nat" where
  "total_lamports st = (\<Sum>a\<in>UNIV. unat (ac_lamports (st a)))"

definition cpi_respects_owner :: "address \<Rightarrow> (store \<Rightarrow> store result) \<Rightarrow> bool" where
  "cpi_respects_owner prog call \<longleftrightarrow>
     (\<forall>st st'. call st = Inr st' \<longrightarrow>
        total_lamports st' = total_lamports st \<and>
        (\<forall>a. ac_owner (st a) = prog \<longrightarrow>
           ac_owner (st' a) = prog \<and> ac_data (st' a) = ac_data (st a) \<and>
           ac_lamports (st a) \<le> ac_lamports (st' a)) \<and>
        (\<forall>a. ac_owner (st a) \<noteq> prog \<and> ac_owner (st' a) = prog \<longrightarrow>
           ac_data (st' a) = replicate (length (ac_data (st' a))) 0))"

section \<open>Program identifiers\<close>

text \<open>The base58 constants of \<open>declare_id!\<close>, decoded to their 32 bytes and read little-endian.\<close>

definition TOKEN_2022_ID :: address where
  "TOKEN_2022_ID = 114229546593812868309265069424466110816696351698675722272150287043719526276358"

definition SPL_TOKEN_ID :: address where
  "SPL_TOKEN_ID = 76442634766951278574851011470472957949510043171089429576505158730255542181126"

definition NATIVE_MINT_ID :: address where
  "NATIVE_MINT_ID = 42678621261088312941996013688479803471313748282546987479967167546471227329923"

definition NATIVE_MINT_DECIMALS :: u8 where
  "NATIVE_MINT_DECIMALS = 9"

definition check_program_account :: "address \<Rightarrow> unit result" where
  "check_program_account spl_token_program_id =
     ensure (spl_token_program_id = TOKEN_2022_ID) IncorrectProgramId"

definition check_spl_token_program_account :: "address \<Rightarrow> unit result" where
  "check_spl_token_program_account spl_token_program_id =
     ensure (spl_token_program_id = TOKEN_2022_ID \<or> spl_token_program_id = SPL_TOKEN_ID)
       IncorrectProgramId"

lemma check_program_account_eq [result_simps]:
  "check_program_account a = Inr u \<longleftrightarrow> a = TOKEN_2022_ID"
  by (simp add: check_program_account_def result_simps)

lemma check_program_account_id [simp]: "check_program_account TOKEN_2022_ID = Inr ()"
  by (simp add: check_program_account_def)

definition in_cpi :: "platform \<Rightarrow> bool" where
  "in_cpi P \<longleftrightarrow> pl_stack_height P > pl_transaction_level_stack_height P"

definition check_previous_sibling_instruction_is_memo :: "platform \<Rightarrow> unit result" where
  "check_previous_sibling_instruction_is_memo P =
     (case pl_sibling_program P of
        Some program_id \<Rightarrow>
          ensure (program_id = pl_memo_v4_id P \<or> program_id = pl_memo_v3_id P \<or>
                  program_id = pl_memo_v1_id P) (Custom NoMemo)
      | None \<Rightarrow> Inl (Custom NoMemo))"

definition is_owned_by_system_program_or_incinerator :: "platform \<Rightarrow> pod_account \<Rightarrow> bool" where
  "is_owned_by_system_program_or_incinerator P a \<longleftrightarrow>
     a_owner a = pl_system_program_id P \<or> a_owner a = pl_incinerator_id P"

section \<open>A concrete platform\<close>

text \<open>
  An instance of the platform that satisfies the laws, and stores given by a finite table; the
  witnesses of the theorems with a platform hypothesis are evaluated on them. Rent is one lamport a
  byte, the epoch is 5, cross-program calls do nothing, and a resize pads with zeros or truncates.
\<close>

definition sample_platform :: platform where
  "sample_platform =
     \<lparr>pl_rent_get = Inr \<lparr>rent_minimum_balance = of_nat, rent_is_exempt = \<lambda>l n. n \<le> unat l\<rparr>,
      pl_rent_from_account_info =
        \<lambda>_ _. Inr \<lparr>rent_minimum_balance = of_nat, rent_is_exempt = \<lambda>l n. n \<le> unat l\<rparr>,
      pl_clock_get = Inr \<lparr>clock_epoch = 5, clock_unix_timestamp = 1000\<rparr>,
      pl_stack_height = 1, pl_transaction_level_stack_height = 1, pl_sibling_program = None,
      pl_memo_v1_id = 901, pl_memo_v3_id = 903, pl_memo_v4_id = 904,
      pl_system_program_id = 0, pl_incinerator_id = 999,
      pl_bool_from_pod = \<lambda>b. b \<noteq> 0, pl_pod_from_bool = \<lambda>b. if b then 1 else 0,
      pl_option_from_maybe_null = \<lambda>a. if a = 0 then None else Some a,
      pl_maybe_null_try_from =
        \<lambda>x. case x of None \<Rightarrow> Some 0 | Some a \<Rightarrow> if a = 0 then None else Some a,
      pl_token_group_len = 80, pl_token_group_member_len = 72,
      pl_resize = \<lambda>d n. Inr (take n d @ replicate (n - length d) 0),
      pl_system_transfer = \<lambda>_ _ _. Inr, pl_system_allocate = \<lambda>_ _. Inr, pl_system_assign = \<lambda>_ _. Inr,
      pl_transfer_hook_execute = \<lambda>_ _ _ _ _ _ _. Inr\<rparr>"

definition empty_acct :: acct where
  "empty_acct = \<lparr>ac_owner = 0, ac_lamports = 0, ac_data = []\<rparr>"

definition sample_store :: "(address \<times> acct) list \<Rightarrow> store" where
  "sample_store xs = (\<lambda>a. case map_of xs a of Some c \<Rightarrow> c | None \<Rightarrow> empty_acct)"

lemma sample_store_Cons [simp]: "sample_store ((k, c) # xs) a = (if a = k then c else sample_store xs a)"
  by (simp add: sample_store_def)

lemma sample_store_Nil [simp]: "sample_store [] a = empty_acct"
  by (simp add: sample_store_def)

lemma sample_platform_laws [simp]: "platform_laws sample_platform" "bool_laws sample_platform"
  by (auto simp: platform_laws_def bool_laws_def maybe_null_laws_def sample_platform_def split: option.splits)

lemma sample_resize_laws [simp]: "resize_laws sample_platform"
  by (simp add: resize_laws_def sample_platform_def)

lemma sample_hook_respects_owner [simp]:
  "cpi_respects_owner prog (pl_transfer_hook_execute sample_platform h s m d a xs n)"
  by (simp add: cpi_respects_owner_def sample_platform_def)

section \<open>Lamports\<close>

lemma total_lamports_split:
  "total_lamports st = unat (ac_lamports (st k)) + (\<Sum>a\<in>UNIV - {k}. unat (ac_lamports (st a)))"
  by (simp add: total_lamports_def sum.remove)

lemma total_lamports_cong:
  "(\<And>a. ac_lamports (st' a) = ac_lamports (st a)) \<Longrightarrow> total_lamports st' = total_lamports st"
  by (simp add: total_lamports_def)

lemma total_lamports_set_data [simp]: "total_lamports (set_data k d st) = total_lamports st"
  by (rule total_lamports_cong) simp

lemma total_lamports_set_owner [simp]: "total_lamports (set_owner k ow st) = total_lamports st"
  by (rule total_lamports_cong) simp

lemma total_lamports_set_lamports:
  "total_lamports (set_lamports k n st) + unat (ac_lamports (st k)) = total_lamports st + unat n"
proof -
  have "(\<Sum>a\<in>UNIV - {k}. unat (ac_lamports (set_lamports k n st a))) =
        (\<Sum>a\<in>UNIV - {k}. unat (ac_lamports (st a)))"
    by (rule sum.cong) auto
  then show ?thesis
    by (simp add: total_lamports_split [of st k] total_lamports_split [of "set_lamports k n st" k])
qed

text \<open>Moving lamports with a checked subtraction and a checked addition, as every handler does.\<close>

definition move_lamports :: "address \<Rightarrow> address \<Rightarrow> u64 \<Rightarrow> program_error \<Rightarrow> store \<Rightarrow> store result" where
  "move_lamports src dst amount e st =
     bindr (ok_or (checked_sub (ac_lamports (st src)) amount) e) (\<lambda>s.
     let st1 = set_lamports src s st in
     bindr (ok_or (checked_add (ac_lamports (st1 dst)) amount) e) (\<lambda>d.
     Inr (set_lamports dst d st1)))"

lemma move_lamports_total:
  assumes "move_lamports src dst amount e st = Inr st'"
  shows "total_lamports st' = total_lamports st"
proof -
  obtain s d where s: "checked_sub (ac_lamports (st src)) amount = Some s"
    and d: "checked_add (ac_lamports (set_lamports src s st dst)) amount = Some d"
    and st': "st' = set_lamports dst d (set_lamports src s st)"
    using assms by (auto simp: move_lamports_def Let_def result_simps)
  from total_lamports_set_lamports [of src s st]
    total_lamports_set_lamports [of dst d "set_lamports src s st"]
    checked_sub_SomeD [OF s] checked_add_SomeD [OF d]
  show ?thesis unfolding st' by arith
qed

lemma move_lamports_frame:
  assumes "move_lamports src dst amount e st = Inr st'"
  shows "ac_data (st' a) = ac_data (st a)" "ac_owner (st' a) = ac_owner (st a)"
    and "a \<noteq> src \<Longrightarrow> a \<noteq> dst \<Longrightarrow> st' a = st a"
  using assms by (auto simp: move_lamports_def Let_def result_simps set_lamports_other)

end
