(* ===== verification/Extension_Type.thy ===== *)
theory Extension_Type
  imports Platform
begin

text \<open>
  Extension types and account sizes (interface/src/extension/mod.rs and account_len.rs): the
  \<open>ExtensionType\<close> and \<open>AccountType\<close> enumerations with their numeric codes, the length of each
  extension, which account extensions a mint extension forces on its accounts, the forbidden
  combinations of mint extensions, and \<open>TlvLenAccumulator\<close>, the allocation-free sizing of an
  account. The accumulator, a 64-bit set plus a byte count, is shown to compute the length of the
  set of distinct types.
\<close>

unbundle bit_operations_syntax

section \<open>Model\<close>

datatype account_type = AtUninitialized | AtMint | AtAccount

definition account_type_u8 :: "account_type \<Rightarrow> u8" where
  "account_type_u8 t = (case t of AtUninitialized \<Rightarrow> 0 | AtMint \<Rightarrow> 1 | AtAccount \<Rightarrow> 2)"

definition account_type_try_from :: "u8 \<Rightarrow> account_type option" where
  "account_type_try_from b =
     (if b = 0 then Some AtUninitialized else if b = 1 then Some AtMint
      else if b = 2 then Some AtAccount else None)"

datatype extension_type =
    ExtUninitialized | TransferFeeConfig | TransferFeeAmount | MintCloseAuthority
  | ConfidentialTransferMint | ConfidentialTransferAccount | DefaultAccountState | ImmutableOwner
  | MemoTransfer | NonTransferable | InterestBearingConfig | CpiGuard | PermanentDelegate
  | NonTransferableAccount | TransferHook | TransferHookAccount | ConfidentialTransferFeeConfig
  | ConfidentialTransferFeeAmount | MetadataPointer | TokenMetadata | GroupPointer | TokenGroup
  | GroupMemberPointer | TokenGroupMember | ConfidentialMintBurn | ScaledUiAmount | Pausable
  | PausableAccount | PermissionedBurn

definition extension_types :: "extension_type list" where
  "extension_types =
     [ExtUninitialized, TransferFeeConfig, TransferFeeAmount, MintCloseAuthority,
      ConfidentialTransferMint, ConfidentialTransferAccount, DefaultAccountState, ImmutableOwner,
      MemoTransfer, NonTransferable, InterestBearingConfig, CpiGuard, PermanentDelegate,
      NonTransferableAccount, TransferHook, TransferHookAccount, ConfidentialTransferFeeConfig,
      ConfidentialTransferFeeAmount, MetadataPointer, TokenMetadata, GroupPointer, TokenGroup,
      GroupMemberPointer, TokenGroupMember, ConfidentialMintBurn, ScaledUiAmount, Pausable,
      PausableAccount, PermissionedBurn]"

text \<open>The discriminant of a \<open>repr(u16)\<close> enumeration is the position of the variant.\<close>

fun ext_code :: "extension_type \<Rightarrow> nat" where
  "ext_code ExtUninitialized = 0"
| "ext_code TransferFeeConfig = 1"
| "ext_code TransferFeeAmount = 2"
| "ext_code MintCloseAuthority = 3"
| "ext_code ConfidentialTransferMint = 4"
| "ext_code ConfidentialTransferAccount = 5"
| "ext_code DefaultAccountState = 6"
| "ext_code ImmutableOwner = 7"
| "ext_code MemoTransfer = 8"
| "ext_code NonTransferable = 9"
| "ext_code InterestBearingConfig = 10"
| "ext_code CpiGuard = 11"
| "ext_code PermanentDelegate = 12"
| "ext_code NonTransferableAccount = 13"
| "ext_code TransferHook = 14"
| "ext_code TransferHookAccount = 15"
| "ext_code ConfidentialTransferFeeConfig = 16"
| "ext_code ConfidentialTransferFeeAmount = 17"
| "ext_code MetadataPointer = 18"
| "ext_code TokenMetadata = 19"
| "ext_code GroupPointer = 20"
| "ext_code TokenGroup = 21"
| "ext_code GroupMemberPointer = 22"
| "ext_code TokenGroupMember = 23"
| "ext_code ConfidentialMintBurn = 24"
| "ext_code ScaledUiAmount = 25"
| "ext_code Pausable = 26"
| "ext_code PausableAccount = 27"
| "ext_code PermissionedBurn = 28"

definition extension_type_of_nat :: "nat \<Rightarrow> extension_type option" where
  "extension_type_of_nat n = (if n < length extension_types then Some (extension_types ! n) else None)"

definition extension_type_to_bytes :: "extension_type \<Rightarrow> bytes" where
  "extension_type_to_bytes t = le_bytes 2 (of_nat (ext_code t) :: u16)"

definition extension_type_try_from_bytes :: "bytes \<Rightarrow> extension_type result" where
  "extension_type_try_from_bytes a =
     (if length a \<noteq> 2 then Inl InvalidAccountData
      else ok_or (extension_type_of_nat (unat (of_le a :: u16))) InvalidAccountData)"

definition sized :: "extension_type \<Rightarrow> bool" where
  "sized t \<longleftrightarrow> t \<noteq> TokenMetadata"

definition try_get_type_len :: "platform \<Rightarrow> extension_type \<Rightarrow> nat result" where
  "try_get_type_len P t =
     (if \<not> sized t then Inl InvalidArgument
      else Inr (case t of
          ExtUninitialized \<Rightarrow> 0
        | TransferFeeConfig \<Rightarrow> 108
        | TransferFeeAmount \<Rightarrow> 8
        | MintCloseAuthority \<Rightarrow> 32
        | ImmutableOwner \<Rightarrow> 0
        | ConfidentialTransferMint \<Rightarrow> 65
        | ConfidentialTransferAccount \<Rightarrow> 295
        | DefaultAccountState \<Rightarrow> 1
        | MemoTransfer \<Rightarrow> 1
        | NonTransferable \<Rightarrow> 0
        | InterestBearingConfig \<Rightarrow> 52
        | CpiGuard \<Rightarrow> 1
        | PermanentDelegate \<Rightarrow> 32
        | NonTransferableAccount \<Rightarrow> 0
        | TransferHook \<Rightarrow> 64
        | TransferHookAccount \<Rightarrow> 1
        | ConfidentialTransferFeeConfig \<Rightarrow> 129
        | ConfidentialTransferFeeAmount \<Rightarrow> 64
        | MetadataPointer \<Rightarrow> 64
        | TokenMetadata \<Rightarrow> 0
        | GroupPointer \<Rightarrow> 64
        | TokenGroup \<Rightarrow> pl_token_group_len P
        | GroupMemberPointer \<Rightarrow> 64
        | TokenGroupMember \<Rightarrow> pl_token_group_member_len P
        | ConfidentialMintBurn \<Rightarrow> 196
        | ScaledUiAmount \<Rightarrow> 56
        | Pausable \<Rightarrow> 33
        | PausableAccount \<Rightarrow> 0
        | PermissionedBurn \<Rightarrow> 32))"

definition add_type_and_length_to_len :: "nat \<Rightarrow> nat" where
  "add_type_and_length_to_len value_len = value_len + 2 + 2"

definition try_get_tlv_len :: "platform \<Rightarrow> extension_type \<Rightarrow> nat result" where
  "try_get_tlv_len P t = bindr (try_get_type_len P t) (\<lambda>n. Inr (add_type_and_length_to_len n))"

definition get_account_type :: "extension_type \<Rightarrow> account_type" where
  "get_account_type t =
     (case t of
        ExtUninitialized \<Rightarrow> AtUninitialized
      | ImmutableOwner \<Rightarrow> AtAccount
      | TransferFeeAmount \<Rightarrow> AtAccount
      | ConfidentialTransferAccount \<Rightarrow> AtAccount
      | MemoTransfer \<Rightarrow> AtAccount
      | NonTransferableAccount \<Rightarrow> AtAccount
      | TransferHookAccount \<Rightarrow> AtAccount
      | CpiGuard \<Rightarrow> AtAccount
      | ConfidentialTransferFeeAmount \<Rightarrow> AtAccount
      | PausableAccount \<Rightarrow> AtAccount
      | _ \<Rightarrow> AtMint)"

definition required_init_account_extensions :: "extension_type \<Rightarrow> extension_type list" where
  "required_init_account_extensions t =
     (case t of
        TransferFeeConfig \<Rightarrow> [TransferFeeAmount]
      | NonTransferable \<Rightarrow> [NonTransferableAccount, ImmutableOwner]
      | TransferHook \<Rightarrow> [TransferHookAccount]
      | Pausable \<Rightarrow> [PausableAccount]
      | _ \<Rightarrow> [])"

definition get_required_init_account_extensions :: "extension_type list \<Rightarrow> extension_type list" where
  "get_required_init_account_extensions mint_extension_types =
     concat (map required_init_account_extensions mint_extension_types)"

definition check_for_invalid_mint_extension_combinations :: "extension_type list \<Rightarrow> unit result" where
  "check_for_invalid_mint_extension_combinations ts =
     (let transfer_fee_config = TransferFeeConfig \<in> set ts;
          confidential_transfer_mint = ConfidentialTransferMint \<in> set ts;
          confidential_transfer_fee_config = ConfidentialTransferFeeConfig \<in> set ts;
          confidential_mint_burn = ConfidentialMintBurn \<in> set ts;
          interest_bearing = InterestBearingConfig \<in> set ts;
          scaled_ui_amount = ScaledUiAmount \<in> set ts;
          non_transferable = NonTransferable \<in> set ts
      in
      if confidential_transfer_fee_config \<and> \<not> (transfer_fee_config \<and> confidential_transfer_mint)
      then Inl (Custom InvalidExtensionCombination)
      else if transfer_fee_config \<and> confidential_transfer_mint \<and> \<not> confidential_transfer_fee_config
      then Inl (Custom InvalidExtensionCombination)
      else if confidential_mint_burn \<and> \<not> confidential_transfer_mint
      then Inl (Custom InvalidExtensionCombination)
      else if scaled_ui_amount \<and> interest_bearing
      then Inl (Custom InvalidExtensionCombination)
      else if non_transferable \<and> confidential_transfer_mint \<and> \<not> confidential_mint_burn
      then Inl (Custom InvalidExtensionCombination)
      else Inr ())"

definition BASE_ACCOUNT_LENGTH :: nat where
  "BASE_ACCOUNT_LENGTH = ACCOUNT_LEN"

definition BASE_ACCOUNT_AND_TYPE_LENGTH :: nat where
  "BASE_ACCOUNT_AND_TYPE_LENGTH = BASE_ACCOUNT_LENGTH + 1"

definition adjust_len_for_multisig :: "nat \<Rightarrow> nat" where
  "adjust_len_for_multisig account_len =
     (if account_len = MULTISIG_LEN then account_len + 2 else account_len)"

record tlv_len_accumulator =
  acc_seen :: u64
  acc_byte_count :: nat

definition accumulator_default :: tlv_len_accumulator where
  "accumulator_default = \<lparr>acc_seen = 0, acc_byte_count = 0\<rparr>"

definition accumulator_bit :: "extension_type \<Rightarrow> u64" where
  "accumulator_bit t = push_bit (ext_code t) 1"

definition accumulator_insert ::
    "platform \<Rightarrow> extension_type \<Rightarrow> tlv_len_accumulator \<Rightarrow> tlv_len_accumulator result" where
  "accumulator_insert P t acc =
     (if acc_seen acc AND accumulator_bit t = 0 then
        bindr (try_get_tlv_len P t) (\<lambda>n.
        Inr \<lparr>acc_seen = acc_seen acc OR accumulator_bit t, acc_byte_count = acc_byte_count acc + n\<rparr>)
      else Inr acc)"

text \<open>\<open>base_len\<close> is \<open>S::SIZE_OF\<close> of the base state.\<close>

definition accumulator_account_len :: "nat \<Rightarrow> tlv_len_accumulator \<Rightarrow> nat" where
  "accumulator_account_len base_len acc =
     (if acc_seen acc = 0 then base_len
      else adjust_len_for_multisig (acc_byte_count acc + BASE_ACCOUNT_AND_TYPE_LENGTH))"

definition try_calculate_account_len :: "platform \<Rightarrow> nat \<Rightarrow> extension_type list \<Rightarrow> nat result" where
  "try_calculate_account_len P base_len ts =
     bindr (try_for_each (accumulator_insert P) ts accumulator_default) (\<lambda>acc.
     Inr (accumulator_account_len base_len acc))"

section \<open>Codes\<close>

lemma ext_code_less [simp]: "ext_code t < 29"
  by (cases t) simp_all

lemma ext_code_less_64 [simp]: "ext_code t < 64"
  by (rule less_trans [OF ext_code_less]) simp

lemma nth_ext_code [simp]: "extension_types ! ext_code t = t"
  by (cases t) (simp_all add: extension_types_def)

lemma length_extension_types [simp]: "length extension_types = 29"
  by (simp add: extension_types_def)

lemma extension_type_of_ext_code [simp]: "extension_type_of_nat (ext_code t) = Some t"
  by (simp add: extension_type_of_nat_def)

lemma ext_code_inject: "ext_code s = ext_code t \<longleftrightarrow> s = t"
  by (metis nth_ext_code)

lemma ext_code_eq_0 [simp]: "ext_code t = 0 \<longleftrightarrow> t = ExtUninitialized"
  by (cases t) simp_all

lemma ext_code_pos [simp]: "0 < ext_code t \<longleftrightarrow> t \<noteq> ExtUninitialized"
  by (cases t) simp_all

lemma extension_type_of_nat_code: "extension_type_of_nat n = Some t \<Longrightarrow> ext_code t = n"
proof -
  assume a: "extension_type_of_nat n = Some t"
  then have "n < 29" and t: "t = extension_types ! n"
    by (auto simp: extension_type_of_nat_def split: if_splits)
  then have "ext_code (extension_types ! n) = n"
    by (auto simp: extension_types_def less_Suc_eq numeral_eq_Suc)
  with t show ?thesis by simp
qed

lemma ext_code_u16 [simp]: "unat (of_nat (ext_code t) :: u16) = ext_code t"
  by (cases t) simp_all

lemma extension_type_roundtrip [simp]:
  "extension_type_try_from_bytes (extension_type_to_bytes t) = Inr t"
  by (simp add: extension_type_try_from_bytes_def extension_type_to_bytes_def codec_simps)

lemma length_extension_type_to_bytes [simp]: "length (extension_type_to_bytes t) = 2"
  by (simp add: extension_type_to_bytes_def)

lemma required_are_account_extensions:
  "e \<in> set (required_init_account_extensions t) \<Longrightarrow> get_account_type e = AtAccount"
  by (cases t) (auto simp: required_init_account_extensions_def get_account_type_def)

lemma account_type_roundtrip [simp]: "account_type_try_from (account_type_u8 t) = Some t"
  by (cases t) (simp_all add: account_type_try_from_def account_type_u8_def)

section \<open>The accumulator computes the length of a set\<close>

definition tlv_len :: "platform \<Rightarrow> extension_type \<Rightarrow> nat" where
  "tlv_len P t = (case try_get_tlv_len P t of Inl _ \<Rightarrow> 0 | Inr n \<Rightarrow> n)"

definition types_len :: "platform \<Rightarrow> extension_type set \<Rightarrow> nat" where
  "types_len P T = (\<Sum>t\<in>T. tlv_len P t)"

definition accumulates :: "platform \<Rightarrow> extension_type set \<Rightarrow> tlv_len_accumulator \<Rightarrow> bool" where
  "accumulates P T acc \<longleftrightarrow>
     (\<forall>t. bit (acc_seen acc) (ext_code t) \<longleftrightarrow> t \<in> T) \<and> (acc_seen acc = 0 \<longleftrightarrow> T = {}) \<and>
     acc_byte_count acc = types_len P T"

lemma bit_accumulator_bit: "bit (accumulator_bit t) n \<longleftrightarrow> n = ext_code t"
  by (auto simp: accumulator_bit_def bit_simps)

lemma seen_and_bit: "w AND accumulator_bit t = 0 \<longleftrightarrow> \<not> bit w (ext_code t)"
proof
  assume "w AND accumulator_bit t = 0"
  then have "\<not> bit (w AND accumulator_bit t) (ext_code t)" by simp
  then show "\<not> bit w (ext_code t)" by (simp add: bit_and_iff bit_accumulator_bit)
next
  assume "\<not> bit w (ext_code t)"
  then show "w AND accumulator_bit t = 0"
    by (intro bit_word_eqI) (auto simp: bit_and_iff bit_accumulator_bit)
qed

lemma finite_extension_types [simp]: "finite (T :: extension_type set)"
proof -
  have "(UNIV :: extension_type set) = set extension_types"
    by (auto intro: nth_mem simp flip: nth_ext_code) (metis nth_mem length_extension_types ext_code_less nth_ext_code)
  then show ?thesis by (metis finite_set finite_subset subset_UNIV)
qed

lemma try_get_tlv_len_sized: "sized t \<Longrightarrow> try_get_tlv_len P t = Inr (tlv_len P t)"
  by (simp add: try_get_tlv_len_def try_get_type_len_def tlv_len_def)

lemma accumulator_insert_accumulates:
  assumes "accumulates P T acc" and "sized t"
  shows "\<exists>acc'. accumulator_insert P t acc = Inr acc' \<and> accumulates P (insert t T) acc'"
proof (cases "t \<in> T")
  case True
  then have "acc_seen acc AND accumulator_bit t \<noteq> 0"
    using assms(1) by (simp add: seen_and_bit accumulates_def)
  with True assms(1) show ?thesis
    by (simp add: accumulator_insert_def insert_absorb)
next
  case False
  then have "acc_seen acc AND accumulator_bit t = 0"
    using assms(1) by (simp add: seen_and_bit accumulates_def)
  moreover have "acc_seen acc OR accumulator_bit t \<noteq> 0"
    by (metis bit_0_eq bit_accumulator_bit bit_or_iff bot_apply bot_bool_def)
  ultimately show ?thesis
    using assms False
    by (auto simp: accumulator_insert_def try_get_tlv_len_sized accumulates_def bit_or_iff
        bit_accumulator_bit ext_code_inject types_len_def)
qed

lemma try_for_each_accumulates:
  assumes "accumulates P T acc" and "\<forall>t \<in> set ts. sized t"
  shows "\<exists>acc'. try_for_each (accumulator_insert P) ts acc = Inr acc' \<and> accumulates P (T \<union> set ts) acc'"
  using assms
proof (induction ts arbitrary: T acc)
  case Nil
  then show ?case by simp
next
  case (Cons t ts)
  then obtain acc1 where a1: "accumulator_insert P t acc = Inr acc1" "accumulates P (insert t T) acc1"
    using accumulator_insert_accumulates [of P T acc t] by auto
  then obtain acc' where "try_for_each (accumulator_insert P) ts acc1 = Inr acc'"
      "accumulates P (insert t T \<union> set ts) acc'"
    using Cons by fastforce
  with a1 show ?case by simp
qed

lemma accumulates_default [simp]: "accumulates P {} accumulator_default"
  by (simp add: accumulates_def accumulator_default_def types_len_def)

lemma accumulator_account_len_accumulates:
  "accumulates P T acc \<Longrightarrow> accumulator_account_len base_len acc =
     (if T = {} then base_len else adjust_len_for_multisig (types_len P T + BASE_ACCOUNT_AND_TYPE_LENGTH))"
  by (simp add: accumulator_account_len_def accumulates_def)

section \<open>Properties\<close>

text \<open>
  \<open>try_calculate_account_len\<close> depends only on the set of requested types: duplicates are counted
  once, the result is the base size for no extension, otherwise the base account, the type byte and
  one entry per distinct type, and it is never the length of a multisig.
\<close>

theorem try_calculate_account_len_set:
  assumes "\<forall>t \<in> set ts. sized t" and "base_len \<noteq> MULTISIG_LEN"
  shows "\<exists>n. try_calculate_account_len P base_len ts = Inr n \<and> n \<noteq> MULTISIG_LEN \<and>
    n = (if ts = [] then base_len
         else adjust_len_for_multisig ((\<Sum>t\<in>set ts. tlv_len P t) + BASE_ACCOUNT_AND_TYPE_LENGTH))"
proof -
  obtain acc where acc: "try_for_each (accumulator_insert P) ts accumulator_default = Inr acc"
      "accumulates P (set ts) acc"
    using try_for_each_accumulates [OF accumulates_default assms(1), of P] by auto
  then show ?thesis
    using assms(2)
    by (auto simp: try_calculate_account_len_def accumulator_account_len_accumulates types_len_def
        adjust_len_for_multisig_def)
qed

theorem try_calculate_account_len_set_witness:
  "\<forall>P. \<exists>n. try_calculate_account_len P ACCOUNT_LEN [ImmutableOwner, MemoTransfer, ImmutableOwner] = Inr n \<and> n = 175"
proof
  fix P
  have "\<forall>t \<in> set [ImmutableOwner, MemoTransfer, ImmutableOwner]. sized t" by (simp add: sized_def)
  moreover have "ACCOUNT_LEN \<noteq> MULTISIG_LEN" by (simp add: ACCOUNT_LEN_def MULTISIG_LEN_def)
  ultimately show "\<exists>n. try_calculate_account_len P ACCOUNT_LEN
      [ImmutableOwner, MemoTransfer, ImmutableOwner] = Inr n \<and> n = 175"
    using try_calculate_account_len_set [of "[ImmutableOwner, MemoTransfer, ImmutableOwner]" ACCOUNT_LEN P]
    by (simp add: tlv_len_def try_get_tlv_len_def try_get_type_len_def sized_def insert_absorb
        add_type_and_length_to_len_def adjust_len_for_multisig_def BASE_ACCOUNT_AND_TYPE_LENGTH_def
        BASE_ACCOUNT_LENGTH_def ACCOUNT_LEN_def MULTISIG_LEN_def)
qed

end
