(* ===== verification/Tlv.thy ===== *)
theory Tlv
  imports Extension_Type
begin

text \<open>
  The type-length-value buffer that holds the extensions of a mint or an account
  (interface/src/extension/mod.rs): searching for an entry, listing the entries, reading and
  overwriting a value, allocating a new entry and reallocating a variable-length one. The code
  walks byte offsets, and so does the model; each loop is a recursion on the offset with the
  remaining length as its measure.

  The locale \<open>keyed_buffer\<close> is the contract the handlers rely on: a buffer behaves as a finite
  map from extension types to byte strings of fixed length. The buffer interprets it.
\<close>

section \<open>Model\<close>

record tlv_indices =
  type_start :: nat
  length_start :: nat
  value_start :: nat

definition get_tlv_indices :: "nat \<Rightarrow> tlv_indices" where
  "get_tlv_indices start =
     \<lparr>type_start = start, length_start = start + 2, value_start = start + 2 + 2\<rparr>"

definition read_u16 :: "bytes \<Rightarrow> nat \<Rightarrow> nat" where
  "read_u16 tlv i = unat (of_le (seg i 2 tlv) :: u16)"

definition length_try_from :: "nat \<Rightarrow> u16 result" where
  "length_try_from n = (if n < 2 ^ 16 then Inr (of_nat n) else Inl AccountDataTooSmall)"

function get_extension_indices ::
    "extension_type \<Rightarrow> bool \<Rightarrow> bytes \<Rightarrow> nat \<Rightarrow> tlv_indices result" where
  "get_extension_indices V init tlv start_index =
     (if start_index < length tlv then
        let ix = get_tlv_indices start_index in
        if length tlv < value_start ix then Inl InvalidAccountData
        else
          let extension_type = read_u16 tlv (type_start ix) in
          if extension_type = ext_code V then Inr ix
          else if extension_type = ext_code ExtUninitialized then
            (if init then Inr ix else Inl (Custom ExtensionNotFound))
          else
            get_extension_indices V init tlv (value_start ix + read_u16 tlv (length_start ix))
      else Inl InvalidAccountData)"
  by pat_completeness auto
termination
  by (relation "measure (\<lambda>(V, init, tlv, start_index). length tlv - start_index)")
    (auto simp: get_tlv_indices_def)

declare get_extension_indices.simps [simp del]

function try_for_each_tlv_extension_type ::
    "(extension_type \<Rightarrow> 's \<Rightarrow> 's result) \<Rightarrow> bytes \<Rightarrow> nat \<Rightarrow> 's \<Rightarrow> (nat \<times> 's) result" where
  "try_for_each_tlv_extension_type f tlv start_index s =
     (if start_index < length tlv then
        let ix = get_tlv_indices start_index in
        if length tlv < length_start ix then Inr (type_start ix, s)
        else
          case extension_type_try_from_bytes (seg (type_start ix) 2 tlv) of
            Inl e \<Rightarrow> Inl e
          | Inr t \<Rightarrow>
              if t = ExtUninitialized then Inr (type_start ix, s)
              else if length tlv < value_start ix then Inl InvalidAccountData
              else
                let value_end = value_start ix + read_u16 tlv (length_start ix) in
                if value_end > length tlv then Inl InvalidAccountData
                else
                  case f t s of
                    Inl e \<Rightarrow> Inl e
                  | Inr s' \<Rightarrow> try_for_each_tlv_extension_type f tlv value_end s'
      else Inr (start_index, s))"
  by pat_completeness auto
termination
  by (relation "measure (\<lambda>(f, tlv, start_index, s). length tlv - start_index)")
    (auto simp: get_tlv_indices_def)

declare try_for_each_tlv_extension_type.simps [simp del]

record tlv_data_info =
  tdi_extension_types :: "extension_type list"
  tdi_used_len :: nat

definition get_tlv_data_info :: "bytes \<Rightarrow> tlv_data_info result" where
  "get_tlv_data_info tlv =
     bindr (try_for_each_tlv_extension_type (\<lambda>t ts. Inr (ts @ [t])) tlv 0 []) (\<lambda>(used_len, ts).
     Inr \<lparr>tdi_extension_types = ts, tdi_used_len = used_len\<rparr>)"

definition get_first_extension_type :: "bytes \<Rightarrow> extension_type option result" where
  "get_first_extension_type tlv =
     (if tlv = [] then Inr None
      else if length tlv \<le> 2 then Inr None
      else
        bindr (extension_type_try_from_bytes (seg 0 2 tlv)) (\<lambda>t.
        Inr (if t = ExtUninitialized then None else Some t)))"

text \<open>
  Reading and overwriting a value. \<open>at\<close> is \<open>S::ACCOUNT_TYPE\<close>. The mutable accessor of the code
  returns a slice into the buffer; the model returns the slice's offset and length.
\<close>

definition get_extension_range :: "account_type \<Rightarrow> extension_type \<Rightarrow> bytes \<Rightarrow> (nat \<times> nat) result" where
  "get_extension_range at V tlv =
     (if get_account_type V \<noteq> at then Inl InvalidAccountData
      else
        bindr (get_extension_indices V False tlv 0) (\<lambda>ix.
        let n = read_u16 tlv (length_start ix) in
        if length tlv < value_start ix + n then Inl InvalidAccountData
        else Inr (value_start ix, n)))"

definition get_extension_bytes :: "account_type \<Rightarrow> extension_type \<Rightarrow> bytes \<Rightarrow> bytes result" where
  "get_extension_bytes at V tlv =
     bindr (get_extension_range at V tlv) (\<lambda>(i, n). Inr (seg i n tlv))"

definition put_extension_bytes ::
    "account_type \<Rightarrow> extension_type \<Rightarrow> bytes \<Rightarrow> bytes \<Rightarrow> bytes result" where
  "put_extension_bytes at V v tlv =
     bindr (get_extension_range at V tlv) (\<lambda>(i, n).
     if length v = n then Inr (patch i v tlv) else Inl InvalidArgument)"

text \<open>\<open>alloc\<close> returns the buffer with the header written, and the offset of the value.\<close>

definition alloc ::
    "account_type \<Rightarrow> extension_type \<Rightarrow> nat \<Rightarrow> bool \<Rightarrow> bytes \<Rightarrow> (bytes \<times> nat) result" where
  "alloc at V len overwrite tlv =
     (if get_account_type V \<noteq> at then Inl InvalidAccountData
      else
        bindr (get_extension_indices V True tlv 0) (\<lambda>ix.
        if length (drop (type_start ix) tlv) < add_type_and_length_to_len len then Inl InvalidAccountData
        else
          bindr (extension_type_try_from_bytes (seg (type_start ix) 2 tlv)) (\<lambda>t.
          if t = ExtUninitialized \<or> overwrite then
            let tlv1 = patch (type_start ix) (extension_type_to_bytes V) tlv in
            if overwrite \<and> t = V \<and> read_u16 tlv1 (length_start ix) \<noteq> len
            then Inl (Custom InvalidLengthForAlloc)
            else
              bindr (length_try_from len) (\<lambda>n.
              Inr (patch (length_start ix) (le_bytes 2 n) tlv1, value_start ix))
          else Inl (Custom ExtensionAlreadyInitialized))))"

text \<open>\<open>slice::copy_within(src..src_end, dst)\<close>, which panics on an invalid range.\<close>

definition copy_within :: "nat \<Rightarrow> nat \<Rightarrow> nat \<Rightarrow> bytes \<Rightarrow> bytes result" where
  "copy_within src src_end dst bs =
     (if src \<le> src_end \<and> src_end \<le> length bs \<and> dst + (src_end - src) \<le> length bs
      then Inr (patch dst (seg src (src_end - src) bs) bs) else Inl Panic)"

definition realloc ::
    "extension_type \<Rightarrow> nat \<Rightarrow> bytes \<Rightarrow> (bytes \<times> nat) result" where
  "realloc V len tlv =
     bindr (get_extension_indices V False tlv 0) (\<lambda>ix.
     bindr (get_tlv_data_info tlv) (\<lambda>info.
     let tlv_len = tdi_used_len info;
         old_length = read_u16 tlv (length_start ix) in
     if old_length < len \<and> tlv_len + (len - old_length) > length tlv then Inl InvalidAccountData
     else
       bindr (length_try_from len) (\<lambda>n.
       let tlv1 = patch (length_start ix) (le_bytes 2 n) tlv;
           old_value_end = value_start ix + old_length;
           new_value_end = value_start ix + len in
       bindr (copy_within old_value_end tlv_len new_value_end tlv1) (\<lambda>tlv2.
       let tlv3 =
         (if len < old_length then
            let new_tlv_len = tlv_len - (old_length - len) in
            patch new_tlv_len (replicate (tlv_len - new_tlv_len) 0) tlv2
          else if old_length < len then
            patch old_value_end (replicate (new_value_end - old_value_end) 0) tlv2
          else tlv2)
       in Inr (tlv3, value_start ix)))))"

definition try_get_new_account_len_for_extension_len ::
    "account_type \<Rightarrow> extension_type \<Rightarrow> bytes \<Rightarrow> nat \<Rightarrow> nat result" where
  "try_get_new_account_len_for_extension_len at V tlv new_extension_len =
     (let new_extension_tlv_len = add_type_and_length_to_len new_extension_len in
      bindr (get_tlv_data_info tlv) (\<lambda>info.
      let current_len = tdi_used_len info + BASE_ACCOUNT_AND_TYPE_LENGTH;
          current_extension_len =
            (case get_extension_bytes at V tlv of
               Inl _ \<Rightarrow> 0 | Inr x \<Rightarrow> add_type_and_length_to_len (length x));
          new_len = current_len - current_extension_len + new_extension_tlv_len
      in Inr (adjust_len_for_multisig new_len)))"

text \<open>\<open>try_get_account_len\<close>; \<open>base_len\<close> is \<open>S::SIZE_OF\<close>.\<close>

definition try_get_account_len :: "nat \<Rightarrow> bytes \<Rightarrow> nat result" where
  "try_get_account_len base_len tlv =
     bindr (get_tlv_data_info tlv) (\<lambda>info.
     if tdi_extension_types info = [] then Inr base_len
     else Inr (adjust_len_for_multisig (tdi_used_len info + BASE_ACCOUNT_AND_TYPE_LENGTH)))"

section \<open>Searching\<close>

lemma get_tlv_indices_simps [simp]:
  "type_start (get_tlv_indices s) = s" "length_start (get_tlv_indices s) = s + 2"
  "value_start (get_tlv_indices s) = s + 4"
  by (simp_all add: get_tlv_indices_def)

lemma read_u16_less: "read_u16 tlv i < 2 ^ 16"
  using unsigned_less [of "of_le (seg i 2 tlv) :: u16", where ?'a = nat] by (simp add: read_u16_def)

lemma read_u16_seg: "seg i 2 tlv = seg i 2 tlv' \<Longrightarrow> read_u16 tlv i = read_u16 tlv' i"
  by (simp add: read_u16_def)

lemma seg_read_u16: "i + 2 \<le> length tlv \<Longrightarrow> seg i 2 tlv = le_bytes 2 (of_nat (read_u16 tlv i) :: u16)"
  by (simp add: read_u16_def codec_simps)

lemma get_extension_indices_bounds:
  assumes "get_extension_indices V init tlv s = Inr ix"
  shows "ix = get_tlv_indices (type_start ix) \<and> s \<le> type_start ix \<and> type_start ix + 4 \<le> length tlv \<and>
    (read_u16 tlv (type_start ix) = ext_code V \<or>
     init \<and> read_u16 tlv (type_start ix) = ext_code ExtUninitialized)"
  using assms
proof (induction V init tlv s rule: get_extension_indices.induct)
  case (1 V init tlv s)
  show ?case
  proof (cases "s < length tlv \<and> s + 4 \<le> length tlv \<and> read_u16 tlv s \<noteq> ext_code V \<and>
      read_u16 tlv s \<noteq> ext_code ExtUninitialized")
    case True
    then have "get_extension_indices V init tlv (s + 4 + read_u16 tlv (s + 2)) = Inr ix"
      using "1.prems" by (subst (asm) get_extension_indices.simps) (simp add: Let_def)
    with True "1.IH" [of "get_tlv_indices s"] show ?thesis by simp
  next
    case False
    with "1.prems" show ?thesis
      by (subst (asm) get_extension_indices.simps) (auto simp: Let_def split: if_splits)
  qed
qed

text \<open>The search from an offset reads nothing before that offset.\<close>

lemma get_extension_indices_suffix:
  assumes "length tlv' = length tlv" and "drop s tlv' = drop s tlv"
  shows "get_extension_indices V init tlv' s = get_extension_indices V init tlv s"
  using assms
proof (induction V init tlv s rule: get_extension_indices.induct)
  case (1 V init tlv s)
  have sg: "seg (s + k) 2 tlv' = seg (s + k) 2 tlv" for k
    using 1 by (metis seg_def drop_drop add.commute)
  from sg [of 0] sg [of 2] have rd: "read_u16 tlv' s = read_u16 tlv s"
    "read_u16 tlv' (s + 2) = read_u16 tlv (s + 2)"
    by (simp_all add: read_u16_def)
  show ?case
  proof (cases "s < length tlv \<and> s + 4 \<le> length tlv \<and> read_u16 tlv s \<noteq> ext_code V \<and>
      read_u16 tlv s \<noteq> ext_code ExtUninitialized")
    case True
    let ?next = "s + 4 + read_u16 tlv (s + 2)"
    have "drop ?next tlv' = drop ?next tlv"
      using 1(3) by (metis drop_drop add.commute add.assoc)
    then have "get_extension_indices V init tlv' ?next = get_extension_indices V init tlv ?next"
      using True 1 by simp
    then show ?thesis
      using True 1(2) rd
      by (subst (1 2) get_extension_indices.simps) (simp add: Let_def)
  next
    case False
    then show ?thesis
      using 1(2) rd by (subst (1 2) get_extension_indices.simps) (auto simp: Let_def)
  qed
qed

text \<open>Overwriting the value of an entry moves no header that any search visits.\<close>

lemma get_extension_indices_patch_value:
  assumes "get_extension_indices V False tlv s = Inr ix"
    and "length v = read_u16 tlv (length_start ix)"
    and "value_start ix + length v \<le> length tlv"
    and "V \<noteq> ExtUninitialized"
  shows "get_extension_indices W init (patch (value_start ix) v tlv) s = get_extension_indices W init tlv s"
  using assms
proof (induction V False tlv s rule: get_extension_indices.induct)
  case (1 V tlv s)
  let ?i = "value_start ix"
  let ?tlv' = "patch ?i v tlv"
  have b: "ix = get_tlv_indices (type_start ix)" "s \<le> type_start ix" "type_start ix + 4 \<le> length tlv"
    using get_extension_indices_bounds [OF "1.prems"(1)] by auto
  have len: "length ?tlv' = length tlv" using "1.prems"(3) by simp
  have vi: "s + 4 \<le> ?i" using b by (metis add_le_cancel_right get_tlv_indices_simps(3))
  have rd: "read_u16 ?tlv' s = read_u16 tlv s" "read_u16 ?tlv' (s + 2) = read_u16 tlv (s + 2)"
    using vi "1.prems"(3) by (auto intro!: read_u16_seg seg_patch_before)
  have inb: "s < length tlv" "s + 4 \<le> length tlv" using b by auto
  show ?case
  proof (cases "read_u16 tlv s = ext_code V")
    case True
    then have ix: "ix = get_tlv_indices s"
      using "1.prems"(1) inb by (subst (asm) get_extension_indices.simps) (simp add: Let_def)
    let ?next = "s + 4 + read_u16 tlv (s + 2)"
    have "drop ?next ?tlv' = drop ?next tlv"
      using "1.prems" ix by (intro drop_patch_after) simp_all
    then have nx: "get_extension_indices W init ?tlv' ?next = get_extension_indices W init tlv ?next"
      by (intro get_extension_indices_suffix len)
    show ?thesis
      using rd len inb nx by (subst (1 2) get_extension_indices.simps) (simp add: Let_def)
  next
    case False
    have nu: "read_u16 tlv s \<noteq> ext_code ExtUninitialized"
      using "1.prems"(1) inb False
      by (subst (asm) get_extension_indices.simps) (auto simp: Let_def split: if_splits)
    let ?next = "s + 4 + read_u16 tlv (s + 2)"
    have "get_extension_indices V False tlv ?next = Inr ix"
      using "1.prems"(1) inb False nu by (subst (asm) get_extension_indices.simps) (simp add: Let_def)
    with "1.hyps" [of "get_tlv_indices s"] "1.prems" inb False nu
    have nx: "get_extension_indices W init ?tlv' ?next = get_extension_indices W init tlv ?next"
      by simp
    show ?thesis
      using rd len inb nx by (subst (1 2) get_extension_indices.simps) (simp add: Let_def)
  qed
qed

text \<open>Two searches that both succeed find the same entry or disjoint ones.\<close>

definition entry_end :: "bytes \<Rightarrow> tlv_indices \<Rightarrow> nat" where
  "entry_end tlv ix = value_start ix + read_u16 tlv (length_start ix)"

lemma get_extension_indices_disjoint:
  assumes "get_extension_indices V False tlv s = Inr ix" and "V \<noteq> ExtUninitialized"
    and "get_extension_indices W init tlv s = Inr jx"
  shows "jx = ix \<and> (W = V) \<or> W \<noteq> V \<and>
    (entry_end tlv jx \<le> type_start ix \<or> entry_end tlv ix \<le> type_start jx)"
  using assms
proof (induction V False tlv s rule: get_extension_indices.induct)
  case (1 V tlv s)
  have inb: "s < length tlv" "s + 4 \<le> length tlv"
    using get_extension_indices_bounds [OF "1.prems"(1)] by auto
  note unfold = get_extension_indices.simps [of _ _ tlv s]
  let ?next = "s + 4 + read_u16 tlv (s + 2)"
  consider (both) "read_u16 tlv s = ext_code V" "W = V"
    | (at_V) "read_u16 tlv s = ext_code V" "W \<noteq> V"
    | (at_W) "read_u16 tlv s \<noteq> ext_code V" "read_u16 tlv s = ext_code W"
    | (none) "read_u16 tlv s \<noteq> ext_code V" "read_u16 tlv s \<noteq> ext_code W"
    by (auto simp: ext_code_inject)
  then show ?case
  proof cases
    case both
    then show ?thesis using "1.prems" inb by (auto simp: unfold Let_def)
  next
    case at_V
    then have "ix = get_tlv_indices s" using "1.prems"(1) inb by (simp add: unfold Let_def)
    moreover have "get_extension_indices W init tlv ?next = Inr jx"
      using at_V "1.prems"(2,3) inb by (auto simp: unfold Let_def ext_code_inject)
    from get_extension_indices_bounds [OF this] have "?next \<le> type_start jx" by simp
    ultimately show ?thesis using \<open>W \<noteq> V\<close> by (simp add: entry_end_def)
  next
    case at_W
    then have jx: "jx = get_tlv_indices s" using "1.prems"(3) inb by (simp add: unfold Let_def)
    have "get_extension_indices V False tlv ?next = Inr ix"
      using at_W "1.prems"(1) inb by (simp add: unfold Let_def split: if_splits)
    from get_extension_indices_bounds [OF this] have "?next \<le> type_start ix" by simp
    with jx at_W show ?thesis by (auto simp: entry_end_def ext_code_inject)
  next
    case none
    have nu: "read_u16 tlv s \<noteq> ext_code ExtUninitialized"
      using "1.prems"(1) inb none by (auto simp: unfold Let_def split: if_splits)
    have "get_extension_indices V False tlv ?next = Inr ix" "get_extension_indices W init tlv ?next = Inr jx"
      using "1.prems" inb none nu by (simp_all add: unfold Let_def)
    with "1.hyps" [of "get_tlv_indices s"] "1.prems"(2) inb none nu show ?thesis by simp
  qed
qed

text \<open>A search reads nothing behind the header it stops at.\<close>

lemma get_extension_indices_prefix:
  assumes "get_extension_indices V init tlv s = Inr ix"
    and "length tlv' = length tlv" and "take (type_start ix) tlv' = take (type_start ix) tlv"
    and "read_u16 tlv' (type_start ix) = ext_code V \<or>
      read_u16 tlv' (type_start ix) = read_u16 tlv (type_start ix) \<and> init' = init"
  shows "get_extension_indices V init' tlv' s = Inr ix"
  using assms
proof (induction V init tlv s rule: get_extension_indices.induct)
  case (1 V init tlv s)
  note b = get_extension_indices_bounds [OF "1.prems"(1)]
  have inb: "s < length tlv" "s + 4 \<le> length tlv" using b by auto
  note unfold = get_extension_indices.simps [of _ _ tlv s]
  note unfold' = get_extension_indices.simps [of _ _ tlv' s]
  show ?case
  proof (cases "type_start ix = s")
    case True
    then have ix: "ix = get_tlv_indices s" using b by metis
    have "read_u16 tlv s = ext_code V \<or> init \<and> read_u16 tlv s = ext_code ExtUninitialized"
      using b True by simp
    with "1.prems"(2,4) inb True ix show ?thesis
      by (auto simp: unfold' Let_def)
  next
    case False
    let ?next = "s + 4 + read_u16 tlv (s + 2)"
    have ne: "read_u16 tlv s \<noteq> ext_code V" "read_u16 tlv s \<noteq> ext_code ExtUninitialized"
      using "1.prems"(1) inb False by (auto simp: unfold Let_def split: if_splits)
    have nx: "get_extension_indices V init tlv ?next = Inr ix"
      using "1.prems"(1) inb ne by (simp add: unfold Let_def)
    with "1.IH" [of "get_tlv_indices s"] "1.prems" inb ne
    have ih: "get_extension_indices V init' tlv' ?next = Inr ix" by simp
    have "?next \<le> type_start ix" using get_extension_indices_bounds [OF nx] by simp
    then have sg: "seg (s + k) 2 tlv' = seg (s + k) 2 tlv" if "k \<le> 2" for k
      using that by (intro seg_take_cong [OF "1.prems"(3)]) linarith
    from sg [of 0] sg [of 2] have "read_u16 tlv' s = read_u16 tlv s"
      "read_u16 tlv' (s + 2) = read_u16 tlv (s + 2)"
      by (simp_all add: read_u16_def)
    with ih ne inb "1.prems"(2) show ?thesis
      by (simp add: unfold' Let_def)
  qed
qed

section \<open>Reading and writing values\<close>

lemma get_extension_range_Inr:
  assumes "get_extension_range at V tlv = Inr (i, n)"
  obtains ix where "get_account_type V = at" "get_extension_indices V False tlv 0 = Inr ix"
    "i = value_start ix" "n = read_u16 tlv (length_start ix)" "i + n \<le> length tlv"
    "type_start ix + 4 = i" "length_start ix + 2 = i"
proof -
  obtain ix where ix: "get_account_type V = at" "get_extension_indices V False tlv 0 = Inr ix"
    "i = value_start ix" "n = read_u16 tlv (length_start ix)" "i + n \<le> length tlv"
    using assms by (auto simp: get_extension_range_def result_simps Let_def split: if_splits)
  moreover have "ix = get_tlv_indices (type_start ix)"
    using get_extension_indices_bounds [OF ix(2)] by simp
  then have "type_start ix + 4 = value_start ix" "length_start ix + 2 = value_start ix"
    by (metis get_tlv_indices_simps(3), metis get_tlv_indices_simps(2,3) add.assoc numeral_Bit0)
  ultimately show ?thesis using that by auto
qed

lemma get_extension_bytes_Inr [result_simps]:
  "get_extension_bytes at V tlv = Inr w \<longleftrightarrow> (\<exists>i n. get_extension_range at V tlv = Inr (i, n) \<and> w = seg i n tlv)"
  by (auto simp: get_extension_bytes_def result_simps)

lemma put_extension_bytes_Inr [result_simps]:
  "put_extension_bytes at V v tlv = Inr tlv' \<longleftrightarrow>
     (\<exists>i. get_extension_range at V tlv = Inr (i, length v) \<and> tlv' = patch i v tlv)"
  by (auto simp: put_extension_bytes_def result_simps split: if_splits)

lemma get_account_type_not_uninit:
  "get_account_type V = at \<Longrightarrow> at \<noteq> AtUninitialized \<Longrightarrow> V \<noteq> ExtUninitialized"
  by (auto simp: get_account_type_def)

lemma put_extension_bytes_range:
  assumes put: "put_extension_bytes at V v tlv = Inr tlv'" and at: "at \<noteq> AtUninitialized"
  shows "get_extension_range at' W tlv' = get_extension_range at' W tlv"
proof -
  obtain i where i: "get_extension_range at V tlv = Inr (i, length v)" and tlv': "tlv' = patch i v tlv"
    using put by (auto simp: result_simps)
  then obtain ix where ix: "get_account_type V = at" "get_extension_indices V False tlv 0 = Inr ix"
    "i = value_start ix" "length v = read_u16 tlv (length_start ix)" "i + length v \<le> length tlv"
    "type_start ix + 4 = i" "length_start ix + 2 = i"
    by (elim get_extension_range_Inr)
  have V: "V \<noteq> ExtUninitialized" using ix(1) at by (rule get_account_type_not_uninit)
  have gi: "get_extension_indices W False tlv' 0 = get_extension_indices W False tlv 0"
    unfolding tlv' ix(3) by (rule get_extension_indices_patch_value) (use ix V in auto)
  have "read_u16 tlv' (length_start jx) = read_u16 tlv (length_start jx)"
    if "get_extension_indices W False tlv 0 = Inr jx" for jx
  proof -
    have j: "jx = get_tlv_indices (type_start jx)" "type_start jx + 4 \<le> length tlv"
      using get_extension_indices_bounds [OF that] by auto
    then have "length_start jx = type_start jx + 2" by (metis get_tlv_indices_simps(2))
    moreover have "value_start jx = type_start jx + 4" using j by (metis get_tlv_indices_simps(3))
    ultimately have "length_start jx + 2 \<le> i \<or> i + length v \<le> length_start jx"
      using get_extension_indices_disjoint [OF ix(2) V that] ix(3,4,6)
      by (auto simp: entry_end_def)
    then show ?thesis
      unfolding tlv' using ix(5)
      by (auto intro!: read_u16_seg intro: seg_patch_before seg_patch_after)
  qed
  moreover have "length tlv' = length tlv" using ix(5) by (simp add: tlv')
  ultimately show ?thesis
    using gi by (cases "get_extension_indices W False tlv 0") (simp_all add: get_extension_range_def Let_def)
qed

lemma length_put_extension_bytes:
  "put_extension_bytes at V v tlv = Inr tlv' \<Longrightarrow> length tlv' = length tlv"
  by (auto simp: result_simps elim!: get_extension_range_Inr)

lemma get_put_extension_bytes_same:
  assumes "put_extension_bytes at V v tlv = Inr tlv'" and "at \<noteq> AtUninitialized"
  shows "get_extension_bytes at V tlv' = Inr v"
proof -
  obtain i where i: "get_extension_range at V tlv = Inr (i, length v)" and tlv': "tlv' = patch i v tlv"
    using assms(1) by (auto simp: result_simps)
  then have "i + length v \<le> length tlv" by (elim get_extension_range_Inr)
  with i tlv' show ?thesis
    using put_extension_bytes_range [OF assms, of at V] by (auto simp: result_simps)
qed

lemma get_put_extension_bytes_other:
  assumes put: "put_extension_bytes at V v tlv = Inr tlv'" and at: "at \<noteq> AtUninitialized" and "W \<noteq> V"
  shows "get_extension_bytes at' W tlv' = get_extension_bytes at' W tlv"
proof -
  obtain i where i: "get_extension_range at V tlv = Inr (i, length v)" and tlv': "tlv' = patch i v tlv"
    using put by (auto simp: result_simps)
  then obtain ix where ix: "get_account_type V = at" "get_extension_indices V False tlv 0 = Inr ix"
    "i = value_start ix" "length v = read_u16 tlv (length_start ix)" "i + length v \<le> length tlv"
    "type_start ix + 4 = i"
    by (elim get_extension_range_Inr)
  have "seg j n tlv' = seg j n tlv" if r: "get_extension_range at' W tlv = Inr (j, n)" for j n
  proof -
    obtain jx where jx: "get_extension_indices W False tlv 0 = Inr jx" "j = value_start jx"
      "n = read_u16 tlv (length_start jx)" "j + n \<le> length tlv" "type_start jx + 4 = j"
      using r by (elim get_extension_range_Inr)
    have "V \<noteq> ExtUninitialized" using ix(1) at by (rule get_account_type_not_uninit)
    from get_extension_indices_disjoint [OF ix(2) this jx(1)] \<open>W \<noteq> V\<close> ix jx
    have "j + n \<le> i \<or> i + length v \<le> j" by (auto simp: entry_end_def)
    then show ?thesis
      unfolding tlv' using ix(5) by (auto intro: seg_patch_before seg_patch_after)
  qed
  then show ?thesis
    using put_extension_bytes_range [OF put at, of at' W]
    by (cases "get_extension_range at' W tlv") (auto simp: get_extension_bytes_def)
qed

lemma put_extension_bytes_defined:
  assumes "get_extension_bytes at V tlv = Inr w" and "length v = length w"
  shows "\<exists>tlv'. put_extension_bytes at V v tlv = Inr tlv'"
proof -
  obtain i n where "get_extension_range at V tlv = Inr (i, n)" "w = seg i n tlv"
    using assms(1) by (auto simp: result_simps)
  moreover from this have "length w = n" by (auto elim!: get_extension_range_Inr)
  ultimately show ?thesis using assms(2) by (auto simp: result_simps)
qed

section \<open>The buffer as a map\<close>

text \<open>
  The contract the handlers rely on: values are found under their key, writing one leaves the
  others alone, and a value can be replaced by any other of the same length.
\<close>

locale keyed_buffer =
  fixes read :: "'k \<Rightarrow> 'b \<Rightarrow> bytes option"
    and overwrite :: "'k \<Rightarrow> bytes \<Rightarrow> 'b \<Rightarrow> 'b option"
  assumes read_overwrite_same: "overwrite k v b = Some b' \<Longrightarrow> read k b' = Some v"
    and read_overwrite_other: "overwrite k v b = Some b' \<Longrightarrow> j \<noteq> k \<Longrightarrow> read j b' = read j b"
    and overwrite_defined: "read k b = Some w \<Longrightarrow> length v = length w \<Longrightarrow> \<exists>b'. overwrite k v b = Some b'"
    and overwrite_length: "overwrite k v b = Some b' \<Longrightarrow> \<exists>w. read k b = Some w \<and> length w = length v"
begin

lemma read_overwrite:
  "overwrite k v b = Some b' \<Longrightarrow> read j b' = (if j = k then Some v else read j b)"
  using read_overwrite_same read_overwrite_other by auto

text \<open>Writes to two different keys commute up to what can be read.\<close>

lemma overwrite_commute:
  assumes "j \<noteq> k" and "overwrite j v b = Some b1" and "overwrite k w b1 = Some b2"
  obtains c1 c2 where "overwrite k w b = Some c1" "overwrite j v c1 = Some c2" "\<forall>i. read i c2 = read i b2"
proof -
  obtain u where u: "read k b1 = Some u" "length u = length w"
    using overwrite_length [OF assms(3)] by auto
  then have "read k b = Some u" using read_overwrite_other [OF assms(2)] assms(1) by auto
  then obtain c1 where c1: "overwrite k w b = Some c1" using overwrite_defined u by metis
  obtain z where "read j b = Some z" "length z = length v" using overwrite_length [OF assms(2)] by auto
  then have "read j c1 = Some z" using read_overwrite_other [OF c1] assms(1) by auto
  then obtain c2 where c2: "overwrite j v c1 = Some c2" using overwrite_defined \<open>length z = length v\<close> by metis
  have "\<forall>i. read i c2 = read i b2"
    using read_overwrite [OF c1] read_overwrite [OF c2] read_overwrite [OF assms(2)]
      read_overwrite [OF assms(3)] assms(1) by auto
  with c1 c2 show ?thesis using that by blast
qed

end

definition tlv_read :: "extension_type \<Rightarrow> bytes \<Rightarrow> bytes option" where
  "tlv_read V tlv =
     (if V = ExtUninitialized then None else result_ok (get_extension_bytes (get_account_type V) V tlv))"

definition tlv_overwrite :: "extension_type \<Rightarrow> bytes \<Rightarrow> bytes \<Rightarrow> bytes option" where
  "tlv_overwrite V v tlv =
     (if V = ExtUninitialized then None else result_ok (put_extension_bytes (get_account_type V) V v tlv))"

lemma get_account_type_uninit_iff [simp]: "get_account_type V = AtUninitialized \<longleftrightarrow> V = ExtUninitialized"
  by (cases V) (simp_all add: get_account_type_def)

interpretation tlv: keyed_buffer tlv_read tlv_overwrite
proof unfold_locales
  fix k v b b' j
  assume o: "tlv_overwrite k v b = Some b'"
  then have k: "k \<noteq> ExtUninitialized" and p: "put_extension_bytes (get_account_type k) k v b = Inr b'"
    by (auto simp: tlv_overwrite_def result_ok_def split: if_splits sum.splits)
  then have at: "get_account_type k \<noteq> AtUninitialized" by simp
  show "tlv_read k b' = Some v"
    using k get_put_extension_bytes_same [OF p at] by (simp add: tlv_read_def)
  show "tlv_read j b' = tlv_read j b" if "j \<noteq> k"
    using get_put_extension_bytes_other [OF p at that] by (simp add: tlv_read_def)
  obtain i where "get_extension_range (get_account_type k) k b = Inr (i, length v)"
    using p by (auto simp: result_simps)
  moreover from this have "i + length v \<le> length b" by (elim get_extension_range_Inr)
  ultimately show "\<exists>w. tlv_read k b = Some w \<and> length w = length v"
    using k by (intro exI [of _ "seg i (length v) b"]) (auto simp: tlv_read_def result_simps)
next
  fix k b w and v :: bytes
  assume "tlv_read k b = Some w" and l: "length v = length w"
  then have "k \<noteq> ExtUninitialized" "get_extension_bytes (get_account_type k) k b = Inr w"
    by (auto simp: tlv_read_def result_ok_def split: if_splits sum.splits)
  with put_extension_bytes_defined [OF _ l] show "\<exists>b'. tlv_overwrite k v b = Some b'"
    by (fastforce simp: tlv_overwrite_def)
qed

section \<open>Allocating an entry\<close>

lemma free_slot_is_last:
  assumes "get_extension_indices V True tlv s = Inr ix"
    and "read_u16 tlv (type_start ix) = ext_code ExtUninitialized"
    and "get_extension_indices W False tlv s = Inr jx" and "W \<noteq> ExtUninitialized"
  shows "entry_end tlv jx \<le> type_start ix"
  using assms
proof (induction V True tlv s rule: get_extension_indices.induct)
  case (1 V tlv s)
  have inb: "s < length tlv" "s + 4 \<le> length tlv"
    using get_extension_indices_bounds [OF "1.prems"(1)] by auto
  note unfold = get_extension_indices.simps [of _ _ tlv s]
  let ?next = "s + 4 + read_u16 tlv (s + 2)"
  have nu: "read_u16 tlv s \<noteq> ext_code ExtUninitialized"
    using "1.prems"(3,4) inb by (auto simp: unfold Let_def split: if_splits)
  moreover have nV: "read_u16 tlv s \<noteq> ext_code V"
    using "1.prems"(1,2) inb nu by (auto simp: unfold Let_def split: if_splits)
  ultimately have nx: "get_extension_indices V True tlv ?next = Inr ix"
    using "1.prems"(1) inb by (simp add: unfold Let_def)
  then have le: "?next \<le> type_start ix" using get_extension_indices_bounds by fastforce
  show ?case
  proof (cases "read_u16 tlv s = ext_code W")
    case True
    then have "jx = get_tlv_indices s" using "1.prems"(3) inb by (simp add: unfold Let_def)
    with le show ?thesis by (simp add: entry_end_def)
  next
    case False
    then have "get_extension_indices W False tlv ?next = Inr jx"
      using "1.prems"(3) inb nu by (simp add: unfold Let_def)
    with "1.hyps" [of "get_tlv_indices s"] nx "1.prems" inb nu nV show ?thesis by simp
  qed
qed

text \<open>What \<open>alloc\<close> and the write of the value that follows it do to the buffer.\<close>

definition entry_bytes :: "extension_type \<Rightarrow> bytes \<Rightarrow> bytes" where
  "entry_bytes V v = extension_type_to_bytes V @ le_bytes 2 (of_nat (length v) :: u16) @ v"

lemma length_entry_bytes [simp]: "length (entry_bytes V v) = 4 + length v"
  by (simp add: entry_bytes_def)

lemma alloc_Inr:
  assumes "alloc at V (length v) ow tlv = Inr (tlv1, i)" and "at \<noteq> AtUninitialized"
  obtains s where "get_account_type V = at" "get_extension_indices V True tlv 0 = Inr (get_tlv_indices s)"
    "i = s + 4" "s + 4 + length v \<le> length tlv" "length v < 2 ^ 16"
    "patch i v tlv1 = patch s (entry_bytes V v) tlv" "length tlv1 = length tlv"
    "read_u16 tlv s = ext_code ExtUninitialized \<or>
     ow \<and> read_u16 tlv s = ext_code V \<and> read_u16 tlv (s + 2) = length v"
proof -
  obtain ix t n where ix: "get_account_type V = at" "get_extension_indices V True tlv 0 = Inr ix"
    "\<not> length (drop (type_start ix) tlv) < add_type_and_length_to_len (length v)"
    "extension_type_try_from_bytes (seg (type_start ix) 2 tlv) = Inr t"
    "t = ExtUninitialized \<or> ow"
    "\<not> (ow \<and> t = V \<and>
      read_u16 (patch (type_start ix) (extension_type_to_bytes V) tlv) (length_start ix) \<noteq> length v)"
    "length_try_from (length v) = Inr n"
    "tlv1 = patch (length_start ix) (le_bytes 2 n) (patch (type_start ix) (extension_type_to_bytes V) tlv)"
    "i = value_start ix"
    using assms(1)
    by (auto simp: alloc_def result_simps Let_def simp del: length_drop split: if_splits)
  define s where "s = type_start ix"
  have b: "ix = get_tlv_indices s" "s + 4 \<le> length tlv"
    "read_u16 tlv s = ext_code V \<or> read_u16 tlv s = ext_code ExtUninitialized"
    using get_extension_indices_bounds [OF ix(2)] by (auto simp: s_def)
  have fit: "s + 4 + length v \<le> length tlv" using ix(3) b(2) by (simp add: s_def add_type_and_length_to_len_def)
  have n: "n = of_nat (length v)" "length v < 2 ^ 16"
    using ix(7) by (auto simp: length_try_from_def split: if_splits)
  have t: "ext_code t = read_u16 tlv s"
    using ix(4) b(1) by (auto simp: extension_type_try_from_bytes_def read_u16_def result_simps
        dest: extension_type_of_nat_code split: if_splits)
  have "patch i v tlv1 = patch s (entry_bytes V v) tlv"
    using fit b(1) n ix(8,9)
    by (simp add: patch_patch_adjacent entry_bytes_def)
  moreover have "length tlv1 = length tlv" using fit b(1) ix(8) by simp
  moreover have "read_u16 (patch s (extension_type_to_bytes V) tlv) (s + 2) = read_u16 tlv (s + 2)"
    using fit by (intro read_u16_seg seg_patch_after) simp_all
  then have "read_u16 tlv s = ext_code ExtUninitialized \<or>
     ow \<and> read_u16 tlv s = ext_code V \<and> read_u16 tlv (s + 2) = length v"
    using b(1,3) t ix(5,6) by (auto simp: ext_code_inject)
  ultimately show ?thesis
    using that [of s] ix(1,2,9) b(1) fit n(2) by simp
qed

lemma seg_entry_bytes:
  "seg 0 2 (entry_bytes V v) = extension_type_to_bytes V"
  "seg 2 2 (entry_bytes V v) = le_bytes 2 (of_nat (length v) :: u16)"
  "seg 4 (length v) (entry_bytes V v) = v"
  by (simp_all add: entry_bytes_def seg_def)

lemma read_u16_entry:
  assumes "s + 4 + length v \<le> length tlv"
  shows "read_u16 (patch s (entry_bytes V v) tlv) s = ext_code V"
    and "length v < 2 ^ 16 \<Longrightarrow> read_u16 (patch s (entry_bytes V v) tlv) (s + 2) = length v"
proof -
  have "seg s 2 (patch s (entry_bytes V v) tlv) = extension_type_to_bytes V"
    using assms by (subst seg_patch_inside) (simp_all add: seg_entry_bytes)
  then show "read_u16 (patch s (entry_bytes V v) tlv) s = ext_code V"
    by (simp add: read_u16_def extension_type_to_bytes_def codec_simps)
  have "seg (s + 2) 2 (patch s (entry_bytes V v) tlv) = le_bytes 2 (of_nat (length v) :: u16)"
    using assms by (subst seg_patch_inside) (simp_all add: seg_entry_bytes)
  then show "length v < 2 ^ 16 \<Longrightarrow> read_u16 (patch s (entry_bytes V v) tlv) (s + 2) = length v"
    by (simp add: read_u16_def codec_simps unat_of_nat)
qed

lemma alloc_get_same:
  assumes "alloc at V (length v) ow tlv = Inr (tlv1, i)" and "at \<noteq> AtUninitialized"
  shows "get_extension_bytes at V (patch i v tlv1) = Inr v"
  using assms
proof (rule alloc_Inr)
  fix s
  let ?t = "patch s (entry_bytes V v) tlv"
  assume a: "get_account_type V = at" "get_extension_indices V True tlv 0 = Inr (get_tlv_indices s)"
    "i = s + 4" "s + 4 + length v \<le> length tlv" "length v < 2 ^ 16" "patch i v tlv1 = ?t"
  have rd: "read_u16 ?t s = ext_code V" "read_u16 ?t (s + 2) = length v"
    using read_u16_entry [OF a(4)] a(5) by simp_all
  have "get_extension_indices V False ?t 0 = Inr (get_tlv_indices s)"
    using a(4) rd(1)
    by (intro get_extension_indices_prefix [OF a(2)]) (simp_all add: take_patch_before)
  moreover have "seg (s + 4) (length v) ?t = v"
    using a(4) by (subst seg_patch_inside) (simp_all add: seg_entry_bytes)
  ultimately show ?thesis
    using a rd by (simp add: get_extension_bytes_def get_extension_range_def Let_def)
qed

lemma alloc_get_other:
  assumes al: "alloc at V (length v) ow tlv = Inr (tlv1, i)" and at: "at \<noteq> AtUninitialized"
    and W: "W \<noteq> V" "W \<noteq> ExtUninitialized" and get: "get_extension_bytes at' W tlv = Inr w"
  shows "get_extension_bytes at' W (patch i v tlv1) = Inr w"
  using al at
proof (rule alloc_Inr)
  fix s
  let ?t = "patch s (entry_bytes V v) tlv"
  assume a: "get_account_type V = at" "get_extension_indices V True tlv 0 = Inr (get_tlv_indices s)"
    "i = s + 4" "s + 4 + length v \<le> length tlv" "length v < 2 ^ 16" "patch i v tlv1 = ?t"
    and slot: "read_u16 tlv s = ext_code ExtUninitialized \<or>
      ow \<and> read_u16 tlv s = ext_code V \<and> read_u16 tlv (s + 2) = length v"
  obtain j n where r: "get_extension_range at' W tlv = Inr (j, n)" and w: "w = seg j n tlv"
    using get by (auto simp: result_simps)
  obtain jx where jx: "get_account_type W = at'" "get_extension_indices W False tlv 0 = Inr jx"
    "j = value_start jx" "n = read_u16 tlv (length_start jx)" "j + n \<le> length tlv"
    "type_start jx + 4 = j" "length_start jx + 2 = j"
    using r by (elim get_extension_range_Inr)
  from slot show ?thesis
  proof
    assume "read_u16 tlv s = ext_code ExtUninitialized"
    then have e: "j + n \<le> s"
      using free_slot_is_last [OF a(2) _ jx(2) W(2)] jx(3,4) by (simp add: entry_end_def)
    have tk: "take s ?t = take s tlv" using a(4) by (simp add: take_patch_before)
    have sg: "seg k m ?t = seg k m tlv" if "k + m \<le> s" for k m
      using that by (rule seg_take_cong [OF tk])
    have "get_extension_indices W False ?t 0 = Inr jx"
    proof (rule get_extension_indices_prefix [OF jx(2)])
      show "length ?t = length tlv" using a(4) by simp
      show "take (type_start jx) ?t = take (type_start jx) tlv"
        using a(4) e jx(6) by (intro take_patch_before) linarith+
      show "read_u16 ?t (type_start jx) = ext_code W \<or>
        read_u16 ?t (type_start jx) = read_u16 tlv (type_start jx) \<and> False = False"
        using e jx(6) by (simp add: read_u16_seg [OF sg])
    qed
    moreover have "read_u16 ?t (length_start jx) = n"
      using e jx(4,7) by (simp add: read_u16_seg [OF sg])
    ultimately show ?thesis
      using a(4,6) jx e sg [of j n] w
      by (simp add: get_extension_bytes_def get_extension_range_def Let_def)
  next
    assume s: "ow \<and> read_u16 tlv s = ext_code V \<and> read_u16 tlv (s + 2) = length v"
    have V: "V \<noteq> ExtUninitialized" using a(1) at by (rule get_account_type_not_uninit)
    have "get_extension_indices V False tlv 0 = Inr (get_tlv_indices s)"
      using s by (intro get_extension_indices_prefix [OF a(2)]) simp_all
    then have rV: "get_extension_range at V tlv = Inr (s + 4, length v)"
      using a(1,4) s by (simp add: get_extension_range_def Let_def)
    have "seg s 2 tlv = extension_type_to_bytes V" "seg (s + 2) 2 tlv = le_bytes 2 (of_nat (length v) :: u16)"
      using s a(4) seg_read_u16 [of s tlv] seg_read_u16 [of "s + 2" tlv]
      by (simp_all add: extension_type_to_bytes_def)
    then have "take 4 (entry_bytes V v) = seg s 4 tlv"
      using seg_join [of s 2 tlv 2] by (simp add: entry_bytes_def)
    then have "?t = patch (s + 4) v tlv"
      using a(4) by (subst patch_take_same [of 4]) (simp_all add: entry_bytes_def)
    then have "put_extension_bytes at V v tlv = Inr ?t"
      using rV by (auto simp: result_simps)
    from get_put_extension_bytes_other [OF this at W(1), of at'] get a(6) show ?thesis by simp
  qed
qed

end
