(* ===== verification/Transfer_Fee.thy ===== *)
theory Transfer_Fee
  imports Token_Error
begin

text \<open>
  The arithmetic of transfer fees (interface/src/extension/transfer_fee/mod.rs): \<open>TransferFee\<close>,
  \<open>TransferFeeConfig\<close> and their methods, at the widths the code uses (\<open>u64\<close> amounts, \<open>u128\<close>
  intermediate values, checked operations). The lemmas relate them to a reference definition
  on natural numbers and show that the fee never exceeds the amount or the cap, that the
  pre-fee amount is an exact and minimal inverse, and the inequality the source documents for
  \<open>calculate_inverse_fee\<close>.
\<close>

section \<open>Model\<close>

record transfer_fee =
  tf_epoch :: u64
  tf_maximum_fee :: u64
  tf_transfer_fee_basis_points :: u16

definition MAX_FEE_BASIS_POINTS :: u16 where
  "MAX_FEE_BASIS_POINTS = 10000"

definition ONE_IN_BASIS_POINTS :: u128 where
  "ONE_IN_BASIS_POINTS = ucast MAX_FEE_BASIS_POINTS"

definition ceil_div :: "u128 \<Rightarrow> u128 \<Rightarrow> u128 option" where
  "ceil_div numerator denominator =
     Option.bind (checked_add numerator denominator) (\<lambda>s.
     Option.bind (checked_sub s 1) (\<lambda>d.
     checked_div d denominator))"

text \<open>\<open>u64::try_from\<close> on a \<open>u128\<close>.\<close>

definition u64_try_from :: "u128 \<Rightarrow> u64 option" where
  "u64_try_from x = (if unat x < 2 ^ 64 then Some (ucast x) else None)"

definition calculate_fee :: "transfer_fee \<Rightarrow> u64 \<Rightarrow> u64 option" where
  "calculate_fee tf pre_fee_amount =
     (let transfer_fee_basis_points = ucast (tf_transfer_fee_basis_points tf) :: u128 in
      if transfer_fee_basis_points = 0 \<or> pre_fee_amount = 0 then Some 0
      else
        Option.bind (checked_mul (ucast pre_fee_amount) transfer_fee_basis_points) (\<lambda>numerator.
        Option.bind (ceil_div numerator ONE_IN_BASIS_POINTS) (\<lambda>q.
        Option.bind (u64_try_from q) (\<lambda>raw_fee.
        Some (min raw_fee (tf_maximum_fee tf))))))"

definition calculate_post_fee_amount :: "transfer_fee \<Rightarrow> u64 \<Rightarrow> u64 option" where
  "calculate_post_fee_amount tf pre_fee_amount =
     Option.bind (calculate_fee tf pre_fee_amount) (checked_sub pre_fee_amount)"

definition calculate_pre_fee_amount :: "transfer_fee \<Rightarrow> u64 \<Rightarrow> u64 option" where
  "calculate_pre_fee_amount tf post_fee_amount =
     (let maximum_fee = tf_maximum_fee tf;
          transfer_fee_basis_points = ucast (tf_transfer_fee_basis_points tf) :: u128 in
      if transfer_fee_basis_points = 0 then Some post_fee_amount
      else if post_fee_amount = 0 then Some 0
      else if transfer_fee_basis_points = ONE_IN_BASIS_POINTS then checked_add maximum_fee post_fee_amount
      else
        Option.bind (checked_mul (ucast post_fee_amount) ONE_IN_BASIS_POINTS) (\<lambda>numerator.
        Option.bind (checked_sub ONE_IN_BASIS_POINTS transfer_fee_basis_points) (\<lambda>denominator.
        Option.bind (ceil_div numerator denominator) (\<lambda>raw_pre_fee_amount.
        Option.bind (checked_sub raw_pre_fee_amount (ucast post_fee_amount)) (\<lambda>d.
        if ucast maximum_fee \<le> d then checked_add post_fee_amount maximum_fee
        else u64_try_from raw_pre_fee_amount)))))"

definition calculate_inverse_fee :: "transfer_fee \<Rightarrow> u64 \<Rightarrow> u64 option" where
  "calculate_inverse_fee tf post_fee_amount =
     Option.bind (calculate_pre_fee_amount tf post_fee_amount) (calculate_fee tf)"

record transfer_fee_config =
  tfc_transfer_fee_config_authority :: address
  tfc_withdraw_withheld_authority :: address
  tfc_withheld_amount :: u64
  tfc_older_transfer_fee :: transfer_fee
  tfc_newer_transfer_fee :: transfer_fee

definition get_epoch_fee :: "transfer_fee_config \<Rightarrow> u64 \<Rightarrow> transfer_fee" where
  "get_epoch_fee c epoch =
     (if tf_epoch (tfc_newer_transfer_fee c) \<le> epoch then tfc_newer_transfer_fee c
      else tfc_older_transfer_fee c)"

definition calculate_epoch_fee :: "transfer_fee_config \<Rightarrow> u64 \<Rightarrow> u64 \<Rightarrow> u64 option" where
  "calculate_epoch_fee c epoch pre_fee_amount = calculate_fee (get_epoch_fee c epoch) pre_fee_amount"

definition calculate_inverse_epoch_fee :: "transfer_fee_config \<Rightarrow> u64 \<Rightarrow> u64 \<Rightarrow> u64 option" where
  "calculate_inverse_epoch_fee c epoch post_fee_amount =
     calculate_inverse_fee (get_epoch_fee c epoch) post_fee_amount"

record transfer_fee_amount =
  tfa_withheld_amount :: u64

definition transfer_fee_closable :: "transfer_fee_amount \<Rightarrow> unit result" where
  "transfer_fee_closable e = ensure (tfa_withheld_amount e = 0) (Custom AccountHasWithheldTransferFees)"

section \<open>Reference definitions\<close>

text \<open>Ceiling division and the fee on natural numbers: rate \<open>b\<close> in basis points, cap \<open>m\<close>.\<close>

definition nceil :: "nat \<Rightarrow> nat \<Rightarrow> nat" where
  "nceil a d = (a + d - 1) div d"

definition fee_nat :: "nat \<Rightarrow> nat \<Rightarrow> nat \<Rightarrow> nat" where
  "fee_nat b m x = min (nceil (x * b) 10000) m"

lemma nceil_le_iff: "0 < d \<Longrightarrow> nceil a d \<le> k \<longleftrightarrow> a \<le> k * d"
proof -
  assume d: "0 < d"
  have "nceil a d \<le> k \<longleftrightarrow> (a + d - 1) div d < Suc k"
    by (simp add: nceil_def less_Suc_eq_le)
  also have "\<dots> \<longleftrightarrow> a + d - 1 < Suc k * d"
    using d by (simp add: div_less_iff_less_mult)
  also have "\<dots> \<longleftrightarrow> a \<le> k * d"
    using d by (simp add: less_eq_Suc_le)
  finally show ?thesis .
qed

lemma nceil_0 [simp]: "nceil 0 d = 0"
  by (cases d) (simp_all add: nceil_def)

lemma nceil_mono: "0 < d \<Longrightarrow> a \<le> b \<Longrightarrow> nceil a d \<le> nceil b d"
  by (simp add: nceil_def div_le_mono)

lemma nceil_ge: "0 < d \<Longrightarrow> a \<le> nceil a d * d"
  using nceil_le_iff [of d a "nceil a d"] by simp

lemma fee_nat_mono: "x \<le> y \<Longrightarrow> fee_nat b m x \<le> fee_nat b m y"
proof -
  assume "x \<le> y"
  then have "nceil (x * b) 10000 \<le> nceil (y * b) 10000"
    by (intro nceil_mono) simp_all
  then show ?thesis
    by (auto simp: fee_nat_def min_def)
qed

lemma fee_nat_le_amount: "b \<le> 10000 \<Longrightarrow> fee_nat b m x \<le> x"
proof -
  assume "b \<le> 10000"
  then have "nceil (x * b) 10000 \<le> x"
    by (simp add: nceil_le_iff)
  then show ?thesis by (simp add: fee_nat_def)
qed

text \<open>The pre-fee amount on natural numbers, for a rate strictly between 0 and 100 percent.\<close>

definition pre_nat :: "nat \<Rightarrow> nat \<Rightarrow> nat \<Rightarrow> nat" where
  "pre_nat b m y =
     (let raw = nceil (y * 10000) (10000 - b) in if m \<le> raw - y then y + m else raw)"

lemma raw_bounds:
  fixes b y :: nat
  assumes "b < 10000"
  defines "raw \<equiv> nceil (y * 10000) (10000 - b)"
  shows "y \<le> raw" and "nceil (raw * b) 10000 = raw - y"
proof -
  have d: "0 < 10000 - b" using assms by simp
  have lo: "y * 10000 \<le> raw * (10000 - b)"
    unfolding raw_def by (rule nceil_ge [OF d])
  have "raw * (10000 - b) \<le> raw * 10000" by simp
  with lo have "y * 10000 \<le> raw * 10000" by linarith
  then show yr: "y \<le> raw" by simp
  have split: "raw * 10000 = raw * b + raw * (10000 - b)"
    using assms by (metis add_mult_distrib2 le_add_diff_inverse less_imp_le_nat)
  have "nceil (raw * b) 10000 \<le> raw - y"
    using lo split yr by (simp add: nceil_le_iff diff_mult_distrib)
  moreover have "raw - y \<le> nceil (raw * b) 10000"
  proof (rule ccontr)
    assume "\<not> ?thesis"
    then have "nceil (raw * b) 10000 \<le> raw - y - 1" and pos: "y < raw" by auto
    then have "raw * b \<le> (raw - y - 1) * 10000"
      by (simp add: nceil_le_iff)
    also have "\<dots> = raw * 10000 - y * 10000 - 10000"
      by (simp add: diff_mult_distrib)
    finally have "y * 10000 + 10000 \<le> raw * (10000 - b)"
      using split pos by linarith
    then have "y * 10000 \<le> raw * (10000 - b) - (10000 - b)"
      by linarith
    also have "\<dots> = (raw - 1) * (10000 - b)"
      by (simp add: diff_mult_distrib)
    finally have "raw \<le> raw - 1"
      unfolding raw_def using d by (simp add: nceil_le_iff)
    with pos show False by simp
  qed
  ultimately show "nceil (raw * b) 10000 = raw - y" by simp
qed

lemma pre_nat_inverse:
  assumes "b < 10000"
  shows "pre_nat b m y - fee_nat b m (pre_nat b m y) = y"
proof -
  define raw where "raw = nceil (y * 10000) (10000 - b)"
  have raw: "y \<le> raw" "nceil (raw * b) 10000 = raw - y"
    using raw_bounds [OF assms, of y] by (simp_all add: raw_def)
  show ?thesis
  proof (cases "m \<le> raw - y")
    case True
    define p where "p = y + m"
    have "p \<le> raw" using True raw(1) by (simp add: p_def)
    have "m \<le> nceil (p * b) 10000"
    proof (rule ccontr)
      assume "\<not> ?thesis"
      then have "nceil (p * b) 10000 \<le> m - 1" and m: "0 < m" by auto
      then have "p * b \<le> (m - 1) * 10000" by (simp add: nceil_le_iff)
      then have "p * b + 10000 \<le> m * 10000" using m by (simp add: diff_mult_distrib)
      moreover have "p * 10000 = p * b + p * (10000 - b)"
        using assms by (metis add_mult_distrib2 le_add_diff_inverse less_imp_le_nat)
      ultimately have "y * 10000 + 10000 \<le> p * (10000 - b)"
        by (simp add: p_def)
      then have "y * 10000 \<le> p * (10000 - b) - (10000 - b)" by linarith
      also have "\<dots> = (p - 1) * (10000 - b)" by (simp add: diff_mult_distrib)
      finally have "raw \<le> p - 1"
        unfolding raw_def using assms by (simp add: nceil_le_iff)
      with \<open>p \<le> raw\<close> m show False by (simp add: p_def)
    qed
    with True show ?thesis
      by (simp add: pre_nat_def fee_nat_def Let_def raw_def p_def)
  next
    case False
    with raw show ?thesis
      by (simp add: pre_nat_def fee_nat_def Let_def raw_def [symmetric])
  qed
qed

lemma pre_nat_minimal:
  assumes "b < 10000" and "x - fee_nat b m x = y" and "0 < y"
  shows "pre_nat b m y \<le> x"
proof -
  define raw where "raw = nceil (y * 10000) (10000 - b)"
  have fx: "fee_nat b m x \<le> x" using assms by (simp add: fee_nat_le_amount)
  with assms have x: "x = y + fee_nat b m x" by simp
  show ?thesis
  proof (cases "nceil (x * b) 10000 < m")
    case True
    then have f: "fee_nat b m x = nceil (x * b) 10000" by (simp add: fee_nat_def)
    have "x * b \<le> nceil (x * b) 10000 * 10000" by (rule nceil_ge) simp
    moreover have "x * 10000 = x * b + x * (10000 - b)"
      using assms by (metis add_mult_distrib2 le_add_diff_inverse less_imp_le_nat)
    moreover have "x * 10000 = y * 10000 + nceil (x * b) 10000 * 10000"
      using x f by (metis add_mult_distrib)
    ultimately have "y * 10000 \<le> x * (10000 - b)" by linarith
    then have r: "raw \<le> x"
      unfolding raw_def using assms by (simp add: nceil_le_iff)
    with x f True have "raw - y < m" by simp
    with r show ?thesis by (simp add: pre_nat_def raw_def [symmetric] Let_def)
  next
    case False
    then have "x = y + m" using x by (simp add: fee_nat_def)
    then show ?thesis by (auto simp: pre_nat_def Let_def)
  qed
qed

section \<open>The word-level code computes the reference\<close>

lemma unat_ONE [simp]: "unat ONE_IN_BASIS_POINTS = 10000"
  by (simp add: ONE_IN_BASIS_POINTS_def MAX_FEE_BASIS_POINTS_def)

lemma unat_bps_u128 [simp]: "unat (ucast (b :: u16) :: u128) = unat b"
  by (simp add: unat_ucast_up)

lemma unat_amount_u128 [simp]: "unat (ucast (x :: u64) :: u128) = unat x"
  by (simp add: unat_ucast_up)

lemma unat_u64_bound: "unat (x :: u64) < 2 ^ 64"
  using unsigned_less [of x, where ?'a = nat] by simp

lemma unat_u16_bound: "unat (b :: u16) < 2 ^ 16"
  using unsigned_less [of b, where ?'a = nat] by simp

lemma ceil_div_eq:
  assumes "0 < unat d" and "unat a + unat d < 2 ^ 128"
  shows "ceil_div a d = Some (of_nat (nceil (unat a) (unat d)))"
proof -
  have s: "unat (a + d) = unat a + unat d"
    using assms by (simp add: unat_word_ariths)
  have one: "(1 :: u128) \<le> a + d"
    using assms s by (simp add: word_le_nat_alt)
  have "unat (a + d - 1) = unat a + unat d - 1"
    using one s by (simp add: unat_sub)
  then have "(a + d - 1) div d = of_nat (nceil (unat a) (unat d))"
    by (simp add: nceil_def word_arith_nat_div)
  moreover have "d \<noteq> 0" using assms by auto
  ultimately show ?thesis
    using assms one by (simp add: ceil_div_def checked_add_def checked_sub_def checked_div_def)
qed

lemma u64_try_from_of_nat:
  "k < 2 ^ 128 \<Longrightarrow> u64_try_from (of_nat k) = (if k < 2 ^ 64 then Some (of_nat k) else None)"
  by (auto simp: u64_try_from_def unat_of_nat word_unat_eq_iff unsigned_ucast_eq take_bit_nat_eq_self)

lemma min_of_nat_u64: "k < 2 ^ 64 \<Longrightarrow> min (of_nat k) (m :: u64) = of_nat (min k (unat m))"
  by (auto simp: min_def word_le_nat_alt unat_of_nat)

text \<open>
  The 128-bit intermediate values never overflow: the only way to get \<open>None\<close> is a raw fee
  beyond \<open>u64\<close>, which needs a rate above 100 percent.
\<close>

lemma calculate_fee_eq:
  "calculate_fee tf x =
     (let b = unat (tf_transfer_fee_basis_points tf) in
      if nceil (unat x * b) 10000 < 2 ^ 64
      then Some (of_nat (fee_nat b (unat (tf_maximum_fee tf)) (unat x))) else None)"
proof -
  define b where "b = unat (tf_transfer_fee_basis_points tf)"
  have bw: "ucast (tf_transfer_fee_basis_points tf) = (0 :: u128) \<longleftrightarrow> b = 0"
    by (metis b_def unat_bps_u128 unat_0 unat_eq_0)
  have xb: "unat x * b < 2 ^ 80"
  proof -
    have "unat x * b \<le> (2 ^ 64 - 1) * (2 ^ 16 - 1)"
      using unat_u64_bound [of x] unat_u16_bound [of "tf_transfer_fee_basis_points tf"]
      by (intro mult_le_mono) (simp_all add: b_def)
    then show ?thesis by simp
  qed
  show ?thesis
  proof (cases "b = 0 \<or> x = 0")
    case True
    then have "unat x * b = 0" by auto
    with True bw show ?thesis
      by (auto simp: calculate_fee_def fee_nat_def Let_def b_def [symmetric])
  next
    case False
    then have nz: "ucast (tf_transfer_fee_basis_points tf) \<noteq> (0 :: u128)" "x \<noteq> 0"
      using bw by auto
    have mul: "checked_mul (ucast x :: u128) (ucast (tf_transfer_fee_basis_points tf)) =
        Some (ucast x * ucast (tf_transfer_fee_basis_points tf))"
      using xb by (simp add: checked_mul_def b_def)
    have prod: "unat (ucast x * ucast (tf_transfer_fee_basis_points tf) :: u128) = unat x * b"
      using checked_mul_SomeD [OF mul] by (simp add: b_def)
    have cd: "ceil_div (ucast x * ucast (tf_transfer_fee_basis_points tf)) ONE_IN_BASIS_POINTS =
        Some (of_nat (nceil (unat x * b) 10000))"
      using ceil_div_eq [of ONE_IN_BASIS_POINTS "ucast x * ucast (tf_transfer_fee_basis_points tf)"]
        prod xb by simp
    have "nceil (unat x * b) 10000 < 2 ^ 128"
      using xb by (simp add: nceil_def)
    then show ?thesis
      using nz mul cd by (simp add: calculate_fee_def Let_def u64_try_from_of_nat min_of_nat_u64
          fee_nat_def b_def [symmetric])
  qed
qed

lemma raw_fee_fits:
  assumes "b \<le> 10000"
  shows "nceil (unat (x :: u64) * b) 10000 < 2 ^ 64"
proof -
  have "nceil (unat x * b) 10000 \<le> unat x"
    using assms by (simp add: nceil_le_iff)
  with unat_u64_bound [of x] show ?thesis by linarith
qed

definition valid_rate :: "transfer_fee \<Rightarrow> bool" where
  "valid_rate tf \<longleftrightarrow> tf_transfer_fee_basis_points tf \<le> MAX_FEE_BASIS_POINTS"

lemma valid_rate_nat: "valid_rate tf \<longleftrightarrow> unat (tf_transfer_fee_basis_points tf) \<le> 10000"
  by (simp add: valid_rate_def MAX_FEE_BASIS_POINTS_def word_le_nat_alt)

lemma calculate_fee_valid:
  assumes "valid_rate tf"
  obtains f where "calculate_fee tf x = Some f"
    and "unat f = fee_nat (unat (tf_transfer_fee_basis_points tf)) (unat (tf_maximum_fee tf)) (unat x)"
    and "unat f \<le> unat x"
proof -
  let ?k = "fee_nat (unat (tf_transfer_fee_basis_points tf)) (unat (tf_maximum_fee tf)) (unat x)"
  have b: "unat (tf_transfer_fee_basis_points tf) \<le> 10000"
    using assms by (simp add: valid_rate_nat)
  then have le: "?k \<le> unat x" by (rule fee_nat_le_amount)
  with unat_u64_bound [of x] have "unat (of_nat ?k :: u64) = ?k"
    by (simp add: unat_of_nat)
  with le raw_fee_fits [OF b, of x] show ?thesis
    by (intro that [of "of_nat ?k"]) (simp_all add: calculate_fee_eq Let_def)
qed

lemma calculate_post_fee_valid:
  assumes "valid_rate tf"
  obtains y where "calculate_post_fee_amount tf x = Some y"
    and "unat y = unat x - fee_nat (unat (tf_transfer_fee_basis_points tf)) (unat (tf_maximum_fee tf)) (unat x)"
proof -
  obtain f where f: "calculate_fee tf x = Some f" "unat f \<le> unat x"
    "unat f = fee_nat (unat (tf_transfer_fee_basis_points tf)) (unat (tf_maximum_fee tf)) (unat x)"
    using calculate_fee_valid [OF assms] by blast
  then show ?thesis
    by (intro that [of "x - f"])
      (simp_all add: calculate_post_fee_amount_def checked_sub_def word_le_nat_alt unat_sub)
qed

lemma calculate_pre_fee_eq:
  assumes "0 < unat (tf_transfer_fee_basis_points tf)" "unat (tf_transfer_fee_basis_points tf) < 10000"
    and "y \<noteq> 0"
  shows "calculate_pre_fee_amount tf y =
    (let p = pre_nat (unat (tf_transfer_fee_basis_points tf)) (unat (tf_maximum_fee tf)) (unat y)
     in if p < 2 ^ 64 then Some (of_nat p) else None)"
proof -
  define b where "b = unat (tf_transfer_fee_basis_points tf)"
  define m where "m = tf_maximum_fee tf"
  define raw where "raw = nceil (unat y * 10000) (10000 - b)"
  define w where "w = (ucast (tf_transfer_fee_basis_points tf) :: u128)"
  have w: "unat w = b" by (simp add: w_def b_def)
  have b: "0 < b" "b < 10000" using assms by (simp_all add: b_def)
  have y10: "unat y * 10000 < 2 ^ 64 * 10000" using unat_u64_bound [of y] by simp
  have mul: "checked_mul (ucast y :: u128) ONE_IN_BASIS_POINTS = Some (ucast y * ONE_IN_BASIS_POINTS)"
    using y10 by (simp add: checked_mul_def)
  have num: "unat (ucast y * ONE_IN_BASIS_POINTS :: u128) = unat y * 10000"
    using checked_mul_SomeD [OF mul] by simp
  have sub: "checked_sub ONE_IN_BASIS_POINTS w = Some (ONE_IN_BASIS_POINTS - w)"
    using b w by (simp add: checked_sub_def word_le_nat_alt)
  have den: "unat (ONE_IN_BASIS_POINTS - w) = 10000 - b"
    using checked_sub_SomeD [OF sub] w by simp
  have cd: "ceil_div (ucast y * ONE_IN_BASIS_POINTS) (ONE_IN_BASIS_POINTS - w) = Some (of_nat raw)"
    using ceil_div_eq [of "ONE_IN_BASIS_POINTS - w" "ucast y * ONE_IN_BASIS_POINTS"] num den y10 b
    by (simp add: raw_def)
  have "raw \<le> unat y * 10000"
    unfolding raw_def using b by (auto simp: nceil_le_iff)
  with y10 have rb: "raw < 2 ^ 128" by simp
  then have ur: "unat (of_nat raw :: u128) = raw" by (simp add: unat_of_nat)
  have yr: "unat y \<le> raw" using raw_bounds(1) [OF b(2)] by (simp add: raw_def)
  have dsub: "checked_sub (of_nat raw :: u128) (ucast y) = Some (of_nat raw - ucast y)"
    using yr ur by (simp add: checked_sub_def word_le_nat_alt)
  have ud: "unat (of_nat raw - ucast y :: u128) = raw - unat y"
    using checked_sub_SomeD [OF dsub] ur by simp
  have nz: "w \<noteq> 0" "w \<noteq> ONE_IN_BASIS_POINTS"
    using b w by (auto simp: unat_eq_0 [symmetric])
  show ?thesis
    using nz assms(3) mul sub cd dsub rb
    by (auto simp: calculate_pre_fee_amount_def Let_def w_def [symmetric] m_def [symmetric]
        b_def [symmetric] word_le_nat_alt ud pre_nat_def raw_def [symmetric] u64_try_from_of_nat
        checked_add_def)
qed

text \<open>The same for the two extreme rates: no fee, and 100 percent.\<close>

lemma calculate_pre_fee_cases:
  assumes "valid_rate tf"
  shows "calculate_pre_fee_amount tf y =
    (let b = unat (tf_transfer_fee_basis_points tf); m = unat (tf_maximum_fee tf);
         p = (if b = 0 \<or> y = 0 then unat y else if b = 10000 then unat y + m else pre_nat b m (unat y))
     in if p < 2 ^ 64 then Some (of_nat p) else None)"
proof -
  define b where "b = unat (tf_transfer_fee_basis_points tf)"
  define w where "w = (ucast (tf_transfer_fee_basis_points tf) :: u128)"
  have w: "unat w = b" by (simp add: w_def b_def)
  consider "b = 0" | "b \<noteq> 0" "y = 0" | "b = 10000" "y \<noteq> 0" | "0 < b" "b < 10000" "y \<noteq> 0"
    using assms by (fastforce simp: valid_rate_nat b_def)
  then show ?thesis
  proof cases
    case 1
    then have "w = 0" using w by (simp add: unat_eq_0)
    with 1 unat_u64_bound [of y] show ?thesis
      by (simp add: calculate_pre_fee_amount_def Let_def w_def [symmetric] b_def [symmetric])
  next
    case 2
    then have "w \<noteq> 0" using w by auto
    with 2 show ?thesis
      by (simp add: calculate_pre_fee_amount_def Let_def w_def [symmetric])
  next
    case 3
    then have "w = ONE_IN_BASIS_POINTS" using w by (simp add: word_unat_eq_iff)
    moreover have "w \<noteq> 0" using 3 w by auto
    ultimately have "calculate_pre_fee_amount tf y = checked_add (tf_maximum_fee tf) y"
      using 3 by (simp add: calculate_pre_fee_amount_def Let_def w_def [symmetric])
    also have "\<dots> = checked_add y (tf_maximum_fee tf)"
      by (simp only: checked_add_def add.commute)
    finally show ?thesis
      using 3 by (simp add: Let_def b_def [symmetric] checked_add_def)
  next
    case 4
    then show ?thesis
      using calculate_pre_fee_eq [of tf y] by (simp add: Let_def b_def)
  qed
qed

definition pre_fee_nat :: "nat \<Rightarrow> nat \<Rightarrow> nat \<Rightarrow> nat" where
  "pre_fee_nat b m y = (if b = 0 \<or> y = 0 then y else if b = 10000 then y + m else pre_nat b m y)"

lemma calculate_pre_fee_nat:
  assumes "valid_rate tf"
  shows "calculate_pre_fee_amount tf y = Some p \<longleftrightarrow>
     unat p = pre_fee_nat (unat (tf_transfer_fee_basis_points tf)) (unat (tf_maximum_fee tf)) (unat y)"
proof -
  let ?k = "pre_fee_nat (unat (tf_transfer_fee_basis_points tf)) (unat (tf_maximum_fee tf)) (unat y)"
  have eq: "calculate_pre_fee_amount tf y = (if ?k < 2 ^ 64 then Some (of_nat ?k) else None)"
    using calculate_pre_fee_cases [OF assms, of y]
    by (simp only: pre_fee_nat_def Let_def unat_eq_0)
  show ?thesis
  proof (cases "?k < 2 ^ 64")
    case True
    then have "unat (of_nat ?k :: u64) = ?k" by (simp add: unat_of_nat)
    with True eq show ?thesis by (metis option.inject word_unat_eq_iff)
  next
    case False
    with eq unat_u64_bound [of p] show ?thesis by auto
  qed
qed

lemma nceil_mult_self: "nceil (x * 10000) 10000 = x"
  by (simp add: nceil_def)

lemma pre_fee_nat_inverse:
  assumes "b \<le> 10000"
  shows "pre_fee_nat b m y - fee_nat b m (pre_fee_nat b m y) = y"
proof -
  consider "b = 0 \<or> y = 0" | "b = 10000" "y \<noteq> 0" | "0 < b" "b < 10000" "y \<noteq> 0"
    using assms by fastforce
  then show ?thesis
  proof cases
    case 1
    then show ?thesis by (auto simp: pre_fee_nat_def fee_nat_def)
  next
    case 2
    then show ?thesis
      using nceil_mult_self [of "y + m"] by (simp add: pre_fee_nat_def fee_nat_def)
  next
    case 3
    then show ?thesis by (simp add: pre_fee_nat_def pre_nat_inverse)
  qed
qed

lemma pre_fee_nat_minimal:
  assumes "b \<le> 10000" and "x - fee_nat b m x = y"
  shows "pre_fee_nat b m y \<le> x"
proof -
  consider "b = 0 \<or> y = 0" | "b = 10000" "y \<noteq> 0" | "0 < b" "b < 10000" "y \<noteq> 0"
    using assms by fastforce
  then show ?thesis
  proof cases
    case 1
    then show ?thesis using assms by (auto simp: pre_fee_nat_def)
  next
    case 2
    then show ?thesis using assms by (auto simp: pre_fee_nat_def fee_nat_def nceil_mult_self min_def)
  next
    case 3
    then show ?thesis using assms by (simp add: pre_fee_nat_def pre_nat_minimal)
  qed
qed

section \<open>Properties\<close>

text \<open>
  C17. For a rate of at most 100 percent the fee is defined for every amount, is the rate times the
  amount divided by 10,000 and rounded up, capped by the maximum fee, and never exceeds the amount.
\<close>

theorem calculate_fee_spec:
  assumes "tf_transfer_fee_basis_points tf \<le> MAX_FEE_BASIS_POINTS"
  shows "\<exists>fee. calculate_fee tf amount = Some fee \<and>
      unat fee = min ((unat amount * unat (tf_transfer_fee_basis_points tf) + 9999) div 10000)
                     (unat (tf_maximum_fee tf)) \<and>
      fee \<le> amount"
proof -
  have "valid_rate tf" using assms by (simp add: valid_rate_def)
  then obtain fee where fee: "calculate_fee tf amount = Some fee" "unat fee \<le> unat amount"
    "unat fee = fee_nat (unat (tf_transfer_fee_basis_points tf)) (unat (tf_maximum_fee tf)) (unat amount)"
    by (rule calculate_fee_valid [of tf amount])
  then show ?thesis
    by (intro exI [of _ fee]) (simp add: fee_nat_def nceil_def word_le_nat_alt)
qed

theorem calculate_fee_spec_witness:
  "\<exists>fee. calculate_fee \<lparr>tf_epoch = 0, tf_maximum_fee = 1000, tf_transfer_fee_basis_points = 250\<rparr> 101 = Some fee \<and>
     unat fee = 3 \<and> fee \<le> 101"
proof -
  let ?tf = "\<lparr>tf_epoch = 0, tf_maximum_fee = 1000, tf_transfer_fee_basis_points = 250\<rparr> :: transfer_fee"
  have "tf_transfer_fee_basis_points ?tf \<le> MAX_FEE_BASIS_POINTS"
    by (simp add: MAX_FEE_BASIS_POINTS_def)
  from calculate_fee_spec [OF this, of 101] show ?thesis by simp
qed

text \<open>
  C18. \<open>calculate_pre_fee_amount\<close> inverts the fee: transferring the amount it returns leaves exactly
  the requested net amount, and no smaller amount does. (The code's comment promises both.)
\<close>

theorem calculate_pre_fee_amount_least_inverse:
  assumes "tf_transfer_fee_basis_points tf \<le> MAX_FEE_BASIS_POINTS"
    and "calculate_pre_fee_amount tf net = Some pre"
  shows "calculate_post_fee_amount tf pre = Some net \<and>
    (\<forall>amount. calculate_post_fee_amount tf amount = Some net \<longrightarrow> pre \<le> amount)"
proof -
  let ?b = "unat (tf_transfer_fee_basis_points tf)" and ?m = "unat (tf_maximum_fee tf)"
  have v: "valid_rate tf" and b: "?b \<le> 10000"
    using assms(1) valid_rate_nat [of tf] by (simp_all add: valid_rate_def)
  have p: "unat pre = pre_fee_nat ?b ?m (unat net)"
    using assms(2) v by (simp add: calculate_pre_fee_nat)
  have post: "calculate_post_fee_amount tf x = Some y \<longleftrightarrow> unat y = unat x - fee_nat ?b ?m (unat x)"
    for x y
  proof -
    obtain y' where "calculate_post_fee_amount tf x = Some y'"
      "unat y' = unat x - fee_nat ?b ?m (unat x)"
      by (rule calculate_post_fee_valid [OF v])
    then show ?thesis by (metis option.inject word_unat_eq_iff)
  qed
  have "calculate_post_fee_amount tf pre = Some net"
    unfolding post p by (rule pre_fee_nat_inverse [OF b, symmetric])
  moreover have "pre \<le> amount" if "calculate_post_fee_amount tf amount = Some net" for amount
    using that unfolding post word_le_nat_alt p by (intro pre_fee_nat_minimal [OF b]) simp
  ultimately show ?thesis by blast
qed

theorem calculate_pre_fee_amount_least_inverse_witness:
  "calculate_pre_fee_amount \<lparr>tf_epoch = 0, tf_maximum_fee = 5000, tf_transfer_fee_basis_points = 1000\<rparr> 9 = Some 10 \<and>
   calculate_post_fee_amount \<lparr>tf_epoch = 0, tf_maximum_fee = 5000, tf_transfer_fee_basis_points = 1000\<rparr> 10 = Some 9"
proof -
  let ?tf = "\<lparr>tf_epoch = 0, tf_maximum_fee = 5000, tf_transfer_fee_basis_points = 1000\<rparr> :: transfer_fee"
  have r: "tf_transfer_fee_basis_points ?tf \<le> MAX_FEE_BASIS_POINTS"
    by (simp add: MAX_FEE_BASIS_POINTS_def)
  have p: "calculate_pre_fee_amount ?tf 9 = Some 10"
    by (simp add: calculate_pre_fee_amount_def ONE_IN_BASIS_POINTS_def MAX_FEE_BASIS_POINTS_def
        ceil_div_def checked_add_def checked_sub_def checked_mul_def checked_div_def u64_try_from_def
        word_le_nat_alt)
  from calculate_pre_fee_amount_least_inverse [OF r p] p show ?thesis by blast
qed

text \<open>
  The relationship documented for \<open>calculate_inverse_fee\<close>: the fee recomputed from a net amount
  never exceeds the fee that was charged, and it is always defined.
\<close>

theorem calculate_inverse_fee_le:
  assumes "tf_transfer_fee_basis_points tf \<le> MAX_FEE_BASIS_POINTS"
  shows "\<exists>fee net inv. calculate_fee tf amount = Some fee \<and> calculate_post_fee_amount tf amount = Some net \<and>
    calculate_inverse_fee tf net = Some inv \<and> inv \<le> fee"
proof -
  let ?b = "unat (tf_transfer_fee_basis_points tf)" and ?m = "unat (tf_maximum_fee tf)"
  have v: "valid_rate tf" and b: "?b \<le> 10000"
    using assms valid_rate_nat [of tf] by (simp_all add: valid_rate_def)
  obtain fee where fee: "calculate_fee tf amount = Some fee" "unat fee = fee_nat ?b ?m (unat amount)"
    using calculate_fee_valid [OF v] by blast
  obtain net where net: "calculate_post_fee_amount tf amount = Some net"
    "unat net = unat amount - fee_nat ?b ?m (unat amount)"
    using calculate_post_fee_valid [OF v] by blast
  define k where "k = pre_fee_nat ?b ?m (unat net)"
  have k: "k \<le> unat amount"
    unfolding k_def using b net(2) by (intro pre_fee_nat_minimal) simp_all
  with unat_u64_bound [of amount] have uk: "unat (of_nat k :: u64) = k" by (simp add: unat_of_nat)
  then have pre: "calculate_pre_fee_amount tf net = Some (of_nat k)"
    using v by (simp add: calculate_pre_fee_nat k_def)
  obtain inv where inv: "calculate_fee tf (of_nat k) = Some inv" "unat inv = fee_nat ?b ?m k"
    using calculate_fee_valid [OF v, of "of_nat k"] uk by metis
  have "inv \<le> fee"
    using fee_nat_mono [OF k] inv(2) fee(2) by (simp add: word_le_nat_alt)
  then show ?thesis
    using fee(1) net(1) pre inv(1) by (auto simp: calculate_inverse_fee_def)
qed

theorem calculate_inverse_fee_le_witness:
  "\<exists>fee net inv. calculate_fee \<lparr>tf_epoch = 0, tf_maximum_fee = 5000, tf_transfer_fee_basis_points = 1000\<rparr> 11 = Some fee \<and>
     calculate_post_fee_amount \<lparr>tf_epoch = 0, tf_maximum_fee = 5000, tf_transfer_fee_basis_points = 1000\<rparr> 11 = Some net \<and>
     calculate_inverse_fee \<lparr>tf_epoch = 0, tf_maximum_fee = 5000, tf_transfer_fee_basis_points = 1000\<rparr> net = Some inv \<and> inv \<le> fee"
proof -
  let ?tf = "\<lparr>tf_epoch = 0, tf_maximum_fee = 5000, tf_transfer_fee_basis_points = 1000\<rparr> :: transfer_fee"
  have "tf_transfer_fee_basis_points ?tf \<le> MAX_FEE_BASIS_POINTS"
    by (simp add: MAX_FEE_BASIS_POINTS_def)
  then show ?thesis by (rule calculate_inverse_fee_le)
qed

end
