(* ===== verification/Extension_Data.thy ===== *)
theory Extension_Data
  imports Tlv Transfer_Fee
begin

text \<open>
  The extension structs (interface/src/extension/*): each is a record of its fields together with
  its \<open>repr(C)\<close> layout, its \<open>ExtensionType\<close> and its default, bundled as a value of type
  \<open>'v extension\<close>, the model of the traits \<open>Extension + Pod + Default\<close>. The locale
  \<open>extension_contract\<close> extends \<open>pod_codec\<close>; every struct interprets it, and the typed
  accessors \<open>get_extension\<close>, \<open>put_extension\<close> (a write through \<open>get_extension_mut\<close>) and
  \<open>init_extension\<close> get their laws from it once.
\<close>

section \<open>The Extension trait and the typed accessors\<close>

record 'v extension =
  vx_type :: extension_type
  vx_len :: nat
  vx_to_bytes :: "'v \<Rightarrow> bytes"
  vx_of_bytes :: "bytes \<Rightarrow> 'v"
  vx_default :: 'v

definition get_extension :: "account_type \<Rightarrow> 'v extension \<Rightarrow> bytes \<Rightarrow> 'v result" where
  "get_extension at V tlv =
     bindr (get_extension_bytes at (vx_type V) tlv) (\<lambda>bs.
     if length bs = vx_len V then Inr (vx_of_bytes V bs) else Inl InvalidArgument)"

text \<open>Storing a value through the reference that \<open>get_extension_mut\<close> or \<open>init_extension\<close> returned.\<close>

definition put_extension :: "account_type \<Rightarrow> 'v extension \<Rightarrow> 'v \<Rightarrow> bytes \<Rightarrow> bytes result" where
  "put_extension at V v tlv = put_extension_bytes at (vx_type V) (vx_to_bytes V v) tlv"

definition init_extension :: "account_type \<Rightarrow> 'v extension \<Rightarrow> bool \<Rightarrow> bytes \<Rightarrow> bytes result" where
  "init_extension at V overwrite tlv =
     bindr (alloc at (vx_type V) (vx_len V) overwrite tlv) (\<lambda>(tlv1, i).
     Inr (patch i (vx_to_bytes V (vx_default V)) tlv1))"

definition try_get_new_account_len :: "account_type \<Rightarrow> 'v extension \<Rightarrow> bytes \<Rightarrow> nat result" where
  "try_get_new_account_len at V tlv =
     try_get_new_account_len_for_extension_len at (vx_type V) tlv (vx_len V)"

locale extension_contract = pod_codec "vx_len V" "vx_to_bytes V" "vx_of_bytes V"
  for V :: "'v extension" +
  assumes type_not_uninitialized: "vx_type V \<noteq> ExtUninitialized"
begin

lemma put_get_same:
  assumes "put_extension at V v tlv = Inr tlv'" and "at \<noteq> AtUninitialized"
  shows "get_extension at V tlv' = Inr v"
  using get_put_extension_bytes_same [OF assms [unfolded put_extension_def]]
  by (simp add: get_extension_def length_to_bytes of_to_bytes)

lemma put_defined:
  assumes "get_extension at V tlv = Inr w"
  shows "\<exists>tlv'. put_extension at V v tlv = Inr tlv'"
proof -
  obtain bs where "get_extension_bytes at (vx_type V) tlv = Inr bs" "length bs = vx_len V"
    using assms by (auto simp: get_extension_def result_simps(1) split: if_splits)
  then show ?thesis
    unfolding put_extension_def by (intro put_extension_bytes_defined) (auto simp: length_to_bytes)
qed

lemma init_get_same:
  assumes "init_extension at V ow tlv = Inr tlv'" and "at \<noteq> AtUninitialized"
  shows "get_extension at V tlv' = Inr (vx_default V)"
proof -
  obtain tlv1 i where al: "alloc at (vx_type V) (length (vx_to_bytes V (vx_default V))) ow tlv = Inr (tlv1, i)"
    and tlv': "tlv' = patch i (vx_to_bytes V (vx_default V)) tlv1"
    using assms(1) by (auto simp: init_extension_def result_simps(1) length_to_bytes)
  from alloc_get_same [OF al assms(2)] tlv' show ?thesis
    by (simp add: get_extension_def length_to_bytes of_to_bytes)
qed

lemma init_put_defined:
  assumes "init_extension at V ow tlv = Inr tlv'" and "at \<noteq> AtUninitialized"
  shows "\<exists>tlv2. put_extension at V v tlv' = Inr tlv2"
  using init_get_same [OF assms] by (rule put_defined)

lemma init_length:
  assumes "init_extension at V ow tlv = Inr tlv'" and "at \<noteq> AtUninitialized"
  shows "length tlv' = length tlv"
proof -
  obtain tlv1 i where al: "alloc at (vx_type V) (length (vx_to_bytes V (vx_default V))) ow tlv = Inr (tlv1, i)"
    and tlv': "tlv' = patch i (vx_to_bytes V (vx_default V)) tlv1"
    using assms(1) by (auto simp: init_extension_def result_simps(1) length_to_bytes)
  from al assms(2) show ?thesis
    by (rule alloc_Inr) (simp add: tlv' length_to_bytes)
qed

lemma init_other:
  assumes "init_extension at V ow tlv = Inr tlv'" and "at \<noteq> AtUninitialized"
    and "vx_type W \<noteq> vx_type V" "vx_type W \<noteq> ExtUninitialized" and "get_extension at W tlv = Inr w"
  shows "get_extension at W tlv' = Inr w"
proof -
  obtain tlv1 i where al: "alloc at (vx_type V) (length (vx_to_bytes V (vx_default V))) ow tlv = Inr (tlv1, i)"
    and tlv': "tlv' = patch i (vx_to_bytes V (vx_default V)) tlv1"
    using assms(1) by (auto simp: init_extension_def result_simps(1) length_to_bytes)
  obtain bs where "get_extension_bytes at (vx_type W) tlv = Inr bs"
    using assms(5) by (auto simp: get_extension_def result_simps(1))
  from alloc_get_other [OF al assms(2-4) this] this assms(5) show ?thesis
    by (simp add: tlv' get_extension_def)
qed

end

text \<open>Writing one extension leaves the others alone.\<close>

lemma put_get_other:
  assumes "put_extension at V v tlv = Inr tlv'" and "at \<noteq> AtUninitialized" and "vx_type W \<noteq> vx_type V"
  shows "get_extension at' W tlv' = get_extension at' W tlv"
  using get_put_extension_bytes_other [OF assms(1) [unfolded put_extension_def] assms(2,3)]
  by (simp add: get_extension_def)

lemma put_extension_length: "put_extension at V v tlv = Inr tlv' \<Longrightarrow> length tlv' = length tlv"
  unfolding put_extension_def by (rule length_put_extension_bytes)

section \<open>Layouts\<close>

definition transfer_fee_to_bytes :: "transfer_fee \<Rightarrow> bytes" where
  "transfer_fee_to_bytes f =
     le_bytes 8 (tf_epoch f) @ le_bytes 8 (tf_maximum_fee f) @ le_bytes 2 (tf_transfer_fee_basis_points f)"

definition transfer_fee_of_bytes :: "bytes \<Rightarrow> transfer_fee" where
  "transfer_fee_of_bytes bs =
     \<lparr>tf_epoch = of_le (seg 0 8 bs), tf_maximum_fee = of_le (seg 8 8 bs),
      tf_transfer_fee_basis_points = of_le (seg 16 2 bs)\<rparr>"

lemma length_transfer_fee_to_bytes [simp]: "length (transfer_fee_to_bytes f) = 18"
  by (simp add: transfer_fee_to_bytes_def)

lemma transfer_fee_of_to_bytes [codec_simps]: "transfer_fee_of_bytes (transfer_fee_to_bytes f) = f"
  by (simp add: transfer_fee_of_bytes_def transfer_fee_to_bytes_def codec_simps)

lemma transfer_fee_to_of_bytes [codec_simps]:
  "length bs = 18 \<Longrightarrow> transfer_fee_to_bytes (transfer_fee_of_bytes bs) = bs"
  by (simp add: transfer_fee_of_bytes_def transfer_fee_to_bytes_def codec_simps seg_joins)

definition transfer_fee_config_ext :: "transfer_fee_config extension" where
  "transfer_fee_config_ext =
     \<lparr>vx_type = TransferFeeConfig, vx_len = 108,
      vx_to_bytes = (\<lambda>x. le_bytes 32 (tfc_transfer_fee_config_authority x) @
        le_bytes 32 (tfc_withdraw_withheld_authority x) @
        le_bytes 8 (tfc_withheld_amount x) @
        transfer_fee_to_bytes (tfc_older_transfer_fee x) @
        transfer_fee_to_bytes (tfc_newer_transfer_fee x)),
      vx_of_bytes = (\<lambda>bs. \<lparr>tfc_transfer_fee_config_authority = of_le (seg 0 32 bs),
        tfc_withdraw_withheld_authority = of_le (seg 32 32 bs),
        tfc_withheld_amount = of_le (seg 64 8 bs),
        tfc_older_transfer_fee = transfer_fee_of_bytes (seg 72 18 bs),
        tfc_newer_transfer_fee = transfer_fee_of_bytes (seg 90 18 bs)\<rparr>),
      vx_default = \<lparr>tfc_transfer_fee_config_authority = 0, tfc_withdraw_withheld_authority = 0, tfc_withheld_amount = 0, tfc_older_transfer_fee = \<lparr>tf_epoch = 0, tf_maximum_fee = 0, tf_transfer_fee_basis_points = 0\<rparr>, tfc_newer_transfer_fee = \<lparr>tf_epoch = 0, tf_maximum_fee = 0, tf_transfer_fee_basis_points = 0\<rparr>\<rparr>\<rparr>"

definition transfer_fee_amount_ext :: "transfer_fee_amount extension" where
  "transfer_fee_amount_ext =
     \<lparr>vx_type = TransferFeeAmount, vx_len = 8,
      vx_to_bytes = (\<lambda>x. le_bytes 8 (tfa_withheld_amount x)),
      vx_of_bytes = (\<lambda>bs. \<lparr>tfa_withheld_amount = of_le (seg 0 8 bs)\<rparr>),
      vx_default = \<lparr>tfa_withheld_amount = 0\<rparr>\<rparr>"

record mint_close_authority =
  mca_close_authority :: address

definition mint_close_authority_ext :: "mint_close_authority extension" where
  "mint_close_authority_ext =
     \<lparr>vx_type = MintCloseAuthority, vx_len = 32,
      vx_to_bytes = (\<lambda>x. le_bytes 32 (mca_close_authority x)),
      vx_of_bytes = (\<lambda>bs. \<lparr>mca_close_authority = of_le (seg 0 32 bs)\<rparr>),
      vx_default = \<lparr>mca_close_authority = 0\<rparr>\<rparr>"

record confidential_transfer_mint =
  ctm_authority :: address
  ctm_auto_approve_new_accounts :: u8
  ctm_auditor_elgamal_pubkey :: address

definition confidential_transfer_mint_ext :: "confidential_transfer_mint extension" where
  "confidential_transfer_mint_ext =
     \<lparr>vx_type = ConfidentialTransferMint, vx_len = 65,
      vx_to_bytes = (\<lambda>x. le_bytes 32 (ctm_authority x) @
        le_bytes 1 (ctm_auto_approve_new_accounts x) @
        le_bytes 32 (ctm_auditor_elgamal_pubkey x)),
      vx_of_bytes = (\<lambda>bs. \<lparr>ctm_authority = of_le (seg 0 32 bs),
        ctm_auto_approve_new_accounts = of_le (seg 32 1 bs),
        ctm_auditor_elgamal_pubkey = of_le (seg 33 32 bs)\<rparr>),
      vx_default = \<lparr>ctm_authority = 0, ctm_auto_approve_new_accounts = 0, ctm_auditor_elgamal_pubkey = 0\<rparr>\<rparr>"

record confidential_transfer_account =
  cta_approved :: u8
  cta_elgamal_pubkey :: address
  cta_pending_balance_lo :: "512 word"
  cta_pending_balance_hi :: "512 word"
  cta_available_balance :: "512 word"
  cta_decryptable_available_balance :: "288 word"
  cta_allow_confidential_credits :: u8
  cta_allow_non_confidential_credits :: u8
  cta_pending_balance_credit_counter :: u64
  cta_maximum_pending_balance_credit_counter :: u64
  cta_expected_pending_balance_credit_counter :: u64
  cta_actual_pending_balance_credit_counter :: u64

definition confidential_transfer_account_ext :: "confidential_transfer_account extension" where
  "confidential_transfer_account_ext =
     \<lparr>vx_type = ConfidentialTransferAccount, vx_len = 295,
      vx_to_bytes = (\<lambda>x. le_bytes 1 (cta_approved x) @
        le_bytes 32 (cta_elgamal_pubkey x) @
        le_bytes 64 (cta_pending_balance_lo x) @
        le_bytes 64 (cta_pending_balance_hi x) @
        le_bytes 64 (cta_available_balance x) @
        le_bytes 36 (cta_decryptable_available_balance x) @
        le_bytes 1 (cta_allow_confidential_credits x) @
        le_bytes 1 (cta_allow_non_confidential_credits x) @
        le_bytes 8 (cta_pending_balance_credit_counter x) @
        le_bytes 8 (cta_maximum_pending_balance_credit_counter x) @
        le_bytes 8 (cta_expected_pending_balance_credit_counter x) @
        le_bytes 8 (cta_actual_pending_balance_credit_counter x)),
      vx_of_bytes = (\<lambda>bs. \<lparr>cta_approved = of_le (seg 0 1 bs),
        cta_elgamal_pubkey = of_le (seg 1 32 bs),
        cta_pending_balance_lo = of_le (seg 33 64 bs),
        cta_pending_balance_hi = of_le (seg 97 64 bs),
        cta_available_balance = of_le (seg 161 64 bs),
        cta_decryptable_available_balance = of_le (seg 225 36 bs),
        cta_allow_confidential_credits = of_le (seg 261 1 bs),
        cta_allow_non_confidential_credits = of_le (seg 262 1 bs),
        cta_pending_balance_credit_counter = of_le (seg 263 8 bs),
        cta_maximum_pending_balance_credit_counter = of_le (seg 271 8 bs),
        cta_expected_pending_balance_credit_counter = of_le (seg 279 8 bs),
        cta_actual_pending_balance_credit_counter = of_le (seg 287 8 bs)\<rparr>),
      vx_default = \<lparr>cta_approved = 0, cta_elgamal_pubkey = 0, cta_pending_balance_lo = 0, cta_pending_balance_hi = 0, cta_available_balance = 0, cta_decryptable_available_balance = 0, cta_allow_confidential_credits = 0, cta_allow_non_confidential_credits = 0, cta_pending_balance_credit_counter = 0, cta_maximum_pending_balance_credit_counter = 0, cta_expected_pending_balance_credit_counter = 0, cta_actual_pending_balance_credit_counter = 0\<rparr>\<rparr>"

record default_account_state =
  das_state :: u8

definition default_account_state_ext :: "default_account_state extension" where
  "default_account_state_ext =
     \<lparr>vx_type = DefaultAccountState, vx_len = 1,
      vx_to_bytes = (\<lambda>x. le_bytes 1 (das_state x)),
      vx_of_bytes = (\<lambda>bs. \<lparr>das_state = of_le (seg 0 1 bs)\<rparr>),
      vx_default = \<lparr>das_state = 0\<rparr>\<rparr>"

record memo_transfer =
  mt_require_incoming_transfer_memos :: u8

definition memo_transfer_ext :: "memo_transfer extension" where
  "memo_transfer_ext =
     \<lparr>vx_type = MemoTransfer, vx_len = 1,
      vx_to_bytes = (\<lambda>x. le_bytes 1 (mt_require_incoming_transfer_memos x)),
      vx_of_bytes = (\<lambda>bs. \<lparr>mt_require_incoming_transfer_memos = of_le (seg 0 1 bs)\<rparr>),
      vx_default = \<lparr>mt_require_incoming_transfer_memos = 0\<rparr>\<rparr>"

record interest_bearing_config =
  ib_rate_authority :: address
  ib_initialization_timestamp :: u64
  ib_pre_update_average_rate :: u16
  ib_last_update_timestamp :: u64
  ib_current_rate :: u16

definition interest_bearing_config_ext :: "interest_bearing_config extension" where
  "interest_bearing_config_ext =
     \<lparr>vx_type = InterestBearingConfig, vx_len = 52,
      vx_to_bytes = (\<lambda>x. le_bytes 32 (ib_rate_authority x) @
        le_bytes 8 (ib_initialization_timestamp x) @
        le_bytes 2 (ib_pre_update_average_rate x) @
        le_bytes 8 (ib_last_update_timestamp x) @
        le_bytes 2 (ib_current_rate x)),
      vx_of_bytes = (\<lambda>bs. \<lparr>ib_rate_authority = of_le (seg 0 32 bs),
        ib_initialization_timestamp = of_le (seg 32 8 bs),
        ib_pre_update_average_rate = of_le (seg 40 2 bs),
        ib_last_update_timestamp = of_le (seg 42 8 bs),
        ib_current_rate = of_le (seg 50 2 bs)\<rparr>),
      vx_default = \<lparr>ib_rate_authority = 0, ib_initialization_timestamp = 0, ib_pre_update_average_rate = 0, ib_last_update_timestamp = 0, ib_current_rate = 0\<rparr>\<rparr>"

record cpi_guard =
  cg_lock_cpi :: u8

definition cpi_guard_ext :: "cpi_guard extension" where
  "cpi_guard_ext =
     \<lparr>vx_type = CpiGuard, vx_len = 1,
      vx_to_bytes = (\<lambda>x. le_bytes 1 (cg_lock_cpi x)),
      vx_of_bytes = (\<lambda>bs. \<lparr>cg_lock_cpi = of_le (seg 0 1 bs)\<rparr>),
      vx_default = \<lparr>cg_lock_cpi = 0\<rparr>\<rparr>"

record permanent_delegate =
  pd_delegate :: address

definition permanent_delegate_ext :: "permanent_delegate extension" where
  "permanent_delegate_ext =
     \<lparr>vx_type = PermanentDelegate, vx_len = 32,
      vx_to_bytes = (\<lambda>x. le_bytes 32 (pd_delegate x)),
      vx_of_bytes = (\<lambda>bs. \<lparr>pd_delegate = of_le (seg 0 32 bs)\<rparr>),
      vx_default = \<lparr>pd_delegate = 0\<rparr>\<rparr>"

record transfer_hook =
  th_authority :: address
  th_program_id :: address

definition transfer_hook_ext :: "transfer_hook extension" where
  "transfer_hook_ext =
     \<lparr>vx_type = TransferHook, vx_len = 64,
      vx_to_bytes = (\<lambda>x. le_bytes 32 (th_authority x) @
        le_bytes 32 (th_program_id x)),
      vx_of_bytes = (\<lambda>bs. \<lparr>th_authority = of_le (seg 0 32 bs),
        th_program_id = of_le (seg 32 32 bs)\<rparr>),
      vx_default = \<lparr>th_authority = 0, th_program_id = 0\<rparr>\<rparr>"

record transfer_hook_account =
  tha_transferring :: u8

definition transfer_hook_account_ext :: "transfer_hook_account extension" where
  "transfer_hook_account_ext =
     \<lparr>vx_type = TransferHookAccount, vx_len = 1,
      vx_to_bytes = (\<lambda>x. le_bytes 1 (tha_transferring x)),
      vx_of_bytes = (\<lambda>bs. \<lparr>tha_transferring = of_le (seg 0 1 bs)\<rparr>),
      vx_default = \<lparr>tha_transferring = 0\<rparr>\<rparr>"

record confidential_transfer_fee_config =
  ctfc_authority :: address
  ctfc_withdraw_withheld_authority_elgamal_pubkey :: address
  ctfc_harvest_to_mint_enabled :: u8
  ctfc_withheld_amount :: "512 word"

definition confidential_transfer_fee_config_ext :: "confidential_transfer_fee_config extension" where
  "confidential_transfer_fee_config_ext =
     \<lparr>vx_type = ConfidentialTransferFeeConfig, vx_len = 129,
      vx_to_bytes = (\<lambda>x. le_bytes 32 (ctfc_authority x) @
        le_bytes 32 (ctfc_withdraw_withheld_authority_elgamal_pubkey x) @
        le_bytes 1 (ctfc_harvest_to_mint_enabled x) @
        le_bytes 64 (ctfc_withheld_amount x)),
      vx_of_bytes = (\<lambda>bs. \<lparr>ctfc_authority = of_le (seg 0 32 bs),
        ctfc_withdraw_withheld_authority_elgamal_pubkey = of_le (seg 32 32 bs),
        ctfc_harvest_to_mint_enabled = of_le (seg 64 1 bs),
        ctfc_withheld_amount = of_le (seg 65 64 bs)\<rparr>),
      vx_default = \<lparr>ctfc_authority = 0, ctfc_withdraw_withheld_authority_elgamal_pubkey = 0, ctfc_harvest_to_mint_enabled = 0, ctfc_withheld_amount = 0\<rparr>\<rparr>"

record confidential_transfer_fee_amount =
  ctfa_withheld_amount :: "512 word"

definition confidential_transfer_fee_amount_ext :: "confidential_transfer_fee_amount extension" where
  "confidential_transfer_fee_amount_ext =
     \<lparr>vx_type = ConfidentialTransferFeeAmount, vx_len = 64,
      vx_to_bytes = (\<lambda>x. le_bytes 64 (ctfa_withheld_amount x)),
      vx_of_bytes = (\<lambda>bs. \<lparr>ctfa_withheld_amount = of_le (seg 0 64 bs)\<rparr>),
      vx_default = \<lparr>ctfa_withheld_amount = 0\<rparr>\<rparr>"

record metadata_pointer =
  mp_authority :: address
  mp_metadata_address :: address

definition metadata_pointer_ext :: "metadata_pointer extension" where
  "metadata_pointer_ext =
     \<lparr>vx_type = MetadataPointer, vx_len = 64,
      vx_to_bytes = (\<lambda>x. le_bytes 32 (mp_authority x) @
        le_bytes 32 (mp_metadata_address x)),
      vx_of_bytes = (\<lambda>bs. \<lparr>mp_authority = of_le (seg 0 32 bs),
        mp_metadata_address = of_le (seg 32 32 bs)\<rparr>),
      vx_default = \<lparr>mp_authority = 0, mp_metadata_address = 0\<rparr>\<rparr>"

record group_pointer =
  gp_authority :: address
  gp_group_address :: address

definition group_pointer_ext :: "group_pointer extension" where
  "group_pointer_ext =
     \<lparr>vx_type = GroupPointer, vx_len = 64,
      vx_to_bytes = (\<lambda>x. le_bytes 32 (gp_authority x) @
        le_bytes 32 (gp_group_address x)),
      vx_of_bytes = (\<lambda>bs. \<lparr>gp_authority = of_le (seg 0 32 bs),
        gp_group_address = of_le (seg 32 32 bs)\<rparr>),
      vx_default = \<lparr>gp_authority = 0, gp_group_address = 0\<rparr>\<rparr>"

record group_member_pointer =
  gmp_authority :: address
  gmp_member_address :: address

definition group_member_pointer_ext :: "group_member_pointer extension" where
  "group_member_pointer_ext =
     \<lparr>vx_type = GroupMemberPointer, vx_len = 64,
      vx_to_bytes = (\<lambda>x. le_bytes 32 (gmp_authority x) @
        le_bytes 32 (gmp_member_address x)),
      vx_of_bytes = (\<lambda>bs. \<lparr>gmp_authority = of_le (seg 0 32 bs),
        gmp_member_address = of_le (seg 32 32 bs)\<rparr>),
      vx_default = \<lparr>gmp_authority = 0, gmp_member_address = 0\<rparr>\<rparr>"

record confidential_mint_burn =
  cmb_confidential_supply :: "512 word"
  cmb_decryptable_supply :: "288 word"
  cmb_supply_elgamal_pubkey :: address
  cmb_pending_burn :: "512 word"

definition confidential_mint_burn_ext :: "confidential_mint_burn extension" where
  "confidential_mint_burn_ext =
     \<lparr>vx_type = ConfidentialMintBurn, vx_len = 196,
      vx_to_bytes = (\<lambda>x. le_bytes 64 (cmb_confidential_supply x) @
        le_bytes 36 (cmb_decryptable_supply x) @
        le_bytes 32 (cmb_supply_elgamal_pubkey x) @
        le_bytes 64 (cmb_pending_burn x)),
      vx_of_bytes = (\<lambda>bs. \<lparr>cmb_confidential_supply = of_le (seg 0 64 bs),
        cmb_decryptable_supply = of_le (seg 64 36 bs),
        cmb_supply_elgamal_pubkey = of_le (seg 100 32 bs),
        cmb_pending_burn = of_le (seg 132 64 bs)\<rparr>),
      vx_default = \<lparr>cmb_confidential_supply = 0, cmb_decryptable_supply = 0, cmb_supply_elgamal_pubkey = 0, cmb_pending_burn = 0\<rparr>\<rparr>"

record scaled_ui_amount_config =
  su_authority :: address
  su_multiplier :: u64
  su_new_multiplier_effective_timestamp :: u64
  su_new_multiplier :: u64

definition scaled_ui_amount_config_ext :: "scaled_ui_amount_config extension" where
  "scaled_ui_amount_config_ext =
     \<lparr>vx_type = ScaledUiAmount, vx_len = 56,
      vx_to_bytes = (\<lambda>x. le_bytes 32 (su_authority x) @
        le_bytes 8 (su_multiplier x) @
        le_bytes 8 (su_new_multiplier_effective_timestamp x) @
        le_bytes 8 (su_new_multiplier x)),
      vx_of_bytes = (\<lambda>bs. \<lparr>su_authority = of_le (seg 0 32 bs),
        su_multiplier = of_le (seg 32 8 bs),
        su_new_multiplier_effective_timestamp = of_le (seg 40 8 bs),
        su_new_multiplier = of_le (seg 48 8 bs)\<rparr>),
      vx_default = \<lparr>su_authority = 0, su_multiplier = 0, su_new_multiplier_effective_timestamp = 0, su_new_multiplier = 0\<rparr>\<rparr>"

record pausable_config =
  pc_authority :: address
  pc_paused :: u8

definition pausable_config_ext :: "pausable_config extension" where
  "pausable_config_ext =
     \<lparr>vx_type = Pausable, vx_len = 33,
      vx_to_bytes = (\<lambda>x. le_bytes 32 (pc_authority x) @
        le_bytes 1 (pc_paused x)),
      vx_of_bytes = (\<lambda>bs. \<lparr>pc_authority = of_le (seg 0 32 bs),
        pc_paused = of_le (seg 32 1 bs)\<rparr>),
      vx_default = \<lparr>pc_authority = 0, pc_paused = 0\<rparr>\<rparr>"

record permissioned_burn_config =
  pb_authority :: address

definition permissioned_burn_config_ext :: "permissioned_burn_config extension" where
  "permissioned_burn_config_ext =
     \<lparr>vx_type = PermissionedBurn, vx_len = 32,
      vx_to_bytes = (\<lambda>x. le_bytes 32 (pb_authority x)),
      vx_of_bytes = (\<lambda>bs. \<lparr>pb_authority = of_le (seg 0 32 bs)\<rparr>),
      vx_default = \<lparr>pb_authority = 0\<rparr>\<rparr>"

definition immutable_owner_ext :: "unit extension" where
  "immutable_owner_ext =
     \<lparr>vx_type = ImmutableOwner, vx_len = 0, vx_to_bytes = (\<lambda>_. []), vx_of_bytes = (\<lambda>_. ()), vx_default = ()\<rparr>"

definition non_transferable_ext :: "unit extension" where
  "non_transferable_ext =
     \<lparr>vx_type = NonTransferable, vx_len = 0, vx_to_bytes = (\<lambda>_. []), vx_of_bytes = (\<lambda>_. ()), vx_default = ()\<rparr>"

definition non_transferable_account_ext :: "unit extension" where
  "non_transferable_account_ext =
     \<lparr>vx_type = NonTransferableAccount, vx_len = 0, vx_to_bytes = (\<lambda>_. []), vx_of_bytes = (\<lambda>_. ()), vx_default = ()\<rparr>"

definition pausable_account_ext :: "unit extension" where
  "pausable_account_ext =
     \<lparr>vx_type = PausableAccount, vx_len = 0, vx_to_bytes = (\<lambda>_. []), vx_of_bytes = (\<lambda>_. ()), vx_default = ()\<rparr>"

section \<open>Every struct fulfils the contract\<close>

lemmas extension_defs =
  transfer_fee_config_ext_def
  transfer_fee_amount_ext_def
  mint_close_authority_ext_def
  confidential_transfer_mint_ext_def
  confidential_transfer_account_ext_def
  default_account_state_ext_def
  memo_transfer_ext_def
  interest_bearing_config_ext_def
  cpi_guard_ext_def
  permanent_delegate_ext_def
  transfer_hook_ext_def
  transfer_hook_account_ext_def
  confidential_transfer_fee_config_ext_def
  confidential_transfer_fee_amount_ext_def
  metadata_pointer_ext_def
  group_pointer_ext_def
  group_member_pointer_ext_def
  confidential_mint_burn_ext_def
  scaled_ui_amount_config_ext_def
  pausable_config_ext_def
  permissioned_burn_config_ext_def
  immutable_owner_ext_def
  non_transferable_ext_def
  non_transferable_account_ext_def
  pausable_account_ext_def

interpretation transfer_fee_config_x: extension_contract transfer_fee_config_ext
  by unfold_locales (simp_all add: transfer_fee_config_ext_def codec_simps seg_joins)

interpretation transfer_fee_amount_x: extension_contract transfer_fee_amount_ext
  by unfold_locales (simp_all add: transfer_fee_amount_ext_def codec_simps seg_joins)

interpretation mint_close_authority_x: extension_contract mint_close_authority_ext
  by unfold_locales (simp_all add: mint_close_authority_ext_def codec_simps seg_joins)

interpretation confidential_transfer_mint_x: extension_contract confidential_transfer_mint_ext
  by unfold_locales (simp_all add: confidential_transfer_mint_ext_def codec_simps seg_joins)

interpretation confidential_transfer_account_x: extension_contract confidential_transfer_account_ext
  by unfold_locales (simp_all add: confidential_transfer_account_ext_def codec_simps seg_joins)

interpretation default_account_state_x: extension_contract default_account_state_ext
  by unfold_locales (simp_all add: default_account_state_ext_def codec_simps seg_joins)

interpretation memo_transfer_x: extension_contract memo_transfer_ext
  by unfold_locales (simp_all add: memo_transfer_ext_def codec_simps seg_joins)

interpretation interest_bearing_config_x: extension_contract interest_bearing_config_ext
  by unfold_locales (simp_all add: interest_bearing_config_ext_def codec_simps seg_joins)

interpretation cpi_guard_x: extension_contract cpi_guard_ext
  by unfold_locales (simp_all add: cpi_guard_ext_def codec_simps seg_joins)

interpretation permanent_delegate_x: extension_contract permanent_delegate_ext
  by unfold_locales (simp_all add: permanent_delegate_ext_def codec_simps seg_joins)

interpretation transfer_hook_x: extension_contract transfer_hook_ext
  by unfold_locales (simp_all add: transfer_hook_ext_def codec_simps seg_joins)

interpretation transfer_hook_account_x: extension_contract transfer_hook_account_ext
  by unfold_locales (simp_all add: transfer_hook_account_ext_def codec_simps seg_joins)

interpretation confidential_transfer_fee_config_x: extension_contract confidential_transfer_fee_config_ext
  by unfold_locales (simp_all add: confidential_transfer_fee_config_ext_def codec_simps seg_joins)

interpretation confidential_transfer_fee_amount_x: extension_contract confidential_transfer_fee_amount_ext
  by unfold_locales (simp_all add: confidential_transfer_fee_amount_ext_def codec_simps seg_joins)

interpretation metadata_pointer_x: extension_contract metadata_pointer_ext
  by unfold_locales (simp_all add: metadata_pointer_ext_def codec_simps seg_joins)

interpretation group_pointer_x: extension_contract group_pointer_ext
  by unfold_locales (simp_all add: group_pointer_ext_def codec_simps seg_joins)

interpretation group_member_pointer_x: extension_contract group_member_pointer_ext
  by unfold_locales (simp_all add: group_member_pointer_ext_def codec_simps seg_joins)

interpretation confidential_mint_burn_x: extension_contract confidential_mint_burn_ext
  by unfold_locales (simp_all add: confidential_mint_burn_ext_def codec_simps seg_joins)

interpretation scaled_ui_amount_config_x: extension_contract scaled_ui_amount_config_ext
  by unfold_locales (simp_all add: scaled_ui_amount_config_ext_def codec_simps seg_joins)

interpretation pausable_config_x: extension_contract pausable_config_ext
  by unfold_locales (simp_all add: pausable_config_ext_def codec_simps seg_joins)

interpretation permissioned_burn_config_x: extension_contract permissioned_burn_config_ext
  by unfold_locales (simp_all add: permissioned_burn_config_ext_def codec_simps seg_joins)

interpretation immutable_owner_x: extension_contract immutable_owner_ext
  by unfold_locales (simp_all add: immutable_owner_ext_def codec_simps seg_joins)

interpretation non_transferable_x: extension_contract non_transferable_ext
  by unfold_locales (simp_all add: non_transferable_ext_def codec_simps seg_joins)

interpretation non_transferable_account_x: extension_contract non_transferable_account_ext
  by unfold_locales (simp_all add: non_transferable_account_ext_def codec_simps seg_joins)

interpretation pausable_account_x: extension_contract pausable_account_ext
  by unfold_locales (simp_all add: pausable_account_ext_def codec_simps seg_joins)

lemmas extension_types_simps [simp] =
  arg_cong [OF transfer_fee_config_ext_def, of vx_type, simplified]
  arg_cong [OF transfer_fee_amount_ext_def, of vx_type, simplified]
  arg_cong [OF mint_close_authority_ext_def, of vx_type, simplified]
  arg_cong [OF confidential_transfer_mint_ext_def, of vx_type, simplified]
  arg_cong [OF confidential_transfer_account_ext_def, of vx_type, simplified]
  arg_cong [OF default_account_state_ext_def, of vx_type, simplified]
  arg_cong [OF memo_transfer_ext_def, of vx_type, simplified]
  arg_cong [OF interest_bearing_config_ext_def, of vx_type, simplified]
  arg_cong [OF cpi_guard_ext_def, of vx_type, simplified]
  arg_cong [OF permanent_delegate_ext_def, of vx_type, simplified]
  arg_cong [OF transfer_hook_ext_def, of vx_type, simplified]
  arg_cong [OF transfer_hook_account_ext_def, of vx_type, simplified]
  arg_cong [OF confidential_transfer_fee_config_ext_def, of vx_type, simplified]
  arg_cong [OF confidential_transfer_fee_amount_ext_def, of vx_type, simplified]
  arg_cong [OF metadata_pointer_ext_def, of vx_type, simplified]
  arg_cong [OF group_pointer_ext_def, of vx_type, simplified]
  arg_cong [OF group_member_pointer_ext_def, of vx_type, simplified]
  arg_cong [OF confidential_mint_burn_ext_def, of vx_type, simplified]
  arg_cong [OF scaled_ui_amount_config_ext_def, of vx_type, simplified]
  arg_cong [OF pausable_config_ext_def, of vx_type, simplified]
  arg_cong [OF permissioned_burn_config_ext_def, of vx_type, simplified]
  arg_cong [OF immutable_owner_ext_def, of vx_type, simplified]
  arg_cong [OF non_transferable_ext_def, of vx_type, simplified]
  arg_cong [OF non_transferable_account_ext_def, of vx_type, simplified]
  arg_cong [OF pausable_account_ext_def, of vx_type, simplified]

section \<open>Predicates on extension values\<close>

definition confidential_transfer_account_closable :: "confidential_transfer_account \<Rightarrow> unit result" where
  "confidential_transfer_account_closable e =
     ensure (cta_pending_balance_lo e = 0 \<and> cta_pending_balance_hi e = 0 \<and> cta_available_balance e = 0)
       (Custom ConfidentialTransferAccountHasBalance)"

definition non_confidential_transfer_allowed ::
    "platform \<Rightarrow> confidential_transfer_account \<Rightarrow> unit result" where
  "non_confidential_transfer_allowed P e =
     ensure (pl_bool_from_pod P (cta_allow_non_confidential_credits e))
       (Custom NonConfidentialTransfersDisabled)"

definition confidential_transfer_fee_amount_closable ::
    "confidential_transfer_fee_amount \<Rightarrow> unit result" where
  "confidential_transfer_fee_amount_closable e =
     ensure (ctfa_withheld_amount e = 0) (Custom ConfidentialTransferFeeAccountHasWithheldFee)"

definition confidential_mint_burn_closable :: "confidential_mint_burn \<Rightarrow> unit result" where
  "confidential_mint_burn_closable e = ensure (cmb_confidential_supply e = 0) (Custom MintHasSupply)"

definition memo_required :: "platform \<Rightarrow> bytes \<Rightarrow> bool" where
  "memo_required P tlv =
     (case get_extension AtAccount memo_transfer_ext tlv of
        Inr e \<Rightarrow> pl_bool_from_pod P (mt_require_incoming_transfer_memos e) | Inl _ \<Rightarrow> False)"

definition cpi_guard_enabled :: "platform \<Rightarrow> bytes \<Rightarrow> bool" where
  "cpi_guard_enabled P tlv =
     (case get_extension AtAccount cpi_guard_ext tlv of
        Inr e \<Rightarrow> pl_bool_from_pod P (cg_lock_cpi e) | Inl _ \<Rightarrow> False)"

definition get_permanent_delegate :: "platform \<Rightarrow> bytes \<Rightarrow> address option" where
  "get_permanent_delegate P mint_tlv =
     Option.bind (result_ok (get_extension AtMint permanent_delegate_ext mint_tlv)) (\<lambda>e.
     pl_option_from_maybe_null P (pd_delegate e))"

definition transfer_hook_get_program_id :: "platform \<Rightarrow> bytes \<Rightarrow> address option" where
  "transfer_hook_get_program_id P mint_tlv =
     Option.bind (result_ok (get_extension AtMint transfer_hook_ext mint_tlv)) (\<lambda>e.
     pl_option_from_maybe_null P (th_program_id e))"

definition set_transferring :: "platform \<Rightarrow> bytes \<Rightarrow> bytes result" where
  "set_transferring P tlv =
     bindr (get_extension AtAccount transfer_hook_account_ext tlv) (\<lambda>e.
     put_extension AtAccount transfer_hook_account_ext (e\<lparr>tha_transferring := pl_pod_from_bool P True\<rparr>) tlv)"

definition clear_transferring :: "platform \<Rightarrow> bytes \<Rightarrow> bytes result" where
  "clear_transferring P tlv =
     bindr (get_extension AtAccount transfer_hook_account_ext tlv) (\<lambda>e.
     put_extension AtAccount transfer_hook_account_ext (e\<lparr>tha_transferring := pl_pod_from_bool P False\<rparr>) tlv)"

end
