(* ===== verification/Ciphertext.thy ===== *)
theory Ciphertext
  imports Extension_Data
begin

text \<open>
  Arithmetic on twisted ElGamal ciphertexts (confidential/ciphertext-arithmetic/src/lib.rs). A
  ciphertext is 64 bytes, a Pedersen commitment and a decrypt handle, each a Ristretto point of 32
  bytes. The point operations are syscalls of the runtime: the record \<open>curve\<close>. What the lemmas use of
  them, \<open>curve_laws\<close>, is that they compute in a group: an encoding \<open>p\<close> stands for a group element
  \<open>val p\<close>, and an operation that does not fail returns an encoding of the sum, difference or multiple.
\<close>

section \<open>Model\<close>

type_synonym point = "256 word"
type_synonym scalar = "256 word"
type_synonym ciphertext = "512 word"
type_synonym ae_ciphertext = "288 word"
type_synonym elgamal_pubkey = address

record curve =
  cv_add :: "point \<Rightarrow> point \<Rightarrow> point option"
  cv_subtract :: "point \<Rightarrow> point \<Rightarrow> point option"
  cv_multiply :: "scalar \<Rightarrow> point \<Rightarrow> point option"

definition SHIFT_BITS :: nat where
  "SHIFT_BITS = 16"

text \<open>The base points, read from their bytes.\<close>

definition ristretto_G :: point where
  "ristretto_G = of_le
     [226, 242, 174, 10, 106, 188, 78, 113, 168, 132, 169, 97, 197, 0, 81, 95, 88, 227, 11, 106, 165,
      130, 221, 141, 182, 166, 89, 69, 224, 141, 45, 118]"

definition ristretto_H :: point where
  "ristretto_H = of_le
     [140, 146, 64, 180, 86, 169, 230, 220, 101, 195, 119, 161, 4, 141, 116, 95, 148, 160, 140, 219,
      127, 68, 203, 205, 123, 70, 243, 64, 72, 135, 17, 52]"

definition u64_to_scalar :: "u64 \<Rightarrow> scalar" where
  "u64_to_scalar amount = of_le (le_bytes 8 amount @ replicate 24 0)"

definition lo_hi_shift_scalar :: scalar where
  "lo_hi_shift_scalar = u64_to_scalar (push_bit SHIFT_BITS 1)"

definition elgamal_pubkey_to_ristretto :: "elgamal_pubkey \<Rightarrow> point" where
  "elgamal_pubkey_to_ristretto pubkey = of_le (le_bytes 32 pubkey)"

definition elgamal_ciphertext_to_ristretto :: "ciphertext \<Rightarrow> point \<times> point" where
  "elgamal_ciphertext_to_ristretto ciphertext =
     (let ciphertext_bytes = le_bytes 64 ciphertext in
      (of_le (seg 0 32 ciphertext_bytes), of_le (seg 32 32 ciphertext_bytes)))"

definition ristretto_to_elgamal_ciphertext :: "point \<Rightarrow> point \<Rightarrow> ciphertext" where
  "ristretto_to_elgamal_ciphertext commitment handle = of_le (le_bytes 32 commitment @ le_bytes 32 handle)"

definition ciphertext_add :: "curve \<Rightarrow> ciphertext \<Rightarrow> ciphertext \<Rightarrow> ciphertext option" where
  "ciphertext_add C left_ciphertext right_ciphertext =
     (let (left_commitment, left_handle) = elgamal_ciphertext_to_ristretto left_ciphertext;
          (right_commitment, right_handle) = elgamal_ciphertext_to_ristretto right_ciphertext in
      Option.bind (cv_add C left_commitment right_commitment) (\<lambda>result_commitment.
      Option.bind (cv_add C left_handle right_handle) (\<lambda>result_handle.
      Some (ristretto_to_elgamal_ciphertext result_commitment result_handle))))"

definition ciphertext_multiply :: "curve \<Rightarrow> scalar \<Rightarrow> ciphertext \<Rightarrow> ciphertext option" where
  "ciphertext_multiply C scalar ciphertext =
     (let (commitment, handle) = elgamal_ciphertext_to_ristretto ciphertext in
      Option.bind (cv_multiply C scalar commitment) (\<lambda>result_commitment.
      Option.bind (cv_multiply C scalar handle) (\<lambda>result_handle.
      Some (ristretto_to_elgamal_ciphertext result_commitment result_handle))))"

definition add_with_lo_hi :: "curve \<Rightarrow> ciphertext \<Rightarrow> ciphertext \<Rightarrow> ciphertext \<Rightarrow> ciphertext option" where
  "add_with_lo_hi C left_ciphertext right_ciphertext_lo right_ciphertext_hi =
     (let (left_commitment, left_handle) = elgamal_ciphertext_to_ristretto left_ciphertext;
          (lo_commitment, lo_handle) = elgamal_ciphertext_to_ristretto right_ciphertext_lo;
          (hi_commitment, hi_handle) = elgamal_ciphertext_to_ristretto right_ciphertext_hi;
          shift_scalar = lo_hi_shift_scalar in
      Option.bind (cv_multiply C shift_scalar hi_commitment) (\<lambda>hi_commitment_shifted.
      Option.bind (cv_add C lo_commitment hi_commitment_shifted) (\<lambda>right_commitment_combined.
      Option.bind (cv_multiply C shift_scalar hi_handle) (\<lambda>hi_handle_shifted.
      Option.bind (cv_add C lo_handle hi_handle_shifted) (\<lambda>right_handle_combined.
      Option.bind (cv_add C left_commitment right_commitment_combined) (\<lambda>final_commitment.
      Option.bind (cv_add C left_handle right_handle_combined) (\<lambda>final_handle.
      Some (ristretto_to_elgamal_ciphertext final_commitment final_handle))))))))"

definition ciphertext_subtract :: "curve \<Rightarrow> ciphertext \<Rightarrow> ciphertext \<Rightarrow> ciphertext option" where
  "ciphertext_subtract C left_ciphertext right_ciphertext =
     (let (left_commitment, left_handle) = elgamal_ciphertext_to_ristretto left_ciphertext;
          (right_commitment, right_handle) = elgamal_ciphertext_to_ristretto right_ciphertext in
      Option.bind (cv_subtract C left_commitment right_commitment) (\<lambda>result_commitment.
      Option.bind (cv_subtract C left_handle right_handle) (\<lambda>result_handle.
      Some (ristretto_to_elgamal_ciphertext result_commitment result_handle))))"

definition subtract_with_lo_hi :: "curve \<Rightarrow> ciphertext \<Rightarrow> ciphertext \<Rightarrow> ciphertext \<Rightarrow> ciphertext option" where
  "subtract_with_lo_hi C left_ciphertext right_ciphertext_lo right_ciphertext_hi =
     (let (left_commitment, left_handle) = elgamal_ciphertext_to_ristretto left_ciphertext;
          (lo_commitment, lo_handle) = elgamal_ciphertext_to_ristretto right_ciphertext_lo;
          (hi_commitment, hi_handle) = elgamal_ciphertext_to_ristretto right_ciphertext_hi;
          shift_scalar = lo_hi_shift_scalar in
      Option.bind (cv_multiply C shift_scalar hi_commitment) (\<lambda>hi_commitment_shifted.
      Option.bind (cv_add C lo_commitment hi_commitment_shifted) (\<lambda>right_commitment_combined.
      Option.bind (cv_multiply C shift_scalar hi_handle) (\<lambda>hi_handle_shifted.
      Option.bind (cv_add C lo_handle hi_handle_shifted) (\<lambda>right_handle_combined.
      Option.bind (cv_subtract C left_commitment right_commitment_combined) (\<lambda>final_commitment.
      Option.bind (cv_subtract C left_handle right_handle_combined) (\<lambda>final_handle.
      Some (ristretto_to_elgamal_ciphertext final_commitment final_handle))))))))"

definition add_to :: "curve \<Rightarrow> ciphertext \<Rightarrow> u64 \<Rightarrow> ciphertext option" where
  "add_to C ciphertext amount =
     Option.bind (cv_multiply C (u64_to_scalar amount) ristretto_G) (\<lambda>amount_point.
     let (commitment, handle) = elgamal_ciphertext_to_ristretto ciphertext in
     Option.bind (cv_add C commitment amount_point) (\<lambda>result_commitment.
     Some (ristretto_to_elgamal_ciphertext result_commitment handle)))"

definition add_to_with_offset :: "curve \<Rightarrow> elgamal_pubkey \<Rightarrow> ciphertext \<Rightarrow> u64 \<Rightarrow> ciphertext option" where
  "add_to_with_offset C pubkey ciphertext amount =
     Option.bind (cv_multiply C (u64_to_scalar amount) ristretto_G) (\<lambda>amount_point.
     Option.bind (cv_add C amount_point ristretto_H) (\<lambda>amount_point_with_offset.
     let pubkey_point = elgamal_pubkey_to_ristretto pubkey;
         (commitment, handle) = elgamal_ciphertext_to_ristretto ciphertext in
     Option.bind (cv_add C commitment amount_point_with_offset) (\<lambda>result_commitment.
     Option.bind (cv_add C handle pubkey_point) (\<lambda>result_handle.
     Some (ristretto_to_elgamal_ciphertext result_commitment result_handle)))))"

definition subtract_from :: "curve \<Rightarrow> ciphertext \<Rightarrow> u64 \<Rightarrow> ciphertext option" where
  "subtract_from C ciphertext amount =
     Option.bind (cv_multiply C (u64_to_scalar amount) ristretto_G) (\<lambda>amount_point.
     let (commitment, handle) = elgamal_ciphertext_to_ristretto ciphertext in
     Option.bind (cv_subtract C commitment amount_point) (\<lambda>result_commitment.
     Some (ristretto_to_elgamal_ciphertext result_commitment handle)))"

section \<open>Laws\<close>

text \<open>The \<open>n\<close>-fold sum in a group.\<close>

primrec multiple :: "nat \<Rightarrow> 'g::ab_group_add \<Rightarrow> 'g" where
  "multiple 0 g = 0"
| "multiple (Suc n) g = g + multiple n g"

definition curve_laws :: "curve \<Rightarrow> (point \<Rightarrow> 'g::ab_group_add) \<Rightarrow> bool" where
  "curve_laws C val \<longleftrightarrow>
     val 0 = 0 \<and>
     (\<forall>p q r. cv_add C p q = Some r \<longrightarrow> val r = val p + val q) \<and>
     (\<forall>p q r. cv_subtract C p q = Some r \<longrightarrow> val r = val p - val q) \<and>
     (\<forall>s p r. cv_multiply C s p = Some r \<longrightarrow> val r = multiple (unat s) (val p))"

text \<open>What a ciphertext commits to, and the value of a balance kept in two halves.\<close>

definition committed :: "(point \<Rightarrow> 'g::ab_group_add) \<Rightarrow> ciphertext \<Rightarrow> 'g" where
  "committed val c = val (fst (elgamal_ciphertext_to_ristretto c))"

definition committed_lo_hi :: "(point \<Rightarrow> 'g::ab_group_add) \<Rightarrow> ciphertext \<Rightarrow> ciphertext \<Rightarrow> 'g" where
  "committed_lo_hi val lo hi = committed val lo + multiple 65536 (committed val hi)"

lemma elgamal_round_trip [simp]:
  "elgamal_ciphertext_to_ristretto (ristretto_to_elgamal_ciphertext c h) = (c, h)"
  by (simp add: elgamal_ciphertext_to_ristretto_def ristretto_to_elgamal_ciphertext_def codec_simps)

lemma elgamal_round_trip_back:
  "(case elgamal_ciphertext_to_ristretto c of (p, q) \<Rightarrow> ristretto_to_elgamal_ciphertext p q) = c"
  by (simp add: elgamal_ciphertext_to_ristretto_def ristretto_to_elgamal_ciphertext_def Let_def codec_simps seg_joins)

lemma multiple_add: "multiple n (g + h) = multiple n g + multiple n h"
  by (induction n) (simp_all add: algebra_simps)

lemma multiple_zero [simp]: "multiple n 0 = 0"
  by (induction n) simp_all

lemma multiple_diff: "multiple n (g - h) = multiple n g - multiple n h"
  by (induction n) (simp_all add: algebra_simps)

lemma multiple_plus: "multiple (m + n) g = multiple m g + multiple n g"
  by (induction m) (simp_all add: algebra_simps)

lemma multiple_mult: "multiple (m * n) g = multiple m (multiple n g)"
  by (induction m) (simp_all add: multiple_plus)

lemma le_nat_padded: "le_nat (bs @ replicate n 0) = le_nat bs"
  by (induction bs) (simp_all add: le_nat_zeros)

lemma unat_u64_to_scalar [simp]: "unat (u64_to_scalar n) = unat n"
proof -
  have "unat n < 2 ^ 64" using unsigned_less [of n, where ?'a = nat] by simp
  then have "le_nat (le_bytes 8 n @ replicate 24 0) = unat n"
    by (simp add: le_nat_padded le_bytes_def le_nat_nat_le)
  moreover have "unat n < 2 ^ 256" using \<open>unat n < 2 ^ 64\<close> by (rule less_trans) simp
  ultimately show ?thesis by (simp add: u64_to_scalar_def of_le_def unsigned_ucast_eq take_bit_nat_eq_self_iff)
qed

lemma committed_pair [simp]: "committed val (ristretto_to_elgamal_ciphertext p q) = val p"
  by (simp add: committed_def)

lemma curve_lawsD:
  assumes "curve_laws C val"
  shows "val 0 = 0" "cv_add C p q = Some r \<Longrightarrow> val r = val p + val q"
    "cv_subtract C p q = Some r \<Longrightarrow> val r = val p - val q"
    "cv_multiply C s p = Some r \<Longrightarrow> val r = multiple (unat s) (val p)"
  using assms by (simp_all add: curve_laws_def)

lemma committed_zero: "curve_laws C val \<Longrightarrow> committed val 0 = 0"
  by (simp add: committed_def elgamal_ciphertext_to_ristretto_def le_bytes_zero seg_def curve_laws_def)

lemma unat_shift_scalar [simp]: "unat lo_hi_shift_scalar = 65536"
  by (simp add: SHIFT_BITS_def lo_hi_shift_scalar_def)

text \<open>Every operation computes on the committed values what its name says.\<close>

lemma committed_operations:
  assumes "curve_laws C val"
  shows "ciphertext_add C a b = Some c \<Longrightarrow> committed val c = committed val a + committed val b"
    "ciphertext_subtract C a b = Some c \<Longrightarrow> committed val c = committed val a - committed val b"
    "ciphertext_multiply C s a = Some c \<Longrightarrow> committed val c = multiple (unat s) (committed val a)"
    "add_with_lo_hi C a lo hi = Some c \<Longrightarrow> committed val c = committed val a + committed_lo_hi val lo hi"
    "subtract_with_lo_hi C a lo hi = Some c \<Longrightarrow> committed val c = committed val a - committed_lo_hi val lo hi"
    "add_to C a n = Some c \<Longrightarrow> committed val c = committed val a + multiple (unat n) (val ristretto_G)"
    "add_to_with_offset C k a n = Some c \<Longrightarrow>
       committed val c = committed val a + multiple (unat n) (val ristretto_G) + val ristretto_H"
    "subtract_from C a n = Some c \<Longrightarrow> committed val c = committed val a - multiple (unat n) (val ristretto_G)"
  using curve_lawsD(2-4) [OF assms]
  by (auto simp: ciphertext_add_def ciphertext_subtract_def ciphertext_multiply_def add_with_lo_hi_def
      subtract_with_lo_hi_def add_to_def add_to_with_offset_def subtract_from_def Let_def committed_lo_hi_def
      committed_def [of val a] committed_def [of val b] committed_def [of val lo] committed_def [of val hi]
      case_prod_beta add.assoc split: bind_splits)

text \<open>An instance: the group of 256-bit words under addition, with \<open>s p\<close> for the multiple.\<close>

definition word_curve :: curve where
  "word_curve = \<lparr>cv_add = \<lambda>p q. Some (p + q), cv_subtract = \<lambda>p q. Some (p - q), cv_multiply = \<lambda>s p. Some (s * p)\<rparr>"

lemma multiple_word: "multiple n (w :: 'a::len word) = of_nat n * w"
  by (induction n) (simp_all add: algebra_simps)

lemma word_curve_laws: "curve_laws word_curve (\<lambda>p. p)"
  by (simp add: curve_laws_def word_curve_def multiple_word)

end
