(* ===== verification/Proof_Context.thy ===== *)
theory Proof_Context
  imports Ciphertext Platform
begin

text \<open>
  What the confidential instructions take from zero-knowledge proofs
  (confidential/proof-extraction/src). A proof is verified by another program, in an instruction of the
  same transaction or beforehand into a context account; this code finds the statement that was proved,
  its context, and checks that the statements of several proofs fit together. The contexts are records
  of the fields the source destructures. Their byte formats, the grouped ciphertexts and the
  instructions sysvar belong to other crates and are fields of the record \<open>zk\<close>.
\<close>

section \<open>Proof contexts\<close>

type_synonym grouped_ciphertext = bytes

record pubkey_validity_context =
  pvc_pubkey :: elgamal_pubkey

record zero_ciphertext_context =
  zcc_pubkey :: elgamal_pubkey
  zcc_ciphertext :: ciphertext

record ciphertext_ciphertext_equality_context =
  cce_first_pubkey :: elgamal_pubkey
  cce_second_pubkey :: elgamal_pubkey
  cce_first_ciphertext :: ciphertext
  cce_second_ciphertext :: ciphertext

record ciphertext_commitment_equality_context =
  cmc_pubkey :: elgamal_pubkey
  cmc_ciphertext :: ciphertext
  cmc_commitment :: point

record grouped_3_handles_context =
  g3_first_pubkey :: elgamal_pubkey
  g3_second_pubkey :: elgamal_pubkey
  g3_third_pubkey :: elgamal_pubkey
  g3_grouped_ciphertext_lo :: grouped_ciphertext
  g3_grouped_ciphertext_hi :: grouped_ciphertext

record grouped_2_handles_context =
  g2_first_pubkey :: elgamal_pubkey
  g2_second_pubkey :: elgamal_pubkey
  g2_grouped_ciphertext_lo :: grouped_ciphertext
  g2_grouped_ciphertext_hi :: grouped_ciphertext

record percentage_with_cap_context =
  pwc_percentage_commitment :: point
  pwc_delta_commitment :: point
  pwc_claimed_commitment :: point
  pwc_max_value :: u64

text \<open>A range proof speaks of eight commitments and their bit lengths.\<close>

record range_proof_context =
  rpc_commitments :: "point list"
  rpc_bit_lengths :: "u8 list"

datatype (plugins only: code) proof_type =
    TypeUninitialized | TypeZeroCiphertext | TypeCiphertextCiphertextEquality
  | TypeCiphertextCommitmentEquality | TypePubkeyValidity | TypePercentageWithCap
  | TypeBatchedRangeProofU64 | TypeBatchedRangeProofU128 | TypeBatchedRangeProofU256
  | TypeGroupedCiphertext2HandlesValidity | TypeBatchedGroupedCiphertext2HandlesValidity
  | TypeGroupedCiphertext3HandlesValidity | TypeBatchedGroupedCiphertext3HandlesValidity

datatype (plugins only: code) proof_instruction =
    CloseContextState | VerifyZeroCiphertext | VerifyCiphertextCiphertextEquality
  | VerifyCiphertextCommitmentEquality | VerifyPubkeyValidity | VerifyPercentageWithCap
  | VerifyBatchedRangeProofU64 | VerifyBatchedRangeProofU128 | VerifyBatchedRangeProofU256
  | VerifyGroupedCiphertext2HandlesValidity | VerifyBatchedGroupedCiphertext2HandlesValidity
  | VerifyGroupedCiphertext3HandlesValidity | VerifyBatchedGroupedCiphertext3HandlesValidity

text \<open>
  A kind of proof \<open>T: ZkProofData<U>\<close>: its type, and how a context of type \<open>U\<close> is read from a context
  account (with the proof type stored there) and from the data of a proof instruction.
\<close>

record 'u proof_kind =
  pk_proof_type :: proof_type
  pk_context_state :: "bytes \<Rightarrow> (u8 \<times> 'u) option"
  pk_instruction_context :: "bytes \<Rightarrow> 'u option"

record zk =
  zk_curve :: curve
  zk_program_id :: address
  zk_get_instruction_relative :: "int \<Rightarrow> address \<Rightarrow> acct \<Rightarrow> (address \<times> bytes) result"
  zk_instruction_type :: "bytes \<Rightarrow> proof_instruction option"
  zk_proof_type_byte :: "proof_type \<Rightarrow> u8"
  zk_commitment_2 :: "grouped_ciphertext \<Rightarrow> point"
  zk_commitment_3 :: "grouped_ciphertext \<Rightarrow> point"
  zk_extract_2 :: "grouped_ciphertext \<Rightarrow> nat \<Rightarrow> ciphertext option"
  zk_extract_3 :: "grouped_ciphertext \<Rightarrow> nat \<Rightarrow> ciphertext option"
  zk_pubkey_validity :: "pubkey_validity_context proof_kind"
  zk_zero_ciphertext :: "zero_ciphertext_context proof_kind"
  zk_ciphertext_ciphertext_equality :: "ciphertext_ciphertext_equality_context proof_kind"
  zk_ciphertext_commitment_equality :: "ciphertext_commitment_equality_context proof_kind"
  zk_grouped_3_handles_validity :: "grouped_3_handles_context proof_kind"
  zk_grouped_2_handles_validity :: "grouped_2_handles_context proof_kind"
  zk_percentage_with_cap :: "percentage_with_cap_context proof_kind"
  zk_range_proof_u64 :: "range_proof_context proof_kind"
  zk_range_proof_u128 :: "range_proof_context proof_kind"
  zk_range_proof_u256 :: "range_proof_context proof_kind"

section \<open>Finding a context\<close>

definition check_zk_elgamal_proof_program_account :: "zk \<Rightarrow> address \<Rightarrow> unit result" where
  "check_zk_elgamal_proof_program_account Z zk_elgamal_proof_program_id =
     ensure (zk_elgamal_proof_program_id = zk_program_id Z) IncorrectProgramId"

definition zk_proof_type_to_instruction :: "proof_type \<Rightarrow> proof_instruction result" where
  "zk_proof_type_to_instruction proof_type =
     (case proof_type of
        TypeZeroCiphertext \<Rightarrow> Inr VerifyZeroCiphertext
      | TypeCiphertextCiphertextEquality \<Rightarrow> Inr VerifyCiphertextCiphertextEquality
      | TypePubkeyValidity \<Rightarrow> Inr VerifyPubkeyValidity
      | TypeBatchedRangeProofU64 \<Rightarrow> Inr VerifyBatchedRangeProofU64
      | TypeBatchedRangeProofU128 \<Rightarrow> Inr VerifyBatchedRangeProofU128
      | TypeBatchedRangeProofU256 \<Rightarrow> Inr VerifyBatchedRangeProofU256
      | TypeCiphertextCommitmentEquality \<Rightarrow> Inr VerifyCiphertextCommitmentEquality
      | TypeGroupedCiphertext2HandlesValidity \<Rightarrow> Inr VerifyGroupedCiphertext2HandlesValidity
      | TypeBatchedGroupedCiphertext2HandlesValidity \<Rightarrow> Inr VerifyBatchedGroupedCiphertext2HandlesValidity
      | TypePercentageWithCap \<Rightarrow> Inr VerifyPercentageWithCap
      | TypeGroupedCiphertext3HandlesValidity \<Rightarrow> Inr VerifyGroupedCiphertext3HandlesValidity
      | TypeBatchedGroupedCiphertext3HandlesValidity \<Rightarrow> Inr VerifyBatchedGroupedCiphertext3HandlesValidity
      | TypeUninitialized \<Rightarrow> Inl InvalidInstructionData)"

definition decode_proof_instruction_context ::
    "zk \<Rightarrow> 'u proof_kind \<Rightarrow> proof_instruction \<Rightarrow> address \<times> bytes \<Rightarrow> 'u result" where
  "decode_proof_instruction_context Z K expected = (\<lambda>(program_id, data).
     if program_id \<noteq> zk_program_id Z \<or> zk_instruction_type Z data \<noteq> Some expected
     then Inl InvalidInstructionData
     else ok_or (pk_instruction_context K data) InvalidInstructionData)"

text \<open>
  An offset of zero names a context account, any other an instruction relative to the current one.
  \<open>held\<close> lists the accounts the caller has borrowed mutably: borrowing one of them panics.
\<close>

definition verify_and_extract_context ::
    "zk \<Rightarrow> 'u proof_kind \<Rightarrow> address list \<Rightarrow> account_info list \<Rightarrow> int \<Rightarrow> account_info option \<Rightarrow> store \<Rightarrow>
     ('u \<times> account_info list) result" where
  "verify_and_extract_context Z K held it proof_instruction_offset sysvar_account_info st =
     (if proof_instruction_offset = 0 then
        bindr (next_account_info it) (\<lambda>(context_state_account_info, it).
        bindr (check_zk_elgamal_proof_program_account Z (info_owner st context_state_account_info)) (\<lambda>_.
        bindr (ensure (ai_key context_state_account_info \<notin> set held) Panic) (\<lambda>_.
        bindr (ok_or (pk_context_state K (info_data st context_state_account_info)) InvalidArgument)
          (\<lambda>(proof_type, proof_context).
        bindr (ensure (proof_type = zk_proof_type_byte Z (pk_proof_type K)) InvalidInstructionData) (\<lambda>_.
        Inr (proof_context, it))))))
      else
        bindr (case sysvar_account_info of
            Some sysvar_account_info \<Rightarrow> Inr (sysvar_account_info, it)
          | None \<Rightarrow> next_account_info it) (\<lambda>(sysvar_account_info, it).
        bindr (zk_get_instruction_relative Z proof_instruction_offset (ai_key sysvar_account_info)
                 (st (ai_key sysvar_account_info))) (\<lambda>zkp_instruction.
        bindr (zk_proof_type_to_instruction (pk_proof_type K)) (\<lambda>expected_proof_type.
        bindr (decode_proof_instruction_context Z K expected_proof_type zkp_instruction) (\<lambda>context.
        Inr (context, it))))))"

section \<open>Errors\<close>

datatype (plugins only: code) token_proof_extraction_error =
    ExtractElGamalPubkeyMismatch | ExtractPedersenCommitmentMismatch | ExtractRangeProofLengthMismatch
  | ExtractFeeParametersMismatch | ExtractCurveArithmetic | ExtractCiphertextExtraction

definition token_error_from_extraction :: "token_proof_extraction_error \<Rightarrow> token_error" where
  "token_error_from_extraction e =
     (case e of
        ExtractElGamalPubkeyMismatch \<Rightarrow> ConfidentialTransferElGamalPubkeyMismatch
      | ExtractPedersenCommitmentMismatch \<Rightarrow> PedersenCommitmentMismatch
      | ExtractRangeProofLengthMismatch \<Rightarrow> RangeProofLengthMismatch
      | ExtractFeeParametersMismatch \<Rightarrow> FeeParametersMismatch
      | ExtractCurveArithmetic \<Rightarrow> CiphertextArithmeticFailed
      | ExtractCiphertextExtraction \<Rightarrow> MalformedCiphertext)"

definition extraction_result :: "token_proof_extraction_error + 'a \<Rightarrow> 'a result" where
  "extraction_result r = (case r of Inl e \<Rightarrow> Inl (Custom (token_error_from_extraction e)) | Inr x \<Rightarrow> Inr x)"

definition pod_transfer_amount_try_extract ::
    "zk \<Rightarrow> grouped_ciphertext \<Rightarrow> nat \<Rightarrow> token_proof_extraction_error + ciphertext" where
  "pod_transfer_amount_try_extract Z g index = ok_or (zk_extract_3 Z g index) ExtractCiphertextExtraction"

definition pod_fee_try_extract ::
    "zk \<Rightarrow> grouped_ciphertext \<Rightarrow> nat \<Rightarrow> token_proof_extraction_error + ciphertext" where
  "pod_fee_try_extract Z g index = ok_or (zk_extract_2 Z g index) ExtractCiphertextExtraction"

definition pod_burn_amount_try_extract ::
    "zk \<Rightarrow> grouped_ciphertext \<Rightarrow> nat \<Rightarrow> token_proof_extraction_error + ciphertext" where
  "pod_burn_amount_try_extract Z g index = ok_or (zk_extract_3 Z g index) ExtractCiphertextExtraction"

definition pod_mint_amount_try_extract ::
    "zk \<Rightarrow> grouped_ciphertext \<Rightarrow> nat \<Rightarrow> token_proof_extraction_error + ciphertext" where
  "pod_mint_amount_try_extract Z g index = ok_or (zk_extract_3 Z g index) ExtractCiphertextExtraction"

text \<open>\<open>proofs.iter().zip(expected).all(|(p, e)| p == e)\<close>.\<close>

definition zip_all_equal :: "'a list \<Rightarrow> 'a list \<Rightarrow> bool" where
  "zip_all_equal xs ys \<longleftrightarrow> list_all (\<lambda>(x, y). x = y) (zip xs ys)"

section \<open>Contexts that fit together\<close>

record withdraw_proof_context =
  wp_source_pubkey :: elgamal_pubkey
  wp_remaining_balance_ciphertext :: ciphertext

definition withdraw_verify_and_extract ::
    "ciphertext_commitment_equality_context \<Rightarrow> range_proof_context \<Rightarrow>
     token_proof_extraction_error + withdraw_proof_context" where
  "withdraw_verify_and_extract equality_proof_context range_proof_context =
     bindr (ensure (rpc_commitments range_proof_context ! 0 = cmc_commitment equality_proof_context)
              ExtractPedersenCommitmentMismatch) (\<lambda>_.
     bindr (ensure (rpc_bit_lengths range_proof_context ! 0 = 64) ExtractRangeProofLengthMismatch) (\<lambda>_.
     Inr \<lparr>wp_source_pubkey = cmc_pubkey equality_proof_context,
          wp_remaining_balance_ciphertext = cmc_ciphertext equality_proof_context\<rparr>))"

text \<open>
  Transfers without fee, mints and burns combine the same three proofs: the equality proof of the new
  balance under its owner's key, the validity proof of the two halves of the amount, and the range
  proof of the new balance and both halves. \<open>owner_pubkey\<close> is the key in the validity proof that must
  be the one of the equality proof.
\<close>

definition check_amount_proofs ::
    "zk \<Rightarrow> ciphertext_commitment_equality_context \<Rightarrow> elgamal_pubkey \<Rightarrow> grouped_3_handles_context \<Rightarrow>
     range_proof_context \<Rightarrow> token_proof_extraction_error + unit" where
  "check_amount_proofs Z equality_proof_context owner_pubkey ciphertext_validity_proof_context range_proof_context =
     bindr (ensure (cmc_pubkey equality_proof_context = owner_pubkey) ExtractElGamalPubkeyMismatch) (\<lambda>_.
     bindr (ensure (zip_all_equal (rpc_commitments range_proof_context)
                [cmc_commitment equality_proof_context,
                 zk_commitment_3 Z (g3_grouped_ciphertext_lo ciphertext_validity_proof_context),
                 zk_commitment_3 Z (g3_grouped_ciphertext_hi ciphertext_validity_proof_context)])
              ExtractPedersenCommitmentMismatch) (\<lambda>_.
     ensure (zip_all_equal (rpc_bit_lengths range_proof_context) [64, 16, 32, 16]) ExtractRangeProofLengthMismatch))"

record transfer_proof_context =
  tp_ciphertext_lo :: grouped_ciphertext
  tp_ciphertext_hi :: grouped_ciphertext
  tp_source :: elgamal_pubkey
  tp_destination :: elgamal_pubkey
  tp_auditor :: elgamal_pubkey
  tp_new_source_ciphertext :: ciphertext

definition transfer_verify_and_extract ::
    "zk \<Rightarrow> ciphertext_commitment_equality_context \<Rightarrow> grouped_3_handles_context \<Rightarrow> range_proof_context \<Rightarrow>
     token_proof_extraction_error + transfer_proof_context" where
  "transfer_verify_and_extract Z equality_proof_context ciphertext_validity_proof_context range_proof_context =
     bindr (check_amount_proofs Z equality_proof_context (g3_first_pubkey ciphertext_validity_proof_context)
              ciphertext_validity_proof_context range_proof_context) (\<lambda>_.
     Inr \<lparr>tp_ciphertext_lo = g3_grouped_ciphertext_lo ciphertext_validity_proof_context,
          tp_ciphertext_hi = g3_grouped_ciphertext_hi ciphertext_validity_proof_context,
          tp_source = cmc_pubkey equality_proof_context,
          tp_destination = g3_second_pubkey ciphertext_validity_proof_context,
          tp_auditor = g3_third_pubkey ciphertext_validity_proof_context,
          tp_new_source_ciphertext = cmc_ciphertext equality_proof_context\<rparr>)"

record mint_proof_context =
  mp_mint_amount_ciphertext_lo :: grouped_ciphertext
  mp_mint_amount_ciphertext_hi :: grouped_ciphertext
  mp_destination :: elgamal_pubkey
  mp_supply :: elgamal_pubkey
  mp_auditor :: elgamal_pubkey
  mp_new_supply_ciphertext :: ciphertext

definition mint_verify_and_extract ::
    "zk \<Rightarrow> ciphertext_commitment_equality_context \<Rightarrow> grouped_3_handles_context \<Rightarrow> range_proof_context \<Rightarrow>
     token_proof_extraction_error + mint_proof_context" where
  "mint_verify_and_extract Z equality_proof_context ciphertext_validity_proof_context range_proof_context =
     bindr (check_amount_proofs Z equality_proof_context (g3_second_pubkey ciphertext_validity_proof_context)
              ciphertext_validity_proof_context range_proof_context) (\<lambda>_.
     Inr \<lparr>mp_mint_amount_ciphertext_lo = g3_grouped_ciphertext_lo ciphertext_validity_proof_context,
          mp_mint_amount_ciphertext_hi = g3_grouped_ciphertext_hi ciphertext_validity_proof_context,
          mp_destination = g3_first_pubkey ciphertext_validity_proof_context,
          mp_supply = cmc_pubkey equality_proof_context,
          mp_auditor = g3_third_pubkey ciphertext_validity_proof_context,
          mp_new_supply_ciphertext = cmc_ciphertext equality_proof_context\<rparr>)"

record burn_proof_context =
  bp_burn_amount_ciphertext_lo :: grouped_ciphertext
  bp_burn_amount_ciphertext_hi :: grouped_ciphertext
  bp_source :: elgamal_pubkey
  bp_supply :: elgamal_pubkey
  bp_auditor :: elgamal_pubkey
  bp_remaining_balance_ciphertext :: ciphertext

definition burn_verify_and_extract ::
    "zk \<Rightarrow> ciphertext_commitment_equality_context \<Rightarrow> grouped_3_handles_context \<Rightarrow> range_proof_context \<Rightarrow>
     token_proof_extraction_error + burn_proof_context" where
  "burn_verify_and_extract Z equality_proof_context ciphertext_validity_proof_context range_proof_context =
     bindr (check_amount_proofs Z equality_proof_context (g3_first_pubkey ciphertext_validity_proof_context)
              ciphertext_validity_proof_context range_proof_context) (\<lambda>_.
     Inr \<lparr>bp_burn_amount_ciphertext_lo = g3_grouped_ciphertext_lo ciphertext_validity_proof_context,
          bp_burn_amount_ciphertext_hi = g3_grouped_ciphertext_hi ciphertext_validity_proof_context,
          bp_source = cmc_pubkey equality_proof_context,
          bp_supply = g3_second_pubkey ciphertext_validity_proof_context,
          bp_auditor = g3_third_pubkey ciphertext_validity_proof_context,
          bp_remaining_balance_ciphertext = cmc_ciphertext equality_proof_context\<rparr>)"

section \<open>Transfers with a fee\<close>

definition combine_lo_hi_pedersen_points :: "curve \<Rightarrow> point \<Rightarrow> point \<Rightarrow> point option" where
  "combine_lo_hi_pedersen_points C point_lo point_hi =
     Option.bind (cv_multiply C (u64_to_scalar 65536) point_hi) (\<lambda>scaled_point_hi.
     cv_add C point_lo scaled_point_hi)"

definition u16_to_scalar :: "u16 \<Rightarrow> scalar" where
  "u16_to_scalar amount = of_le (le_bytes 2 amount @ replicate 30 0)"

definition verify_delta_commitment ::
    "curve \<Rightarrow> point \<Rightarrow> point \<Rightarrow> point \<Rightarrow> point \<Rightarrow> u16 \<Rightarrow> token_proof_extraction_error + unit" where
  "verify_delta_commitment C transfer_amount_commitment_lo transfer_amount_commitment_hi fee_commitment
       proof_delta_commitment transfer_fee_basis_points =
     bindr (ok_or (combine_lo_hi_pedersen_points C transfer_amount_commitment_lo transfer_amount_commitment_hi)
              ExtractCurveArithmetic) (\<lambda>transfer_amount_point.
     bindr (ok_or (cv_multiply C (u16_to_scalar transfer_fee_basis_points) transfer_amount_point)
              ExtractCurveArithmetic) (\<lambda>scaled_transfer_amount_point.
     bindr (ok_or (cv_multiply C (u64_to_scalar 10000) fee_commitment) ExtractCurveArithmetic) (\<lambda>scaled_fee_point.
     bindr (ok_or (cv_subtract C scaled_fee_point scaled_transfer_amount_point) ExtractCurveArithmetic)
       (\<lambda>expected_delta_commitment_point.
     ensure (expected_delta_commitment_point = proof_delta_commitment) ExtractCurveArithmetic))))"

record transfer_with_fee_proof_context =
  fp_ciphertext_lo :: grouped_ciphertext
  fp_ciphertext_hi :: grouped_ciphertext
  fp_source :: elgamal_pubkey
  fp_destination :: elgamal_pubkey
  fp_auditor :: elgamal_pubkey
  fp_withdraw_withheld_authority :: elgamal_pubkey
  fp_new_source_ciphertext :: ciphertext
  fp_fee_ciphertext_lo :: grouped_ciphertext
  fp_fee_ciphertext_hi :: grouped_ciphertext

definition transfer_with_fee_verify_and_extract ::
    "zk \<Rightarrow> ciphertext_commitment_equality_context \<Rightarrow> grouped_3_handles_context \<Rightarrow> percentage_with_cap_context \<Rightarrow>
     grouped_2_handles_context \<Rightarrow> range_proof_context \<Rightarrow> u16 \<Rightarrow> u64 \<Rightarrow>
     token_proof_extraction_error + transfer_with_fee_proof_context" where
  "transfer_with_fee_verify_and_extract Z equality_proof_context transfer_amount_ciphertext_validity_proof_context
       fee_sigma_proof_context fee_ciphertext_validity_proof_context range_proof_context
       expected_fee_rate_basis_points expected_maximum_fee =
     (let C = zk_curve Z;
          fee_commitment = pwc_percentage_commitment fee_sigma_proof_context;
          claimed_commitment = pwc_claimed_commitment fee_sigma_proof_context;
          transfer_amount_commitment_lo = zk_commitment_3 Z (g3_grouped_ciphertext_lo transfer_amount_ciphertext_validity_proof_context);
          transfer_amount_commitment_hi = zk_commitment_3 Z (g3_grouped_ciphertext_hi transfer_amount_ciphertext_validity_proof_context);
          fee_commitment_lo = zk_commitment_2 Z (g2_grouped_ciphertext_lo fee_ciphertext_validity_proof_context);
          fee_commitment_hi = zk_commitment_2 Z (g2_grouped_ciphertext_hi fee_ciphertext_validity_proof_context) in
      bindr (ensure (expected_maximum_fee = pwc_max_value fee_sigma_proof_context) ExtractFeeParametersMismatch) (\<lambda>_.
      bindr (ensure (g3_second_pubkey transfer_amount_ciphertext_validity_proof_context =
                     g2_first_pubkey fee_ciphertext_validity_proof_context) ExtractElGamalPubkeyMismatch) (\<lambda>_.
      bindr (ok_or (cv_multiply C (u64_to_scalar 9999) ristretto_G) ExtractCurveArithmetic)
        (\<lambda>max_fee_basis_points_sub_one_commitment.
      bindr (ok_or (cv_subtract C max_fee_basis_points_sub_one_commitment claimed_commitment) ExtractCurveArithmetic)
        (\<lambda>claimed_complement_commitment.
      bindr (ok_or (combine_lo_hi_pedersen_points C transfer_amount_commitment_lo transfer_amount_commitment_hi)
               ExtractCurveArithmetic) (\<lambda>transfer_amount_point.
      bindr (ok_or (cv_subtract C transfer_amount_point fee_commitment) ExtractCurveArithmetic)
        (\<lambda>net_transfer_commitment_point.
      bindr (ensure (zip_all_equal (rpc_commitments range_proof_context)
                 [cmc_commitment equality_proof_context, transfer_amount_commitment_lo, transfer_amount_commitment_hi,
                  claimed_commitment, claimed_complement_commitment, fee_commitment_lo, fee_commitment_hi,
                  net_transfer_commitment_point]) ExtractPedersenCommitmentMismatch) (\<lambda>_.
      bindr (ensure (zip_all_equal (rpc_bit_lengths range_proof_context) [64, 16, 32, 16, 16, 16, 32, 64])
               ExtractRangeProofLengthMismatch) (\<lambda>_.
      bindr (ok_or (combine_lo_hi_pedersen_points C fee_commitment_lo fee_commitment_hi) ExtractCurveArithmetic)
        (\<lambda>validity_proof_fee_point.
      bindr (ensure (cmc_pubkey equality_proof_context = g3_first_pubkey transfer_amount_ciphertext_validity_proof_context)
               ExtractElGamalPubkeyMismatch) (\<lambda>_.
      bindr (ensure (validity_proof_fee_point = fee_commitment) ExtractFeeParametersMismatch) (\<lambda>_.
      bindr (verify_delta_commitment C transfer_amount_commitment_lo transfer_amount_commitment_hi fee_commitment
               (pwc_delta_commitment fee_sigma_proof_context) expected_fee_rate_basis_points) (\<lambda>_.
      Inr \<lparr>fp_ciphertext_lo = g3_grouped_ciphertext_lo transfer_amount_ciphertext_validity_proof_context,
           fp_ciphertext_hi = g3_grouped_ciphertext_hi transfer_amount_ciphertext_validity_proof_context,
           fp_source = cmc_pubkey equality_proof_context,
           fp_destination = g3_second_pubkey transfer_amount_ciphertext_validity_proof_context,
           fp_auditor = g3_third_pubkey transfer_amount_ciphertext_validity_proof_context,
           fp_withdraw_withheld_authority = g2_second_pubkey fee_ciphertext_validity_proof_context,
           fp_new_source_ciphertext = cmc_ciphertext equality_proof_context,
           fp_fee_ciphertext_lo = g2_grouped_ciphertext_lo fee_ciphertext_validity_proof_context,
           fp_fee_ciphertext_hi = g2_grouped_ciphertext_hi fee_ciphertext_validity_proof_context\<rparr>)))))))))))))"

section \<open>The proofs of an instruction\<close>

text \<open>
  The proofs of one instruction (program/src/extension/*/verify_proof.rs). One instructions sysvar
  account serves all proofs that are given by an offset.
\<close>

definition proof_sysvar_account ::
    "int list \<Rightarrow> account_info list \<Rightarrow> (account_info option \<times> account_info list) result" where
  "proof_sysvar_account offsets it =
     (if list_ex (\<lambda>offset. offset \<noteq> 0) offsets
      then bindr (next_account_info it) (\<lambda>(sysvar_account_info, it). Inr (Some sysvar_account_info, it))
      else Inr (None, it))"

definition verify_withdraw_proof ::
    "zk \<Rightarrow> account_info list \<Rightarrow> int \<Rightarrow> int \<Rightarrow> store \<Rightarrow> (withdraw_proof_context \<times> account_info list) result" where
  "verify_withdraw_proof Z it equality_proof_instruction_offset range_proof_instruction_offset st =
     bindr (proof_sysvar_account [equality_proof_instruction_offset, range_proof_instruction_offset] it) (\<lambda>(sysvar, it).
     bindr (verify_and_extract_context Z (zk_ciphertext_commitment_equality Z) [] it
              equality_proof_instruction_offset sysvar st) (\<lambda>(equality_proof_context, it).
     bindr (verify_and_extract_context Z (zk_range_proof_u64 Z) [] it range_proof_instruction_offset sysvar st)
       (\<lambda>(range_proof_context, it).
     bindr (extraction_result (withdraw_verify_and_extract equality_proof_context range_proof_context)) (\<lambda>c.
     Inr (c, it)))))"

definition verify_amount_proofs ::
    "zk \<Rightarrow> (ciphertext_commitment_equality_context \<Rightarrow> grouped_3_handles_context \<Rightarrow> range_proof_context \<Rightarrow>
       token_proof_extraction_error + 'c) \<Rightarrow> address list \<Rightarrow> account_info list \<Rightarrow> int \<Rightarrow> int \<Rightarrow> int \<Rightarrow> store \<Rightarrow>
     ('c \<times> account_info list) result" where
  "verify_amount_proofs Z verify_and_extract held it equality_proof_instruction_offset
       ciphertext_validity_proof_instruction_offset range_proof_instruction_offset st =
     bindr (proof_sysvar_account [equality_proof_instruction_offset, ciphertext_validity_proof_instruction_offset,
              range_proof_instruction_offset] it) (\<lambda>(sysvar, it).
     bindr (verify_and_extract_context Z (zk_ciphertext_commitment_equality Z) held it
              equality_proof_instruction_offset sysvar st) (\<lambda>(equality_proof_context, it).
     bindr (verify_and_extract_context Z (zk_grouped_3_handles_validity Z) held it
              ciphertext_validity_proof_instruction_offset sysvar st) (\<lambda>(ciphertext_validity_proof_context, it).
     bindr (verify_and_extract_context Z (zk_range_proof_u128 Z) held it range_proof_instruction_offset sysvar st)
       (\<lambda>(range_proof_context, it).
     bindr (extraction_result (verify_and_extract equality_proof_context ciphertext_validity_proof_context
              range_proof_context)) (\<lambda>c.
     Inr (c, it))))))"

definition verify_transfer_proof ::
    "zk \<Rightarrow> address list \<Rightarrow> account_info list \<Rightarrow> int \<Rightarrow> int \<Rightarrow> int \<Rightarrow> store \<Rightarrow>
     (transfer_proof_context \<times> account_info list) result" where
  "verify_transfer_proof Z = verify_amount_proofs Z (transfer_verify_and_extract Z)"

definition verify_mint_proof ::
    "zk \<Rightarrow> address list \<Rightarrow> account_info list \<Rightarrow> u8 \<Rightarrow> u8 \<Rightarrow> u8 \<Rightarrow> store \<Rightarrow>
     (mint_proof_context \<times> account_info list) result" where
  "verify_mint_proof Z held it equality_offset validity_offset range_offset =
     verify_amount_proofs Z (mint_verify_and_extract Z) held it (sint equality_offset) (sint validity_offset)
       (sint range_offset)"

definition verify_burn_proof ::
    "zk \<Rightarrow> address list \<Rightarrow> account_info list \<Rightarrow> u8 \<Rightarrow> u8 \<Rightarrow> u8 \<Rightarrow> store \<Rightarrow>
     (burn_proof_context \<times> account_info list) result" where
  "verify_burn_proof Z held it equality_offset validity_offset range_offset =
     verify_amount_proofs Z (burn_verify_and_extract Z) held it (sint equality_offset) (sint validity_offset)
       (sint range_offset)"

definition verify_transfer_with_fee_proof ::
    "zk \<Rightarrow> address list \<Rightarrow> account_info list \<Rightarrow> int \<Rightarrow> int \<Rightarrow> int \<Rightarrow> int \<Rightarrow> int \<Rightarrow> transfer_fee \<Rightarrow> store \<Rightarrow>
     (transfer_with_fee_proof_context \<times> account_info list) result" where
  "verify_transfer_with_fee_proof Z held it equality_proof_instruction_offset
       transfer_amount_ciphertext_validity_proof_instruction_offset fee_sigma_proof_instruction_offset
       fee_ciphertext_validity_proof_instruction_offset range_proof_instruction_offset fee_parameters st =
     bindr (proof_sysvar_account [equality_proof_instruction_offset,
              transfer_amount_ciphertext_validity_proof_instruction_offset, fee_sigma_proof_instruction_offset,
              fee_ciphertext_validity_proof_instruction_offset, range_proof_instruction_offset] it) (\<lambda>(sysvar, it).
     bindr (verify_and_extract_context Z (zk_ciphertext_commitment_equality Z) held it
              equality_proof_instruction_offset sysvar st) (\<lambda>(equality_proof_context, it).
     bindr (verify_and_extract_context Z (zk_grouped_3_handles_validity Z) held it
              transfer_amount_ciphertext_validity_proof_instruction_offset sysvar st)
       (\<lambda>(transfer_amount_ciphertext_validity_proof_context, it).
     bindr (verify_and_extract_context Z (zk_percentage_with_cap Z) held it
              fee_sigma_proof_instruction_offset sysvar st) (\<lambda>(fee_sigma_proof_context, it).
     bindr (verify_and_extract_context Z (zk_grouped_2_handles_validity Z) held it
              fee_ciphertext_validity_proof_instruction_offset sysvar st) (\<lambda>(fee_ciphertext_validity_proof_context, it).
     bindr (verify_and_extract_context Z (zk_range_proof_u256 Z) held it range_proof_instruction_offset sysvar st)
       (\<lambda>(range_proof_context, it).
     bindr (extraction_result (transfer_with_fee_verify_and_extract Z equality_proof_context
              transfer_amount_ciphertext_validity_proof_context fee_sigma_proof_context
              fee_ciphertext_validity_proof_context range_proof_context
              (tf_transfer_fee_basis_points fee_parameters) (tf_maximum_fee fee_parameters))) (\<lambda>c.
     Inr (c, it))))))))"

section \<open>What is documented of the other crates\<close>

text \<open>
  The ciphertexts taken out of a grouped ciphertext share its commitment; each has a decrypt handle of
  its own.
\<close>

definition extraction_laws :: "zk \<Rightarrow> bool" where
  "extraction_laws Z \<longleftrightarrow>
     (\<forall>g i c. zk_extract_3 Z g i = Some c \<longrightarrow> fst (elgamal_ciphertext_to_ristretto c) = zk_commitment_3 Z g) \<and>
     (\<forall>g i c. zk_extract_2 Z g i = Some c \<longrightarrow> fst (elgamal_ciphertext_to_ristretto c) = zk_commitment_2 Z g)"

lemma committed_extract:
  assumes "extraction_laws Z"
  shows "zk_extract_3 Z g i = Some c \<Longrightarrow> committed val c = val (zk_commitment_3 Z g)"
    "zk_extract_2 Z g i = Some c \<Longrightarrow> committed val c = val (zk_commitment_2 Z g)"
  using assms by (auto simp: extraction_laws_def committed_def)

text \<open>
  An instance, with the byte formats of the proof program: a context account has an authority, a type
  byte and the fields of the context; a grouped ciphertext is a commitment followed by its handles.
\<close>

definition sample_kind :: "proof_type \<Rightarrow> (bytes \<Rightarrow> 'u) \<Rightarrow> 'u proof_kind" where
  "sample_kind t f =
     \<lparr>pk_proof_type = t,
      pk_context_state = \<lambda>d. if length d < 33 then None else Some (d ! 32, f (drop 33 d)),
      pk_instruction_context = \<lambda>d. Some (f (drop 1 d))\<rparr>"

definition sample_extract :: "nat \<Rightarrow> grouped_ciphertext \<Rightarrow> nat \<Rightarrow> ciphertext option" where
  "sample_extract handles g i =
     (if length g = 32 + 32 * handles \<and> i < handles
      then Some (of_le (seg 0 32 g @ seg (32 + 32 * i) 32 g)) else None)"

definition sample_zk :: zk where
  "sample_zk =
     \<lparr>zk_curve = word_curve, zk_program_id = 60,
      zk_get_instruction_relative = \<lambda>_ _ _. Inl InvalidArgument, zk_instruction_type = \<lambda>_. None,
      zk_proof_type_byte = case_proof_type 0 1 2 3 4 5 6 7 8 9 10 11 12,
      zk_commitment_2 = \<lambda>g. of_le (seg 0 32 g), zk_commitment_3 = \<lambda>g. of_le (seg 0 32 g),
      zk_extract_2 = sample_extract 2, zk_extract_3 = sample_extract 3,
      zk_pubkey_validity = sample_kind TypePubkeyValidity (\<lambda>d. \<lparr>pvc_pubkey = of_le (seg 0 32 d)\<rparr>),
      zk_zero_ciphertext = sample_kind TypeZeroCiphertext
        (\<lambda>d. \<lparr>zcc_pubkey = of_le (seg 0 32 d), zcc_ciphertext = of_le (seg 32 64 d)\<rparr>),
      zk_ciphertext_ciphertext_equality = sample_kind TypeCiphertextCiphertextEquality
        (\<lambda>d. \<lparr>cce_first_pubkey = of_le (seg 0 32 d), cce_second_pubkey = of_le (seg 32 32 d),
              cce_first_ciphertext = of_le (seg 64 64 d), cce_second_ciphertext = of_le (seg 128 64 d)\<rparr>),
      zk_ciphertext_commitment_equality = sample_kind TypeCiphertextCommitmentEquality
        (\<lambda>d. \<lparr>cmc_pubkey = of_le (seg 0 32 d), cmc_ciphertext = of_le (seg 32 64 d), cmc_commitment = of_le (seg 96 32 d)\<rparr>),
      zk_grouped_3_handles_validity = sample_kind TypeBatchedGroupedCiphertext3HandlesValidity
        (\<lambda>d. \<lparr>g3_first_pubkey = of_le (seg 0 32 d), g3_second_pubkey = of_le (seg 32 32 d),
              g3_third_pubkey = of_le (seg 64 32 d),
              g3_grouped_ciphertext_lo = seg 96 128 d, g3_grouped_ciphertext_hi = seg 224 128 d\<rparr>),
      zk_grouped_2_handles_validity = sample_kind TypeBatchedGroupedCiphertext2HandlesValidity
        (\<lambda>d. \<lparr>g2_first_pubkey = of_le (seg 0 32 d), g2_second_pubkey = of_le (seg 32 32 d),
              g2_grouped_ciphertext_lo = seg 64 96 d, g2_grouped_ciphertext_hi = seg 160 96 d\<rparr>),
      zk_percentage_with_cap = sample_kind TypePercentageWithCap
        (\<lambda>d. \<lparr>pwc_percentage_commitment = of_le (seg 0 32 d), pwc_delta_commitment = of_le (seg 32 32 d),
              pwc_claimed_commitment = of_le (seg 64 32 d), pwc_max_value = of_le (seg 96 8 d)\<rparr>),
      zk_range_proof_u64 = sample_kind TypeBatchedRangeProofU64
        (\<lambda>d. \<lparr>rpc_commitments = List.map (\<lambda>i. of_le (seg (32 * i) 32 d)) [0..<8], rpc_bit_lengths = seg 256 8 d\<rparr>),
      zk_range_proof_u128 = sample_kind TypeBatchedRangeProofU128
        (\<lambda>d. \<lparr>rpc_commitments = List.map (\<lambda>i. of_le (seg (32 * i) 32 d)) [0..<8], rpc_bit_lengths = seg 256 8 d\<rparr>),
      zk_range_proof_u256 = sample_kind TypeBatchedRangeProofU256
        (\<lambda>d. \<lparr>rpc_commitments = List.map (\<lambda>i. of_le (seg (32 * i) 32 d)) [0..<8], rpc_bit_lengths = seg 256 8 d\<rparr>)\<rparr>"

lemma sample_extraction_laws: "extraction_laws sample_zk"
  by (auto simp: extraction_laws_def sample_zk_def sample_extract_def elgamal_ciphertext_to_ristretto_def codec_simps
      seg_def split: if_splits)

end
