(* ===== verification/State_Ext.thy ===== *)
theory State_Ext
  imports Extension_Data
begin

text \<open>
  States with extensions (interface/src/extension/mod.rs): how the bytes of an account split into
  a base state, padding, an account-type byte and the extension buffer, with every check of
  \<open>PodStateWithExtensions(Mut)::unpack\<close>, \<open>unpack_uninitialized\<close>, \<open>init_account_type\<close> and
  \<open>set_account_type\<close>. A mutable view in the code is a set of slices into the account; the model
  unpacks to a value of \<open>'s pod_state\<close> and writes it back with \<open>state_bytes\<close>.

  The central lemma is \<open>unpack_iff\<close> of the locale \<open>base_contract\<close>: unpacking succeeds exactly on the
  bytes of a well-formed state, so whatever a handler writes back can be read again.
\<close>

section \<open>Model\<close>

record 's base_state =
  bs_account_type :: account_type
  bs_size :: nat
  bs_to_bytes :: "'s \<Rightarrow> bytes"
  bs_of_bytes :: "bytes \<Rightarrow> 's"
  bs_is_initialized :: "'s \<Rightarrow> bool"

definition pod_mint_is_initialized :: "platform \<Rightarrow> pod_mint \<Rightarrow> bool" where
  "pod_mint_is_initialized P m = pl_bool_from_pod P (m_is_initialized m)"

definition mint_base :: "platform \<Rightarrow> pod_mint base_state" where
  "mint_base P =
     \<lparr>bs_account_type = AtMint, bs_size = MINT_LEN, bs_to_bytes = pod_mint_to_bytes,
      bs_of_bytes = pod_mint_of_bytes, bs_is_initialized = pod_mint_is_initialized P\<rparr>"

definition account_base :: "pod_account base_state" where
  "account_base =
     \<lparr>bs_account_type = AtAccount, bs_size = ACCOUNT_LEN, bs_to_bytes = pod_account_to_bytes,
      bs_of_bytes = pod_account_of_bytes, bs_is_initialized = pod_account_is_initialized\<rparr>"

record 's pod_state =
  ps_base :: 's
  ps_padding :: bytes
  ps_account_type :: bytes
  ps_tlv :: bytes

definition state_bytes :: "'s base_state \<Rightarrow> 's pod_state \<Rightarrow> bytes" where
  "state_bytes S st = bs_to_bytes S (ps_base st) @ ps_padding st @ ps_account_type st @ ps_tlv st"

definition check_min_len_and_not_multisig :: "bytes \<Rightarrow> nat \<Rightarrow> unit result" where
  "check_min_len_and_not_multisig input minimum_len =
     (if length input = MULTISIG_LEN \<or> length input < minimum_len then Inl InvalidAccountData
      else Inr ())"

definition check_account_type :: "'s base_state \<Rightarrow> account_type \<Rightarrow> unit result" where
  "check_account_type S t = ensure (t = bs_account_type S) InvalidAccountData"

definition type_and_tlv_indices :: "'s base_state \<Rightarrow> bytes \<Rightarrow> (nat \<times> nat) option result" where
  "type_and_tlv_indices S rest_input =
     (if rest_input = [] then Inr None
      else
        let account_type_index = BASE_ACCOUNT_LENGTH - bs_size S;
            tlv_start_index = account_type_index + 1 in
        if length rest_input < tlv_start_index then Inl InvalidAccountData
        else if \<exists>b \<in> set (take account_type_index rest_input). b \<noteq> 0 then Inl InvalidAccountData
        else Inr (Some (account_type_index, tlv_start_index)))"

definition unpack_tlv_data :: "'s base_state \<Rightarrow> bytes \<Rightarrow> bytes result" where
  "unpack_tlv_data S rest =
     bindr (type_and_tlv_indices S rest) (\<lambda>ix.
     case ix of
       Some (account_type_index, tlv_start_index) \<Rightarrow>
         bindr (ok_or (account_type_try_from (rest ! account_type_index)) InvalidAccountData) (\<lambda>t.
         bindr (check_account_type S t) (\<lambda>_.
         Inr (drop tlv_start_index rest)))
     | None \<Rightarrow> Inr [])"

text \<open>The mutable variant returns the padding it skipped, the account-type byte and the buffer.\<close>

definition unpack_type_and_tlv_data_with_check ::
    "'s base_state \<Rightarrow> (account_type \<Rightarrow> unit result) \<Rightarrow> bytes \<Rightarrow> (bytes \<times> bytes \<times> bytes) result" where
  "unpack_type_and_tlv_data_with_check S check_fn rest =
     bindr (type_and_tlv_indices S rest) (\<lambda>ix.
     case ix of
       Some (account_type_index, tlv_start_index) \<Rightarrow>
         bindr (ok_or (account_type_try_from (rest ! account_type_index)) InvalidAccountData) (\<lambda>t.
         bindr (check_fn t) (\<lambda>_.
         Inr (take account_type_index rest, [rest ! account_type_index], drop tlv_start_index rest)))
     | None \<Rightarrow> Inr ([], [], []))"

definition unpack_type_and_tlv_data :: "'s base_state \<Rightarrow> bytes \<Rightarrow> (bytes \<times> bytes \<times> bytes) result" where
  "unpack_type_and_tlv_data S rest = unpack_type_and_tlv_data_with_check S (check_account_type S) rest"

definition unpack_uninitialized_type_and_tlv_data ::
    "'s base_state \<Rightarrow> bytes \<Rightarrow> (bytes \<times> bytes \<times> bytes) result" where
  "unpack_uninitialized_type_and_tlv_data S rest =
     unpack_type_and_tlv_data_with_check S (\<lambda>t. ensure (t = AtUninitialized) InvalidAccountData) rest"

text \<open>\<open>PodStateWithExtensions::unpack\<close>: the base state and the extension buffer, read-only.\<close>

definition unpack_ref :: "'s base_state \<Rightarrow> bytes \<Rightarrow> ('s \<times> bytes) result" where
  "unpack_ref S input =
     bindr (check_min_len_and_not_multisig input (bs_size S)) (\<lambda>_.
     let base = bs_of_bytes S (take (bs_size S) input);
         rest = drop (bs_size S) input in
     if \<not> bs_is_initialized S base then Inl UninitializedAccount
     else bindr (unpack_tlv_data S rest) (\<lambda>tlv. Inr (base, tlv)))"

text \<open>\<open>PodStateWithExtensionsMut::unpack\<close>.\<close>

definition unpack :: "'s base_state \<Rightarrow> bytes \<Rightarrow> 's pod_state result" where
  "unpack S input =
     bindr (check_min_len_and_not_multisig input (bs_size S)) (\<lambda>_.
     let base = bs_of_bytes S (take (bs_size S) input);
         rest = drop (bs_size S) input in
     if \<not> bs_is_initialized S base then Inl UninitializedAccount
     else bindr (unpack_type_and_tlv_data S rest) (\<lambda>(padding, account_type, tlv_data).
       Inr \<lparr>ps_base = base, ps_padding = padding, ps_account_type = account_type, ps_tlv = tlv_data\<rparr>))"

definition check_account_type_matches_extension_type :: "'s base_state \<Rightarrow> 's pod_state \<Rightarrow> unit result" where
  "check_account_type_matches_extension_type S st =
     bindr (get_first_extension_type (ps_tlv st)) (\<lambda>first.
     case first of
       Some t \<Rightarrow> ensure (get_account_type t = bs_account_type S) (Custom ExtensionBaseMismatch)
     | None \<Rightarrow> Inr ())"

definition unpack_uninitialized :: "'s base_state \<Rightarrow> bytes \<Rightarrow> 's pod_state result" where
  "unpack_uninitialized S input =
     bindr (check_min_len_and_not_multisig input (bs_size S)) (\<lambda>_.
     let base = bs_of_bytes S (take (bs_size S) input);
         rest = drop (bs_size S) input in
     if bs_is_initialized S base then Inl (Custom AlreadyInUse)
     else bindr (unpack_uninitialized_type_and_tlv_data S rest) (\<lambda>(padding, account_type, tlv_data).
       let st = \<lparr>ps_base = base, ps_padding = padding, ps_account_type = account_type, ps_tlv = tlv_data\<rparr> in
       bindr (check_account_type_matches_extension_type S st) (\<lambda>_. Inr st)))"

definition init_account_type :: "'s base_state \<Rightarrow> 's pod_state \<Rightarrow> 's pod_state result" where
  "init_account_type S st =
     bindr (get_first_extension_type (ps_tlv st)) (\<lambda>first_extension_type.
     if ps_account_type st = [] then Inr st
     else
       bindr (case first_extension_type of
           Some t \<Rightarrow> ensure (get_account_type t = bs_account_type S) (Custom ExtensionBaseMismatch)
         | None \<Rightarrow> Inr ()) (\<lambda>_.
       Inr (st\<lparr>ps_account_type := (ps_account_type st)[0 := account_type_u8 (bs_account_type S)]\<rparr>)))"

definition get_extension_types :: "'s pod_state \<Rightarrow> extension_type list result" where
  "get_extension_types st = bindr (get_tlv_data_info (ps_tlv st)) (\<lambda>info. Inr (tdi_extension_types info))"

text \<open>
  \<open>is_initialized_account\<close> of the extension module: the state byte of a 165-byte base, which is
  offset 108.
\<close>

definition is_initialized_account :: "bytes \<Rightarrow> bool result" where
  "is_initialized_account input =
     (if length input \<noteq> BASE_ACCOUNT_LENGTH then Inl InvalidAccountData else Inr (input ! 108 \<noteq> 0))"

definition set_account_type :: "'s base_state \<Rightarrow> bytes \<Rightarrow> bytes result" where
  "set_account_type S input =
     bindr (check_min_len_and_not_multisig input (bs_size S)) (\<lambda>_.
     let base_data = take (bs_size S) input;
         rest = drop (bs_size S) input in
     bindr (if bs_account_type S = AtAccount
            then bindr (is_initialized_account base_data) (\<lambda>b. ensure b InvalidAccountData)
            else Inr ()) (\<lambda>_.
     bindr (type_and_tlv_indices S rest) (\<lambda>ix.
     case ix of
       Some (account_type_index, _) \<Rightarrow>
         bindr (ok_or (account_type_try_from (rest ! account_type_index)) InvalidAccountData) (\<lambda>t.
         if t = AtUninitialized
         then Inr (base_data @ rest[account_type_index := account_type_u8 (bs_account_type S)])
         else bindr (check_account_type S t) (\<lambda>_. Inr input))
     | None \<Rightarrow> Inl InvalidAccountData)))"

text \<open>\<open>init_account_extension_from_type\<close>, on the buffer of a token account.\<close>

definition init_account_extension_from_type :: "extension_type \<Rightarrow> bytes \<Rightarrow> bytes result" where
  "init_account_extension_from_type t tlv =
     (if get_account_type t \<noteq> AtAccount then Inr tlv
      else case t of
          TransferFeeAmount \<Rightarrow> init_extension AtAccount transfer_fee_amount_ext True tlv
        | ImmutableOwner \<Rightarrow> init_extension AtAccount immutable_owner_ext True tlv
        | NonTransferableAccount \<Rightarrow> init_extension AtAccount non_transferable_account_ext True tlv
        | TransferHookAccount \<Rightarrow> init_extension AtAccount transfer_hook_account_ext True tlv
        | ConfidentialTransferAccount \<Rightarrow> Inr tlv
        | PausableAccount \<Rightarrow> init_extension AtAccount pausable_account_ext True tlv
        | _ \<Rightarrow> Inl Panic)"

section \<open>Sizing an account from its mint\<close>

definition try_for_each_required_init_account_extension ::
    "(extension_type \<Rightarrow> 's \<Rightarrow> 's result) \<Rightarrow> bytes \<Rightarrow> 's \<Rightarrow> 's result" where
  "try_for_each_required_init_account_extension f mint_tlv_data s =
     bindr (try_for_each_tlv_extension_type
              (\<lambda>t. try_for_each f (required_init_account_extensions t)) mint_tlv_data 0 s) (\<lambda>(_, s').
     Inr s')"

definition try_calculate_account_len_from_mint_data ::
    "platform \<Rightarrow> bytes \<Rightarrow> extension_type list \<Rightarrow> nat result" where
  "try_calculate_account_len_from_mint_data P mint_data additional_account_extensions =
     (if \<exists>t \<in> set additional_account_extensions. get_account_type t \<noteq> AtAccount
      then Inl (Custom ExtensionTypeMismatch)
      else
        bindr (map_err (unpack_ref (mint_base P) mint_data) (Custom InvalidMint)) (\<lambda>(_, mint_tlv).
        bindr (try_for_each_required_init_account_extension (accumulator_insert P) mint_tlv
                 accumulator_default) (\<lambda>acc1.
        bindr (try_for_each (accumulator_insert P) additional_account_extensions acc1) (\<lambda>acc2.
        Inr (accumulator_account_len ACCOUNT_LEN acc2)))))"

section \<open>Well-formed states\<close>

definition layout_ok :: "'s base_state \<Rightarrow> u8 \<Rightarrow> 's pod_state \<Rightarrow> bool" where
  "layout_ok S t st \<longleftrightarrow>
     (ps_padding st = [] \<and> ps_account_type st = [] \<and> ps_tlv st = [] \<or>
      ps_padding st = replicate (BASE_ACCOUNT_LENGTH - bs_size S) 0 \<and> ps_account_type st = [t]) \<and>
     length (state_bytes S st) \<noteq> MULTISIG_LEN"

definition wf_state :: "'s base_state \<Rightarrow> 's pod_state \<Rightarrow> bool" where
  "wf_state S st \<longleftrightarrow>
     bs_is_initialized S (ps_base st) \<and> layout_ok S (account_type_u8 (bs_account_type S)) st"

lemma account_type_try_from_iff: "account_type_try_from b = Some t \<longleftrightarrow> b = account_type_u8 t"
  by (cases t) (auto simp: account_type_try_from_def account_type_u8_def split: if_splits)

lemma take_all_zero:
  "(\<forall>b \<in> set (take n xs). b = 0) \<Longrightarrow> n \<le> length xs \<Longrightarrow> take n xs = replicate n (0 :: u8)"
  by (metis length_take min.absorb2 replicate_eqI)

lemma type_and_tlv_indices_Some:
  "type_and_tlv_indices S rest = Inr (Some (i, j)) \<longleftrightarrow>
     rest \<noteq> [] \<and> i = BASE_ACCOUNT_LENGTH - bs_size S \<and> j = i + 1 \<and> j \<le> length rest \<and>
     take i rest = replicate i 0"
  by (auto simp: type_and_tlv_indices_def Let_def not_less intro!: take_all_zero dest: arg_cong [of _ _ set])

lemma type_and_tlv_indices_None: "type_and_tlv_indices S rest = Inr None \<longleftrightarrow> rest = []"
  by (simp add: type_and_tlv_indices_def Let_def)

lemma type_and_tlv_data_iff:
  assumes chk: "\<And>t. check_fn t = Inr () \<longleftrightarrow> t = t0"
  shows "unpack_type_and_tlv_data_with_check S check_fn rest = Inr (padding, at, tlv) \<longleftrightarrow>
     rest = padding @ at @ tlv \<and>
     (padding = [] \<and> at = [] \<and> tlv = [] \<or>
      padding = replicate (BASE_ACCOUNT_LENGTH - bs_size S) 0 \<and> at = [account_type_u8 t0])"
    (is "?lhs \<longleftrightarrow> ?rhs")
proof
  assume ?lhs
  then obtain ix where ix: "type_and_tlv_indices S rest = Inr ix"
    by (auto simp: unpack_type_and_tlv_data_with_check_def result_simps)
  show ?rhs
  proof (cases ix)
    case None
    with ix have "rest = []" by (simp add: type_and_tlv_indices_None)
    moreover from ix None \<open>?lhs\<close> have "padding = []" "at = []" "tlv = []"
      by (simp_all add: unpack_type_and_tlv_data_with_check_def)
    ultimately show ?thesis by simp
  next
    case (Some p)
    obtain i j where p: "p = (i, j)" by (cases p)
    with ix Some have r: "i = BASE_ACCOUNT_LENGTH - bs_size S" "j = i + 1" "i < length rest"
      "take i rest = replicate i 0"
      by (auto simp: type_and_tlv_indices_Some)
    from \<open>?lhs\<close> ix Some p chk have "padding = take i rest" "at = [rest ! i]" "tlv = drop j rest"
      "rest ! i = account_type_u8 t0"
      by (auto simp: unpack_type_and_tlv_data_with_check_def result_simps account_type_try_from_iff)
    with r show ?thesis using id_take_nth_drop [of i rest] by simp
  qed
next
  assume r: ?rhs
  show ?lhs
  proof (cases "rest = []")
    case True
    with r show ?thesis
      by (auto simp: unpack_type_and_tlv_data_with_check_def type_and_tlv_indices_def)
  next
    case False
    let ?i = "BASE_ACCOUNT_LENGTH - bs_size S"
    from False r have rest: "rest = replicate ?i 0 @ [account_type_u8 t0] @ tlv"
      "padding = replicate ?i 0" "at = [account_type_u8 t0]" by auto
    then have "type_and_tlv_indices S rest = Inr (Some (?i, ?i + 1))"
      by (auto simp: type_and_tlv_indices_Some)
    with rest chk [of t0] show ?thesis
      by (simp add: unpack_type_and_tlv_data_with_check_def nth_append)
  qed
qed

locale base_contract = pod_codec "bs_size S" "bs_to_bytes S" "bs_of_bytes S"
  for S :: "'s base_state"
begin

lemma length_state_bytes:
  "length (state_bytes S st) =
     bs_size S + length (ps_padding st) + length (ps_account_type st) + length (ps_tlv st)"
  by (simp add: state_bytes_def length_to_bytes)

lemma state_bytes_inject_parts:
  assumes "bs_size S \<le> length d"
  shows "state_bytes S st = d \<longleftrightarrow>
    ps_base st = bs_of_bytes S (take (bs_size S) d) \<and>
    drop (bs_size S) d = ps_padding st @ ps_account_type st @ ps_tlv st"
proof
  assume "state_bytes S st = d"
  then show "ps_base st = bs_of_bytes S (take (bs_size S) d) \<and>
    drop (bs_size S) d = ps_padding st @ ps_account_type st @ ps_tlv st"
    by (auto simp: state_bytes_def length_to_bytes of_to_bytes)
next
  assume "ps_base st = bs_of_bytes S (take (bs_size S) d) \<and>
    drop (bs_size S) d = ps_padding st @ ps_account_type st @ ps_tlv st"
  with rewrite_front [OF assms] show "state_bytes S st = d" by (simp add: state_bytes_def)
qed

text \<open>Unpacking succeeds exactly on the bytes of a well-formed state.\<close>

lemma unpack_iff: "unpack S d = Inr st \<longleftrightarrow> wf_state S st \<and> state_bytes S st = d"
proof (cases "bs_size S \<le> length d")
  case True
  have chk: "check_account_type S t = Inr () \<longleftrightarrow> t = bs_account_type S" for t
    by (simp add: check_account_type_def result_simps)
  show ?thesis
    using True state_bytes_inject_parts [OF True, of st]
    by (cases st)
      (auto simp: unpack_def check_min_len_and_not_multisig_def Let_def result_simps wf_state_def
        layout_ok_def unpack_type_and_tlv_data_def type_and_tlv_data_iff [OF chk])
next
  case False
  then show ?thesis
    using length_state_bytes [of st]
    by (auto simp: unpack_def check_min_len_and_not_multisig_def)
qed

lemma unpack_bytes: "unpack S d = Inr st \<Longrightarrow> state_bytes S st = d"
  by (simp add: unpack_iff)

lemma unpack_length: "unpack S d = Inr st \<Longrightarrow> length d \<noteq> MULTISIG_LEN"
  by (auto simp: unpack_iff wf_state_def layout_ok_def)

text \<open>What a handler writes back can be read again.\<close>

lemma unpack_update:
  assumes "unpack S d = Inr st" and "bs_is_initialized S b" and "length tlv = length (ps_tlv st)"
  shows "unpack S (state_bytes S (st\<lparr>ps_base := b, ps_tlv := tlv\<rparr>)) = Inr (st\<lparr>ps_base := b, ps_tlv := tlv\<rparr>)"
  using assms by (auto simp: unpack_iff wf_state_def layout_ok_def length_state_bytes)

lemma unpack_update_base:
  assumes "unpack S d = Inr st" and "bs_is_initialized S b"
  shows "unpack S (state_bytes S (st\<lparr>ps_base := b\<rparr>)) = Inr (st\<lparr>ps_base := b\<rparr>)"
  using unpack_update [OF assms, of "ps_tlv st"] by simp

lemma length_state_bytes_update:
  assumes "unpack S d = Inr st" and "length tlv = length (ps_tlv st)"
  shows "length (state_bytes S (st\<lparr>ps_base := b, ps_tlv := tlv\<rparr>)) = length d"
  using assms unpack_bytes [OF assms(1)] by (auto simp: length_state_bytes)

lemma unpack_ref_eq: "unpack_ref S d = bindr (unpack S d) (\<lambda>st. Inr (ps_base st, ps_tlv st))"
proof -
  have "unpack_tlv_data S rest = bindr (unpack_type_and_tlv_data S rest) (\<lambda>(_, _, tlv). Inr tlv)" for rest
    by (auto simp: unpack_tlv_data_def unpack_type_and_tlv_data_def
        unpack_type_and_tlv_data_with_check_def bindr_def split: sum.splits option.splits)
  then show ?thesis
    by (auto simp: unpack_ref_def unpack_def Let_def bindr_def split: sum.splits)
qed

lemma unpack_uninitialized_Inr:
  assumes "unpack_uninitialized S d = Inr st"
  shows "\<not> bs_is_initialized S (ps_base st)" "layout_ok S 0 st" "state_bytes S st = d"
proof -
  have chk: "ensure (t = AtUninitialized) InvalidAccountData = Inr () \<longleftrightarrow> t = AtUninitialized" for t
    by (simp add: result_simps)
  have le: "bs_size S \<le> length d" and len: "length d \<noteq> MULTISIG_LEN"
    using assms by (auto simp: unpack_uninitialized_def check_min_len_and_not_multisig_def result_simps
        split: if_splits)
  from assms show "\<not> bs_is_initialized S (ps_base st)"
    by (auto simp: unpack_uninitialized_def check_min_len_and_not_multisig_def Let_def result_simps
        split: if_splits)
  from assms show b: "state_bytes S st = d"
    by (auto simp: state_bytes_inject_parts [OF le] unpack_uninitialized_def Let_def result_simps
        check_min_len_and_not_multisig_def unpack_uninitialized_type_and_tlv_data_def
        type_and_tlv_data_iff [OF chk] split: if_splits)
  from assms b len show "layout_ok S 0 st"
    by (cases st) (auto simp: layout_ok_def unpack_uninitialized_def Let_def result_simps account_type_u8_def
        check_min_len_and_not_multisig_def unpack_uninitialized_type_and_tlv_data_def
        type_and_tlv_data_iff [OF chk] split: if_splits)
qed

lemma init_account_type_shape:
  assumes "init_account_type S st = Inr st'"
  shows "ps_base st' = ps_base st" "ps_tlv st' = ps_tlv st" "ps_padding st' = ps_padding st"
    "length (ps_account_type st') = length (ps_account_type st)"
  using assms by (auto simp: init_account_type_def result_simps split: if_splits)

text \<open>Initialising the account type turns an uninitialised layout into a readable state.\<close>

lemma init_account_type_unpack:
  assumes "init_account_type S st = Inr st'" and "layout_ok S 0 st" and "bs_is_initialized S (ps_base st)"
  shows "unpack S (state_bytes S st') = Inr st'" "ps_base st' = ps_base st" "ps_tlv st' = ps_tlv st"
    "length (state_bytes S st') = length (state_bytes S st)"
proof -
  have n: "ps_account_type st = [] \<or> ps_account_type st = [0]"
    using assms(2) by (auto simp: layout_ok_def)
  let ?t = "account_type_u8 (bs_account_type S)"
  have st': "st' = (if ps_account_type st = [] then st else st\<lparr>ps_account_type := [?t]\<rparr>)"
    using n assms(1) by (auto simp: init_account_type_def result_simps split: if_splits)
  show "unpack S (state_bytes S st') = Inr st'" "length (state_bytes S st') = length (state_bytes S st)"
    using n assms(2,3) by (auto simp: st' unpack_iff wf_state_def layout_ok_def length_state_bytes)
  show "ps_base st' = ps_base st" "ps_tlv st' = ps_tlv st" by (simp_all add: st')
qed

end

lemma mint_base_simps [simp]:
  "bs_account_type (mint_base P) = AtMint" "bs_size (mint_base P) = MINT_LEN"
  "bs_to_bytes (mint_base P) = pod_mint_to_bytes" "bs_of_bytes (mint_base P) = pod_mint_of_bytes"
  "bs_is_initialized (mint_base P) = pod_mint_is_initialized P"
  by (simp_all add: mint_base_def)

lemma account_base_simps [simp]:
  "bs_account_type account_base = AtAccount" "bs_size account_base = ACCOUNT_LEN"
  "bs_to_bytes account_base = pod_account_to_bytes" "bs_of_bytes account_base = pod_account_of_bytes"
  "bs_is_initialized account_base = pod_account_is_initialized"
  by (simp_all add: account_base_def)

interpretation mint_st: base_contract "mint_base P" for P
  by unfold_locales
    (simp_all add: mint_pod.length_to_bytes mint_pod.of_to_bytes mint_pod.to_of_bytes)

interpretation account_st: base_contract account_base
  by unfold_locales
    (simp_all add: account_pod.length_to_bytes account_pod.of_to_bytes account_pod.to_of_bytes)

text \<open>The bytes of a mint are never those of a token account: the account type, or the length, differ.\<close>

lemma mint_account_disjoint:
  assumes "unpack (mint_base P) d = Inr m" shows "\<exists>e. unpack account_base d = Inl e"
proof (cases "unpack account_base d")
  case (Inr a)
  from mint_st.unpack_iff [THEN iffD1, OF assms] have m: "wf_state (mint_base P) m" "state_bytes (mint_base P) m = d"
    by auto
  from account_st.unpack_iff [THEN iffD1, OF Inr] have a: "wf_state account_base a" "state_bytes account_base a = d"
    by auto
  have "ACCOUNT_LEN \<le> length d"
    using a(2) account_st.length_state_bytes [of a] by simp
  then have full: "ps_padding m = replicate 83 0" "ps_account_type m = [1]"
    using m mint_st.length_state_bytes [of P m]
    by (auto simp: wf_state_def layout_ok_def MINT_LEN_def ACCOUNT_LEN_def BASE_ACCOUNT_LENGTH_def account_type_u8_def)
  have l: "length (pod_mint_to_bytes (ps_base m)) = 82"
    using mint_pod.length_to_bytes by (simp add: MINT_LEN_def)
  then have "d ! 165 = 1" "165 < length d"
    using m(2) full by (auto simp: state_bytes_def nth_append)
  moreover have "d ! 165 = 2"
  proof -
    have "ps_account_type a = [2]" "ps_padding a = []"
      using a \<open>165 < length d\<close> account_st.length_state_bytes [of a]
      by (auto simp: wf_state_def layout_ok_def ACCOUNT_LEN_def BASE_ACCOUNT_LENGTH_def account_type_u8_def)
    moreover have "length (pod_account_to_bytes (ps_base a)) = 165"
      using account_pod.length_to_bytes by (simp add: ACCOUNT_LEN_def)
    ultimately show ?thesis using a(2) by (auto simp: state_bytes_def nth_append)
  qed
  ultimately show ?thesis by simp
qed simp

end
