(* ===== verification/Tlv_Layout.thy ===== *)
theory Tlv_Layout
  imports Extension_Data "HOL-Library.AList"
begin

text \<open>
  The extension buffer as a finite map. A buffer is laid out as a list of entries when it is the
  entries one after the other, of distinct types, followed by zeros. On such buffers the byte-walking
  operations of interface/src/extension/mod.rs are the operations of an association list: reading is
  lookup, writing and allocating are update, and the result is laid out again. Growing the buffer
  with zeros changes nothing.
\<close>

section \<open>Layouts\<close>

type_synonym entries = "(extension_type \<times> bytes) list"

definition entries_bytes :: "entries \<Rightarrow> bytes" where
  "entries_bytes es = concat (map (\<lambda>(t, v). entry_bytes t v) es)"

definition wf_entries :: "entries \<Rightarrow> bool" where
  "wf_entries es \<longleftrightarrow> distinct (map fst es) \<and> (\<forall>(t, v) \<in> set es. t \<noteq> ExtUninitialized \<and> length v < 2 ^ 16)"

definition laid_out :: "entries \<Rightarrow> bytes \<Rightarrow> bool" where
  "laid_out es tlv \<longleftrightarrow> wf_entries es \<and> (\<exists>n. tlv = entries_bytes es @ replicate n 0)"

lemma entries_bytes_simps [simp]:
  "entries_bytes [] = []" "entries_bytes ((t, v) # es) = entry_bytes t v @ entries_bytes es"
  "entries_bytes (es @ fs) = entries_bytes es @ entries_bytes fs"
  by (simp_all add: entries_bytes_def)

lemma wf_entries_simps [simp]:
  "wf_entries []"
  "wf_entries ((t, v) # es) \<longleftrightarrow> t \<notin> fst ` set es \<and> t \<noteq> ExtUninitialized \<and> length v < 2 ^ 16 \<and> wf_entries es"
  by (auto simp: wf_entries_def)

lemma laid_out_zeros: "laid_out [] (replicate n 0)"
  by (auto simp: laid_out_def)

lemma laid_out_Nil [simp]: "laid_out [] []"
  using laid_out_zeros [of 0] by simp

lemma laid_out_append_zeros: "laid_out es tlv \<Longrightarrow> laid_out es (tlv @ replicate n 0)"
  by (auto simp: laid_out_def simp flip: replicate_add)

lemma header_at:
  "read_u16 (pre @ entry_bytes t v @ rest) (length pre) = ext_code t"
  "length v < 2 ^ 16 \<Longrightarrow> read_u16 (pre @ entry_bytes t v @ rest) (length pre + 2) = length v"
proof -
  have p: "pre @ entry_bytes t v @ rest = patch (length pre) (entry_bytes t v) (pre @ entry_bytes t v @ rest)"
    by (simp add: patch_def)
  show "read_u16 (pre @ entry_bytes t v @ rest) (length pre) = ext_code t"
    by (subst p, rule read_u16_entry) simp
  show "length v < 2 ^ 16 \<Longrightarrow> read_u16 (pre @ entry_bytes t v @ rest) (length pre + 2) = length v"
    by (subst p, rule read_u16_entry) simp_all
qed

lemma indices_skip:
  assumes "wf_entries es" and "V \<notin> fst ` set es"
  shows "get_extension_indices V init (pre @ entries_bytes es @ rest) (length pre) =
    get_extension_indices V init (pre @ entries_bytes es @ rest) (length pre + length (entries_bytes es))"
  using assms
proof (induction es arbitrary: pre)
  case (Cons e es)
  obtain t v where e: "e = (t, v)" by (cases e)
  let ?tlv = "pre @ entries_bytes (e # es) @ rest"
  have "get_extension_indices V init ?tlv (length pre) =
      get_extension_indices V init ?tlv (length (pre @ entry_bytes t v))"
    using Cons.prems header_at [where pre = pre and t = t and v = v and rest = "entries_bytes es @ rest"]
    by (subst get_extension_indices.simps) (auto simp: e Let_def ext_code_inject add.assoc)
  also have "\<dots> = get_extension_indices V init ?tlv (length (pre @ entry_bytes t v) + length (entries_bytes es))"
    using Cons.IH [of "pre @ entry_bytes t v"] Cons.prems by (simp add: e)
  finally show ?case by (simp add: e add.assoc)
qed simp

lemma wf_entries_append:
  "wf_entries (es @ fs) \<longleftrightarrow> wf_entries es \<and> wf_entries fs \<and> fst ` set es \<inter> fst ` set fs = {}"
  by (auto simp: wf_entries_def)

lemma indices_found:
  assumes "wf_entries (es @ (V, v) # fs)"
  shows "get_extension_indices V init (entries_bytes (es @ (V, v) # fs) @ replicate n 0) 0 =
    Inr (get_tlv_indices (length (entries_bytes es)))"
proof -
  have "wf_entries es" "V \<notin> fst ` set es" using assms by (auto simp: wf_entries_append)
  from indices_skip [OF this, of init "[]" "entry_bytes V v @ entries_bytes fs @ replicate n 0"]
    header_at(1) [where pre = "entries_bytes es" and t = V and v = v and rest = "entries_bytes fs @ replicate n 0"]
  show ?thesis
    by (simp, subst get_extension_indices.simps) (simp add: Let_def)
qed

lemma indices_absent:
  assumes "wf_entries es" and "V \<notin> fst ` set es" and "V \<noteq> ExtUninitialized"
  shows "\<exists>e. get_extension_indices V False (entries_bytes es @ replicate n 0) 0 = Inl e"
    and "get_extension_indices V True (entries_bytes es @ replicate n 0) 0 = Inr ix \<Longrightarrow>
      ix = get_tlv_indices (length (entries_bytes es))"
proof -
  let ?tlv = "entries_bytes es @ replicate n 0" and ?i = "length (entries_bytes es)"
  have skip: "get_extension_indices V init ?tlv 0 = get_extension_indices V init ?tlv ?i" for init
    using indices_skip [OF assms(1,2), of init "[]" "replicate n 0"] by simp
  have z: "read_u16 ?tlv ?i = ext_code ExtUninitialized"
    by (simp add: read_u16_def seg_def)
  show "\<exists>e. get_extension_indices V False ?tlv 0 = Inl e"
    unfolding skip using assms(3) z by (subst get_extension_indices.simps) (simp add: Let_def ext_code_inject)
  show "get_extension_indices V True ?tlv 0 = Inr ix \<Longrightarrow> ix = get_tlv_indices ?i"
    unfolding skip using assms(3) z
    by (subst (asm) get_extension_indices.simps) (simp add: Let_def ext_code_inject split: if_splits)
qed

section \<open>Reading and writing\<close>

lemma seg_value: "seg (length pre + 4) (length v) (pre @ entry_bytes t v @ rest) = v"
  by (simp add: entry_bytes_def seg_def extension_type_to_bytes_def)

lemma laid_out_split:
  assumes "laid_out es tlv" and "map_of es V = Some v"
  obtains es1 es2 n where "es = es1 @ (V, v) # es2" "V \<notin> fst ` set es1" "wf_entries es"
    "tlv = entries_bytes es @ replicate n 0"
proof -
  from map_of_SomeD [OF assms(2)] obtain es1 es2 where "es = es1 @ (V, v) # es2" by (meson split_list)
  with assms(1) show thesis
    by (auto simp: laid_out_def wf_entries_append intro: that)
qed

lemma get_laid_out:
  assumes "laid_out es tlv" and "V \<noteq> ExtUninitialized"
  shows "get_extension_bytes at V tlv = Inr v \<longleftrightarrow> get_account_type V = at \<and> map_of es V = Some v"
proof (cases "map_of es V")
  case None
  from assms(1) obtain n where tlv: "tlv = entries_bytes es @ replicate n 0" and wf: "wf_entries es"
    by (auto simp: laid_out_def)
  obtain e where "get_extension_indices V False tlv 0 = Inl e"
    using indices_absent(1) [OF wf _ assms(2)] None by (auto simp: tlv map_of_eq_None_iff)
  with None show ?thesis
    by (simp add: get_extension_bytes_def get_extension_range_def)
next
  case (Some w)
  from laid_out_split [OF assms(1) this] obtain es1 es2 n where
    s: "es = es1 @ (V, w) # es2" "wf_entries es" "tlv = entries_bytes es @ replicate n 0" by metis
  have ix: "get_extension_indices V False tlv 0 = Inr (get_tlv_indices (length (entries_bytes es1)))"
    using indices_found s by metis
  have "length w < 2 ^ 16" using s by (auto simp: wf_entries_append)
  from header_at(2) [OF this, where pre = "entries_bytes es1" and t = V and rest = "entries_bytes es2 @ replicate n 0"]
    seg_value [where pre = "entries_bytes es1" and t = V and v = w and rest = "entries_bytes es2 @ replicate n 0"] s(1,3)
  have "read_u16 tlv (length (entries_bytes es1) + 2) = length w" "seg (length (entries_bytes es1) + 4) (length w) tlv = w"
    "length (entries_bytes es1) + 4 + length w \<le> length tlv"
    by simp_all
  with ix Some show ?thesis
    by (auto simp: get_extension_bytes_def get_extension_range_def Let_def)
qed

lemma patch_value:
  "length v = length w \<Longrightarrow> patch (length pre + 4) v (pre @ entry_bytes t w @ rest) = pre @ entry_bytes t v @ rest"
  by (simp add: patch_def entry_bytes_def extension_type_to_bytes_def)

lemma update_split: "V \<notin> fst ` set es1 \<Longrightarrow> AList.update V v (es1 @ (V, w) # es2) = es1 @ (V, v) # es2"
  by (induction es1) auto

lemma update_absent: "V \<notin> fst ` set es \<Longrightarrow> AList.update V v es = es @ [(V, v)]"
  by (induction es) auto

lemma wf_entries_update:
  assumes "wf_entries es" and "V \<noteq> ExtUninitialized" and "length v < 2 ^ 16"
  shows "wf_entries (AList.update V v es)"
proof (cases "map_of es V")
  case None
  then have "V \<notin> fst ` set es" by (simp add: map_of_eq_None_iff)
  with assms show ?thesis by (auto simp: update_absent wf_entries_append)
next
  case (Some w)
  from map_of_SomeD [OF this] obtain es1 es2 where es: "es = es1 @ (V, w) # es2" by (meson split_list)
  with assms(1) have "V \<notin> fst ` set es1" by (auto simp: wf_entries_append)
  with assms es show ?thesis by (auto simp: update_split wf_entries_append)
qed

lemma range_laid_out:
  assumes "laid_out es tlv" and "map_of es V = Some w"
  obtains es1 es2 n where "es = es1 @ (V, w) # es2" "V \<notin> fst ` set es1"
    "tlv = entries_bytes es @ replicate n 0" "wf_entries es"
    "get_extension_indices V init tlv 0 = Inr (get_tlv_indices (length (entries_bytes es1)))"
    "read_u16 tlv (length (entries_bytes es1)) = ext_code V"
    "read_u16 tlv (length (entries_bytes es1) + 2) = length w"
proof -
  from laid_out_split [OF assms] obtain es1 es2 n where
    s: "es = es1 @ (V, w) # es2" "V \<notin> fst ` set es1" "wf_entries es" "tlv = entries_bytes es @ replicate n 0"
    by metis
  have "length w < 2 ^ 16" using s by (auto simp: wf_entries_append)
  from header_at(2) [where pre = "entries_bytes es1" and t = V and rest = "entries_bytes es2 @ replicate n 0", OF this]
    header_at(1) [where pre = "entries_bytes es1" and t = V and v = w and rest = "entries_bytes es2 @ replicate n 0"]
    indices_found [of es1 V w es2 init n] s
  show thesis by (intro that [of es1 es2 n]) simp_all
qed

lemma put_laid_out:
  assumes "laid_out es tlv" and "V \<noteq> ExtUninitialized" and "put_extension_bytes at V v tlv = Inr tlv'"
  shows "laid_out (AList.update V v es) tlv'" and "\<exists>w. map_of es V = Some w \<and> length w = length v"
    and "get_account_type V = at"
proof -
  obtain i n where r: "get_extension_range at V tlv = Inr (i, n)" "length v = n" "tlv' = patch i v tlv"
    using assms(3) by (auto simp: put_extension_bytes_def result_simps split: if_splits)
  then obtain w where w: "get_extension_bytes at V tlv = Inr w"
    by (auto simp: get_extension_bytes_def)
  with get_laid_out [OF assms(1,2)] have m: "get_account_type V = at" "map_of es V = Some w" by auto
  from range_laid_out [OF assms(1) m(2), of False] obtain es1 es2 k where
    s: "es = es1 @ (V, w) # es2" "V \<notin> fst ` set es1" "tlv = entries_bytes es @ replicate k 0" "wf_entries es"
      "get_extension_indices V False tlv 0 = Inr (get_tlv_indices (length (entries_bytes es1)))"
      "read_u16 tlv (length (entries_bytes es1) + 2) = length w"
    by metis
  then have i: "i = length (entries_bytes es1) + 4" "n = length w"
    using r(1) m by (auto simp: get_extension_range_def Let_def split: if_splits)
  have "wf_entries (AList.update V v es)"
    using s(4) assms(2) r(2) i(2) s(1) by (intro wf_entries_update) (auto simp: wf_entries_append)
  then show "laid_out (AList.update V v es) tlv'"
    using patch_value [where pre = "entries_bytes es1" and t = V and v = v and w = w] r i s(1-3)
    by (auto simp: laid_out_def update_split)
  show "\<exists>w. map_of es V = Some w \<and> length w = length v" "get_account_type V = at"
    using m r i by auto
qed

lemma patch_free:
  "length u \<le> n \<Longrightarrow> patch (length pre) u (pre @ replicate n 0) = pre @ u @ replicate (n - length u) 0"
  by (simp add: patch_def)

lemma alloc_laid_out:
  assumes "laid_out es tlv" and "V \<noteq> ExtUninitialized" and "at \<noteq> AtUninitialized"
    and "alloc at V (length v) ow tlv = Inr (tlv1, i)"
  shows "laid_out (AList.update V v es) (patch i v tlv1)"
    and "map_of es V = None \<or> ow \<and> (\<exists>w. map_of es V = Some w \<and> length w = length v)"
proof -
  obtain s where a: "get_extension_indices V True tlv 0 = Inr (get_tlv_indices s)" "s + 4 + length v \<le> length tlv"
    "length v < 2 ^ 16" "patch i v tlv1 = patch s (entry_bytes V v) tlv"
    "read_u16 tlv s = ext_code ExtUninitialized \<or> ow \<and> read_u16 tlv s = ext_code V \<and> read_u16 tlv (s + 2) = length v"
    by (rule alloc_Inr [OF assms(4,3)])
  have wf: "wf_entries (AList.update V v es)"
    using assms(1,2) a(3) by (intro wf_entries_update) (auto simp: laid_out_def)
  have "laid_out (AList.update V v es) (patch s (entry_bytes V v) tlv) \<and>
    (map_of es V = None \<or> ow \<and> (\<exists>w. map_of es V = Some w \<and> length w = length v))"
  proof (cases "map_of es V")
    case None
    then have V: "V \<notin> fst ` set es" by (simp add: map_of_eq_None_iff)
    obtain n where tlv: "tlv = entries_bytes es @ replicate n 0" "wf_entries es"
      using assms(1) by (auto simp: laid_out_def)
    have "get_tlv_indices s = get_tlv_indices (length (entries_bytes es))"
      using indices_absent(2) [OF tlv(2) V assms(2), of n] a(1) tlv(1) by simp
    then have s: "s = length (entries_bytes es)" by (metis get_tlv_indices_simps(1))
    with patch_free [of "entry_bytes V v" n "entries_bytes es"] a(2) tlv wf None show ?thesis
      by (auto simp: laid_out_def update_absent [OF V])
  next
    case (Some w)
    from range_laid_out [OF assms(1) this, of True] obtain es1 es2 n where
      s: "es = es1 @ (V, w) # es2" "V \<notin> fst ` set es1" "tlv = entries_bytes es @ replicate n 0"
        "get_extension_indices V True tlv 0 = Inr (get_tlv_indices (length (entries_bytes es1)))"
        "read_u16 tlv (length (entries_bytes es1)) = ext_code V"
        "read_u16 tlv (length (entries_bytes es1) + 2) = length w"
      by metis
    with a(1) have "s = length (entries_bytes es1)" by (metis get_tlv_indices_simps(1) sum.inject(2))
    with a(5) s assms(2) have len: "ow" "s = length (entries_bytes es1)" "length v = length w"
      by (auto simp: ext_code_inject)
    then have "patch s (entry_bytes V v) tlv = entries_bytes (AList.update V v es) @ replicate n 0"
      using s(1-3) by (simp add: update_split patch_def)
    with wf len Some show ?thesis by (auto simp: laid_out_def)
  qed
  then show "laid_out (AList.update V v es) (patch i v tlv1)"
    and "map_of es V = None \<or> ow \<and> (\<exists>w. map_of es V = Some w \<and> length w = length v)"
    using a(4) by simp_all
qed

lemma alloc_room:
  fixes v :: bytes
  assumes "laid_out es tlv" and "V \<noteq> ExtUninitialized" and "at \<noteq> AtUninitialized"
    and "alloc at V (length v) ow tlv = Inr (tlv1, i)"
  shows "get_account_type V = at" and "length v < 2 ^ 16"
    and "map_of es V = None \<Longrightarrow> length (entries_bytes es) + 4 + length v \<le> length tlv"
proof -
  obtain s where a: "get_account_type V = at" "get_extension_indices V True tlv 0 = Inr (get_tlv_indices s)"
    "s + 4 + length v \<le> length tlv" "length v < 2 ^ 16"
    by (rule alloc_Inr [OF assms(4,3)])
  then show "get_account_type V = at" "length v < 2 ^ 16" by simp_all
  assume "map_of es V = None"
  then have V: "V \<notin> fst ` set es" by (simp add: map_of_eq_None_iff)
  obtain n where tlv: "tlv = entries_bytes es @ replicate n 0" "wf_entries es"
    using assms(1) by (auto simp: laid_out_def)
  have "get_tlv_indices s = get_tlv_indices (length (entries_bytes es))"
    using indices_absent(2) [OF tlv(2) V assms(2), of n] a(2) tlv(1) by simp
  with a(3) show "length (entries_bytes es) + 4 + length v \<le> length tlv"
    by (metis get_tlv_indices_simps(1))
qed

section \<open>Listing the entries\<close>

lemma type_at: "extension_type_try_from_bytes (seg (length pre) 2 (pre @ entry_bytes t v @ rest)) = Inr t"
proof -
  have "seg (length pre) 2 (pre @ entry_bytes t v @ rest) = extension_type_to_bytes t"
    by (simp add: entry_bytes_def seg_def)
  then show ?thesis by simp
qed

lemma walk_entries:
  assumes "wf_entries es"
  shows "try_for_each_tlv_extension_type f (pre @ entries_bytes es @ rest) (length pre) s =
    bindr (try_for_each f (map fst es) s)
      (try_for_each_tlv_extension_type f (pre @ entries_bytes es @ rest) (length pre + length (entries_bytes es)))"
  using assms
proof (induction es arbitrary: pre s)
  case (Cons e es)
  obtain t v where e: "e = (t, v)" by (cases e)
  let ?tlv = "pre @ entries_bytes (e # es) @ rest"
  have "try_for_each_tlv_extension_type f ?tlv (length pre) s =
      bindr (f t s) (try_for_each_tlv_extension_type f ?tlv (length (pre @ entry_bytes t v)))"
    using Cons.prems header_at [where pre = pre and t = t and v = v and rest = "entries_bytes es @ rest"]
      type_at [where pre = pre and t = t and v = v and rest = "entries_bytes es @ rest"]
    by (subst try_for_each_tlv_extension_type.simps) (simp add: e Let_def add.assoc bindr_def split: sum.splits)
  also have "\<dots> = bindr (f t s) (\<lambda>s. bindr (try_for_each f (map fst es) s)
      (try_for_each_tlv_extension_type f ?tlv (length (pre @ entry_bytes t v) + length (entries_bytes es))))"
    using Cons.IH [of "pre @ entry_bytes t v"] Cons.prems by (simp add: e bindr_def split: sum.splits)
  finally show ?case by (simp add: e add.assoc bindr_def split: sum.splits)
qed (simp add: bindr_def)

lemma extension_type_of_nat_0: "extension_type_of_nat 0 = Some ExtUninitialized"
  by (metis ext_code_eq_0 extension_type_of_ext_code)

lemma walk_zeros:
  "try_for_each_tlv_extension_type f (pre @ replicate n 0) (length pre) s = Inr (length pre, s)"
  by (subst try_for_each_tlv_extension_type.simps)
    (auto simp: Let_def seg_def extension_type_try_from_bytes_def extension_type_of_nat_0)

lemma collect_types: "try_for_each (\<lambda>t ts. Inr (ts @ [t])) us ts = Inr (ts @ us)"
  by (induction us arbitrary: ts) (simp_all add: bindr_def)

lemma info_laid_out:
  assumes "wf_entries es"
  shows "get_tlv_data_info (entries_bytes es @ replicate n 0) =
    Inr \<lparr>tdi_extension_types = map fst es, tdi_used_len = length (entries_bytes es)\<rparr>"
  using walk_entries [OF assms, of "\<lambda>t ts. Inr (ts @ [t])" "[]" "replicate n 0" "[]"]
  by (simp add: get_tlv_data_info_def collect_types walk_zeros)

section \<open>Reallocating\<close>

text \<open>
  The shift of the entries behind a reallocated one: \<open>b\<close> is everything up to and including its
  header, \<open>w\<close> the old value, \<open>v\<close> the value written afterwards.
\<close>

lemma shift_down:
  fixes b w v post :: bytes and n :: nat
  assumes "length v < length w"
  defines "t2 \<equiv> patch (length b + length v) post (b @ w @ post @ replicate n 0)"
  shows "patch (length b) v (patch (length b + length v + length post) (replicate (length w - length v) 0) t2) =
    b @ v @ post @ replicate (n + (length w - length v)) 0"
proof -
  have t2: "t2 = b @ take (length v) w @ post @ drop (length v + length post) (w @ post @ replicate n 0)"
    using assms(1) by (simp add: t2_def patch_def)
  have "patch (length b + length v + length post) (replicate (length w - length v) 0) t2 =
      b @ take (length v) w @ post @ replicate (length w - length v) 0 @
        drop (length v + length post + (length w - length v)) (w @ post @ replicate n 0)"
    using assms(1) by (simp add: t2 patch_def)
  also have "\<dots> = b @ take (length v) w @ post @ replicate (n + (length w - length v)) 0"
    using assms(1) by (simp flip: replicate_add add: add.commute)
  finally show ?thesis using assms(1) by (simp add: patch_def)
qed

lemma shift_up:
  fixes b w v post :: bytes and n :: nat
  assumes "length w < length v" "length v \<le> length w + n"
  defines "t2 \<equiv> patch (length b + length v) post (b @ w @ post @ replicate n 0)"
  shows "patch (length b) v (patch (length b + length w) (replicate (length v - length w) 0) t2) =
    b @ v @ post @ replicate (n + length w - length v) 0"
proof -
  have "t2 = take (length b + length v) (b @ w @ post @ replicate n 0) @ post @ replicate (n + length w - length v) 0"
    using assms(1,2) by (simp add: t2_def patch_def)
  moreover have "patch (length b) v (patch (length b + length w) z t3) = take (length b) t3 @ v @ drop (length b + length v) t3"
    if "length z = length v - length w" "length b + length v \<le> length t3" for z t3
    using that assms(1) by (simp add: patch_def)
  ultimately show ?thesis
    using assms(1,2) by simp
qed

lemma entry_split: "entry_bytes V v = (extension_type_to_bytes V @ le_bytes 2 (of_nat (length v) :: u16)) @ v"
  by (simp add: entry_bytes_def)

lemma realloc_laid_out:
  assumes lo: "laid_out es tlv" and V: "V \<noteq> ExtUninitialized" and w: "map_of es V = Some w"
    and run: "realloc V (length v) tlv = Inr (tlv', i)"
  shows "laid_out (AList.update V v es) (patch i v tlv')"
proof -
  from range_laid_out [OF lo w, of False] obtain es1 es2 n where
    s: "es = es1 @ (V, w) # es2" "V \<notin> fst ` set es1" "tlv = entries_bytes es @ replicate n 0" "wf_entries es"
      "get_extension_indices V False tlv 0 = Inr (get_tlv_indices (length (entries_bytes es1)))"
      "read_u16 tlv (length (entries_bytes es1) + 2) = length w"
    by metis
  let ?pre = "entries_bytes es1" and ?post = "entries_bytes es2"
  let ?hd = "\<lambda>m. extension_type_to_bytes V @ le_bytes 2 (of_nat m :: u16)"
  let ?P = "length ?pre" and ?U = "length (entries_bytes es)"
  let ?b = "?pre @ ?hd (length v)" and ?w = "length w" and ?v = "length v"
  have b: "length ?b = length ?pre + 4" by simp
  have info: "get_tlv_data_info tlv = Inr \<lparr>tdi_extension_types = map fst es, tdi_used_len = length (entries_bytes es)\<rparr>"
    using info_laid_out [OF s(4)] s(3) by simp
  have hd: "patch (length ?pre + 2) (le_bytes 2 (of_nat ?v :: u16)) tlv = ?b @ w @ ?post @ replicate n 0"
    by (simp add: s(1,3) patch_def entry_bytes_def)
  have used: "length (entries_bytes es) = length ?b + ?w + length ?post"
    by (simp add: s(1))
  have fit: "?v < 2 ^ 16" "?v \<le> ?w + n"
    using run s(5,6) info by (auto simp: realloc_def result_simps(1) Let_def length_try_from_def used s(3) split: if_splits)
  have nums: "?U - (length ?b + ?v + length ?post) = ?w - ?v" "?U - (?w - ?v) = length ?b + ?v + length ?post" if "?v < ?w"
    using that used by simp_all
  have eq: "realloc V ?v tlv = bindr (copy_within (?P + 4 + ?w) ?U (?P + 4 + ?v) (?b @ w @ ?post @ replicate n 0)) (\<lambda>t2.
      Inr (if ?v < ?w then patch (?U - (?w - ?v)) (replicate (?U - (?U - (?w - ?v))) 0) t2
        else if ?w < ?v then patch (?P + 4 + ?w) (replicate (?P + 4 + ?v - (?P + 4 + ?w)) 0) t2 else t2, ?P + 4))"
    using run fit(1)
    by (simp only: realloc_def s(5,6) info hd Let_def length_try_from_def bindr_Inr get_tlv_indices_simps
        tlv_data_info.simps if_True)
      (simp split: if_splits)
  from run [unfolded eq] obtain t2 where t2:
    "copy_within (?P + 4 + ?w) ?U (?P + 4 + ?v) (?b @ w @ ?post @ replicate n 0) = Inr t2" "i = ?P + 4"
    "tlv' = (if ?v < ?w then patch (?U - (?w - ?v)) (replicate (?U - (?U - (?w - ?v))) 0) t2
      else if ?w < ?v then patch (?P + 4 + ?w) (replicate (?P + 4 + ?v - (?P + 4 + ?w)) 0) t2 else t2)"
    by (auto simp only: result_simps(1) sum.inject prod.inject)
  then have t2': "t2 = patch (length ?b + ?v) ?post (?b @ w @ ?post @ replicate n 0)"
    using used by (simp add: copy_within_def seg_def split: if_splits)
  have "\<exists>k. patch i v tlv' = ?b @ v @ ?post @ replicate k 0"
  proof (rule linorder_cases [of ?v ?w])
    assume less: "?v < ?w"
    then have "tlv' = patch (length ?b + ?v + length ?post) (replicate (?w - ?v) 0) t2"
      unfolding t2(3) nums [OF less] by (simp only: if_True)
    with shift_down [OF less, of ?b ?post n] show ?thesis unfolding t2' t2(2) b by metis
  next
    assume up: "?w < ?v"
    then have "tlv' = patch (length ?b + ?w) (replicate (?v - ?w) 0) t2"
      unfolding t2(3) b by simp
    with shift_up [OF up fit(2), of ?b ?post] show ?thesis unfolding t2' t2(2) b by metis
  next
    assume same: "?v = ?w"
    then have "tlv' = t2" unfolding t2(3) by simp
    moreover have "patch (length ?b) v t2 = ?b @ v @ ?post @ replicate n 0"
      unfolding t2' using same by (simp add: patch_def)
    ultimately show ?thesis unfolding t2(2) b by metis
  qed
  then show ?thesis
    using wf_entries_update [OF s(4) V fit(1)] s(1,2)
    by (auto simp: laid_out_def update_split entry_split)
qed

section \<open>The buffer refines a map\<close>

lemma put_defined_laid_out:
  assumes "laid_out es tlv" and "V \<noteq> ExtUninitialized" and "get_account_type V = at"
    and "map_of es V = Some w" and "length w = length v"
  shows "\<exists>tlv'. put_extension_bytes at V v tlv = Inr tlv'"
  using get_laid_out [OF assms(1,2), of at w] assms(3-5)
  by (intro put_extension_bytes_defined [of _ _ _ w]) auto

lemma alloc_defined_free:
  fixes v :: bytes
  assumes "laid_out es tlv" and "V \<noteq> ExtUninitialized" and "get_account_type V = at" and "map_of es V = None"
    and "length (entries_bytes es) + 4 + length v \<le> length tlv" and "length v < 2 ^ 16"
  shows "\<exists>tlv1 i. alloc at V (length v) ow tlv = Inr (tlv1, i)"
proof -
  let ?s = "length (entries_bytes es)"
  have V: "V \<notin> fst ` set es" using assms(4) by (simp add: map_of_eq_None_iff)
  obtain n where tlv: "tlv = entries_bytes es @ replicate n 0" "wf_entries es"
    using assms(1) by (auto simp: laid_out_def)
  have sg: "seg ?s 2 tlv = [0, 0]" and sg': "seg (?s + 2) 2 tlv = [0, 0]"
    using assms(5) by (simp_all add: tlv seg_def numeral_2_eq_2)
  then have z: "read_u16 tlv ?s = ext_code ExtUninitialized"
    "extension_type_try_from_bytes (seg ?s 2 tlv) = Inr ExtUninitialized"
    by (simp_all add: read_u16_def extension_type_try_from_bytes_def extension_type_of_nat_0 of_le_def)
  have "get_extension_indices V True tlv 0 = get_extension_indices V True tlv ?s"
    using indices_skip [OF tlv(2) V, of True "[]" "replicate n 0"] tlv(1) by simp
  also have "\<dots> = Inr (get_tlv_indices ?s)"
    using z(1) assms(2,5) by (subst get_extension_indices.simps) (simp add: Let_def ext_code_inject)
  finally show ?thesis
    using z assms(2,3,5,6)
    by (simp add: alloc_def Let_def add_type_and_length_to_len_def length_try_from_def)
qed

lemma alloc_defined_overwrite:
  fixes v :: bytes
  assumes "laid_out es tlv" and "get_account_type V = at" and "map_of es V = Some w" and "length w = length v"
  shows "\<exists>tlv1 i. alloc at V (length v) True tlv = Inr (tlv1, i)"
proof -
  from range_laid_out [OF assms(1,3), of True] obtain es1 es2 n where
    s: "es = es1 @ (V, w) # es2" "tlv = entries_bytes es @ replicate n 0" "wf_entries es"
      "get_extension_indices V True tlv 0 = Inr (get_tlv_indices (length (entries_bytes es1)))"
      "read_u16 tlv (length (entries_bytes es1) + 2) = length w"
    by metis
  let ?s = "length (entries_bytes es1)"
  have "extension_type_try_from_bytes (seg ?s 2 tlv) = Inr V"
    using type_at [where pre = "entries_bytes es1" and t = V and v = w and rest = "entries_bytes es2 @ replicate n 0"] s(1,2)
    by simp
  moreover have "read_u16 (patch ?s (extension_type_to_bytes V) tlv) (?s + 2) = length v"
    using s assms(4) by (subst read_u16_seg [OF seg_patch_after]) simp_all
  moreover have "length v < 2 ^ 16" using s(1,3) assms(4) by (auto simp: wf_entries_append)
  moreover have "?s + 4 + length v \<le> length tlv" using s(1,2) assms(4) by simp
  ultimately show ?thesis
    using s(4) assms(2)
    by (simp add: alloc_def Let_def add_type_and_length_to_len_def length_try_from_def)
qed

text \<open>
  C14. On a buffer laid out as a list of entries, every operation of the code is the operation of a
  finite map: reading an extension is looking it up; overwriting one succeeds exactly when it is
  present with that length; allocating one succeeds exactly when it is absent and fits, or present
  with that length and may be overwritten; allocating, overwriting and reallocating leave the buffer
  laid out as the updated map, and the listing returns the keys in order.
\<close>

theorem tlv_buffer_refines_map:
  assumes "laid_out es tlv" and "t \<noteq> ExtUninitialized" and "at \<noteq> AtUninitialized"
  shows "(get_extension_bytes at t tlv = Inr v \<longleftrightarrow> get_account_type t = at \<and> map_of es t = Some v) \<and>
    ((\<exists>tlv'. put_extension_bytes at t v tlv = Inr tlv') \<longleftrightarrow>
      get_account_type t = at \<and> (\<exists>w. map_of es t = Some w \<and> length w = length v)) \<and>
    (\<forall>tlv'. put_extension_bytes at t v tlv = Inr tlv' \<longrightarrow> laid_out (AList.update t v es) tlv') \<and>
    ((\<exists>tlv1 i. alloc at t (length v) overwrite tlv = Inr (tlv1, i)) \<longleftrightarrow>
      get_account_type t = at \<and>
      (case map_of es t of
         None \<Rightarrow> length v < 2 ^ 16 \<and> length (entries_bytes es) + 4 + length v \<le> length tlv
       | Some w \<Rightarrow> overwrite \<and> length w = length v)) \<and>
    (\<forall>tlv1 i. alloc at t (length v) overwrite tlv = Inr (tlv1, i) \<longrightarrow>
      laid_out (AList.update t v es) (patch i v tlv1)) \<and>
    (\<forall>tlv1 i. map_of es t \<noteq> None \<and> realloc t (length v) tlv = Inr (tlv1, i) \<longrightarrow>
      laid_out (AList.update t v es) (patch i v tlv1)) \<and>
    get_tlv_data_info tlv = Inr \<lparr>tdi_extension_types = map fst es, tdi_used_len = length (entries_bytes es)\<rparr>"
proof (intro conjI)
  show "get_extension_bytes at t tlv = Inr v \<longleftrightarrow> get_account_type t = at \<and> map_of es t = Some v"
    by (rule get_laid_out [OF assms(1,2)])
  show "(\<exists>tlv'. put_extension_bytes at t v tlv = Inr tlv') \<longleftrightarrow>
      get_account_type t = at \<and> (\<exists>w. map_of es t = Some w \<and> length w = length v)"
    using put_laid_out [OF assms(1,2)] put_defined_laid_out [OF assms(1,2)] by metis
  show "\<forall>tlv'. put_extension_bytes at t v tlv = Inr tlv' \<longrightarrow> laid_out (AList.update t v es) tlv'"
    using put_laid_out(1) [OF assms(1,2)] by blast
  show "(\<exists>tlv1 i. alloc at t (length v) overwrite tlv = Inr (tlv1, i)) \<longleftrightarrow>
      get_account_type t = at \<and>
      (case map_of es t of
         None \<Rightarrow> length v < 2 ^ 16 \<and> length (entries_bytes es) + 4 + length v \<le> length tlv
       | Some w \<Rightarrow> overwrite \<and> length w = length v)" (is "?l = ?r")
  proof
    assume ?l
    then obtain tlv1 i where al: "alloc at t (length v) overwrite tlv = Inr (tlv1, i)" by blast
    from alloc_room [OF assms(1,2,3) al] alloc_laid_out(2) [OF assms al] show ?r
      by (auto split: option.splits)
  next
    assume ?r
    then show ?l
      using alloc_defined_free [OF assms(1,2)] alloc_defined_overwrite [OF assms(1)]
      by (auto split: option.splits)
  qed
  show "\<forall>tlv1 i. alloc at t (length v) overwrite tlv = Inr (tlv1, i) \<longrightarrow>
      laid_out (AList.update t v es) (patch i v tlv1)"
    using alloc_laid_out(1) [OF assms] by blast
  show "\<forall>tlv1 i. map_of es t \<noteq> None \<and> realloc t (length v) tlv = Inr (tlv1, i) \<longrightarrow>
      laid_out (AList.update t v es) (patch i v tlv1)"
    using realloc_laid_out [OF assms(1,2)] by blast
  show "get_tlv_data_info tlv = Inr \<lparr>tdi_extension_types = map fst es, tdi_used_len = length (entries_bytes es)\<rparr>"
    using info_laid_out assms(1) by (auto simp: laid_out_def)
qed

lemma tlv_buffer_refines_map_witness:
  "let tlv = entry_bytes MemoTransfer [1] @ replicate 20 0 in
   get_extension_bytes AtAccount CpiGuard tlv \<noteq> Inr [1] \<and>
   (\<exists>tlv1 i. alloc AtAccount CpiGuard 1 False tlv = Inr (tlv1, i) \<and>
     laid_out [(MemoTransfer, [1]), (CpiGuard, [1])] (patch i [1] tlv1))"
proof -
  let ?tlv = "entry_bytes MemoTransfer [1] @ replicate 20 0" and ?es = "[(MemoTransfer, [1 :: u8])]"
  have "laid_out ?es ?tlv"
    unfolding laid_out_def by (intro conjI exI [of _ 20]) simp_all
  from tlv_buffer_refines_map [OF this, of CpiGuard AtAccount "[1]" False] show ?thesis
    by (auto simp: get_account_type_def Let_def)
qed

section \<open>The walk ends\<close>

lemma walk_bounded:
  "(\<exists>e. try_for_each_tlv_extension_type (\<lambda>t ts. Inr (ts @ [t])) tlv i ts = Inl e \<and> e = InvalidAccountData) \<or>
   (\<exists>j us. try_for_each_tlv_extension_type (\<lambda>t ts. Inr (ts @ [t])) tlv i ts = Inr (j, ts @ us) \<and>
      i + 4 * length us \<le> j \<and> j \<le> max i (length tlv))"
proof (induction "length tlv - i" arbitrary: i ts rule: less_induct)
  case less
  let ?run = "try_for_each_tlv_extension_type (\<lambda>t ts. Inr (ts @ [t])) tlv"
  let ?ix = "get_tlv_indices i"
  let ?e = "value_start ?ix + read_u16 tlv (length_start ?ix)"
  show ?case
  proof (cases "i < length tlv \<and> \<not> length tlv < length_start ?ix \<and>
      (\<exists>t. extension_type_try_from_bytes (seg (type_start ?ix) 2 tlv) = Inr t \<and> t \<noteq> ExtUninitialized) \<and>
      \<not> length tlv < value_start ?ix \<and> \<not> ?e > length tlv")
    case True
    then obtain t where t: "extension_type_try_from_bytes (seg (type_start ?ix) 2 tlv) = Inr t" "t \<noteq> ExtUninitialized"
      by blast
    have step: "?run i ts = ?run ?e (ts @ [t])"
      using True t by (subst try_for_each_tlv_extension_type.simps) (simp add: Let_def)
    have e: "length tlv - ?e < length tlv - i" "i + 4 \<le> ?e" "?e \<le> length tlv"
      using True by (auto simp: get_tlv_indices_def)
    from less [OF e(1), of "ts @ [t]"] show ?thesis
    proof (elim disjE exE conjE)
      fix j us
      assume r: "?run ?e (ts @ [t]) = Inr (j, (ts @ [t]) @ us)" "?e + 4 * length us \<le> j" "j \<le> max ?e (length tlv)"
      have "?run i ts = Inr (j, ts @ (t # us))" "i + 4 * length (t # us) \<le> j" "j \<le> max i (length tlv)"
        using r e(2,3) unfolding step by simp_all
      then show ?thesis by blast
    qed (simp add: step)
  next
    case False
    then show ?thesis
      by (subst (1 2) try_for_each_tlv_extension_type.simps)
        (auto simp: Let_def extension_type_try_from_bytes_def ok_or_def get_tlv_indices_def split: sum.splits option.splits if_splits)
  qed
qed

text \<open>
  C15. The walk over an extension buffer always ends: on any bytes it returns after at most one turn
  for every four bytes, with the length it has used, or stops with \<open>InvalidAccountData\<close>.
\<close>

theorem tlv_walk_terminates:
  "get_tlv_data_info tlv = Inl InvalidAccountData \<or>
   (\<exists>info. get_tlv_data_info tlv = Inr info \<and>
      4 * length (tdi_extension_types info) \<le> tdi_used_len info \<and> tdi_used_len info \<le> length tlv)"
  using walk_bounded [of tlv 0 "[]"] by (auto simp: get_tlv_data_info_def)

end
