(* ===== verification/Views.thy ===== *)
theory Views
  imports State_Ext Platform Tlv_Layout
begin

text \<open>
  Mutable views of accounts: the pattern \<open>PodStateWithExtensionsMut::unpack(&mut data)\<close>, work on the
  view, drop it, as a store transformer. What a view writes can be unpacked again, keeps its length,
  and leaves every other account alone.
\<close>

section \<open>Mutable views of an account\<close>

text \<open>
  A handler that unpacks an account mutably, works on the view and returns: \<open>f\<close> gets the view and
  gives it back updated. \<open>uninitialized_view\<close> and \<open>initialized_view\<close> differ in the unpacking.
\<close>

definition uninitialized_view ::
    "'s base_state \<Rightarrow> address \<Rightarrow> ('s pod_state \<Rightarrow> 's pod_state result) \<Rightarrow> store \<Rightarrow> store result" where
  "uninitialized_view S k f st =
     bindr (unpack_uninitialized S (ac_data (st k))) (\<lambda>s.
     bindr (f s) (\<lambda>s'. Inr (set_data k (state_bytes S s') st)))"

definition initialized_view ::
    "'s base_state \<Rightarrow> address \<Rightarrow> ('s pod_state \<Rightarrow> 's pod_state result) \<Rightarrow> store \<Rightarrow> store result" where
  "initialized_view S k f st =
     bindr (unpack S (ac_data (st k))) (\<lambda>s.
     bindr (f s) (\<lambda>s'. Inr (set_data k (state_bytes S s') st)))"

text \<open>An update of the extension buffer of a view.\<close>

definition on_tlv :: "(bytes \<Rightarrow> bytes result) \<Rightarrow> 's pod_state \<Rightarrow> 's pod_state result" where
  "on_tlv f s = bindr (f (ps_tlv s)) (\<lambda>tlv. Inr (s\<lparr>ps_tlv := tlv\<rparr>))"

section \<open>Laws\<close>

lemma uninitialized_view_Inr [result_simps]:
  "uninitialized_view S k f st = Inr st' \<longleftrightarrow>
     (\<exists>s s'. unpack_uninitialized S (ac_data (st k)) = Inr s \<and> f s = Inr s' \<and>
            st' = set_data k (state_bytes S s') st)"
  by (auto simp: uninitialized_view_def result_simps)

lemma initialized_view_Inr [result_simps]:
  "initialized_view S k f st = Inr st' \<longleftrightarrow>
     (\<exists>s s'. unpack S (ac_data (st k)) = Inr s \<and> f s = Inr s' \<and>
            st' = set_data k (state_bytes S s') st)"
  by (auto simp: initialized_view_def result_simps)

lemma on_tlv_Inr [result_simps]:
  "on_tlv f s = Inr s' \<longleftrightarrow> (\<exists>tlv. f (ps_tlv s) = Inr tlv \<and> s' = s\<lparr>ps_tlv := tlv\<rparr>)"
  by (auto simp: on_tlv_def result_simps)

text \<open>The visitor of a buffer sees exactly the types that \<open>get_tlv_data_info\<close> lists, in order.\<close>

lemma try_for_each_append:
  "try_for_each f (xs @ ys) s = bindr (try_for_each f xs s) (try_for_each f ys)"
  by (induction xs arbitrary: s) (auto simp: bindr_def split: sum.splits)

lemma tlv_walk_types:
  "try_for_each_tlv_extension_type f tlv i s = Inr (j, s') \<Longrightarrow>
   \<exists>ts. (\<forall>us. try_for_each_tlv_extension_type (\<lambda>t ts. Inr (ts @ [t])) tlv i us = Inr (j, us @ ts)) \<and>
        try_for_each f ts s = Inr s'"
proof (induction f tlv i s arbitrary: j s' rule: try_for_each_tlv_extension_type.induct)
  case (1 f tlv i s)
  show ?case
  proof (cases "i < length tlv \<and> \<not> length tlv < length_start (get_tlv_indices i) \<and>
      (\<exists>t. extension_type_try_from_bytes (seg i 2 tlv) = Inr t \<and> t \<noteq> ExtUninitialized)")
    case False
    then show ?thesis
      using "1.prems"
      by (intro exI [of _ "[]"])
        (subst (asm) try_for_each_tlv_extension_type.simps,
         subst try_for_each_tlv_extension_type.simps,
         auto simp: Let_def split: if_splits sum.splits)
  next
    case True
    then obtain t where t: "i < length tlv" "\<not> length tlv < length_start (get_tlv_indices i)"
      "extension_type_try_from_bytes (seg (type_start (get_tlv_indices i)) 2 tlv) = Inr t" "t \<noteq> ExtUninitialized"
      by auto
    let ?ix = "get_tlv_indices i"
    let ?e = "value_start ?ix + read_u16 tlv (length_start ?ix)"
    from "1.prems" t obtain s1 where b: "\<not> length tlv < value_start ?ix" "\<not> length tlv < ?e"
      "f t s = Inr s1" "try_for_each_tlv_extension_type f tlv ?e s1 = Inr (j, s')"
      by (subst (asm) try_for_each_tlv_extension_type.simps) (auto simp: Let_def split: if_splits sum.splits)
    from "1.IH" [OF t(1) refl t(2,3,4) b(1) refl b(2,3,4)] obtain ts where
      ts: "\<forall>us. try_for_each_tlv_extension_type (\<lambda>t ts. Inr (ts @ [t])) tlv ?e us = Inr (j, us @ ts)"
        "try_for_each f ts s1 = Inr s'"
      by blast
    have "try_for_each_tlv_extension_type (\<lambda>t ts. Inr (ts @ [t])) tlv i us = Inr (j, us @ t # ts)" for us
      using t b(1,2) ts(1) by (subst try_for_each_tlv_extension_type.simps) (simp add: Let_def)
    then show ?thesis
      using ts(2) b(3) by (intro exI [of _ "t # ts"]) simp
  qed
qed

lemma tlv_walk_info:
  assumes "try_for_each_tlv_extension_type f tlv 0 s = Inr (j, s')"
  obtains info where "get_tlv_data_info tlv = Inr info" "try_for_each f (tdi_extension_types info) s = Inr s'"
    "tdi_used_len info = j"
proof -
  from tlv_walk_types [OF assms] obtain ts where
    "try_for_each_tlv_extension_type (\<lambda>t ts. Inr (ts @ [t])) tlv 0 [] = Inr (j, ts)" "try_for_each f ts s = Inr s'"
    by (metis append_Nil)
  then show thesis
    by (intro that [of "\<lparr>tdi_extension_types = ts, tdi_used_len = j\<rparr>"]) (simp_all add: get_tlv_data_info_def)
qed

lemma try_for_each_concat:
  "try_for_each (\<lambda>t. try_for_each f (g t)) ts s = try_for_each f (concat (map g ts)) s"
  by (induction ts arbitrary: s) (auto simp: try_for_each_append bindr_def split: sum.splits)

section \<open>What a step leaves alone\<close>

text \<open>
  Between two stores, only the accounts in \<open>K\<close> have new data among those the token program owns; it
  loses none of them, gains others only with zeroed data, and lamports are conserved.
\<close>

definition token_frame :: "address set \<Rightarrow> store \<Rightarrow> store \<Rightarrow> bool" where
  "token_frame K st st' \<longleftrightarrow> total_lamports st' = total_lamports st \<and>
     (\<forall>a. ac_owner (st a) = TOKEN_2022_ID \<longrightarrow>
        ac_owner (st' a) = TOKEN_2022_ID \<and> (a \<notin> K \<longrightarrow> ac_data (st' a) = ac_data (st a))) \<and>
     (\<forall>a. a \<notin> K \<and> ac_owner (st a) \<noteq> TOKEN_2022_ID \<and> ac_owner (st' a) = TOKEN_2022_ID \<longrightarrow>
        ac_data (st' a) = replicate (length (ac_data (st' a))) 0)"

lemma token_frame_refl [simp]: "token_frame K st st"
  by (simp add: token_frame_def)

lemma token_frame_trans:
  assumes "token_frame K a b" and "token_frame L b c"
  shows "token_frame (K \<union> L) a c"
  unfolding token_frame_def
proof (intro conjI allI impI)
  show "total_lamports c = total_lamports a"
    using assms by (simp add: token_frame_def)
  show "ac_owner (c x) = TOKEN_2022_ID" if "ac_owner (a x) = TOKEN_2022_ID" for x
    using assms that by (simp add: token_frame_def)
  show "ac_data (c x) = ac_data (a x)" if "ac_owner (a x) = TOKEN_2022_ID" "x \<notin> K \<union> L" for x
    using assms that by (simp add: token_frame_def)
  show "ac_data (c x) = replicate (length (ac_data (c x))) 0"
    if x: "x \<notin> K \<union> L \<and> ac_owner (a x) \<noteq> TOKEN_2022_ID \<and> ac_owner (c x) = TOKEN_2022_ID" for x
  proof (cases "ac_owner (b x) = TOKEN_2022_ID")
    case True
    then have "ac_data (b x) = replicate (length (ac_data (b x))) 0" "ac_data (c x) = ac_data (b x)"
      using assms x by (simp_all add: token_frame_def)
    then show ?thesis by metis
  next
    case False
    then show ?thesis using assms(2) x by (simp add: token_frame_def)
  qed
qed

lemma token_frame_mono: "token_frame K a b \<Longrightarrow> K \<subseteq> L \<Longrightarrow> token_frame L a b"
  unfolding token_frame_def by blast

lemma token_frame_set_data: "token_frame {k} st (set_data k d st)"
  by (simp add: token_frame_def)

lemma token_frame_set_data2: "token_frame {k, l} st (set_data l d (set_data k c st))"
  by (simp add: token_frame_def)

lemma token_frame_move: "move_lamports src dst n e st = Inr st' \<Longrightarrow> token_frame {} st st'"
  by (simp add: token_frame_def move_lamports_total move_lamports_frame)

lemma token_frame_view:
  "initialized_view S k f st = Inr st' \<Longrightarrow> token_frame {k} st st'"
  "uninitialized_view S k f st = Inr st' \<Longrightarrow> token_frame {k} st st'"
  by (auto simp: result_simps token_frame_set_data)

lemma token_frame_cpi: "cpi_respects_owner TOKEN_2022_ID call \<Longrightarrow> call st = Inr st' \<Longrightarrow> token_frame {} st st'"
  unfolding cpi_respects_owner_def token_frame_def by (elim allE [of _ st] allE [of _ st']) simp

lemma token_frameD:
  assumes "token_frame K st st'"
  shows "total_lamports st' = total_lamports st"
    and "ac_owner (st a) = TOKEN_2022_ID \<Longrightarrow> ac_owner (st' a) = TOKEN_2022_ID"
    and "ac_owner (st a) = TOKEN_2022_ID \<Longrightarrow> a \<notin> K \<Longrightarrow> ac_data (st' a) = ac_data (st a)"
  using assms by (auto simp: token_frame_def)

section \<open>What a write to a buffer leaves alone\<close>

definition same_except :: "extension_type set \<Rightarrow> bytes \<Rightarrow> bytes \<Rightarrow> bool" where
  "same_except T tlv tlv' \<longleftrightarrow> length tlv' = length tlv \<and>
     ((\<exists>es. laid_out es tlv) \<longrightarrow> (\<exists>es. laid_out es tlv')) \<and>
     (\<forall>at t. t \<notin> T \<longrightarrow> get_extension_bytes at t tlv' = get_extension_bytes at t tlv)"

lemma same_except_refl [simp]: "same_except T tlv tlv"
  by (simp add: same_except_def)

lemma same_except_trans: "same_except T a b \<Longrightarrow> same_except U b c \<Longrightarrow> same_except (T \<union> U) a c"
  by (simp add: same_except_def)

lemma same_except_length: "same_except T a b \<Longrightarrow> length b = length a"
  by (simp add: same_except_def)

lemma same_except_get: "same_except T a b \<Longrightarrow> vx_type W \<notin> T \<Longrightarrow> get_extension at W b = get_extension at W a"
  by (simp add: same_except_def get_extension_def)

lemma put_same_except:
  assumes "put_extension at V v tlv = Inr tlv'" and "at \<noteq> AtUninitialized"
  shows "same_except {vx_type V} tlv tlv'"
proof -
  note put = assms(1) [unfolded put_extension_def]
  have "vx_type V \<noteq> ExtUninitialized"
  proof
    assume "vx_type V = ExtUninitialized"
    with put assms(2) show False
      by (simp add: put_extension_bytes_def get_extension_range_def get_account_type_def)
  qed
  with get_put_extension_bytes_other [OF put assms(2)] put_extension_length [OF assms(1)] put_laid_out(1) [OF _ _ put]
  show ?thesis by (auto simp: same_except_def)
qed

section \<open>What the bytes of an account are\<close>

lemma base_sizes: "bs_size (mint_base P) \<le> BASE_ACCOUNT_LENGTH" "bs_size account_base \<le> BASE_ACCOUNT_LENGTH"
  by (simp_all add: MINT_LEN_def ACCOUNT_LEN_def BASE_ACCOUNT_LENGTH_def)

lemma size_numerals: "MINT_LEN = 82" "ACCOUNT_LEN = 165" "BASE_ACCOUNT_LENGTH = 165" "MULTISIG_LEN = 355"
  by (simp_all add: MINT_LEN_def ACCOUNT_LEN_def BASE_ACCOUNT_LENGTH_def MULTISIG_LEN_def)

context base_contract
begin

lemma layout_shape:
  assumes "layout_ok S t s" and "bs_size S \<le> BASE_ACCOUNT_LENGTH"
  defines "d \<equiv> state_bytes S s"
  shows "drop (BASE_ACCOUNT_LENGTH + 1) d = ps_tlv s" "bs_of_bytes S (take (bs_size S) d) = ps_base s"
    "length d \<noteq> MULTISIG_LEN"
    "length d = bs_size S \<or> BASE_ACCOUNT_LENGTH < length d \<and> d ! BASE_ACCOUNT_LENGTH = t"
  using assms(1,2)
  by (auto simp: d_def layout_ok_def state_bytes_def length_to_bytes of_to_bytes nth_append)

lemma unpack_shape:
  assumes "unpack S d = Inr s" and "bs_size S \<le> BASE_ACCOUNT_LENGTH"
  shows "drop (BASE_ACCOUNT_LENGTH + 1) d = ps_tlv s" "bs_of_bytes S (take (bs_size S) d) = ps_base s"
    "length d = bs_size S \<or>
     BASE_ACCOUNT_LENGTH < length d \<and> d ! BASE_ACCOUNT_LENGTH = account_type_u8 (bs_account_type S)"
    "length d \<noteq> MULTISIG_LEN"
  using layout_shape [of "account_type_u8 (bs_account_type S)" s] assms by (auto simp: unpack_iff wf_state_def)

lemma unpack_uninitialized_shape:
  assumes "unpack_uninitialized S d = Inr s" and "bs_size S \<le> BASE_ACCOUNT_LENGTH"
  shows "drop (BASE_ACCOUNT_LENGTH + 1) d = ps_tlv s" "bs_of_bytes S (take (bs_size S) d) = ps_base s"
    "length d = bs_size S \<or> BASE_ACCOUNT_LENGTH < length d \<and> d ! BASE_ACCOUNT_LENGTH = 0"
    "length d \<noteq> MULTISIG_LEN" "\<not> bs_is_initialized S (ps_base s)"
  using layout_shape [of 0 s] assms unpack_uninitialized_Inr [OF assms(1)] by auto

end

text \<open>Initialising an extension is an update of the layout.\<close>

context extension_contract
begin

lemma init_laid_out:
  assumes "init_extension at V ow tlv = Inr tlv'" and "at \<noteq> AtUninitialized" and "laid_out es tlv"
  shows "laid_out (AList.update (vx_type V) (vx_to_bytes V (vx_default V)) es) tlv'"
proof -
  let ?v = "vx_to_bytes V (vx_default V)"
  obtain tlv1 i where "alloc at (vx_type V) (length ?v) ow tlv = Inr (tlv1, i)" "tlv' = patch i ?v tlv1"
    using assms(1) by (auto simp: init_extension_def result_simps(1) length_to_bytes)
  then show ?thesis using alloc_laid_out(1) [OF assms(3) type_not_uninitialized assms(2)] by simp
qed

end

section \<open>States without extensions\<close>

definition bare :: "'s \<Rightarrow> 's pod_state" where
  "bare b = \<lparr>ps_base = b, ps_padding = [], ps_account_type = [], ps_tlv = []\<rparr>"

lemma bare_simps [simp]:
  "ps_base (bare b) = b" "ps_padding (bare b) = []" "ps_account_type (bare b) = []" "ps_tlv (bare b) = []"
  by (simp_all add: bare_def)

lemma bare_update [simp]: "(bare b)\<lparr>ps_base := b'\<rparr> = bare b'" "(bare b)\<lparr>ps_tlv := []\<rparr> = bare b"
  by (simp_all add: bare_def)

lemma state_bytes_bare [simp]: "state_bytes S (bare b) = bs_to_bytes S b"
  by (simp add: state_bytes_def)

lemma get_first_extension_type_Nil [simp]: "get_first_extension_type [] = Inr None"
  by (simp add: get_first_extension_type_def)

lemma init_account_type_bare [simp]: "init_account_type S (bare b) = Inr (bare b)"
  by (simp add: init_account_type_def)

lemma tlv_walk_Nil [simp]: "try_for_each_tlv_extension_type f [] i s = Inr (i, s)"
  by (subst try_for_each_tlv_extension_type.simps) simp

lemma get_extension_Nil: "\<exists>e. get_extension at V [] = Inl e"
  by (subst get_extension_def, simp add: get_extension_bytes_def get_extension_range_def, subst get_extension_indices.simps)
    (simp add: Let_def)

lemma case_get_extension_Nil [simp]: "(case get_extension at V [] of Inl e \<Rightarrow> a | Inr x \<Rightarrow> f x) = a"
  using get_extension_Nil [of at V] by auto

lemma is_ok_get_extension_Nil [simp]: "\<not> is_ok (get_extension at V [])" "result_ok (get_extension at V []) = None"
  using get_extension_Nil [of at V] by auto

lemma unpack_bare_account [simp]:
  "pod_account_is_initialized b \<Longrightarrow> unpack account_base (pod_account_to_bytes b) = Inr (bare b)"
  "\<not> pod_account_is_initialized b \<Longrightarrow> unpack_uninitialized account_base (pod_account_to_bytes b) = Inr (bare b)"
  by (simp_all add: unpack_def unpack_uninitialized_def check_min_len_and_not_multisig_def Let_def
      account_pod.length_to_bytes account_pod.of_to_bytes ACCOUNT_LEN_def MULTISIG_LEN_def
      unpack_type_and_tlv_data_def unpack_uninitialized_type_and_tlv_data_def
      unpack_type_and_tlv_data_with_check_def type_and_tlv_indices_def
      check_account_type_matches_extension_type_def bare_def)

lemma unpack_bare_mint [simp]:
  "pod_mint_is_initialized P b \<Longrightarrow> unpack (mint_base P) (pod_mint_to_bytes b) = Inr (bare b)"
  "pod_mint_is_initialized P b \<Longrightarrow> unpack_ref (mint_base P) (pod_mint_to_bytes b) = Inr (b, [])"
  "\<not> pod_mint_is_initialized P b \<Longrightarrow> unpack_uninitialized (mint_base P) (pod_mint_to_bytes b) = Inr (bare b)"
  by (simp_all add: unpack_def unpack_ref_def unpack_uninitialized_def check_min_len_and_not_multisig_def Let_def
      mint_pod.length_to_bytes mint_pod.of_to_bytes MINT_LEN_def MULTISIG_LEN_def
      unpack_type_and_tlv_data_def unpack_uninitialized_type_and_tlv_data_def unpack_tlv_data_def
      unpack_type_and_tlv_data_with_check_def type_and_tlv_indices_def
      check_account_type_matches_extension_type_def bare_def)

lemma length_bare_bytes [simp]: "length (pod_mint_to_bytes b) = 82" "length (pod_account_to_bytes a) = 165"
  using mint_pod.length_to_bytes account_pod.length_to_bytes by (simp_all add: MINT_LEN_def ACCOUNT_LEN_def)

text \<open>A mint and a token account without extensions, for the concrete inputs of the witnesses.\<close>

definition sample_mint :: "u64 \<Rightarrow> pod_mint" where
  "sample_mint supply =
     \<lparr>m_mint_authority = coption_some 20, m_supply = supply, m_decimals = 6, m_is_initialized = 1,
      m_freeze_authority = coption_some 21\<rparr>"

definition sample_account :: "address \<Rightarrow> address \<Rightarrow> u64 \<Rightarrow> account_state \<Rightarrow> pod_account" where
  "sample_account mint owner amount s =
     \<lparr>a_mint = mint, a_owner = owner, a_amount = amount, a_delegate = coption_none,
      a_state = account_state_u8 s, a_is_native = coption_none, a_delegated_amount = 0,
      a_close_authority = coption_none\<rparr>"

definition token_acct :: "u64 \<Rightarrow> bytes \<Rightarrow> acct" where
  "token_acct lamports d = \<lparr>ac_owner = TOKEN_2022_ID, ac_lamports = lamports, ac_data = d\<rparr>"

definition signer_info :: "address \<Rightarrow> account_info" where
  "signer_info k = \<lparr>ai_key = k, ai_is_signer = True, ai_is_writable = True\<rparr>"

definition plain_info :: "address \<Rightarrow> account_info" where
  "plain_info k = \<lparr>ai_key = k, ai_is_signer = False, ai_is_writable = True\<rparr>"

lemma sample_simps [simp]:
  "pod_mint_is_initialized sample_platform (sample_mint n)"
  "pod_account_is_initialized (sample_account m ow n s) \<longleftrightarrow> s \<noteq> Uninitialized"
  "ac_owner (token_acct l d) = TOKEN_2022_ID" "ac_lamports (token_acct l d) = l" "ac_data (token_acct l d) = d"
  "ai_key (signer_info k) = k" "ai_is_signer (signer_info k)"
  "ai_key (plain_info k) = k" "\<not> ai_is_signer (plain_info k)"
  by (simp_all add: pod_mint_is_initialized_def sample_platform_def sample_mint_def sample_account_def
      pod_account_is_initialized_def token_acct_def signer_info_def plain_info_def, cases s, simp_all)

lemma sample_account_simps [simp]:
  "a_mint (sample_account m ow n s) = m" "a_owner (sample_account m ow n s) = ow"
  "a_amount (sample_account m ow n s) = n" "a_delegate (sample_account m ow n s) = coption_none"
  "a_delegated_amount (sample_account m ow n s) = 0" "a_close_authority (sample_account m ow n s) = coption_none"
  "a_state (sample_account m ow n s) = account_state_u8 s"
  "\<not> is_native (sample_account m ow n s)" "is_frozen (sample_account m ow n s) \<longleftrightarrow> s = Frozen"
  "(sample_account m ow n s)\<lparr>a_amount := n'\<rparr> = sample_account m ow n' s"
  by (simp_all add: sample_account_def is_native_def is_frozen_def, cases s, simp_all)

lemma sample_mint_simps [simp]:
  "m_mint_authority (sample_mint n) = coption_some 20" "m_freeze_authority (sample_mint n) = coption_some 21"
  "m_supply (sample_mint n) = n" "m_decimals (sample_mint n) = 6" "(sample_mint n)\<lparr>m_supply := n'\<rparr> = sample_mint n'"
  by (simp_all add: sample_mint_def)

lemma set_data_nested [simp]: "set_data k d (sample_store xs) a =
    (if a = k then (sample_store xs a)\<lparr>ac_data := d\<rparr> else sample_store xs a)"
  by (simp add: set_data_def)

end
