(* ===== verification/Authority.thy ===== *)
theory Authority
  imports Views
begin

text \<open>
  Authority checks (program/src/processor.rs): \<open>validate_owner\<close> with its multisignature loop, and the
  initialisation of multisignature accounts. The theorems say exactly which sets of signers pass:
  the loop with its \<open>matched\<close> array counts the positions of the member list whose key appears among
  the signer accounts, each position once.
\<close>

section \<open>Model\<close>

definition MIN_SIGNERS :: nat where
  "MIN_SIGNERS = 1"

definition is_valid_signer_index :: "nat \<Rightarrow> bool" where
  "is_valid_signer_index index \<longleftrightarrow> MIN_SIGNERS \<le> index \<and> index \<le> MAX_SIGNERS"

text \<open>The body of the inner loop, over a position of the member list.\<close>

definition match_position :: "account_info \<Rightarrow> nat \<times> address \<Rightarrow> bool list \<times> u8 \<Rightarrow> (bool list \<times> u8) result" where
  "match_position signer = (\<lambda>(position, key) (matched, num_signers).
     if key = ai_key signer \<and> \<not> matched ! position
     then if \<not> ai_is_signer signer then Inl MissingRequiredSignature
          else Inr (matched[position := True], num_signers + 1)
     else Inr (matched, num_signers))"

text \<open>The body of the outer loop; slicing the member list to \<open>n\<close> panics when \<open>n\<close> exceeds it.\<close>

definition match_signer :: "pod_multisig \<Rightarrow> account_info \<Rightarrow> bool list \<times> u8 \<Rightarrow> (bool list \<times> u8) result" where
  "match_signer multisig signer s =
     (if length (ms_signers multisig) < unat (ms_n multisig) then Inl Panic
      else try_for_each (match_position signer)
             (enumerate 0 (take (unat (ms_n multisig)) (ms_signers multisig))) s)"

definition validate_owner ::
    "platform \<Rightarrow> address \<Rightarrow> address \<Rightarrow> account_info \<Rightarrow> nat \<Rightarrow> account_info list \<Rightarrow> store \<Rightarrow> unit result" where
  "validate_owner P program_id expected_owner owner_account_info owner_account_data_len signers st =
     bindr (ensure (expected_owner = ai_key owner_account_info) (Custom OwnerMismatch)) (\<lambda>_.
     let owner = info_owner st owner_account_info;
         owned_by_token_program = (program_id = owner \<or> owner = SPL_TOKEN_ID \<or> owner = TOKEN_2022_ID) in
     if owned_by_token_program \<and> owner_account_data_len = MULTISIG_LEN then
       bindr (ok_or (pod_multisig_try_from_bytes (info_data st owner_account_info)) InvalidArgument) (\<lambda>multisig.
       bindr (ensure (pl_bool_from_pod P (ms_is_initialized multisig)) UninitializedAccount) (\<lambda>_.
       bindr (try_for_each (match_signer multisig) signers (replicate MAX_SIGNERS False, 0)) (\<lambda>(_, num_signers).
       ensure (\<not> num_signers < ms_m multisig) MissingRequiredSignature)))
     else ensure (ai_is_signer owner_account_info) MissingRequiredSignature)"

text \<open>Rent comes from the sysvar account of the instruction or from the runtime.\<close>

definition get_rent ::
    "platform \<Rightarrow> bool \<Rightarrow> account_info list \<Rightarrow> store \<Rightarrow> (rent \<times> account_info list) result" where
  "get_rent P rent_sysvar_account it st =
     (if rent_sysvar_account
      then bindr (next_account_info it) (\<lambda>(rent_info, it').
           bindr (pl_rent_from_account_info P (ai_key rent_info) (st (ai_key rent_info))) (\<lambda>rent.
           Inr (rent, it')))
      else bindr (pl_rent_get P) (\<lambda>rent. Inr (rent, it)))"

definition process_initialize_multisig_inner ::
    "platform \<Rightarrow> account_info list \<Rightarrow> u8 \<Rightarrow> bool \<Rightarrow> store \<Rightarrow> store result" where
  "process_initialize_multisig_inner P accounts m rent_sysvar_account st =
     bindr (next_account_info accounts) (\<lambda>(multisig_info, it).
     bindr (check_program_account (info_owner st multisig_info)) (\<lambda>_.
     let multisig_info_data_len = length (info_data st multisig_info) in
     bindr (get_rent P rent_sysvar_account it st) (\<lambda>(rent, signer_infos).
     bindr (ok_or (pod_multisig_try_from_bytes (info_data st multisig_info)) InvalidArgument) (\<lambda>multisig.
     bindr (ensure (\<not> pl_bool_from_pod P (ms_is_initialized multisig)) (Custom AlreadyInUse)) (\<lambda>_.
     bindr (ensure (rent_is_exempt rent (info_lamports st multisig_info) multisig_info_data_len)
              (Custom NotRentExempt)) (\<lambda>_.
     let n = of_nat (length signer_infos) :: u8 in
     bindr (ensure (is_valid_signer_index (unat n)) (Custom InvalidNumberOfProvidedSigners)) (\<lambda>_.
     bindr (ensure (is_valid_signer_index (unat m)) (Custom InvalidNumberOfRequiredSigners)) (\<lambda>_.
     bindr (ensure (length signer_infos \<le> length (ms_signers multisig)) Panic) (\<lambda>_.
     Inr (set_data (ai_key multisig_info)
            (pod_multisig_to_bytes
               (multisig\<lparr>ms_m := m, ms_n := n,
                  ms_signers := map ai_key signer_infos @ drop (length signer_infos) (ms_signers multisig),
                  ms_is_initialized := pl_pod_from_bool P True\<rparr>)) st))))))))))"

definition process_initialize_multisig ::
    "platform \<Rightarrow> account_info list \<Rightarrow> u8 \<Rightarrow> store \<Rightarrow> store result" where
  "process_initialize_multisig P accounts m st = process_initialize_multisig_inner P accounts m True st"

definition process_initialize_multisig2 ::
    "platform \<Rightarrow> account_info list \<Rightarrow> u8 \<Rightarrow> store \<Rightarrow> store result" where
  "process_initialize_multisig2 P accounts m st = process_initialize_multisig_inner P accounts m False st"

section \<open>The multisignature loop\<close>

text \<open>
  A key is acceptable for a list of signer accounts when it does not occur there, or when its first
  occurrence has signed; the positions that end up matched are those whose key occurs.
\<close>

definition acceptable :: "account_info list \<Rightarrow> address \<Rightarrow> bool" where
  "acceptable infos key \<longleftrightarrow>
     (case find (\<lambda>i. ai_key i = key) infos of None \<Rightarrow> True | Some i \<Rightarrow> ai_is_signer i)"

definition members :: "pod_multisig \<Rightarrow> address list" where
  "members ms = take (unat (ms_n ms)) (ms_signers ms)"

definition matching_positions :: "address list \<Rightarrow> account_info list \<Rightarrow> nat set" where
  "matching_positions keys infos = {p. p < length keys \<and> keys ! p \<in> ai_key ` set infos}"

lemma finite_matching_positions [simp]: "finite (matching_positions keys infos)"
  by (rule finite_subset [of _ "{..< length keys}"]) (auto simp: matching_positions_def)

lemma card_matching_positions_le: "card (matching_positions keys infos) \<le> length keys"
proof -
  have "card (matching_positions keys infos) \<le> card {..< length keys}"
    by (rule card_mono) (auto simp: matching_positions_def)
  then show ?thesis by simp
qed

lemma acceptable_Nil [simp]: "acceptable [] key"
  by (simp add: acceptable_def)

lemma acceptable_Cons:
  "acceptable (i # infos) key \<longleftrightarrow> (if ai_key i = key then ai_is_signer i else acceptable infos key)"
  by (simp add: acceptable_def)

definition fresh_hits :: "nat \<Rightarrow> address list \<Rightarrow> bool list \<Rightarrow> address set \<Rightarrow> nat set" where
  "fresh_hits i keys matched K = {j. j < length keys \<and> keys ! j \<in> K \<and> \<not> matched ! (i + j)}"

lemma finite_fresh_hits [simp]: "finite (fresh_hits i keys matched K)"
  by (rule finite_subset [of _ "{..< length keys}"]) (auto simp: fresh_hits_def)

lemma fresh_hits_Cons:
  "fresh_hits i (k # keys) matched K =
     (if k \<in> K \<and> \<not> matched ! i then {0} else {}) \<union> Suc ` fresh_hits (Suc i) keys matched K"
proof (rule set_eqI)
  fix x
  show "x \<in> fresh_hits i (k # keys) matched K \<longleftrightarrow>
    x \<in> (if k \<in> K \<and> \<not> matched ! i then {0} else {}) \<union> Suc ` fresh_hits (Suc i) keys matched K"
    by (cases x) (auto simp: fresh_hits_def)
qed

lemma fresh_hits_update: "p < i \<Longrightarrow> fresh_hits i keys (matched[p := b]) K = fresh_hits i keys matched K"
  by (auto simp: fresh_hits_def)

lemma card_fresh_hits_Cons:
  "card (fresh_hits i (k # keys) matched K) =
     (if k \<in> K \<and> \<not> matched ! i then 1 else 0) + card (fresh_hits (Suc i) keys matched K)"
  by (simp add: fresh_hits_Cons card_image card_insert_if image_iff)

lemma match_position_eq:
  "match_position s (i, k) (matched, num) =
     (if k = ai_key s \<and> \<not> matched ! i
      then if ai_is_signer s then Inr (matched[i := True], num + 1) else Inl MissingRequiredSignature
      else Inr (matched, num))"
  by (simp add: match_position_def)

lemma map_nth_upto: "(\<And>p. p < length xs \<Longrightarrow> f p = xs ! p) \<Longrightarrow> map f [0..<length xs] = xs"
  by (rule nth_equalityI) auto

text \<open>The inner loop: one signer account against the member list.\<close>

lemma match_position_loop:
  assumes "i + length keys \<le> length matched"
  shows "try_for_each (match_position s) (enumerate i keys) (matched, num) =
     (if fresh_hits i keys matched {ai_key s} \<noteq> {} \<and> \<not> ai_is_signer s then Inl MissingRequiredSignature
      else Inr (map (\<lambda>p. matched ! p \<or> i \<le> p \<and> p < i + length keys \<and> keys ! (p - i) = ai_key s)
                  [0..<length matched],
                num + of_nat (card (fresh_hits i keys matched {ai_key s}))))"
  using assms
proof (induction keys arbitrary: i matched num)
  case Nil
  have "map (\<lambda>p. matched ! p \<or> i \<le> p \<and> p < i + length [] \<and> [] ! (p - i) = ai_key s) [0..<length matched] = matched"
    by (rule map_nth_upto) auto
  then show ?case by (simp add: fresh_hits_def)
next
  case (Cons k keys)
  have upd: "matched ! p \<or> i \<le> p \<and> p < i + length (k # keys) \<and> (k # keys) ! (p - i) = ai_key s \<longleftrightarrow>
      (if k = ai_key s then matched[i := True] else matched) ! p \<or>
      Suc i \<le> p \<and> p < Suc i + length keys \<and> keys ! (p - Suc i) = ai_key s"
    if "p < length matched" for p
  proof (cases "p \<le> i")
    case True
    with that show ?thesis by (cases "p = i") auto
  next
    case False
    then obtain q where "p = Suc (i + q)" by (metis add_Suc_right less_imp_Suc_add not_le)
    then show ?thesis by simp
  qed
  show ?case
  proof (cases "k = ai_key s \<and> \<not> matched ! i")
    case True
    have i: "i < length matched" using Cons.prems by simp
    show ?thesis
    proof (cases "ai_is_signer s")
      case True
      then show ?thesis
        using Cons.prems \<open>k = ai_key s \<and> \<not> matched ! i\<close> upd
        by (simp add: match_position_eq Cons.IH fresh_hits_update card_fresh_hits_Cons algebra_simps
            cong: map_cong)
    next
      case False
      then show ?thesis
        using \<open>k = ai_key s \<and> \<not> matched ! i\<close> by (simp add: match_position_eq fresh_hits_Cons)
    qed
  next
    case False
    then have "(if k = ai_key s then matched[i := True] else matched) = matched"
      by (metis list_update_id)
    with False show ?thesis
      using Cons.prems upd
      by (auto simp: match_position_eq Cons.IH fresh_hits_Cons card_fresh_hits_Cons card_image cong: map_cong)
  qed
qed

text \<open>The outer loop, from any array of matched positions.\<close>

lemma match_signer_loop:
  assumes n: "unat (ms_n ms) \<le> length (ms_signers ms)" and l: "length (members ms) \<le> length matched"
  shows "try_for_each (match_signer ms) infos (matched, num) = Inr r \<longleftrightarrow>
     (\<forall>p < length (members ms). \<not> matched ! p \<longrightarrow> acceptable infos (members ms ! p)) \<and>
     r = (map (\<lambda>p. matched ! p \<or> p \<in> matching_positions (members ms) infos) [0..<length matched],
          num + of_nat (card (fresh_hits 0 (members ms) matched (ai_key ` set infos))))"
  using l
proof (induction infos arbitrary: matched num)
  case Nil
  then show ?case by (auto simp: matching_positions_def fresh_hits_def map_nth_upto)
next
  case (Cons s infos)
  let ?K = "members ms" and ?k = "ai_key s"
  let ?m = "map (\<lambda>p. matched ! p \<or> p < length ?K \<and> ?K ! p = ?k) [0..<length matched]"
  have body: "match_signer ms s (matched, num) =
     (if fresh_hits 0 ?K matched {?k} \<noteq> {} \<and> \<not> ai_is_signer s then Inl MissingRequiredSignature
      else Inr (?m, num + of_nat (card (fresh_hits 0 ?K matched {?k}))))"
    using n Cons.prems match_position_loop [of 0 ?K matched s num]
    by (simp add: match_signer_def members_def not_less)
  have hits: "fresh_hits 0 ?K matched (ai_key ` set (s # infos)) =
     fresh_hits 0 ?K matched {?k} \<union> fresh_hits 0 ?K ?m (ai_key ` set infos)"
    using Cons.prems by (auto simp: fresh_hits_def)
  have "fresh_hits 0 ?K matched {?k} \<inter> fresh_hits 0 ?K ?m (ai_key ` set infos) = {}"
    using Cons.prems by (auto simp: fresh_hits_def)
  then have card: "card (fresh_hits 0 ?K matched (ai_key ` set (s # infos))) =
     card (fresh_hits 0 ?K matched {?k}) + card (fresh_hits 0 ?K ?m (ai_key ` set infos))"
    unfolding hits by (simp add: card_Un_disjoint)
  have m: "?m ! p \<longleftrightarrow> matched ! p \<or> ?K ! p = ?k" if "p < length ?K" for p
    using that Cons.prems by simp
  have "fresh_hits 0 ?K matched {?k} = {} \<longleftrightarrow> (\<forall>p < length ?K. \<not> matched ! p \<longrightarrow> ?K ! p \<noteq> ?k)"
    by (auto simp: fresh_hits_def)
  then have ok: "(\<forall>p < length ?K. \<not> matched ! p \<longrightarrow> acceptable (s # infos) (?K ! p)) \<longleftrightarrow>
     \<not> (fresh_hits 0 ?K matched {?k} \<noteq> {} \<and> \<not> ai_is_signer s) \<and>
     (\<forall>p < length ?K. \<not> ?m ! p \<longrightarrow> acceptable infos (?K ! p))"
    using m by (auto simp: acceptable_Cons simp del: nth_map_upt)
  have marks: "map (\<lambda>p. ?m ! p \<or> p \<in> matching_positions ?K infos) [0..<length matched] =
     map (\<lambda>p. matched ! p \<or> p \<in> matching_positions ?K (s # infos)) [0..<length matched]"
    by (auto simp: matching_positions_def)
  let ?n = "num + of_nat (card (fresh_hits 0 ?K matched {?k}))"
  show ?case
  proof (cases "fresh_hits 0 ?K matched {?k} \<noteq> {} \<and> \<not> ai_is_signer s")
    case True
    then have "try_for_each (match_signer ms) (s # infos) (matched, num) = Inl MissingRequiredSignature"
      by (simp add: body)
    with True show ?thesis unfolding ok by simp
  next
    case False
    then have step: "try_for_each (match_signer ms) (s # infos) (matched, num) =
        try_for_each (match_signer ms) infos (?m, ?n)"
      by (simp add: body if_not_P [OF False] del: de_Morgan_conj)
    have IH: "try_for_each (match_signer ms) infos (?m, ?n) = Inr r \<longleftrightarrow>
      (\<forall>p < length ?K. \<not> ?m ! p \<longrightarrow> acceptable infos (?K ! p)) \<and>
      r = (map (\<lambda>p. ?m ! p \<or> p \<in> matching_positions ?K infos) [0..<length matched],
          ?n + of_nat (card (fresh_hits 0 ?K ?m (ai_key ` set infos))))"
      using Cons.IH [of ?m ?n] Cons.prems by (simp only: length_map length_upt minus_nat.diff_0)
    show ?thesis
      unfolding step IH ok marks card using False by (simp add: add.assoc)
  qed
qed

lemma fresh_hits_replicate:
  "length keys \<le> n \<Longrightarrow>
   fresh_hits 0 keys (replicate n False) (ai_key ` set infos) = matching_positions keys infos"
  by (auto simp: fresh_hits_def matching_positions_def)

section \<open>Who may act\<close>

text \<open>
  The specification of an authority: a plain account must have signed; a multisignature account needs
  \<open>m\<close> distinct positions of its member list among the signer accounts, none of them unsigned.
\<close>

definition threshold_met :: "pod_multisig \<Rightarrow> account_info list \<Rightarrow> bool" where
  "threshold_met ms signers \<longleftrightarrow>
     (signers = [] \<or> unat (ms_n ms) \<le> MAX_SIGNERS) \<and>
     (\<forall>k \<in> set (members ms). acceptable signers k) \<and>
     unat (ms_m ms) \<le> card (matching_positions (members ms) signers)"

definition is_multisig_account :: "address \<Rightarrow> acct \<Rightarrow> bool" where
  "is_multisig_account program_id a \<longleftrightarrow>
     ac_owner a \<in> {program_id, SPL_TOKEN_ID, TOKEN_2022_ID} \<and> length (ac_data a) = MULTISIG_LEN"

definition authorizes ::
    "platform \<Rightarrow> address \<Rightarrow> address \<Rightarrow> account_info \<Rightarrow> account_info list \<Rightarrow> store \<Rightarrow> bool" where
  "authorizes P program_id owner i signers st \<longleftrightarrow>
     owner = ai_key i \<and>
     (if is_multisig_account program_id (st (ai_key i))
      then pl_bool_from_pod P (ms_is_initialized (pod_multisig_of_bytes (info_data st i))) \<and>
           threshold_met (pod_multisig_of_bytes (info_data st i)) signers
      else ai_is_signer i)"

lemma length_ms_signers_of_bytes [simp]: "length (ms_signers (pod_multisig_of_bytes d)) = MAX_SIGNERS"
  by (simp add: pod_multisig_of_bytes_def)

lemma count_signers_Inr:
  assumes l: "length (ms_signers ms) = MAX_SIGNERS"
  shows "(\<exists>r. try_for_each (match_signer ms) signers (replicate MAX_SIGNERS False, 0) = Inr r \<and>
           \<not> snd r < ms_m ms) \<longleftrightarrow> threshold_met ms signers"
proof (cases "unat (ms_n ms) \<le> MAX_SIGNERS")
  case True
  let ?c = "card (matching_positions (members ms) signers)"
  have len: "length (members ms) \<le> MAX_SIGNERS"
    using True l by (simp add: members_def)
  have "?c \<le> 11"
    using card_matching_positions_le [of "members ms" signers] len by (simp add: MAX_SIGNERS_def)
  then have u: "unat (of_nat ?c :: u8) = ?c"
    by (simp add: unat_of_nat)
  have ok: "(\<forall>p < length (members ms). \<not> replicate MAX_SIGNERS False ! p \<longrightarrow> acceptable signers (members ms ! p))
      \<longleftrightarrow> (\<forall>k \<in> set (members ms). acceptable signers k)"
    using len by (auto simp: all_set_conv_all_nth)
  have n: "unat (ms_n ms) \<le> length (ms_signers ms)" "length (members ms) \<le> length (replicate MAX_SIGNERS False)"
    using True l len by simp_all
  have "\<not> of_nat ?c < ms_m ms \<longleftrightarrow> unat (ms_m ms) \<le> ?c"
    by (simp add: word_less_nat_alt u not_less)
  then show ?thesis
    unfolding match_signer_loop [OF n] ok fresh_hits_replicate [OF len] threshold_met_def
    using True by auto
next
  case False
  show ?thesis
  proof (cases signers)
    case Nil
    have "\<not> 0 < ms_m ms \<longleftrightarrow> unat (ms_m ms) = 0"
      by (simp add: word_less_nat_alt)
    then show ?thesis
      using Nil by (simp add: threshold_met_def matching_positions_def)
  next
    case (Cons i rest)
    then show ?thesis using False l by (simp add: match_signer_def threshold_met_def)
  qed
qed

lemma validate_owner_authorizes:
  "validate_owner P program_id owner i (length (info_data st i)) signers st = Inr () \<longleftrightarrow>
   authorizes P program_id owner i signers st"
proof -
  let ?ms = "pod_multisig_of_bytes (info_data st i)"
  have "bindr (try_for_each (match_signer ?ms) signers (replicate MAX_SIGNERS False, 0))
          (\<lambda>(_, num_signers). ensure (\<not> num_signers < ms_m ?ms) MissingRequiredSignature) = Inr () \<longleftrightarrow>
        threshold_met ?ms signers"
    unfolding count_signers_Inr [of ?ms signers, simplified, symmetric]
    by (auto simp: result_simps)
  then show ?thesis
    by (auto simp: validate_owner_def authorizes_def is_multisig_account_def info_owner_def info_data_def
        pod_multisig_try_from_bytes_def Let_def result_simps)
qed

text \<open>
  C8. \<open>validate_owner\<close>, called with the data length of the authority account as every handler does,
  accepts exactly the authorities of the specification: the right key, and either the account's own
  signature or a met multisignature threshold counted over distinct member positions.
\<close>

theorem validate_owner_iff:
  "validate_owner P program_id owner i (length (info_data st i)) signers st = Inr () \<longleftrightarrow>
   authorizes P program_id owner i signers st"
  by (rule validate_owner_authorizes)

text \<open>
  The error for an authority that is refused. A member list longer than the array panics as soon as a
  signer is compared with it.
\<close>

definition authority_error ::
    "platform \<Rightarrow> address \<Rightarrow> address \<Rightarrow> account_info \<Rightarrow> account_info list \<Rightarrow> store \<Rightarrow> program_error" where
  "authority_error P program_id owner i signers st =
     (if owner \<noteq> ai_key i then Custom OwnerMismatch
      else if is_multisig_account program_id (st (ai_key i)) then
        let ms = pod_multisig_of_bytes (info_data st i) in
        if \<not> pl_bool_from_pod P (ms_is_initialized ms) then UninitializedAccount
        else if MAX_SIGNERS < unat (ms_n ms) \<and> signers \<noteq> [] then Panic
        else MissingRequiredSignature
      else MissingRequiredSignature)"

lemma try_for_each_error:
  assumes "try_for_each f xs s = Inl e" and "\<And>x s. f x s = Inl e \<Longrightarrow> Q"
  shows Q
  using assms by (induction xs arbitrary: s) (auto simp: bindr_def split: sum.splits)

lemma match_position_error: "match_position signer p s = Inl e \<Longrightarrow> e = MissingRequiredSignature"
  by (cases p; cases s) (auto simp: match_position_def split: if_splits)

lemma match_signers_error:
  assumes "try_for_each (match_signer ms) signers s = Inl e" and "length (ms_signers ms) = MAX_SIGNERS"
  shows "e = (if MAX_SIGNERS < unat (ms_n ms) \<and> signers \<noteq> [] then Panic else MissingRequiredSignature)"
proof (cases "MAX_SIGNERS < unat (ms_n ms)")
  case True
  with assms show ?thesis by (cases signers) (simp_all add: match_signer_def bindr_def)
next
  case False
  from assms(1) have "e = MissingRequiredSignature"
    by (rule try_for_each_error)
      (use False assms(2) in \<open>auto simp: match_signer_def intro: try_for_each_error match_position_error\<close>)
  with False show ?thesis by simp
qed

lemma validate_owner_outcome:
  "validate_owner P program_id owner i (length (info_data st i)) signers st =
     (if authorizes P program_id owner i signers st then Inr ()
      else Inl (authority_error P program_id owner i signers st))"
proof (cases "validate_owner P program_id owner i (length (info_data st i)) signers st")
  case (Inr u)
  then show ?thesis by (simp add: validate_owner_authorizes)
next
  case (Inl e)
  let ?ms = "pod_multisig_of_bytes (info_data st i)"
  have loop: "e = (if MAX_SIGNERS < unat (ms_n ?ms) \<and> signers \<noteq> [] then Panic else MissingRequiredSignature)"
    if "bindr (try_for_each (match_signer ?ms) signers (replicate MAX_SIGNERS False, 0))
          (\<lambda>(_, num_signers). ensure (\<not> num_signers < ms_m ?ms) MissingRequiredSignature) = Inl e"
  proof (cases "try_for_each (match_signer ?ms) signers (replicate MAX_SIGNERS False, 0)")
    case (Inl e')
    with that match_signers_error [of ?ms signers _ e'] show ?thesis by simp
  next
    case (Inr r)
    then have "\<not> (MAX_SIGNERS < unat (ms_n ?ms) \<and> signers \<noteq> [])"
      by (cases signers) (auto simp: match_signer_def bindr_def)
    with that Inr show ?thesis by (auto simp: ensure_def split: prod.splits if_splits)
  qed
  have "e = authority_error P program_id owner i signers st"
  proof (cases "owner = ai_key i \<and> is_multisig_account program_id (st (ai_key i)) \<and> pl_bool_from_pod P (ms_is_initialized ?ms)")
    case True
    with Inl have "bindr (try_for_each (match_signer ?ms) signers (replicate MAX_SIGNERS False, 0))
          (\<lambda>(_, num_signers). ensure (\<not> num_signers < ms_m ?ms) MissingRequiredSignature) = Inl e"
      by (auto simp: validate_owner_def is_multisig_account_def info_owner_def info_data_def
          pod_multisig_try_from_bytes_def Let_def)
    from loop [OF this] True show ?thesis by (simp add: authority_error_def Let_def)
  next
    case False
    with Inl show ?thesis
      by (auto simp: validate_owner_def authority_error_def is_multisig_account_def info_owner_def info_data_def
          pod_multisig_try_from_bytes_def Let_def ensure_def split: if_splits)
  qed
  moreover from Inl have "\<not> authorizes P program_id owner i signers st"
    by (metis Inl_Inr_False validate_owner_authorizes)
  ultimately show ?thesis using Inl by simp
qed

lemma pod_multisig_try_from_bytes_eq:
  "pod_multisig_try_from_bytes d = Some ms \<longleftrightarrow> length d = MULTISIG_LEN \<and> ms = pod_multisig_of_bytes d"
  by (auto simp: pod_multisig_try_from_bytes_def)

lemma initialize_multisig_Inr:
  assumes "bool_laws P" and "process_initialize_multisig2 P (multisig_info # signer_infos) m st = Inr st'"
  obtains ms where
    "pod_multisig_try_from_bytes (info_data st' multisig_info) = Some ms"
    "\<not> pl_bool_from_pod P (ms_is_initialized (pod_multisig_of_bytes (info_data st multisig_info)))"
    "pl_bool_from_pod P (ms_is_initialized ms)" "ms_m ms = m" "members ms = map ai_key signer_infos"
    "unat (ms_n ms) = length signer_infos" "1 \<le> unat m" "unat m \<le> 11"
    "info_owner st' multisig_info = TOKEN_2022_ID" "\<And>a. a \<noteq> ai_key multisig_info \<Longrightarrow> st' a = st a"
proof -
  let ?old = "pod_multisig_of_bytes (info_data st multisig_info)" and ?l = "length signer_infos"
  let ?ms = "?old\<lparr>ms_m := m, ms_n := of_nat ?l,
    ms_signers := map ai_key signer_infos @ drop ?l (ms_signers ?old),
    ms_is_initialized := pl_pod_from_bool P True\<rparr>"
  from assms(2) have st': "st' = set_data (ai_key multisig_info) (pod_multisig_to_bytes ?ms) st"
    and own: "info_owner st multisig_info = TOKEN_2022_ID"
    and l: "?l \<le> 11" and m: "1 \<le> unat m" "unat m \<le> 11"
    and old: "\<not> pl_bool_from_pod P (ms_is_initialized ?old)"
    by (auto simp: process_initialize_multisig2_def process_initialize_multisig_inner_def Let_def result_simps get_rent_def
        pod_multisig_try_from_bytes_eq is_valid_signer_index_def MIN_SIGNERS_def MAX_SIGNERS_def)
  have n: "unat (of_nat ?l :: u8) = ?l" using l by (simp add: unat_of_nat)
  have len: "length (ms_signers ?ms) = MAX_SIGNERS" using l by (simp add: MAX_SIGNERS_def)
  show thesis
    by (rule that [of ?ms])
      (use assms(1) own l m n old len in
        \<open>simp_all add: st' info_data_def info_owner_def pod_multisig_to_bytes_try members_def bool_laws_def set_data_other\<close>)
qed

text \<open>
  C21. A multisignature account created by \<open>InitializeMultisig2\<close> was not initialised before and holds
  \<open>m\<close> and the keys of the given signer accounts, in their order. Afterwards a list of signing accounts
  satisfies \<open>validate_owner\<close> exactly when they cover at least \<open>m\<close> positions of the member list; so all
  members together can act exactly when \<open>m\<close> is at most their number: the code accepts a larger
  \<open>m\<close>, and such an authority can never act. Nothing else changes.
\<close>

theorem initialize_multisig_members_can_act:
  assumes "bool_laws P" and "process_initialize_multisig2 P (multisig_info # signer_infos) m st = Inr st'"
    and "\<forall>i \<in> set infos. ai_is_signer i"
  shows "(\<exists>ms. pod_multisig_try_from_bytes (info_data st' multisig_info) = Some ms \<and>
            pl_bool_from_pod P (ms_is_initialized ms) \<and> ms_m ms = m \<and> unat (ms_n ms) = length signer_infos \<and>
            take (length signer_infos) (ms_signers ms) = map ai_key signer_infos) \<and>
         (validate_owner P program_id (ai_key multisig_info) multisig_info
            (length (info_data st' multisig_info)) infos st' = Inr () \<longleftrightarrow>
          unat m \<le> card {p. p < length signer_infos \<and> ai_key (signer_infos ! p) \<in> ai_key ` set infos}) \<and>
         (map ai_key infos = map ai_key signer_infos \<longrightarrow>
          (validate_owner P program_id (ai_key multisig_info) multisig_info
             (length (info_data st' multisig_info)) infos st' = Inr () \<longleftrightarrow> unat m \<le> length signer_infos)) \<and>
         \<not> pl_bool_from_pod P (ms_is_initialized (pod_multisig_of_bytes (info_data st multisig_info))) \<and>
         (\<forall>a. a \<noteq> ai_key multisig_info \<longrightarrow> st' a = st a)"
proof -
  obtain ms where ms: "pod_multisig_try_from_bytes (info_data st' multisig_info) = Some ms"
    "\<not> pl_bool_from_pod P (ms_is_initialized (pod_multisig_of_bytes (info_data st multisig_info)))"
    "pl_bool_from_pod P (ms_is_initialized ms)" "ms_m ms = m" "members ms = map ai_key signer_infos"
    "unat (ms_n ms) = length signer_infos" "info_owner st' multisig_info = TOKEN_2022_ID"
    "\<forall>a. a \<noteq> ai_key multisig_info \<longrightarrow> st' a = st a"
    using assms(1,2) by (rule initialize_multisig_Inr) blast
  let ?covered = "{p. p < length signer_infos \<and> ai_key (signer_infos ! p) \<in> ai_key ` set infos}"
  have d: "length (info_data st' multisig_info) = MULTISIG_LEN" "pod_multisig_of_bytes (info_data st' multisig_info) = ms"
    using ms(1) by (simp_all add: pod_multisig_try_from_bytes_def split: if_splits)
  have "acceptable infos k" for k
    using assms(3) by (auto simp: acceptable_def find_Some_iff split: option.splits)
  moreover have "matching_positions (members ms) infos = ?covered"
    by (auto simp: matching_positions_def ms(5))
  moreover have "length signer_infos \<le> MAX_SIGNERS"
    using d(2) ms(5) by (auto simp: members_def dest: arg_cong [of _ _ length])
  ultimately have "threshold_met ms infos \<longleftrightarrow> unat m \<le> card ?covered"
    by (simp add: threshold_met_def ms(4,6))
  then have acts: "validate_owner P program_id (ai_key multisig_info) multisig_info
      (length (info_data st' multisig_info)) infos st' = Inr () \<longleftrightarrow> unat m \<le> card ?covered"
    unfolding validate_owner_authorizes using ms(3,7) d
    by (simp add: authorizes_def is_multisig_account_def info_owner_def info_data_def)
  have "?covered = {..< length signer_infos}" if "map ai_key infos = map ai_key signer_infos"
  proof -
    have "ai_key ` set infos = set (map ai_key signer_infos)" by (simp flip: that)
    then show ?thesis by auto
  qed
  with acts have "validate_owner P program_id (ai_key multisig_info) multisig_info
      (length (info_data st' multisig_info)) infos st' = Inr () \<longleftrightarrow> unat m \<le> length signer_infos"
    if "map ai_key infos = map ai_key signer_infos"
    using that by simp
  moreover have "take (length signer_infos) (ms_signers ms) = map ai_key signer_infos"
    using ms(5,6) by (simp add: members_def)
  ultimately show ?thesis using acts ms(1,2,3,4,6,8) by blast
qed

lemma initialize_multisig_members_can_act_witness:
  "\<exists>st'. process_initialize_multisig2 sample_platform
      [\<lparr>ai_key = 7, ai_is_signer = False, ai_is_writable = True\<rparr>,
       \<lparr>ai_key = 8, ai_is_signer = False, ai_is_writable = False\<rparr>,
       \<lparr>ai_key = 9, ai_is_signer = False, ai_is_writable = False\<rparr>] 2
      (sample_store [(7, \<lparr>ac_owner = TOKEN_2022_ID, ac_lamports = 400,
         ac_data = pod_multisig_to_bytes \<lparr>ms_m = 0, ms_n = 0, ms_is_initialized = 0, ms_signers = replicate 11 0\<rparr>\<rparr>)])
      = Inr st' \<and>
    validate_owner sample_platform TOKEN_2022_ID 7
      \<lparr>ai_key = 7, ai_is_signer = False, ai_is_writable = True\<rparr>
      (length (info_data st' \<lparr>ai_key = 7, ai_is_signer = False, ai_is_writable = True\<rparr>))
      [\<lparr>ai_key = 8, ai_is_signer = True, ai_is_writable = False\<rparr>,
       \<lparr>ai_key = 9, ai_is_signer = True, ai_is_writable = False\<rparr>] st' = Inr ()"
  (is "\<exists>st'. process_initialize_multisig2 ?P (?i # ?infos) 2 ?st = Inr st' \<and> _")
proof -
  have "pod_multisig_try_from_bytes (info_data ?st ?i) =
      Some \<lparr>ms_m = 0, ms_n = 0, ms_is_initialized = 0, ms_signers = replicate 11 0\<rparr>"
    by (simp add: info_data_def pod_multisig_to_bytes_try MAX_SIGNERS_def)
  moreover have "length (info_data ?st ?i) = 355"
    by (simp add: info_data_def length_pod_multisig_to_bytes MAX_SIGNERS_def MULTISIG_LEN_def)
  ultimately have "\<exists>st'. process_initialize_multisig2 ?P (?i # ?infos) 2 ?st = Inr st'"
    by (simp add: process_initialize_multisig2_def process_initialize_multisig_inner_def Let_def get_rent_def
        info_owner_def info_lamports_def sample_platform_def is_valid_signer_index_def MIN_SIGNERS_def MAX_SIGNERS_def
        ensure_def ok_or_def)
  then obtain st' where st': "process_initialize_multisig2 ?P (?i # ?infos) 2 ?st = Inr st'" ..
  from initialize_multisig_members_can_act [OF sample_platform_laws(2) st', of
      "map (\<lambda>i. i\<lparr>ai_is_signer := True\<rparr>) ?infos" TOKEN_2022_ID] st'
  show ?thesis by simp
qed

end
