(* ===== verification/State_Pack.thy ===== *)
theory State_Pack
  imports Pod
begin

text \<open>
  The unpacked base states and their \<open>Pack\<close> codec (interface/src/state.rs): \<open>Mint\<close>, \<open>Account\<close> and
  \<open>Multisig\<close> with \<open>COption\<close> fields. Packing \<open>None\<close> writes the tag only and leaves the body bytes of
  the destination as they were, so packing is a function of the destination buffer. The lemmas
  show the round trip for every buffer, and that wherever this decoder accepts, it agrees field
  by field with the zero-copy view of theory Pod.
\<close>

section \<open>Model\<close>

record mint =
  mi_authority :: "address option"
  mi_supply :: u64
  mi_decimals :: u8
  mi_is_initialized :: bool
  mi_freeze_authority :: "address option"

record account =
  acc_mint :: address
  acc_owner :: address
  acc_amount :: u64
  acc_delegate :: "address option"
  acc_state :: account_state
  acc_is_native :: "u64 option"
  acc_delegated_amount :: u64
  acc_close_authority :: "address option"

record multisig =
  msig_m :: u8
  msig_n :: u8
  msig_is_initialized :: bool
  msig_signers :: "address list"

definition pack_coption_key :: "address option \<Rightarrow> bytes \<Rightarrow> bytes" where
  "pack_coption_key src dst =
     (case src of
        Some key \<Rightarrow> [1, 0, 0, 0] @ le_bytes 32 key
      | None \<Rightarrow> [0, 0, 0, 0] @ seg 4 32 dst)"

definition unpack_coption_key :: "bytes \<Rightarrow> address option result" where
  "unpack_coption_key src =
     (if seg 0 4 src = [0, 0, 0, 0] then Inr None
      else if seg 0 4 src = [1, 0, 0, 0] then Inr (Some (of_le (seg 4 32 src)))
      else Inl InvalidAccountData)"

definition pack_coption_u64 :: "u64 option \<Rightarrow> bytes \<Rightarrow> bytes" where
  "pack_coption_u64 src dst =
     (case src of
        Some amount \<Rightarrow> [1, 0, 0, 0] @ le_bytes 8 amount
      | None \<Rightarrow> [0, 0, 0, 0] @ seg 4 8 dst)"

definition unpack_coption_u64 :: "bytes \<Rightarrow> u64 option result" where
  "unpack_coption_u64 src =
     (if seg 0 4 src = [0, 0, 0, 0] then Inr None
      else if seg 0 4 src = [1, 0, 0, 0] then Inr (Some (of_le (seg 4 8 src)))
      else Inl InvalidAccountData)"

text \<open>The one-byte flag of \<open>Mint\<close> and \<open>Multisig\<close>: only 0 and 1 are valid.\<close>

definition unpack_bool :: "bytes \<Rightarrow> bool result" where
  "unpack_bool bs = (if bs = [0] then Inr False else if bs = [1] then Inr True else Inl InvalidAccountData)"

definition pack_bool :: "bool \<Rightarrow> bytes" where
  "pack_bool b = (if b then [1] else [0])"

definition mint_unpack_from_slice :: "bytes \<Rightarrow> mint result" where
  "mint_unpack_from_slice src =
     (if length src < MINT_LEN then Inl Panic else
      bindr (unpack_coption_key (seg 0 36 src)) (\<lambda>ma.
      bindr (unpack_bool (seg 45 1 src)) (\<lambda>ini.
      bindr (unpack_coption_key (seg 46 36 src)) (\<lambda>fa.
      Inr \<lparr>mi_authority = ma, mi_supply = of_le (seg 36 8 src), mi_decimals = of_le (seg 44 1 src),
           mi_is_initialized = ini, mi_freeze_authority = fa\<rparr>))))"

definition mint_pack_into_slice :: "mint \<Rightarrow> bytes \<Rightarrow> bytes" where
  "mint_pack_into_slice m dst =
     pack_coption_key (mi_authority m) (seg 0 36 dst) @ le_bytes 8 (mi_supply m) @
     le_bytes 1 (mi_decimals m) @ pack_bool (mi_is_initialized m) @
     pack_coption_key (mi_freeze_authority m) (seg 46 36 dst)"

definition account_unpack_from_slice :: "bytes \<Rightarrow> account result" where
  "account_unpack_from_slice src =
     (if length src < ACCOUNT_LEN then Inl Panic else
      bindr (unpack_coption_key (seg 72 36 src)) (\<lambda>delegate.
      bindr (ok_or (account_state_try_from (of_le (seg 108 1 src))) InvalidAccountData) (\<lambda>state.
      bindr (unpack_coption_u64 (seg 109 12 src)) (\<lambda>native.
      bindr (unpack_coption_key (seg 129 36 src)) (\<lambda>close.
      Inr \<lparr>acc_mint = of_le (seg 0 32 src), acc_owner = of_le (seg 32 32 src),
           acc_amount = of_le (seg 64 8 src), acc_delegate = delegate, acc_state = state,
           acc_is_native = native, acc_delegated_amount = of_le (seg 121 8 src),
           acc_close_authority = close\<rparr>)))))"

definition account_pack_into_slice :: "account \<Rightarrow> bytes \<Rightarrow> bytes" where
  "account_pack_into_slice a dst =
     le_bytes 32 (acc_mint a) @ le_bytes 32 (acc_owner a) @ le_bytes 8 (acc_amount a) @
     pack_coption_key (acc_delegate a) (seg 72 36 dst) @
     le_bytes 1 (account_state_u8 (acc_state a)) @
     pack_coption_u64 (acc_is_native a) (seg 109 12 dst) @
     le_bytes 8 (acc_delegated_amount a) @
     pack_coption_key (acc_close_authority a) (seg 129 36 dst)"

definition multisig_unpack_from_slice :: "bytes \<Rightarrow> multisig result" where
  "multisig_unpack_from_slice src =
     (if length src < MULTISIG_LEN then Inl Panic else
      bindr (unpack_bool (seg 2 1 src)) (\<lambda>ini.
      Inr \<lparr>msig_m = of_le (seg 0 1 src), msig_n = of_le (seg 1 1 src), msig_is_initialized = ini,
           msig_signers = addresses_of_bytes MAX_SIGNERS (drop 3 src)\<rparr>))"

text \<open>The caller, \<open>Pack::pack\<close>, has checked the length of the destination.\<close>

definition multisig_pack_into_slice :: "multisig \<Rightarrow> bytes \<Rightarrow> bytes" where
  "multisig_pack_into_slice m dst =
     le_bytes 1 (msig_m m) @ le_bytes 1 (msig_n m) @ pack_bool (msig_is_initialized m) @
     concat (map (le_bytes 32) (msig_signers m))"

definition account_is_initialized :: "account \<Rightarrow> bool" where
  "account_is_initialized a \<longleftrightarrow> acc_state a \<noteq> Uninitialized"

definition account_is_frozen :: "account \<Rightarrow> bool" where
  "account_is_frozen a \<longleftrightarrow> acc_state a = Frozen"

text \<open>
  \<open>GenericTokenAccount::valid_account_data\<close> with \<open>is_initialized_account\<close>
  (interface/src/generic_token_account.rs), which other programs use to recognise an account.
\<close>

definition is_initialized_account_data :: "bytes \<Rightarrow> bool" where
  "is_initialized_account_data d \<longleftrightarrow> (if 108 < length d then d ! 108 else 0) \<noteq> 0"

definition valid_account_data :: "bytes \<Rightarrow> bool" where
  "valid_account_data d \<longleftrightarrow>
     (length d = ACCOUNT_LEN \<and> is_initialized_account_data d) \<or>
     (length d > ACCOUNT_LEN \<and> length d \<noteq> MULTISIG_LEN \<and> d ! ACCOUNT_LEN = 2 \<and>
      is_initialized_account_data d)"

section \<open>Round trips\<close>

lemma length_pack_coption_key [simp]: "length dst = 36 \<Longrightarrow> length (pack_coption_key src dst) = 36"
  by (cases src) (simp_all add: pack_coption_key_def)

lemma length_pack_coption_u64 [simp]: "length dst = 12 \<Longrightarrow> length (pack_coption_u64 src dst) = 12"
  by (cases src) (simp_all add: pack_coption_u64_def)

lemma length_pack_bool [simp]: "length (pack_bool b) = Suc 0"
  by (simp add: pack_bool_def)

lemma unpack_pack_coption_key [simp]:
  "length dst = 36 \<Longrightarrow> unpack_coption_key (pack_coption_key src dst) = Inr src"
  by (cases src) (simp_all add: pack_coption_key_def unpack_coption_key_def seg_def codec_simps)

lemma unpack_pack_coption_u64 [simp]:
  "length dst = 12 \<Longrightarrow> unpack_coption_u64 (pack_coption_u64 src dst) = Inr src"
  by (cases src) (simp_all add: pack_coption_u64_def unpack_coption_u64_def seg_def codec_simps)

lemma unpack_pack_bool [simp]: "unpack_bool (pack_bool b) = Inr b"
  by (simp add: unpack_bool_def pack_bool_def)

lemma mint_unpack_pack:
  "length dst = MINT_LEN \<Longrightarrow> mint_unpack_from_slice (mint_pack_into_slice m dst) = Inr m"
  by (simp add: mint_unpack_from_slice_def mint_pack_into_slice_def MINT_LEN_def codec_simps)

lemma account_unpack_pack:
  "length dst = ACCOUNT_LEN \<Longrightarrow> account_unpack_from_slice (account_pack_into_slice a dst) = Inr a"
  by (simp add: account_unpack_from_slice_def account_pack_into_slice_def ACCOUNT_LEN_def codec_simps)

lemma multisig_unpack_pack:
  assumes "length (msig_signers m) = MAX_SIGNERS"
  shows "multisig_unpack_from_slice (multisig_pack_into_slice m dst) = Inr m"
  using assms
  by (simp add: multisig_unpack_from_slice_def multisig_pack_into_slice_def MULTISIG_LEN_def
      MAX_SIGNERS_def codec_simps addresses_of_to_bytes)

section \<open>Agreement with the zero-copy view\<close>

definition coption_view :: "'a option \<Rightarrow> 'a pod_coption \<Rightarrow> bool" where
  "coption_view x c \<longleftrightarrow>
     (case x of None \<Rightarrow> co_option c = COPTION_NONE
      | Some v \<Rightarrow> co_option c = COPTION_SOME \<and> co_value c = v)"

definition mint_view :: "mint \<Rightarrow> pod_mint \<Rightarrow> bool" where
  "mint_view m p \<longleftrightarrow>
     coption_view (mi_authority m) (m_mint_authority p) \<and> mi_supply m = m_supply p \<and>
     mi_decimals m = m_decimals p \<and> (m_is_initialized p = (if mi_is_initialized m then 1 else 0)) \<and>
     coption_view (mi_freeze_authority m) (m_freeze_authority p)"

definition account_view :: "account \<Rightarrow> pod_account \<Rightarrow> bool" where
  "account_view a p \<longleftrightarrow>
     acc_mint a = a_mint p \<and> acc_owner a = a_owner p \<and> acc_amount a = a_amount p \<and>
     coption_view (acc_delegate a) (a_delegate p) \<and> account_state_u8 (acc_state a) = a_state p \<and>
     coption_view (acc_is_native a) (a_is_native p) \<and>
     acc_delegated_amount a = a_delegated_amount p \<and>
     coption_view (acc_close_authority a) (a_close_authority p)"

lemma unpack_coption_key_view:
  assumes "length bs = 36" and "unpack_coption_key bs = Inr x"
  shows "coption_view x (coption_of_bytes 32 bs)"
proof -
  have "of_le [0, 0, 0, 0] = (0 :: u32)" "of_le [1, 0, 0, 0] = (1 :: u32)"
    by (simp_all add: of_le_def)
  with assms show ?thesis
    by (auto simp: unpack_coption_key_def coption_view_def coption_of_bytes_def split: if_splits)
qed

lemma unpack_coption_u64_view:
  assumes "length bs = 12" and "unpack_coption_u64 bs = Inr x"
  shows "coption_view x (coption_of_bytes 8 bs)"
proof -
  have "of_le [0, 0, 0, 0] = (0 :: u32)" "of_le [1, 0, 0, 0] = (1 :: u32)"
    by (simp_all add: of_le_def)
  with assms show ?thesis
    by (auto simp: unpack_coption_u64_def coption_view_def coption_of_bytes_def split: if_splits)
qed

lemma account_state_try_fromD: "account_state_try_from b = Some s \<Longrightarrow> b = account_state_u8 s"
  by (auto simp: account_state_try_from_def split: if_splits)

lemma mint_unpack_view:
  assumes "mint_unpack_from_slice bs = Inr m"
  shows "mint_view m (pod_mint_of_bytes bs)"
proof -
  have [simp]: "of_le [0] = (0 :: u8)" "of_le [1] = (1 :: u8)" by (simp_all add: of_le_def)
  show ?thesis
    using assms
    by (auto simp: mint_unpack_from_slice_def mint_view_def pod_mint_of_bytes_def result_simps
        unpack_bool_def MINT_LEN_def not_less intro: unpack_coption_key_view split: if_splits)
qed

lemma account_unpack_view:
  "account_unpack_from_slice bs = Inr a \<Longrightarrow> account_view a (pod_account_of_bytes bs)"
  by (auto simp: account_unpack_from_slice_def account_view_def pod_account_of_bytes_def result_simps
      ACCOUNT_LEN_def not_less dest: account_state_try_fromD
      intro: unpack_coption_key_view unpack_coption_u64_view split: if_splits)

section \<open>Properties\<close>

text \<open>
  C19. Base states survive a round trip through account bytes: whatever the destination buffer held
  before, unpacking what \<open>pack_into_slice\<close> wrote gives back the same mint, account or multisig.
\<close>

theorem pack_unpack_roundtrip:
  assumes "length mint_dst = MINT_LEN" and "length account_dst = ACCOUNT_LEN"
    and "length (msig_signers ms) = MAX_SIGNERS"
  shows "mint_unpack_from_slice (mint_pack_into_slice m mint_dst) = Inr m \<and>
    account_unpack_from_slice (account_pack_into_slice a account_dst) = Inr a \<and>
    multisig_unpack_from_slice (multisig_pack_into_slice ms ms_dst) = Inr ms"
  using assms by (simp add: mint_unpack_pack account_unpack_pack multisig_unpack_pack)

theorem pack_unpack_roundtrip_witness:
  "mint_unpack_from_slice (mint_pack_into_slice
      \<lparr>mi_authority = None, mi_supply = 42, mi_decimals = 7, mi_is_initialized = True, mi_freeze_authority = Some 2\<rparr>
      (replicate MINT_LEN 255)) =
   Inr \<lparr>mi_authority = None, mi_supply = 42, mi_decimals = 7, mi_is_initialized = True, mi_freeze_authority = Some 2\<rparr>"
  using pack_unpack_roundtrip [of "replicate MINT_LEN 255" "replicate ACCOUNT_LEN 0"
      "\<lparr>msig_m = 1, msig_n = 11, msig_is_initialized = True, msig_signers = replicate MAX_SIGNERS 3\<rparr>"]
  by simp

text \<open>
  C20. The two decoders of the code base agree: whenever the validating \<open>Pack\<close> decoder accepts the
  bytes of a mint or an account, the zero-copy view of the same bytes has the same fields.
\<close>

theorem pack_agrees_with_pod:
  "(mint_unpack_from_slice mint_bytes = Inr m \<longrightarrow> mint_view m (pod_mint_of_bytes mint_bytes)) \<and>
   (account_unpack_from_slice account_bytes = Inr a \<longrightarrow> account_view a (pod_account_of_bytes account_bytes))"
  by (simp add: mint_unpack_view account_unpack_view)

theorem pack_agrees_with_pod_witness:
  "mint_view \<lparr>mi_authority = None, mi_supply = 42, mi_decimals = 7, mi_is_initialized = True, mi_freeze_authority = Some 2\<rparr>
     (pod_mint_of_bytes (mint_pack_into_slice
       \<lparr>mi_authority = None, mi_supply = 42, mi_decimals = 7, mi_is_initialized = True, mi_freeze_authority = Some 2\<rparr>
       (replicate MINT_LEN 255)))"
  using pack_agrees_with_pod [THEN conjunct1, THEN mp, OF mint_unpack_pack]
  by simp

end
