(* ===== verification/Initialize.thy ===== *)
theory Initialize
  imports Authority State_Pack
begin

text \<open>
  The instructions that bring mints and token accounts into existence (program/src/processor.rs):
  \<open>InitializeMint\<close>, \<open>InitializeAccount\<close> and the extension initialisers that run before them,
  with \<open>GetAccountDataSize\<close> and \<open>CreateNativeMint\<close>. A handler takes the accounts of its instruction
  and the store, and returns the new store or the error it stops with; an error rolls the store
  back, so a handler's writes are those of its successful end.
\<close>

section \<open>Mints\<close>

definition process_initialize_mint_inner ::
    "platform \<Rightarrow> account_info list \<Rightarrow> u8 \<Rightarrow> address \<Rightarrow> address pod_coption \<Rightarrow> bool \<Rightarrow> store \<Rightarrow> store result" where
  "process_initialize_mint_inner P accounts decimals mint_authority freeze_authority rent_sysvar_account st =
     bindr (next_account_info accounts) (\<lambda>(mint_info, it).
     let mint_data_len = length (info_data st mint_info) in
     bindr (check_program_account (info_owner st mint_info)) (\<lambda>_.
     bindr (get_rent P rent_sysvar_account it st) (\<lambda>(rent, _).
     bindr (ensure (rent_is_exempt rent (info_lamports st mint_info) mint_data_len) (Custom NotRentExempt)) (\<lambda>_.
     uninitialized_view (mint_base P) (ai_key mint_info) (\<lambda>mint.
       bindr (get_extension_types mint) (\<lambda>extension_types.
       bindr (try_calculate_account_len P MINT_LEN extension_types) (\<lambda>len.
       bindr (ensure (len = mint_data_len) InvalidAccountData) (\<lambda>_.
       bindr (check_for_invalid_mint_extension_combinations extension_types) (\<lambda>_.
       bindr (case get_extension AtMint default_account_state_ext (ps_tlv mint) of
           Inr e \<Rightarrow>
             bindr (ok_or (account_state_try_from (das_state e)) InvalidAccountData) (\<lambda>s.
             ensure (\<not> (s = Frozen \<and> coption_is_none freeze_authority)) (Custom MintCannotFreeze))
         | Inl _ \<Rightarrow> Inr ()) (\<lambda>_.
       let base = (ps_base mint)\<lparr>m_mint_authority := coption_some mint_authority, m_decimals := decimals,
                     m_is_initialized := pl_pod_from_bool P True, m_freeze_authority := freeze_authority\<rparr> in
       init_account_type (mint_base P) (mint\<lparr>ps_base := base\<rparr>)))))))
       st))))"

definition process_initialize_mint ::
    "platform \<Rightarrow> account_info list \<Rightarrow> u8 \<Rightarrow> address \<Rightarrow> address pod_coption \<Rightarrow> store \<Rightarrow> store result" where
  "process_initialize_mint P accounts decimals mint_authority freeze_authority st =
     process_initialize_mint_inner P accounts decimals mint_authority freeze_authority True st"

definition process_initialize_mint2 ::
    "platform \<Rightarrow> account_info list \<Rightarrow> u8 \<Rightarrow> address \<Rightarrow> address pod_coption \<Rightarrow> store \<Rightarrow> store result" where
  "process_initialize_mint2 P accounts decimals mint_authority freeze_authority st =
     process_initialize_mint_inner P accounts decimals mint_authority freeze_authority False st"

text \<open>Initialising an extension of a mint that is not initialised yet, and setting its value.\<close>

definition init_mint_extension ::
    "platform \<Rightarrow> account_info \<Rightarrow> 'v extension \<Rightarrow> ('v \<Rightarrow> 'v result) \<Rightarrow> store \<Rightarrow> store result" where
  "init_mint_extension P mint_account_info V f st =
     uninitialized_view (mint_base P) (ai_key mint_account_info)
       (on_tlv (\<lambda>tlv.
          bindr (init_extension AtMint V True tlv) (\<lambda>tlv1.
          bindr (f (vx_default V)) (\<lambda>v. put_extension AtMint V v tlv1)))) st"

definition process_initialize_mint_close_authority ::
    "platform \<Rightarrow> account_info list \<Rightarrow> address pod_coption \<Rightarrow> store \<Rightarrow> store result" where
  "process_initialize_mint_close_authority P accounts close_authority st =
     bindr (next_account_info accounts) (\<lambda>(mint_account_info, _).
     bindr (check_program_account (info_owner st mint_account_info)) (\<lambda>_.
     init_mint_extension P mint_account_info mint_close_authority_ext
       (\<lambda>e. bindr (maybe_null_try_from_coption close_authority) (\<lambda>a. Inr (e\<lparr>mca_close_authority := a\<rparr>))) st))"

definition process_initialize_non_transferable_mint ::
    "platform \<Rightarrow> account_info list \<Rightarrow> store \<Rightarrow> store result" where
  "process_initialize_non_transferable_mint P accounts st =
     bindr (next_account_info accounts) (\<lambda>(mint_account_info, _).
     bindr (check_program_account (info_owner st mint_account_info)) (\<lambda>_.
     uninitialized_view (mint_base P) (ai_key mint_account_info)
       (on_tlv (init_extension AtMint non_transferable_ext True)) st))"

definition process_initialize_permanent_delegate ::
    "platform \<Rightarrow> account_info list \<Rightarrow> address \<Rightarrow> store \<Rightarrow> store result" where
  "process_initialize_permanent_delegate P accounts delegate st =
     bindr (next_account_info accounts) (\<lambda>(mint_account_info, _).
     bindr (check_program_account (info_owner st mint_account_info)) (\<lambda>_.
     init_mint_extension P mint_account_info permanent_delegate_ext
       (\<lambda>e. bindr (ok_or (pl_maybe_null_try_from P (Some delegate)) InvalidArgument) (\<lambda>a.
             Inr (e\<lparr>pd_delegate := a\<rparr>))) st))"

definition process_create_native_mint :: "platform \<Rightarrow> account_info list \<Rightarrow> store \<Rightarrow> store result" where
  "process_create_native_mint P accounts st =
     bindr (next_account_info accounts) (\<lambda>(payer_info, it).
     bindr (next_account_info it) (\<lambda>(native_mint_info, it).
     bindr (next_account_info it) (\<lambda>(_, _).
     bindr (ensure (ai_key native_mint_info = NATIVE_MINT_ID) (Custom InvalidMint)) (\<lambda>_.
     bindr (pl_rent_get P) (\<lambda>rent.
     let new_minimum_balance = rent_minimum_balance rent MINT_LEN;
         lamports_diff = saturating_sub new_minimum_balance (info_lamports st native_mint_info) in
     bindr (pl_system_transfer P payer_info native_mint_info lamports_diff st) (\<lambda>st1.
     bindr (pl_system_allocate P native_mint_info MINT_LEN st1) (\<lambda>st2.
     bindr (pl_system_assign P native_mint_info TOKEN_2022_ID st2) (\<lambda>st3.
     let d = info_data st3 native_mint_info in
     bindr (ensure (length d = MINT_LEN) InvalidAccountData) (\<lambda>_.
     Inr (set_data (ai_key native_mint_info)
            (mint_pack_into_slice
               \<lparr>mi_authority = None, mi_supply = 0, mi_decimals = NATIVE_MINT_DECIMALS,
                mi_is_initialized = True, mi_freeze_authority = None\<rparr> d) st3))))))))))"

section \<open>Token accounts\<close>

definition process_initialize_account_inner ::
    "platform \<Rightarrow> account_info list \<Rightarrow> address option \<Rightarrow> bool \<Rightarrow> store \<Rightarrow> store result" where
  "process_initialize_account_inner P accounts owner rent_sysvar_account st =
     bindr (next_account_info accounts) (\<lambda>(new_account_info, it).
     bindr (next_account_info it) (\<lambda>(mint_info, it).
     bindr (check_program_account (info_owner st new_account_info)) (\<lambda>_.
     bindr (check_program_account (info_owner st mint_info)) (\<lambda>_.
     bindr (case owner of Some owner \<Rightarrow> Inr (owner, it)
            | None \<Rightarrow> bindr (next_account_info it) (\<lambda>(owner_info, it). Inr (ai_key owner_info, it))) (\<lambda>(owner, it).
     let new_account_info_data_len = length (info_data st new_account_info) in
     bindr (get_rent P rent_sysvar_account it st) (\<lambda>(rent, _).
     uninitialized_view account_base (ai_key new_account_info) (\<lambda>account.
       bindr (ensure (rent_is_exempt rent (info_lamports st new_account_info) new_account_info_data_len)
                (Custom NotRentExempt)) (\<lambda>_.
       bindr (ensure (ai_key mint_info \<noteq> ai_key new_account_info) Panic) (\<lambda>_.
       bindr (map_err (unpack_ref (mint_base P) (info_data st mint_info)) (Custom InvalidMint)) (\<lambda>(_, mint_tlv).
       bindr (try_calculate_account_len_from_mint_data P (info_data st mint_info) []) (\<lambda>required_account_len.
       bindr (ensure (\<not> required_account_len > new_account_info_data_len) InvalidAccountData) (\<lambda>_.
       bindr (try_for_each_required_init_account_extension init_account_extension_from_type mint_tlv
                (ps_tlv account)) (\<lambda>account_tlv.
       bindr (case get_extension AtMint default_account_state_ext mint_tlv of
           Inr e \<Rightarrow> ok_or (account_state_try_from (das_state e)) InvalidAccountData
         | Inl _ \<Rightarrow> Inr Initialized) (\<lambda>starting_state.
       bindr (if ai_key mint_info = NATIVE_MINT_ID
           then
             let rent_exempt_reserve = rent_minimum_balance rent new_account_info_data_len in
             bindr (ok_or (checked_sub (info_lamports st new_account_info) rent_exempt_reserve) (Custom Overflow)) (\<lambda>amount.
             Inr (coption_some rent_exempt_reserve, amount))
           else Inr (coption_none, 0)) (\<lambda>(native, amount).
       let base = (ps_base account)\<lparr>a_mint := ai_key mint_info, a_owner := owner, a_close_authority := coption_none,
                     a_delegate := coption_none, a_delegated_amount := 0,
                     a_state := account_state_u8 starting_state, a_is_native := native, a_amount := amount\<rparr> in
       init_account_type account_base (account\<lparr>ps_base := base, ps_tlv := account_tlv\<rparr>)))))))))) st))))))"

definition process_initialize_account :: "platform \<Rightarrow> account_info list \<Rightarrow> store \<Rightarrow> store result" where
  "process_initialize_account P accounts st = process_initialize_account_inner P accounts None True st"

definition process_initialize_account2 ::
    "platform \<Rightarrow> account_info list \<Rightarrow> address \<Rightarrow> store \<Rightarrow> store result" where
  "process_initialize_account2 P accounts owner st = process_initialize_account_inner P accounts (Some owner) True st"

definition process_initialize_account3 ::
    "platform \<Rightarrow> account_info list \<Rightarrow> address \<Rightarrow> store \<Rightarrow> store result" where
  "process_initialize_account3 P accounts owner st = process_initialize_account_inner P accounts (Some owner) False st"

definition process_initialize_immutable_owner :: "account_info list \<Rightarrow> store \<Rightarrow> store result" where
  "process_initialize_immutable_owner accounts st =
     bindr (next_account_info accounts) (\<lambda>(token_account_info, _).
     bindr (check_program_account (info_owner st token_account_info)) (\<lambda>_.
     uninitialized_view account_base (ai_key token_account_info)
       (on_tlv (init_extension AtAccount immutable_owner_ext True)) st))"

text \<open>The size is returned as return data; the store does not change.\<close>

definition process_get_account_data_size ::
    "platform \<Rightarrow> account_info list \<Rightarrow> extension_type list \<Rightarrow> store \<Rightarrow> nat result" where
  "process_get_account_data_size P accounts new_extension_types st =
     bindr (next_account_info accounts) (\<lambda>(mint_account_info, _).
     bindr (check_program_account (info_owner st mint_account_info)) (\<lambda>_.
     try_calculate_account_len_from_mint_data P (info_data st mint_account_info) new_extension_types))"

section \<open>What initialisation establishes\<close>

definition has_extension :: "account_type \<Rightarrow> extension_type \<Rightarrow> bytes \<Rightarrow> bool" where
  "has_extension at t tlv \<longleftrightarrow> is_ok (get_extension_bytes at t tlv)"

context extension_contract
begin

lemma init_has_extension:
  assumes "init_extension at V ow tlv = Inr tlv'" and "at \<noteq> AtUninitialized"
  shows "has_extension at (vx_type V) tlv'"
    and "t \<noteq> ExtUninitialized \<Longrightarrow> has_extension at' t tlv \<Longrightarrow> has_extension at' t tlv'"
    and "length tlv' = length tlv"
proof -
  obtain tlv1 i where al: "alloc at (vx_type V) (length (vx_to_bytes V (vx_default V))) ow tlv = Inr (tlv1, i)"
    and tlv': "tlv' = patch i (vx_to_bytes V (vx_default V)) tlv1"
    using assms(1) by (auto simp: init_extension_def result_simps length_to_bytes)
  show own: "has_extension at (vx_type V) tlv'"
    using alloc_get_same [OF al assms(2)] by (simp add: has_extension_def tlv')
  show "has_extension at' t tlv'" if t: "t \<noteq> ExtUninitialized" "has_extension at' t tlv"
  proof (cases "t = vx_type V")
    case True
    have "at' = at"
      using t al True
      by (auto simp: has_extension_def is_ok_iff get_extension_bytes_def get_extension_range_def alloc_def
          result_simps split: if_splits)
    with own True show ?thesis by simp
  next
    case False
    obtain bs where "get_extension_bytes at' t tlv = Inr bs"
      using t(2) by (auto simp: has_extension_def is_ok_iff)
    from alloc_get_other [OF al assms(2) False t(1) this] show ?thesis
      by (simp add: has_extension_def tlv')
  qed
  show "length tlv' = length tlv" using assms by (rule init_length)
qed

lemma init_keeps:
  assumes "init_extension AtAccount V ow tlv = Inr tlv'"
  shows "has_extension AtAccount (vx_type V) tlv' \<and> length tlv' = length tlv \<and>
    (\<forall>u. u \<noteq> ExtUninitialized \<longrightarrow> has_extension AtAccount u tlv \<longrightarrow> has_extension AtAccount u tlv')"
  using init_has_extension [OF assms] by simp

end

text \<open>The account extensions that \<open>InitializeAccount\<close> writes; the confidential one is left to its own instruction.\<close>

definition created_with_account :: "extension_type list" where
  "created_with_account =
     [TransferFeeAmount, ImmutableOwner, NonTransferableAccount, TransferHookAccount, PausableAccount]"

lemma init_account_extension_from_type_keeps:
  assumes "init_account_extension_from_type t tlv = Inr tlv'"
  shows "(t \<in> set created_with_account \<longrightarrow> has_extension AtAccount t tlv') \<and> length tlv' = length tlv \<and>
    (\<forall>u. u \<noteq> ExtUninitialized \<longrightarrow> has_extension AtAccount u tlv \<longrightarrow> has_extension AtAccount u tlv')"
proof -
  have "t \<notin> set created_with_account \<and> tlv' = tlv \<or>
      init_extension AtAccount transfer_fee_amount_ext True tlv = Inr tlv' \<and> t = TransferFeeAmount \<or>
      init_extension AtAccount immutable_owner_ext True tlv = Inr tlv' \<and> t = ImmutableOwner \<or>
      init_extension AtAccount non_transferable_account_ext True tlv = Inr tlv' \<and> t = NonTransferableAccount \<or>
      init_extension AtAccount transfer_hook_account_ext True tlv = Inr tlv' \<and> t = TransferHookAccount \<or>
      init_extension AtAccount pausable_account_ext True tlv = Inr tlv' \<and> t = PausableAccount"
    using assms by (cases t) (simp_all add: init_account_extension_from_type_def created_with_account_def get_account_type_def)
  then show ?thesis
    by (elim disjE conjE)
      (auto dest: transfer_fee_amount_x.init_keeps immutable_owner_x.init_keeps
        non_transferable_account_x.init_keeps transfer_hook_account_x.init_keeps pausable_account_x.init_keeps)
qed

lemma required_init_created: "set (required_init_account_extensions t) \<subseteq> set created_with_account"
  by (cases t) (simp_all add: required_init_account_extensions_def created_with_account_def)

lemma created_sized: "t \<in> set created_with_account \<Longrightarrow> t \<noteq> ExtUninitialized"
  by (auto simp: created_with_account_def)

lemma init_account_extensions:
  assumes "try_for_each init_account_extension_from_type ts tlv = Inr tlv'"
    and "set ts \<subseteq> set created_with_account"
  shows "length tlv' = length tlv \<and>
    (\<forall>t \<in> set created_with_account. t \<in> set ts \<or> has_extension AtAccount t tlv \<longrightarrow> has_extension AtAccount t tlv')"
  using assms
proof (induction ts arbitrary: tlv)
  case Nil
  then show ?case by simp
next
  case (Cons t ts)
  from Cons.prems obtain tlv1 where s: "init_account_extension_from_type t tlv = Inr tlv1"
    "try_for_each init_account_extension_from_type ts tlv1 = Inr tlv'"
    by (auto simp: result_simps)
  from Cons.IH [OF s(2)] Cons.prems(2) init_account_extension_from_type_keeps [OF s(1)] created_sized
  show ?case by auto
qed

text \<open>
  C22. A token account that \<open>InitializeAccount3\<close> creates was not initialised before, belongs to the
  given owner and mint, has no delegate and no close authority, starts in the mint's default state,
  is native with its lamports above the reserve as amount exactly when the mint is the native mint,
  and carries every account extension that an extension of the mint requires. It can be unpacked
  unless the mint's default state is the uninitialised one, and no other account changes.
\<close>

theorem initialize_account_result:
  assumes "process_initialize_account3 P (new_info # mint_info # rest) owner st = Inr st'"
  shows "\<exists>old acct mint mint_tlv info rent.
     unpack_uninitialized account_base (info_data st new_info) = Inr old \<and>
     unpack_ref (mint_base P) (info_data st mint_info) = Inr (mint, mint_tlv) \<and>
     get_tlv_data_info mint_tlv = Inr info \<and> pl_rent_get P = Inr rent \<and>
     st' = set_data (ai_key new_info) (state_bytes account_base acct) st \<and>
     length (state_bytes account_base acct) = length (info_data st new_info) \<and>
     (a_state (ps_base acct) \<noteq> 0 \<longrightarrow> unpack account_base (state_bytes account_base acct) = Inr acct) \<and>
     ps_base acct = \<lparr>a_mint = ai_key mint_info, a_owner = owner, a_amount = a_amount (ps_base acct),
       a_delegate = coption_none,
       a_state = (case get_extension AtMint default_account_state_ext mint_tlv of Inr e \<Rightarrow> das_state e | Inl _ \<Rightarrow> 1),
       a_is_native = a_is_native (ps_base acct), a_delegated_amount = 0, a_close_authority = coption_none\<rparr> \<and>
     (if ai_key mint_info = NATIVE_MINT_ID
      then (let reserve = rent_minimum_balance rent (length (info_data st new_info)) in
            a_is_native (ps_base acct) = coption_some reserve \<and>
            unat (a_amount (ps_base acct)) + unat reserve = unat (info_lamports st new_info))
      else a_is_native (ps_base acct) = coption_none \<and> a_amount (ps_base acct) = 0) \<and>
     (\<forall>t \<in> set (tdi_extension_types info). \<forall>r \<in> set (required_init_account_extensions t).
        has_extension AtAccount r (ps_tlv acct))"
proof -
  obtain rent old mint mint_tlv j tlv start native amount acct where
    rent: "pl_rent_get P = Inr rent"
    and old: "unpack_uninitialized account_base (ac_data (st (ai_key new_info))) = Inr old"
    and mint: "unpack_ref (mint_base P) (ac_data (st (ai_key mint_info))) = Inr (mint, mint_tlv)"
    and walk: "try_for_each_tlv_extension_type
      (\<lambda>t. try_for_each init_account_extension_from_type (required_init_account_extensions t)) mint_tlv 0 (ps_tlv old) = Inr (j, tlv)"
    and start: "(case get_extension AtMint default_account_state_ext mint_tlv of
        Inr e \<Rightarrow> ok_or (account_state_try_from (das_state e)) InvalidAccountData | Inl _ \<Rightarrow> Inr Initialized) = Inr start"
    and native: "(if ai_key mint_info = NATIVE_MINT_ID
        then let r = rent_minimum_balance rent (length (ac_data (st (ai_key new_info)))) in
          bindr (ok_or (checked_sub (info_lamports st new_info) r) (Custom Overflow)) (\<lambda>amount.
          Inr (coption_some r, amount))
        else Inr (coption_none, 0)) = Inr (native, amount)"
    and init: "init_account_type account_base (old\<lparr>ps_base := (ps_base old)\<lparr>a_mint := ai_key mint_info, a_owner := owner,
        a_close_authority := coption_none, a_delegate := coption_none, a_delegated_amount := 0,
        a_state := account_state_u8 start, a_is_native := native, a_amount := amount\<rparr>, ps_tlv := tlv\<rparr>) = Inr acct"
    and st': "st' = set_data (ai_key new_info) (state_bytes account_base acct) st"
  proof -
    from assms show thesis
      by (clarsimp simp: process_initialize_account3_def process_initialize_account_inner_def Let_def get_rent_def
          result_simps info_data_def try_for_each_required_init_account_extension_def simp del: coption_simps)
        (rule that; (assumption | rule refl))
  qed
  obtain info where info: "get_tlv_data_info mint_tlv = Inr info"
    "try_for_each (\<lambda>t. try_for_each init_account_extension_from_type (required_init_account_extensions t))
       (tdi_extension_types info) (ps_tlv old) = Inr tlv"
    using walk by (rule tlv_walk_info)
  have ext: "length tlv = length (ps_tlv old)"
    "\<forall>t \<in> set (tdi_extension_types info). \<forall>r \<in> set (required_init_account_extensions t). has_extension AtAccount r tlv"
    using init_account_extensions [OF info(2) [unfolded try_for_each_concat]] required_init_created by fastforce+
  let ?base = "(ps_base old)\<lparr>a_mint := ai_key mint_info, a_owner := owner, a_close_authority := coption_none,
    a_delegate := coption_none, a_delegated_amount := 0, a_state := account_state_u8 start,
    a_is_native := native, a_amount := amount\<rparr>"
  let ?s = "old\<lparr>ps_base := ?base, ps_tlv := tlv\<rparr>"
  have o: "layout_ok account_base 0 old" "state_bytes account_base old = info_data st new_info"
    using account_st.unpack_uninitialized_Inr [OF old] by (auto simp: info_data_def)
  have lo: "layout_ok account_base 0 ?s"
    using ext(1) o(1) by (auto simp: layout_ok_def account_st.length_state_bytes)
  have acct: "ps_base acct = ?base" "ps_tlv acct = tlv"
    "length (state_bytes account_base acct) = length (info_data st new_info)"
    using account_st.init_account_type_shape [OF init] o(2) [symmetric] ext(1) by (simp_all add: account_st.length_state_bytes)
  have "unpack account_base (state_bytes account_base acct) = Inr acct" if "account_state_u8 start \<noteq> 0"
    using that by (intro account_st.init_account_type_unpack(1) [OF init lo])
      (cases start, simp_all add: pod_account_is_initialized_def)
  moreover have "account_state_u8 start =
      (case get_extension AtMint default_account_state_ext mint_tlv of Inr e \<Rightarrow> das_state e | Inl _ \<Rightarrow> 1)"
    using start by (auto simp: result_simps account_state_try_from_def split: sum.splits if_splits)
  moreover have "if ai_key mint_info = NATIVE_MINT_ID
      then (let reserve = rent_minimum_balance rent (length (info_data st new_info)) in
            native = coption_some reserve \<and> unat amount + unat reserve = unat (info_lamports st new_info))
      else native = coption_none \<and> amount = 0"
    using native
    by (auto simp: Let_def info_data_def result_simps dest!: checked_sub_SomeD split: if_splits simp del: coption_simps)
  ultimately show ?thesis
    using rent old mint info(1) st' ext(2) acct
    by (rule_tac x = old in exI, rule_tac x = acct in exI, rule_tac x = mint in exI,
        rule_tac x = mint_tlv in exI, rule_tac x = info in exI, rule_tac x = rent in exI)
      (cases "ai_key mint_info = NATIVE_MINT_ID", simp_all add: info_data_def del: coption_simps)
qed

lemma initialize_account_result_witness:
  "\<exists>st' acct.
     process_initialize_account3 sample_platform [plain_info 5, plain_info 4] 30
       (sample_store [(5, token_acct 200 (pod_account_to_bytes (sample_account 0 0 0 Uninitialized))),
                      (4, token_acct 100 (pod_mint_to_bytes (sample_mint 0)))]) = Inr st' \<and>
     ac_data (st' 5) = state_bytes account_base acct \<and> a_owner (ps_base acct) = 30 \<and> a_mint (ps_base acct) = 4"
  (is "\<exists>st' acct. process_initialize_account3 ?P [?i, ?m] 30 ?st = Inr st' \<and> _ st' acct")
proof -
  have "\<exists>st'. process_initialize_account3 ?P [?i, ?m] 30 ?st = Inr st'"
    by (simp add: process_initialize_account3_def process_initialize_account_inner_def get_rent_def Let_def
        info_owner_def info_data_def info_lamports_def uninitialized_view_def ensure_def
        try_calculate_account_len_from_mint_data_def try_for_each_required_init_account_extension_def
        accumulator_account_len_def accumulator_default_def ACCOUNT_LEN_def NATIVE_MINT_ID_def)
      (simp add: sample_platform_def)
  then obtain st' where st': "process_initialize_account3 ?P [?i, ?m] 30 ?st = Inr st'" ..
  from initialize_account_result [OF st'] obtain acct where
    "st' = set_data (ai_key ?i) (state_bytes account_base acct) ?st"
    "a_owner (ps_base acct) = 30 \<and> a_mint (ps_base acct) = ai_key ?m"
    by (elim exE conjE) (rule that, assumption, drule arg_cong [of _ _ "\<lambda>b. (a_owner b, a_mint b)"], simp)
  with st' show ?thesis
    by (intro exI [of _ st'] exI [of _ acct]) (simp del: sample_store_Cons)
qed

end
