(* ===== verification/Token_Transfer.thy ===== *)
theory Token_Transfer
  imports Initialize
begin

text \<open>
  \<open>process_transfer\<close> (program/src/processor.rs), for the three transfer instructions: the checks on
  the mint, the choice of authority, the movement of tokens, fee and native lamports, and the
  transfer hook invoked between two writes. The theorems state the exact effect on both accounts,
  that no token is created or lost, and who can transfer.
\<close>

section \<open>Model\<close>

datatype transfer_instruction =
    TransferUnchecked
  | TransferChecked (ti_decimals: u8)
  | TransferCheckedWithFee (ti_decimals: u8) (ti_fee: u64)

datatype instruction_variant = VariantUnchecked | VariantChecked u8

definition check_not_paused :: "platform \<Rightarrow> bytes \<Rightarrow> unit result" where
  "check_not_paused P mint_tlv =
     (case get_extension AtMint pausable_config_ext mint_tlv of
        Inr extension \<Rightarrow> ensure (\<not> pl_bool_from_pod P (pc_paused extension)) (Custom MintPaused)
      | Inl _ \<Rightarrow> Inr ())"

text \<open>Fee, permanent delegate and transfer hook of the mint; without a mint none may be needed.\<close>

definition transfer_terms ::
    "platform \<Rightarrow> account_info \<Rightarrow> pod_account pod_state \<Rightarrow> (account_info \<times> u8) option \<Rightarrow> u64 \<Rightarrow> store \<Rightarrow>
     (u64 \<times> address option \<times> address option) result" where
  "transfer_terms P source_account_info source_account expected_mint_info amount st =
     (case expected_mint_info of
        Some (mint_info, expected_decimals) \<Rightarrow>
          bindr (check_program_account (info_owner st mint_info)) (\<lambda>_.
          bindr (ensure (a_mint (ps_base source_account) = ai_key mint_info) (Custom MintMismatch)) (\<lambda>_.
          bindr (ensure (ai_key mint_info \<noteq> ai_key source_account_info) AccountBorrowFailed) (\<lambda>_.
          bindr (unpack_ref (mint_base P) (info_data st mint_info)) (\<lambda>(mint, mint_tlv).
          bindr (ensure (expected_decimals = m_decimals mint) (Custom MintDecimalsMismatch)) (\<lambda>_.
          bindr (case get_extension AtMint transfer_fee_config_ext mint_tlv of
              Inr transfer_fee_config \<Rightarrow>
                bindr (pl_clock_get P) (\<lambda>clock.
                ok_or (calculate_epoch_fee transfer_fee_config (clock_epoch clock) amount) (Custom Overflow))
            | Inl _ \<Rightarrow> Inr 0) (\<lambda>fee.
          bindr (check_not_paused P mint_tlv) (\<lambda>_.
          Inr (fee, get_permanent_delegate P mint_tlv, transfer_hook_get_program_id P mint_tlv))))))))
      | None \<Rightarrow>
          let tlv = ps_tlv source_account in
          if is_ok (get_extension AtAccount transfer_hook_account_ext tlv) then Inl (Custom MintRequiredForTransfer)
          else if is_ok (get_extension AtAccount transfer_fee_amount_ext tlv) then Inl (Custom MintRequiredForTransfer)
          else if is_ok (get_extension AtAccount pausable_account_ext tlv) then Inl (Custom MintRequiredForTransfer)
          else Inr (0, None, None))"

definition check_cpi_guard_transfer :: "platform \<Rightarrow> account_info \<Rightarrow> pod_account pod_state \<Rightarrow> program_error \<Rightarrow> unit result" where
  "check_cpi_guard_transfer P authority_info source_account e =
     (case get_extension AtAccount cpi_guard_ext (ps_tlv source_account) of
        Inr cpi_guard \<Rightarrow>
          ensure (\<not> (ai_key authority_info = a_owner (ps_base source_account) \<and>
                    pl_bool_from_pod P (cg_lock_cpi cpi_guard) \<and> in_cpi P)) e
      | Inl _ \<Rightarrow> Inr ())"

text \<open>
  The authority of a transfer or a burn: the permanent delegate, the delegate within its allowance,
  or the owner. A delegate's allowance is reduced, and the delegate removed when nothing is left,
  unless \<open>keep\<close> holds (a transfer of an account to itself).
\<close>

definition debit_authority ::
    "platform \<Rightarrow> address \<Rightarrow> account_info \<Rightarrow> account_info list \<Rightarrow> address option \<Rightarrow> u64 \<Rightarrow> bool \<Rightarrow>
     pod_account \<Rightarrow> store \<Rightarrow> pod_account result" where
  "debit_authority P program_id authority_info signers maybe_permanent_delegate amount keep source st =
     (let data_len = length (info_data st authority_info) in
      if maybe_permanent_delegate = Some (ai_key authority_info)
      then bindr (validate_owner P program_id (ai_key authority_info) authority_info data_len signers st) (\<lambda>_.
           Inr source)
      else if co_option (a_delegate source) = COPTION_SOME \<and> co_value (a_delegate source) = ai_key authority_info
      then
        bindr (validate_owner P program_id (co_value (a_delegate source)) authority_info data_len signers st) (\<lambda>_.
        let delegated_amount = a_delegated_amount source in
        bindr (ensure (\<not> delegated_amount < amount) (Custom InsufficientFunds)) (\<lambda>_.
        if keep then Inr source
        else
          bindr (ok_or (checked_sub delegated_amount amount) (Custom Overflow)) (\<lambda>d.
          let source' = source\<lparr>a_delegated_amount := d\<rparr> in
          Inr (if d = 0 then source'\<lparr>a_delegate := coption_none\<rparr> else source'))))
      else bindr (validate_owner P program_id (a_owner source) authority_info data_len signers st) (\<lambda>_.
           Inr source))"

text \<open>The amounts of both accounts, and the fee withheld on the destination.\<close>

definition move_tokens ::
    "u64 \<Rightarrow> u64 \<Rightarrow> pod_account pod_state \<Rightarrow> pod_account pod_state \<Rightarrow>
     (pod_account pod_state \<times> pod_account pod_state) result" where
  "move_tokens amount calculated_fee source_account destination_account =
     bindr (ok_or (checked_sub (a_amount (ps_base source_account)) amount) (Custom Overflow)) (\<lambda>source_amount.
     let source_account' = source_account\<lparr>ps_base := (ps_base source_account)\<lparr>a_amount := source_amount\<rparr>\<rparr> in
     bindr (ok_or (checked_sub amount calculated_fee) (Custom Overflow)) (\<lambda>credited_amount.
     bindr (ok_or (checked_add (a_amount (ps_base destination_account)) credited_amount) (Custom Overflow)) (\<lambda>destination_amount.
     let destination_account' =
       destination_account\<lparr>ps_base := (ps_base destination_account)\<lparr>a_amount := destination_amount\<rparr>\<rparr> in
     if calculated_fee > 0 then
       (case get_extension AtAccount transfer_fee_amount_ext (ps_tlv destination_account') of
          Inr extension \<Rightarrow>
            bindr (ok_or (checked_add (tfa_withheld_amount extension) calculated_fee) (Custom Overflow)) (\<lambda>new_withheld_amount.
            bindr (put_extension AtAccount transfer_fee_amount_ext
                     (extension\<lparr>tfa_withheld_amount := new_withheld_amount\<rparr>) (ps_tlv destination_account')) (\<lambda>tlv.
            Inr (source_account', destination_account'\<lparr>ps_tlv := tlv\<rparr>)))
        | Inl _ \<Rightarrow> Inl (Custom InvalidState))
     else Inr (source_account', destination_account'))))"

definition unset_transferring :: "platform \<Rightarrow> address \<Rightarrow> store \<Rightarrow> store result" where
  "unset_transferring P k st = initialized_view account_base k (on_tlv (clear_transferring P)) st"

text \<open>Writing both accounts; a transfer hook runs between setting and clearing the \<open>transferring\<close> flags.\<close>

definition commit_transfer ::
    "platform \<Rightarrow> account_info \<Rightarrow> (account_info \<times> u8) option \<Rightarrow> account_info \<Rightarrow> account_info \<Rightarrow> account_info list \<Rightarrow>
     u64 \<Rightarrow> address option \<Rightarrow> pod_account pod_state \<Rightarrow> pod_account pod_state \<Rightarrow> store \<Rightarrow> store result" where
  "commit_transfer P source_account_info expected_mint_info destination_account_info authority_info signers
       amount maybe_transfer_hook_program_id source_account destination_account st =
     (case maybe_transfer_hook_program_id of
        None \<Rightarrow>
          Inr (set_data (ai_key destination_account_info) (state_bytes account_base destination_account)
                (set_data (ai_key source_account_info) (state_bytes account_base source_account) st))
      | Some hook_program_id \<Rightarrow>
          (case expected_mint_info of
             None \<Rightarrow> Inl (Custom MintRequiredForTransfer)
           | Some (mint_info, _) \<Rightarrow>
               bindr (on_tlv (set_transferring P) source_account) (\<lambda>source_account.
               bindr (on_tlv (set_transferring P) destination_account) (\<lambda>destination_account.
               bindr (pl_transfer_hook_execute P hook_program_id source_account_info mint_info
                        destination_account_info authority_info signers amount
                        (set_data (ai_key destination_account_info) (state_bytes account_base destination_account)
                          (set_data (ai_key source_account_info) (state_bytes account_base source_account) st))) (\<lambda>st2.
               bindr (unset_transferring P (ai_key source_account_info) st2) (\<lambda>st3.
               unset_transferring P (ai_key destination_account_info) st3))))))"

text \<open>The transfer to another account, once source, terms and authority are checked.\<close>

definition transfer_to_other ::
    "platform \<Rightarrow> account_info \<Rightarrow> (account_info \<times> u8) option \<Rightarrow> account_info \<Rightarrow> account_info \<Rightarrow> account_info list \<Rightarrow>
     u64 \<Rightarrow> u64 \<Rightarrow> address option \<Rightarrow> pod_account pod_state \<Rightarrow> store \<Rightarrow> store result" where
  "transfer_to_other P source_account_info expected_mint_info destination_account_info authority_info signers
       amount calculated_fee maybe_transfer_hook_program_id source_account st =
     bindr (unpack account_base (info_data st destination_account_info)) (\<lambda>destination_account.
     bindr (ensure (\<not> is_frozen (ps_base destination_account)) (Custom AccountFrozen)) (\<lambda>_.
     bindr (ensure (a_mint (ps_base source_account) = a_mint (ps_base destination_account)) (Custom MintMismatch)) (\<lambda>_.
     bindr (if memo_required P (ps_tlv destination_account)
            then check_previous_sibling_instruction_is_memo P else Inr ()) (\<lambda>_.
     bindr (case get_extension AtAccount confidential_transfer_account_ext (ps_tlv destination_account) of
         Inr e \<Rightarrow> non_confidential_transfer_allowed P e | Inl _ \<Rightarrow> Inr ()) (\<lambda>_.
     bindr (move_tokens amount calculated_fee source_account destination_account) (\<lambda>(source_account, destination_account).
     bindr (if is_native (ps_base source_account)
            then move_lamports (ai_key source_account_info) (ai_key destination_account_info) amount (Custom Overflow) st
            else Inr st) (\<lambda>st1.
     commit_transfer P source_account_info expected_mint_info destination_account_info authority_info signers
       amount maybe_transfer_hook_program_id source_account destination_account st1)))))))"

text \<open>The accounts of a transfer: source, mint when checked, destination, authority, signers.\<close>

definition transfer_accounts ::
    "transfer_instruction \<Rightarrow> account_info list \<Rightarrow>
     (account_info \<times> (account_info \<times> u8) option \<times> account_info \<times> account_info \<times> account_info list) result" where
  "transfer_accounts transfer_instruction accounts =
     bindr (next_account_info accounts) (\<lambda>(source_account_info, it).
     bindr (case transfer_instruction of
         TransferUnchecked \<Rightarrow> Inr (None, it)
       | TransferChecked decimals \<Rightarrow>
           bindr (next_account_info it) (\<lambda>(mint_info, it'). Inr (Some (mint_info, decimals), it'))
       | TransferCheckedWithFee decimals _ \<Rightarrow>
           bindr (next_account_info it) (\<lambda>(mint_info, it'). Inr (Some (mint_info, decimals), it'))) (\<lambda>(expected_mint_info, it).
     bindr (next_account_info it) (\<lambda>(destination_account_info, it).
     bindr (next_account_info it) (\<lambda>(authority_info, signers).
     Inr (source_account_info, expected_mint_info, destination_account_info, authority_info, signers)))))"

definition process_transfer ::
    "platform \<Rightarrow> address \<Rightarrow> account_info list \<Rightarrow> u64 \<Rightarrow> transfer_instruction \<Rightarrow> store \<Rightarrow> store result" where
  "process_transfer P program_id accounts amount transfer_instruction st =
     bindr (transfer_accounts transfer_instruction accounts)
       (\<lambda>(source_account_info, expected_mint_info, destination_account_info, authority_info, signers).
     bindr (check_program_account (info_owner st source_account_info)) (\<lambda>_.
     bindr (check_program_account (info_owner st destination_account_info)) (\<lambda>_.
     bindr (unpack account_base (info_data st source_account_info)) (\<lambda>source_account.
     bindr (ensure (\<not> is_frozen (ps_base source_account)) (Custom AccountFrozen)) (\<lambda>_.
     bindr (ensure (\<not> a_amount (ps_base source_account) < amount) (Custom InsufficientFunds)) (\<lambda>_.
     bindr (ensure (\<not> is_ok (get_extension AtAccount non_transferable_account_ext (ps_tlv source_account)))
              (Custom NonTransferableError)) (\<lambda>_.
     bindr (transfer_terms P source_account_info source_account expected_mint_info amount st)
       (\<lambda>(calculated_fee, maybe_permanent_delegate, maybe_transfer_hook_program_id).
     bindr (case transfer_instruction of
         TransferCheckedWithFee _ fee \<Rightarrow> ensure (calculated_fee = fee) (Custom FeeMismatch)
       | _ \<Rightarrow> Inr ()) (\<lambda>_.
     let self_transfer = (ai_key source_account_info = ai_key destination_account_info) in
     bindr (check_cpi_guard_transfer P authority_info source_account (Custom CpiGuardTransferBlocked)) (\<lambda>_.
     bindr (debit_authority P program_id authority_info signers maybe_permanent_delegate amount self_transfer
              (ps_base source_account) st) (\<lambda>source_base.
     let source_account = source_account\<lparr>ps_base := source_base\<rparr> in
     if self_transfer then
       bindr (if memo_required P (ps_tlv source_account)
              then check_previous_sibling_instruction_is_memo P else Inr ()) (\<lambda>_. Inr st)
     else
       transfer_to_other P source_account_info expected_mint_info destination_account_info authority_info signers
         amount calculated_fee maybe_transfer_hook_program_id source_account st)))))))))))"

section \<open>The authority of a debit\<close>

definition is_delegate :: "pod_account \<Rightarrow> address \<Rightarrow> bool" where
  "is_delegate a k \<longleftrightarrow> co_option (a_delegate a) = COPTION_SOME \<and> co_value (a_delegate a) = k"

text \<open>
  Who may debit an account: an authority that satisfies \<open>validate_owner\<close> for its own key and is the
  permanent delegate, or the delegate with enough allowance, or, not being the delegate, the owner.
\<close>

definition debit_allowed ::
    "platform \<Rightarrow> address \<Rightarrow> account_info \<Rightarrow> account_info list \<Rightarrow> address option \<Rightarrow> u64 \<Rightarrow> pod_account \<Rightarrow> store \<Rightarrow> bool" where
  "debit_allowed P program_id authority signers permanent amount a st \<longleftrightarrow>
     authorizes P program_id (ai_key authority) authority signers st \<and>
     (permanent = Some (ai_key authority) \<or>
      (if is_delegate a (ai_key authority) then amount \<le> a_delegated_amount a
       else ai_key authority = a_owner a))"

definition debited :: "address \<Rightarrow> address option \<Rightarrow> u64 \<Rightarrow> bool \<Rightarrow> pod_account \<Rightarrow> pod_account" where
  "debited k permanent amount keep a =
     (if permanent \<noteq> Some k \<and> is_delegate a k \<and> \<not> keep then
        a\<lparr>a_delegated_amount := a_delegated_amount a - amount,
          a_delegate := if a_delegated_amount a = amount then coption_none else a_delegate a\<rparr>
      else a)"

lemma debited_simps [simp]:
  "a_mint (debited k p n keep a) = a_mint a" "a_owner (debited k p n keep a) = a_owner a"
  "a_amount (debited k p n keep a) = a_amount a" "a_state (debited k p n keep a) = a_state a"
  "a_is_native (debited k p n keep a) = a_is_native a"
  "a_close_authority (debited k p n keep a) = a_close_authority a"
  by (simp_all add: debited_def)

lemma debited_keep [simp]: "debited k p n True a = a"
  by (simp add: debited_def)

lemma authorizes_key: "authorizes P program_id owner i signers st \<Longrightarrow> owner = ai_key i"
  by (simp add: authorizes_def)

lemma authorizes_iff:
  "authorizes P program_id owner i signers st \<longleftrightarrow>
     owner = ai_key i \<and> authorizes P program_id (ai_key i) i signers st"
  by (auto simp: authorizes_def)

lemma debit_authority_Inr:
  "debit_authority P program_id i signers permanent amount keep a st = Inr a' \<longleftrightarrow>
     debit_allowed P program_id i signers permanent amount a st \<and> a' = debited (ai_key i) permanent amount keep a"
proof -
  have v: "validate_owner P program_id k i (length (info_data st i)) signers st = Inr u \<longleftrightarrow>
      authorizes P program_id k i signers st" for k u
    using validate_owner_authorizes by simp
  have sub: "ok_or (checked_sub d amount) e = (if amount \<le> d then Inr (d - amount) else Inl e)"
    for d :: u64 and e :: program_error
    by (simp add: checked_sub_def)
  have d: "co_option (a_delegate a) = COPTION_SOME \<and> co_value (a_delegate a) = ai_key i \<longleftrightarrow> is_delegate a (ai_key i)"
    by (simp add: is_delegate_def)
  have dk: "co_option (a_delegate a) = COPTION_SOME" "co_value (a_delegate a) = ai_key i"
    if "is_delegate a (ai_key i)"
    using that by (simp_all add: is_delegate_def)
  consider "permanent = Some (ai_key i)" | "permanent \<noteq> Some (ai_key i)" "is_delegate a (ai_key i)"
    | "permanent \<noteq> Some (ai_key i)" "\<not> is_delegate a (ai_key i)"
    by blast
  then show ?thesis
  proof cases
    case 1
    then show ?thesis
      by (auto simp: debit_authority_def debit_allowed_def debited_def Let_def result_simps v simp del: coption_simps)
  next
    case 2
    then show ?thesis
      using dk
      by (auto simp: debit_authority_def debit_allowed_def debited_def d Let_def result_simps v sub not_less
          simp del: coption_simps)
  next
    case 3
    then show ?thesis
      using authorizes_iff [of P program_id "a_owner a" i signers st]
      by (auto simp: debit_authority_def debit_allowed_def debited_def d Let_def result_simps v simp del: coption_simps)
  qed
qed

section \<open>The movement of tokens\<close>

text \<open>What a token account holds: its amount and the fees withheld on it.\<close>

definition withheld :: "bytes \<Rightarrow> nat" where
  "withheld tlv =
     (case get_extension AtAccount transfer_fee_amount_ext tlv of
        Inr e \<Rightarrow> unat (tfa_withheld_amount e) | Inl _ \<Rightarrow> 0)"

definition holding :: "pod_account pod_state \<Rightarrow> nat" where
  "holding s = unat (a_amount (ps_base s)) + withheld (ps_tlv s)"

lemma withheld_same: "same_except T a b \<Longrightarrow> TransferFeeAmount \<notin> T \<Longrightarrow> withheld b = withheld a"
  by (simp add: withheld_def same_except_get)

lemma move_tokens_Inr:
  assumes "move_tokens amount fee s d = Inr (s', d')"
  shows "fee \<le> amount" "amount \<le> a_amount (ps_base s)"
    "s' = s\<lparr>ps_base := (ps_base s)\<lparr>a_amount := a_amount (ps_base s) - amount\<rparr>\<rparr>"
    "d' = d\<lparr>ps_base := (ps_base d)\<lparr>a_amount := a_amount (ps_base d) + (amount - fee)\<rparr>, ps_tlv := ps_tlv d'\<rparr>"
    "unat (a_amount (ps_base d')) = unat (a_amount (ps_base d)) + (unat amount - unat fee)"
    "withheld (ps_tlv d') = withheld (ps_tlv d) + unat fee"
    "same_except {TransferFeeAmount} (ps_tlv d) (ps_tlv d')"
proof -
  obtain sa ca da where sa: "checked_sub (a_amount (ps_base s)) amount = Some sa"
    and ca: "checked_sub amount fee = Some ca" and da: "checked_add (a_amount (ps_base d)) ca = Some da"
    and s': "s' = s\<lparr>ps_base := (ps_base s)\<lparr>a_amount := sa\<rparr>\<rparr>"
    and d': "if fee > 0 then
        (\<exists>e w tlv. get_extension AtAccount transfer_fee_amount_ext (ps_tlv d) = Inr e \<and>
           checked_add (tfa_withheld_amount e) fee = Some w \<and>
           put_extension AtAccount transfer_fee_amount_ext (e\<lparr>tfa_withheld_amount := w\<rparr>) (ps_tlv d) = Inr tlv \<and>
           d' = d\<lparr>ps_base := (ps_base d)\<lparr>a_amount := da\<rparr>, ps_tlv := tlv\<rparr>)
      else d' = d\<lparr>ps_base := (ps_base d)\<lparr>a_amount := da\<rparr>\<rparr>"
    using assms
    by (auto simp: move_tokens_def Let_def result_simps split: if_splits sum.splits)
  show "fee \<le> amount" "amount \<le> a_amount (ps_base s)"
    using sa ca by (simp_all add: checked_sub_def split: if_splits)
  show "s' = s\<lparr>ps_base := (ps_base s)\<lparr>a_amount := a_amount (ps_base s) - amount\<rparr>\<rparr>"
    using sa s' by (simp add: checked_sub_def split: if_splits)
  have "da = a_amount (ps_base d) + (amount - fee)"
    using ca da by (auto simp: checked_sub_def checked_add_def split: if_splits)
  then show "d' = d\<lparr>ps_base := (ps_base d)\<lparr>a_amount := a_amount (ps_base d) + (amount - fee)\<rparr>, ps_tlv := ps_tlv d'\<rparr>"
    using d' by (auto split: if_splits)
  have "unat da = unat (a_amount (ps_base d)) + (unat amount - unat fee)"
    using checked_sub_SomeD [OF ca] checked_add_SomeD [OF da] by arith
  then show "unat (a_amount (ps_base d')) = unat (a_amount (ps_base d)) + (unat amount - unat fee)"
    using d' by (auto split: if_splits)
  show "withheld (ps_tlv d') = withheld (ps_tlv d) + unat fee"
    using d' by (auto simp: withheld_def transfer_fee_amount_x.put_get_same word_gt_0 dest!: checked_add_SomeD split: if_splits)
  show "same_except {TransferFeeAmount} (ps_tlv d) (ps_tlv d')"
    using d' by (auto dest: put_same_except split: if_splits)
qed

lemma transferring_same_except:
  "set_transferring P tlv = Inr tlv' \<Longrightarrow> same_except {TransferHookAccount} tlv tlv'"
  "clear_transferring P tlv = Inr tlv' \<Longrightarrow> same_except {TransferHookAccount} tlv tlv'"
  by (auto simp: set_transferring_def clear_transferring_def result_simps dest: put_same_except)

text \<open>The runtime's guarantees about the invocation of a transfer hook.\<close>

definition hook_laws :: "platform \<Rightarrow> bool" where
  "hook_laws P \<longleftrightarrow>
     (\<forall>h s m d a xs n. cpi_respects_owner TOKEN_2022_ID (pl_transfer_hook_execute P h s m d a xs n))"

lemma initialized_unless_a_state:
  "a_state b = a_state a \<Longrightarrow> pod_account_is_initialized b \<longleftrightarrow> pod_account_is_initialized a"
  by (simp add: pod_account_is_initialized_def)

lemma unpack_account_initialized: "unpack account_base d = Inr s \<Longrightarrow> pod_account_is_initialized (ps_base s)"
  by (simp add: account_st.unpack_iff wf_state_def)

lemma unset_transferring_effect:
  assumes "unset_transferring P k st = Inr st'" and "unpack account_base (ac_data (st k)) = Inr s"
  obtains tlv where "unpack account_base (ac_data (st' k)) = Inr (s\<lparr>ps_tlv := tlv\<rparr>)"
    "same_except {TransferHookAccount} (ps_tlv s) tlv" "token_frame {k} st st'"
proof -
  from assms obtain tlv where c: "clear_transferring P (ps_tlv s) = Inr tlv"
    and st': "st' = set_data k (state_bytes account_base (s\<lparr>ps_tlv := tlv\<rparr>)) st"
    by (auto simp: unset_transferring_def result_simps)
  have t: "same_except {TransferHookAccount} (ps_tlv s) tlv"
    using c by (rule transferring_same_except)
  have "unpack account_base (state_bytes account_base (s\<lparr>ps_base := ps_base s, ps_tlv := tlv\<rparr>)) =
      Inr (s\<lparr>ps_base := ps_base s, ps_tlv := tlv\<rparr>)"
    using unpack_account_initialized [OF assms(2)] same_except_length [OF t]
    by (intro account_st.unpack_update [OF assms(2)]) simp_all
  then show thesis
    using t by (intro that) (simp_all add: st' token_frame_set_data)
qed

lemma unpack_account_update:
  assumes "unpack account_base d = Inr s" and "a_state b = a_state (ps_base s)" and "length tlv = length (ps_tlv s)"
  shows "unpack account_base (state_bytes account_base (s\<lparr>ps_base := b, ps_tlv := tlv\<rparr>)) =
    Inr (s\<lparr>ps_base := b, ps_tlv := tlv\<rparr>)"
proof (rule account_st.unpack_update [OF assms(1) _ assms(3)])
  show "bs_is_initialized account_base b"
    using unpack_account_initialized [OF assms(1)] initialized_unless_a_state [OF assms(2)] by simp
qed

lemma commit_transfer_effect:
  assumes run: "commit_transfer P src em dst auth signers amount hook s d st = Inr st'"
    and s: "unpack account_base (state_bytes account_base s) = Inr s"
    and d: "unpack account_base (state_bytes account_base d) = Inr d"
    and own: "info_owner st src = TOKEN_2022_ID" "info_owner st dst = TOKEN_2022_ID"
    and ne: "ai_key src \<noteq> ai_key dst" and hk: "hook \<noteq> None \<Longrightarrow> hook_laws P"
  obtains ts td where
    "unpack account_base (ac_data (st' (ai_key src))) = Inr (s\<lparr>ps_tlv := ts\<rparr>)"
    "unpack account_base (ac_data (st' (ai_key dst))) = Inr (d\<lparr>ps_tlv := td\<rparr>)"
    "same_except {TransferHookAccount} (ps_tlv s) ts" "same_except {TransferHookAccount} (ps_tlv d) td"
    "token_frame {ai_key src, ai_key dst} st st'"
proof (cases hook)
  case None
  with run have st': "st' = set_data (ai_key dst) (state_bytes account_base d)
      (set_data (ai_key src) (state_bytes account_base s) st)"
    by (simp add: commit_transfer_def)
  have "token_frame {ai_key src, ai_key dst} st st'"
    unfolding st' by (rule token_frame_set_data2)
  then show thesis
    using s d ne by (intro that [of "ps_tlv s" "ps_tlv d"]) (simp_all add: st' insert_commute)
next
  case (Some h)
  then obtain mint_info dec ts td st2 st3 where em: "em = Some (mint_info, dec)"
    and ts: "set_transferring P (ps_tlv s) = Inr ts" and td: "set_transferring P (ps_tlv d) = Inr td"
    and call: "pl_transfer_hook_execute P h src mint_info dst auth signers amount
       (set_data (ai_key dst) (state_bytes account_base (d\<lparr>ps_tlv := td\<rparr>))
         (set_data (ai_key src) (state_bytes account_base (s\<lparr>ps_tlv := ts\<rparr>)) st)) = Inr st2"
    and u: "unset_transferring P (ai_key src) st2 = Inr st3" "unset_transferring P (ai_key dst) st3 = Inr st'"
    using run by (auto simp: commit_transfer_def result_simps split: option.splits)
  let ?st1 = "set_data (ai_key dst) (state_bytes account_base (d\<lparr>ps_tlv := td\<rparr>))
         (set_data (ai_key src) (state_bytes account_base (s\<lparr>ps_tlv := ts\<rparr>)) st)"
  have f1: "token_frame {ai_key src, ai_key dst} st ?st1"
    by (rule token_frame_set_data2)
  have f2: "token_frame {} ?st1 st2"
    using hk Some
    by (intro token_frame_cpi [where call = "pl_transfer_hook_execute P h src mint_info dst auth signers amount", OF _ call])
      (simp add: hook_laws_def)
  note t = transferring_same_except(1) [OF ts] transferring_same_except(1) [OF td]
  have "ac_data (st2 (ai_key src)) = state_bytes account_base (s\<lparr>ps_tlv := ts\<rparr>)"
    "ac_data (st2 (ai_key dst)) = state_bytes account_base (d\<lparr>ps_tlv := td\<rparr>)"
    using own ne by (simp_all add: token_frameD(3) [OF f2] info_owner_def)
  then have d2: "unpack account_base (ac_data (st2 (ai_key src))) = Inr (s\<lparr>ps_tlv := ts\<rparr>)"
    "unpack account_base (ac_data (st2 (ai_key dst))) = Inr (d\<lparr>ps_tlv := td\<rparr>)"
    using unpack_account_update [OF s refl same_except_length [OF t(1)]]
      unpack_account_update [OF d refl same_except_length [OF t(2)]] by simp_all
  have own2: "ac_owner (st2 a) = TOKEN_2022_ID" if "ac_owner (st a) = TOKEN_2022_ID" for a
    using that by (intro token_frameD(2) [OF f2]) simp
  obtain ts' where s3: "unpack account_base (ac_data (st3 (ai_key src))) = Inr (s\<lparr>ps_tlv := ts'\<rparr>)"
    "same_except {TransferHookAccount} ts ts'" and f3: "token_frame {ai_key src} st2 st3"
    using unset_transferring_effect [OF u(1) d2(1)] by auto
  have "ac_data (st3 (ai_key dst)) = ac_data (st2 (ai_key dst))"
    using own2 own ne by (intro token_frameD(3) [OF f3]) (simp_all add: info_owner_def)
  with d2 have "unpack account_base (ac_data (st3 (ai_key dst))) = Inr (d\<lparr>ps_tlv := td\<rparr>)" by simp
  from unset_transferring_effect [OF u(2) this] obtain td' where
    d4: "unpack account_base (ac_data (st' (ai_key dst))) = Inr (d\<lparr>ps_tlv := td'\<rparr>)"
    "same_except {TransferHookAccount} td td'" and f4: "token_frame {ai_key dst} st3 st'"
    by auto
  have "ac_data (st' (ai_key src)) = ac_data (st3 (ai_key src))"
    using token_frameD(2) [OF f3] own2 own ne by (intro token_frameD(3) [OF f4]) (simp_all add: info_owner_def)
  moreover have "token_frame {ai_key src, ai_key dst} st st'"
    by (rule token_frame_mono [OF token_frame_trans [OF token_frame_trans [OF token_frame_trans [OF f1 f2] f3] f4]]) auto
  ultimately show thesis
    using s3 d4 same_except_trans [OF t(1) s3(2)] same_except_trans [OF t(2) d4(2)]
    by (intro that [of ts' td']) simp_all
qed

text \<open>The effect of a transfer between two accounts.\<close>

definition transfer_effect ::
    "address \<Rightarrow> address \<Rightarrow> u64 \<Rightarrow> u64 \<Rightarrow> pod_account pod_state \<Rightarrow> pod_account pod_state \<Rightarrow> store \<Rightarrow> store \<Rightarrow> bool" where
  "transfer_effect src dst amount fee s d st st' \<longleftrightarrow>
     (\<exists>s' d'. unpack account_base (ac_data (st' src)) = Inr s' \<and>
        unpack account_base (ac_data (st' dst)) = Inr d' \<and>
        fee \<le> amount \<and> amount \<le> a_amount (ps_base s) \<and>
        ps_base s' = (ps_base s)\<lparr>a_amount := a_amount (ps_base s) - amount\<rparr> \<and>
        ps_base d' = (ps_base d)\<lparr>a_amount := a_amount (ps_base d) + (amount - fee)\<rparr> \<and>
        unat (a_amount (ps_base d')) = unat (a_amount (ps_base d)) + (unat amount - unat fee) \<and>
        withheld (ps_tlv s') = withheld (ps_tlv s) \<and>
        withheld (ps_tlv d') = withheld (ps_tlv d) + unat fee \<and>
        same_except {TransferHookAccount} (ps_tlv s) (ps_tlv s') \<and>
        same_except {TransferHookAccount, TransferFeeAmount} (ps_tlv d) (ps_tlv d') \<and>
        token_frame {src, dst} st st')"

lemma transfer_to_other_effect:
  assumes run: "transfer_to_other P src em dst auth signers amount fee hook s st = Inr st'"
    and s: "unpack account_base (info_data st src) = Inr s0" "s = s0\<lparr>ps_base := b\<rparr>" "a_state b = a_state (ps_base s0)"
    and own: "info_owner st src = TOKEN_2022_ID" "info_owner st dst = TOKEN_2022_ID"
    and ne: "ai_key src \<noteq> ai_key dst" and hk: "hook \<noteq> None \<Longrightarrow> hook_laws P"
  obtains d where "unpack account_base (info_data st dst) = Inr d" "\<not> is_frozen (ps_base d)"
    "a_mint (ps_base s) = a_mint (ps_base d)"
    "transfer_effect (ai_key src) (ai_key dst) amount fee s d st st'"
proof -
  obtain d s1 d1 st1 where d: "unpack account_base (info_data st dst) = Inr d" "\<not> is_frozen (ps_base d)"
      "a_mint (ps_base s) = a_mint (ps_base d)"
    and mv: "move_tokens amount fee s d = Inr (s1, d1)"
    and st1: "(if is_native (ps_base s1) then move_lamports (ai_key src) (ai_key dst) amount (Custom Overflow) st
       else Inr st) = Inr st1"
    and com: "commit_transfer P src em dst auth signers amount hook s1 d1 st1 = Inr st'"
  proof -
    from run show thesis
      by (clarsimp simp: transfer_to_other_def result_simps) (rule that; assumption)
  qed
  note m = move_tokens_Inr [OF mv]
  have f1: "token_frame {} st st1"
    using st1 by (auto intro: token_frame_move split: if_splits)
  have own1: "info_owner st1 src = TOKEN_2022_ID" "info_owner st1 dst = TOKEN_2022_ID"
    using own token_frameD(2) [OF f1] by (simp_all add: info_owner_def)
  have us: "unpack account_base (state_bytes account_base s1) = Inr s1"
    using unpack_account_update [OF s(1), of "b\<lparr>a_amount := a_amount b - amount\<rparr>" "ps_tlv s0"] s(3)
    by (simp add: m(3) s(2))
  have ud: "unpack account_base (state_bytes account_base d1) = Inr d1"
    using unpack_account_update [OF d(1) _ same_except_length [OF m(7)],
        of "(ps_base d)\<lparr>a_amount := a_amount (ps_base d) + (amount - fee)\<rparr>"]
    by (simp add: m(4) [symmetric])
  obtain ts td where c: "unpack account_base (ac_data (st' (ai_key src))) = Inr (s1\<lparr>ps_tlv := ts\<rparr>)"
    "unpack account_base (ac_data (st' (ai_key dst))) = Inr (d1\<lparr>ps_tlv := td\<rparr>)"
    "same_except {TransferHookAccount} (ps_tlv s1) ts" "same_except {TransferHookAccount} (ps_tlv d1) td"
    "token_frame {ai_key src, ai_key dst} st1 st'"
    using commit_transfer_effect [OF com us ud own1 ne hk] by blast
  have "ps_base d1 = (ps_base d)\<lparr>a_amount := a_amount (ps_base d) + (amount - fee)\<rparr>"
    by (subst m(4)) simp
  moreover have "ps_base s1 = (ps_base s)\<lparr>a_amount := a_amount (ps_base s) - amount\<rparr>" "ps_tlv s1 = ps_tlv s"
    by (simp_all add: m(3))
  moreover have sd: "same_except {TransferHookAccount, TransferFeeAmount} (ps_tlv d) td"
    using same_except_trans [OF m(7) c(4)] by (simp add: insert_commute)
  moreover have "token_frame {ai_key src, ai_key dst} st st'"
    using token_frame_trans [OF f1 c(5)] by simp
  ultimately have "transfer_effect (ai_key src) (ai_key dst) amount fee s d st st'"
    unfolding transfer_effect_def
    using c(1-3) m(1,2,5,6) sd withheld_same [OF c(3)] withheld_same [OF c(4)]
    by (intro exI [of _ "s1\<lparr>ps_tlv := ts\<rparr>"] exI [of _ "d1\<lparr>ps_tlv := td\<rparr>"]) simp
  with d show thesis by (rule that)
qed

section \<open>Properties\<close>

lemma process_transfer_Inr:
  assumes "process_transfer P program_id accounts amount instr st = Inr st'"
  obtains src em dst auth signers s fee permanent hook where
    "transfer_accounts instr accounts = Inr (src, em, dst, auth, signers)"
    "info_owner st src = TOKEN_2022_ID" "info_owner st dst = TOKEN_2022_ID"
    "unpack account_base (info_data st src) = Inr s" "\<not> is_frozen (ps_base s)" "\<not> a_amount (ps_base s) < amount"
    "\<not> is_ok (get_extension AtAccount non_transferable_account_ext (ps_tlv s))"
    "transfer_terms P src s em amount st = Inr (fee, permanent, hook)"
    "\<forall>dec f. instr = TransferCheckedWithFee dec f \<longrightarrow> f = fee"
    "debit_allowed P program_id auth signers permanent amount (ps_base s) st"
    "if ai_key src = ai_key dst then st' = st
     else transfer_to_other P src em dst auth signers amount fee hook
            (s\<lparr>ps_base := debited (ai_key auth) permanent amount False (ps_base s)\<rparr>) st = Inr st'"
proof -
  obtain src em dst auth signers s fee permanent hook where *:
    "transfer_accounts instr accounts = Inr (src, em, dst, auth, signers)"
    "info_owner st src = TOKEN_2022_ID" "info_owner st dst = TOKEN_2022_ID"
    "unpack account_base (info_data st src) = Inr s" "\<not> is_frozen (ps_base s)" "\<not> a_amount (ps_base s) < amount"
    "\<not> is_ok (get_extension AtAccount non_transferable_account_ext (ps_tlv s))"
    "transfer_terms P src s em amount st = Inr (fee, permanent, hook)"
    "(case instr of TransferCheckedWithFee _ f \<Rightarrow> ensure (fee = f) (Custom FeeMismatch) | _ \<Rightarrow> Inr ()) = Inr ()"
    "debit_allowed P program_id auth signers permanent amount (ps_base s) st"
    "(if ai_key src = ai_key dst then
        bindr (if memo_required P (ps_tlv (s\<lparr>ps_base := debited (ai_key auth) permanent amount
                    (ai_key src = ai_key dst) (ps_base s)\<rparr>))
               then check_previous_sibling_instruction_is_memo P else Inr ()) (\<lambda>_. Inr st)
      else transfer_to_other P src em dst auth signers amount fee hook
        (s\<lparr>ps_base := debited (ai_key auth) permanent amount (ai_key src = ai_key dst) (ps_base s)\<rparr>) st) = Inr st'"
  proof -
    from assms show thesis
      by (clarsimp simp: process_transfer_def Let_def result_simps debit_authority_Inr) (rule that; assumption)
  qed
  show thesis
  proof (rule that [OF *(1-8) _ *(10)])
    show "\<forall>dec f. instr = TransferCheckedWithFee dec f \<longrightarrow> f = fee"
      using *(9) by (auto simp: result_simps)
    show "if ai_key src = ai_key dst then st' = st
     else transfer_to_other P src em dst auth signers amount fee hook
            (s\<lparr>ps_base := debited (ai_key auth) permanent amount False (ps_base s)\<rparr>) st = Inr st'"
      using *(11) by (cases "ai_key src = ai_key dst") (simp_all add: result_simps)
  qed
qed

text \<open>
  C9. A transfer that succeeds was authorised by the permanent delegate, the delegate within its
  allowance or the owner, from an account that was not frozen, held the amount and was transferable,
  on the fee, the permanent delegate and the hook that the mint sets. A transfer of an account to
  itself changes nothing. Otherwise the destination was not frozen and of the same mint, and exactly
  the amount moves: the source loses it, the destination gains it less the fee, and the fee is
  withheld on the destination; a transfer hook in between cannot alter that.
\<close>

theorem process_transfer_correct:
  assumes "process_transfer P program_id accounts amount instr st = Inr st'" and "hook_laws P"
  shows "\<exists>src em dst auth signers s fee permanent hook.
     transfer_accounts instr accounts = Inr (src, em, dst, auth, signers) \<and>
     unpack account_base (info_data st src) = Inr s \<and> \<not> is_frozen (ps_base s) \<and> amount \<le> a_amount (ps_base s) \<and>
     \<not> is_ok (get_extension AtAccount non_transferable_account_ext (ps_tlv s)) \<and>
     transfer_terms P src s em amount st = Inr (fee, permanent, hook) \<and>
     (\<forall>dec f. instr = TransferCheckedWithFee dec f \<longrightarrow> f = fee) \<and>
     debit_allowed P program_id auth signers permanent amount (ps_base s) st \<and>
     (if ai_key src = ai_key dst then st' = st
      else \<exists>d. unpack account_base (info_data st dst) = Inr d \<and> \<not> is_frozen (ps_base d) \<and>
             a_mint (ps_base d) = a_mint (ps_base s) \<and>
             transfer_effect (ai_key src) (ai_key dst) amount fee
               (s\<lparr>ps_base := debited (ai_key auth) permanent amount False (ps_base s)\<rparr>) d st st')"
proof -
  obtain src em dst auth signers s fee permanent hook where *:
    "transfer_accounts instr accounts = Inr (src, em, dst, auth, signers)"
    "info_owner st src = TOKEN_2022_ID" "info_owner st dst = TOKEN_2022_ID"
    "unpack account_base (info_data st src) = Inr s" "\<not> is_frozen (ps_base s)" "\<not> a_amount (ps_base s) < amount"
    "\<not> is_ok (get_extension AtAccount non_transferable_account_ext (ps_tlv s))"
    "transfer_terms P src s em amount st = Inr (fee, permanent, hook)"
    "\<forall>dec f. instr = TransferCheckedWithFee dec f \<longrightarrow> f = fee"
    "debit_allowed P program_id auth signers permanent amount (ps_base s) st"
    and e: "if ai_key src = ai_key dst then st' = st
     else transfer_to_other P src em dst auth signers amount fee hook
            (s\<lparr>ps_base := debited (ai_key auth) permanent amount False (ps_base s)\<rparr>) st = Inr st'"
    using assms(1) by (rule process_transfer_Inr)
  have "\<exists>d. unpack account_base (info_data st dst) = Inr d \<and> \<not> is_frozen (ps_base d) \<and>
             a_mint (ps_base d) = a_mint (ps_base s) \<and>
             transfer_effect (ai_key src) (ai_key dst) amount fee
               (s\<lparr>ps_base := debited (ai_key auth) permanent amount False (ps_base s)\<rparr>) d st st'"
    if ne: "ai_key src \<noteq> ai_key dst"
    using e ne assms(2) *(2-4)
    by (auto elim: transfer_to_other_effect [where ?s0.0 = s, OF _ _ refl])
  with e *(1,4-10) show ?thesis
    by (intro exI [of _ src] exI [of _ em] exI [of _ dst] exI [of _ auth] exI [of _ signers] exI [of _ s]
        exI [of _ fee] exI [of _ permanent] exI [of _ hook]) (auto simp: not_less)
qed

lemma transfer_plain_cases:
  assumes "info_owner st src = TOKEN_2022_ID" "info_owner st dst = TOKEN_2022_ID" "ai_key src \<noteq> ai_key dst"
    and "info_data st src = pod_account_to_bytes s" "pod_account_is_initialized s" "\<not> is_native s"
    and "info_data st dst = pod_account_to_bytes d" "pod_account_is_initialized d"
  shows "process_transfer P program_id (src # dst # auth # signers) amount TransferUnchecked st =
    (if is_frozen s then Inl (Custom AccountFrozen)
     else if a_amount s < amount then Inl (Custom InsufficientFunds)
     else case debit_authority P program_id auth signers None amount False s st of
         Inl e \<Rightarrow> Inl e
       | Inr s1 \<Rightarrow>
           if is_frozen d then Inl (Custom AccountFrozen)
           else if a_mint s \<noteq> a_mint d then Inl (Custom MintMismatch)
           else if 2 ^ 64 \<le> unat (a_amount d) + unat amount then Inl (Custom Overflow)
           else Inr (set_data (ai_key dst) (pod_account_to_bytes (d\<lparr>a_amount := a_amount d + amount\<rparr>))
                 (set_data (ai_key src) (pod_account_to_bytes (s1\<lparr>a_amount := a_amount s - amount\<rparr>)) st)))"
proof -
  have s1: "a_amount s1 = a_amount s \<and> a_mint s1 = a_mint s \<and> a_is_native s1 = a_is_native s"
    if "debit_authority P program_id auth signers None amount False s st = Inr s1" for s1
    using that by (auto simp: debit_authority_Inr)
  have g: "check_cpi_guard_transfer P auth (bare s) e = Inr ()" "\<not> memo_required P []" for e
    by (simp_all add: check_cpi_guard_transfer_def memo_required_def)
  have terms: "transfer_terms P src (bare s) None amount st = Inr (0, None, None)"
    by (simp add: transfer_terms_def Let_def)
  have pre: "process_transfer P program_id (src # dst # auth # signers) amount TransferUnchecked st =
    (if is_frozen s then Inl (Custom AccountFrozen)
     else if a_amount s < amount then Inl (Custom InsufficientFunds)
     else bindr (debit_authority P program_id auth signers None amount False s st) (\<lambda>s1.
            transfer_to_other P src None dst auth signers amount 0 None (bare s1) st))"
    using assms(1-6) by (simp add: process_transfer_def transfer_accounts_def g terms ensure_def Let_def)
  have post: "transfer_to_other P src None dst auth signers amount 0 None (bare s1) st =
     (if is_frozen d then Inl (Custom AccountFrozen)
      else if a_mint s1 \<noteq> a_mint d then Inl (Custom MintMismatch)
      else if 2 ^ 64 \<le> unat (a_amount d) + unat amount then Inl (Custom Overflow)
      else Inr (set_data (ai_key dst) (pod_account_to_bytes (d\<lparr>a_amount := a_amount d + amount\<rparr>))
             (set_data (ai_key src) (pod_account_to_bytes (s1\<lparr>a_amount := a_amount s1 - amount\<rparr>)) st)))"
    if "amount \<le> a_amount s1" "\<not> is_native s1" for s1
    using assms(7,8) that
    by (simp add: transfer_to_other_def commit_transfer_def move_tokens_def g ensure_def checked_sub_def
        checked_add_def Let_def is_native_def not_le)
  show ?thesis
  proof (cases "is_frozen s \<or> a_amount s < amount")
    case False
    show ?thesis
    proof (cases "debit_authority P program_id auth signers None amount False s st")
      case (Inl e)
      with False show ?thesis by (simp add: pre)
    next
      case (Inr s')
      with s1 have "a_amount s' = a_amount s" "a_mint s' = a_mint s" "is_native s' = is_native s"
        by (simp_all add: is_native_def)
      with Inr False assms(6) post [of s'] show ?thesis by (simp add: pre not_less)
    qed
  qed (auto simp: pre)
qed

text \<open>The outcome of \<open>debit_authority\<close> without a permanent delegate, its errors included.\<close>

lemma debit_authority_outcome:
  "debit_authority P program_id auth signers None amount False s st =
     (let delegated = is_delegate s (ai_key auth); k = (if delegated then ai_key auth else a_owner s) in
      if \<not> authorizes P program_id k auth signers st then Inl (authority_error P program_id k auth signers st)
      else if delegated \<and> a_delegated_amount s < amount then Inl (Custom InsufficientFunds)
      else Inr (debited (ai_key auth) None amount False s))"
  by (auto simp: debit_authority_def is_delegate_def debited_def validate_owner_outcome ensure_def checked_sub_def Let_def
      not_less)

text \<open>
  C16. Between two distinct token accounts without extensions, the outcome of \<open>Transfer\<close> is determined
  on every branch: the first failing check gives its error, in the order of the code, and otherwise
  the amount moves, out of the allowance as well when a delegate acts, and nothing else changes. The
  authority is the delegate if it is the account's, else it has to be the owner; \<open>authority_error\<close> is the
  error for one that is refused.
\<close>

theorem transfer_plain_outcome:
  assumes "info_owner st src = TOKEN_2022_ID" "info_owner st dst = TOKEN_2022_ID" "ai_key src \<noteq> ai_key dst"
    and "info_data st src = pod_account_to_bytes s" "pod_account_is_initialized s" "\<not> is_native s"
    and "info_data st dst = pod_account_to_bytes d" "pod_account_is_initialized d"
  shows "process_transfer P program_id (src # dst # auth # signers) amount TransferUnchecked st =
    (let delegated = is_delegate s (ai_key auth); k = (if delegated then ai_key auth else a_owner s) in
     if is_frozen s then Inl (Custom AccountFrozen)
     else if a_amount s < amount then Inl (Custom InsufficientFunds)
     else if \<not> authorizes P program_id k auth signers st then Inl (authority_error P program_id k auth signers st)
     else if delegated \<and> a_delegated_amount s < amount then Inl (Custom InsufficientFunds)
     else if is_frozen d then Inl (Custom AccountFrozen)
     else if a_mint s \<noteq> a_mint d then Inl (Custom MintMismatch)
     else if 2 ^ 64 \<le> unat (a_amount d) + unat amount then Inl (Custom Overflow)
     else Inr (set_data (ai_key dst) (pod_account_to_bytes (d\<lparr>a_amount := a_amount d + amount\<rparr>))
           (set_data (ai_key src) (pod_account_to_bytes (s\<lparr>a_amount := a_amount s - amount,
              a_delegated_amount := (if delegated then a_delegated_amount s - amount else a_delegated_amount s),
              a_delegate := (if delegated \<and> a_delegated_amount s = amount then coption_none else a_delegate s)\<rparr>)) st)))"
proof -
  have "(debited (ai_key auth) None amount False s)\<lparr>a_amount := a_amount s - amount\<rparr> =
      s\<lparr>a_amount := a_amount s - amount,
        a_delegated_amount := (if is_delegate s (ai_key auth) then a_delegated_amount s - amount else a_delegated_amount s),
        a_delegate := (if is_delegate s (ai_key auth) \<and> a_delegated_amount s = amount then coption_none else a_delegate s)\<rparr>"
    by (simp add: debited_def)
  then show ?thesis
    by (simp add: transfer_plain_cases [OF assms] debit_authority_outcome Let_def)
qed

definition sample_transfer_store :: store where
  "sample_transfer_store = sample_store
     [(5, token_acct 200 (pod_account_to_bytes (sample_account 4 30 50 Initialized))),
      (6, token_acct 200 (pod_account_to_bytes (sample_account 4 31 7 Initialized))),
      (30, empty_acct)]"

lemma sample_transfer_store_simps [simp]:
  "sample_transfer_store 5 = token_acct 200 (pod_account_to_bytes (sample_account 4 30 50 Initialized))"
  "sample_transfer_store 6 = token_acct 200 (pod_account_to_bytes (sample_account 4 31 7 Initialized))"
  "sample_transfer_store 30 = empty_acct"
  by (simp_all add: sample_transfer_store_def)

lemma transfer_plain_outcome_witness:
  "process_transfer sample_platform TOKEN_2022_ID [plain_info 5, plain_info 6, signer_info 30] 20 TransferUnchecked
     sample_transfer_store =
   Inr (set_data 6 (pod_account_to_bytes (sample_account 4 31 27 Initialized))
         (set_data 5 (pod_account_to_bytes (sample_account 4 30 30 Initialized)) sample_transfer_store))"
proof -
  have auth: "authorizes sample_platform TOKEN_2022_ID 30 (signer_info 30) [] sample_transfer_store"
    by (simp add: authorizes_def is_multisig_account_def empty_acct_def MULTISIG_LEN_def)
  have same: "(sample_account 4 30 30 Initialized)
      \<lparr>a_delegated_amount := 0, a_delegate := \<lparr>co_option = 0, co_value = 0\<rparr>\<rparr> = sample_account 4 30 30 Initialized"
    by (simp add: sample_account_def coption_none_def)
  show ?thesis
    using auth transfer_plain_outcome [of sample_transfer_store "plain_info 5" "plain_info 6"
        "sample_account 4 30 50 Initialized" "sample_account 4 31 7 Initialized" sample_platform TOKEN_2022_ID
        "signer_info 30" "[]" 20]
    by (simp add: info_owner_def info_data_def is_delegate_def same)
qed

lemma process_transfer_correct_witness:
  "\<exists>st'. process_transfer sample_platform TOKEN_2022_ID [plain_info 5, plain_info 6, signer_info 30] 20
      TransferUnchecked sample_transfer_store = Inr st' \<and>
    (\<exists>src em dst auth signers s fee permanent hook.
       transfer_accounts TransferUnchecked [plain_info 5, plain_info 6, signer_info 30] =
         Inr (src, em, dst, auth, signers) \<and>
       unpack account_base (info_data sample_transfer_store src) = Inr s \<and>
       debit_allowed sample_platform TOKEN_2022_ID auth signers permanent 20 (ps_base s) sample_transfer_store)"
  (is "\<exists>st'. ?run = Inr st' \<and> ?concl")
proof -
  have auth: "debit_authority sample_platform TOKEN_2022_ID (signer_info 30) [] None 20 False
      (sample_account 4 30 50 Initialized) sample_transfer_store = Inr (sample_account 4 30 50 Initialized)"
    by (simp add: debit_authority_Inr debit_allowed_def debited_def is_delegate_def authorizes_def
        is_multisig_account_def empty_acct_def MULTISIG_LEN_def)
  have run: "\<exists>st'. ?run = Inr st'"
    using auth
    by (simp add: process_transfer_def transfer_accounts_def transfer_terms_def transfer_to_other_def move_tokens_def
        commit_transfer_def check_cpi_guard_transfer_def memo_required_def info_owner_def info_data_def ensure_def
        Let_def checked_sub_def checked_add_def)
  then obtain st' where st': "?run = Inr st'" ..
  have "hook_laws sample_platform"
    by (simp add: hook_laws_def)
  from process_transfer_correct [OF st' this] have ?concl by blast
  with st' show ?thesis by blast
qed

end
