(* ===== verification/Supply.thy ===== *)
theory Supply
  imports Token_Transfer
begin

text \<open>
  \<open>process_mint_to\<close> and \<open>process_burn\<close> (program/src/processor.rs): the two instructions that change
  the supply of a mint, with their checks in the order of the code. A mutable borrow of an account
  that is already borrowed panics, which happens when the mint is also given as the token account.
\<close>

section \<open>Model\<close>

datatype burn_variant = BurnStandard | BurnPermissioned

definition check_decimals :: "instruction_variant \<Rightarrow> pod_mint \<Rightarrow> unit result" where
  "check_decimals instruction_variant mint =
     (case instruction_variant of
        VariantChecked decimals \<Rightarrow> ensure (decimals = m_decimals mint) (Custom MintDecimalsMismatch)
      | VariantUnchecked \<Rightarrow> Inr ())"

definition process_mint_to ::
    "platform \<Rightarrow> address \<Rightarrow> account_info list \<Rightarrow> u64 \<Rightarrow> instruction_variant \<Rightarrow> store \<Rightarrow> store result" where
  "process_mint_to P program_id accounts amount instruction_variant st =
     bindr (next_account_info accounts) (\<lambda>(mint_info, it).
     bindr (next_account_info it) (\<lambda>(destination_account_info, it).
     bindr (next_account_info it) (\<lambda>(owner_info, signers).
     bindr (check_program_account (info_owner st mint_info)) (\<lambda>_.
     bindr (check_program_account (info_owner st destination_account_info)) (\<lambda>_.
     bindr (unpack account_base (info_data st destination_account_info)) (\<lambda>destination_account.
     bindr (ensure (\<not> is_frozen (ps_base destination_account)) (Custom AccountFrozen)) (\<lambda>_.
     bindr (ensure (\<not> is_native (ps_base destination_account)) (Custom NativeNotSupported)) (\<lambda>_.
     bindr (ensure (ai_key mint_info = a_mint (ps_base destination_account)) (Custom MintMismatch)) (\<lambda>_.
     bindr (ensure (ai_key mint_info \<noteq> ai_key destination_account_info) Panic) (\<lambda>_.
     bindr (unpack (mint_base P) (info_data st mint_info)) (\<lambda>mint.
     bindr (ensure (\<not> (is_ok (get_extension AtMint non_transferable_ext (ps_tlv mint)) \<and>
               (\<not> is_ok (get_extension AtAccount immutable_owner_ext (ps_tlv destination_account)) \<or>
                \<not> is_ok (get_extension AtAccount non_transferable_account_ext (ps_tlv destination_account)))))
            (Custom NonTransferableNeedsImmutableOwnership)) (\<lambda>_.
     bindr (check_not_paused P (ps_tlv mint)) (\<lambda>_.
     bindr (ensure (\<not> is_ok (get_extension AtMint confidential_mint_burn_ext (ps_tlv mint)))
              (Custom IllegalMintBurnConversion)) (\<lambda>_.
     bindr (check_decimals instruction_variant (ps_base mint)) (\<lambda>_.
     bindr (if co_option (m_mint_authority (ps_base mint)) = COPTION_SOME
            then validate_owner P program_id (co_value (m_mint_authority (ps_base mint))) owner_info
                   (length (info_data st owner_info)) signers st
            else Inl (Custom FixedSupply)) (\<lambda>_.
     bindr (ok_or (checked_add (a_amount (ps_base destination_account)) amount) (Custom Overflow)) (\<lambda>destination_amount.
     bindr (ok_or (checked_add (m_supply (ps_base mint)) amount) (Custom Overflow)) (\<lambda>supply.
     Inr (set_data (ai_key mint_info)
            (state_bytes (mint_base P) (mint\<lparr>ps_base := (ps_base mint)\<lparr>m_supply := supply\<rparr>\<rparr>))
            (set_data (ai_key destination_account_info)
              (state_bytes account_base (destination_account\<lparr>ps_base :=
                 (ps_base destination_account)\<lparr>a_amount := destination_amount\<rparr>\<rparr>)) st))))))))))))))))))))"

text \<open>The authority of the permissioned-burn extension must have signed, and only then be present.\<close>

definition check_permissioned_burn ::
    "platform \<Rightarrow> burn_variant \<Rightarrow> account_info option \<Rightarrow> bytes \<Rightarrow> unit result" where
  "check_permissioned_burn P burn_variant permissioned_burn_authority_info mint_tlv =
     (let permissioned_ext = get_extension AtMint permissioned_burn_config_ext mint_tlv;
          maybe_permissioned_burn_authority =
            Option.bind (result_ok permissioned_ext) (\<lambda>ext. pl_option_from_maybe_null P (pb_authority ext)) in
      case burn_variant of
        BurnStandard \<Rightarrow> ensure (maybe_permissioned_burn_authority = None) (Custom InvalidInstruction)
      | BurnPermissioned \<Rightarrow>
          bindr (map_err permissioned_ext (Custom InvalidInstruction)) (\<lambda>_.
          bindr (ok_or maybe_permissioned_burn_authority (Custom InvalidInstruction)) (\<lambda>expected_burn_authority.
          bindr (ok_or permissioned_burn_authority_info NotEnoughAccountKeys) (\<lambda>approver_ai.
          bindr (ensure (ai_is_signer approver_ai) MissingRequiredSignature) (\<lambda>_.
          ensure (ai_key approver_ai = expected_burn_authority) InvalidAccountData)))))"

definition process_burn ::
    "platform \<Rightarrow> address \<Rightarrow> account_info list \<Rightarrow> u64 \<Rightarrow> burn_variant \<Rightarrow> instruction_variant \<Rightarrow> store \<Rightarrow> store result" where
  "process_burn P program_id accounts amount burn_variant instruction_variant st =
     bindr (next_account_info accounts) (\<lambda>(source_account_info, it).
     bindr (next_account_info it) (\<lambda>(mint_info, it).
     bindr (check_program_account (info_owner st source_account_info)) (\<lambda>_.
     bindr (check_program_account (info_owner st mint_info)) (\<lambda>_.
     bindr (case burn_variant of
         BurnPermissioned \<Rightarrow>
           bindr (next_account_info it) (\<lambda>(permissioned_burn_authority_info, it).
           bindr (next_account_info it) (\<lambda>(authority_info, it).
           Inr (Some permissioned_burn_authority_info, authority_info, it)))
       | BurnStandard \<Rightarrow>
           bindr (next_account_info it) (\<lambda>(authority_info, it). Inr (None, authority_info, it)))
       (\<lambda>(permissioned_burn_authority_info, authority_info, signers).
     bindr (unpack (mint_base P) (info_data st mint_info)) (\<lambda>mint.
     bindr (check_permissioned_burn P burn_variant permissioned_burn_authority_info (ps_tlv mint)) (\<lambda>_.
     bindr (ensure (ai_key mint_info \<noteq> ai_key source_account_info) Panic) (\<lambda>_.
     bindr (unpack account_base (info_data st source_account_info)) (\<lambda>source_account.
     bindr (ensure (\<not> is_frozen (ps_base source_account)) (Custom AccountFrozen)) (\<lambda>_.
     bindr (ensure (\<not> is_native (ps_base source_account)) (Custom NativeNotSupported)) (\<lambda>_.
     bindr (ensure (\<not> a_amount (ps_base source_account) < amount) (Custom InsufficientFunds)) (\<lambda>_.
     bindr (ensure (ai_key mint_info = a_mint (ps_base source_account)) (Custom MintMismatch)) (\<lambda>_.
     bindr (check_decimals instruction_variant (ps_base mint)) (\<lambda>_.
     bindr (check_not_paused P (ps_tlv mint)) (\<lambda>_.
     bindr (ensure (\<not> is_ok (get_extension AtMint confidential_mint_burn_ext (ps_tlv mint)))
              (Custom IllegalMintBurnConversion)) (\<lambda>_.
     bindr (check_cpi_guard_transfer P authority_info source_account (Custom CpiGuardBurnBlocked)) (\<lambda>_.
     bindr (if is_owned_by_system_program_or_incinerator P (ps_base source_account)
            then Inr (ps_base source_account)
            else debit_authority P program_id authority_info signers (get_permanent_delegate P (ps_tlv mint)) amount False
                   (ps_base source_account) st) (\<lambda>source_base.
     bindr (ok_or (checked_sub (a_amount source_base) amount) (Custom Overflow)) (\<lambda>source_amount.
     bindr (ok_or (checked_sub (m_supply (ps_base mint)) amount) (Custom Overflow)) (\<lambda>supply.
     Inr (set_data (ai_key mint_info)
            (state_bytes (mint_base P) (mint\<lparr>ps_base := (ps_base mint)\<lparr>m_supply := supply\<rparr>\<rparr>))
            (set_data (ai_key source_account_info)
              (state_bytes account_base (source_account\<lparr>ps_base := source_base\<lparr>a_amount := source_amount\<rparr>\<rparr>)) st))))))))))))))))))))))"

section \<open>Properties\<close>

text \<open>The joint effect on a mint and one of its token accounts.\<close>

definition supply_effect ::
    "platform \<Rightarrow> address \<Rightarrow> address \<Rightarrow> pod_mint pod_state \<Rightarrow> u64 \<Rightarrow> pod_account pod_state \<Rightarrow> pod_account \<Rightarrow> store \<Rightarrow> store \<Rightarrow> bool" where
  "supply_effect P mk ak mint new_supply a base st st' \<longleftrightarrow>
     unpack (mint_base P) (ac_data (st' mk)) = Inr (mint\<lparr>ps_base := (ps_base mint)\<lparr>m_supply := new_supply\<rparr>\<rparr>) \<and>
     unpack account_base (ac_data (st' ak)) = Inr (a\<lparr>ps_base := base\<rparr>) \<and>
     token_frame {mk, ak} st st' \<and> (\<forall>x. x \<noteq> mk \<and> x \<noteq> ak \<longrightarrow> st' x = st x)"

lemma unpack_mint_initialized: "unpack (mint_base P) d = Inr s \<Longrightarrow> pod_mint_is_initialized P (ps_base s)"
  by (simp add: mint_st.unpack_iff wf_state_def)

lemma supply_effectI:
  assumes "unpack (mint_base P) (ac_data (st mk)) = Inr mint" and "unpack account_base (ac_data (st ak)) = Inr a"
    and "mk \<noteq> ak" and "a_state base = a_state (ps_base a)"
  shows "supply_effect P mk ak mint new_supply a base st
     (set_data mk (state_bytes (mint_base P) (mint\<lparr>ps_base := (ps_base mint)\<lparr>m_supply := new_supply\<rparr>\<rparr>))
        (set_data ak (state_bytes account_base (a\<lparr>ps_base := base\<rparr>)) st))"
proof -
  have "pod_mint_is_initialized P ((ps_base mint)\<lparr>m_supply := new_supply\<rparr>)"
    using unpack_mint_initialized [OF assms(1)] by (simp add: pod_mint_is_initialized_def)
  then have "unpack (mint_base P) (state_bytes (mint_base P) (mint\<lparr>ps_base := (ps_base mint)\<lparr>m_supply := new_supply\<rparr>\<rparr>)) =
      Inr (mint\<lparr>ps_base := (ps_base mint)\<lparr>m_supply := new_supply\<rparr>\<rparr>)"
    by (intro mint_st.unpack_update_base [OF assms(1)]) simp
  moreover have "unpack account_base (state_bytes account_base (a\<lparr>ps_base := base\<rparr>)) = Inr (a\<lparr>ps_base := base\<rparr>)"
    using unpack_account_initialized [OF assms(2)] initialized_unless_a_state [OF assms(4)]
    by (intro account_st.unpack_update_base [OF assms(2)]) simp
  ultimately show ?thesis
    using assms(3) token_frame_set_data2 [of ak mk st]
    by (simp add: supply_effect_def set_data_other insert_commute)
qed

text \<open>
  C10. Minting succeeds only under the mint authority, for a mint that is not paused and whose supply
  is not confidential, into an account of that mint that is neither frozen nor native; then the
  supply and the account's amount both grow by exactly the amount, without wrapping, and no other
  field, extension or account changes.
\<close>

theorem process_mint_to_correct:
  assumes "process_mint_to P program_id (mint_info # dest_info # owner_info # signers) amount variant st = Inr st'"
  shows "\<exists>mint dest new_supply dest_amount.
     unpack (mint_base P) (info_data st mint_info) = Inr mint \<and> unpack account_base (info_data st dest_info) = Inr dest \<and>
     \<not> is_frozen (ps_base dest) \<and> \<not> is_native (ps_base dest) \<and> a_mint (ps_base dest) = ai_key mint_info \<and>
     check_not_paused P (ps_tlv mint) = Inr () \<and>
     \<not> is_ok (get_extension AtMint confidential_mint_burn_ext (ps_tlv mint)) \<and>
     co_option (m_mint_authority (ps_base mint)) = COPTION_SOME \<and>
     authorizes P program_id (co_value (m_mint_authority (ps_base mint))) owner_info signers st \<and>
     unat new_supply = unat (m_supply (ps_base mint)) + unat amount \<and>
     unat dest_amount = unat (a_amount (ps_base dest)) + unat amount \<and>
     supply_effect P (ai_key mint_info) (ai_key dest_info) mint new_supply dest
       ((ps_base dest)\<lparr>a_amount := dest_amount\<rparr>) st st'"
proof -
  obtain mint dest new_supply dest_amount where
    m: "unpack (mint_base P) (info_data st mint_info) = Inr mint" and d: "unpack account_base (info_data st dest_info) = Inr dest"
    and c: "\<not> is_frozen (ps_base dest)" "\<not> is_native (ps_base dest)" "ai_key mint_info = a_mint (ps_base dest)"
      "check_not_paused P (ps_tlv mint) = Inr ()"
      "\<not> is_ok (get_extension AtMint confidential_mint_burn_ext (ps_tlv mint))"
    and ne: "ai_key mint_info \<noteq> ai_key dest_info"
    and auth: "(if co_option (m_mint_authority (ps_base mint)) = COPTION_SOME
            then validate_owner P program_id (co_value (m_mint_authority (ps_base mint))) owner_info
                   (length (info_data st owner_info)) signers st
            else Inl (Custom FixedSupply)) = Inr ()"
    and da: "checked_add (a_amount (ps_base dest)) amount = Some dest_amount"
    and su: "checked_add (m_supply (ps_base mint)) amount = Some new_supply"
    and st': "st' = set_data (ai_key mint_info)
            (state_bytes (mint_base P) (mint\<lparr>ps_base := (ps_base mint)\<lparr>m_supply := new_supply\<rparr>\<rparr>))
            (set_data (ai_key dest_info)
              (state_bytes account_base (dest\<lparr>ps_base := (ps_base dest)\<lparr>a_amount := dest_amount\<rparr>\<rparr>)) st)"
  proof -
    from assms show thesis
      by (clarsimp simp: process_mint_to_def result_simps simp del: coption_simps)
        (rule that; (assumption | rule refl | simp))
  qed
  have "supply_effect P (ai_key mint_info) (ai_key dest_info) mint new_supply dest
       ((ps_base dest)\<lparr>a_amount := dest_amount\<rparr>) st st'"
    unfolding st' using m d ne by (intro supply_effectI) (simp_all add: info_data_def)
  moreover have "co_option (m_mint_authority (ps_base mint)) = COPTION_SOME"
    "authorizes P program_id (co_value (m_mint_authority (ps_base mint))) owner_info signers st"
    using auth by (simp_all add: validate_owner_authorizes del: coption_simps split: if_splits)
  ultimately show ?thesis
    using m d c checked_add_SomeD [OF da] checked_add_SomeD [OF su] by (intro exI conjI) simp_all
qed

text \<open>The authority that must sign a burn, when the mint names one.\<close>

definition burn_approver :: "platform \<Rightarrow> bytes \<Rightarrow> address option" where
  "burn_approver P mint_tlv =
     Option.bind (result_ok (get_extension AtMint permissioned_burn_config_ext mint_tlv))
       (\<lambda>ext. pl_option_from_maybe_null P (pb_authority ext))"

lemma check_permissioned_burn_Inr:
  "check_permissioned_burn P v approver tlv = Inr () \<longleftrightarrow>
     (case burn_approver P tlv of
        None \<Rightarrow> v = BurnStandard
      | Some k \<Rightarrow> v = BurnPermissioned \<and> (\<exists>i. approver = Some i \<and> ai_is_signer i \<and> ai_key i = k))"
  by (cases v; cases "get_extension AtMint permissioned_burn_config_ext tlv")
    (auto simp: check_permissioned_burn_def burn_approver_def Let_def result_simps split: option.splits)

text \<open>
  C11. Burning succeeds only for an account of the mint that is neither frozen nor native and holds
  the amount, on a mint that is not paused and whose supply is not confidential, with the signature
  of the mint's burn authority exactly when it names one, and under the permanent delegate, the
  delegate within its allowance or the owner, unless the account belongs to the system program or
  the incinerator; then supply and amount both shrink by exactly the amount and nothing else changes.
\<close>

theorem process_burn_correct:
  assumes "process_burn P program_id accounts amount burn variant st = Inr st'"
  shows "\<exists>src_info mint_info approver auth signers mint src new_supply base.
     accounts = src_info # mint_info # (case approver of None \<Rightarrow> auth # signers | Some i \<Rightarrow> i # auth # signers) \<and>
     unpack (mint_base P) (info_data st mint_info) = Inr mint \<and> unpack account_base (info_data st src_info) = Inr src \<and>
     \<not> is_frozen (ps_base src) \<and> \<not> is_native (ps_base src) \<and> a_mint (ps_base src) = ai_key mint_info \<and>
     check_not_paused P (ps_tlv mint) = Inr () \<and>
     \<not> is_ok (get_extension AtMint confidential_mint_burn_ext (ps_tlv mint)) \<and>
     (case burn_approver P (ps_tlv mint) of
        None \<Rightarrow> approver = None
      | Some k \<Rightarrow> \<exists>i. approver = Some i \<and> ai_is_signer i \<and> ai_key i = k) \<and>
     (if is_owned_by_system_program_or_incinerator P (ps_base src) then base = ps_base src
      else debit_allowed P program_id auth signers (get_permanent_delegate P (ps_tlv mint)) amount (ps_base src) st \<and>
           base = debited (ai_key auth) (get_permanent_delegate P (ps_tlv mint)) amount False (ps_base src)) \<and>
     unat (m_supply (ps_base mint)) = unat new_supply + unat amount \<and>
     amount \<le> a_amount (ps_base src) \<and>
     supply_effect P (ai_key mint_info) (ai_key src_info) mint new_supply src
       (base\<lparr>a_amount := a_amount (ps_base src) - amount\<rparr>) st st'"
proof -
  obtain src_info mint_info it approver auth signers mint src base new_amount new_supply where
    acc: "accounts = src_info # mint_info # it"
    and it: "(case burn of
         BurnPermissioned \<Rightarrow>
           bindr (next_account_info it) (\<lambda>(p, it). bindr (next_account_info it) (\<lambda>(a, it). Inr (Some p, a, it)))
       | BurnStandard \<Rightarrow> bindr (next_account_info it) (\<lambda>(a, it). Inr (None, a, it))) = Inr (approver, auth, signers)"
    and m: "unpack (mint_base P) (info_data st mint_info) = Inr mint" and d: "unpack account_base (info_data st src_info) = Inr src"
    and perm: "check_permissioned_burn P burn approver (ps_tlv mint) = Inr ()"
    and ne: "ai_key mint_info \<noteq> ai_key src_info"
    and c: "\<not> is_frozen (ps_base src)" "\<not> is_native (ps_base src)" "ai_key mint_info = a_mint (ps_base src)"
      "check_not_paused P (ps_tlv mint) = Inr ()"
      "\<not> is_ok (get_extension AtMint confidential_mint_burn_ext (ps_tlv mint))"
    and auth: "(if is_owned_by_system_program_or_incinerator P (ps_base src) then Inr (ps_base src)
            else debit_authority P program_id auth signers (get_permanent_delegate P (ps_tlv mint)) amount False
                   (ps_base src) st) = Inr base"
    and da: "checked_sub (a_amount base) amount = Some new_amount"
    and su: "checked_sub (m_supply (ps_base mint)) amount = Some new_supply"
    and st': "st' = set_data (a_mint (ps_base src))
            (state_bytes (mint_base P) (mint\<lparr>ps_base := (ps_base mint)\<lparr>m_supply := new_supply\<rparr>\<rparr>))
            (set_data (ai_key src_info)
              (state_bytes account_base (src\<lparr>ps_base := base\<lparr>a_amount := new_amount\<rparr>\<rparr>)) st)"
  proof -
    from assms show thesis
      by (clarsimp simp: process_burn_def result_simps simp del: coption_simps)
        (rule that; (assumption | rule refl | simp))
  qed
  have b: "a_amount base = a_amount (ps_base src)" "a_state base = a_state (ps_base src)"
    using auth by (auto simp: debit_authority_Inr split: if_splits)
  have amt: "amount \<le> a_amount (ps_base src)" "new_amount = a_amount (ps_base src) - amount"
    using da b by (simp_all add: checked_sub_def split: if_splits)
  have eff: "supply_effect P (ai_key mint_info) (ai_key src_info) mint new_supply src
       (base\<lparr>a_amount := a_amount (ps_base src) - amount\<rparr>) st st'"
    unfolding st' amt(2) c(3) [symmetric] using m d ne b by (intro supply_effectI) (simp_all add: info_data_def)
  have acc': "accounts = src_info # mint_info # (case approver of None \<Rightarrow> auth # signers | Some i \<Rightarrow> i # auth # signers)"
    "approver = None \<longleftrightarrow> burn = BurnStandard"
    using acc it by (auto simp: result_simps split: burn_variant.splits)
  have appr: "case burn_approver P (ps_tlv mint) of
        None \<Rightarrow> approver = None
      | Some k \<Rightarrow> \<exists>i. approver = Some i \<and> ai_is_signer i \<and> ai_key i = k"
    using perm acc'(2) by (auto simp: check_permissioned_burn_Inr split: option.splits)
  have au: "if is_owned_by_system_program_or_incinerator P (ps_base src) then base = ps_base src
      else debit_allowed P program_id auth signers (get_permanent_delegate P (ps_tlv mint)) amount (ps_base src) st \<and>
           base = debited (ai_key auth) (get_permanent_delegate P (ps_tlv mint)) amount False (ps_base src)"
    using auth by (auto simp: debit_authority_Inr split: if_splits)
  have "unat (m_supply (ps_base mint)) = unat new_supply + unat amount"
    using checked_sub_SomeD [OF su] by simp
  then show ?thesis
    using acc'(1) m d c appr au amt(1) eff by (intro exI conjI) (assumption | simp)+
qed

definition sample_supply_store :: store where
  "sample_supply_store = sample_store
     [(4, token_acct 200 (pod_mint_to_bytes (sample_mint 50))),
      (5, token_acct 200 (pod_account_to_bytes (sample_account 4 30 50 Initialized))),
      (20, empty_acct), (30, empty_acct)]"

lemma sample_supply_store_simps [simp]:
  "sample_supply_store 4 = token_acct 200 (pod_mint_to_bytes (sample_mint 50))"
  "sample_supply_store 5 = token_acct 200 (pod_account_to_bytes (sample_account 4 30 50 Initialized))"
  "sample_supply_store 20 = empty_acct" "sample_supply_store 30 = empty_acct"
  by (simp_all add: sample_supply_store_def)

lemma sample_signer_authorizes:
  assumes "st k = empty_acct" shows "authorizes P program_id k (signer_info k) signers st"
  using assms by (simp add: authorizes_def is_multisig_account_def empty_acct_def MULTISIG_LEN_def)

lemma process_mint_to_correct_witness:
  "\<exists>st'. process_mint_to sample_platform TOKEN_2022_ID [plain_info 4, plain_info 5, signer_info 20] 25
      (VariantChecked 6) sample_supply_store = Inr st' \<and>
    (\<exists>mint dest new_supply dest_amount.
      supply_effect sample_platform (ai_key (plain_info 4)) (ai_key (plain_info 5)) mint new_supply dest
        ((ps_base dest)\<lparr>a_amount := dest_amount\<rparr>) sample_supply_store st')"
  (is "\<exists>st'. ?run = Inr st' \<and> _ st'")
proof -
  have v: "validate_owner sample_platform TOKEN_2022_ID 20 (signer_info 20) 0 [] sample_supply_store = Inr ()"
    using validate_owner_authorizes [of sample_platform TOKEN_2022_ID 20 "signer_info 20" sample_supply_store "[]"]
    by (simp add: sample_signer_authorizes info_data_def empty_acct_def)
  have "\<exists>st'. ?run = Inr st'"
    using v
    by (simp add: process_mint_to_def check_not_paused_def check_decimals_def info_owner_def info_data_def ensure_def
        checked_add_def empty_acct_def)
  then obtain st' where st': "?run = Inr st'" ..
  from process_mint_to_correct [OF this] st' show ?thesis by blast
qed

lemma process_burn_correct_witness:
  "\<exists>st'. process_burn sample_platform TOKEN_2022_ID [plain_info 5, plain_info 4, signer_info 30] 25
      BurnStandard VariantUnchecked sample_supply_store = Inr st' \<and>
    (\<exists>src_info mint_info approver auth signers mint src new_supply base.
      [plain_info 5, plain_info 4, signer_info 30] =
        src_info # mint_info # (case approver of None \<Rightarrow> auth # signers | Some i \<Rightarrow> i # auth # signers) \<and>
      supply_effect sample_platform (ai_key mint_info) (ai_key src_info) mint new_supply src
        (base\<lparr>a_amount := a_amount (ps_base src) - 25\<rparr>) sample_supply_store st')"
  (is "\<exists>st'. ?run = Inr st' \<and> _ st'")
proof -
  have "debit_authority sample_platform TOKEN_2022_ID (signer_info 30) [] None 25 False
      (sample_account 4 30 50 Initialized) sample_supply_store = Inr (sample_account 4 30 50 Initialized)"
    using sample_signer_authorizes [of sample_supply_store 30 sample_platform TOKEN_2022_ID "[]"]
    by (simp add: debit_authority_Inr debit_allowed_def debited_def is_delegate_def)
  moreover have "check_permissioned_burn sample_platform BurnStandard None [] = Inr ()"
    by (simp add: check_permissioned_burn_Inr burn_approver_def)
  moreover have "\<not> is_owned_by_system_program_or_incinerator sample_platform (sample_account 4 30 50 Initialized)"
    by (simp add: is_owned_by_system_program_or_incinerator_def sample_platform_def)
  ultimately have "\<exists>st'. ?run = Inr st'"
    by (simp add: process_burn_def check_not_paused_def check_decimals_def check_cpi_guard_transfer_def
        get_permanent_delegate_def info_owner_def info_data_def ensure_def checked_sub_def)
  then obtain st' where st': "?run = Inr st'" ..
  from process_burn_correct [OF this] st' show ?thesis by blast
qed

end
