(* ===== verification/Single_Ext.thy ===== *)
theory Single_Ext
  imports Views
begin

text \<open>
  Concrete states with exactly one extension, on which the theorems about extension instructions are
  instantiated: the buffer is one entry, so reading and writing that extension compute, and every
  other extension is absent.
\<close>

definition single :: "'s base_state \<Rightarrow> 's \<Rightarrow> 'v extension \<Rightarrow> 'v \<Rightarrow> 's pod_state" where
  "single S b V v =
     \<lparr>ps_base = b, ps_padding = replicate (BASE_ACCOUNT_LENGTH - bs_size S) 0,
      ps_account_type = [account_type_u8 (bs_account_type S)],
      ps_tlv = entry_bytes (vx_type V) (vx_to_bytes V v)\<rparr>"

lemma single_simps [simp]:
  "ps_base (single S b V v) = b" "ps_tlv (single S b V v) = entry_bytes (vx_type V) (vx_to_bytes V v)"
  "(single S b V v)\<lparr>ps_base := b'\<rparr> = single S b' V v"
  "(single S b V v)\<lparr>ps_tlv := entry_bytes (vx_type V) (vx_to_bytes V v')\<rparr> = single S b V v'"
  by (simp_all add: single_def)

lemma entry_header:
  "read_u16 (entry_bytes T v) 0 = ext_code T"
  "length v < 2 ^ 16 \<Longrightarrow> read_u16 (entry_bytes T v) (Suc (Suc 0)) = length v"
proof -
  have p: "patch 0 (entry_bytes T v) (entry_bytes T v) = entry_bytes T v"
    by (simp add: patch_def)
  show "read_u16 (entry_bytes T v) 0 = ext_code T"
    using read_u16_entry(1) [of 0 v "entry_bytes T v" T] by (simp add: p)
  show "length v < 2 ^ 16 \<Longrightarrow> read_u16 (entry_bytes T v) (Suc (Suc 0)) = length v"
    using read_u16_entry(2) [of 0 v "entry_bytes T v" T] by (simp add: p)
qed

lemma entry_indices: "get_extension_indices T init (entry_bytes T v) 0 = Inr (get_tlv_indices 0)"
  by (subst get_extension_indices.simps) (simp add: Let_def entry_header)

lemma entry_indices_other:
  assumes "W \<noteq> T" and "T \<noteq> ExtUninitialized" and "length v < 2 ^ 16"
  shows "get_extension_indices W init (entry_bytes T v) 0 = Inl InvalidAccountData"
  using assms
  by (subst get_extension_indices.simps, simp add: Let_def entry_header ext_code_inject,
      subst get_extension_indices.simps, simp)

lemma entry_range:
  assumes "length v < 2 ^ 16" and "get_account_type T = at"
  shows "get_extension_range at T (entry_bytes T v) = Inr (4, length v)"
  using assms entry_header(2) [of v T] by (simp add: get_extension_range_def entry_indices Let_def)

lemma no_get_other:
  assumes "vx_type W \<noteq> T" and "T \<noteq> ExtUninitialized" and "length v < 2 ^ 16"
  shows "get_extension at W (entry_bytes T v) = Inl InvalidAccountData"
  using entry_indices_other [OF assms(1,2,3)]
  by (simp add: get_extension_def get_extension_bytes_def get_extension_range_def)

lemma patch_entry: "length w = length v \<Longrightarrow> patch 4 w (entry_bytes T v) = entry_bytes T w"
  by (simp add: entry_bytes_def extension_type_to_bytes_def patch_def)

context extension_contract
begin

lemma get_entry:
  assumes "vx_len V < 2 ^ 16" and "get_account_type (vx_type V) = at"
  shows "get_extension at V (entry_bytes (vx_type V) (vx_to_bytes V v)) = Inr v"
  using assms entry_range [of "vx_to_bytes V v" "vx_type V" at]
  by (simp add: get_extension_def get_extension_bytes_def length_to_bytes of_to_bytes
      seg_entry_bytes(3) [of "vx_to_bytes V v", unfolded length_to_bytes])

lemma put_entry:
  assumes "vx_len V < 2 ^ 16" and "get_account_type (vx_type V) = at"
  shows "put_extension at V v' (entry_bytes (vx_type V) (vx_to_bytes V v)) =
    Inr (entry_bytes (vx_type V) (vx_to_bytes V v'))"
  using assms entry_range [of "vx_to_bytes V v" "vx_type V" at]
  by (simp add: put_extension_def put_extension_bytes_def length_to_bytes patch_entry)

end

lemma unpack_single [simp]:
  assumes "bs_is_initialized (mint_base P) b" and "length (vx_to_bytes V v) \<noteq> 185"
  shows "unpack (mint_base P) (state_bytes (mint_base P) (single (mint_base P) b V v)) = Inr (single (mint_base P) b V v)"
    and "unpack_ref (mint_base P) (state_bytes (mint_base P) (single (mint_base P) b V v)) =
      Inr (b, entry_bytes (vx_type V) (vx_to_bytes V v))"
proof -
  show "unpack (mint_base P) (state_bytes (mint_base P) (single (mint_base P) b V v)) = Inr (single (mint_base P) b V v)"
    using assms
    by (simp add: mint_st.unpack_iff wf_state_def layout_ok_def mint_st.length_state_bytes)
      (simp add: single_def MINT_LEN_def BASE_ACCOUNT_LENGTH_def MULTISIG_LEN_def ACCOUNT_LEN_def)
  then show "unpack_ref (mint_base P) (state_bytes (mint_base P) (single (mint_base P) b V v)) =
      Inr (b, entry_bytes (vx_type V) (vx_to_bytes V v))"
    by (simp add: mint_st.unpack_ref_eq)
qed

lemma unpack_single_account [simp]:
  assumes "pod_account_is_initialized b" and "length (vx_to_bytes V v) \<noteq> 185"
  shows "unpack account_base (state_bytes account_base (single account_base b V v)) = Inr (single account_base b V v)"
    and "unpack_ref account_base (state_bytes account_base (single account_base b V v)) =
      Inr (b, entry_bytes (vx_type V) (vx_to_bytes V v))"
proof -
  show "unpack account_base (state_bytes account_base (single account_base b V v)) = Inr (single account_base b V v)"
    using assms
    by (simp add: account_st.unpack_iff wf_state_def layout_ok_def account_st.length_state_bytes)
      (simp add: single_def ACCOUNT_LEN_def BASE_ACCOUNT_LENGTH_def MULTISIG_LEN_def)
  then show "unpack_ref account_base (state_bytes account_base (single account_base b V v)) =
      Inr (b, entry_bytes (vx_type V) (vx_to_bytes V v))"
    by (simp add: account_st.unpack_ref_eq)
qed

lemma mint_not_account [simp]:
  assumes "pod_mint_is_initialized P b" and "length (vx_to_bytes V v) \<noteq> 185"
  shows "\<exists>e. unpack account_base (state_bytes (mint_base P) (single (mint_base P) b V v)) = Inl e"
  using assms by (intro mint_account_disjoint [OF unpack_single(1)]) simp_all

end
