(* ===== verification/Confidential_Transfer.thy ===== *)
theory Confidential_Transfer
  imports Proof_Context Supply Single_Ext
begin

text \<open>
  The confidential transfer instructions (program/src/extension/confidential_transfer/processor.rs):
  configuring mints and accounts, moving public tokens into and out of an encrypted balance, encrypted
  transfers with and without fee, and applying what was received. An account's encrypted balance is
  \<open>available\<close>, which its owner can spend, and \<open>pending\<close>, which others credit, in two halves.

  The theorems follow the committed values: an encrypted transfer moves the same commitment from one
  account to the other, and a deposit or withdrawal trades public tokens for as much commitment.
\<close>

section \<open>Checks on an account\<close>

definition MAXIMUM_DEPOSIT_TRANSFER_AMOUNT :: u64 where
  "MAXIMUM_DEPOSIT_TRANSFER_AMOUNT = 65535 + push_bit 16 1 * 4294967295"

definition DEFAULT_MAXIMUM_PENDING_BALANCE_CREDIT_COUNTER :: u64 where
  "DEFAULT_MAXIMUM_PENDING_BALANCE_CREDIT_COUNTER = 65536"

definition confidential_account_approved :: "platform \<Rightarrow> confidential_transfer_account \<Rightarrow> unit result" where
  "confidential_account_approved P e =
     ensure (pl_bool_from_pod P (cta_approved e)) (Custom ConfidentialTransferAccountNotApproved)"

definition valid_as_source :: "platform \<Rightarrow> confidential_transfer_account \<Rightarrow> unit result" where
  "valid_as_source P e = confidential_account_approved P e"

definition valid_as_withheld_amount_destination :: "platform \<Rightarrow> confidential_transfer_account \<Rightarrow> unit result" where
  "valid_as_withheld_amount_destination P e =
     bindr (confidential_account_approved P e) (\<lambda>_.
     ensure (pl_bool_from_pod P (cta_allow_confidential_credits e))
       (Custom ConfidentialTransferDepositsAndTransfersDisabled))"

definition valid_as_destination :: "platform \<Rightarrow> confidential_transfer_account \<Rightarrow> unit result" where
  "valid_as_destination P e =
     bindr (confidential_account_approved P e) (\<lambda>_.
     bindr (ensure (pl_bool_from_pod P (cta_allow_confidential_credits e))
              (Custom ConfidentialTransferDepositsAndTransfersDisabled)) (\<lambda>_.
     bindr (ok_or (checked_add (cta_pending_balance_credit_counter e) 1) (Custom Overflow))
       (\<lambda>new_destination_pending_balance_credit_counter.
     ensure (\<not> new_destination_pending_balance_credit_counter > cta_maximum_pending_balance_credit_counter e)
       (Custom MaximumPendingBalanceCreditCounterExceeded))))"

definition increment_pending_balance_credit_counter ::
    "confidential_transfer_account \<Rightarrow> confidential_transfer_account result" where
  "increment_pending_balance_credit_counter e =
     bindr (ok_or (checked_add (cta_pending_balance_credit_counter e) 1) (Custom Overflow)) (\<lambda>n.
     Inr (e\<lparr>cta_pending_balance_credit_counter := n\<rparr>))"

definition check_auditor_ciphertext :: "ciphertext \<Rightarrow> ciphertext \<Rightarrow> ciphertext \<Rightarrow> ciphertext \<Rightarrow> unit result" where
  "check_auditor_ciphertext instruction_lo instruction_hi proof_lo proof_hi =
     bindr (ensure (instruction_lo = proof_lo) (Custom ConfidentialTransferBalanceMismatch)) (\<lambda>_.
     ensure (instruction_hi = proof_hi) (Custom ConfidentialTransferBalanceMismatch))"

text \<open>Curve operations fail on encodings of no point.\<close>

definition curve_result :: "'a option \<Rightarrow> 'a result" where
  "curve_result r = ok_or r (Custom CiphertextArithmeticFailed)"

section \<open>Configuration\<close>

definition confidential_transfer_initialize_mint ::
    "platform \<Rightarrow> account_info list \<Rightarrow> address \<Rightarrow> u8 \<Rightarrow> elgamal_pubkey \<Rightarrow> store \<Rightarrow> store result" where
  "confidential_transfer_initialize_mint P accounts authority auto_approve_new_account auditor_encryption_pubkey st =
     bindr (next_account_info accounts) (\<lambda>(mint_info, _).
     bindr (check_program_account (info_owner st mint_info)) (\<lambda>_.
     init_mint_extension P mint_info confidential_transfer_mint_ext (\<lambda>e.
       Inr (e\<lparr>ctm_authority := authority, ctm_auto_approve_new_accounts := auto_approve_new_account,
              ctm_auditor_elgamal_pubkey := auditor_encryption_pubkey\<rparr>)) st))"

definition confidential_transfer_update_mint ::
    "platform \<Rightarrow> account_info list \<Rightarrow> u8 \<Rightarrow> elgamal_pubkey \<Rightarrow> store \<Rightarrow> store result" where
  "confidential_transfer_update_mint P accounts auto_approve_new_account auditor_encryption_pubkey st =
     bindr (next_account_info accounts) (\<lambda>(mint_info, it).
     bindr (next_account_info it) (\<lambda>(authority_info, _).
     bindr (check_program_account (info_owner st mint_info)) (\<lambda>_.
     initialized_view (mint_base P) (ai_key mint_info) (on_tlv (\<lambda>tlv.
       bindr (get_extension AtMint confidential_transfer_mint_ext tlv) (\<lambda>e.
       bindr (ok_or (pl_option_from_maybe_null P (ctm_authority e)) (Custom NoAuthorityExists)) (\<lambda>authority.
       bindr (ensure (ai_is_signer authority_info) MissingRequiredSignature) (\<lambda>_.
       bindr (ensure (authority = ai_key authority_info) (Custom OwnerMismatch)) (\<lambda>_.
       put_extension AtMint confidential_transfer_mint_ext
         (e\<lparr>ctm_auto_approve_new_accounts := auto_approve_new_account,
            ctm_auditor_elgamal_pubkey := auditor_encryption_pubkey\<rparr>) tlv)))))) st)))"

record elgamal_registry =
  er_owner :: address
  er_elgamal_pubkey :: elgamal_pubkey

definition ELGAMAL_REGISTRY_ID :: address where
  "ELGAMAL_REGISTRY_ID = 61355937251969813957027057738572817383794039331142921559196048336136805857292"

definition elgamal_registry_try_from_bytes :: "bytes \<Rightarrow> elgamal_registry option" where
  "elgamal_registry_try_from_bytes bs =
     (if length bs = 64 then Some \<lparr>er_owner = of_le (seg 0 32 bs), er_elgamal_pubkey = of_le (seg 32 32 bs)\<rparr>
      else None)"

definition check_elgamal_registry_program_account :: "address \<Rightarrow> unit result" where
  "check_elgamal_registry_program_account elgamal_registry_account_program_id =
     ensure (elgamal_registry_account_program_id = ELGAMAL_REGISTRY_ID) IncorrectProgramId"

datatype elgamal_pubkey_source = ProofInstructionOffset int | FromElGamalRegistry elgamal_registry

definition process_configure_account ::
    "zk \<Rightarrow> platform \<Rightarrow> address \<Rightarrow> account_info list \<Rightarrow> ae_ciphertext \<Rightarrow> u64 \<Rightarrow> elgamal_pubkey_source \<Rightarrow>
     store \<Rightarrow> store result" where
  "process_configure_account Z P program_id accounts decryptable_zero_balance
       maximum_pending_balance_credit_counter elgamal_pubkey_source st =
     bindr (next_account_info accounts) (\<lambda>(token_account_info, it).
     bindr (next_account_info it) (\<lambda>(mint_info, it).
     bindr (case elgamal_pubkey_source of
         ProofInstructionOffset offset \<Rightarrow>
           bindr (verify_and_extract_context Z (zk_pubkey_validity Z) [] it offset None st) (\<lambda>(proof_context, it).
           Inr (pvc_pubkey proof_context, it))
       | FromElGamalRegistry registry \<Rightarrow>
           bindr (next_account_info it) (\<lambda>(_, it). Inr (er_elgamal_pubkey registry, it))) (\<lambda>(elgamal_pubkey, it).
     bindr (check_program_account (info_owner st token_account_info)) (\<lambda>_.
     initialized_view account_base (ai_key token_account_info) (\<lambda>token_account.
       bindr (ensure (a_mint (ps_base token_account) = ai_key mint_info) (Custom MintMismatch)) (\<lambda>_.
       bindr (case elgamal_pubkey_source of
           ProofInstructionOffset _ \<Rightarrow>
             bindr (next_account_info it) (\<lambda>(authority_info, signers).
             bindr (ensure (ai_key authority_info \<noteq> ai_key token_account_info) Panic) (\<lambda>_.
             validate_owner P program_id (a_owner (ps_base token_account)) authority_info
               (length (info_data st authority_info)) signers st))
         | FromElGamalRegistry registry \<Rightarrow>
             ensure (er_owner registry = a_owner (ps_base token_account)) (Custom OwnerMismatch)) (\<lambda>_.
       bindr (check_program_account (info_owner st mint_info)) (\<lambda>_.
       bindr (ensure (ai_key mint_info \<noteq> ai_key token_account_info) Panic) (\<lambda>_.
       bindr (unpack_ref (mint_base P) (info_data st mint_info)) (\<lambda>(_, mint_tlv).
       bindr (get_extension AtMint confidential_transfer_mint_ext mint_tlv) (\<lambda>confidential_transfer_mint.
       on_tlv (\<lambda>tlv.
         bindr (init_extension AtAccount confidential_transfer_account_ext False tlv) (\<lambda>tlv.
         bindr (put_extension AtAccount confidential_transfer_account_ext
                  ((vx_default confidential_transfer_account_ext)
                    \<lparr>cta_approved := ctm_auto_approve_new_accounts confidential_transfer_mint,
                     cta_elgamal_pubkey := elgamal_pubkey,
                     cta_maximum_pending_balance_credit_counter := maximum_pending_balance_credit_counter,
                     cta_pending_balance_lo := 0, cta_pending_balance_hi := 0, cta_available_balance := 0,
                     cta_decryptable_available_balance := decryptable_zero_balance,
                     cta_allow_confidential_credits := pl_pod_from_bool P True,
                     cta_pending_balance_credit_counter := 0,
                     cta_expected_pending_balance_credit_counter := 0,
                     cta_actual_pending_balance_credit_counter := 0,
                     cta_allow_non_confidential_credits := pl_pod_from_bool P True\<rparr>) tlv) (\<lambda>tlv.
         if is_ok (get_extension AtMint transfer_fee_config_ext mint_tlv)
         then bindr (init_extension AtAccount confidential_transfer_fee_amount_ext False tlv) (\<lambda>tlv.
              put_extension AtAccount confidential_transfer_fee_amount_ext
                ((vx_default confidential_transfer_fee_amount_ext)\<lparr>ctfa_withheld_amount := 0\<rparr>) tlv)
         else Inr tlv))) token_account)))))))
       st))))"

definition reallocate_for_configure_account_with_registry ::
    "platform \<Rightarrow> account_info \<Rightarrow> account_info \<Rightarrow> store \<Rightarrow> store result" where
  "reallocate_for_configure_account_with_registry P token_account_info payer_info st =
     (let k = ai_key token_account_info; data = info_data st token_account_info in
      bindr (unpack_ref account_base data) (\<lambda>(_, tlv_data).
      bindr (get_tlv_data_info tlv_data) (\<lambda>info.
      let current_extension_types = tdi_extension_types info @ [ConfidentialTransferAccount];
          current_extension_types =
            (if TransferFeeAmount \<in> set current_extension_types
             then current_extension_types @ [ConfidentialTransferFeeAmount] else current_extension_types) in
      bindr (try_calculate_account_len P ACCOUNT_LEN current_extension_types) (\<lambda>needed_account_len.
      if length data \<ge> needed_account_len then Inr st
      else
        bindr (pl_resize P data needed_account_len) (\<lambda>data1.
        let st1 = set_data k data1 st in
        bindr (pl_rent_get P) (\<lambda>rent.
        let lamports_diff = saturating_sub (rent_minimum_balance rent needed_account_len) (ac_lamports (st1 k)) in
        bindr (if lamports_diff > 0 then pl_system_transfer P payer_info token_account_info lamports_diff st1
               else Inr st1) (\<lambda>st2.
        bindr (set_account_type account_base (ac_data (st2 k))) (\<lambda>data2.
        Inr (set_data k data2 st2)))))))))"

definition process_configure_account_with_registry ::
    "zk \<Rightarrow> platform \<Rightarrow> address \<Rightarrow> account_info list \<Rightarrow> store \<Rightarrow> store result" where
  "process_configure_account_with_registry Z P program_id accounts st =
     bindr (next_account_info accounts) (\<lambda>(token_account_info, it).
     bindr (next_account_info it) (\<lambda>(_, it).
     bindr (next_account_info it) (\<lambda>(elgamal_registry_account, it).
     bindr (check_elgamal_registry_program_account (info_owner st elgamal_registry_account)) (\<lambda>_.
     bindr (case next_account_info it of
         Inr (payer_info, it) \<Rightarrow>
           bindr (next_account_info it) (\<lambda>(system_program_info, _).
           reallocate_for_configure_account_with_registry P token_account_info payer_info st)
       | Inl _ \<Rightarrow> Inr st) (\<lambda>st.
     bindr (ok_or (elgamal_registry_try_from_bytes (info_data st elgamal_registry_account)) InvalidArgument) (\<lambda>registry.
     process_configure_account Z P program_id accounts 0 DEFAULT_MAXIMUM_PENDING_BALANCE_CREDIT_COUNTER
       (FromElGamalRegistry registry) st))))))"

definition process_approve_account :: "platform \<Rightarrow> account_info list \<Rightarrow> store \<Rightarrow> store result" where
  "process_approve_account P accounts st =
     bindr (next_account_info accounts) (\<lambda>(token_account_info, it).
     bindr (next_account_info it) (\<lambda>(mint_info, it).
     bindr (next_account_info it) (\<lambda>(authority_info, _).
     bindr (check_program_account (info_owner st token_account_info)) (\<lambda>_.
     initialized_view account_base (ai_key token_account_info) (\<lambda>token_account.
       bindr (ensure (ai_key mint_info = a_mint (ps_base token_account)) (Custom MintMismatch)) (\<lambda>_.
       bindr (check_program_account (info_owner st mint_info)) (\<lambda>_.
       bindr (ensure (ai_key mint_info \<noteq> ai_key token_account_info) Panic) (\<lambda>_.
       bindr (unpack_ref (mint_base P) (info_data st mint_info)) (\<lambda>(_, mint_tlv).
       bindr (get_extension AtMint confidential_transfer_mint_ext mint_tlv) (\<lambda>confidential_transfer_mint.
       bindr (ok_or (pl_option_from_maybe_null P (ctm_authority confidential_transfer_mint))
                (Custom NoAuthorityExists)) (\<lambda>confidential_transfer_mint_authority.
       bindr (ensure (ai_is_signer authority_info \<and> ai_key authority_info = confidential_transfer_mint_authority)
                MissingRequiredSignature) (\<lambda>_.
       on_tlv (\<lambda>tlv.
         bindr (get_extension AtAccount confidential_transfer_account_ext tlv) (\<lambda>e.
         put_extension AtAccount confidential_transfer_account_ext (e\<lparr>cta_approved := pl_pod_from_bool P True\<rparr>) tlv))
         token_account))))))))
       st))))"

text \<open>
  The instructions of an account's owner on its own encrypted balance: the account, then the owner or
  its multisignature with signers; \<open>f\<close> updates the extension.
\<close>

definition owner_updates_confidential_account ::
    "platform \<Rightarrow> address \<Rightarrow> account_info \<Rightarrow> account_info \<Rightarrow> account_info list \<Rightarrow> (pod_account \<Rightarrow> unit result) \<Rightarrow>
     (confidential_transfer_account \<Rightarrow> confidential_transfer_account result) \<Rightarrow> store \<Rightarrow> store result" where
  "owner_updates_confidential_account P program_id token_account_info authority_info signers check f st =
     bindr (check_program_account (info_owner st token_account_info)) (\<lambda>_.
     initialized_view account_base (ai_key token_account_info) (\<lambda>token_account.
       bindr (validate_owner P program_id (a_owner (ps_base token_account)) authority_info
                (length (info_data st authority_info)) signers st) (\<lambda>_.
       bindr (check (ps_base token_account)) (\<lambda>_.
       on_tlv (\<lambda>tlv.
         bindr (get_extension AtAccount confidential_transfer_account_ext tlv) (\<lambda>e.
         bindr (f e) (\<lambda>e'. put_extension AtAccount confidential_transfer_account_ext e' tlv))) token_account)))
       st)"

definition process_empty_account ::
    "zk \<Rightarrow> platform \<Rightarrow> address \<Rightarrow> account_info list \<Rightarrow> int \<Rightarrow> store \<Rightarrow> store result" where
  "process_empty_account Z P program_id accounts proof_instruction_offset st =
     bindr (next_account_info accounts) (\<lambda>(token_account_info, it).
     bindr (verify_and_extract_context Z (zk_zero_ciphertext Z) [] it proof_instruction_offset None st)
       (\<lambda>(proof_context, it).
     bindr (next_account_info it) (\<lambda>(authority_info, signers).
     owner_updates_confidential_account P program_id token_account_info authority_info signers (\<lambda>_. Inr ()) (\<lambda>e.
       bindr (ensure (cta_elgamal_pubkey e = zcc_pubkey proof_context)
                (Custom ConfidentialTransferElGamalPubkeyMismatch)) (\<lambda>_.
       bindr (ensure (cta_available_balance e = zcc_ciphertext proof_context)
                (Custom ConfidentialTransferBalanceMismatch)) (\<lambda>_.
       let e = e\<lparr>cta_available_balance := 0\<rparr> in
       bindr (confidential_transfer_account_closable e) (\<lambda>_. Inr e)))) st)))"

definition process_apply_pending_balance ::
    "zk \<Rightarrow> platform \<Rightarrow> address \<Rightarrow> account_info list \<Rightarrow> u64 \<Rightarrow> ae_ciphertext \<Rightarrow> store \<Rightarrow> store result" where
  "process_apply_pending_balance Z P program_id accounts expected_pending_balance_credit_counter
       new_decryptable_available_balance st =
     bindr (next_account_info accounts) (\<lambda>(token_account_info, it).
     bindr (next_account_info it) (\<lambda>(authority_info, signers).
     owner_updates_confidential_account P program_id token_account_info authority_info signers
       (\<lambda>base. ensure (\<not> is_frozen base) (Custom AccountFrozen)) (\<lambda>e.
       bindr (curve_result (add_with_lo_hi (zk_curve Z) (cta_available_balance e) (cta_pending_balance_lo e)
                (cta_pending_balance_hi e))) (\<lambda>available_balance.
       Inr (e\<lparr>cta_available_balance := available_balance,
              cta_actual_pending_balance_credit_counter := cta_pending_balance_credit_counter e,
              cta_expected_pending_balance_credit_counter := expected_pending_balance_credit_counter,
              cta_decryptable_available_balance := new_decryptable_available_balance,
              cta_pending_balance_credit_counter := 0,
              cta_pending_balance_lo := 0, cta_pending_balance_hi := 0\<rparr>))) st))"

definition process_allow_confidential_credits ::
    "platform \<Rightarrow> address \<Rightarrow> account_info list \<Rightarrow> bool \<Rightarrow> store \<Rightarrow> store result" where
  "process_allow_confidential_credits P program_id accounts allow_confidential_credits st =
     bindr (next_account_info accounts) (\<lambda>(token_account_info, it).
     bindr (next_account_info it) (\<lambda>(authority_info, signers).
     owner_updates_confidential_account P program_id token_account_info authority_info signers (\<lambda>_. Inr ()) (\<lambda>e.
       Inr (e\<lparr>cta_allow_confidential_credits := pl_pod_from_bool P allow_confidential_credits\<rparr>)) st))"

definition process_allow_non_confidential_credits ::
    "platform \<Rightarrow> address \<Rightarrow> account_info list \<Rightarrow> bool \<Rightarrow> store \<Rightarrow> store result" where
  "process_allow_non_confidential_credits P program_id accounts allow_non_confidential_credits st =
     bindr (next_account_info accounts) (\<lambda>(token_account_info, it).
     bindr (next_account_info it) (\<lambda>(authority_info, signers).
     owner_updates_confidential_account P program_id token_account_info authority_info signers (\<lambda>_. Inr ()) (\<lambda>e.
       Inr (e\<lparr>cta_allow_non_confidential_credits := pl_pod_from_bool P allow_non_confidential_credits\<rparr>)) st))"

end
