(* ===== verification/Confidential_Balance.thy ===== *)
theory Confidential_Balance
  imports Confidential_Transfer
begin

text \<open>
  The instructions that move value into, out of and between encrypted balances
  (program/src/extension/confidential_transfer/processor.rs): deposits, withdrawals, and transfers
  with and without fee. The program never sees an encrypted amount. It adds and subtracts ciphertexts
  and compares the result with the one a proof speaks of.
\<close>

section \<open>Deposits and withdrawals\<close>

definition verify_and_split_deposit_amount :: "u64 \<Rightarrow> (u64 \<times> u64) result" where
  "verify_and_split_deposit_amount amount =
     (if amount > MAXIMUM_DEPOSIT_TRANSFER_AMOUNT then Inl (Custom MaximumDepositAmountExceeded)
      else Inr (and amount 65535, drop_bit 16 amount))"

definition check_public_account ::
    "platform \<Rightarrow> address \<Rightarrow> account_info \<Rightarrow> account_info \<Rightarrow> account_info list \<Rightarrow> pod_account pod_state \<Rightarrow>
     store \<Rightarrow> unit result" where
  "check_public_account P program_id mint_info authority_info signers token_account st =
     bindr (ensure (\<not> is_ok (get_extension AtAccount non_transferable_account_ext (ps_tlv token_account)))
              (Custom NonTransferableError)) (\<lambda>_.
     bindr (validate_owner P program_id (a_owner (ps_base token_account)) authority_info
              (length (info_data st authority_info)) signers st) (\<lambda>_.
     bindr (ensure (\<not> is_frozen (ps_base token_account)) (Custom AccountFrozen)) (\<lambda>_.
     bindr (ensure (a_mint (ps_base token_account) = ai_key mint_info) (Custom MintMismatch)) (\<lambda>_.
     ensure (\<not> is_native (ps_base token_account)) (Custom NativeNotSupported)))))"

definition process_deposit ::
    "zk \<Rightarrow> platform \<Rightarrow> address \<Rightarrow> account_info list \<Rightarrow> u64 \<Rightarrow> u8 \<Rightarrow> store \<Rightarrow> store result" where
  "process_deposit Z P program_id accounts amount expected_decimals st =
     bindr (next_account_info accounts) (\<lambda>(token_account_info, it).
     bindr (next_account_info it) (\<lambda>(mint_info, it).
     bindr (next_account_info it) (\<lambda>(authority_info, signers).
     bindr (check_program_account (info_owner st mint_info)) (\<lambda>_.
     bindr (unpack_ref (mint_base P) (info_data st mint_info)) (\<lambda>(mint, mint_tlv).
     bindr (check_not_paused P mint_tlv) (\<lambda>_.
     bindr (ensure (expected_decimals = m_decimals mint) (Custom MintDecimalsMismatch)) (\<lambda>_.
     bindr (ensure (\<not> is_ok (get_extension AtMint confidential_mint_burn_ext mint_tlv))
              (Custom IllegalMintBurnConversion)) (\<lambda>_.
     bindr (check_program_account (info_owner st token_account_info)) (\<lambda>_.
     bindr (ensure (ai_key token_account_info \<noteq> ai_key mint_info) Panic) (\<lambda>_.
     initialized_view account_base (ai_key token_account_info) (\<lambda>token_account.
       bindr (check_public_account P program_id mint_info authority_info signers token_account st) (\<lambda>_.
       bindr (ok_or (checked_sub (a_amount (ps_base token_account)) amount) (Custom Overflow)) (\<lambda>new_amount.
       bindr (get_extension AtAccount confidential_transfer_account_ext (ps_tlv token_account)) (\<lambda>e.
       bindr (valid_as_destination P e) (\<lambda>_.
       bindr (verify_and_split_deposit_amount amount) (\<lambda>(amount_lo, amount_hi).
       bindr (curve_result (add_to_with_offset (zk_curve Z) (cta_elgamal_pubkey e) (cta_pending_balance_lo e) amount_lo)) (\<lambda>lo.
       bindr (curve_result (add_to_with_offset (zk_curve Z) (cta_elgamal_pubkey e) (cta_pending_balance_hi e) amount_hi)) (\<lambda>hi.
       bindr (increment_pending_balance_credit_counter
                (e\<lparr>cta_pending_balance_lo := lo, cta_pending_balance_hi := hi\<rparr>)) (\<lambda>e.
       bindr (put_extension AtAccount confidential_transfer_account_ext e (ps_tlv token_account)) (\<lambda>tlv.
       Inr (token_account\<lparr>ps_base := (ps_base token_account)\<lparr>a_amount := new_amount\<rparr>, ps_tlv := tlv\<rparr>))))))))))
       ) st))))))))))"

definition process_withdraw ::
    "zk \<Rightarrow> platform \<Rightarrow> address \<Rightarrow> account_info list \<Rightarrow> u64 \<Rightarrow> u8 \<Rightarrow> ae_ciphertext \<Rightarrow> int \<Rightarrow> int \<Rightarrow>
     store \<Rightarrow> store result" where
  "process_withdraw Z P program_id accounts amount expected_decimals new_decryptable_available_balance
       equality_proof_instruction_offset range_proof_instruction_offset st =
     bindr (next_account_info accounts) (\<lambda>(token_account_info, it).
     bindr (next_account_info it) (\<lambda>(mint_info, it).
     bindr (verify_withdraw_proof Z it equality_proof_instruction_offset range_proof_instruction_offset st)
       (\<lambda>(proof_context, it).
     bindr (next_account_info it) (\<lambda>(authority_info, signers).
     bindr (check_program_account (info_owner st mint_info)) (\<lambda>_.
     bindr (unpack_ref (mint_base P) (info_data st mint_info)) (\<lambda>(mint, mint_tlv).
     bindr (ensure (expected_decimals = m_decimals mint) (Custom MintDecimalsMismatch)) (\<lambda>_.
     bindr (ensure (\<not> is_ok (get_extension AtMint confidential_mint_burn_ext mint_tlv))
              (Custom IllegalMintBurnConversion)) (\<lambda>_.
     bindr (check_not_paused P mint_tlv) (\<lambda>_.
     bindr (check_program_account (info_owner st token_account_info)) (\<lambda>_.
     bindr (ensure (ai_key token_account_info \<noteq> ai_key mint_info) Panic) (\<lambda>_.
     initialized_view account_base (ai_key token_account_info) (\<lambda>token_account.
       bindr (check_public_account P program_id mint_info authority_info signers token_account st) (\<lambda>_.
       bindr (get_extension AtAccount confidential_transfer_account_ext (ps_tlv token_account)) (\<lambda>e.
       bindr (valid_as_source P e) (\<lambda>_.
       bindr (ensure (cta_elgamal_pubkey e = wp_source_pubkey proof_context)
                (Custom ConfidentialTransferElGamalPubkeyMismatch)) (\<lambda>_.
       bindr (if amount > 0 then curve_result (subtract_from (zk_curve Z) (cta_available_balance e) amount)
              else Inr (cta_available_balance e)) (\<lambda>available_balance.
       bindr (ensure (available_balance = wp_remaining_balance_ciphertext proof_context)
                (Custom ConfidentialTransferBalanceMismatch)) (\<lambda>_.
       bindr (put_extension AtAccount confidential_transfer_account_ext
                (e\<lparr>cta_available_balance := available_balance,
                   cta_decryptable_available_balance := new_decryptable_available_balance\<rparr>) (ps_tlv token_account)) (\<lambda>tlv.
       bindr (ok_or (checked_add (a_amount (ps_base token_account)) amount) (Custom Overflow)) (\<lambda>new_amount.
       Inr (token_account\<lparr>ps_base := (ps_base token_account)\<lparr>a_amount := new_amount\<rparr>, ps_tlv := tlv\<rparr>)))))))))) st)))))))))))"

section \<open>Transfers\<close>

text \<open>
  The sender's side, the same for both kinds of transfer: \<open>source_pubkey\<close>, the grouped amounts and
  \<open>new_source_ciphertext\<close> come from the proof context. The mint is borrowed during the transfer.
\<close>

definition debit_confidential_source ::
    "zk \<Rightarrow> platform \<Rightarrow> address \<Rightarrow> account_info \<Rightarrow> account_info \<Rightarrow> account_info \<Rightarrow> account_info list \<Rightarrow>
     elgamal_pubkey \<Rightarrow> grouped_ciphertext \<Rightarrow> grouped_ciphertext \<Rightarrow> ciphertext \<Rightarrow> ae_ciphertext \<Rightarrow> store \<Rightarrow> store result" where
  "debit_confidential_source Z P program_id source_account_info mint_info authority_info signers
       source_pubkey ciphertext_lo ciphertext_hi new_source_ciphertext new_source_decryptable_available_balance st =
     bindr (check_program_account (info_owner st source_account_info)) (\<lambda>_.
     bindr (ensure (ai_key authority_info \<noteq> ai_key mint_info) Panic) (\<lambda>_.
     bindr (ensure (ai_key source_account_info \<noteq> ai_key mint_info) Panic) (\<lambda>_.
     initialized_view account_base (ai_key source_account_info) (\<lambda>token_account.
       bindr (ensure (\<not> is_ok (get_extension AtAccount non_transferable_account_ext (ps_tlv token_account)))
                (Custom NonTransferableError)) (\<lambda>_.
       bindr (validate_owner P program_id (a_owner (ps_base token_account)) authority_info
                (length (info_data st authority_info)) signers st) (\<lambda>_.
       bindr (check_cpi_guard_transfer P authority_info token_account (Custom CpiGuardTransferBlocked)) (\<lambda>_.
       bindr (ensure (\<not> is_frozen (ps_base token_account)) (Custom AccountFrozen)) (\<lambda>_.
       bindr (ensure (a_mint (ps_base token_account) = ai_key mint_info) (Custom MintMismatch)) (\<lambda>_.
       on_tlv (\<lambda>tlv.
         bindr (get_extension AtAccount confidential_transfer_account_ext tlv) (\<lambda>e.
         bindr (valid_as_source P e) (\<lambda>_.
         bindr (ensure (source_pubkey = cta_elgamal_pubkey e)
                  (Custom ConfidentialTransferElGamalPubkeyMismatch)) (\<lambda>_.
         bindr (extraction_result (pod_transfer_amount_try_extract Z ciphertext_lo 0)) (\<lambda>source_transfer_amount_lo.
         bindr (extraction_result (pod_transfer_amount_try_extract Z ciphertext_hi 0)) (\<lambda>source_transfer_amount_hi.
         bindr (curve_result (subtract_with_lo_hi (zk_curve Z) (cta_available_balance e)
                  source_transfer_amount_lo source_transfer_amount_hi)) (\<lambda>new_source_available_balance.
         bindr (ensure (new_source_available_balance = new_source_ciphertext)
                  (Custom ConfidentialTransferBalanceMismatch)) (\<lambda>_.
         put_extension AtAccount confidential_transfer_account_ext
           (e\<lparr>cta_available_balance := new_source_available_balance,
              cta_decryptable_available_balance := new_source_decryptable_available_balance\<rparr>) tlv)))))))) token_account)))))) st)))"

definition process_source_for_transfer ::
    "zk \<Rightarrow> platform \<Rightarrow> address \<Rightarrow> account_info \<Rightarrow> account_info \<Rightarrow> account_info \<Rightarrow> account_info list \<Rightarrow>
     transfer_proof_context \<Rightarrow> ae_ciphertext \<Rightarrow> store \<Rightarrow> store result" where
  "process_source_for_transfer Z P program_id source_account_info mint_info authority_info signers proof_context =
     debit_confidential_source Z P program_id source_account_info mint_info authority_info signers
       (tp_source proof_context) (tp_ciphertext_lo proof_context) (tp_ciphertext_hi proof_context)
       (tp_new_source_ciphertext proof_context)"

definition process_source_for_transfer_with_fee ::
    "zk \<Rightarrow> platform \<Rightarrow> address \<Rightarrow> account_info \<Rightarrow> account_info \<Rightarrow> account_info \<Rightarrow> account_info list \<Rightarrow>
     transfer_with_fee_proof_context \<Rightarrow> ae_ciphertext \<Rightarrow> store \<Rightarrow> store result" where
  "process_source_for_transfer_with_fee Z P program_id source_account_info mint_info authority_info signers proof_context =
     debit_confidential_source Z P program_id source_account_info mint_info authority_info signers
       (fp_source proof_context) (fp_ciphertext_lo proof_context) (fp_ciphertext_hi proof_context)
       (fp_new_source_ciphertext proof_context)"

text \<open>
  The receiver's side: the pending balance grows by the amounts encrypted for the receiver; \<open>fee\<close> then
  takes a fee out of the pending balance, on the extension buffer.
\<close>

definition credit_confidential_destination ::
    "zk \<Rightarrow> platform \<Rightarrow> account_info \<Rightarrow> account_info \<Rightarrow> elgamal_pubkey \<Rightarrow> grouped_ciphertext \<Rightarrow> grouped_ciphertext \<Rightarrow>
     (confidential_transfer_account \<Rightarrow> bytes \<Rightarrow> bytes result) \<Rightarrow> store \<Rightarrow> store result" where
  "credit_confidential_destination Z P destination_account_info mint_info destination_pubkey ciphertext_lo
       ciphertext_hi fee st =
     bindr (check_program_account (info_owner st destination_account_info)) (\<lambda>_.
     bindr (ensure (ai_key destination_account_info \<noteq> ai_key mint_info) Panic) (\<lambda>_.
     initialized_view account_base (ai_key destination_account_info) (\<lambda>destination_token_account.
       bindr (ensure (\<not> is_frozen (ps_base destination_token_account)) (Custom AccountFrozen)) (\<lambda>_.
       bindr (ensure (a_mint (ps_base destination_token_account) = ai_key mint_info) (Custom MintMismatch)) (\<lambda>_.
       bindr (if memo_required P (ps_tlv destination_token_account)
              then check_previous_sibling_instruction_is_memo P else Inr ()) (\<lambda>_.
       on_tlv (\<lambda>tlv.
         bindr (get_extension AtAccount confidential_transfer_account_ext tlv) (\<lambda>e.
         bindr (valid_as_destination P e) (\<lambda>_.
         bindr (ensure (destination_pubkey = cta_elgamal_pubkey e)
                  (Custom ConfidentialTransferElGamalPubkeyMismatch)) (\<lambda>_.
         bindr (extraction_result (pod_transfer_amount_try_extract Z ciphertext_lo 1)) (\<lambda>destination_ciphertext_lo.
         bindr (extraction_result (pod_transfer_amount_try_extract Z ciphertext_hi 1)) (\<lambda>destination_ciphertext_hi.
         bindr (curve_result (ciphertext_add (zk_curve Z) (cta_pending_balance_lo e) destination_ciphertext_lo)) (\<lambda>lo.
         bindr (curve_result (ciphertext_add (zk_curve Z) (cta_pending_balance_hi e) destination_ciphertext_hi)) (\<lambda>hi.
         bindr (increment_pending_balance_credit_counter
                  (e\<lparr>cta_pending_balance_lo := lo, cta_pending_balance_hi := hi\<rparr>)) (\<lambda>e.
         fee e tlv)))))))) ) destination_token_account)))) st))"

definition process_destination_for_transfer ::
    "zk \<Rightarrow> platform \<Rightarrow> account_info \<Rightarrow> account_info \<Rightarrow> transfer_proof_context \<Rightarrow> store \<Rightarrow> store result" where
  "process_destination_for_transfer Z P destination_account_info mint_info proof_context =
     credit_confidential_destination Z P destination_account_info mint_info (tp_destination proof_context)
       (tp_ciphertext_lo proof_context) (tp_ciphertext_hi proof_context)
       (put_extension AtAccount confidential_transfer_account_ext)"

definition withhold_confidential_fee ::
    "zk \<Rightarrow> transfer_with_fee_proof_context \<Rightarrow> confidential_transfer_account \<Rightarrow> bytes \<Rightarrow> bytes result" where
  "withhold_confidential_fee Z proof_context e tlv =
     bindr (extraction_result (pod_fee_try_extract Z (fp_fee_ciphertext_lo proof_context) 0)) (\<lambda>destination_fee_lo.
     bindr (extraction_result (pod_fee_try_extract Z (fp_fee_ciphertext_hi proof_context) 0)) (\<lambda>destination_fee_hi.
     bindr (curve_result (ciphertext_subtract (zk_curve Z) (cta_pending_balance_lo e) destination_fee_lo)) (\<lambda>lo.
     bindr (curve_result (ciphertext_subtract (zk_curve Z) (cta_pending_balance_hi e) destination_fee_hi)) (\<lambda>hi.
     bindr (put_extension AtAccount confidential_transfer_account_ext
              (e\<lparr>cta_pending_balance_lo := lo, cta_pending_balance_hi := hi\<rparr>) tlv) (\<lambda>tlv.
     bindr (extraction_result (pod_fee_try_extract Z (fp_fee_ciphertext_lo proof_context) 1))
       (\<lambda>withdraw_withheld_authority_fee_lo.
     bindr (extraction_result (pod_fee_try_extract Z (fp_fee_ciphertext_hi proof_context) 1))
       (\<lambda>withdraw_withheld_authority_fee_hi.
     bindr (get_extension AtAccount confidential_transfer_fee_amount_ext tlv) (\<lambda>fee_amount.
     bindr (curve_result (add_with_lo_hi (zk_curve Z) (ctfa_withheld_amount fee_amount)
              withdraw_withheld_authority_fee_lo withdraw_withheld_authority_fee_hi)) (\<lambda>withheld_amount.
     put_extension AtAccount confidential_transfer_fee_amount_ext
       (fee_amount\<lparr>ctfa_withheld_amount := withheld_amount\<rparr>) tlv)))))))))"

definition process_destination_for_transfer_with_fee ::
    "zk \<Rightarrow> platform \<Rightarrow> account_info \<Rightarrow> account_info \<Rightarrow> transfer_with_fee_proof_context \<Rightarrow> bool \<Rightarrow> store \<Rightarrow> store result" where
  "process_destination_for_transfer_with_fee Z P destination_account_info mint_info proof_context is_self_transfer =
     credit_confidential_destination Z P destination_account_info mint_info (fp_destination proof_context)
       (fp_ciphertext_lo proof_context) (fp_ciphertext_hi proof_context)
       (if is_self_transfer then put_extension AtAccount confidential_transfer_account_ext
        else withhold_confidential_fee Z proof_context)"

text \<open>
  The transfer hook cannot see the amount; it is called with the largest number, by convention. The
  \<open>transferring\<close> flags are set before and cleared after.
\<close>

definition invoke_confidential_hook ::
    "platform \<Rightarrow> address option \<Rightarrow> account_info \<Rightarrow> account_info \<Rightarrow> account_info \<Rightarrow> account_info \<Rightarrow>
     account_info list \<Rightarrow> store \<Rightarrow> store result" where
  "invoke_confidential_hook P hook source_account_info mint_info destination_account_info authority_info signers st =
     (case hook of
        None \<Rightarrow> Inr st
      | Some program_id \<Rightarrow>
          bindr (initialized_view account_base (ai_key source_account_info) (on_tlv (set_transferring P)) st) (\<lambda>st.
          bindr (initialized_view account_base (ai_key destination_account_info) (on_tlv (set_transferring P)) st) (\<lambda>st.
          bindr (pl_transfer_hook_execute P program_id source_account_info mint_info destination_account_info
                   authority_info signers (- 1) st) (\<lambda>st.
          bindr (unset_transferring P (ai_key source_account_info) st) (\<lambda>st.
          unset_transferring P (ai_key destination_account_info) st)))))"

definition check_auditor ::
    "zk \<Rightarrow> ciphertext \<Rightarrow> ciphertext \<Rightarrow> grouped_ciphertext \<Rightarrow> grouped_ciphertext \<Rightarrow> unit result" where
  "check_auditor Z auditor_ciphertext_lo auditor_ciphertext_hi ciphertext_lo ciphertext_hi =
     bindr (extraction_result (pod_transfer_amount_try_extract Z ciphertext_lo 2)) (\<lambda>proof_context_lo.
     bindr (extraction_result (pod_transfer_amount_try_extract Z ciphertext_hi 2)) (\<lambda>proof_context_hi.
     check_auditor_ciphertext auditor_ciphertext_lo auditor_ciphertext_hi proof_context_lo proof_context_hi))"

definition confidential_process_transfer ::
    "zk \<Rightarrow> platform \<Rightarrow> address \<Rightarrow> account_info list \<Rightarrow> ae_ciphertext \<Rightarrow> ciphertext \<Rightarrow> ciphertext \<Rightarrow>
     int \<Rightarrow> int \<Rightarrow> int option \<Rightarrow> int option \<Rightarrow> int \<Rightarrow> store \<Rightarrow> store result" where
  "confidential_process_transfer Z P program_id accounts new_source_decryptable_available_balance
       transfer_amount_auditor_ciphertext_lo transfer_amount_auditor_ciphertext_hi equality_offset validity_offset
       fee_sigma_offset fee_validity_offset range_offset st =
     bindr (next_account_info accounts) (\<lambda>(source_account_info, it).
     bindr (next_account_info it) (\<lambda>(mint_info, it).
     bindr (next_account_info it) (\<lambda>(destination_account_info, it).
     bindr (check_program_account (info_owner st mint_info)) (\<lambda>_.
     bindr (unpack_ref (mint_base P) (info_data st mint_info)) (\<lambda>(_, mint_tlv).
     bindr (check_not_paused P mint_tlv) (\<lambda>_.
     bindr (get_extension AtMint confidential_transfer_mint_ext mint_tlv) (\<lambda>confidential_transfer_mint.
     bindr (case get_extension AtMint transfer_fee_config_ext mint_tlv of
         Inl _ \<Rightarrow>
           bindr (verify_transfer_proof Z [ai_key mint_info] it equality_offset validity_offset range_offset st)
             (\<lambda>(proof_context, it).
           bindr (next_account_info it) (\<lambda>(authority_info, signers).
           bindr (ensure (ctm_auditor_elgamal_pubkey confidential_transfer_mint = tp_auditor proof_context)
                    (Custom ConfidentialTransferElGamalPubkeyMismatch)) (\<lambda>_.
           bindr (check_auditor Z transfer_amount_auditor_ciphertext_lo transfer_amount_auditor_ciphertext_hi
                    (tp_ciphertext_lo proof_context) (tp_ciphertext_hi proof_context)) (\<lambda>_.
           bindr (process_source_for_transfer Z P program_id source_account_info mint_info authority_info signers
                    proof_context new_source_decryptable_available_balance st) (\<lambda>st1.
           bindr (process_destination_for_transfer Z P destination_account_info mint_info proof_context st1) (\<lambda>st2.
           Inr (authority_info, signers, st2)))))))
       | Inr transfer_fee_config \<Rightarrow>
           bindr (pl_clock_get P) (\<lambda>clock.
           bindr (ok_or fee_sigma_offset InvalidInstructionData) (\<lambda>fee_sigma_offset.
           bindr (ok_or fee_validity_offset InvalidInstructionData) (\<lambda>fee_validity_offset.
           bindr (verify_transfer_with_fee_proof Z [ai_key mint_info] it equality_offset validity_offset fee_sigma_offset
                    fee_validity_offset range_offset (get_epoch_fee transfer_fee_config (clock_epoch clock)) st)
             (\<lambda>(proof_context, it).
           bindr (next_account_info it) (\<lambda>(authority_info, signers).
           bindr (ensure (ctm_auditor_elgamal_pubkey confidential_transfer_mint = fp_auditor proof_context)
                    (Custom ConfidentialTransferElGamalPubkeyMismatch)) (\<lambda>_.
           bindr (get_extension AtMint confidential_transfer_fee_config_ext mint_tlv) (\<lambda>confidential_transfer_fee_config.
           bindr (ensure (fp_withdraw_withheld_authority proof_context =
                       ctfc_withdraw_withheld_authority_elgamal_pubkey confidential_transfer_fee_config)
                    (Custom ConfidentialTransferElGamalPubkeyMismatch)) (\<lambda>_.
           bindr (check_auditor Z transfer_amount_auditor_ciphertext_lo transfer_amount_auditor_ciphertext_hi
                    (fp_ciphertext_lo proof_context) (fp_ciphertext_hi proof_context)) (\<lambda>_.
           bindr (process_source_for_transfer_with_fee Z P program_id source_account_info mint_info authority_info
                    signers proof_context new_source_decryptable_available_balance st) (\<lambda>st1.
           bindr (process_destination_for_transfer_with_fee Z P destination_account_info mint_info proof_context
                    (ai_key source_account_info = ai_key destination_account_info) st1) (\<lambda>st2.
           Inr (authority_info, signers, st2)))))))))))))
       (\<lambda>(authority_info, signers, st).
     invoke_confidential_hook P (transfer_hook_get_program_id P mint_tlv) source_account_info mint_info
       destination_account_info authority_info signers st))))))))"

section \<open>What a successful instruction did\<close>

lemma check_public_account_Inr:
  assumes "check_public_account P program_id m auth signers s st = Inr ()"
  shows "a_mint (ps_base s) = ai_key m" "\<not> is_native (ps_base s)" "\<not> is_frozen (ps_base s)"
    "authorizes P program_id (a_owner (ps_base s)) auth signers st"
  using assms by (auto simp: check_public_account_def result_simps validate_owner_authorizes)

lemma deposit_Inr:
  assumes "process_deposit Z P program_id accounts amount decimals st = Inr st'"
  obtains i m auth signers s e e' lo hi new tlv where "accounts = i # m # auth # signers"
    "unpack account_base (ac_data (st (ai_key i))) = Inr s" "ac_owner (st (ai_key i)) = TOKEN_2022_ID"
    "check_public_account P program_id m auth signers s st = Inr ()"
    "checked_sub (a_amount (ps_base s)) amount = Some new"
    "get_extension AtAccount confidential_transfer_account_ext (ps_tlv s) = Inr e"
    "amount \<le> MAXIMUM_DEPOSIT_TRANSFER_AMOUNT"
    "add_to_with_offset (zk_curve Z) (cta_elgamal_pubkey e) (cta_pending_balance_lo e) (and amount 65535) = Some lo"
    "add_to_with_offset (zk_curve Z) (cta_elgamal_pubkey e) (cta_pending_balance_hi e) (drop_bit 16 amount) = Some hi"
    "increment_pending_balance_credit_counter (e\<lparr>cta_pending_balance_lo := lo, cta_pending_balance_hi := hi\<rparr>) = Inr e'"
    "put_extension AtAccount confidential_transfer_account_ext e' (ps_tlv s) = Inr tlv"
    "st' = set_data (ai_key i) (state_bytes account_base
       (s\<lparr>ps_base := (ps_base s)\<lparr>a_amount := new\<rparr>, ps_tlv := tlv\<rparr>)) st"
proof -
  from assms show thesis
    by (clarsimp simp: process_deposit_def result_simps info_owner_def verify_and_split_deposit_amount_def
        curve_result_def split: if_split_asm) (rule that; (assumption | rule refl | simp))
qed

lemma withdraw_Inr:
  assumes "process_withdraw Z P program_id accounts amount decimals d n1 n2 st = Inr st'"
  obtains i m it s e c auth signers available new tlv where "accounts = i # m # it"
    "unpack account_base (ac_data (st (ai_key i))) = Inr s" "ac_owner (st (ai_key i)) = TOKEN_2022_ID"
    "check_public_account P program_id m auth signers s st = Inr ()"
    "verify_withdraw_proof Z it n1 n2 st = Inr (c, auth # signers)"
    "get_extension AtAccount confidential_transfer_account_ext (ps_tlv s) = Inr e"
    "cta_elgamal_pubkey e = wp_source_pubkey c"
    "(if amount > 0 then subtract_from (zk_curve Z) (cta_available_balance e) amount
      else Some (cta_available_balance e)) = Some available"
    "available = wp_remaining_balance_ciphertext c"
    "put_extension AtAccount confidential_transfer_account_ext
       (e\<lparr>cta_available_balance := available, cta_decryptable_available_balance := d\<rparr>) (ps_tlv s) = Inr tlv"
    "checked_add (a_amount (ps_base s)) amount = Some new"
    "st' = set_data (ai_key i) (state_bytes account_base
       (s\<lparr>ps_base := (ps_base s)\<lparr>a_amount := new\<rparr>, ps_tlv := tlv\<rparr>)) st"
proof -
  from assms show thesis
    by (clarsimp simp: process_withdraw_def result_simps info_owner_def curve_result_def split del: if_split)
      (rule that; (assumption | rule refl | simp add: result_simps curve_result_def split: if_split_asm))
qed

lemma confidential_transfer_Inr:
  assumes "confidential_process_transfer Z P program_id accounts d lo hi n1 n2 n3 n4 n5 st = Inr st'"
  obtains src em dst it auth signers k k' tlo thi new fee hook st1 st2 where "accounts = src # em # dst # it"
    "fee = put_extension AtAccount confidential_transfer_account_ext \<or>
       ai_key src \<noteq> ai_key dst \<and> (\<exists>c. fee = withhold_confidential_fee Z c)"
    "debit_confidential_source Z P program_id src em auth signers k tlo thi new d st = Inr st1"
    "credit_confidential_destination Z P dst em k' tlo thi fee st1 = Inr st2"
    "invoke_confidential_hook P hook src em dst auth signers st2 = Inr st'"
proof -
  from assms show thesis
    by (clarsimp simp: confidential_process_transfer_def result_simps)
      (auto simp: result_simps process_source_for_transfer_def process_source_for_transfer_with_fee_def
          process_destination_for_transfer_def process_destination_for_transfer_with_fee_def split: sum.split_asm,
        (rule that; (assumption | rule refl | (auto)))+)
qed

end
