(* ===== verification/Confidential_Fee.thy ===== *)
theory Confidential_Fee
  imports Confidential_Transfer
begin

text \<open>
  The confidential transfer fee instructions
  (program/src/extension/confidential_transfer_fee/processor.rs): what encrypted transfers withheld is
  collected, still encrypted, into the mint or into the available balance of an account.
\<close>

definition process_initialize_confidential_transfer_fee_config ::
    "platform \<Rightarrow> account_info list \<Rightarrow> address \<Rightarrow> elgamal_pubkey \<Rightarrow> store \<Rightarrow> store result" where
  "process_initialize_confidential_transfer_fee_config P accounts authority
       withdraw_withheld_authority_elgamal_pubkey st =
     bindr (next_account_info accounts) (\<lambda>(mint_account_info, _).
     bindr (check_program_account (info_owner st mint_account_info)) (\<lambda>_.
     init_mint_extension P mint_account_info confidential_transfer_fee_config_ext (\<lambda>e.
       Inr (e\<lparr>ctfc_authority := authority,
              ctfc_withdraw_withheld_authority_elgamal_pubkey := withdraw_withheld_authority_elgamal_pubkey,
              ctfc_harvest_to_mint_enabled := pl_pod_from_bool P True, ctfc_withheld_amount := 0\<rparr>)) st))"

text \<open>The withdraw-withheld authority of the mint's fee configuration has to sign both withdrawals.\<close>

definition check_withdraw_withheld_authority ::
    "platform \<Rightarrow> address \<Rightarrow> account_info \<Rightarrow> account_info list \<Rightarrow> bytes \<Rightarrow> store \<Rightarrow> unit result" where
  "check_withdraw_withheld_authority P program_id authority_info signers mint_tlv st =
     bindr (get_extension AtMint transfer_fee_config_ext mint_tlv) (\<lambda>transfer_fee_config.
     bindr (ok_or (pl_option_from_maybe_null P (tfc_withdraw_withheld_authority transfer_fee_config))
              (Custom NoAuthorityExists)) (\<lambda>withdraw_withheld_authority.
     validate_owner P program_id withdraw_withheld_authority authority_info
       (length (info_data st authority_info)) signers st))"

definition confidential_withdraw_withheld_tokens_from_mint ::
    "zk \<Rightarrow> platform \<Rightarrow> address \<Rightarrow> account_info list \<Rightarrow> ae_ciphertext \<Rightarrow> int \<Rightarrow> store \<Rightarrow> store result" where
  "confidential_withdraw_withheld_tokens_from_mint Z P program_id accounts new_decryptable_available_balance
       proof_instruction_offset st =
     bindr (next_account_info accounts) (\<lambda>(mint_account_info, it).
     bindr (next_account_info it) (\<lambda>(destination_account_info, it).
     bindr (verify_and_extract_context Z (zk_ciphertext_ciphertext_equality Z) [] it proof_instruction_offset None st)
       (\<lambda>(proof_context, it).
     bindr (next_account_info it) (\<lambda>(authority_info, signers).
     bindr (check_program_account (info_owner st mint_account_info)) (\<lambda>_.
     bindr (unpack (mint_base P) (info_data st mint_account_info)) (\<lambda>mint.
     bindr (check_withdraw_withheld_authority P program_id authority_info signers (ps_tlv mint) st) (\<lambda>_.
     bindr (get_extension AtMint confidential_transfer_fee_config_ext (ps_tlv mint)) (\<lambda>config.
     bindr (check_program_account (info_owner st destination_account_info)) (\<lambda>_.
     bindr (ensure (ai_key destination_account_info \<noteq> ai_key mint_account_info) Panic) (\<lambda>_.
     bindr (unpack account_base (info_data st destination_account_info)) (\<lambda>destination_account.
     bindr (ensure (a_mint (ps_base destination_account) = ai_key mint_account_info) (Custom MintMismatch)) (\<lambda>_.
     bindr (ensure (\<not> is_frozen (ps_base destination_account)) (Custom AccountFrozen)) (\<lambda>_.
     bindr (get_extension AtAccount confidential_transfer_account_ext (ps_tlv destination_account)) (\<lambda>e.
     bindr (valid_as_withheld_amount_destination P e) (\<lambda>_.
     bindr (ensure (cce_first_pubkey proof_context = ctfc_withdraw_withheld_authority_elgamal_pubkey config)
              (Custom ConfidentialTransferElGamalPubkeyMismatch)) (\<lambda>_.
     bindr (ensure (cce_second_pubkey proof_context = cta_elgamal_pubkey e)
              (Custom ConfidentialTransferElGamalPubkeyMismatch)) (\<lambda>_.
     bindr (ensure (cce_first_ciphertext proof_context = ctfc_withheld_amount config)
              (Custom ConfidentialTransferBalanceMismatch)) (\<lambda>_.
     bindr (curve_result (ciphertext_add (zk_curve Z) (cta_available_balance e) (cce_second_ciphertext proof_context)))
       (\<lambda>available_balance.
     bindr (put_extension AtAccount confidential_transfer_account_ext
              (e\<lparr>cta_available_balance := available_balance,
                 cta_decryptable_available_balance := new_decryptable_available_balance\<rparr>)
              (ps_tlv destination_account)) (\<lambda>account_tlv.
     bindr (put_extension AtMint confidential_transfer_fee_config_ext (config\<lparr>ctfc_withheld_amount := 0\<rparr>)
              (ps_tlv mint)) (\<lambda>mint_tlv.
     Inr (set_data (ai_key mint_account_info) (state_bytes (mint_base P) (mint\<lparr>ps_tlv := mint_tlv\<rparr>))
            (set_data (ai_key destination_account_info)
              (state_bytes account_base (destination_account\<lparr>ps_tlv := account_tlv\<rparr>)) st)))))))))))))))))))))))"

definition confidential_harvest_from_account ::
    "address \<Rightarrow> account_info \<Rightarrow> store \<Rightarrow> (ciphertext \<times> store) result" where
  "confidential_harvest_from_account mint_key token_account_info st =
     bindr (map_err (unpack account_base (info_data st token_account_info)) (Custom InvalidState)) (\<lambda>token_account.
     bindr (ensure (a_mint (ps_base token_account) = mint_key) (Custom MintMismatch)) (\<lambda>_.
     bindr (map_err (check_program_account (info_owner st token_account_info)) (Custom InvalidState)) (\<lambda>_.
     bindr (map_err (get_extension AtAccount confidential_transfer_fee_amount_ext (ps_tlv token_account))
              (Custom InvalidState)) (\<lambda>e.
     bindr (put_extension AtAccount confidential_transfer_fee_amount_ext (e\<lparr>ctfa_withheld_amount := 0\<rparr>)
              (ps_tlv token_account)) (\<lambda>tlv.
     Inr (ctfa_withheld_amount e,
          set_data (ai_key token_account_info) (state_bytes account_base (token_account\<lparr>ps_tlv := tlv\<rparr>)) st))))))"

text \<open>
  One turn of the loop over the source accounts. The destination stays borrowed, so its own withheld
  amount is taken in place; the mint is borrowed too, and listing it panics.
\<close>

definition confidential_withdraw_step ::
    "zk \<Rightarrow> address \<Rightarrow> address \<Rightarrow> account_info \<Rightarrow> ciphertext \<times> pod_account pod_state \<times> store \<Rightarrow>
     (ciphertext \<times> pod_account pod_state \<times> store) result" where
  "confidential_withdraw_step Z mint_key destination_key account_info =
     (\<lambda>(aggregate_withheld_amount, destination_account, st).
     if ai_key account_info = destination_key then
       bindr (map_err (get_extension AtAccount confidential_transfer_fee_amount_ext (ps_tlv destination_account))
                (Custom InvalidState)) (\<lambda>e.
       bindr (curve_result (ciphertext_add (zk_curve Z) aggregate_withheld_amount (ctfa_withheld_amount e))) (\<lambda>aggregate.
       bindr (put_extension AtAccount confidential_transfer_fee_amount_ext (e\<lparr>ctfa_withheld_amount := 0\<rparr>)
                (ps_tlv destination_account)) (\<lambda>tlv.
       Inr (aggregate, destination_account\<lparr>ps_tlv := tlv\<rparr>, st))))
     else
       bindr (ensure (ai_key account_info \<noteq> mint_key) Panic) (\<lambda>_.
       case confidential_harvest_from_account mint_key account_info st of
         Inr (encrypted_withheld_amount, st') \<Rightarrow>
           bindr (curve_result (ciphertext_add (zk_curve Z) aggregate_withheld_amount encrypted_withheld_amount))
             (\<lambda>aggregate. Inr (aggregate, destination_account, st'))
       | Inl _ \<Rightarrow> Inr (aggregate_withheld_amount, destination_account, st)))"

definition confidential_withdraw_withheld_tokens_from_accounts ::
    "zk \<Rightarrow> platform \<Rightarrow> address \<Rightarrow> account_info list \<Rightarrow> u8 \<Rightarrow> ae_ciphertext \<Rightarrow> int \<Rightarrow> store \<Rightarrow> store result" where
  "confidential_withdraw_withheld_tokens_from_accounts Z P program_id accounts num_token_accounts
       new_decryptable_available_balance proof_instruction_offset st =
     bindr (next_account_info accounts) (\<lambda>(mint_account_info, it).
     bindr (next_account_info it) (\<lambda>(destination_account_info, it).
     bindr (verify_and_extract_context Z (zk_ciphertext_ciphertext_equality Z) [] it proof_instruction_offset None st)
       (\<lambda>(proof_context, it).
     bindr (next_account_info it) (\<lambda>(authority_info, account_infos).
     let num_signers = length account_infos - unat num_token_accounts in
     bindr (check_program_account (info_owner st mint_account_info)) (\<lambda>_.
     bindr (unpack (mint_base P) (info_data st mint_account_info)) (\<lambda>mint.
     bindr (check_withdraw_withheld_authority P program_id authority_info (take num_signers account_infos)
              (ps_tlv mint) st) (\<lambda>_.
     bindr (check_program_account (info_owner st destination_account_info)) (\<lambda>_.
     bindr (ensure (ai_key destination_account_info \<noteq> ai_key mint_account_info) Panic) (\<lambda>_.
     bindr (unpack account_base (info_data st destination_account_info)) (\<lambda>destination_account.
     bindr (ensure (a_mint (ps_base destination_account) = ai_key mint_account_info) (Custom MintMismatch)) (\<lambda>_.
     bindr (ensure (\<not> is_frozen (ps_base destination_account)) (Custom AccountFrozen)) (\<lambda>_.
     bindr (get_extension AtAccount confidential_transfer_account_ext (ps_tlv destination_account)) (\<lambda>e.
     bindr (valid_as_withheld_amount_destination P e) (\<lambda>_.
     bindr (get_extension AtMint confidential_transfer_fee_config_ext (ps_tlv mint)) (\<lambda>config.
     bindr (ensure (cce_first_pubkey proof_context = ctfc_withdraw_withheld_authority_elgamal_pubkey config)
              (Custom ConfidentialTransferElGamalPubkeyMismatch)) (\<lambda>_.
     bindr (ensure (cce_second_pubkey proof_context = cta_elgamal_pubkey e)
              (Custom ConfidentialTransferElGamalPubkeyMismatch)) (\<lambda>_.
     bindr (try_for_each (confidential_withdraw_step Z (ai_key mint_account_info) (ai_key destination_account_info))
              (drop num_signers account_infos) (0, destination_account, st))
       (\<lambda>(aggregate_withheld_amount, destination_account, st).
     bindr (ensure (cce_first_ciphertext proof_context = aggregate_withheld_amount)
              (Custom ConfidentialTransferBalanceMismatch)) (\<lambda>_.
     bindr (get_extension AtAccount confidential_transfer_account_ext (ps_tlv destination_account)) (\<lambda>e.
     bindr (ok_or (ciphertext_add (zk_curve Z) (cta_available_balance e) (cce_second_ciphertext proof_context))
              InvalidInstructionData) (\<lambda>available_balance.
     bindr (put_extension AtAccount confidential_transfer_account_ext
              (e\<lparr>cta_available_balance := available_balance,
                 cta_decryptable_available_balance := new_decryptable_available_balance\<rparr>)
              (ps_tlv destination_account)) (\<lambda>tlv.
     Inr (set_data (ai_key destination_account_info)
            (state_bytes account_base (destination_account\<lparr>ps_tlv := tlv\<rparr>)) st)))))))))))))))))))))))"

definition confidential_harvest_step ::
    "zk \<Rightarrow> address \<Rightarrow> account_info \<Rightarrow> ciphertext \<times> store \<Rightarrow> (ciphertext \<times> store) result" where
  "confidential_harvest_step Z mint_key token_account_info = (\<lambda>(mint_withheld_amount, st).
     bindr (ensure (ai_key token_account_info \<noteq> mint_key) Panic) (\<lambda>_.
     case confidential_harvest_from_account mint_key token_account_info st of
       Inr (withheld_amount, st') \<Rightarrow>
         bindr (curve_result (ciphertext_add (zk_curve Z) mint_withheld_amount withheld_amount))
           (\<lambda>new_mint_withheld_amount. Inr (new_mint_withheld_amount, st'))
     | Inl _ \<Rightarrow> Inr (mint_withheld_amount, st)))"

definition confidential_harvest_withheld_tokens_to_mint ::
    "zk \<Rightarrow> platform \<Rightarrow> account_info list \<Rightarrow> store \<Rightarrow> store result" where
  "confidential_harvest_withheld_tokens_to_mint Z P accounts st =
     bindr (next_account_info accounts) (\<lambda>(mint_account_info, token_account_infos).
     bindr (check_program_account (info_owner st mint_account_info)) (\<lambda>_.
     bindr (unpack (mint_base P) (info_data st mint_account_info)) (\<lambda>mint.
     bindr (get_extension AtMint transfer_fee_config_ext (ps_tlv mint)) (\<lambda>_.
     bindr (get_extension AtMint confidential_transfer_fee_config_ext (ps_tlv mint)) (\<lambda>config.
     bindr (ensure (pl_bool_from_pod P (ctfc_harvest_to_mint_enabled config)) (Custom HarvestToMintDisabled)) (\<lambda>_.
     bindr (try_for_each (confidential_harvest_step Z (ai_key mint_account_info)) token_account_infos
              (ctfc_withheld_amount config, st)) (\<lambda>(withheld_amount, st').
     bindr (put_extension AtMint confidential_transfer_fee_config_ext (config\<lparr>ctfc_withheld_amount := withheld_amount\<rparr>)
              (ps_tlv mint)) (\<lambda>tlv.
     Inr (set_data (ai_key mint_account_info) (state_bytes (mint_base P) (mint\<lparr>ps_tlv := tlv\<rparr>)) st')))))))))"

definition set_harvest_to_mint ::
    "platform \<Rightarrow> address \<Rightarrow> account_info list \<Rightarrow> bool \<Rightarrow> store \<Rightarrow> store result" where
  "set_harvest_to_mint P program_id accounts enabled st =
     bindr (next_account_info accounts) (\<lambda>(mint_info, it).
     bindr (next_account_info it) (\<lambda>(authority_info, signers).
     bindr (check_program_account (info_owner st mint_info)) (\<lambda>_.
     initialized_view (mint_base P) (ai_key mint_info) (on_tlv (\<lambda>tlv.
       bindr (get_extension AtMint confidential_transfer_fee_config_ext tlv) (\<lambda>e.
       bindr (ok_or (pl_option_from_maybe_null P (ctfc_authority e)) (Custom NoAuthorityExists)) (\<lambda>authority.
       bindr (validate_owner P program_id authority authority_info (length (info_data st authority_info)) signers st) (\<lambda>_.
       put_extension AtMint confidential_transfer_fee_config_ext
         (e\<lparr>ctfc_harvest_to_mint_enabled := pl_pod_from_bool P enabled\<rparr>) tlv))))) st)))"

definition process_enable_harvest_to_mint :: "platform \<Rightarrow> address \<Rightarrow> account_info list \<Rightarrow> store \<Rightarrow> store result" where
  "process_enable_harvest_to_mint P program_id accounts = set_harvest_to_mint P program_id accounts True"

definition process_disable_harvest_to_mint :: "platform \<Rightarrow> address \<Rightarrow> account_info list \<Rightarrow> store \<Rightarrow> store result" where
  "process_disable_harvest_to_mint P program_id accounts = set_harvest_to_mint P program_id accounts False"

end
