(* ===== verification/Confidential_Supply.thy ===== *)
theory Confidential_Supply
  imports Confidential_Transfer
begin

text \<open>
  Mints whose supply is encrypted (program/src/extension/confidential_mint_burn/processor.rs): minting
  into pending balances, burning from available balances into a pending burn, and applying that burn.
  Every ciphertext the program computes is compared with the one the accompanying proof speaks of.
\<close>

definition confidential_mint_burn_initialize_mint ::
    "platform \<Rightarrow> account_info list \<Rightarrow> elgamal_pubkey \<Rightarrow> ae_ciphertext \<Rightarrow> store \<Rightarrow> store result" where
  "confidential_mint_burn_initialize_mint P accounts supply_elgamal_pubkey decryptable_supply st =
     bindr (next_account_info accounts) (\<lambda>(mint_info, _).
     bindr (check_program_account (info_owner st mint_info)) (\<lambda>_.
     init_mint_extension P mint_info confidential_mint_burn_ext (\<lambda>e.
       Inr (e\<lparr>cmb_supply_elgamal_pubkey := supply_elgamal_pubkey,
              cmb_decryptable_supply := decryptable_supply\<rparr>)) st))"

text \<open>
  The mint authority signs last. The length of its data is read while the accounts \<open>held\<close> are
  borrowed, so it cannot be one of them.
\<close>

definition check_mint_authority ::
    "platform \<Rightarrow> address \<Rightarrow> address list \<Rightarrow> address pod_coption \<Rightarrow> account_info list \<Rightarrow> store \<Rightarrow> unit result" where
  "check_mint_authority P program_id held mint_authority it st =
     bindr (next_account_info it) (\<lambda>(authority_info, signers).
     bindr (ensure (ai_key authority_info \<notin> set held) Panic) (\<lambda>_.
     bindr (coption_ok_or mint_authority (Custom NoAuthorityExists)) (\<lambda>authority.
     validate_owner P program_id authority authority_info (length (info_data st authority_info)) signers st)))"

text \<open>
  The conversion of the supply key to an option is the one every type has, so a key is always found;
  the new key is the one of the proof, \<open>new_supply_elgamal_pubkey\<close> of the instruction is not read.
\<close>

definition process_rotate_supply_elgamal_pubkey ::
    "zk \<Rightarrow> platform \<Rightarrow> address \<Rightarrow> account_info list \<Rightarrow> u8 \<Rightarrow> store \<Rightarrow> store result" where
  "process_rotate_supply_elgamal_pubkey Z P program_id accounts proof_instruction_offset st =
     bindr (next_account_info accounts) (\<lambda>(mint_info, it).
     bindr (check_program_account (info_owner st mint_info)) (\<lambda>_.
     initialized_view (mint_base P) (ai_key mint_info) (\<lambda>mint.
       on_tlv (\<lambda>tlv.
         bindr (get_extension AtMint confidential_mint_burn_ext tlv) (\<lambda>e.
         bindr (verify_and_extract_context Z (zk_ciphertext_ciphertext_equality Z) [ai_key mint_info] it
                  (sint proof_instruction_offset) None st) (\<lambda>(proof_context, it).
         bindr (ensure (cmb_supply_elgamal_pubkey e = cce_first_pubkey proof_context)
                  (Custom ConfidentialTransferElGamalPubkeyMismatch)) (\<lambda>_.
         bindr (ensure (cmb_confidential_supply e = cce_first_ciphertext proof_context) InvalidInstructionData) (\<lambda>_.
         bindr (ensure (cmb_pending_burn e = 0) (Custom PendingBalanceNonZero)) (\<lambda>_.
         bindr (check_mint_authority P program_id [ai_key mint_info] (m_mint_authority (ps_base mint)) it st) (\<lambda>_.
         put_extension AtMint confidential_mint_burn_ext
           (e\<lparr>cmb_supply_elgamal_pubkey := cce_second_pubkey proof_context,
              cmb_confidential_supply := cce_second_ciphertext proof_context\<rparr>) tlv))))))) mint) st))"

definition process_update_decryptable_supply ::
    "platform \<Rightarrow> address \<Rightarrow> account_info list \<Rightarrow> ae_ciphertext \<Rightarrow> store \<Rightarrow> store result" where
  "process_update_decryptable_supply P program_id accounts new_decryptable_supply st =
     bindr (next_account_info accounts) (\<lambda>(mint_info, it).
     bindr (check_program_account (info_owner st mint_info)) (\<lambda>_.
     initialized_view (mint_base P) (ai_key mint_info) (\<lambda>mint.
       on_tlv (\<lambda>tlv.
         bindr (get_extension AtMint confidential_mint_burn_ext tlv) (\<lambda>e.
         bindr (check_mint_authority P program_id [ai_key mint_info] (m_mint_authority (ps_base mint)) it st) (\<lambda>_.
         put_extension AtMint confidential_mint_burn_ext (e\<lparr>cmb_decryptable_supply := new_decryptable_supply\<rparr>) tlv)))
         mint) st))"

definition process_apply_pending_burn ::
    "zk \<Rightarrow> platform \<Rightarrow> address \<Rightarrow> account_info list \<Rightarrow> store \<Rightarrow> store result" where
  "process_apply_pending_burn Z P program_id accounts st =
     bindr (next_account_info accounts) (\<lambda>(mint_info, it).
     bindr (check_program_account (info_owner st mint_info)) (\<lambda>_.
     initialized_view (mint_base P) (ai_key mint_info) (\<lambda>mint.
       on_tlv (\<lambda>tlv.
         bindr (get_extension AtMint confidential_mint_burn_ext tlv) (\<lambda>e.
         bindr (check_mint_authority P program_id [ai_key mint_info] (m_mint_authority (ps_base mint)) it st) (\<lambda>_.
         bindr (curve_result (ciphertext_subtract (zk_curve Z) (cmb_confidential_supply e) (cmb_pending_burn e))) (\<lambda>supply.
         put_extension AtMint confidential_mint_burn_ext
           (e\<lparr>cmb_confidential_supply := supply, cmb_pending_burn := 0\<rparr>) tlv)))) mint) st))"

definition process_confidential_mint ::
    "zk \<Rightarrow> platform \<Rightarrow> address \<Rightarrow> account_info list \<Rightarrow> ae_ciphertext \<Rightarrow> ciphertext \<Rightarrow> ciphertext \<Rightarrow>
     u8 \<Rightarrow> u8 \<Rightarrow> u8 \<Rightarrow> store \<Rightarrow> store result" where
  "process_confidential_mint Z P program_id accounts new_decryptable_supply mint_amount_auditor_ciphertext_lo
       mint_amount_auditor_ciphertext_hi equality_offset validity_offset range_offset st =
     bindr (next_account_info accounts) (\<lambda>(token_account_info, it).
     bindr (next_account_info it) (\<lambda>(mint_info, it).
     bindr (check_program_account (info_owner st mint_info)) (\<lambda>_.
     bindr (unpack (mint_base P) (info_data st mint_info)) (\<lambda>mint.
     bindr (get_extension AtMint confidential_transfer_mint_ext (ps_tlv mint)) (\<lambda>confidential_transfer_mint.
     bindr (check_not_paused P (ps_tlv mint)) (\<lambda>_.
     bindr (check_program_account (info_owner st token_account_info)) (\<lambda>_.
     bindr (ensure (ai_key token_account_info \<noteq> ai_key mint_info) Panic) (\<lambda>_.
     bindr (unpack account_base (info_data st token_account_info)) (\<lambda>token_account.
     bindr (ensure (\<not> (is_ok (get_extension AtMint non_transferable_ext (ps_tlv mint)) \<and>
               (\<not> is_ok (get_extension AtAccount immutable_owner_ext (ps_tlv token_account)) \<or>
                \<not> is_ok (get_extension AtAccount non_transferable_account_ext (ps_tlv token_account)))))
            (Custom NonTransferableNeedsImmutableOwnership)) (\<lambda>_.
     bindr (get_extension AtMint confidential_mint_burn_ext (ps_tlv mint)) (\<lambda>mint_burn.
     bindr (verify_mint_proof Z [ai_key mint_info, ai_key token_account_info] it equality_offset validity_offset
              range_offset st) (\<lambda>(proof_context, it).
     bindr (check_mint_authority P program_id [ai_key mint_info, ai_key token_account_info]
              (m_mint_authority (ps_base mint)) it st) (\<lambda>_.
     bindr (ensure (\<not> is_frozen (ps_base token_account)) (Custom AccountFrozen)) (\<lambda>_.
     bindr (ensure (a_mint (ps_base token_account) = ai_key mint_info) (Custom MintMismatch)) (\<lambda>_.
     bindr (ensure (\<not> is_native (ps_base token_account)) (Custom NativeNotSupported)) (\<lambda>_.
     bindr (get_extension AtAccount confidential_transfer_account_ext (ps_tlv token_account)) (\<lambda>e.
     bindr (valid_as_destination P e) (\<lambda>_.
     bindr (ensure (mp_destination proof_context = cta_elgamal_pubkey e) InvalidInstructionData) (\<lambda>_.
     bindr (ensure (ctm_auditor_elgamal_pubkey confidential_transfer_mint = mp_auditor proof_context)
              (Custom ConfidentialTransferElGamalPubkeyMismatch)) (\<lambda>_.
     bindr (extraction_result (pod_mint_amount_try_extract Z (mp_mint_amount_ciphertext_lo proof_context) 2)) (\<lambda>auditor_lo.
     bindr (extraction_result (pod_mint_amount_try_extract Z (mp_mint_amount_ciphertext_hi proof_context) 2)) (\<lambda>auditor_hi.
     bindr (check_auditor_ciphertext mint_amount_auditor_ciphertext_lo mint_amount_auditor_ciphertext_hi
              auditor_lo auditor_hi) (\<lambda>_.
     bindr (extraction_result (pod_mint_amount_try_extract Z (mp_mint_amount_ciphertext_lo proof_context) 0)) (\<lambda>amount_lo.
     bindr (curve_result (ciphertext_add (zk_curve Z) (cta_pending_balance_lo e) amount_lo)) (\<lambda>pending_lo.
     bindr (extraction_result (pod_mint_amount_try_extract Z (mp_mint_amount_ciphertext_hi proof_context) 0)) (\<lambda>amount_hi.
     bindr (curve_result (ciphertext_add (zk_curve Z) (cta_pending_balance_hi e) amount_hi)) (\<lambda>pending_hi.
     bindr (increment_pending_balance_credit_counter
              (e\<lparr>cta_pending_balance_lo := pending_lo, cta_pending_balance_hi := pending_hi\<rparr>)) (\<lambda>e.
     bindr (ensure (cmb_supply_elgamal_pubkey mint_burn = mp_supply proof_context) InvalidInstructionData) (\<lambda>_.
     bindr (map_err (pod_mint_amount_try_extract Z (mp_mint_amount_ciphertext_lo proof_context) 1)
              InvalidAccountData) (\<lambda>supply_lo.
     bindr (map_err (pod_mint_amount_try_extract Z (mp_mint_amount_ciphertext_hi proof_context) 1)
              InvalidAccountData) (\<lambda>supply_hi.
     bindr (curve_result (add_with_lo_hi (zk_curve Z) (cmb_confidential_supply mint_burn) supply_lo supply_hi)) (\<lambda>supply.
     bindr (ensure (supply = mp_new_supply_ciphertext proof_context) (Custom ConfidentialTransferBalanceMismatch)) (\<lambda>_.
     bindr (put_extension AtAccount confidential_transfer_account_ext e (ps_tlv token_account)) (\<lambda>account_tlv.
     bindr (put_extension AtMint confidential_mint_burn_ext
              (mint_burn\<lparr>cmb_confidential_supply := supply, cmb_decryptable_supply := new_decryptable_supply\<rparr>)
              (ps_tlv mint)) (\<lambda>mint_tlv.
     Inr (set_data (ai_key mint_info) (state_bytes (mint_base P) (mint\<lparr>ps_tlv := mint_tlv\<rparr>))
            (set_data (ai_key token_account_info)
              (state_bytes account_base (token_account\<lparr>ps_tlv := account_tlv\<rparr>)) st)))))))))))))))))))))))))))))))))))))"

definition process_confidential_burn ::
    "zk \<Rightarrow> platform \<Rightarrow> address \<Rightarrow> account_info list \<Rightarrow> ae_ciphertext \<Rightarrow> ciphertext \<Rightarrow> ciphertext \<Rightarrow>
     u8 \<Rightarrow> u8 \<Rightarrow> u8 \<Rightarrow> burn_variant \<Rightarrow> store \<Rightarrow> store result" where
  "process_confidential_burn Z P program_id accounts new_decryptable_available_balance
       burn_amount_auditor_ciphertext_lo burn_amount_auditor_ciphertext_hi equality_offset validity_offset
       range_offset burn_variant st =
     bindr (next_account_info accounts) (\<lambda>(token_account_info, it).
     bindr (next_account_info it) (\<lambda>(mint_info, it).
     bindr (check_program_account (info_owner st mint_info)) (\<lambda>_.
     bindr (unpack (mint_base P) (info_data st mint_info)) (\<lambda>mint.
     bindr (get_extension AtMint confidential_transfer_mint_ext (ps_tlv mint)) (\<lambda>confidential_transfer_mint.
     bindr (check_not_paused P (ps_tlv mint)) (\<lambda>_.
     bindr (verify_burn_proof Z [ai_key mint_info] it equality_offset validity_offset range_offset st)
       (\<lambda>(proof_context, it).
     bindr (case burn_variant of
         BurnPermissioned \<Rightarrow>
           bindr (next_account_info it) (\<lambda>(permissioned_burn_authority_info, it).
           bindr (next_account_info it) (\<lambda>(authority_info, it).
           Inr (Some permissioned_burn_authority_info, authority_info, it)))
       | BurnStandard \<Rightarrow>
           bindr (next_account_info it) (\<lambda>(authority_info, it). Inr (None, authority_info, it)))
       (\<lambda>(permissioned_burn_authority_info, authority_info, signers).
     bindr (check_permissioned_burn P burn_variant permissioned_burn_authority_info (ps_tlv mint)) (\<lambda>_.
     bindr (get_extension AtMint confidential_mint_burn_ext (ps_tlv mint)) (\<lambda>mint_burn.
     bindr (check_program_account (info_owner st token_account_info)) (\<lambda>_.
     bindr (ensure (ai_key token_account_info \<noteq> ai_key mint_info) Panic) (\<lambda>_.
     bindr (unpack account_base (info_data st token_account_info)) (\<lambda>token_account.
     bindr (ensure (ai_key authority_info \<notin> set [ai_key mint_info, ai_key token_account_info]) Panic) (\<lambda>_.
     bindr (validate_owner P program_id (a_owner (ps_base token_account)) authority_info
              (length (info_data st authority_info)) signers st) (\<lambda>_.
     bindr (check_cpi_guard_transfer P authority_info token_account (Custom CpiGuardBurnBlocked)) (\<lambda>_.
     bindr (ensure (\<not> is_frozen (ps_base token_account)) (Custom AccountFrozen)) (\<lambda>_.
     bindr (ensure (a_mint (ps_base token_account) = ai_key mint_info) (Custom MintMismatch)) (\<lambda>_.
     bindr (get_extension AtAccount confidential_transfer_account_ext (ps_tlv token_account)) (\<lambda>e.
     bindr (valid_as_source P e) (\<lambda>_.
     bindr (ensure (bp_source proof_context = cta_elgamal_pubkey e)
              (Custom ConfidentialTransferElGamalPubkeyMismatch)) (\<lambda>_.
     bindr (extraction_result (pod_burn_amount_try_extract Z (bp_burn_amount_ciphertext_lo proof_context) 2)) (\<lambda>auditor_lo.
     bindr (extraction_result (pod_burn_amount_try_extract Z (bp_burn_amount_ciphertext_hi proof_context) 2)) (\<lambda>auditor_hi.
     bindr (check_auditor_ciphertext burn_amount_auditor_ciphertext_lo burn_amount_auditor_ciphertext_hi
              auditor_lo auditor_hi) (\<lambda>_.
     bindr (extraction_result (pod_burn_amount_try_extract Z (bp_burn_amount_ciphertext_lo proof_context) 0)) (\<lambda>burn_amount_lo.
     bindr (extraction_result (pod_burn_amount_try_extract Z (bp_burn_amount_ciphertext_hi proof_context) 0)) (\<lambda>burn_amount_hi.
     bindr (curve_result (subtract_with_lo_hi (zk_curve Z) (cta_available_balance e) burn_amount_lo burn_amount_hi))
       (\<lambda>new_source_available_balance.
     bindr (ensure (new_source_available_balance = bp_remaining_balance_ciphertext proof_context)
              (Custom ConfidentialTransferBalanceMismatch)) (\<lambda>_.
     bindr (ensure (ctm_auditor_elgamal_pubkey confidential_transfer_mint = bp_auditor proof_context)
              (Custom ConfidentialTransferElGamalPubkeyMismatch)) (\<lambda>_.
     bindr (ensure (cmb_supply_elgamal_pubkey mint_burn = bp_supply proof_context) InvalidInstructionData) (\<lambda>_.
     bindr (map_err (pod_burn_amount_try_extract Z (bp_burn_amount_ciphertext_lo proof_context) 1)
              InvalidAccountData) (\<lambda>supply_lo.
     bindr (map_err (pod_burn_amount_try_extract Z (bp_burn_amount_ciphertext_hi proof_context) 1)
              InvalidAccountData) (\<lambda>supply_hi.
     bindr (curve_result (add_with_lo_hi (zk_curve Z) (cmb_pending_burn mint_burn) supply_lo supply_hi)) (\<lambda>pending_burn.
     bindr (put_extension AtAccount confidential_transfer_account_ext
              (e\<lparr>cta_available_balance := new_source_available_balance,
                 cta_decryptable_available_balance := new_decryptable_available_balance\<rparr>)
              (ps_tlv token_account)) (\<lambda>account_tlv.
     bindr (put_extension AtMint confidential_mint_burn_ext (mint_burn\<lparr>cmb_pending_burn := pending_burn\<rparr>)
              (ps_tlv mint)) (\<lambda>mint_tlv.
     Inr (set_data (ai_key mint_info) (state_bytes (mint_base P) (mint\<lparr>ps_tlv := mint_tlv\<rparr>))
            (set_data (ai_key token_account_info)
              (state_bytes account_base (token_account\<lparr>ps_tlv := account_tlv\<rparr>)) st)))))))))))))))))))))))))))))))))))))"

end
