(* ===== verification/Account_Control.thy ===== *)
theory Account_Control
  imports Supply
begin

text \<open>
  Instructions that change who controls an account (program/src/processor.rs): \<open>process_approve\<close>,
  \<open>process_revoke\<close>, \<open>process_toggle_freeze_account\<close> and \<open>process_set_authority\<close>, the last with its
  two branches for token accounts and for mints and all eighteen authority types.
\<close>

section \<open>Delegates\<close>

text \<open>Approving, changing the owner and closing under a locked CPI guard are refused inside a CPI.\<close>

definition cpi_guard_locked :: "platform \<Rightarrow> pod_account pod_state \<Rightarrow> bool" where
  "cpi_guard_locked P account =
     (case get_extension AtAccount cpi_guard_ext (ps_tlv account) of
        Inr cpi_guard \<Rightarrow> pl_bool_from_pod P (cg_lock_cpi cpi_guard) | Inl _ \<Rightarrow> False)"

definition process_approve ::
    "platform \<Rightarrow> address \<Rightarrow> account_info list \<Rightarrow> u64 \<Rightarrow> instruction_variant \<Rightarrow> store \<Rightarrow> store result" where
  "process_approve P program_id accounts amount instruction_variant st =
     bindr (next_account_info accounts) (\<lambda>(source_account_info, it).
     bindr (check_program_account (info_owner st source_account_info)) (\<lambda>_.
     bindr (case instruction_variant of
         VariantChecked decimals \<Rightarrow>
           bindr (next_account_info it) (\<lambda>(mint_info, it). Inr (Some (mint_info, decimals), it))
       | VariantUnchecked \<Rightarrow> Inr (None, it)) (\<lambda>(expected_mint_info, it).
     bindr (next_account_info it) (\<lambda>(delegate_info, it).
     bindr (next_account_info it) (\<lambda>(owner_info, signers).
     initialized_view account_base (ai_key source_account_info) (\<lambda>source_account.
       bindr (ensure (\<not> is_frozen (ps_base source_account)) (Custom AccountFrozen)) (\<lambda>_.
       bindr (case expected_mint_info of
           Some (mint_info, expected_decimals) \<Rightarrow>
             bindr (check_program_account (info_owner st mint_info)) (\<lambda>_.
             bindr (ensure (a_mint (ps_base source_account) = ai_key mint_info) (Custom MintMismatch)) (\<lambda>_.
             bindr (ensure (ai_key mint_info \<noteq> ai_key source_account_info) Panic) (\<lambda>_.
             bindr (unpack_ref (mint_base P) (info_data st mint_info)) (\<lambda>(mint, _).
             ensure (expected_decimals = m_decimals mint) (Custom MintDecimalsMismatch)))))
         | None \<Rightarrow> Inr ()) (\<lambda>_.
       bindr (validate_owner P program_id (a_owner (ps_base source_account)) owner_info
                (length (info_data st owner_info)) signers st) (\<lambda>_.
       bindr (ensure (\<not> (cpi_guard_locked P source_account \<and> in_cpi P)) (Custom CpiGuardApproveBlocked)) (\<lambda>_.
       Inr (source_account\<lparr>ps_base := (ps_base source_account)\<lparr>
              a_delegate := coption_some (ai_key delegate_info), a_delegated_amount := amount\<rparr>\<rparr>)))))) st)))))"

definition process_revoke :: "platform \<Rightarrow> address \<Rightarrow> account_info list \<Rightarrow> store \<Rightarrow> store result" where
  "process_revoke P program_id accounts st =
     bindr (next_account_info accounts) (\<lambda>(source_account_info, it).
     bindr (next_account_info it) (\<lambda>(authority_info, signers).
     bindr (check_program_account (info_owner st source_account_info)) (\<lambda>_.
     initialized_view account_base (ai_key source_account_info) (\<lambda>source_account.
       bindr (ensure (\<not> is_frozen (ps_base source_account)) (Custom AccountFrozen)) (\<lambda>_.
       bindr (validate_owner P program_id
                (if co_option (a_delegate (ps_base source_account)) = COPTION_SOME \<and>
                    ai_key authority_info = co_value (a_delegate (ps_base source_account))
                 then co_value (a_delegate (ps_base source_account)) else a_owner (ps_base source_account))
                authority_info (length (info_data st authority_info)) signers st) (\<lambda>_.
       Inr (source_account\<lparr>ps_base := (ps_base source_account)\<lparr>
              a_delegate := coption_none, a_delegated_amount := 0\<rparr>\<rparr>)))) st)))"

section \<open>Freezing\<close>

definition process_toggle_freeze_account ::
    "platform \<Rightarrow> address \<Rightarrow> account_info list \<Rightarrow> bool \<Rightarrow> store \<Rightarrow> store result" where
  "process_toggle_freeze_account P program_id accounts freeze st =
     bindr (next_account_info accounts) (\<lambda>(source_account_info, it).
     bindr (next_account_info it) (\<lambda>(mint_info, it).
     bindr (next_account_info it) (\<lambda>(authority_info, signers).
     bindr (check_program_account (info_owner st source_account_info)) (\<lambda>_.
     bindr (check_program_account (info_owner st mint_info)) (\<lambda>_.
     initialized_view account_base (ai_key source_account_info) (\<lambda>source_account.
       bindr (ensure (\<not> (freeze \<and> is_frozen (ps_base source_account) \<or>
                        \<not> freeze \<and> \<not> is_frozen (ps_base source_account))) (Custom InvalidState)) (\<lambda>_.
       bindr (ensure (\<not> is_native (ps_base source_account)) (Custom NativeNotSupported)) (\<lambda>_.
       bindr (ensure (ai_key mint_info = a_mint (ps_base source_account)) (Custom MintMismatch)) (\<lambda>_.
       bindr (ensure (ai_key mint_info \<noteq> ai_key source_account_info) Panic) (\<lambda>_.
       bindr (unpack_ref (mint_base P) (info_data st mint_info)) (\<lambda>(mint, _).
       bindr (if co_option (m_freeze_authority mint) = COPTION_SOME
              then validate_owner P program_id (co_value (m_freeze_authority mint)) authority_info
                     (length (info_data st authority_info)) signers st
              else Inl (Custom MintCannotFreeze)) (\<lambda>_.
       Inr (source_account\<lparr>ps_base := (ps_base source_account)\<lparr>
              a_state := account_state_u8 (if freeze then Frozen else Initialized)\<rparr>\<rparr>)))))))) st)))))"

section \<open>Authorities\<close>

datatype authority_type =
    AuthMintTokens
  | AuthFreezeAccount
  | AuthAccountOwner
  | AuthCloseAccount
  | AuthTransferFeeConfig
  | AuthWithheldWithdraw
  | AuthCloseMint
  | AuthInterestRate
  | AuthPermanentDelegate
  | AuthConfidentialTransferMint
  | AuthTransferHookProgramId
  | AuthConfidentialTransferFeeConfig
  | AuthMetadataPointer
  | AuthGroupPointer
  | AuthGroupMemberPointer
  | AuthScaledUiAmount
  | AuthPause
  | AuthPermissionedBurn

text \<open>The wire encoding of the authority types.\<close>

definition authority_type_from :: "u8 \<Rightarrow> authority_type result" where
  "authority_type_from index =
     (if index = 0 then Inr AuthMintTokens else
     (if index = 1 then Inr AuthFreezeAccount else
     (if index = 2 then Inr AuthAccountOwner else
     (if index = 3 then Inr AuthCloseAccount else
     (if index = 4 then Inr AuthTransferFeeConfig else
     (if index = 5 then Inr AuthWithheldWithdraw else
     (if index = 6 then Inr AuthCloseMint else
     (if index = 7 then Inr AuthInterestRate else
     (if index = 8 then Inr AuthPermanentDelegate else
     (if index = 9 then Inr AuthConfidentialTransferMint else
     (if index = 10 then Inr AuthTransferHookProgramId else
     (if index = 11 then Inr AuthConfidentialTransferFeeConfig else
     (if index = 12 then Inr AuthMetadataPointer else
     (if index = 13 then Inr AuthGroupPointer else
     (if index = 14 then Inr AuthGroupMemberPointer else
     (if index = 15 then Inr AuthScaledUiAmount else
     (if index = 16 then Inr AuthPause else
     (if index = 17 then Inr AuthPermissionedBurn else
      Inl (Custom InvalidInstruction)))))))))))))))))))"

definition authority_type_into :: "authority_type \<Rightarrow> u8" where
  "authority_type_into t = (case t of
     AuthMintTokens \<Rightarrow> 0
   | AuthFreezeAccount \<Rightarrow> 1
   | AuthAccountOwner \<Rightarrow> 2
   | AuthCloseAccount \<Rightarrow> 3
   | AuthTransferFeeConfig \<Rightarrow> 4
   | AuthWithheldWithdraw \<Rightarrow> 5
   | AuthCloseMint \<Rightarrow> 6
   | AuthInterestRate \<Rightarrow> 7
   | AuthPermanentDelegate \<Rightarrow> 8
   | AuthConfidentialTransferMint \<Rightarrow> 9
   | AuthTransferHookProgramId \<Rightarrow> 10
   | AuthConfidentialTransferFeeConfig \<Rightarrow> 11
   | AuthMetadataPointer \<Rightarrow> 12
   | AuthGroupPointer \<Rightarrow> 13
   | AuthGroupMemberPointer \<Rightarrow> 14
   | AuthScaledUiAmount \<Rightarrow> 15
   | AuthPause \<Rightarrow> 16
   | AuthPermissionedBurn \<Rightarrow> 17)"

text \<open>
  Replacing an authority kept in an extension of a mint: the present authority must act, and an
  extension without one cannot get one. \<open>f\<close> reads the field and \<open>upd\<close> writes it.
\<close>

definition set_extension_authority ::
    "platform \<Rightarrow> address \<Rightarrow> account_info \<Rightarrow> account_info list \<Rightarrow> 'v extension \<Rightarrow> ('v \<Rightarrow> address) \<Rightarrow>
     (address \<Rightarrow> 'v \<Rightarrow> 'v) \<Rightarrow> address pod_coption \<Rightarrow> store \<Rightarrow> bytes \<Rightarrow> bytes result" where
  "set_extension_authority P program_id authority_info signers V f upd new_authority st tlv =
     bindr (get_extension AtMint V tlv) (\<lambda>extension.
     bindr (ok_or (pl_option_from_maybe_null P (f extension)) (Custom AuthorityTypeNotSupported)) (\<lambda>authority.
     bindr (validate_owner P program_id authority authority_info (length (info_data st authority_info)) signers st) (\<lambda>_.
     bindr (maybe_null_try_from_coption new_authority) (\<lambda>a.
     put_extension AtMint V (upd a extension) tlv))))"

definition set_account_authority ::
    "platform \<Rightarrow> address \<Rightarrow> account_info \<Rightarrow> account_info list \<Rightarrow> authority_type \<Rightarrow> address pod_coption \<Rightarrow> store \<Rightarrow>
     pod_account pod_state \<Rightarrow> pod_account pod_state result" where
  "set_account_authority P program_id authority_info signers authority_type new_authority st account =
     (let base = ps_base account; data_len = length (info_data st authority_info) in
      bindr (ensure (\<not> is_frozen base) (Custom AccountFrozen)) (\<lambda>_.
      case authority_type of
        AuthAccountOwner \<Rightarrow>
          bindr (validate_owner P program_id (a_owner base) authority_info data_len signers st) (\<lambda>_.
          bindr (ensure (\<not> is_ok (get_extension AtAccount immutable_owner_ext (ps_tlv account))) (Custom ImmutableOwnerError)) (\<lambda>_.
          bindr (if cpi_guard_locked P account
                 then Inl (Custom (if in_cpi P then CpiGuardSetAuthorityBlocked else CpiGuardOwnerChangeBlocked))
                 else Inr ()) (\<lambda>_.
          bindr (if co_option new_authority = COPTION_SOME then Inr (co_value new_authority)
                 else Inl (Custom InvalidInstruction)) (\<lambda>owner.
          let base' = base\<lparr>a_owner := owner, a_delegate := coption_none, a_delegated_amount := 0\<rparr> in
          Inr (account\<lparr>ps_base := if is_native base then base'\<lparr>a_close_authority := coption_none\<rparr> else base'\<rparr>)))))
      | AuthCloseAccount \<Rightarrow>
          bindr (validate_owner P program_id (coption_unwrap_or (a_close_authority base) (a_owner base))
                   authority_info data_len signers st) (\<lambda>_.
          bindr (ensure (\<not> (cpi_guard_locked P account \<and> in_cpi P \<and> coption_is_some new_authority))
                   (Custom CpiGuardSetAuthorityBlocked)) (\<lambda>_.
          Inr (account\<lparr>ps_base := base\<lparr>a_close_authority := new_authority\<rparr>\<rparr>)))
      | _ \<Rightarrow> Inl (Custom AuthorityTypeNotSupported)))"

text \<open>Once a mint has no mint authority, or no freeze authority, it cannot get one again.\<close>

definition set_mint_authority ::
    "platform \<Rightarrow> address \<Rightarrow> account_info \<Rightarrow> account_info list \<Rightarrow> authority_type \<Rightarrow> address pod_coption \<Rightarrow> store \<Rightarrow>
     pod_mint pod_state \<Rightarrow> pod_mint pod_state result" where
  "set_mint_authority P program_id authority_info signers authority_type new_authority st mint =
     (let base = ps_base mint; data_len = length (info_data st authority_info) in
      case authority_type of
        AuthMintTokens \<Rightarrow>
          bindr (coption_ok_or (m_mint_authority base) (Custom FixedSupply)) (\<lambda>mint_authority.
          bindr (validate_owner P program_id mint_authority authority_info data_len signers st) (\<lambda>_.
          Inr (mint\<lparr>ps_base := base\<lparr>m_mint_authority := new_authority\<rparr>\<rparr>)))
      | AuthFreezeAccount \<Rightarrow>
          bindr (coption_ok_or (m_freeze_authority base) (Custom MintCannotFreeze)) (\<lambda>freeze_authority.
          bindr (validate_owner P program_id freeze_authority authority_info data_len signers st) (\<lambda>_.
          Inr (mint\<lparr>ps_base := base\<lparr>m_freeze_authority := new_authority\<rparr>\<rparr>)))
      | AuthCloseMint \<Rightarrow>
          on_tlv (set_extension_authority P program_id authority_info signers mint_close_authority_ext
            mca_close_authority (\<lambda>a e. e\<lparr>mca_close_authority := a\<rparr>) new_authority st) mint
      | AuthTransferFeeConfig \<Rightarrow>
          on_tlv (set_extension_authority P program_id authority_info signers transfer_fee_config_ext
            tfc_transfer_fee_config_authority (\<lambda>a e. e\<lparr>tfc_transfer_fee_config_authority := a\<rparr>) new_authority st) mint
      | AuthWithheldWithdraw \<Rightarrow>
          on_tlv (set_extension_authority P program_id authority_info signers transfer_fee_config_ext
            tfc_withdraw_withheld_authority (\<lambda>a e. e\<lparr>tfc_withdraw_withheld_authority := a\<rparr>) new_authority st) mint
      | AuthInterestRate \<Rightarrow>
          on_tlv (set_extension_authority P program_id authority_info signers interest_bearing_config_ext
            ib_rate_authority (\<lambda>a e. e\<lparr>ib_rate_authority := a\<rparr>) new_authority st) mint
      | AuthPermanentDelegate \<Rightarrow>
          on_tlv (set_extension_authority P program_id authority_info signers permanent_delegate_ext
            pd_delegate (\<lambda>a e. e\<lparr>pd_delegate := a\<rparr>) new_authority st) mint
      | AuthConfidentialTransferMint \<Rightarrow>
          on_tlv (set_extension_authority P program_id authority_info signers confidential_transfer_mint_ext
            ctm_authority (\<lambda>a e. e\<lparr>ctm_authority := a\<rparr>) new_authority st) mint
      | AuthTransferHookProgramId \<Rightarrow>
          on_tlv (set_extension_authority P program_id authority_info signers transfer_hook_ext
            th_authority (\<lambda>a e. e\<lparr>th_authority := a\<rparr>) new_authority st) mint
      | AuthConfidentialTransferFeeConfig \<Rightarrow>
          on_tlv (set_extension_authority P program_id authority_info signers confidential_transfer_fee_config_ext
            ctfc_authority (\<lambda>a e. e\<lparr>ctfc_authority := a\<rparr>) new_authority st) mint
      | AuthMetadataPointer \<Rightarrow>
          on_tlv (set_extension_authority P program_id authority_info signers metadata_pointer_ext
            mp_authority (\<lambda>a e. e\<lparr>mp_authority := a\<rparr>) new_authority st) mint
      | AuthGroupPointer \<Rightarrow>
          on_tlv (set_extension_authority P program_id authority_info signers group_pointer_ext
            gp_authority (\<lambda>a e. e\<lparr>gp_authority := a\<rparr>) new_authority st) mint
      | AuthGroupMemberPointer \<Rightarrow>
          on_tlv (set_extension_authority P program_id authority_info signers group_member_pointer_ext
            gmp_authority (\<lambda>a e. e\<lparr>gmp_authority := a\<rparr>) new_authority st) mint
      | AuthScaledUiAmount \<Rightarrow>
          on_tlv (set_extension_authority P program_id authority_info signers scaled_ui_amount_config_ext
            su_authority (\<lambda>a e. e\<lparr>su_authority := a\<rparr>) new_authority st) mint
      | AuthPause \<Rightarrow>
          on_tlv (set_extension_authority P program_id authority_info signers pausable_config_ext
            pc_authority (\<lambda>a e. e\<lparr>pc_authority := a\<rparr>) new_authority st) mint
      | AuthPermissionedBurn \<Rightarrow>
          on_tlv (set_extension_authority P program_id authority_info signers permissioned_burn_config_ext
            pb_authority (\<lambda>a e. e\<lparr>pb_authority := a\<rparr>) new_authority st) mint
      | _ \<Rightarrow> Inl (Custom AuthorityTypeNotSupported))"

definition process_set_authority ::
    "platform \<Rightarrow> address \<Rightarrow> account_info list \<Rightarrow> authority_type \<Rightarrow> address pod_coption \<Rightarrow> store \<Rightarrow> store result" where
  "process_set_authority P program_id accounts authority_type new_authority st =
     bindr (next_account_info accounts) (\<lambda>(account_info, it).
     bindr (next_account_info it) (\<lambda>(authority_info, signers).
     bindr (check_program_account (info_owner st account_info)) (\<lambda>_.
     if is_ok (unpack account_base (info_data st account_info)) then
       initialized_view account_base (ai_key account_info)
         (set_account_authority P program_id authority_info signers authority_type new_authority st) st
     else if is_ok (unpack (mint_base P) (info_data st account_info)) then
       initialized_view (mint_base P) (ai_key account_info)
         (set_mint_authority P program_id authority_info signers authority_type new_authority st) st
     else Inl InvalidAccountData)))"

section \<open>Properties\<close>

lemma account_view_Inr:
  assumes "initialized_view account_base k f st = Inr st'"
    and "\<And>s s'. unpack account_base (ac_data (st k)) = Inr s \<Longrightarrow> f s = Inr s' \<Longrightarrow>
      s' = s\<lparr>ps_base := ps_base s'\<rparr> \<and> pod_account_is_initialized (ps_base s')"
  obtains s b where "unpack account_base (ac_data (st k)) = Inr s" "f s = Inr (s\<lparr>ps_base := b\<rparr>)"
    "unpack account_base (ac_data (st' k)) = Inr (s\<lparr>ps_base := b\<rparr>)"
    "st' = set_data k (state_bytes account_base (s\<lparr>ps_base := b\<rparr>)) st"
proof -
  from assms(1) obtain s s' where s: "unpack account_base (ac_data (st k)) = Inr s" "f s = Inr s'"
    "st' = set_data k (state_bytes account_base s') st"
    by (auto simp: result_simps)
  from assms(2) [OF s(1,2)] have s': "s' = s\<lparr>ps_base := ps_base s'\<rparr>" "pod_account_is_initialized (ps_base s')"
    by auto
  from account_st.unpack_update_base [OF s(1), of "ps_base s'"] s'
  have "unpack account_base (state_bytes account_base s') = Inr s'" by simp
  with s s' show thesis by (intro that [of s "ps_base s'"]) simp_all
qed

lemma is_frozen_state: "is_frozen a \<longleftrightarrow> a_state a = account_state_u8 Frozen"
  by (simp add: is_frozen_def)

text \<open>
  Freezing or thawing needs the freeze authority of the account's mint, which must exist, applies
  to an account in the opposite state that is not native, and changes nothing but that state.
\<close>

theorem toggle_freeze_correct:
  assumes "process_toggle_freeze_account P program_id (src # mint_info # auth # signers) freeze st = Inr st'"
  shows "\<exists>s mint mint_tlv.
     unpack account_base (info_data st src) = Inr s \<and> is_frozen (ps_base s) = (\<not> freeze) \<and>
     \<not> is_native (ps_base s) \<and> a_mint (ps_base s) = ai_key mint_info \<and>
     unpack_ref (mint_base P) (info_data st mint_info) = Inr (mint, mint_tlv) \<and>
     co_option (m_freeze_authority mint) = COPTION_SOME \<and>
     authorizes P program_id (co_value (m_freeze_authority mint)) auth signers st \<and>
     unpack account_base (info_data st' src) = Inr (s\<lparr>ps_base := (ps_base s)\<lparr>
       a_state := account_state_u8 (if freeze then Frozen else Initialized)\<rparr>\<rparr>) \<and>
     (\<forall>a. a \<noteq> ai_key src \<longrightarrow> st' a = st a)"
proof -
  from assms obtain s mint mint_tlv where s: "unpack account_base (info_data st src) = Inr s"
    "is_frozen (ps_base s) = (\<not> freeze)" "\<not> is_native (ps_base s)" "a_mint (ps_base s) = ai_key mint_info"
    "unpack_ref (mint_base P) (info_data st mint_info) = Inr (mint, mint_tlv)"
    and v: "(if co_option (m_freeze_authority mint) = COPTION_SOME
              then validate_owner P program_id (co_value (m_freeze_authority mint)) auth
                     (length (info_data st auth)) signers st
              else Inl (Custom MintCannotFreeze)) = Inr ()"
    and st': "st' = set_data (ai_key src) (state_bytes account_base (s\<lparr>ps_base := (ps_base s)\<lparr>
       a_state := account_state_u8 (if freeze then Frozen else Initialized)\<rparr>\<rparr>)) st"
  proof -
    from assms show thesis
      by (clarsimp simp: process_toggle_freeze_account_def result_simps info_data_def [symmetric] simp del: coption_simps)
        (rule that; (assumption | rule refl | auto))
  qed
  have "unpack account_base (state_bytes account_base (s\<lparr>ps_base := (ps_base s)\<lparr>
       a_state := account_state_u8 (if freeze then Frozen else Initialized)\<rparr>\<rparr>)) =
     Inr (s\<lparr>ps_base := (ps_base s)\<lparr>a_state := account_state_u8 (if freeze then Frozen else Initialized)\<rparr>\<rparr>)"
    by (rule account_st.unpack_update_base [OF s(1)]) (simp add: pod_account_is_initialized_def)
  with s v st' show ?thesis
    by (intro exI [of _ s] exI [of _ mint] exI [of _ mint_tlv])
      (simp add: info_data_def set_data_other validate_owner_authorizes [unfolded info_data_def] del: coption_simps split: if_splits)
qed

text \<open>
  Only the owner approves a delegate, of an account that is not frozen and not guarded against it
  inside a CPI; the delegate and its allowance are replaced and nothing else changes.
\<close>

theorem approve_correct:
  assumes "process_approve P program_id (src # delegate # owner # signers) amount VariantUnchecked st = Inr st'"
  shows "\<exists>s. unpack account_base (info_data st src) = Inr s \<and> \<not> is_frozen (ps_base s) \<and>
     authorizes P program_id (a_owner (ps_base s)) owner signers st \<and> \<not> (cpi_guard_locked P s \<and> in_cpi P) \<and>
     unpack account_base (info_data st' src) = Inr (s\<lparr>ps_base := (ps_base s)\<lparr>
       a_delegate := coption_some (ai_key delegate), a_delegated_amount := amount\<rparr>\<rparr>) \<and>
     (\<forall>a. a \<noteq> ai_key src \<longrightarrow> st' a = st a)"
proof -
  from assms have "initialized_view account_base (ai_key src) (\<lambda>s.
       bindr (ensure (\<not> is_frozen (ps_base s)) (Custom AccountFrozen)) (\<lambda>_.
       bindr (validate_owner P program_id (a_owner (ps_base s)) owner (length (info_data st owner)) signers st) (\<lambda>_.
       bindr (ensure (\<not> (cpi_guard_locked P s \<and> in_cpi P)) (Custom CpiGuardApproveBlocked)) (\<lambda>_.
       Inr (s\<lparr>ps_base := (ps_base s)\<lparr>a_delegate := coption_some (ai_key delegate), a_delegated_amount := amount\<rparr>\<rparr>)))))
     st = Inr st'"
    by (auto simp: process_approve_def result_simps)
  then show ?thesis
  proof (rule account_view_Inr)
    fix s s'
    assume u: "unpack account_base (ac_data (st (ai_key src))) = Inr s"
      and "bindr (ensure (\<not> is_frozen (ps_base s)) (Custom AccountFrozen)) (\<lambda>_.
       bindr (validate_owner P program_id (a_owner (ps_base s)) owner (length (info_data st owner)) signers st) (\<lambda>_.
       bindr (ensure (\<not> (cpi_guard_locked P s \<and> in_cpi P)) (Custom CpiGuardApproveBlocked)) (\<lambda>_.
       Inr (s\<lparr>ps_base := (ps_base s)\<lparr>a_delegate := coption_some (ai_key delegate), a_delegated_amount := amount\<rparr>\<rparr>)))) = Inr s'"
    then show "s' = s\<lparr>ps_base := ps_base s'\<rparr> \<and> pod_account_is_initialized (ps_base s')"
      using unpack_account_initialized [OF u] by (auto simp: result_simps pod_account_is_initialized_def)
  qed (auto simp: result_simps validate_owner_authorizes info_data_def [symmetric] set_data_other)
qed

text \<open>
  Revoking succeeds for the owner or for the delegate itself, on an account that is not frozen,
  and leaves the account without delegate and allowance and otherwise as it was.
\<close>

theorem revoke_correct:
  assumes "process_revoke P program_id (src # auth # signers) st = Inr st'"
  shows "\<exists>s. unpack account_base (info_data st src) = Inr s \<and> \<not> is_frozen (ps_base s) \<and>
     authorizes P program_id (ai_key auth) auth signers st \<and>
     (is_delegate (ps_base s) (ai_key auth) \<or> a_owner (ps_base s) = ai_key auth) \<and>
     unpack account_base (info_data st' src) = Inr (s\<lparr>ps_base := (ps_base s)\<lparr>
       a_delegate := coption_none, a_delegated_amount := 0\<rparr>\<rparr>) \<and>
     (\<forall>a. a \<noteq> ai_key src \<longrightarrow> st' a = st a)"
proof -
  from assms obtain s where s: "unpack account_base (info_data st src) = Inr s" "\<not> is_frozen (ps_base s)"
    and v: "validate_owner P program_id
                (if co_option (a_delegate (ps_base s)) = COPTION_SOME \<and> ai_key auth = co_value (a_delegate (ps_base s))
                 then co_value (a_delegate (ps_base s)) else a_owner (ps_base s))
                auth (length (info_data st auth)) signers st = Inr ()"
    and st': "st' = set_data (ai_key src) (state_bytes account_base (s\<lparr>ps_base := (ps_base s)\<lparr>
       a_delegate := coption_none, a_delegated_amount := 0\<rparr>\<rparr>)) st"
  proof -
    from assms show thesis
      by (clarsimp simp: process_revoke_def result_simps info_data_def [symmetric] simp del: coption_simps)
        (rule that; (assumption | rule refl))
  qed
  have au: "authorizes P program_id (if is_delegate (ps_base s) (ai_key auth) then ai_key auth else a_owner (ps_base s))
      auth signers st"
    using v by (auto simp: validate_owner_authorizes is_delegate_def simp del: coption_simps split: if_splits)
  then have "authorizes P program_id (ai_key auth) auth signers st"
    "is_delegate (ps_base s) (ai_key auth) \<or> a_owner (ps_base s) = ai_key auth"
    using authorizes_key [OF au] by (auto split: if_splits)
  moreover have "unpack account_base (state_bytes account_base (s\<lparr>ps_base := (ps_base s)\<lparr>
       a_delegate := coption_none, a_delegated_amount := 0\<rparr>\<rparr>)) =
     Inr (s\<lparr>ps_base := (ps_base s)\<lparr>a_delegate := coption_none, a_delegated_amount := 0\<rparr>\<rparr>)"
    using unpack_account_initialized [OF s(1)]
    by (intro account_st.unpack_update_base [OF s(1)]) (simp add: pod_account_is_initialized_def)
  ultimately show ?thesis
    using s st' by (intro exI [of _ s]) (simp add: info_data_def set_data_other)
qed

text \<open>
  A new owner is set by the present owner only, on an account that is not frozen, whose owner is
  not immutable and whose CPI guard is off; the new owner starts without delegate, and a native
  account also loses its close authority.
\<close>

theorem set_account_owner_correct:
  assumes "process_set_authority P program_id (info # auth # signers) AuthAccountOwner new_authority st = Inr st'"
    and "unpack account_base (info_data st info) = Inr s"
  shows "\<not> is_frozen (ps_base s) \<and> authorizes P program_id (a_owner (ps_base s)) auth signers st \<and>
     \<not> is_ok (get_extension AtAccount immutable_owner_ext (ps_tlv s)) \<and> \<not> cpi_guard_locked P s \<and>
     co_option new_authority = COPTION_SOME \<and>
     unpack account_base (info_data st' info) = Inr (s\<lparr>ps_base := (ps_base s)\<lparr>
       a_owner := co_value new_authority, a_delegate := coption_none, a_delegated_amount := 0,
       a_close_authority := if is_native (ps_base s) then coption_none else a_close_authority (ps_base s)\<rparr>\<rparr>) \<and>
     (\<forall>a. a \<noteq> ai_key info \<longrightarrow> st' a = st a)"
proof -
  let ?b = "(ps_base s)\<lparr>a_owner := co_value new_authority, a_delegate := coption_none, a_delegated_amount := 0,
       a_close_authority := if is_native (ps_base s) then coption_none else a_close_authority (ps_base s)\<rparr>"
  from assms have "initialized_view account_base (ai_key info)
      (set_account_authority P program_id auth signers AuthAccountOwner new_authority st) st = Inr st'"
    by (auto simp: process_set_authority_def result_simps)
  with assms(2) obtain s' where f: "set_account_authority P program_id auth signers AuthAccountOwner new_authority st s = Inr s'"
    and st': "st' = set_data (ai_key info) (state_bytes account_base s') st"
    by (auto simp: result_simps info_data_def)
  from f have c: "\<not> is_frozen (ps_base s)" "authorizes P program_id (a_owner (ps_base s)) auth signers st"
     "\<not> is_ok (get_extension AtAccount immutable_owner_ext (ps_tlv s))" "\<not> cpi_guard_locked P s"
     "co_option new_authority = COPTION_SOME" "s' = s\<lparr>ps_base := ?b\<rparr>"
    by (auto simp: set_account_authority_def Let_def result_simps validate_owner_authorizes simp del: coption_simps split: if_splits)
  have "unpack account_base (state_bytes account_base (s\<lparr>ps_base := ?b\<rparr>)) = Inr (s\<lparr>ps_base := ?b\<rparr>)"
    using unpack_account_initialized [OF assms(2)]
    by (intro account_st.unpack_update_base [OF assms(2)]) (simp add: pod_account_is_initialized_def)
  with c st' show ?thesis by (simp add: info_data_def set_data_other)
qed

lemma set_extension_authority_Inr:
  assumes "set_extension_authority P program_id auth signers V f upd new_authority st tlv = Inr tlv'"
  obtains e k a where "get_extension AtMint V tlv = Inr e" "pl_option_from_maybe_null P (f e) = Some k"
    "authorizes P program_id k auth signers st" "maybe_null_try_from_coption new_authority = Inr a"
    "put_extension AtMint V (upd a e) tlv = Inr tlv'" "same_except {vx_type V} tlv tlv'"
proof -
  from assms obtain e k a where "get_extension AtMint V tlv = Inr e" "pl_option_from_maybe_null P (f e) = Some k"
    "authorizes P program_id k auth signers st" "maybe_null_try_from_coption new_authority = Inr a"
    "put_extension AtMint V (upd a e) tlv = Inr tlv'"
    by (auto simp: set_extension_authority_def result_simps validate_owner_authorizes)
  moreover from this(5) have "same_except {vx_type V} tlv tlv'"
    by (rule put_same_except) simp
  ultimately show thesis by (rule that)
qed

lemma set_extension_authority_length:
  "set_extension_authority P program_id auth signers V f upd new_authority st tlv = Inr tlv' \<Longrightarrow> length tlv' = length tlv"
  by (erule set_extension_authority_Inr) (simp add: same_except_length)

lemma coption_ok_or_Inr:
  "coption_ok_or p e = Inr x \<longleftrightarrow> co_option p = COPTION_SOME \<and> x = co_value p"
  by (auto simp: coption_ok_or_def)

lemma set_mint_authority_shape:
  assumes "set_mint_authority P program_id auth signers t new_authority st m = Inr m'"
  obtains tlv b where "m' = m\<lparr>ps_base := b, ps_tlv := tlv\<rparr>" "length tlv = length (ps_tlv m)"
    "b = (if t = AuthMintTokens then (ps_base m)\<lparr>m_mint_authority := new_authority\<rparr>
          else if t = AuthFreezeAccount then (ps_base m)\<lparr>m_freeze_authority := new_authority\<rparr> else ps_base m)"
    "t = AuthMintTokens \<Longrightarrow> co_option (m_mint_authority (ps_base m)) = COPTION_SOME \<and>
       authorizes P program_id (co_value (m_mint_authority (ps_base m))) auth signers st"
    "t = AuthFreezeAccount \<Longrightarrow> co_option (m_freeze_authority (ps_base m)) = COPTION_SOME \<and>
       authorizes P program_id (co_value (m_freeze_authority (ps_base m))) auth signers st"
proof (cases "t = AuthMintTokens \<or> t = AuthFreezeAccount")
  case True
  then have "ps_tlv m' = ps_tlv m" "m' = m\<lparr>ps_base := if t = AuthMintTokens
       then (ps_base m)\<lparr>m_mint_authority := new_authority\<rparr>
       else (ps_base m)\<lparr>m_freeze_authority := new_authority\<rparr>\<rparr>"
    "t = AuthMintTokens \<Longrightarrow> co_option (m_mint_authority (ps_base m)) = COPTION_SOME \<and>
       authorizes P program_id (co_value (m_mint_authority (ps_base m))) auth signers st"
    "t = AuthFreezeAccount \<Longrightarrow> co_option (m_freeze_authority (ps_base m)) = COPTION_SOME \<and>
       authorizes P program_id (co_value (m_freeze_authority (ps_base m))) auth signers st"
    using assms
    by (auto simp: set_mint_authority_def Let_def result_simps coption_ok_or_Inr validate_owner_authorizes simp del: coption_simps
        split: if_splits)
  with True show thesis by (intro that [of "ps_tlv m" "ps_base m'"]) auto
next
  case False
  obtain tlv where "m' = m\<lparr>ps_tlv := tlv\<rparr>" "length tlv = length (ps_tlv m)"
    using assms False
    by (cases t) (auto simp: set_mint_authority_def Let_def result_simps dest: set_extension_authority_length)
  with False show thesis by (intro that [of tlv "ps_base m"]) auto
qed

text \<open>
  C13. On a mint, \<open>SetAuthority\<close> never changes supply or decimals, changes the mint authority only
  under the present mint authority and the freeze authority only under the present freeze authority,
  so that a mint whose supply is fixed, or that cannot freeze, stays so; the mint stays readable and
  no other account changes.
\<close>

theorem set_mint_authority_irrevocable:
  assumes "process_set_authority P program_id (info # auth # signers) t new_authority st = Inr st'"
    and "unpack (mint_base P) (info_data st info) = Inr m"
  shows "\<exists>m'. unpack (mint_base P) (info_data st' info) = Inr m' \<and>
     m_supply (ps_base m') = m_supply (ps_base m) \<and> m_decimals (ps_base m') = m_decimals (ps_base m) \<and>
     (m_mint_authority (ps_base m') = m_mint_authority (ps_base m) \<or>
      t = AuthMintTokens \<and> co_option (m_mint_authority (ps_base m)) = COPTION_SOME \<and>
      m_mint_authority (ps_base m') = new_authority \<and>
      authorizes P program_id (co_value (m_mint_authority (ps_base m))) auth signers st) \<and>
     (m_freeze_authority (ps_base m') = m_freeze_authority (ps_base m) \<or>
      t = AuthFreezeAccount \<and> co_option (m_freeze_authority (ps_base m)) = COPTION_SOME \<and>
      m_freeze_authority (ps_base m') = new_authority \<and>
      authorizes P program_id (co_value (m_freeze_authority (ps_base m))) auth signers st) \<and>
     (\<forall>a. a \<noteq> ai_key info \<longrightarrow> st' a = st a)"
proof -
  have "\<not> is_ok (unpack account_base (info_data st info))"
    using mint_account_disjoint [OF assms(2)] by auto
  with assms obtain m' where f: "set_mint_authority P program_id auth signers t new_authority st m = Inr m'"
    and st': "st' = set_data (ai_key info) (state_bytes (mint_base P) m') st"
    by (auto simp: process_set_authority_def result_simps info_data_def)
  obtain tlv b where *: "m' = m\<lparr>ps_base := b, ps_tlv := tlv\<rparr>" "length tlv = length (ps_tlv m)"
    "b = (if t = AuthMintTokens then (ps_base m)\<lparr>m_mint_authority := new_authority\<rparr>
          else if t = AuthFreezeAccount then (ps_base m)\<lparr>m_freeze_authority := new_authority\<rparr> else ps_base m)"
    and auth: "t = AuthMintTokens \<Longrightarrow> co_option (m_mint_authority (ps_base m)) = COPTION_SOME \<and>
       authorizes P program_id (co_value (m_mint_authority (ps_base m))) auth signers st"
    "t = AuthFreezeAccount \<Longrightarrow> co_option (m_freeze_authority (ps_base m)) = COPTION_SOME \<and>
       authorizes P program_id (co_value (m_freeze_authority (ps_base m))) auth signers st"
    using f by (rule set_mint_authority_shape) blast
  have "pod_mint_is_initialized P b"
    using unpack_mint_initialized [OF assms(2)] by (simp add: *(3) pod_mint_is_initialized_def)
  then have "unpack (mint_base P) (state_bytes (mint_base P) m') = Inr m'"
    using mint_st.unpack_update [OF assms(2) _ *(2), of b] by (simp add: *(1))
  then show ?thesis
    using auth by (intro exI [of _ m']) (simp add: st' info_data_def set_data_other *(1,3) del: coption_simps)
qed

subsection \<open>Concrete runs\<close>

definition sample_control_store :: store where
  "sample_control_store = sample_store
     [(4, token_acct 200 (pod_mint_to_bytes (sample_mint 50))),
      (5, token_acct 200 (pod_account_to_bytes (sample_account 4 30 50 Initialized))),
      (20, empty_acct), (21, empty_acct), (30, empty_acct)]"

lemma sample_control_store_simps [simp]:
  "sample_control_store 4 = token_acct 200 (pod_mint_to_bytes (sample_mint 50))"
  "sample_control_store 5 = token_acct 200 (pod_account_to_bytes (sample_account 4 30 50 Initialized))"
  "sample_control_store 20 = empty_acct" "sample_control_store 21 = empty_acct" "sample_control_store 30 = empty_acct"
  by (simp_all add: sample_control_store_def)

lemma sample_control_validate:
  "k \<in> {20, 21, 30} \<Longrightarrow>
   validate_owner sample_platform TOKEN_2022_ID k (signer_info k) 0 [] sample_control_store = Inr ()"
  using validate_owner_authorizes [of sample_platform TOKEN_2022_ID k "signer_info k" sample_control_store "[]"]
  by (auto simp: sample_signer_authorizes info_data_def empty_acct_def)

lemma sample_not_locked [simp]: "ps_tlv s = [] \<Longrightarrow> \<not> cpi_guard_locked P s"
  by (simp add: cpi_guard_locked_def)

lemma toggle_freeze_correct_witness:
  "\<exists>st' s. process_toggle_freeze_account sample_platform TOKEN_2022_ID
      [plain_info 5, plain_info 4, signer_info 21] True sample_control_store = Inr st' \<and>
    unpack account_base (info_data st' (plain_info 5)) = Inr (s\<lparr>ps_base := (ps_base s)\<lparr>
       a_state := account_state_u8 (if True then Frozen else Initialized)\<rparr>\<rparr>)"
  (is "\<exists>st' s. ?run = Inr st' \<and> _ st' s")
proof -
  have "\<exists>st'. ?run = Inr st'"
    using sample_control_validate [of 21]
    by (simp add: process_toggle_freeze_account_def initialized_view_def info_owner_def info_data_def ensure_def empty_acct_def)
  then obtain st' where st': "?run = Inr st'" ..
  from toggle_freeze_correct [OF this] st' show ?thesis by blast
qed

lemma approve_correct_witness:
  "\<exists>st' s. process_approve sample_platform TOKEN_2022_ID [plain_info 5, plain_info 31, signer_info 30] 9
      VariantUnchecked sample_control_store = Inr st' \<and>
    unpack account_base (info_data st' (plain_info 5)) = Inr (s\<lparr>ps_base := (ps_base s)\<lparr>
       a_delegate := coption_some (ai_key (plain_info 31)), a_delegated_amount := 9\<rparr>\<rparr>)"
  (is "\<exists>st' s. ?run = Inr st' \<and> _ st' s")
proof -
  have "\<exists>st'. ?run = Inr st'"
    using sample_control_validate [of 30]
    by (simp add: process_approve_def initialized_view_def info_owner_def info_data_def ensure_def empty_acct_def)
  then obtain st' where st': "?run = Inr st'" ..
  from approve_correct [OF this] st' show ?thesis by blast
qed

lemma revoke_correct_witness:
  "\<exists>st' s. process_revoke sample_platform TOKEN_2022_ID [plain_info 5, signer_info 30] sample_control_store = Inr st' \<and>
    unpack account_base (info_data st' (plain_info 5)) = Inr (s\<lparr>ps_base := (ps_base s)\<lparr>
       a_delegate := coption_none, a_delegated_amount := 0\<rparr>\<rparr>)"
  (is "\<exists>st' s. ?run = Inr st' \<and> _ st' s")
proof -
  have "\<exists>st'. ?run = Inr st'"
    using sample_control_validate [of 30]
    by (simp add: process_revoke_def initialized_view_def info_owner_def info_data_def ensure_def empty_acct_def)
  then obtain st' where st': "?run = Inr st'" ..
  from revoke_correct [OF this] st' show ?thesis by blast
qed

lemma set_account_owner_correct_witness:
  "\<exists>st'. process_set_authority sample_platform TOKEN_2022_ID [plain_info 5, signer_info 30] AuthAccountOwner
      (coption_some 31) sample_control_store = Inr st' \<and> co_option (coption_some (31 :: address)) = COPTION_SOME"
  (is "\<exists>st'. ?run = Inr st' \<and> _")
proof -
  have u: "unpack account_base (info_data sample_control_store (plain_info 5)) = Inr (bare (sample_account 4 30 50 Initialized))"
    by (simp add: info_data_def)
  have "\<exists>st'. ?run = Inr st'"
    using sample_control_validate [of 30] u
    by (simp add: process_set_authority_def set_account_authority_def Let_def initialized_view_def info_owner_def
        info_data_def ensure_def empty_acct_def)
  then obtain st' where st': "?run = Inr st'" ..
  from set_account_owner_correct [OF this u] st' show ?thesis by blast
qed

lemma set_mint_authority_irrevocable_witness:
  "\<exists>st' m'. process_set_authority sample_platform TOKEN_2022_ID [plain_info 4, signer_info 20] AuthMintTokens
      coption_none sample_control_store = Inr st' \<and>
    unpack (mint_base sample_platform) (info_data st' (plain_info 4)) = Inr m' \<and> m_supply (ps_base m') = 50"
  (is "\<exists>st' m'. ?run = Inr st' \<and> _ st' m'")
proof -
  have u: "unpack (mint_base sample_platform) (info_data sample_control_store (plain_info 4)) = Inr (bare (sample_mint 50))"
    by (simp add: info_data_def)
  moreover have "\<not> is_ok (unpack account_base (info_data sample_control_store (plain_info 4)))"
    using mint_account_disjoint [OF u] by auto
  ultimately have "\<exists>st'. ?run = Inr st'"
    using sample_control_validate [of 20]
    by (simp add: process_set_authority_def set_mint_authority_def Let_def initialized_view_def info_owner_def
        info_data_def ensure_def empty_acct_def)
  then obtain st' where st': "?run = Inr st'" ..
  from set_mint_authority_irrevocable [OF this u] st' show ?thesis by auto
qed

end
