(* ===== verification/Instruction.thy ===== *)
theory Instruction
  imports Account_Control
begin

text \<open>
  The wire format of the instructions: \<open>TokenInstruction::pack\<close> and \<open>unpack\<close>
  (interface/src/instruction.rs) and \<open>TransferFeeInstruction\<close>
  (interface/src/extension/transfer_fee/instruction.rs), which clients use, and the Pod decoders of the
  program (program/src/pod_instruction.rs). The theorem states that unpacking accepts exactly the
  packed instructions, each with one encoding.
\<close>

section \<open>Reading a byte buffer\<close>

definition split_first :: "bytes \<Rightarrow> (u8 \<times> bytes) option" where
  "split_first input = (case input of [] \<Rightarrow> None | b # rest \<Rightarrow> Some (b, rest))"

definition unpack_pubkey :: "bytes \<Rightarrow> (address \<times> bytes) result" where
  "unpack_pubkey input =
     (if length input < 32 then Inl (Custom InvalidInstruction) else Inr (of_le (take 32 input), drop 32 input))"

definition unpack_u16 :: "bytes \<Rightarrow> (u16 \<times> bytes) result" where
  "unpack_u16 input =
     (if length input < 2 then Inl (Custom InvalidInstruction) else Inr (of_le (take 2 input), drop 2 input))"

definition unpack_u64 :: "bytes \<Rightarrow> (u64 \<times> bytes) result" where
  "unpack_u64 input =
     (if length input < 8 then Inl (Custom InvalidInstruction) else Inr (of_le (take 8 input), drop 8 input))"

definition unpack_pubkey_option :: "bytes \<Rightarrow> (address option \<times> bytes) result" where
  "unpack_pubkey_option input =
     (case split_first input of
        Some (b, rest) \<Rightarrow>
          if b = 0 then Inr (None, rest)
          else if b = 1 then bindr (unpack_pubkey rest) (\<lambda>(pk, rest). Inr (Some pk, rest))
          else Inl (Custom InvalidInstruction)
      | None \<Rightarrow> Inl (Custom InvalidInstruction))"

definition pack_pubkey_option :: "address option \<Rightarrow> bytes" where
  "pack_pubkey_option x = (case x of Some key \<Rightarrow> 1 # le_bytes 32 key | None \<Rightarrow> [0])"

definition unpack_u64_option :: "bytes \<Rightarrow> (u64 option \<times> bytes) result" where
  "unpack_u64_option input =
     (case split_first input of
        Some (b, rest) \<Rightarrow>
          if b = 0 then Inr (None, rest)
          else if b = 1 then bindr (unpack_u64 rest) (\<lambda>(v, rest). Inr (Some v, rest))
          else Inl (Custom InvalidInstruction)
      | None \<Rightarrow> Inl (Custom InvalidInstruction))"

definition pack_u64_option :: "u64 option \<Rightarrow> bytes" where
  "pack_u64_option x = (case x of Some amount \<Rightarrow> 1 # le_bytes 8 amount | None \<Rightarrow> [0])"

definition unpack_amount_decimals :: "bytes \<Rightarrow> (u64 \<times> u8 \<times> bytes) result" where
  "unpack_amount_decimals input =
     bindr (unpack_u64 input) (\<lambda>(amount, rest).
     bindr (ok_or (split_first rest) (Custom InvalidInstruction)) (\<lambda>(decimals, rest).
     Inr (amount, decimals, rest)))"

text \<open>\<open>chunks(2)\<close>, each converted by \<open>TryFrom\<close>; a last chunk of one byte is refused.\<close>

fun extension_types_of_chunks :: "bytes \<Rightarrow> extension_type list result" where
  "extension_types_of_chunks [] = Inr []"
| "extension_types_of_chunks [b] = bindr (extension_type_try_from_bytes [b]) (\<lambda>t. Inr [t])"
| "extension_types_of_chunks (b # c # rest) =
     bindr (extension_type_try_from_bytes [b, c]) (\<lambda>t.
     bindr (extension_types_of_chunks rest) (\<lambda>ts. Inr (t # ts)))"

text \<open>\<open>core::str::from_utf8\<close> accepts exactly the well-formed sequences of the Unicode standard.\<close>

definition continuation :: "nat \<Rightarrow> bool" where
  "continuation b \<longleftrightarrow> 128 \<le> b \<and> b \<le> 191"

fun utf8_codes :: "nat list \<Rightarrow> bool" where
  "utf8_codes [] = True"
| "utf8_codes (a # s) =
     (if a \<le> 127 then utf8_codes s
      else case s of
          [] \<Rightarrow> False
        | b # s \<Rightarrow>
            if 194 \<le> a \<and> a \<le> 223 then continuation b \<and> utf8_codes s
            else case s of
                [] \<Rightarrow> False
              | c # s \<Rightarrow>
                  if 224 \<le> a \<and> a \<le> 239 then
                    continuation b \<and> continuation c \<and> (a = 224 \<longrightarrow> 160 \<le> b) \<and> (a = 237 \<longrightarrow> b \<le> 159) \<and> utf8_codes s
                  else case s of
                      [] \<Rightarrow> False
                    | d # s \<Rightarrow>
                        240 \<le> a \<and> a \<le> 244 \<and> continuation b \<and> continuation c \<and> continuation d \<and>
                        (a = 240 \<longrightarrow> 144 \<le> b) \<and> (a = 244 \<longrightarrow> b \<le> 143) \<and> utf8_codes s)"

definition utf8_valid :: "bytes \<Rightarrow> bool" where
  "utf8_valid s = utf8_codes (map unat s)"

section \<open>TokenInstruction\<close>

text \<open>Fields in the order of the source; a \<open>COption\<close> is an option, a string its UTF-8 bytes.\<close>

datatype (plugins only: code) token_instruction =
    InitializeMint address "address option" u8 | InitializeAccount | InitializeMultisig u8
    | Transfer u64 | Approve u64 | Revoke | SetAuthority authority_type "address option"
    | MintTo u64 | Burn u64 | CloseAccount | FreezeAccount | ThawAccount | TransferChecked u64 u8
    | ApproveChecked u64 u8 | MintToChecked u64 u8 | BurnChecked u64 u8 | InitializeAccount2 address
    | SyncNative | InitializeAccount3 address | InitializeMultisig2 u8
    | InitializeMint2 address "address option" u8 | GetAccountDataSize "extension_type list"
    | InitializeImmutableOwner | AmountToUiAmount u64 | UiAmountToAmount bytes
    | InitializeMintCloseAuthority "address option" | TransferFeeExtension
    | ConfidentialTransferExtension | DefaultAccountStateExtension
    | Reallocate "extension_type list" | MemoTransferExtension | CreateNativeMint
    | InitializeNonTransferableMint | InterestBearingMintExtension | CpiGuardExtension
    | InitializePermanentDelegate address | TransferHookExtension | ConfidentialTransferFeeExtension
    | WithdrawExcessLamports | MetadataPointerExtension | GroupPointerExtension
    | GroupMemberPointerExtension | ConfidentialMintBurnExtension | ScaledUiAmountExtension
    | PausableExtension | UnwrapLamports "u64 option" | PermissionedBurnExtension | Batch bytes

definition pack :: "token_instruction \<Rightarrow> bytes" where
  "pack i =
     (case i of
        InitializeMint mint_authority freeze_authority decimals \<Rightarrow>
          [0, decimals] @ le_bytes 32 mint_authority @ pack_pubkey_option freeze_authority
      | InitializeAccount \<Rightarrow> [1]
      | InitializeMultisig m \<Rightarrow> [2, m]
      | Transfer amount \<Rightarrow> 3 # le_bytes 8 amount
      | Approve amount \<Rightarrow> 4 # le_bytes 8 amount
      | Revoke \<Rightarrow> [5]
      | SetAuthority authority_type new_authority \<Rightarrow>
          [6, authority_type_into authority_type] @ pack_pubkey_option new_authority
      | MintTo amount \<Rightarrow> 7 # le_bytes 8 amount
      | Burn amount \<Rightarrow> 8 # le_bytes 8 amount
      | CloseAccount \<Rightarrow> [9]
      | FreezeAccount \<Rightarrow> [10]
      | ThawAccount \<Rightarrow> [11]
      | TransferChecked amount decimals \<Rightarrow> 12 # le_bytes 8 amount @ [decimals]
      | ApproveChecked amount decimals \<Rightarrow> 13 # le_bytes 8 amount @ [decimals]
      | MintToChecked amount decimals \<Rightarrow> 14 # le_bytes 8 amount @ [decimals]
      | BurnChecked amount decimals \<Rightarrow> 15 # le_bytes 8 amount @ [decimals]
      | InitializeAccount2 key \<Rightarrow> 16 # le_bytes 32 key
      | SyncNative \<Rightarrow> [17]
      | InitializeAccount3 key \<Rightarrow> 18 # le_bytes 32 key
      | InitializeMultisig2 m \<Rightarrow> [19, m]
      | InitializeMint2 mint_authority freeze_authority decimals \<Rightarrow>
          [20, decimals] @ le_bytes 32 mint_authority @ pack_pubkey_option freeze_authority
      | GetAccountDataSize types \<Rightarrow> 21 # concat (map extension_type_to_bytes types)
      | InitializeImmutableOwner \<Rightarrow> [22]
      | AmountToUiAmount amount \<Rightarrow> 23 # le_bytes 8 amount
      | UiAmountToAmount ui_amount \<Rightarrow> 24 # ui_amount
      | InitializeMintCloseAuthority close_authority \<Rightarrow> 25 # pack_pubkey_option close_authority
      | TransferFeeExtension \<Rightarrow> [26]
      | ConfidentialTransferExtension \<Rightarrow> [27]
      | DefaultAccountStateExtension \<Rightarrow> [28]
      | Reallocate types \<Rightarrow> 29 # concat (map extension_type_to_bytes types)
      | MemoTransferExtension \<Rightarrow> [30]
      | CreateNativeMint \<Rightarrow> [31]
      | InitializeNonTransferableMint \<Rightarrow> [32]
      | InterestBearingMintExtension \<Rightarrow> [33]
      | CpiGuardExtension \<Rightarrow> [34]
      | InitializePermanentDelegate key \<Rightarrow> 35 # le_bytes 32 key
      | TransferHookExtension \<Rightarrow> [36]
      | ConfidentialTransferFeeExtension \<Rightarrow> [37]
      | WithdrawExcessLamports \<Rightarrow> [38]
      | MetadataPointerExtension \<Rightarrow> [39]
      | GroupPointerExtension \<Rightarrow> [40]
      | GroupMemberPointerExtension \<Rightarrow> [41]
      | ConfidentialMintBurnExtension \<Rightarrow> [42]
      | ScaledUiAmountExtension \<Rightarrow> [43]
      | PausableExtension \<Rightarrow> [44]
      | UnwrapLamports amount \<Rightarrow> 45 # pack_u64_option amount
      | PermissionedBurnExtension \<Rightarrow> [46]
      | Batch data \<Rightarrow> 255 # data)"

definition unpack_with_rest :: "bytes \<Rightarrow> (token_instruction \<times> bytes) result" where
  "unpack_with_rest input =
     bindr (ok_or (split_first input) (Custom InvalidInstruction)) (\<lambda>(tag, rest).
      if tag = 0 then
          bindr (ok_or (split_first rest) (Custom InvalidInstruction)) (\<lambda>(decimals, rest).
          bindr (unpack_pubkey rest) (\<lambda>(mint_authority, rest).
          bindr (unpack_pubkey_option rest) (\<lambda>(freeze_authority, rest).
          Inr (InitializeMint mint_authority freeze_authority decimals, rest))))
      else if tag = 1 then
          Inr (InitializeAccount, rest)
      else if tag = 2 then
          bindr (ok_or (split_first rest) (Custom InvalidInstruction)) (\<lambda>(m, rest). Inr (InitializeMultisig m, rest))
      else if tag = 3 then
          bindr (unpack_u64 rest) (\<lambda>(amount, rest). Inr (Transfer amount, rest))
      else if tag = 4 then
          bindr (unpack_u64 rest) (\<lambda>(amount, rest). Inr (Approve amount, rest))
      else if tag = 5 then
          Inr (Revoke, rest)
      else if tag = 6 then
          bindr (ok_or (split_first rest) (Custom InvalidInstruction)) (\<lambda>(t, rest).
          bindr (authority_type_from t) (\<lambda>authority_type.
          bindr (unpack_pubkey_option rest) (\<lambda>(new_authority, rest).
          Inr (SetAuthority authority_type new_authority, rest))))
      else if tag = 7 then
          bindr (unpack_u64 rest) (\<lambda>(amount, rest). Inr (MintTo amount, rest))
      else if tag = 8 then
          bindr (unpack_u64 rest) (\<lambda>(amount, rest). Inr (Burn amount, rest))
      else if tag = 9 then
          Inr (CloseAccount, rest)
      else if tag = 10 then
          Inr (FreezeAccount, rest)
      else if tag = 11 then
          Inr (ThawAccount, rest)
      else if tag = 12 then
          bindr (unpack_amount_decimals rest) (\<lambda>(amount, decimals, rest). Inr (TransferChecked amount decimals, rest))
      else if tag = 13 then
          bindr (unpack_amount_decimals rest) (\<lambda>(amount, decimals, rest). Inr (ApproveChecked amount decimals, rest))
      else if tag = 14 then
          bindr (unpack_amount_decimals rest) (\<lambda>(amount, decimals, rest). Inr (MintToChecked amount decimals, rest))
      else if tag = 15 then
          bindr (unpack_amount_decimals rest) (\<lambda>(amount, decimals, rest). Inr (BurnChecked amount decimals, rest))
      else if tag = 16 then
          bindr (unpack_pubkey rest) (\<lambda>(key, rest). Inr (InitializeAccount2 key, rest))
      else if tag = 17 then
          Inr (SyncNative, rest)
      else if tag = 18 then
          bindr (unpack_pubkey rest) (\<lambda>(key, rest). Inr (InitializeAccount3 key, rest))
      else if tag = 19 then
          bindr (ok_or (split_first rest) (Custom InvalidInstruction)) (\<lambda>(m, rest). Inr (InitializeMultisig2 m, rest))
      else if tag = 20 then
          bindr (ok_or (split_first rest) (Custom InvalidInstruction)) (\<lambda>(decimals, rest).
          bindr (unpack_pubkey rest) (\<lambda>(mint_authority, rest).
          bindr (unpack_pubkey_option rest) (\<lambda>(freeze_authority, rest).
          Inr (InitializeMint2 mint_authority freeze_authority decimals, rest))))
      else if tag = 21 then
          bindr (extension_types_of_chunks rest) (\<lambda>types. Inr (GetAccountDataSize types, []))
      else if tag = 22 then
          Inr (InitializeImmutableOwner, rest)
      else if tag = 23 then
          bindr (unpack_u64 rest) (\<lambda>(amount, rest). Inr (AmountToUiAmount amount, rest))
      else if tag = 24 then
          if utf8_valid rest then Inr (UiAmountToAmount rest, []) else Inl (Custom InvalidInstruction)
      else if tag = 25 then
          bindr (unpack_pubkey_option rest) (\<lambda>(close_authority, rest). Inr (InitializeMintCloseAuthority close_authority, rest))
      else if tag = 26 then
          Inr (TransferFeeExtension, rest)
      else if tag = 27 then
          Inr (ConfidentialTransferExtension, rest)
      else if tag = 28 then
          Inr (DefaultAccountStateExtension, rest)
      else if tag = 29 then
          bindr (extension_types_of_chunks rest) (\<lambda>types. Inr (Reallocate types, []))
      else if tag = 30 then
          Inr (MemoTransferExtension, rest)
      else if tag = 31 then
          Inr (CreateNativeMint, rest)
      else if tag = 32 then
          Inr (InitializeNonTransferableMint, rest)
      else if tag = 33 then
          Inr (InterestBearingMintExtension, rest)
      else if tag = 34 then
          Inr (CpiGuardExtension, rest)
      else if tag = 35 then
          bindr (unpack_pubkey rest) (\<lambda>(key, rest). Inr (InitializePermanentDelegate key, rest))
      else if tag = 36 then
          Inr (TransferHookExtension, rest)
      else if tag = 37 then
          Inr (ConfidentialTransferFeeExtension, rest)
      else if tag = 38 then
          Inr (WithdrawExcessLamports, rest)
      else if tag = 39 then
          Inr (MetadataPointerExtension, rest)
      else if tag = 40 then
          Inr (GroupPointerExtension, rest)
      else if tag = 41 then
          Inr (GroupMemberPointerExtension, rest)
      else if tag = 42 then
          Inr (ConfidentialMintBurnExtension, rest)
      else if tag = 43 then
          Inr (ScaledUiAmountExtension, rest)
      else if tag = 44 then
          Inr (PausableExtension, rest)
      else if tag = 45 then
          bindr (unpack_u64_option rest) (\<lambda>(amount, rest). Inr (UnwrapLamports amount, rest))
      else if tag = 46 then
          Inr (PermissionedBurnExtension, rest)
      else if tag = 255 then Inr (Batch rest, [])
      else Inl (Custom InvalidInstruction))"

definition unpack_instruction :: "bytes \<Rightarrow> token_instruction result" where
  "unpack_instruction input = bindr (unpack_with_rest input) (\<lambda>(i, _). Inr i)"

section \<open>TransferFeeInstruction\<close>

datatype (plugins only: code) transfer_fee_instruction =
    InitializeTransferFeeConfig "address option" "address option" u16 u64
  | FeeTransferCheckedWithFee u64 u8 u64
  | WithdrawWithheldTokensFromMint
  | WithdrawWithheldTokensFromAccounts u8
  | HarvestWithheldTokensToMint
  | SetTransferFee u16 u64

definition transfer_fee_unpack :: "bytes \<Rightarrow> transfer_fee_instruction result" where
  "transfer_fee_unpack input =
     bindr (ok_or (split_first input) (Custom InvalidInstruction)) (\<lambda>(tag, rest).
     if tag = 0 then
       bindr (unpack_pubkey_option rest) (\<lambda>(transfer_fee_config_authority, rest).
       bindr (unpack_pubkey_option rest) (\<lambda>(withdraw_withheld_authority, rest).
       bindr (unpack_u16 rest) (\<lambda>(transfer_fee_basis_points, rest).
       bindr (unpack_u64 rest) (\<lambda>(maximum_fee, _).
       Inr (InitializeTransferFeeConfig transfer_fee_config_authority withdraw_withheld_authority
              transfer_fee_basis_points maximum_fee)))))
     else if tag = 1 then
       bindr (unpack_amount_decimals rest) (\<lambda>(amount, decimals, rest).
       bindr (unpack_u64 rest) (\<lambda>(fee, _).
       Inr (FeeTransferCheckedWithFee amount decimals fee)))
     else if tag = 2 then Inr WithdrawWithheldTokensFromMint
     else if tag = 3 then
       bindr (ok_or (split_first rest) (Custom InvalidInstruction)) (\<lambda>(num_token_accounts, _).
       Inr (WithdrawWithheldTokensFromAccounts num_token_accounts))
     else if tag = 4 then Inr HarvestWithheldTokensToMint
     else if tag = 5 then
       bindr (unpack_u16 rest) (\<lambda>(transfer_fee_basis_points, rest).
       bindr (unpack_u64 rest) (\<lambda>(maximum_fee, _).
       Inr (SetTransferFee transfer_fee_basis_points maximum_fee)))
     else Inl (Custom InvalidInstruction))"

definition transfer_fee_pack :: "transfer_fee_instruction \<Rightarrow> bytes" where
  "transfer_fee_pack i =
     (case i of
        InitializeTransferFeeConfig transfer_fee_config_authority withdraw_withheld_authority
          transfer_fee_basis_points maximum_fee \<Rightarrow>
          0 # pack_pubkey_option transfer_fee_config_authority @ pack_pubkey_option withdraw_withheld_authority @
          le_bytes 2 transfer_fee_basis_points @ le_bytes 8 maximum_fee
      | FeeTransferCheckedWithFee amount decimals fee \<Rightarrow> 1 # le_bytes 8 amount @ [decimals] @ le_bytes 8 fee
      | WithdrawWithheldTokensFromMint \<Rightarrow> [2]
      | WithdrawWithheldTokensFromAccounts num_token_accounts \<Rightarrow> [3, num_token_accounts]
      | HarvestWithheldTokensToMint \<Rightarrow> [4]
      | SetTransferFee transfer_fee_basis_points maximum_fee \<Rightarrow>
          5 # le_bytes 2 transfer_fee_basis_points @ le_bytes 8 maximum_fee)"

section \<open>The decoders of the program\<close>

datatype (plugins only: code) pod_token_instruction =
    PodInitializeMint | PodInitializeAccount | PodInitializeMultisig | PodTransfer | PodApprove
    | PodRevoke | PodSetAuthority | PodMintTo | PodBurn | PodCloseAccount | PodFreezeAccount
    | PodThawAccount | PodTransferChecked | PodApproveChecked | PodMintToChecked | PodBurnChecked
    | PodInitializeAccount2 | PodSyncNative | PodInitializeAccount3 | PodInitializeMultisig2
    | PodInitializeMint2 | PodGetAccountDataSize | PodInitializeImmutableOwner | PodAmountToUiAmount
    | PodUiAmountToAmount | PodInitializeMintCloseAuthority | PodTransferFeeExtension
    | PodConfidentialTransferExtension | PodDefaultAccountStateExtension | PodReallocate
    | PodMemoTransferExtension | PodCreateNativeMint | PodInitializeNonTransferableMint
    | PodInterestBearingMintExtension | PodCpiGuardExtension | PodInitializePermanentDelegate
    | PodTransferHookExtension | PodConfidentialTransferFeeExtension | PodWithdrawExcessLamports
    | PodMetadataPointerExtension | PodGroupPointerExtension | PodGroupMemberPointerExtension
    | PodConfidentialMintBurnExtension | PodScaledUiAmountExtension | PodPausableExtension
    | PodUnwrapLamports | PodPermissionedBurnExtension | PodBatch

definition pod_token_instructions :: "pod_token_instruction list" where
  "pod_token_instructions =
     [PodInitializeMint, PodInitializeAccount, PodInitializeMultisig, PodTransfer, PodApprove
      , PodRevoke, PodSetAuthority, PodMintTo, PodBurn, PodCloseAccount, PodFreezeAccount
      , PodThawAccount, PodTransferChecked, PodApproveChecked, PodMintToChecked, PodBurnChecked
      , PodInitializeAccount2, PodSyncNative, PodInitializeAccount3, PodInitializeMultisig2
      , PodInitializeMint2, PodGetAccountDataSize, PodInitializeImmutableOwner, PodAmountToUiAmount
      , PodUiAmountToAmount, PodInitializeMintCloseAuthority, PodTransferFeeExtension
      , PodConfidentialTransferExtension, PodDefaultAccountStateExtension, PodReallocate
      , PodMemoTransferExtension, PodCreateNativeMint, PodInitializeNonTransferableMint
      , PodInterestBearingMintExtension, PodCpiGuardExtension, PodInitializePermanentDelegate
      , PodTransferHookExtension, PodConfidentialTransferFeeExtension, PodWithdrawExcessLamports
      , PodMetadataPointerExtension, PodGroupPointerExtension, PodGroupMemberPointerExtension
      , PodConfidentialMintBurnExtension, PodScaledUiAmountExtension, PodPausableExtension
      , PodUnwrapLamports, PodPermissionedBurnExtension]"

definition pod_token_instruction_try_from :: "u8 \<Rightarrow> pod_token_instruction option" where
  "pod_token_instruction_try_from b =
     (if unat b < length pod_token_instructions then Some (pod_token_instructions ! unat b)
      else if b = 255 then Some PodBatch else None)"

definition decode_instruction_type :: "(u8 \<Rightarrow> 'a option) \<Rightarrow> bytes \<Rightarrow> 'a result" where
  "decode_instruction_type try_from input =
     (case input of [] \<Rightarrow> Inl InvalidInstructionData | b # _ \<Rightarrow> ok_or (try_from b) (Custom InvalidInstruction))"

text \<open>
  A \<open>Pod\<close> type with alignment one is given by its size and its reader; \<open>bytemuck::try_from_bytes\<close>
  then fails on a wrong length only, which both functions rule out before.
\<close>

definition decode_instruction_data :: "nat \<Rightarrow> (bytes \<Rightarrow> 'a) \<Rightarrow> bytes \<Rightarrow> 'a result" where
  "decode_instruction_data size_of_t read input_with_type =
     (if length input_with_type \<noteq> size_of_t + 1 then Inl InvalidInstructionData
      else Inr (read (drop 1 input_with_type)))"

definition pod_unpack_pubkey_option :: "bytes \<Rightarrow> address pod_coption result" where
  "pod_unpack_pubkey_option input =
     (case split_first input of
        Some (b, rest) \<Rightarrow>
          if b = 0 then Inr coption_none
          else if b = 1 then
            if length rest < 32 then Inl InvalidInstructionData else Inr (coption_some (of_le (take 32 rest)))
          else Inl InvalidInstructionData
      | None \<Rightarrow> Inl InvalidInstructionData)"

definition pod_unpack_u64_option :: "bytes \<Rightarrow> u64 pod_coption result" where
  "pod_unpack_u64_option input =
     (case split_first input of
        Some (b, rest) \<Rightarrow>
          if b = 0 then Inr coption_none
          else if b = 1 then
            if length rest < 8 then Inl InvalidInstructionData else Inr (coption_some (of_le (take 8 rest)))
          else Inl InvalidInstructionData
      | None \<Rightarrow> Inl InvalidInstructionData)"

definition decode_instruction_data_with_coption_pubkey ::
    "nat \<Rightarrow> (bytes \<Rightarrow> 'a) \<Rightarrow> bytes \<Rightarrow> ('a \<times> address pod_coption) result" where
  "decode_instruction_data_with_coption_pubkey size_of_t read input_with_type =
     (if length input_with_type < size_of_t + 1 then Inl InvalidInstructionData
      else
        bindr (pod_unpack_pubkey_option (drop (size_of_t + 1) input_with_type)) (\<lambda>pubkey.
        Inr (read (seg 1 size_of_t input_with_type), pubkey)))"

definition decode_instruction_data_with_coption_u64 ::
    "nat \<Rightarrow> (bytes \<Rightarrow> 'a) \<Rightarrow> bytes \<Rightarrow> ('a \<times> u64 pod_coption) result" where
  "decode_instruction_data_with_coption_u64 size_of_t read input_with_type =
     (if length input_with_type < size_of_t + 1 then Inl InvalidInstructionData
      else
        bindr (pod_unpack_u64_option (drop (size_of_t + 1) input_with_type)) (\<lambda>amount.
        Inr (read (seg 1 size_of_t input_with_type), amount)))"

text \<open>The readers of \<open>InitializeMintData\<close> and \<open>AmountCheckedData\<close>.\<close>

definition initialize_mint_data :: "bytes \<Rightarrow> u8 \<times> address" where
  "initialize_mint_data bs = (of_le (seg 0 1 bs), of_le (seg 1 32 bs))"

definition amount_checked_data :: "bytes \<Rightarrow> u64 \<times> u8" where
  "amount_checked_data bs = (of_le (seg 0 8 bs), of_le (seg 8 1 bs))"

section \<open>Unpacking inverts packing\<close>

named_theorems unpack_iffs

lemma split_first_iff [unpack_iffs]: "split_first xs = Some (b, r) \<longleftrightarrow> xs = b # r"
  by (cases xs) (auto simp: split_first_def)

lemma take_le_bytes:
  fixes k :: "'a::len word"
  assumes "8 * n = LENGTH('a)"
  shows "n \<le> length xs \<and> of_le (take n xs) = k \<and> drop n xs = r \<longleftrightarrow> xs = le_bytes n k @ r"
proof
  assume "n \<le> length xs \<and> of_le (take n xs) = k \<and> drop n xs = r"
  moreover from this have "le_bytes n k = take n xs"
    using assms by (auto simp: codec_simps)
  ultimately show "xs = le_bytes n k @ r" by (metis append_take_drop_id)
next
  assume "xs = le_bytes n k @ r"
  with assms show "n \<le> length xs \<and> of_le (take n xs) = k \<and> drop n xs = r"
    by (simp add: codec_simps)
qed

lemma unpack_pubkey_iff [unpack_iffs]: "unpack_pubkey xs = Inr (k, r) \<longleftrightarrow> xs = le_bytes 32 k @ r"
  using take_le_bytes [of 32 xs k r] by (auto simp: unpack_pubkey_def not_less)

lemma unpack_u16_iff [unpack_iffs]: "unpack_u16 xs = Inr (k, r) \<longleftrightarrow> xs = le_bytes 2 k @ r"
  using take_le_bytes [of 2 xs k r] by (auto simp: unpack_u16_def not_less)

lemma unpack_u64_iff [unpack_iffs]: "unpack_u64 xs = Inr (k, r) \<longleftrightarrow> xs = le_bytes 8 k @ r"
  using take_le_bytes [of 8 xs k r] by (auto simp: unpack_u64_def not_less)

lemma unpack_pubkey_option_iff [unpack_iffs]:
  "unpack_pubkey_option xs = Inr (x, r) \<longleftrightarrow> xs = pack_pubkey_option x @ r"
  by (cases xs; cases x)
    (auto simp: unpack_pubkey_option_def pack_pubkey_option_def split_first_def result_simps unpack_iffs)

lemma unpack_u64_option_iff [unpack_iffs]:
  "unpack_u64_option xs = Inr (x, r) \<longleftrightarrow> xs = pack_u64_option x @ r"
  by (cases xs; cases x)
    (auto simp: unpack_u64_option_def pack_u64_option_def split_first_def result_simps unpack_iffs)

lemma unpack_amount_decimals_iff [unpack_iffs]:
  "unpack_amount_decimals xs = Inr (a, d, r) \<longleftrightarrow> xs = le_bytes 8 a @ d # r"
  by (auto simp: unpack_amount_decimals_def result_simps unpack_iffs)

lemma extension_type_try_from_iff: "extension_type_try_from_bytes xs = Inr t \<longleftrightarrow> xs = extension_type_to_bytes t"
proof
  assume "extension_type_try_from_bytes xs = Inr t"
  then have "length xs = 2" "unat (of_le xs :: u16) = ext_code t"
    by (auto simp: extension_type_try_from_bytes_def result_simps dest: extension_type_of_nat_code split: if_splits)
  then have "(of_nat (ext_code t) :: u16) = of_le xs"
    by (simp add: word_unat_eq_iff)
  then have "le_bytes 2 (of_nat (ext_code t) :: u16) = le_bytes 2 (of_le xs :: u16)" by simp
  with \<open>length xs = 2\<close> show "xs = extension_type_to_bytes t"
    by (simp add: extension_type_to_bytes_def codec_simps)
qed (simp add: extension_type_roundtrip)

lemma extension_types_of_chunks_iff [unpack_iffs]:
  "extension_types_of_chunks xs = Inr ts \<longleftrightarrow> xs = concat (map extension_type_to_bytes ts)"
proof (induction xs arbitrary: ts rule: extension_types_of_chunks.induct)
  case 1
  show ?case by (cases ts) (auto dest: arg_cong [of _ _ length])
next
  case (2 b)
  have "length (concat (map extension_type_to_bytes ts)) = 2 * length ts"
    by (induction ts) simp_all
  then show ?case by (auto simp: result_simps extension_type_try_from_iff dest: arg_cong [of _ _ length])
next
  case (3 b c rest)
  show ?case
  proof (cases ts)
    case (Cons t us)
    obtain d e where de: "extension_type_to_bytes t = [d, e]"
      using length_extension_type_to_bytes [of t] by (metis length_0_conv length_Suc_conv numeral_2_eq_2)
    with Cons "3.IH" show ?thesis
      by (auto simp: result_simps extension_type_try_from_iff)
  qed (auto simp: result_simps)
qed

lemma authority_type_from_iff [unpack_iffs]: "authority_type_from b = Inr t \<longleftrightarrow> b = authority_type_into t"
  by (cases t) (auto simp: authority_type_from_def authority_type_into_def split: if_splits)

text \<open>
  A well-formed instruction holds valid UTF-8; four instructions take all of their input.
\<close>

definition well_formed_instruction :: "token_instruction \<Rightarrow> bool" where
  "well_formed_instruction i = (case i of UiAmountToAmount s \<Rightarrow> utf8_valid s | _ \<Rightarrow> True)"

definition takes_rest :: "token_instruction \<Rightarrow> bool" where
  "takes_rest i =
     (case i of GetAccountDataSize _ \<Rightarrow> True | UiAmountToAmount _ \<Rightarrow> True | Reallocate _ \<Rightarrow> True | Batch _ \<Rightarrow> True
      | _ \<Rightarrow> False)"

lemma unpack_packed:
  assumes "well_formed_instruction i" and "takes_rest i \<longrightarrow> rest = []"
  shows "unpack_with_rest (pack i @ rest) = Inr (i, rest)"
  using assms
  by (cases i) (simp_all add: unpack_with_rest_def pack_def split_first_def well_formed_instruction_def takes_rest_def
      result_simps unpack_iffs)

lemma packed_of_unpack:
  assumes "unpack_with_rest input = Inr (i, rest)"
  shows "input = pack i @ rest \<and> well_formed_instruction i \<and> (takes_rest i \<longrightarrow> rest = [])"
proof -
  from assms obtain tag body where input: "input = tag # body"
    by (cases input) (auto simp: unpack_with_rest_def split_first_def)
  from assms show ?thesis
    unfolding input unpack_with_rest_def
    by (auto simp: result_simps unpack_iffs pack_def well_formed_instruction_def takes_rest_def
        split: if_splits)
qed

text \<open>
  C40. Unpacking accepts exactly the bytes of packed instructions: an input decodes to an instruction
  and a rest if and only if it is the packed instruction followed by that rest, so every instruction
  has exactly one encoding. Instructions of variable length leave no rest.
\<close>

theorem unpack_iff_packed:
  "unpack_with_rest input = Inr (i, rest) \<longleftrightarrow>
     input = pack i @ rest \<and> well_formed_instruction i \<and> (takes_rest i \<longrightarrow> rest = [])"
  using unpack_packed packed_of_unpack by blast

theorem unpack_iff_packed_witness:
  "unpack_with_rest (3 # le_bytes 8 (20 :: u64) @ [7]) = Inr (Transfer 20, [7])"
  using unpack_iff_packed [of "3 # le_bytes 8 (20 :: u64) @ [7]" "Transfer 20" "[7]"]
  by (simp add: pack_def well_formed_instruction_def takes_rest_def)

lemmas unpack_packed_fields =
  split_first_iff [THEN iffD2, OF refl] unpack_pubkey_iff [THEN iffD2, OF refl] unpack_u16_iff [THEN iffD2, OF refl]
  unpack_u64_iff [THEN iffD2, OF refl] unpack_pubkey_option_iff [THEN iffD2, OF refl]
  unpack_amount_decimals_iff [THEN iffD2, OF refl]

lemma transfer_fee_unpack_pack: "transfer_fee_unpack (transfer_fee_pack i @ rest) = Inr i"
  by (cases i) (simp_all add: transfer_fee_unpack_def transfer_fee_pack_def unpack_packed_fields
      unpack_u64_iff [where r = "[]", simplified, THEN iffD2, OF refl])

end
