(* ===== verification/Confidential_Instruction.thy ===== *)
theory Confidential_Instruction
  imports Confidential_Balance Confidential_Fee Confidential_Supply Instruction
begin

text \<open>
  The instructions of the three confidential extensions
  (interface/src/extension/confidential_*/instruction.rs), their bytes, and the
  \<open>process_instruction\<close> of each (program/src/extension/confidential_*/processor.rs). The program is
  built with or without the feature \<open>zk-ops\<close>; without it, every instruction that computes on
  ciphertexts is refused.
\<close>

section \<open>Instructions and their bytes\<close>

text \<open>\<open>num_enum::TryFromPrimitive\<close> on an enum whose discriminants count from zero.\<close>

definition enum_try_from :: "'a list \<Rightarrow> u8 \<Rightarrow> 'a option" where
  "enum_try_from xs b = (if unat b < length xs then Some (xs ! unat b) else None)"

text \<open>Relative instruction offsets are signed bytes; they are kept as bytes here.\<close>

type_synonym i8 = u8

datatype confidential_transfer_instruction =
    ConfidentialInitializeMint (cti_authority: address) (cti_auto_approve: u8) (cti_auditor: elgamal_pubkey)
  | ConfidentialUpdateMint (cti_auto_approve: u8) (cti_auditor: elgamal_pubkey)
  | ConfidentialConfigureAccount ae_ciphertext u64 i8
  | ConfidentialApproveAccount
  | ConfidentialEmptyAccount i8
  | ConfidentialDeposit (cti_amount: u64) (cti_decimals: u8)
  | ConfidentialWithdraw (cti_amount: u64) (cti_decimals: u8) ae_ciphertext i8 i8
  | ConfidentialTransfer ae_ciphertext ciphertext ciphertext i8 i8 i8
  | ConfidentialApplyPendingBalance u64 ae_ciphertext
  | ConfidentialEnableConfidentialCredits
  | ConfidentialDisableConfidentialCredits
  | ConfidentialEnableNonConfidentialCredits
  | ConfidentialDisableNonConfidentialCredits
  | ConfidentialTransferWithFee ae_ciphertext ciphertext ciphertext i8 i8 i8 i8 i8
  | ConfidentialConfigureAccountWithRegistry

definition encode_confidential_transfer :: "confidential_transfer_instruction \<Rightarrow> bytes" where
  "encode_confidential_transfer i =
     (case i of
        ConfidentialInitializeMint authority auto_approve auditor \<Rightarrow>
          0 # le_bytes 32 authority @ [auto_approve] @ le_bytes 32 auditor
      | ConfidentialUpdateMint auto_approve auditor \<Rightarrow> 1 # [auto_approve] @ le_bytes 32 auditor
      | ConfidentialConfigureAccount zero_balance maximum offset \<Rightarrow>
          2 # le_bytes 36 zero_balance @ le_bytes 8 maximum @ [offset]
      | ConfidentialApproveAccount \<Rightarrow> [3]
      | ConfidentialEmptyAccount offset \<Rightarrow> [4, offset]
      | ConfidentialDeposit amount decimals \<Rightarrow> 5 # le_bytes 8 amount @ [decimals]
      | ConfidentialWithdraw amount decimals balance equality_offset range_offset \<Rightarrow>
          6 # le_bytes 8 amount @ [decimals] @ le_bytes 36 balance @ [equality_offset, range_offset]
      | ConfidentialTransfer balance lo hi equality_offset validity_offset range_offset \<Rightarrow>
          7 # le_bytes 36 balance @ le_bytes 64 lo @ le_bytes 64 hi @ [equality_offset, validity_offset, range_offset]
      | ConfidentialApplyPendingBalance counter balance \<Rightarrow> 8 # le_bytes 8 counter @ le_bytes 36 balance
      | ConfidentialEnableConfidentialCredits \<Rightarrow> [9]
      | ConfidentialDisableConfidentialCredits \<Rightarrow> [10]
      | ConfidentialEnableNonConfidentialCredits \<Rightarrow> [11]
      | ConfidentialDisableNonConfidentialCredits \<Rightarrow> [12]
      | ConfidentialTransferWithFee balance lo hi equality_offset validity_offset fee_sigma_offset
          fee_validity_offset range_offset \<Rightarrow>
          13 # le_bytes 36 balance @ le_bytes 64 lo @ le_bytes 64 hi @
            [equality_offset, validity_offset, fee_sigma_offset, fee_validity_offset, range_offset]
      | ConfidentialConfigureAccountWithRegistry \<Rightarrow> [14])"

text \<open>
  The structs of instruction data, read at their \<open>repr(C)\<close> offsets. The tag decides the struct, whose
  size must be exactly that of the data; instructions without data ignore what follows the tag.
\<close>

definition initialize_mint_of_bytes :: "bytes \<Rightarrow> confidential_transfer_instruction" where
  "initialize_mint_of_bytes bs = ConfidentialInitializeMint (of_le (seg 0 32 bs)) (bs ! 32) (of_le (seg 33 32 bs))"

definition update_mint_of_bytes :: "bytes \<Rightarrow> confidential_transfer_instruction" where
  "update_mint_of_bytes bs = ConfidentialUpdateMint (bs ! 0) (of_le (seg 1 32 bs))"

definition configure_account_of_bytes :: "bytes \<Rightarrow> confidential_transfer_instruction" where
  "configure_account_of_bytes bs =
     ConfidentialConfigureAccount (of_le (seg 0 36 bs)) (of_le (seg 36 8 bs)) (bs ! 44)"

definition empty_account_of_bytes :: "bytes \<Rightarrow> confidential_transfer_instruction" where
  "empty_account_of_bytes bs = ConfidentialEmptyAccount (bs ! 0)"

definition deposit_of_bytes :: "bytes \<Rightarrow> confidential_transfer_instruction" where
  "deposit_of_bytes bs = ConfidentialDeposit (of_le (seg 0 8 bs)) (bs ! 8)"

definition withdraw_of_bytes :: "bytes \<Rightarrow> confidential_transfer_instruction" where
  "withdraw_of_bytes bs =
     ConfidentialWithdraw (of_le (seg 0 8 bs)) (bs ! 8) (of_le (seg 9 36 bs)) (bs ! 45) (bs ! 46)"

definition transfer_of_bytes :: "bytes \<Rightarrow> confidential_transfer_instruction" where
  "transfer_of_bytes bs =
     ConfidentialTransfer (of_le (seg 0 36 bs)) (of_le (seg 36 64 bs)) (of_le (seg 100 64 bs))
       (bs ! 164) (bs ! 165) (bs ! 166)"

definition apply_pending_balance_of_bytes :: "bytes \<Rightarrow> confidential_transfer_instruction" where
  "apply_pending_balance_of_bytes bs =
     ConfidentialApplyPendingBalance (of_le (seg 0 8 bs)) (of_le (seg 8 36 bs))"

definition transfer_with_fee_of_bytes :: "bytes \<Rightarrow> confidential_transfer_instruction" where
  "transfer_with_fee_of_bytes bs =
     ConfidentialTransferWithFee (of_le (seg 0 36 bs)) (of_le (seg 36 64 bs)) (of_le (seg 100 64 bs))
       (bs ! 164) (bs ! 165) (bs ! 166) (bs ! 167) (bs ! 168)"

text \<open>The decoder of each tag, in the order of the enum.\<close>

definition confidential_transfer_decoders :: "(bytes \<Rightarrow> confidential_transfer_instruction result) list" where
  "confidential_transfer_decoders =
     [decode_instruction_data 65 initialize_mint_of_bytes,
      decode_instruction_data 33 update_mint_of_bytes,
      decode_instruction_data 45 configure_account_of_bytes,
      (\<lambda>_. Inr ConfidentialApproveAccount),
      decode_instruction_data 1 empty_account_of_bytes,
      decode_instruction_data 9 deposit_of_bytes,
      decode_instruction_data 47 withdraw_of_bytes,
      decode_instruction_data 167 transfer_of_bytes,
      decode_instruction_data 44 apply_pending_balance_of_bytes,
      (\<lambda>_. Inr ConfidentialEnableConfidentialCredits),
      (\<lambda>_. Inr ConfidentialDisableConfidentialCredits),
      (\<lambda>_. Inr ConfidentialEnableNonConfidentialCredits),
      (\<lambda>_. Inr ConfidentialDisableNonConfidentialCredits),
      decode_instruction_data 169 transfer_with_fee_of_bytes,
      (\<lambda>_. Inr ConfidentialConfigureAccountWithRegistry)]"

text \<open>The tags of the instructions that exist only with \<open>zk-ops\<close>.\<close>

definition confidential_transfer_zk_tags :: "nat list" where
  "confidential_transfer_zk_tags = [5, 6, 7, 8, 13]"

text \<open>
  A decoder per tag, guarded by the build feature: with the feature off the data of a guarded
  instruction is not even read.
\<close>

definition decode_tagged :: "bool \<Rightarrow> nat list \<Rightarrow> (bytes \<Rightarrow> 'i result) list \<Rightarrow> bytes \<Rightarrow> 'i result" where
  "decode_tagged zk_ops zk_tags decoders input =
     bindr (decode_instruction_type (enum_try_from [0..<length decoders]) input) (\<lambda>tag.
     if \<not> zk_ops \<and> tag \<in> set zk_tags then Inl InvalidInstructionData else (decoders ! tag) input)"

definition confidential_transfer_handler ::
    "zk \<Rightarrow> platform \<Rightarrow> address \<Rightarrow> account_info list \<Rightarrow> confidential_transfer_instruction \<Rightarrow> store \<Rightarrow> store result" where
  "confidential_transfer_handler Z P program_id accounts i =
     (case i of
        ConfidentialInitializeMint authority auto_approve auditor \<Rightarrow>
          confidential_transfer_initialize_mint P accounts authority auto_approve auditor
      | ConfidentialUpdateMint auto_approve auditor \<Rightarrow>
          confidential_transfer_update_mint P accounts auto_approve auditor
      | ConfidentialConfigureAccount zero_balance maximum offset \<Rightarrow>
          process_configure_account Z P program_id accounts zero_balance maximum (ProofInstructionOffset (sint offset))
      | ConfidentialApproveAccount \<Rightarrow> process_approve_account P accounts
      | ConfidentialEmptyAccount offset \<Rightarrow> process_empty_account Z P program_id accounts (sint offset)
      | ConfidentialDeposit amount decimals \<Rightarrow> process_deposit Z P program_id accounts amount decimals
      | ConfidentialWithdraw amount decimals balance equality_offset range_offset \<Rightarrow>
          process_withdraw Z P program_id accounts amount decimals balance (sint equality_offset) (sint range_offset)
      | ConfidentialTransfer balance lo hi equality_offset validity_offset range_offset \<Rightarrow>
          confidential_process_transfer Z P program_id accounts balance lo hi (sint equality_offset)
            (sint validity_offset) None None (sint range_offset)
      | ConfidentialApplyPendingBalance counter balance \<Rightarrow>
          process_apply_pending_balance Z P program_id accounts counter balance
      | ConfidentialEnableConfidentialCredits \<Rightarrow> process_allow_confidential_credits P program_id accounts True
      | ConfidentialDisableConfidentialCredits \<Rightarrow> process_allow_confidential_credits P program_id accounts False
      | ConfidentialEnableNonConfidentialCredits \<Rightarrow> process_allow_non_confidential_credits P program_id accounts True
      | ConfidentialDisableNonConfidentialCredits \<Rightarrow> process_allow_non_confidential_credits P program_id accounts False
      | ConfidentialTransferWithFee balance lo hi equality_offset validity_offset fee_sigma_offset
          fee_validity_offset range_offset \<Rightarrow>
          confidential_process_transfer Z P program_id accounts balance lo hi (sint equality_offset)
            (sint validity_offset) (Some (sint fee_sigma_offset)) (Some (sint fee_validity_offset)) (sint range_offset)
      | ConfidentialConfigureAccountWithRegistry \<Rightarrow> process_configure_account_with_registry Z P program_id accounts)"

definition confidential_transfer_process_instruction ::
    "bool \<Rightarrow> zk \<Rightarrow> platform \<Rightarrow> address \<Rightarrow> account_info list \<Rightarrow> bytes \<Rightarrow> store \<Rightarrow> store result" where
  "confidential_transfer_process_instruction zk_ops Z P program_id accounts input st =
     bindr (check_program_account program_id) (\<lambda>_.
     bindr (decode_tagged zk_ops confidential_transfer_zk_tags confidential_transfer_decoders input) (\<lambda>i.
     confidential_transfer_handler Z P program_id accounts i st))"

section \<open>Confidential transfer fees\<close>

datatype confidential_transfer_fee_instruction =
    ConfidentialFeeInitialize address elgamal_pubkey
  | ConfidentialFeeWithdrawFromMint i8 ae_ciphertext
  | ConfidentialFeeWithdrawFromAccounts u8 i8 ae_ciphertext
  | ConfidentialFeeHarvestToMint
  | ConfidentialFeeEnableHarvest
  | ConfidentialFeeDisableHarvest

definition encode_confidential_transfer_fee :: "confidential_transfer_fee_instruction \<Rightarrow> bytes" where
  "encode_confidential_transfer_fee i =
     (case i of
        ConfidentialFeeInitialize authority pubkey \<Rightarrow> 0 # le_bytes 32 authority @ le_bytes 32 pubkey
      | ConfidentialFeeWithdrawFromMint offset balance \<Rightarrow> 1 # offset # le_bytes 36 balance
      | ConfidentialFeeWithdrawFromAccounts num offset balance \<Rightarrow> 2 # num # offset # le_bytes 36 balance
      | ConfidentialFeeHarvestToMint \<Rightarrow> [3]
      | ConfidentialFeeEnableHarvest \<Rightarrow> [4]
      | ConfidentialFeeDisableHarvest \<Rightarrow> [5])"

definition fee_initialize_of_bytes :: "bytes \<Rightarrow> confidential_transfer_fee_instruction" where
  "fee_initialize_of_bytes bs = ConfidentialFeeInitialize (of_le (seg 0 32 bs)) (of_le (seg 32 32 bs))"

definition fee_withdraw_from_mint_of_bytes :: "bytes \<Rightarrow> confidential_transfer_fee_instruction" where
  "fee_withdraw_from_mint_of_bytes bs = ConfidentialFeeWithdrawFromMint (bs ! 0) (of_le (seg 1 36 bs))"

definition fee_withdraw_from_accounts_of_bytes :: "bytes \<Rightarrow> confidential_transfer_fee_instruction" where
  "fee_withdraw_from_accounts_of_bytes bs =
     ConfidentialFeeWithdrawFromAccounts (bs ! 0) (bs ! 1) (of_le (seg 2 36 bs))"

definition confidential_transfer_fee_decoders :: "(bytes \<Rightarrow> confidential_transfer_fee_instruction result) list" where
  "confidential_transfer_fee_decoders =
     [decode_instruction_data 64 fee_initialize_of_bytes,
      decode_instruction_data 37 fee_withdraw_from_mint_of_bytes,
      decode_instruction_data 38 fee_withdraw_from_accounts_of_bytes,
      (\<lambda>_. Inr ConfidentialFeeHarvestToMint),
      (\<lambda>_. Inr ConfidentialFeeEnableHarvest),
      (\<lambda>_. Inr ConfidentialFeeDisableHarvest)]"

definition confidential_transfer_fee_handler ::
    "zk \<Rightarrow> platform \<Rightarrow> address \<Rightarrow> account_info list \<Rightarrow> confidential_transfer_fee_instruction \<Rightarrow> store \<Rightarrow> store result" where
  "confidential_transfer_fee_handler Z P program_id accounts i =
     (case i of
        ConfidentialFeeInitialize authority pubkey \<Rightarrow>
          process_initialize_confidential_transfer_fee_config P accounts authority pubkey
      | ConfidentialFeeWithdrawFromMint offset balance \<Rightarrow>
          confidential_withdraw_withheld_tokens_from_mint Z P program_id accounts balance (sint offset)
      | ConfidentialFeeWithdrawFromAccounts num_token_accounts offset balance \<Rightarrow>
          confidential_withdraw_withheld_tokens_from_accounts Z P program_id accounts num_token_accounts balance (sint offset)
      | ConfidentialFeeHarvestToMint \<Rightarrow> confidential_harvest_withheld_tokens_to_mint Z P accounts
      | ConfidentialFeeEnableHarvest \<Rightarrow> process_enable_harvest_to_mint P program_id accounts
      | ConfidentialFeeDisableHarvest \<Rightarrow> process_disable_harvest_to_mint P program_id accounts)"

definition confidential_transfer_fee_process_instruction ::
    "bool \<Rightarrow> zk \<Rightarrow> platform \<Rightarrow> address \<Rightarrow> account_info list \<Rightarrow> bytes \<Rightarrow> store \<Rightarrow> store result" where
  "confidential_transfer_fee_process_instruction zk_ops Z P program_id accounts input st =
     bindr (check_program_account program_id) (\<lambda>_.
     bindr (decode_tagged zk_ops [1, 2, 3] confidential_transfer_fee_decoders input) (\<lambda>i.
     confidential_transfer_fee_handler Z P program_id accounts i st))"

section \<open>Confidential mint and burn\<close>

datatype confidential_mint_burn_instruction =
    ConfidentialSupplyInitialize elgamal_pubkey ae_ciphertext
  | ConfidentialSupplyRotate elgamal_pubkey i8
  | ConfidentialSupplyUpdate ae_ciphertext
  | ConfidentialSupplyMint ae_ciphertext ciphertext ciphertext i8 i8 i8
  | ConfidentialSupplyBurn ae_ciphertext ciphertext ciphertext i8 i8 i8
  | ConfidentialSupplyApplyPendingBurn

definition encode_confidential_mint_burn :: "confidential_mint_burn_instruction \<Rightarrow> bytes" where
  "encode_confidential_mint_burn i =
     (case i of
        ConfidentialSupplyInitialize pubkey supply \<Rightarrow> 0 # le_bytes 32 pubkey @ le_bytes 36 supply
      | ConfidentialSupplyRotate pubkey offset \<Rightarrow> 1 # le_bytes 32 pubkey @ [offset]
      | ConfidentialSupplyUpdate supply \<Rightarrow> 2 # le_bytes 36 supply
      | ConfidentialSupplyMint supply lo hi equality_offset validity_offset range_offset \<Rightarrow>
          3 # le_bytes 36 supply @ le_bytes 64 lo @ le_bytes 64 hi @ [equality_offset, validity_offset, range_offset]
      | ConfidentialSupplyBurn balance lo hi equality_offset validity_offset range_offset \<Rightarrow>
          4 # le_bytes 36 balance @ le_bytes 64 lo @ le_bytes 64 hi @ [equality_offset, validity_offset, range_offset]
      | ConfidentialSupplyApplyPendingBurn \<Rightarrow> [5])"

definition supply_initialize_of_bytes :: "bytes \<Rightarrow> confidential_mint_burn_instruction" where
  "supply_initialize_of_bytes bs = ConfidentialSupplyInitialize (of_le (seg 0 32 bs)) (of_le (seg 32 36 bs))"

definition supply_rotate_of_bytes :: "bytes \<Rightarrow> confidential_mint_burn_instruction" where
  "supply_rotate_of_bytes bs = ConfidentialSupplyRotate (of_le (seg 0 32 bs)) (bs ! 32)"

definition supply_update_of_bytes :: "bytes \<Rightarrow> confidential_mint_burn_instruction" where
  "supply_update_of_bytes bs = ConfidentialSupplyUpdate (of_le bs)"

definition supply_mint_of_bytes :: "bytes \<Rightarrow> confidential_mint_burn_instruction" where
  "supply_mint_of_bytes bs =
     ConfidentialSupplyMint (of_le (seg 0 36 bs)) (of_le (seg 36 64 bs)) (of_le (seg 100 64 bs))
       (bs ! 164) (bs ! 165) (bs ! 166)"

definition supply_burn_of_bytes :: "bytes \<Rightarrow> confidential_mint_burn_instruction" where
  "supply_burn_of_bytes bs =
     ConfidentialSupplyBurn (of_le (seg 0 36 bs)) (of_le (seg 36 64 bs)) (of_le (seg 100 64 bs))
       (bs ! 164) (bs ! 165) (bs ! 166)"

definition confidential_mint_burn_decoders :: "(bytes \<Rightarrow> confidential_mint_burn_instruction result) list" where
  "confidential_mint_burn_decoders =
     [decode_instruction_data 68 supply_initialize_of_bytes,
      decode_instruction_data 33 supply_rotate_of_bytes,
      decode_instruction_data 36 supply_update_of_bytes,
      decode_instruction_data 167 supply_mint_of_bytes,
      decode_instruction_data 167 supply_burn_of_bytes,
      (\<lambda>_. Inr ConfidentialSupplyApplyPendingBurn)]"

definition confidential_mint_burn_handler ::
    "zk \<Rightarrow> platform \<Rightarrow> address \<Rightarrow> account_info list \<Rightarrow> confidential_mint_burn_instruction \<Rightarrow> store \<Rightarrow> store result" where
  "confidential_mint_burn_handler Z P program_id accounts i =
     (case i of
        ConfidentialSupplyInitialize pubkey supply \<Rightarrow>
          confidential_mint_burn_initialize_mint P accounts pubkey supply
      | ConfidentialSupplyRotate _ offset \<Rightarrow> process_rotate_supply_elgamal_pubkey Z P program_id accounts offset
      | ConfidentialSupplyUpdate supply \<Rightarrow> process_update_decryptable_supply P program_id accounts supply
      | ConfidentialSupplyMint supply lo hi equality_offset validity_offset range_offset \<Rightarrow>
          process_confidential_mint Z P program_id accounts supply lo hi equality_offset validity_offset range_offset
      | ConfidentialSupplyBurn balance lo hi equality_offset validity_offset range_offset \<Rightarrow>
          process_confidential_burn Z P program_id accounts balance lo hi equality_offset validity_offset
            range_offset BurnStandard
      | ConfidentialSupplyApplyPendingBurn \<Rightarrow> process_apply_pending_burn Z P program_id accounts)"

definition confidential_mint_burn_process_instruction ::
    "bool \<Rightarrow> zk \<Rightarrow> platform \<Rightarrow> address \<Rightarrow> account_info list \<Rightarrow> bytes \<Rightarrow> store \<Rightarrow> store result" where
  "confidential_mint_burn_process_instruction zk_ops Z P program_id accounts input st =
     bindr (check_program_account program_id) (\<lambda>_.
     bindr (decode_tagged zk_ops [1, 3, 4, 5] confidential_mint_burn_decoders input) (\<lambda>i.
     confidential_mint_burn_handler Z P program_id accounts i st))"

text \<open>The confidential burn with the permissioned-burn authority, an instruction of that extension.\<close>

definition permissioned_confidential_burn ::
    "bool \<Rightarrow> zk \<Rightarrow> platform \<Rightarrow> address \<Rightarrow> account_info list \<Rightarrow> bytes \<Rightarrow> store \<Rightarrow> store result" where
  "permissioned_confidential_burn zk_ops Z P program_id accounts input st =
     (if \<not> zk_ops then Inl InvalidInstructionData
      else
        bindr (decode_instruction_data 167 supply_burn_of_bytes input) (\<lambda>i.
        case i of
          ConfidentialSupplyBurn balance lo hi equality_offset validity_offset range_offset \<Rightarrow>
            process_confidential_burn Z P program_id accounts balance lo hi equality_offset validity_offset
              range_offset BurnPermissioned st
        | _ \<Rightarrow> Inl InvalidInstructionData))"

section \<open>What is decoded is what was encoded\<close>

lemma decode_tagged_Cons [simp]:
  "decode_tagged zk_ops tags decoders (b # rest) =
     (if unat b < length decoders
      then if \<not> zk_ops \<and> unat b \<in> set tags then Inl InvalidInstructionData else (decoders ! unat b) (b # rest)
      else Inl (Custom InvalidInstruction))"
  by (simp add: decode_tagged_def decode_instruction_type_def enum_try_from_def ok_or_def)

lemma seg_Cons: "seg (Suc i) n (x # xs) = seg i n xs" "seg (numeral k) n (x # xs) = seg (pred_numeral k) n xs"
  by (simp_all add: seg_def)

lemmas confidential_data_defs =
  initialize_mint_of_bytes_def update_mint_of_bytes_def configure_account_of_bytes_def empty_account_of_bytes_def
  deposit_of_bytes_def withdraw_of_bytes_def transfer_of_bytes_def apply_pending_balance_of_bytes_def
  transfer_with_fee_of_bytes_def fee_initialize_of_bytes_def fee_withdraw_from_mint_of_bytes_def
  fee_withdraw_from_accounts_of_bytes_def supply_initialize_of_bytes_def supply_rotate_of_bytes_def
  supply_update_of_bytes_def supply_mint_of_bytes_def supply_burn_of_bytes_def

lemma decode_encode_confidential_transfer:
  "decode_tagged True tags confidential_transfer_decoders (encode_confidential_transfer i) = Inr i"
  by (cases i) (simp_all add: encode_confidential_transfer_def confidential_transfer_decoders_def
      decode_instruction_data_def confidential_data_defs codec_simps seg_Cons nth_append)

lemma decode_encode_confidential_transfer_fee:
  "decode_tagged True tags confidential_transfer_fee_decoders (encode_confidential_transfer_fee i) = Inr i"
  by (cases i) (simp_all add: encode_confidential_transfer_fee_def
      confidential_transfer_fee_decoders_def decode_instruction_data_def
      confidential_data_defs codec_simps seg_Cons nth_append)

lemma decode_encode_confidential_mint_burn:
  "decode_tagged True tags confidential_mint_burn_decoders (encode_confidential_mint_burn i) = Inr i"
  by (cases i) (simp_all add: encode_confidential_mint_burn_def
      confidential_mint_burn_decoders_def decode_instruction_data_def
      confidential_data_defs codec_simps seg_Cons nth_append)

end
