(* ===== verification/Mint_Config.thy ===== *)
theory Mint_Config
  imports Supply Single_Ext "HOL-Library.Signed_Division"
begin

text \<open>
  The instructions that configure the extensions of a mint (program/src/extension/*/processor.rs):
  default account state, pausing, permissioned burns, interest rate, metadata, group and group-member
  pointers, scaled UI amounts and transfer hooks. Most follow one scheme, an initialiser that runs on
  the uninitialised mint and an update under an authority kept in the extension, which
  \<open>update_mint_extension\<close> states once; the locale \<open>authority_update\<close> is the contract of the updates.
\<close>

section \<open>Model\<close>

definition update_mint_extension ::
    "platform \<Rightarrow> address \<Rightarrow> account_info list \<Rightarrow> 'v extension \<Rightarrow> ('v \<Rightarrow> address) \<Rightarrow> token_error \<Rightarrow>
     ('v \<Rightarrow> 'v result) \<Rightarrow> store \<Rightarrow> store result" where
  "update_mint_extension P program_id accounts V authority_of no_authority f st =
     bindr (next_account_info accounts) (\<lambda>(mint_account_info, it).
     bindr (next_account_info it) (\<lambda>(owner_info, signers).
     bindr (check_program_account (info_owner st mint_account_info)) (\<lambda>_.
     initialized_view (mint_base P) (ai_key mint_account_info) (on_tlv (\<lambda>tlv.
       bindr (get_extension AtMint V tlv) (\<lambda>extension.
       bindr (ok_or (pl_option_from_maybe_null P (authority_of extension)) (Custom no_authority)) (\<lambda>authority.
       bindr (validate_owner P program_id authority owner_info (length (info_data st owner_info)) signers st) (\<lambda>_.
       bindr (f extension) (\<lambda>v. put_extension AtMint V v tlv)))))) st)))"

subsection \<open>Default account state\<close>

definition check_valid_default_state :: "account_state \<Rightarrow> unit result" where
  "check_valid_default_state s = (if s = Uninitialized then Inl (Custom InvalidState) else Inr ())"

definition process_initialize_default_account_state ::
    "platform \<Rightarrow> account_info list \<Rightarrow> account_state \<Rightarrow> store \<Rightarrow> store result" where
  "process_initialize_default_account_state P accounts state st =
     bindr (check_valid_default_state state) (\<lambda>_.
     bindr (next_account_info accounts) (\<lambda>(mint_account_info, _).
     bindr (check_program_account (info_owner st mint_account_info)) (\<lambda>_.
     init_mint_extension P mint_account_info default_account_state_ext
       (\<lambda>extension. Inr (extension\<lparr>das_state := account_state_u8 state\<rparr>)) st)))"

definition process_update_default_account_state ::
    "platform \<Rightarrow> address \<Rightarrow> account_info list \<Rightarrow> account_state \<Rightarrow> store \<Rightarrow> store result" where
  "process_update_default_account_state P program_id accounts state st =
     bindr (check_valid_default_state state) (\<lambda>_.
     bindr (next_account_info accounts) (\<lambda>(mint_account_info, it).
     bindr (next_account_info it) (\<lambda>(freeze_authority_info, signers).
     bindr (check_program_account (info_owner st mint_account_info)) (\<lambda>_.
     initialized_view (mint_base P) (ai_key mint_account_info) (\<lambda>mint.
       let freeze_authority = m_freeze_authority (ps_base mint) in
       bindr (if co_option freeze_authority = COPTION_SOME
              then validate_owner P program_id (co_value freeze_authority) freeze_authority_info
                     (length (info_data st freeze_authority_info)) signers st
              else Inl (Custom NoAuthorityExists)) (\<lambda>_.
       on_tlv (\<lambda>tlv.
         bindr (get_extension AtMint default_account_state_ext tlv) (\<lambda>extension.
         put_extension AtMint default_account_state_ext (extension\<lparr>das_state := account_state_u8 state\<rparr>) tlv)) mint)) st))))"

subsection \<open>Pausing and permissioned burns\<close>

definition pausable_process_initialize :: "platform \<Rightarrow> account_info list \<Rightarrow> address \<Rightarrow> store \<Rightarrow> store result" where
  "pausable_process_initialize P accounts authority st =
     bindr (next_account_info accounts) (\<lambda>(mint_account_info, _).
     bindr (check_program_account (info_owner st mint_account_info)) (\<lambda>_.
     init_mint_extension P mint_account_info pausable_config_ext (\<lambda>extension.
       bindr (ok_or (pl_maybe_null_try_from P (Some authority)) InvalidArgument) (\<lambda>a.
       Inr (extension\<lparr>pc_authority := a\<rparr>))) st))"

definition process_toggle_pause ::
    "platform \<Rightarrow> address \<Rightarrow> account_info list \<Rightarrow> bool \<Rightarrow> store \<Rightarrow> store result" where
  "process_toggle_pause P program_id accounts pause st =
     update_mint_extension P program_id accounts pausable_config_ext pc_authority AuthorityTypeNotSupported
       (\<lambda>extension. Inr (extension\<lparr>pc_paused := pl_pod_from_bool P pause\<rparr>)) st"

definition permissioned_burn_process_initialize :: "platform \<Rightarrow> account_info list \<Rightarrow> address \<Rightarrow> store \<Rightarrow> store result" where
  "permissioned_burn_process_initialize P accounts authority st =
     bindr (next_account_info accounts) (\<lambda>(mint_account_info, _).
     bindr (check_program_account (info_owner st mint_account_info)) (\<lambda>_.
     init_mint_extension P mint_account_info permissioned_burn_config_ext (\<lambda>extension.
       bindr (ok_or (pl_maybe_null_try_from P (Some authority)) InvalidArgument) (\<lambda>a.
       Inr (extension\<lparr>pb_authority := a\<rparr>))) st))"

subsection \<open>Interest-bearing mints\<close>

text \<open>Arithmetic of \<open>i128\<close> on integers: an operation whose result does not fit gives \<open>None\<close>.\<close>

definition i128_fit :: "int \<Rightarrow> int option" where
  "i128_fit x = (if - (2 ^ 127) \<le> x \<and> x < 2 ^ 127 then Some x else None)"

definition i16_try_from :: "int \<Rightarrow> u16 option" where
  "i16_try_from x = (if - (2 ^ 15) \<le> x \<and> x < 2 ^ 15 then Some (word_of_int x) else None)"

definition time_weighted_average_rate :: "interest_bearing_config \<Rightarrow> u64 \<Rightarrow> u16 option" where
  "time_weighted_average_rate c current_timestamp =
     (let initialization_timestamp = sint (ib_initialization_timestamp c);
          last_update_timestamp = sint (ib_last_update_timestamp c);
          r_1 = sint (ib_pre_update_average_rate c);
          r_2 = sint (ib_current_rate c) in
      Option.bind (i128_fit (last_update_timestamp - initialization_timestamp)) (\<lambda>t_1.
      Option.bind (i128_fit (sint current_timestamp - last_update_timestamp)) (\<lambda>t_2.
      Option.bind (i128_fit (t_1 + t_2)) (\<lambda>total_timespan.
      Option.bind (if total_timespan = 0 then Some r_2
          else Option.bind (i128_fit (r_1 * t_1)) (\<lambda>a.
               Option.bind (i128_fit (r_2 * t_2)) (\<lambda>b.
               Option.bind (i128_fit (a + b)) (\<lambda>s. i128_fit (s sdiv total_timespan))))) (\<lambda>average_rate.
      i16_try_from average_rate)))))"

definition interest_process_initialize ::
    "platform \<Rightarrow> account_info list \<Rightarrow> address \<Rightarrow> u16 \<Rightarrow> store \<Rightarrow> store result" where
  "interest_process_initialize P accounts rate_authority rate st =
     bindr (next_account_info accounts) (\<lambda>(mint_account_info, _).
     bindr (check_program_account (info_owner st mint_account_info)) (\<lambda>_.
     uninitialized_view (mint_base P) (ai_key mint_account_info) (on_tlv (\<lambda>tlv.
       bindr (pl_clock_get P) (\<lambda>clock.
       bindr (init_extension AtMint interest_bearing_config_ext True tlv) (\<lambda>tlv1.
       put_extension AtMint interest_bearing_config_ext
         ((vx_default interest_bearing_config_ext)\<lparr>ib_rate_authority := rate_authority,
            ib_initialization_timestamp := clock_unix_timestamp clock,
            ib_last_update_timestamp := clock_unix_timestamp clock,
            ib_pre_update_average_rate := rate, ib_current_rate := rate\<rparr>) tlv1)))) st))"

definition process_update_rate ::
    "platform \<Rightarrow> address \<Rightarrow> account_info list \<Rightarrow> u16 \<Rightarrow> store \<Rightarrow> store result" where
  "process_update_rate P program_id accounts new_rate st =
     update_mint_extension P program_id accounts interest_bearing_config_ext ib_rate_authority NoAuthorityExists
       (\<lambda>extension.
          bindr (pl_clock_get P) (\<lambda>clock.
          bindr (ok_or (time_weighted_average_rate extension (clock_unix_timestamp clock)) (Custom Overflow)) (\<lambda>new_average_rate.
          Inr (extension\<lparr>ib_pre_update_average_rate := new_average_rate,
                 ib_last_update_timestamp := clock_unix_timestamp clock, ib_current_rate := new_rate\<rparr>)))) st"

subsection \<open>Pointers\<close>

definition metadata_pointer_process_initialize ::
    "platform \<Rightarrow> account_info list \<Rightarrow> address \<Rightarrow> address \<Rightarrow> store \<Rightarrow> store result" where
  "metadata_pointer_process_initialize P accounts authority metadata_address st =
     bindr (next_account_info accounts) (\<lambda>(mint_account_info, _).
     bindr (check_program_account (info_owner st mint_account_info)) (\<lambda>_.
     init_mint_extension P mint_account_info metadata_pointer_ext (\<lambda>extension.
       bindr (ensure (\<not> (pl_option_from_maybe_null P authority = None \<and>
                pl_option_from_maybe_null P metadata_address = None)) (Custom InvalidInstruction)) (\<lambda>_.
       Inr (extension\<lparr>mp_authority := authority, mp_metadata_address := metadata_address\<rparr>))) st))"

definition metadata_pointer_process_update ::
    "platform \<Rightarrow> address \<Rightarrow> account_info list \<Rightarrow> address \<Rightarrow> store \<Rightarrow> store result" where
  "metadata_pointer_process_update P program_id accounts new_metadata_address st =
     update_mint_extension P program_id accounts metadata_pointer_ext mp_authority NoAuthorityExists
       (\<lambda>extension. Inr (extension\<lparr>mp_metadata_address := new_metadata_address\<rparr>)) st"

definition group_pointer_process_initialize ::
    "platform \<Rightarrow> account_info list \<Rightarrow> address \<Rightarrow> address \<Rightarrow> store \<Rightarrow> store result" where
  "group_pointer_process_initialize P accounts authority group_address st =
     bindr (next_account_info accounts) (\<lambda>(mint_account_info, _).
     bindr (check_program_account (info_owner st mint_account_info)) (\<lambda>_.
     uninitialized_view (mint_base P) (ai_key mint_account_info) (on_tlv (\<lambda>tlv.
       bindr (ensure (\<not> (pl_option_from_maybe_null P authority = None \<and>
                pl_option_from_maybe_null P group_address = None)) (Custom InvalidInstruction)) (\<lambda>_.
       bindr (init_extension AtMint group_pointer_ext True tlv) (\<lambda>tlv1.
       put_extension AtMint group_pointer_ext
         ((vx_default group_pointer_ext)\<lparr>gp_authority := authority, gp_group_address := group_address\<rparr>) tlv1)))) st))"

definition group_pointer_process_update ::
    "platform \<Rightarrow> address \<Rightarrow> account_info list \<Rightarrow> address \<Rightarrow> store \<Rightarrow> store result" where
  "group_pointer_process_update P program_id accounts new_group_address st =
     update_mint_extension P program_id accounts group_pointer_ext gp_authority NoAuthorityExists
       (\<lambda>extension. Inr (extension\<lparr>gp_group_address := new_group_address\<rparr>)) st"

definition group_member_pointer_process_initialize ::
    "platform \<Rightarrow> account_info list \<Rightarrow> address \<Rightarrow> address \<Rightarrow> store \<Rightarrow> store result" where
  "group_member_pointer_process_initialize P accounts authority member_address st =
     bindr (next_account_info accounts) (\<lambda>(mint_account_info, _).
     bindr (check_program_account (info_owner st mint_account_info)) (\<lambda>_.
     uninitialized_view (mint_base P) (ai_key mint_account_info) (on_tlv (\<lambda>tlv.
       bindr (ensure (\<not> (pl_option_from_maybe_null P authority = None \<and>
                pl_option_from_maybe_null P member_address = None)) (Custom InvalidInstruction)) (\<lambda>_.
       bindr (init_extension AtMint group_member_pointer_ext True tlv) (\<lambda>tlv1.
       put_extension AtMint group_member_pointer_ext
         ((vx_default group_member_pointer_ext)\<lparr>gmp_authority := authority, gmp_member_address := member_address\<rparr>) tlv1)))) st))"

definition group_member_pointer_process_update ::
    "platform \<Rightarrow> address \<Rightarrow> account_info list \<Rightarrow> address \<Rightarrow> store \<Rightarrow> store result" where
  "group_member_pointer_process_update P program_id accounts new_member_address st =
     update_mint_extension P program_id accounts group_member_pointer_ext gmp_authority NoAuthorityExists
       (\<lambda>extension. Inr (extension\<lparr>gmp_member_address := new_member_address\<rparr>)) st"

subsection \<open>Scaled UI amounts\<close>

text \<open>
  A multiplier is kept as the bits of an \<open>f64\<close>: sign bit 63, an 11-bit exponent and a 52-bit
  mantissa. It is valid when the sign is positive and the number is normal, that is, its exponent
  is neither all zeros nor all ones.
\<close>

definition f64_exponent :: "u64 \<Rightarrow> nat" where
  "f64_exponent x = unat x div 2 ^ 52 mod 2 ^ 11"

definition f64_is_sign_positive :: "u64 \<Rightarrow> bool" where
  "f64_is_sign_positive x \<longleftrightarrow> unat x < 2 ^ 63"

definition f64_is_normal :: "u64 \<Rightarrow> bool" where
  "f64_is_normal x \<longleftrightarrow> f64_exponent x \<noteq> 0 \<and> f64_exponent x \<noteq> 2047"

definition try_validate_multiplier :: "u64 \<Rightarrow> unit result" where
  "try_validate_multiplier multiplier =
     ensure (f64_is_sign_positive multiplier \<and> f64_is_normal multiplier) (Custom InvalidScale)"

definition scaled_ui_amount_process_initialize ::
    "platform \<Rightarrow> account_info list \<Rightarrow> address \<Rightarrow> u64 \<Rightarrow> store \<Rightarrow> store result" where
  "scaled_ui_amount_process_initialize P accounts authority multiplier st =
     bindr (next_account_info accounts) (\<lambda>(mint_account_info, _).
     bindr (check_program_account (info_owner st mint_account_info)) (\<lambda>_.
     init_mint_extension P mint_account_info scaled_ui_amount_config_ext (\<lambda>extension.
       bindr (try_validate_multiplier multiplier) (\<lambda>_.
       Inr (extension\<lparr>su_authority := authority, su_multiplier := multiplier,
              su_new_multiplier_effective_timestamp := 0, su_new_multiplier := multiplier\<rparr>))) st))"

definition current_multiplier :: "scaled_ui_amount_config \<Rightarrow> u64 \<Rightarrow> u64" where
  "current_multiplier c unix_timestamp =
     (if sint unix_timestamp \<ge> sint (su_new_multiplier_effective_timestamp c) then su_new_multiplier c
      else su_multiplier c)"

definition set_new_multiplier :: "u64 \<Rightarrow> u64 \<Rightarrow> u64 \<Rightarrow> scaled_ui_amount_config \<Rightarrow> scaled_ui_amount_config" where
  "set_new_multiplier unix_timestamp new_multiplier effective_timestamp c =
     (let c1 = (if sint unix_timestamp \<ge> sint (su_new_multiplier_effective_timestamp c)
                then c\<lparr>su_multiplier := su_new_multiplier c\<rparr> else c);
          int_effective_timestamp = sint effective_timestamp;
          c2 = c1\<lparr>su_new_multiplier := new_multiplier,
                  su_new_multiplier_effective_timestamp :=
                    if int_effective_timestamp < 0 then 0 else effective_timestamp\<rparr> in
      if sint unix_timestamp \<ge> int_effective_timestamp then c2\<lparr>su_multiplier := new_multiplier\<rparr> else c2)"

definition process_update_multiplier ::
    "platform \<Rightarrow> address \<Rightarrow> account_info list \<Rightarrow> u64 \<Rightarrow> u64 \<Rightarrow> store \<Rightarrow> store result" where
  "process_update_multiplier P program_id accounts new_multiplier effective_timestamp st =
     update_mint_extension P program_id accounts scaled_ui_amount_config_ext su_authority NoAuthorityExists
       (\<lambda>extension.
          bindr (try_validate_multiplier new_multiplier) (\<lambda>_.
          bindr (pl_clock_get P) (\<lambda>clock.
          Inr (set_new_multiplier (clock_unix_timestamp clock) new_multiplier effective_timestamp extension)))) st"

subsection \<open>Transfer hooks\<close>

definition transfer_hook_process_initialize ::
    "platform \<Rightarrow> address \<Rightarrow> account_info list \<Rightarrow> address \<Rightarrow> address \<Rightarrow> store \<Rightarrow> store result" where
  "transfer_hook_process_initialize P program_id accounts authority transfer_hook_program_id st =
     bindr (next_account_info accounts) (\<lambda>(mint_account_info, _).
     bindr (check_program_account (info_owner st mint_account_info)) (\<lambda>_.
     init_mint_extension P mint_account_info transfer_hook_ext (\<lambda>extension.
       bindr (case pl_option_from_maybe_null P transfer_hook_program_id of
           Some hook_program_id \<Rightarrow> ensure (hook_program_id \<noteq> program_id) IncorrectProgramId
         | None \<Rightarrow> ensure (pl_option_from_maybe_null P authority \<noteq> None) (Custom InvalidInstruction)) (\<lambda>_.
       Inr (extension\<lparr>th_authority := authority, th_program_id := transfer_hook_program_id\<rparr>))) st))"

definition transfer_hook_process_update ::
    "platform \<Rightarrow> address \<Rightarrow> account_info list \<Rightarrow> address \<Rightarrow> store \<Rightarrow> store result" where
  "transfer_hook_process_update P program_id accounts new_program_id st =
     update_mint_extension P program_id accounts transfer_hook_ext th_authority NoAuthorityExists
       (\<lambda>extension.
          bindr (case pl_option_from_maybe_null P new_program_id of
              Some k \<Rightarrow> ensure (k \<noteq> program_id) IncorrectProgramId
            | None \<Rightarrow> Inr ()) (\<lambda>_.
          Inr (extension\<lparr>th_program_id := new_program_id\<rparr>))) st"

section \<open>The contract of the updates\<close>

locale authority_update = extension_contract V for V :: "'v extension" +
  fixes authority_of :: "'v \<Rightarrow> address"
    and run :: "platform \<Rightarrow> address \<Rightarrow> account_info list \<Rightarrow> store \<Rightarrow> store result"
    and change :: "platform \<Rightarrow> address \<Rightarrow> 'v \<Rightarrow> 'v \<Rightarrow> bool"
  assumes run_update: "\<exists>e f.
      (\<forall>accounts st. run P program_id accounts st = update_mint_extension P program_id accounts V authority_of e f st) \<and>
      (\<forall>v v'. f v = Inr v' \<longrightarrow> change P program_id v v' \<and> authority_of v' = authority_of v)"
begin

text \<open>
  An update succeeds only under the authority the extension names, rewrites that extension alone as
  \<open>change\<close> allows, and leaves the authority, the base state and every other account as they were.
\<close>

lemma update_effect:
  assumes "run P program_id (mint_info # owner_info # signers) st = Inr st'"
  obtains m c k c' tlv where "unpack (mint_base P) (info_data st mint_info) = Inr m"
    "get_extension AtMint V (ps_tlv m) = Inr c" "pl_option_from_maybe_null P (authority_of c) = Some k"
    "authorizes P program_id k owner_info signers st" "change P program_id c c'" "authority_of c' = authority_of c"
    "unpack (mint_base P) (info_data st' mint_info) = Inr (m\<lparr>ps_tlv := tlv\<rparr>)"
    "get_extension AtMint V tlv = Inr c'" "same_except {vx_type V} (ps_tlv m) tlv"
    "info_owner st mint_info = TOKEN_2022_ID" "st' = set_data (ai_key mint_info) (info_data st' mint_info) st"
proof -
  obtain e f where ef: "run P program_id (mint_info # owner_info # signers) st =
      update_mint_extension P program_id (mint_info # owner_info # signers) V authority_of e f st"
    "\<And>v v'. f v = Inr v' \<Longrightarrow> change P program_id v v' \<and> authority_of v' = authority_of v"
    using run_update [of P program_id] by blast
  from assms ef(1) have u: "update_mint_extension P program_id (mint_info # owner_info # signers) V authority_of e f st = Inr st'"
    by simp
  obtain m c k c' tlv where m: "unpack (mint_base P) (info_data st mint_info) = Inr m"
    "get_extension AtMint V (ps_tlv m) = Inr c" "pl_option_from_maybe_null P (authority_of c) = Some k"
    "authorizes P program_id k owner_info signers st" "f c = Inr c'" "info_owner st mint_info = TOKEN_2022_ID"
    and put: "put_extension AtMint V c' (ps_tlv m) = Inr tlv"
    and st': "st' = set_data (ai_key mint_info) (state_bytes (mint_base P) (m\<lparr>ps_tlv := tlv\<rparr>)) st"
    using u by (auto simp: update_mint_extension_def result_simps validate_owner_authorizes info_data_def [symmetric])
  have same: "same_except {vx_type V} (ps_tlv m) tlv"
    using put_same_except [OF put] by simp
  have "unpack (mint_base P) (state_bytes (mint_base P) (m\<lparr>ps_base := ps_base m, ps_tlv := tlv\<rparr>)) =
      Inr (m\<lparr>ps_base := ps_base m, ps_tlv := tlv\<rparr>)"
    using unpack_mint_initialized [OF m(1)] same_except_length [OF same]
    by (intro mint_st.unpack_update [OF m(1)]) simp_all
  then show thesis
    using m ef(2) [OF m(5)] same put_get_same [OF put]
    by (intro that [of m c k c' tlv]) (simp_all add: st' info_data_def)
qed

lemma update_frame:
  assumes "run P program_id (mint_info # owner_info # signers) st = Inr st'"
  shows "token_frame {ai_key mint_info} st st'" "a \<noteq> ai_key mint_info \<Longrightarrow> st' a = st a"
proof -
  obtain d where "st' = set_data (ai_key mint_info) d st"
    by (rule update_effect [OF assms]) blast
  then show "token_frame {ai_key mint_info} st st'" "a \<noteq> ai_key mint_info \<Longrightarrow> st' a = st a"
    by (simp_all add: token_frame_set_data set_data_other)
qed

end

lemma authority_updateI:
  assumes "extension_contract V"
    and "\<And>P program_id accounts st. run P program_id accounts st =
      update_mint_extension P program_id accounts V authority_of e (f P program_id) st"
    and "\<And>P program_id v v'. f P program_id v = Inr v' \<Longrightarrow> change P program_id v v' \<and> authority_of v' = authority_of v"
  shows "authority_update V authority_of run change"
  unfolding authority_update_def authority_update_axioms_def using assms by blast

interpretation pause_update: authority_update pausable_config_ext pc_authority
  "\<lambda>P program_id accounts. process_toggle_pause P program_id accounts pause"
  "\<lambda>P _ v v'. v' = v\<lparr>pc_paused := pl_pod_from_bool P pause\<rparr>" for pause
  by (rule authority_updateI, rule pausable_config_x.extension_contract_axioms, rule process_toggle_pause_def)
    (auto simp: result_simps)

interpretation rate_update: authority_update interest_bearing_config_ext ib_rate_authority
  "\<lambda>P program_id accounts. process_update_rate P program_id accounts rate"
  "\<lambda>P _ v v'. \<exists>clock r. pl_clock_get P = Inr clock \<and>
     time_weighted_average_rate v (clock_unix_timestamp clock) = Some r \<and>
     v' = v\<lparr>ib_pre_update_average_rate := r, ib_last_update_timestamp := clock_unix_timestamp clock, ib_current_rate := rate\<rparr>"
  for rate
  by (rule authority_updateI, rule interest_bearing_config_x.extension_contract_axioms, rule process_update_rate_def)
    (auto simp: result_simps)

interpretation metadata_pointer_update: authority_update metadata_pointer_ext mp_authority
  "\<lambda>P program_id accounts. metadata_pointer_process_update P program_id accounts a"
  "\<lambda>_ _ v v'. v' = v\<lparr>mp_metadata_address := a\<rparr>" for a
  by (rule authority_updateI, rule metadata_pointer_x.extension_contract_axioms, rule metadata_pointer_process_update_def)
    (auto simp: result_simps)

interpretation group_pointer_update: authority_update group_pointer_ext gp_authority
  "\<lambda>P program_id accounts. group_pointer_process_update P program_id accounts a"
  "\<lambda>_ _ v v'. v' = v\<lparr>gp_group_address := a\<rparr>" for a
  by (rule authority_updateI, rule group_pointer_x.extension_contract_axioms, rule group_pointer_process_update_def)
    (auto simp: result_simps)

interpretation group_member_pointer_update: authority_update group_member_pointer_ext gmp_authority
  "\<lambda>P program_id accounts. group_member_pointer_process_update P program_id accounts a"
  "\<lambda>_ _ v v'. v' = v\<lparr>gmp_member_address := a\<rparr>" for a
  by (rule authority_updateI, rule group_member_pointer_x.extension_contract_axioms, rule group_member_pointer_process_update_def)
    (auto simp: result_simps)

text \<open>What an update of the multiplier does to the schedule.\<close>

definition multiplier_scheduled ::
    "u64 \<Rightarrow> u64 \<Rightarrow> u64 \<Rightarrow> scaled_ui_amount_config \<Rightarrow> scaled_ui_amount_config \<Rightarrow> bool" where
  "multiplier_scheduled now new_multiplier effective c c' \<longleftrightarrow>
     (\<forall>t. sint t \<ge> max 0 (sint effective) \<longrightarrow> current_multiplier c' t = new_multiplier) \<and>
     (\<forall>t. sint effective \<le> sint now \<longrightarrow> current_multiplier c' t = new_multiplier) \<and>
     (\<forall>t. sint now < sint effective \<and> sint t < max 0 (sint effective) \<longrightarrow>
        current_multiplier c' t = current_multiplier c now)"

lemma set_new_multiplier_schedule: "multiplier_scheduled now m t c (set_new_multiplier now m t c)"
proof -
  have e: "sint (if sint t < 0 then 0 else t) = max 0 (sint t)" by auto
  show ?thesis
  proof (cases "sint now \<ge> sint t")
    case True
    then show ?thesis
      by (simp add: multiplier_scheduled_def current_multiplier_def set_new_multiplier_def Let_def)
  next
    case False
    then have "current_multiplier (set_new_multiplier now m t c) x =
        (if sint x \<ge> max 0 (sint t) then m else current_multiplier c now)" for x
      by (simp add: current_multiplier_def set_new_multiplier_def Let_def e)
    with False show ?thesis by (auto simp: multiplier_scheduled_def not_le)
  qed
qed

lemma set_new_multiplier_authority [simp]: "su_authority (set_new_multiplier now m t c) = su_authority c"
  by (simp add: set_new_multiplier_def Let_def)

interpretation multiplier_update: authority_update scaled_ui_amount_config_ext su_authority
  "\<lambda>P program_id accounts. process_update_multiplier P program_id accounts m t"
  "\<lambda>P _ v v'. \<exists>clock. pl_clock_get P = Inr clock \<and> try_validate_multiplier m = Inr () \<and>
     multiplier_scheduled (clock_unix_timestamp clock) m t v v'" for m t
  by (rule authority_updateI, rule scaled_ui_amount_config_x.extension_contract_axioms, rule process_update_multiplier_def)
    (auto simp: result_simps intro: set_new_multiplier_schedule)

interpretation transfer_hook_update: authority_update transfer_hook_ext th_authority
  "\<lambda>P program_id accounts. transfer_hook_process_update P program_id accounts h"
  "\<lambda>P program_id v v'. v' = v\<lparr>th_program_id := h\<rparr> \<and> pl_option_from_maybe_null P h \<noteq> Some program_id" for h
  by (rule authority_updateI, rule transfer_hook_x.extension_contract_axioms, rule transfer_hook_process_update_def)
    (auto simp: result_simps split: option.splits)

section \<open>Properties\<close>

text \<open>
  C26. Pausing succeeds only under the pause authority and sets nothing but the flag, and from then on,
  until it is cleared, no token of the mint moves: minting, burning and checked transfers all fail.
\<close>

theorem pause_stops_the_mint:
  assumes "process_toggle_pause P program_id (mint_info # auth # signers) True st = Inr st'" and "bool_laws P"
  shows "(\<exists>m c k. unpack (mint_base P) (info_data st mint_info) = Inr m \<and>
       get_extension AtMint pausable_config_ext (ps_tlv m) = Inr c \<and>
       pl_option_from_maybe_null P (pc_authority c) = Some k \<and> authorizes P program_id k auth signers st) \<and>
     (\<forall>a. a \<noteq> ai_key mint_info \<longrightarrow> st' a = st a) \<and>
     (\<forall>pid i dest owner xs n v st2. ai_key i = ai_key mint_info \<longrightarrow>
        process_mint_to P pid (i # dest # owner # xs) n v st' \<noteq> Inr st2) \<and>
     (\<forall>pid i src xs n b v st2. ai_key i = ai_key mint_info \<longrightarrow>
        process_burn P pid (src # i # xs) n b v st' \<noteq> Inr st2) \<and>
     (\<forall>pid i src xs n d st2. ai_key i = ai_key mint_info \<longrightarrow>
        process_transfer P pid (src # i # xs) n (TransferChecked d) st' \<noteq> Inr st2) \<and>
     (\<forall>pid i src xs n d f st2. ai_key i = ai_key mint_info \<longrightarrow>
        process_transfer P pid (src # i # xs) n (TransferCheckedWithFee d f) st' \<noteq> Inr st2)"
proof -
  obtain m c k c' tlv where m: "unpack (mint_base P) (info_data st mint_info) = Inr m"
    "get_extension AtMint pausable_config_ext (ps_tlv m) = Inr c" "pl_option_from_maybe_null P (pc_authority c) = Some k"
    "authorizes P program_id k auth signers st"
    and c': "c' = c\<lparr>pc_paused := pl_pod_from_bool P True\<rparr>"
    and m': "unpack (mint_base P) (info_data st' mint_info) = Inr (m\<lparr>ps_tlv := tlv\<rparr>)"
    "get_extension AtMint pausable_config_ext tlv = Inr c'"
    using assms(1) by (rule pause_update.update_effect) blast
  have paused: "check_not_paused P tlv = Inl (Custom MintPaused)"
    using m'(2) c' assms(2) by (simp add: check_not_paused_def bool_laws_def)
  have d: "unpack (mint_base P) (info_data st' i) = Inr (m\<lparr>ps_tlv := tlv\<rparr>)" if "ai_key i = ai_key mint_info" for i
    using that m'(1) by (simp add: info_data_def)
  have terms: "transfer_terms P src s (Some (i, dec)) n st' \<noteq> Inr t" if "ai_key i = ai_key mint_info" for src s i dec n t
    using paused d [OF that] by (auto simp: transfer_terms_def mint_st.unpack_ref_eq result_simps)
  have mint_to: "process_mint_to P pid (i # dest # owner # xs) n v st' \<noteq> Inr st2"
    if "ai_key i = ai_key mint_info" for pid i dest owner xs n v st2
    using paused d [OF that] by (auto simp: process_mint_to_def result_simps simp del: coption_simps)
  have burn: "process_burn P pid (src # i # xs) n b v st' \<noteq> Inr st2"
    if "ai_key i = ai_key mint_info" for pid i src xs n b v st2
    using paused d [OF that] by (auto simp: process_burn_def result_simps simp del: coption_simps)
  have transfer: "process_transfer P pid (src # i # xs) n (TransferChecked dec) st' \<noteq> Inr st2"
    "process_transfer P pid (src # i # xs) n (TransferCheckedWithFee dec f) st' \<noteq> Inr st2"
    if "ai_key i = ai_key mint_info" for pid i src xs n dec f st2
    using terms [OF that]
    by (auto elim!: process_transfer_Inr simp: transfer_accounts_def result_simps)
  show ?thesis
  proof (intro conjI allI impI)
    show "\<exists>m c k. unpack (mint_base P) (info_data st mint_info) = Inr m \<and>
       get_extension AtMint pausable_config_ext (ps_tlv m) = Inr c \<and>
       pl_option_from_maybe_null P (pc_authority c) = Some k \<and> authorizes P program_id k auth signers st"
      using m by blast
  qed (use mint_to burn transfer pause_update.update_frame(2) [OF assms(1)] in simp_all)
qed

lemma sdiv_bounds:
  fixes x y a b :: int
  assumes "0 < y" and "a * y \<le> x" and "x \<le> b * y"
  shows "a \<le> x sdiv y" "x sdiv y \<le> b"
proof -
  have d: "x sdiv y = (if 0 \<le> x then x div y else - ((- x) div y))"
    using assms(1) by (auto simp: signed_divide_int_def sgn_if)
  have "a \<le> x div y" "x div y \<le> b" "(- x) div y \<le> - a" "- b \<le> (- x) div y"
    using assms zdiv_mono1 [of "a * y" x y] zdiv_mono1 [of x "b * y" y]
      zdiv_mono1 [of "- x" "- a * y" y] zdiv_mono1 [of "- b * y" "- x" y]
      nonzero_mult_div_cancel_right [of y "- a"] nonzero_mult_div_cancel_right [of y "- b"]
    by simp_all
  then show "a \<le> x sdiv y" "x sdiv y \<le> b" unfolding d by auto
qed

lemma weighted_between:
  fixes a b t u :: int
  assumes "0 \<le> t" and "0 \<le> u"
  shows "min a b * (t + u) \<le> a * t + b * u" "a * t + b * u \<le> max a b * (t + u)"
  using mult_right_mono [OF min.cobounded1 [of a b] assms(1)] mult_right_mono [OF min.cobounded2 [of a b] assms(2)]
    mult_right_mono [OF max.cobounded1 [of a b] assms(1)] mult_right_mono [OF max.cobounded2 [of b a] assms(2)]
  by (simp_all add: distrib_left)

lemma i16_try_from_fits:
  assumes "- (2 ^ 15) \<le> x" and "x < 2 ^ 15"
  shows "\<exists>r. i16_try_from x = Some r \<and> sint r = x"
  using assms by (simp add: i16_try_from_def sint_sbintrunc' signed_take_bit_int_eq_self)

lemma i128_fit_small: "- (2 ^ 100) \<le> x \<Longrightarrow> x < 2 ^ 100 \<Longrightarrow> i128_fit x = Some x"
  by (simp add: i128_fit_def)

lemma small_product:
  fixes r t :: int
  assumes "- (2 ^ 15) \<le> r" and "r < 2 ^ 15" and "0 \<le> t" and "t < 2 ^ 64"
  shows "- (2 ^ 80) < r * t" "r * t < 2 ^ 80"
proof -
  have "\<bar>r\<bar> * \<bar>t\<bar> \<le> 2 ^ 15 * (2 ^ 64 - 1)"
    using assms by (intro mult_mono) auto
  then have "\<bar>r * t\<bar> < 2 ^ 80" by (simp add: abs_mult)
  then show "- (2 ^ 80) < r * t" "r * t < 2 ^ 80" by auto
qed

text \<open>
  C29. On a clock that has not gone backwards, the time-weighted average interest rate never overflows,
  and lies between the earlier average and the rate in force since.
\<close>

theorem interest_rate_average:
  assumes "sint (ib_initialization_timestamp c) \<le> sint (ib_last_update_timestamp c)"
    and "sint (ib_last_update_timestamp c) \<le> sint now"
  shows "\<exists>r. time_weighted_average_rate c now = Some r \<and>
     min (sint (ib_pre_update_average_rate c)) (sint (ib_current_rate c)) \<le> sint r \<and>
     sint r \<le> max (sint (ib_pre_update_average_rate c)) (sint (ib_current_rate c))"
proof -
  define r1 where "r1 = sint (ib_pre_update_average_rate c)"
  define r2 where "r2 = sint (ib_current_rate c)"
  define t where "t = sint (ib_last_update_timestamp c) - sint (ib_initialization_timestamp c)"
  define u where "u = sint now - sint (ib_last_update_timestamp c)"
  have w: "- (2 ^ 63) \<le> sint x" "sint x < 2 ^ 63" for x :: u64
    using sint_ge [of x] sint_lt [of x] by simp_all
  have r: "- (2 ^ 15) \<le> sint x" "sint x < 2 ^ 15" for x :: u16
    using sint_ge [of x] sint_lt [of x] by simp_all
  have b: "- (2 ^ 15) \<le> r1" "r1 < 2 ^ 15" "- (2 ^ 15) \<le> r2" "r2 < 2 ^ 15"
    by (simp_all only: r1_def r2_def r)
  have tu: "0 \<le> t" "0 \<le> u" "t < 2 ^ 64" "u < 2 ^ 64" "t + u < 2 ^ 64"
    using assms w [of "ib_initialization_timestamp c"] w [of "ib_last_update_timestamp c"] w [of now]
    unfolding t_def u_def by simp_all
  note p = small_product [OF b(1,2) tu(1,3)] small_product [OF b(3,4) tu(2,4)]
  have mm: "- (2 ^ 15) \<le> min r1 r2" "max r1 r2 < 2 ^ 15" using b by auto
  have avg: "time_weighted_average_rate c now =
      Option.bind (i128_fit t) (\<lambda>t_1. Option.bind (i128_fit u) (\<lambda>t_2.
      Option.bind (i128_fit (t_1 + t_2)) (\<lambda>n.
      Option.bind (if n = 0 then Some r2
          else Option.bind (i128_fit (r1 * t_1)) (\<lambda>a. Option.bind (i128_fit (r2 * t_2)) (\<lambda>b.
               Option.bind (i128_fit (a + b)) (\<lambda>s. i128_fit (s sdiv n))))) i16_try_from)))"
    by (simp only: time_weighted_average_rate_def Let_def r1_def r2_def t_def u_def)
  have fits: "i128_fit t = Some t" "i128_fit u = Some u" "i128_fit (t + u) = Some (t + u)"
    "i128_fit (r1 * t) = Some (r1 * t)" "i128_fit (r2 * u) = Some (r2 * u)"
    "i128_fit (r1 * t + r2 * u) = Some (r1 * t + r2 * u)"
    by (rule i128_fit_small; use tu p in simp)+
  show ?thesis
  proof (cases "t + u = 0")
    case True
    with fits i16_try_from_fits [OF b(3,4)] show ?thesis
      unfolding r1_def [symmetric] r2_def [symmetric] avg by auto
  next
    case False
    with tu have pos: "0 < t + u" by simp
    note q = sdiv_bounds [OF pos weighted_between [OF tu(1,2), of r1 r2]]
    have qb: "- (2 ^ 15) \<le> (r1 * t + r2 * u) sdiv (t + u)" "(r1 * t + r2 * u) sdiv (t + u) < 2 ^ 15"
      using order_trans [OF mm(1) q(1)] le_less_trans [OF q(2) mm(2)] .
    then have "i128_fit ((r1 * t + r2 * u) sdiv (t + u)) = Some ((r1 * t + r2 * u) sdiv (t + u))"
      by (intro i128_fit_small) simp_all
    moreover obtain r where "i16_try_from ((r1 * t + r2 * u) sdiv (t + u)) = Some r" "sint r = (r1 * t + r2 * u) sdiv (t + u)"
      using i16_try_from_fits [OF qb] by blast
    ultimately show ?thesis
      using False fits q unfolding r1_def [symmetric] r2_def [symmetric] avg by simp
  qed
qed

text \<open>
  Updating a scaled UI amount succeeds only under its authority and for a normal positive
  multiplier. From the effective time on the new multiplier applies, immediately when that time has
  passed; until then the multiplier in force when the update ran stays in force.
\<close>

theorem update_multiplier_schedule:
  assumes "process_update_multiplier P program_id (mint_info # auth # signers) new_multiplier effective st = Inr st'"
    and "pl_clock_get P = Inr clock"
  shows "\<exists>m c k c' tlv. unpack (mint_base P) (info_data st mint_info) = Inr m \<and>
     get_extension AtMint scaled_ui_amount_config_ext (ps_tlv m) = Inr c \<and>
     pl_option_from_maybe_null P (su_authority c) = Some k \<and> authorizes P program_id k auth signers st \<and>
     f64_is_sign_positive new_multiplier \<and> f64_is_normal new_multiplier \<and>
     unpack (mint_base P) (info_data st' mint_info) = Inr (m\<lparr>ps_tlv := tlv\<rparr>) \<and>
     get_extension AtMint scaled_ui_amount_config_ext tlv = Inr c' \<and> same_except {ScaledUiAmount} (ps_tlv m) tlv \<and>
     multiplier_scheduled (clock_unix_timestamp clock) new_multiplier effective c c' \<and>
     (\<forall>a. a \<noteq> ai_key mint_info \<longrightarrow> st' a = st a)"
proof -
  obtain m c k c' tlv where m: "unpack (mint_base P) (info_data st mint_info) = Inr m"
    "get_extension AtMint scaled_ui_amount_config_ext (ps_tlv m) = Inr c"
    "pl_option_from_maybe_null P (su_authority c) = Some k" "authorizes P program_id k auth signers st"
    and ch: "\<exists>clock. pl_clock_get P = Inr clock \<and> try_validate_multiplier new_multiplier = Inr () \<and>
       multiplier_scheduled (clock_unix_timestamp clock) new_multiplier effective c c'"
    and m': "unpack (mint_base P) (info_data st' mint_info) = Inr (m\<lparr>ps_tlv := tlv\<rparr>)"
    "get_extension AtMint scaled_ui_amount_config_ext tlv = Inr c'"
    "same_except {vx_type scaled_ui_amount_config_ext} (ps_tlv m) tlv"
    using assms(1) by (rule multiplier_update.update_effect) blast
  from ch assms(2) have s: "f64_is_sign_positive new_multiplier" "f64_is_normal new_multiplier"
    "multiplier_scheduled (clock_unix_timestamp clock) new_multiplier effective c c'"
    by (auto simp: try_validate_multiplier_def result_simps)
  show ?thesis
    using m m' s multiplier_update.update_frame(2) [OF assms(1)]
    by (intro exI [of _ m] exI [of _ c] exI [of _ k] exI [of _ c'] exI [of _ tlv]) simp
qed

subsection \<open>Concrete runs\<close>

definition config_mint :: "'v extension \<Rightarrow> 'v \<Rightarrow> acct" where
  "config_mint V v = token_acct 500 (state_bytes (mint_base sample_platform)
     (single (mint_base sample_platform) (sample_mint 100) V v))"

definition sample_config_store :: "acct \<Rightarrow> store" where
  "sample_config_store m = sample_store [(4, m), (30, empty_acct)]"

lemma sample_config_store_simps [simp]:
  "sample_config_store m 4 = m" "sample_config_store m 30 = empty_acct" "ac_owner (config_mint V v) = TOKEN_2022_ID"
  "length (vx_to_bytes V v) \<noteq> 185 \<Longrightarrow> unpack (mint_base sample_platform) (ac_data (config_mint V v)) =
     Inr (single (mint_base sample_platform) (sample_mint 100) V v)"
  by (simp_all add: sample_config_store_def config_mint_def)

lemma sample_config_validate:
  "validate_owner sample_platform TOKEN_2022_ID 30 (signer_info 30) 0 [] (sample_config_store m) = Inr ()"
  using validate_owner_authorizes [of sample_platform TOKEN_2022_ID 30 "signer_info 30" "sample_config_store m" "[]"]
  by (simp add: sample_signer_authorizes info_data_def empty_acct_def)

definition sample_pausable :: pausable_config where
  "sample_pausable = \<lparr>pc_authority = 30, pc_paused = 0\<rparr>"

definition sample_scaled :: scaled_ui_amount_config where
  "sample_scaled = \<lparr>su_authority = 30, su_multiplier = 0x3FF0000000000000,
     su_new_multiplier_effective_timestamp = 10, su_new_multiplier = 0x4000000000000000\<rparr>"

lemma sample_config_entries [simp]:
  "length (vx_to_bytes pausable_config_ext p) = 33" "length (vx_to_bytes scaled_ui_amount_config_ext q) = 56"
  "get_extension AtMint pausable_config_ext (entry_bytes Pausable (vx_to_bytes pausable_config_ext p)) = Inr p"
  "put_extension AtMint pausable_config_ext p' (entry_bytes Pausable (vx_to_bytes pausable_config_ext p)) =
     Inr (entry_bytes Pausable (vx_to_bytes pausable_config_ext p'))"
  "get_extension AtMint scaled_ui_amount_config_ext (entry_bytes ScaledUiAmount (vx_to_bytes scaled_ui_amount_config_ext q)) = Inr q"
  "put_extension AtMint scaled_ui_amount_config_ext q' (entry_bytes ScaledUiAmount (vx_to_bytes scaled_ui_amount_config_ext q)) =
     Inr (entry_bytes ScaledUiAmount (vx_to_bytes scaled_ui_amount_config_ext q'))"
  using pausable_config_x.get_entry [of AtMint p] pausable_config_x.put_entry [of AtMint p' p]
    scaled_ui_amount_config_x.get_entry [of AtMint q] scaled_ui_amount_config_x.put_entry [of AtMint q' q]
    pausable_config_x.length_to_bytes [of p] scaled_ui_amount_config_x.length_to_bytes [of q]
  by (simp_all add: pausable_config_ext_def [THEN arg_cong, of vx_len]
      scaled_ui_amount_config_ext_def [THEN arg_cong, of vx_len] get_account_type_def)

lemma sample_maybe_null: "pl_option_from_maybe_null sample_platform a = (if a = 0 then None else Some a)"
  by (simp add: sample_platform_def)

lemma pause_stops_the_mint_witness:
  "\<exists>st'. process_toggle_pause sample_platform TOKEN_2022_ID [plain_info 4, signer_info 30] True
      (sample_config_store (config_mint pausable_config_ext sample_pausable)) = Inr st' \<and>
    (\<forall>st2. process_mint_to sample_platform TOKEN_2022_ID [plain_info 4, plain_info 5, signer_info 20] 1 VariantUnchecked st' \<noteq> Inr st2)"
  (is "\<exists>st'. ?run = Inr st' \<and> _ st'")
proof -
  have "\<exists>st'. ?run = Inr st'"
    using sample_config_validate
    by (simp add: process_toggle_pause_def update_mint_extension_def initialized_view_def on_tlv_def info_owner_def
        info_data_def empty_acct_def sample_pausable_def sample_maybe_null)
  then obtain st' where st': "?run = Inr st'" ..
  from pause_stops_the_mint [OF this] st' show ?thesis by auto
qed

lemma interest_rate_average_witness:
  "\<exists>r. time_weighted_average_rate
      \<lparr>ib_rate_authority = 30, ib_initialization_timestamp = 100, ib_pre_update_average_rate = 500,
       ib_last_update_timestamp = 200, ib_current_rate = - 300\<rparr> 400 = Some r \<and> sint r \<le> 500"
proof -
  let ?c = "\<lparr>ib_rate_authority = 30, ib_initialization_timestamp = 100, ib_pre_update_average_rate = 500,
       ib_last_update_timestamp = 200, ib_current_rate = - 300\<rparr>"
  have "\<exists>r. time_weighted_average_rate ?c 400 = Some r \<and>
     min (sint (ib_pre_update_average_rate ?c)) (sint (ib_current_rate ?c)) \<le> sint r \<and>
     sint r \<le> max (sint (ib_pre_update_average_rate ?c)) (sint (ib_current_rate ?c))"
    by (rule interest_rate_average) simp_all
  then show ?thesis by auto
qed

lemma update_multiplier_schedule_witness:
  "\<exists>st' c c'. process_update_multiplier sample_platform TOKEN_2022_ID [plain_info 4, signer_info 30] 0x4008000000000000 2000
      (sample_config_store (config_mint scaled_ui_amount_config_ext sample_scaled)) = Inr st' \<and>
    multiplier_scheduled 1000 0x4008000000000000 2000 c c'"
  (is "\<exists>st' c c'. ?run = Inr st' \<and> _ c c'")
proof -
  have clock: "pl_clock_get sample_platform = Inr \<lparr>clock_epoch = 5, clock_unix_timestamp = 1000\<rparr>"
    by (simp add: sample_platform_def)
  have "\<exists>st'. ?run = Inr st'"
    using sample_config_validate
    by (simp add: process_update_multiplier_def update_mint_extension_def initialized_view_def on_tlv_def info_owner_def
        info_data_def empty_acct_def sample_scaled_def sample_maybe_null clock try_validate_multiplier_def
        f64_is_sign_positive_def f64_is_normal_def f64_exponent_def)
  then obtain st' where st': "?run = Inr st'" ..
  from update_multiplier_schedule [OF this clock] st' show ?thesis by auto
qed

end
