(* ===== verification/Ui_Amount.thy ===== *)
theory Ui_Amount
  imports Mint_Config
begin

text \<open>
  Amounts as users read them (program/src/lib.rs, and \<open>process_amount_to_ui_amount\<close>,
  \<open>process_ui_amount_to_amount\<close> of program/src/processor.rs). A Rust string is the list of its UTF-8
  bytes. The conversions of interest-bearing and scaled mints compute with \<open>f64\<close>: the operations of
  that primitive type and of the crate \<open>num_traits\<close> on it are the fields of the record \<open>float_ops\<close>.

  The theorem states that the decimal string of an amount converts back to the amount, for every
  amount and every number of decimals.
\<close>

section \<open>Strings\<close>

abbreviation DIGIT_ZERO :: u8 where "DIGIT_ZERO \<equiv> 48"
abbreviation POINT :: u8 where "POINT \<equiv> 46"
abbreviation PLUS :: u8 where "PLUS \<equiv> 43"

text \<open>\<open>u64::to_string\<close>, padding with zeros on the left, \<open>trim_end_matches\<close>, \<open>split\<close> and \<open>parse::<u64>\<close>.\<close>

fun decimal_string :: "nat \<Rightarrow> bytes" where
  "decimal_string n =
     (if n < 10 then [DIGIT_ZERO + of_nat n]
      else decimal_string (n div 10) @ [DIGIT_ZERO + of_nat (n mod 10)])"

declare decimal_string.simps [simp del]

definition pad_zeros :: "nat \<Rightarrow> bytes \<Rightarrow> bytes" where
  "pad_zeros width s = replicate (width - length s) DIGIT_ZERO @ s"

definition trim_end_matches :: "u8 \<Rightarrow> bytes \<Rightarrow> bytes" where
  "trim_end_matches c s = rev (dropWhile (\<lambda>b. b = c) (rev s))"

fun split_at_char :: "u8 \<Rightarrow> bytes \<Rightarrow> bytes list" where
  "split_at_char c [] = [[]]"
| "split_at_char c (b # s) =
     (if b = c then [] # split_at_char c s
      else case split_at_char c s of p # ps \<Rightarrow> (b # p) # ps | [] \<Rightarrow> [[b]])"

definition is_digit :: "u8 \<Rightarrow> bool" where
  "is_digit b \<longleftrightarrow> 48 \<le> b \<and> b \<le> 57"

definition digits_value :: "bytes \<Rightarrow> nat" where
  "digits_value s = foldl (\<lambda>n b. 10 * n + unat (b - DIGIT_ZERO)) 0 s"

definition parse_u64 :: "bytes \<Rightarrow> u64 option" where
  "parse_u64 s =
     (let digits = (case s of b # rest \<Rightarrow> if b = PLUS then rest else s | [] \<Rightarrow> []) in
      if digits \<noteq> [] \<and> list_all is_digit digits \<and> digits_value digits < 2 ^ 64
      then Some (of_nat (digits_value digits)) else None)"

section \<open>Plain mints\<close>

definition amount_to_ui_amount_string :: "u64 \<Rightarrow> u8 \<Rightarrow> bytes" where
  "amount_to_ui_amount_string amount decimals =
     (let decimals = unat decimals in
      if decimals > 0 then
        let s = pad_zeros (decimals + 1) (decimal_string (unat amount)) in
        take (length s - decimals) s @ POINT # drop (length s - decimals) s
      else decimal_string (unat amount))"

definition trim_ui_amount_string :: "bytes \<Rightarrow> u8 \<Rightarrow> bytes" where
  "trim_ui_amount_string ui_amount decimals =
     (if decimals > 0 then trim_end_matches POINT (trim_end_matches DIGIT_ZERO ui_amount) else ui_amount)"

definition amount_to_ui_amount_string_trimmed :: "u64 \<Rightarrow> u8 \<Rightarrow> bytes" where
  "amount_to_ui_amount_string_trimmed amount decimals =
     trim_ui_amount_string (amount_to_ui_amount_string amount decimals) decimals"

definition try_ui_amount_into_amount :: "bytes \<Rightarrow> u8 \<Rightarrow> u64 result" where
  "try_ui_amount_into_amount ui_amount decimals =
     (let decimals = unat decimals; parts = split_at_char POINT ui_amount;
          amount_str = hd parts;
          after_decimal = trim_end_matches DIGIT_ZERO (case tl parts of p # _ \<Rightarrow> p | [] \<Rightarrow> []) in
      if (amount_str = [] \<and> after_decimal = []) \<or> length parts > 2 \<or> length after_decimal > decimals
      then Inl InvalidArgument
      else ok_or (parse_u64 (amount_str @ after_decimal @ replicate (decimals - length after_decimal) DIGIT_ZERO))
             InvalidArgument)"

section \<open>Interest-bearing and scaled mints\<close>

text \<open>The operations on \<open>f64\<close>; \<open>fl_decimal m n\<close> is the literal \<open>m\<close> with its last \<open>n\<close> digits after the point.\<close>

record 'f float_ops =
  fl_of_u64 :: "u64 \<Rightarrow> 'f"
  fl_of_int :: "int \<Rightarrow> 'f"
  fl_of_bits :: "u64 \<Rightarrow> 'f"
  fl_decimal :: "int \<Rightarrow> nat \<Rightarrow> 'f"
  fl_mul :: "'f \<Rightarrow> 'f \<Rightarrow> 'f"
  fl_div :: "'f \<Rightarrow> 'f \<Rightarrow> 'f"
  fl_exp :: "'f \<Rightarrow> 'f"
  fl_pow :: "'f \<Rightarrow> nat \<Rightarrow> 'f"
  fl_less :: "'f \<Rightarrow> 'f \<Rightarrow> bool"
  fl_is_nan :: "'f \<Rightarrow> bool"
  fl_round :: "'f \<Rightarrow> 'f"
  fl_trunc :: "'f \<Rightarrow> 'f"
  fl_to_u64 :: "'f \<Rightarrow> u64"
  fl_format :: "nat \<Rightarrow> 'f \<Rightarrow> bytes"
  fl_parse :: "bytes \<Rightarrow> 'f option"

definition i64_fit :: "int \<Rightarrow> int option" where
  "i64_fit x = (if - (2 ^ 63) \<le> x \<and> x < 2 ^ 63 then Some x else None)"

definition SECONDS_PER_YEAR :: "'f float_ops \<Rightarrow> 'f" where
  "SECONDS_PER_YEAR F =
     fl_mul F (fl_mul F (fl_mul F (fl_decimal F 60 0) (fl_decimal F 60 0)) (fl_decimal F 24 0)) (fl_decimal F 36524 2)"

definition pre_update_timespan :: "interest_bearing_config \<Rightarrow> int option" where
  "pre_update_timespan c = i64_fit (sint (ib_last_update_timestamp c) - sint (ib_initialization_timestamp c))"

definition pre_update_exp :: "'f float_ops \<Rightarrow> interest_bearing_config \<Rightarrow> 'f option" where
  "pre_update_exp F c =
     Option.bind (pre_update_timespan c) (\<lambda>t.
     Option.bind (i128_fit (sint (ib_pre_update_average_rate c) * t)) (\<lambda>numerator.
     Some (fl_exp F (fl_div F (fl_div F (fl_of_int F numerator) (SECONDS_PER_YEAR F)) (fl_decimal F 10000 0)))))"

definition post_update_timespan :: "interest_bearing_config \<Rightarrow> u64 \<Rightarrow> int option" where
  "post_update_timespan c unix_timestamp = i64_fit (sint unix_timestamp - sint (ib_last_update_timestamp c))"

definition post_update_exp :: "'f float_ops \<Rightarrow> interest_bearing_config \<Rightarrow> u64 \<Rightarrow> 'f option" where
  "post_update_exp F c unix_timestamp =
     Option.bind (post_update_timespan c unix_timestamp) (\<lambda>t.
     Option.bind (i128_fit (sint (ib_current_rate c) * t)) (\<lambda>numerator.
     Some (fl_exp F (fl_div F (fl_div F (fl_of_int F numerator) (SECONDS_PER_YEAR F)) (fl_decimal F 10000 0)))))"

definition total_scale :: "'f float_ops \<Rightarrow> interest_bearing_config \<Rightarrow> u8 \<Rightarrow> u64 \<Rightarrow> 'f option" where
  "total_scale F c decimals unix_timestamp =
     Option.bind (pre_update_exp F c) (\<lambda>pre.
     Option.bind (post_update_exp F c unix_timestamp) (\<lambda>post.
     Some (fl_div F (fl_mul F pre post) (fl_pow F (fl_decimal F 10 0) (unat decimals)))))"

definition interest_amount_to_ui_amount ::
    "'f float_ops \<Rightarrow> interest_bearing_config \<Rightarrow> u64 \<Rightarrow> u8 \<Rightarrow> u64 \<Rightarrow> bytes option" where
  "interest_amount_to_ui_amount F c amount decimals unix_timestamp =
     Option.bind (total_scale F c decimals unix_timestamp) (\<lambda>scale.
     let scaled_amount_with_interest = fl_mul F (fl_of_u64 F amount) scale;
         ui_amount = fl_format F (unat decimals) scaled_amount_with_interest in
     Some (trim_ui_amount_string ui_amount decimals))"

definition interest_try_ui_amount_into_amount ::
    "'f float_ops \<Rightarrow> interest_bearing_config \<Rightarrow> bytes \<Rightarrow> u8 \<Rightarrow> u64 \<Rightarrow> u64 result" where
  "interest_try_ui_amount_into_amount F c ui_amount decimals unix_timestamp =
     bindr (ok_or (fl_parse F ui_amount) InvalidArgument) (\<lambda>scaled_amount.
     bindr (ok_or (total_scale F c decimals unix_timestamp) InvalidArgument) (\<lambda>scale.
     let amount = fl_div F scaled_amount scale in
     if fl_less F (fl_of_u64 F (- 1)) amount \<or> fl_less F amount (fl_of_u64 F 0) \<or> fl_is_nan F amount
     then Inl InvalidArgument
     else Inr (fl_to_u64 F (fl_round F amount))))"

definition total_multiplier :: "'f float_ops \<Rightarrow> scaled_ui_amount_config \<Rightarrow> u8 \<Rightarrow> u64 \<Rightarrow> 'f" where
  "total_multiplier F c decimals unix_timestamp =
     fl_div F (fl_of_bits F (current_multiplier c unix_timestamp)) (fl_pow F (fl_decimal F 10 0) (unat decimals))"

definition scaled_amount_to_ui_amount ::
    "'f float_ops \<Rightarrow> scaled_ui_amount_config \<Rightarrow> u64 \<Rightarrow> u8 \<Rightarrow> u64 \<Rightarrow> bytes option" where
  "scaled_amount_to_ui_amount F c amount decimals unix_timestamp =
     (let scaled_amount = fl_mul F (fl_of_u64 F amount) (total_multiplier F c decimals unix_timestamp);
          ui_amount = fl_format F (unat decimals) scaled_amount in
      Some (trim_ui_amount_string ui_amount decimals))"

definition scaled_try_ui_amount_into_amount ::
    "'f float_ops \<Rightarrow> scaled_ui_amount_config \<Rightarrow> bytes \<Rightarrow> u8 \<Rightarrow> u64 \<Rightarrow> u64 result" where
  "scaled_try_ui_amount_into_amount F c ui_amount decimals unix_timestamp =
     bindr (ok_or (fl_parse F ui_amount) InvalidArgument) (\<lambda>scaled_amount.
     let amount = fl_div F scaled_amount (total_multiplier F c decimals unix_timestamp) in
     if fl_less F (fl_of_u64 F (- 1)) amount \<or> fl_less F amount (fl_of_u64 F 0) \<or> fl_is_nan F amount
     then Inl InvalidArgument
     else Inr (fl_to_u64 F (fl_trunc F amount)))"

section \<open>The instructions\<close>

text \<open>Both return the bytes handed to \<open>set_return_data\<close>; no account changes.\<close>

definition process_amount_to_ui_amount ::
    "'f float_ops \<Rightarrow> platform \<Rightarrow> account_info list \<Rightarrow> u64 \<Rightarrow> store \<Rightarrow> bytes result" where
  "process_amount_to_ui_amount F P accounts amount st =
     bindr (next_account_info accounts) (\<lambda>(mint_info, _).
     bindr (check_program_account (info_owner st mint_info)) (\<lambda>_.
     bindr (map_err (unpack_ref (mint_base P) (info_data st mint_info)) (Custom InvalidMint)) (\<lambda>(base, tlv).
     case get_extension AtMint interest_bearing_config_ext tlv of
       Inr extension \<Rightarrow>
         bindr (pl_clock_get P) (\<lambda>clock.
         ok_or (interest_amount_to_ui_amount F extension amount (m_decimals base) (clock_unix_timestamp clock)) InvalidArgument)
     | Inl _ \<Rightarrow>
         case get_extension AtMint scaled_ui_amount_config_ext tlv of
           Inr extension \<Rightarrow>
             bindr (pl_clock_get P) (\<lambda>clock.
             ok_or (scaled_amount_to_ui_amount F extension amount (m_decimals base) (clock_unix_timestamp clock)) InvalidArgument)
         | Inl _ \<Rightarrow> Inr (amount_to_ui_amount_string_trimmed amount (m_decimals base)))))"

definition process_ui_amount_to_amount ::
    "'f float_ops \<Rightarrow> platform \<Rightarrow> account_info list \<Rightarrow> bytes \<Rightarrow> store \<Rightarrow> bytes result" where
  "process_ui_amount_to_amount F P accounts ui_amount st =
     bindr (next_account_info accounts) (\<lambda>(mint_info, _).
     bindr (check_program_account (info_owner st mint_info)) (\<lambda>_.
     bindr (map_err (unpack_ref (mint_base P) (info_data st mint_info)) (Custom InvalidMint)) (\<lambda>(base, tlv).
     bindr ((case get_extension AtMint interest_bearing_config_ext tlv of
         Inr extension \<Rightarrow>
           bindr (pl_clock_get P) (\<lambda>clock.
           interest_try_ui_amount_into_amount F extension ui_amount (m_decimals base) (clock_unix_timestamp clock))
       | Inl _ \<Rightarrow>
           case get_extension AtMint scaled_ui_amount_config_ext tlv of
             Inr extension \<Rightarrow>
               bindr (pl_clock_get P) (\<lambda>clock.
               scaled_try_ui_amount_into_amount F extension ui_amount (m_decimals base) (clock_unix_timestamp clock))
           | Inl _ \<Rightarrow> try_ui_amount_into_amount ui_amount (m_decimals base))) (\<lambda>amount.
     Inr (le_bytes 8 amount)))))"

section \<open>Decimal strings convert back\<close>

lemma digit_bounds: "n < 10 \<Longrightarrow> is_digit (DIGIT_ZERO + of_nat n) \<and> unat (DIGIT_ZERO + of_nat n - DIGIT_ZERO) = n"
proof -
  assume n: "n < 10"
  then have "unat (of_nat n :: u8) = n" by (simp add: unat_of_nat)
  moreover from this n have "unat (DIGIT_ZERO + of_nat n) = 48 + n" by (simp add: unat_word_ariths)
  ultimately show ?thesis using n by (simp add: is_digit_def word_le_nat_alt)
qed

lemma digits_value_snoc: "digits_value (s @ [b]) = 10 * digits_value s + unat (b - DIGIT_ZERO)"
  by (simp add: digits_value_def)

lemma digits_value_zeros: "digits_value (replicate k DIGIT_ZERO @ s) = digits_value s"
proof -
  have "foldl (\<lambda>n b. 10 * n + unat (b - DIGIT_ZERO)) 0 (replicate k DIGIT_ZERO) = 0"
    by (induction k) simp_all
  then show ?thesis by (simp add: digits_value_def)
qed

lemma decimal_string_digits: "decimal_string n \<noteq> [] \<and> list_all is_digit (decimal_string n) \<and> digits_value (decimal_string n) = n"
proof (induction n rule: decimal_string.induct)
  case (1 n)
  show ?case
  proof (cases "n < 10")
    case True
    then show ?thesis
      using digit_bounds [of n] by (subst (1 2 3) decimal_string.simps) (simp add: digits_value_def)
  next
    case False
    moreover have "10 * (n div 10) + n mod 10 = n" by simp
    ultimately show ?thesis
      using "1.IH" digit_bounds [of "n mod 10"]
      by (subst (1 2 3) decimal_string.simps) (simp add: digits_value_snoc)
  qed
qed

lemma pad_zeros_digits:
  "list_all is_digit (pad_zeros w (decimal_string n)) \<and> digits_value (pad_zeros w (decimal_string n)) = n \<and>
   w \<le> length (pad_zeros w (decimal_string n)) \<and> pad_zeros w (decimal_string n) \<noteq> []"
  using decimal_string_digits [of n]
  by (auto simp: pad_zeros_def digits_value_zeros list_all_iff is_digit_def)

lemma parse_u64_digits:
  assumes "s \<noteq> []" and "list_all is_digit s" and "digits_value s = unat (n :: u64)"
  shows "parse_u64 s = Some n"
proof -
  obtain b r where s: "s = b # r" using assms(1) by (cases s) auto
  then have "b \<noteq> PLUS" using assms(2) by (auto simp: is_digit_def)
  moreover have "unat n < 2 ^ 64" using unsigned_less [of n, where ?'a = nat] by simp
  ultimately show ?thesis
    using assms s by (simp add: parse_u64_def)
qed

lemma trim_end_matches_append:
  "trim_end_matches c (xs @ ys) = (if trim_end_matches c ys = [] then trim_end_matches c xs else xs @ trim_end_matches c ys)"
  by (simp add: trim_end_matches_def dropWhile_append)

lemma trim_end_matches_last: "xs \<noteq> [] \<Longrightarrow> last xs \<noteq> c \<Longrightarrow> trim_end_matches c xs = xs"
  by (cases xs rule: rev_cases) (simp_all add: trim_end_matches_def)

lemma trim_end_matches_Nil [simp]: "trim_end_matches c [] = []"
  by (simp add: trim_end_matches_def)

lemma trim_end_matches_result: "trim_end_matches c xs \<noteq> [] \<Longrightarrow> last (trim_end_matches c xs) \<noteq> c"
  using hd_dropWhile [of "\<lambda>b. b = c" "rev xs"] by (simp add: trim_end_matches_def last_rev)

lemma trim_end_matches_restore:
  "trim_end_matches c xs @ replicate (length xs - length (trim_end_matches c xs)) c = xs"
  "length (trim_end_matches c xs) \<le> length xs" "set (trim_end_matches c xs) \<subseteq> set xs"
proof -
  have "takeWhile (\<lambda>b. b = c) (rev xs) = replicate (length (takeWhile (\<lambda>b. b = c) (rev xs))) c"
    by (metis (full_types) replicate_length_same set_takeWhileD)
  moreover have "xs = rev (dropWhile (\<lambda>b. b = c) (rev xs)) @ rev (takeWhile (\<lambda>b. b = c) (rev xs))"
    by (metis rev_append rev_rev_ident takeWhile_dropWhile_id)
  ultimately show "trim_end_matches c xs @ replicate (length xs - length (trim_end_matches c xs)) c = xs"
    unfolding trim_end_matches_def by (metis add_diff_cancel_left' length_append length_rev rev_replicate)
  show "length (trim_end_matches c xs) \<le> length xs" "set (trim_end_matches c xs) \<subseteq> set xs"
    by (auto simp: trim_end_matches_def intro: order.trans [OF length_dropWhile_le] dest: set_dropWhileD)
qed

lemma split_at_char_none: "c \<notin> set xs \<Longrightarrow> split_at_char c xs = [xs]"
  by (induction xs) auto

lemma split_at_char_append: "c \<notin> set xs \<Longrightarrow> split_at_char c (xs @ c # ys) = xs # split_at_char c ys"
  by (induction xs) auto

lemma digits_no_point: "list_all is_digit s \<Longrightarrow> POINT \<notin> set s"
  by (auto simp: list_all_iff is_digit_def)

text \<open>
  The string that \<open>AmountToUiAmount\<close> returns for a plain mint, with excess zeros and a trailing
  point removed, is converted back by \<open>UiAmountToAmount\<close> to the same amount, whatever the decimals.
\<close>

theorem ui_amount_roundtrip:
  "try_ui_amount_into_amount (amount_to_ui_amount_string_trimmed amount decimals) decimals = Inr amount"
proof (cases "unat decimals = 0")
  case True
  then have "decimals = 0" by (simp add: unat_eq_zero)
  moreover have "split_at_char POINT (decimal_string (unat amount)) = [decimal_string (unat amount)]"
    using decimal_string_digits [of "unat amount"] by (intro split_at_char_none digits_no_point) simp
  ultimately show ?thesis
    using decimal_string_digits [of "unat amount"] parse_u64_digits [of "decimal_string (unat amount)" amount]
    by (simp add: try_ui_amount_into_amount_def amount_to_ui_amount_string_trimmed_def trim_ui_amount_string_def
        amount_to_ui_amount_string_def)
next
  case False
  define d where "d = unat decimals"
  define s where "s = pad_zeros (d + 1) (decimal_string (unat amount))"
  define ip where "ip = take (length s - d) s"
  define fr where "fr = drop (length s - d) s"
  let ?t = "trim_end_matches DIGIT_ZERO fr"
  have s: "list_all is_digit s" "digits_value s = unat amount" "d + 1 \<le> length s" "s \<noteq> []"
    using pad_zeros_digits [of "d + 1" "unat amount"] by (simp_all add: s_def)
  have parts: "ip @ fr = s" "length fr = d" "ip \<noteq> []"
    using s(3) by (auto simp: ip_def fr_def)
  then have digits: "list_all is_digit ip" "list_all is_digit fr"
    using s(1) by (metis list_all_append)+
  have no_point: "POINT \<notin> set ip" "POINT \<notin> set ?t"
    using digits_no_point [OF digits(1)] digits_no_point [OF digits(2)] trim_end_matches_restore(3) [of DIGIT_ZERO fr] by auto
  have str: "amount_to_ui_amount_string amount decimals = ip @ POINT # fr"
    using False by (simp add: amount_to_ui_amount_string_def d_def s_def ip_def fr_def Let_def)
  have z: "trim_end_matches DIGIT_ZERO (ip @ POINT # fr) = ip @ POINT # ?t"
    using trim_end_matches_append [of DIGIT_ZERO "ip @ [POINT]" fr] trim_end_matches_last [of "ip @ [POINT]" DIGIT_ZERO]
    by simp
  have split: "split_at_char POINT (amount_to_ui_amount_string_trimmed amount decimals) =
      (if ?t = [] then [ip] else [ip, ?t])"
  proof (cases "?t = []")
    case True
    moreover have "last ip \<noteq> POINT" using no_point(1) last_in_set [OF parts(3)] by metis
    then have "trim_end_matches POINT (ip @ [POINT]) = ip"
      using trim_end_matches_append [of POINT ip "[POINT]"] trim_end_matches_last [OF parts(3), of POINT]
      by (simp add: trim_end_matches_def [of POINT "[POINT]"])
    ultimately show ?thesis
      using False no_point(1) by (simp add: amount_to_ui_amount_string_trimmed_def trim_ui_amount_string_def str z
          word_gt_0 unat_eq_zero split_at_char_none)
  next
    case t: False
    then have "last ?t \<noteq> POINT" using no_point(2) last_in_set by metis
    then have "trim_end_matches POINT (ip @ POINT # ?t) = ip @ POINT # ?t"
      using t by (intro trim_end_matches_last) auto
    with t show ?thesis
      using False no_point by (simp add: amount_to_ui_amount_string_trimmed_def trim_ui_amount_string_def str z
          word_gt_0 unat_eq_zero split_at_char_append split_at_char_none)
  qed
  have tt: "trim_end_matches DIGIT_ZERO ?t = ?t"
    using trim_end_matches_last [of ?t DIGIT_ZERO] trim_end_matches_result [of DIGIT_ZERO fr] by (cases "?t = []") auto
  have "ip @ ?t @ replicate (d - length ?t) DIGIT_ZERO = s"
    using trim_end_matches_restore(1) [of DIGIT_ZERO fr] parts(1,2) by simp
  then have "parse_u64 (ip @ ?t @ replicate (d - length ?t) DIGIT_ZERO) = Some amount"
    using s by (simp add: parse_u64_digits)
  moreover have "length ?t \<le> d" using trim_end_matches_restore(2) [of DIGIT_ZERO fr] parts(2) by simp
  ultimately show ?thesis
    using split tt parts(3) by (cases "?t = []") (simp_all add: try_ui_amount_into_amount_def d_def [symmetric] Let_def)
qed

end
