(* ===== verification/Lifecycle.thy ===== *)
theory Lifecycle
  imports Account_Control
begin

text \<open>
  Closing accounts and moving lamports (program/src/processor.rs): \<open>process_close_account\<close>,
  \<open>process_sync_native\<close>, \<open>process_withdraw_excess_lamports\<close>, \<open>process_unwrap_lamports\<close>. The theorems
  state that tokens are never lost by closing, that a native account's amount is its lamports above
  the rent reserve, and that every lamport taken from an account arrives elsewhere.
\<close>

section \<open>Closing\<close>

definition delete_account :: "platform \<Rightarrow> address \<Rightarrow> store \<Rightarrow> store result" where
  "delete_account P k st =
     (let st1 = set_owner k (pl_system_program_id P) st in
      bindr (pl_resize P (ac_data (st1 k)) 0) (\<lambda>d. Inr (set_data k d st1)))"

definition check_account_closable ::
    "platform \<Rightarrow> address \<Rightarrow> account_info \<Rightarrow> account_info \<Rightarrow> account_info list \<Rightarrow> store \<Rightarrow> pod_account \<Rightarrow> bytes \<Rightarrow> unit result" where
  "check_account_closable P program_id destination_account_info authority_info signers st base tlv =
     bindr (ensure (\<not> (\<not> is_native base \<and> a_amount base \<noteq> 0)) (Custom NonNativeHasBalance)) (\<lambda>_.
     let authority = coption_unwrap_or (a_close_authority base) (a_owner base) in
     bindr (if \<not> is_owned_by_system_program_or_incinerator P base then
              bindr (ensure (\<not> (cpi_guard_enabled P tlv \<and> in_cpi P \<and> ai_key destination_account_info \<noteq> a_owner base))
                       (Custom CpiGuardCloseAccountBlocked)) (\<lambda>_.
              validate_owner P program_id authority authority_info (length (info_data st authority_info)) signers st)
            else ensure (ai_key destination_account_info = pl_incinerator_id P) InvalidAccountData) (\<lambda>_.
     bindr (case get_extension AtAccount confidential_transfer_account_ext tlv of
         Inr e \<Rightarrow> confidential_transfer_account_closable e | Inl _ \<Rightarrow> Inr ()) (\<lambda>_.
     bindr (case get_extension AtAccount confidential_transfer_fee_amount_ext tlv of
         Inr e \<Rightarrow> confidential_transfer_fee_amount_closable e | Inl _ \<Rightarrow> Inr ()) (\<lambda>_.
     case get_extension AtAccount transfer_fee_amount_ext tlv of
         Inr e \<Rightarrow> transfer_fee_closable e | Inl _ \<Rightarrow> Inr ()))))"

definition check_mint_closable ::
    "platform \<Rightarrow> address \<Rightarrow> account_info \<Rightarrow> account_info list \<Rightarrow> store \<Rightarrow> pod_mint \<Rightarrow> bytes \<Rightarrow> unit result" where
  "check_mint_closable P program_id authority_info signers st mint tlv =
     bindr (get_extension AtMint mint_close_authority_ext tlv) (\<lambda>extension.
     bindr (ok_or (pl_option_from_maybe_null P (mca_close_authority extension)) (Custom AuthorityTypeNotSupported)) (\<lambda>authority.
     bindr (validate_owner P program_id authority authority_info (length (info_data st authority_info)) signers st) (\<lambda>_.
     bindr (ensure (m_supply mint = 0) (Custom MintHasSupply)) (\<lambda>_.
     case get_extension AtMint confidential_mint_burn_ext tlv of
         Inr e \<Rightarrow> confidential_mint_burn_closable e | Inl _ \<Rightarrow> Inr ()))))"

definition process_close_account :: "platform \<Rightarrow> address \<Rightarrow> account_info list \<Rightarrow> store \<Rightarrow> store result" where
  "process_close_account P program_id accounts st =
     bindr (next_account_info accounts) (\<lambda>(source_account_info, it).
     bindr (next_account_info it) (\<lambda>(destination_account_info, it).
     bindr (next_account_info it) (\<lambda>(authority_info, signers).
     bindr (check_program_account (info_owner st source_account_info)) (\<lambda>_.
     bindr (ensure (ai_key source_account_info \<noteq> ai_key destination_account_info) InvalidAccountData) (\<lambda>_.
     let source_account_data = info_data st source_account_info in
     bindr (case unpack_ref account_base source_account_data of
         Inr (base, tlv) \<Rightarrow>
           check_account_closable P program_id destination_account_info authority_info signers st base tlv
       | Inl _ \<Rightarrow>
           (case unpack_ref (mint_base P) source_account_data of
              Inr (mint, tlv) \<Rightarrow> check_mint_closable P program_id authority_info signers st mint tlv
            | Inl _ \<Rightarrow> Inl UninitializedAccount)) (\<lambda>_.
     bindr (ok_or (checked_add (info_lamports st destination_account_info) (info_lamports st source_account_info))
              (Custom Overflow)) (\<lambda>n.
     delete_account P (ai_key source_account_info)
       (set_lamports (ai_key source_account_info) 0 (set_lamports (ai_key destination_account_info) n st)))))))))"

section \<open>Lamports\<close>

definition process_sync_native :: "platform \<Rightarrow> account_info list \<Rightarrow> store \<Rightarrow> store result" where
  "process_sync_native P accounts st =
     bindr (next_account_info accounts) (\<lambda>(native_account_info, it).
     bindr (check_program_account (info_owner st native_account_info)) (\<lambda>_.
     bindr (bindr (case it of
              rent_sysvar_info # _ \<Rightarrow>
                pl_rent_from_account_info P (ai_key rent_sysvar_info) (st (ai_key rent_sysvar_info))
            | [] \<Rightarrow> pl_rent_get P) (\<lambda>rent.
            Inr (rent_minimum_balance rent (length (info_data st native_account_info))))) (\<lambda>rent_exempt_reserve.
     initialized_view account_base (ai_key native_account_info) (\<lambda>native_account.
       if co_option (a_is_native (ps_base native_account)) = COPTION_SOME then
         bindr (ok_or (checked_sub (info_lamports st native_account_info) rent_exempt_reserve) (Custom Overflow)) (\<lambda>new_amount.
         Inr (native_account\<lparr>ps_base := (ps_base native_account)\<lparr>
                a_is_native := coption_some rent_exempt_reserve, a_amount := new_amount\<rparr>\<rparr>))
       else Inl (Custom NonNativeNotSupported)) st)))"

definition process_withdraw_excess_lamports ::
    "platform \<Rightarrow> address \<Rightarrow> account_info list \<Rightarrow> store \<Rightarrow> store result" where
  "process_withdraw_excess_lamports P program_id accounts st =
     bindr (next_account_info accounts) (\<lambda>(source_info, it).
     bindr (next_account_info it) (\<lambda>(destination_info, it).
     bindr (next_account_info it) (\<lambda>(authority_info, signers).
     bindr (check_program_account (info_owner st source_info)) (\<lambda>_.
     let source_data = info_data st source_info; data_len = length (info_data st authority_info) in
     bindr (case unpack_ref account_base source_data of
         Inr (account, tlv) \<Rightarrow>
           bindr (ensure (\<not> is_native account) (Custom NativeNotSupported)) (\<lambda>_.
           bindr (validate_owner P program_id (a_owner account) authority_info data_len signers st) (\<lambda>_.
           ensure (\<not> (cpi_guard_enabled P tlv \<and> in_cpi P)) (Custom CpiGuardTransferBlocked)))
       | Inl _ \<Rightarrow>
           (case unpack_ref (mint_base P) source_data of
              Inr (mint, _) \<Rightarrow>
                if co_option (m_mint_authority mint) = COPTION_SOME then
                  validate_owner P program_id (co_value (m_mint_authority mint)) authority_info data_len signers st
                else if co_option (m_mint_authority mint) = COPTION_NONE \<and> ai_key source_info = ai_key authority_info then
                  ensure (ai_is_signer authority_info) MissingRequiredSignature
                else Inl (Custom AuthorityTypeNotSupported)
            | Inl _ \<Rightarrow>
                if length source_data = MULTISIG_LEN then
                  validate_owner P program_id (ai_key source_info) authority_info data_len signers st
                else Inl (Custom InvalidState))) (\<lambda>_.
     bindr (pl_rent_get P) (\<lambda>rent.
     let source_rent_exempt_reserve = rent_minimum_balance rent (length source_data) in
     bindr (ok_or (checked_sub (info_lamports st source_info) source_rent_exempt_reserve) (Custom NotRentExempt)) (\<lambda>transfer_amount.
     move_lamports (ai_key source_info) (ai_key destination_info) transfer_amount (Custom Overflow) st)))))))"

definition process_unwrap_lamports ::
    "platform \<Rightarrow> address \<Rightarrow> account_info list \<Rightarrow> u64 pod_coption \<Rightarrow> store \<Rightarrow> store result" where
  "process_unwrap_lamports P program_id accounts amount st =
     bindr (next_account_info accounts) (\<lambda>(source_account_info, it).
     bindr (next_account_info it) (\<lambda>(destination_account_info, it).
     bindr (next_account_info it) (\<lambda>(authority_info, signers).
     let data_len = length (info_data st authority_info) in
     bindr (check_program_account (info_owner st source_account_info)) (\<lambda>_.
     bindr (unpack account_base (info_data st source_account_info)) (\<lambda>source_account.
     let base = ps_base source_account in
     bindr (if co_option amount = COPTION_SOME then
              bindr (ok_or (checked_sub (a_amount base) (co_value amount)) (Custom InsufficientFunds)) (\<lambda>r.
              Inr (co_value amount, r))
            else if co_option amount = COPTION_NONE then Inr (a_amount base, 0)
            else Inl InvalidInstructionData) (\<lambda>(amount, remaining_amount).
     bindr (ensure (is_native base) (Custom NonNativeNotSupported)) (\<lambda>_.
     bindr (if co_option (a_delegate base) = COPTION_SOME \<and> ai_key authority_info = co_value (a_delegate base) then
              bindr (validate_owner P program_id (co_value (a_delegate base)) authority_info data_len signers st) (\<lambda>_.
              bindr (ok_or (checked_sub (a_delegated_amount base) amount) (Custom InsufficientFunds)) (\<lambda>d.
              let base' = base\<lparr>a_delegated_amount := d\<rparr> in
              Inr (if d = 0 then base'\<lparr>a_delegate := coption_none\<rparr> else base')))
            else bindr (validate_owner P program_id (a_owner base) authority_info data_len signers st) (\<lambda>_. Inr base)) (\<lambda>base.
     bindr (ensure (\<not> (cpi_guard_locked P source_account \<and> in_cpi P)) (Custom CpiGuardTransferBlocked)) (\<lambda>_.
     let base' = (if amount \<noteq> 0 then base\<lparr>a_amount := remaining_amount\<rparr> else base) in
     bindr (if amount \<noteq> 0 \<and> ai_key source_account_info \<noteq> ai_key destination_account_info
            then move_lamports (ai_key source_account_info) (ai_key destination_account_info) amount (Custom Overflow) st
            else Inr st) (\<lambda>st1.
     Inr (set_data (ai_key source_account_info)
            (state_bytes account_base (source_account\<lparr>ps_base := base'\<rparr>)) st1)))))))))))"

section \<open>Properties\<close>

lemma resize_zero: "resize_laws P \<Longrightarrow> pl_resize P d 0 = Inr d' \<Longrightarrow> d' = []"
  unfolding resize_laws_def by (drule spec, drule spec, drule spec, drule (1) mp) simp

text \<open>Nothing encrypted is left: the encrypted balances and the encrypted withheld fee are the zero ciphertext.\<close>

definition nothing_encrypted :: "bytes \<Rightarrow> bool" where
  "nothing_encrypted tlv \<longleftrightarrow>
     (case get_extension AtAccount confidential_transfer_account_ext tlv of
        Inr e \<Rightarrow> cta_pending_balance_lo e = 0 \<and> cta_pending_balance_hi e = 0 \<and> cta_available_balance e = 0
      | Inl _ \<Rightarrow> True) \<and>
     (case get_extension AtAccount confidential_transfer_fee_amount_ext tlv of
        Inr e \<Rightarrow> ctfa_withheld_amount e = 0 | Inl _ \<Rightarrow> True)"

definition no_encrypted_supply :: "bytes \<Rightarrow> bool" where
  "no_encrypted_supply tlv \<longleftrightarrow>
     (case get_extension AtMint confidential_mint_burn_ext tlv of
        Inr e \<Rightarrow> cmb_confidential_supply e = 0 | Inl _ \<Rightarrow> True)"

lemma closable_withheld:
  "(case get_extension AtAccount transfer_fee_amount_ext tlv of
      Inr e \<Rightarrow> transfer_fee_closable e | Inl _ \<Rightarrow> Inr ()) = Inr () \<Longrightarrow> withheld tlv = 0"
  by (auto simp: withheld_def transfer_fee_closable_def result_simps split: sum.splits)

lemma check_account_closable_Inr:
  assumes "check_account_closable P program_id dst auth signers st base tlv = Inr ()"
  shows "is_native base \<or> a_amount base = 0" "withheld tlv = 0" "nothing_encrypted tlv"
    "if is_owned_by_system_program_or_incinerator P base then ai_key dst = pl_incinerator_id P
     else authorizes P program_id (coption_unwrap_or (a_close_authority base) (a_owner base)) auth signers st \<and>
       (cpi_guard_enabled P tlv \<and> in_cpi P \<longrightarrow> ai_key dst = a_owner base)"
  using assms
  by (auto simp: nothing_encrypted_def confidential_transfer_account_closable_def
      confidential_transfer_fee_amount_closable_def check_account_closable_def Let_def result_simps validate_owner_authorizes closable_withheld simp del: coption_simps
      split: if_splits sum.splits)

lemma check_mint_closable_Inr:
  assumes "check_mint_closable P program_id auth signers st mint tlv = Inr ()"
  obtains e k where "m_supply mint = 0" "no_encrypted_supply tlv" "get_extension AtMint mint_close_authority_ext tlv = Inr e"
    "pl_option_from_maybe_null P (mca_close_authority e) = Some k" "authorizes P program_id k auth signers st"
  using assms
  by (auto simp: check_mint_closable_def result_simps validate_owner_authorizes no_encrypted_supply_def
      confidential_mint_burn_closable_def split: sum.splits)

text \<open>
  C12. An account is closed only when nothing is lost: a token account that is not native holds no
  tokens, and none holds withheld fees, encrypted balances or encrypted withheld fees; a mint has no
  supply, public or encrypted. A token account is closed only by its close authority, or its owner where
  it has none, and inside a CPI a guarded one only towards its owner; one that belongs to the system
  program or the incinerator by anyone, but only towards the incinerator; a mint only by its close authority.
  Its lamports all go to the destination, it loses its data and goes back to the system program, and no
  other account changes.
\<close>

theorem close_account_correct:
  assumes "process_close_account P program_id (src # dst # auth # signers) st = Inr st'" and "resize_laws P"
  shows "ai_key src \<noteq> ai_key dst \<and>
     ((\<exists>base tlv. unpack_ref account_base (info_data st src) = Inr (base, tlv) \<and>
         (is_native base \<or> a_amount base = 0) \<and> withheld tlv = 0 \<and> nothing_encrypted tlv \<and>
         (if is_owned_by_system_program_or_incinerator P base then ai_key dst = pl_incinerator_id P
          else authorizes P program_id (coption_unwrap_or (a_close_authority base) (a_owner base)) auth signers st \<and>
            (cpi_guard_enabled P tlv \<and> in_cpi P \<longrightarrow> ai_key dst = a_owner base))) \<or>
      (\<exists>mint tlv e k. unpack_ref (mint_base P) (info_data st src) = Inr (mint, tlv) \<and> m_supply mint = 0 \<and>
         no_encrypted_supply tlv \<and>
         get_extension AtMint mint_close_authority_ext tlv = Inr e \<and>
         pl_option_from_maybe_null P (mca_close_authority e) = Some k \<and> authorizes P program_id k auth signers st)) \<and>
     st' (ai_key src) = \<lparr>ac_owner = pl_system_program_id P, ac_lamports = 0, ac_data = []\<rparr> \<and>
     st' (ai_key dst) = (st (ai_key dst))\<lparr>ac_lamports := ac_lamports (st' (ai_key dst))\<rparr> \<and>
     unat (ac_lamports (st' (ai_key dst))) = unat (info_lamports st dst) + unat (info_lamports st src) \<and>
     (\<forall>a. a \<noteq> ai_key src \<and> a \<noteq> ai_key dst \<longrightarrow> st' a = st a)"
proof -
  obtain n where ne: "ai_key src \<noteq> ai_key dst"
    and chk: "(case unpack_ref account_base (info_data st src) of
         Inr (base, tlv) \<Rightarrow> check_account_closable P program_id dst auth signers st base tlv
       | Inl _ \<Rightarrow>
           (case unpack_ref (mint_base P) (info_data st src) of
              Inr (mint, tlv) \<Rightarrow> check_mint_closable P program_id auth signers st mint tlv
            | Inl _ \<Rightarrow> Inl UninitializedAccount)) = Inr ()"
    and n: "checked_add (info_lamports st dst) (info_lamports st src) = Some n"
    and del: "delete_account P (ai_key src) (set_lamports (ai_key src) 0 (set_lamports (ai_key dst) n st)) = Inr st'"
    using assms(1) by (auto simp: process_close_account_def Let_def result_simps)
  have st': "st' = set_data (ai_key src) [] (set_owner (ai_key src) (pl_system_program_id P)
      (set_lamports (ai_key src) 0 (set_lamports (ai_key dst) n st)))"
    using del assms(2) by (auto simp: delete_account_def Let_def result_simps dest: resize_zero)
  have who: "(\<exists>base tlv. unpack_ref account_base (info_data st src) = Inr (base, tlv) \<and>
         (is_native base \<or> a_amount base = 0) \<and> withheld tlv = 0 \<and> nothing_encrypted tlv \<and>
         (if is_owned_by_system_program_or_incinerator P base then ai_key dst = pl_incinerator_id P
          else authorizes P program_id (coption_unwrap_or (a_close_authority base) (a_owner base)) auth signers st \<and>
            (cpi_guard_enabled P tlv \<and> in_cpi P \<longrightarrow> ai_key dst = a_owner base))) \<or>
      (\<exists>mint tlv e k. unpack_ref (mint_base P) (info_data st src) = Inr (mint, tlv) \<and> m_supply mint = 0 \<and>
         no_encrypted_supply tlv \<and>
         get_extension AtMint mint_close_authority_ext tlv = Inr e \<and>
         pl_option_from_maybe_null P (mca_close_authority e) = Some k \<and> authorizes P program_id k auth signers st)"
  proof (cases "unpack_ref account_base (info_data st src)")
    case (Inr p)
    then show ?thesis
      using chk check_account_closable_Inr [of P program_id dst auth signers st "fst p" "snd p"]
      by (intro disjI1 exI [of _ "fst p"] exI [of _ "snd p"]) (simp add: case_prod_beta)
  next
    case (Inl e)
    with chk obtain mint tlv where m: "unpack_ref (mint_base P) (info_data st src) = Inr (mint, tlv)"
      "check_mint_closable P program_id auth signers st mint tlv = Inr ()"
      by (auto split: sum.splits)
    from m(2) show ?thesis
      by (rule check_mint_closable_Inr) (use m(1) in blast)
  qed
  have "unat n = unat (info_lamports st dst) + unat (info_lamports st src)"
    using checked_add_SomeD [OF n] by simp
  then show ?thesis
    using ne who by (simp add: st' set_data_def set_owner_def set_lamports_def)
qed

text \<open>
  \<open>SyncNative\<close> makes the amount of a native account exactly its lamports above the rent reserve,
  and changes nothing else; anyone may call it.
\<close>

theorem sync_native_correct:
  assumes "process_sync_native P [info] st = Inr st'"
  shows "\<exists>s rent amount. unpack account_base (info_data st info) = Inr s \<and> is_native (ps_base s) \<and>
     pl_rent_get P = Inr rent \<and>
     (let reserve = rent_minimum_balance rent (length (info_data st info)) in
      unat amount + unat reserve = unat (info_lamports st info) \<and>
      unpack account_base (info_data st' info) = Inr (s\<lparr>ps_base := (ps_base s)\<lparr>
        a_is_native := coption_some reserve, a_amount := amount\<rparr>\<rparr>)) \<and>
     info_lamports st' info = info_lamports st info \<and> (\<forall>a. a \<noteq> ai_key info \<longrightarrow> st' a = st a)"
proof -
  obtain s rent amount where s: "unpack account_base (info_data st info) = Inr s" "pl_rent_get P = Inr rent"
    "co_option (a_is_native (ps_base s)) = COPTION_SOME"
    and a: "checked_sub (info_lamports st info) (rent_minimum_balance rent (length (info_data st info))) = Some amount"
    and st': "st' = set_data (ai_key info) (state_bytes account_base (s\<lparr>ps_base := (ps_base s)\<lparr>
        a_is_native := coption_some (rent_minimum_balance rent (length (info_data st info))), a_amount := amount\<rparr>\<rparr>)) st"
    using assms
    by (auto simp: process_sync_native_def result_simps info_data_def simp del: coption_simps split: if_splits)
  let ?b = "(ps_base s)\<lparr>a_is_native := coption_some (rent_minimum_balance rent (length (info_data st info))), a_amount := amount\<rparr>"
  have "unpack account_base (state_bytes account_base (s\<lparr>ps_base := ?b\<rparr>)) = Inr (s\<lparr>ps_base := ?b\<rparr>)"
    using unpack_account_initialized [OF s(1)]
    by (intro account_st.unpack_update_base [OF s(1)]) (simp add: pod_account_is_initialized_def)
  moreover have "is_native (ps_base s)" using s(3) by (simp add: is_native_def)
  ultimately show ?thesis
    using s(1,2) checked_sub_SomeD [OF a]
    by (intro exI [of _ s] exI [of _ rent] exI [of _ amount])
      (simp add: st' Let_def info_data_def info_lamports_def set_data_other)
qed

text \<open>
  Withdrawing excess lamports is authorised by the owner, the mint authority or the multisig, never
  touches a native account, leaves the source with at least its rent reserve, and changes no data.
\<close>

theorem withdraw_excess_lamports_correct:
  assumes "process_withdraw_excess_lamports P program_id (src # dst # auth # signers) st = Inr st'"
  shows "\<exists>rent. pl_rent_get P = Inr rent \<and>
     unat (rent_minimum_balance rent (length (info_data st src))) \<le> unat (info_lamports st' src) \<and>
     (ai_key src \<noteq> ai_key dst \<longrightarrow>
        info_lamports st' src = rent_minimum_balance rent (length (info_data st src)) \<and>
        unat (info_lamports st' dst) + unat (info_lamports st' src) =
        unat (info_lamports st dst) + unat (info_lamports st src)) \<and>
     total_lamports st' = total_lamports st \<and> (\<forall>a. ac_data (st' a) = ac_data (st a)) \<and>
     (\<forall>a. a \<noteq> ai_key src \<and> a \<noteq> ai_key dst \<longrightarrow> st' a = st a) \<and>
     (case unpack_ref account_base (info_data st src) of
        Inr (a, _) \<Rightarrow> \<not> is_native a \<and> authorizes P program_id (a_owner a) auth signers st
      | Inl _ \<Rightarrow> True)"
proof -
  let ?r = "\<lambda>rent. rent_minimum_balance rent (length (info_data st src))"
  obtain rent n where rent: "pl_rent_get P = Inr rent" and n: "checked_sub (info_lamports st src) (?r rent) = Some n"
    and mv: "move_lamports (ai_key src) (ai_key dst) n (Custom Overflow) st = Inr st'"
    and who: "case unpack_ref account_base (info_data st src) of
        Inr (a, _) \<Rightarrow> \<not> is_native a \<and> authorizes P program_id (a_owner a) auth signers st
      | Inl _ \<Rightarrow> True"
  proof -
    from assms obtain rent n where *: "pl_rent_get P = Inr rent" "checked_sub (info_lamports st src) (?r rent) = Some n"
      "move_lamports (ai_key src) (ai_key dst) n (Custom Overflow) st = Inr st'"
      by (auto simp: process_withdraw_excess_lamports_def Let_def result_simps)
    have "case unpack_ref account_base (info_data st src) of
        Inr (a, _) \<Rightarrow> \<not> is_native a \<and> authorizes P program_id (a_owner a) auth signers st | Inl _ \<Rightarrow> True"
      using assms
      by (auto simp: process_withdraw_excess_lamports_def Let_def result_simps validate_owner_authorizes split: sum.splits)
    with * show thesis by (rule that)
  qed
  have nn: "unat n = unat (info_lamports st src) - unat (?r rent)" "unat (?r rent) \<le> unat (info_lamports st src)"
    using checked_sub_SomeD [OF n] by auto
  obtain s d where s: "checked_sub (ac_lamports (st (ai_key src))) n = Some s"
    and d: "checked_add (ac_lamports (set_lamports (ai_key src) s st (ai_key dst))) n = Some d"
    and st': "st' = set_lamports (ai_key dst) d (set_lamports (ai_key src) s st)"
    using mv by (auto simp: move_lamports_def Let_def result_simps)
  have "unat s = unat (?r rent)"
    using checked_sub_SomeD [OF s] nn by (simp add: info_lamports_def)
  then have sr: "s = ?r rent" by (simp add: word_unat_eq_iff)
  have "unat (?r rent) \<le> unat (info_lamports st' src) \<and>
     (ai_key src \<noteq> ai_key dst \<longrightarrow> info_lamports st' src = ?r rent \<and>
        unat (info_lamports st' dst) + unat (info_lamports st' src) =
        unat (info_lamports st dst) + unat (info_lamports st src))"
    using checked_add_SomeD [OF d] nn by (auto simp: st' sr info_lamports_def)
  then show ?thesis
    using rent who move_lamports_total [OF mv] move_lamports_frame [OF mv] by (intro exI [of _ rent]) blast
qed

text \<open>
  Unwrapping part of a native account, by its delegate within the allowance or by its owner,
  lowers its amount by exactly the lamports it sends to the destination (all of them when no amount is
  given), so the lamports still cover what remains; an account unwrapped to itself keeps its lamports.
\<close>

theorem unwrap_lamports_correct:
  assumes "process_unwrap_lamports P program_id (src # dst # auth # signers) amount st = Inr st'"
  shows "\<exists>s n. unpack account_base (info_data st src) = Inr s \<and> is_native (ps_base s) \<and>
     n = (if co_option amount = COPTION_SOME then co_value amount else a_amount (ps_base s)) \<and>
     n \<le> a_amount (ps_base s) \<and> debit_allowed P program_id auth signers None n (ps_base s) st \<and>
     unpack account_base (info_data st' src) = Inr (s\<lparr>ps_base :=
       (debited (ai_key auth) None n False (ps_base s))\<lparr>a_amount := a_amount (ps_base s) - n\<rparr>\<rparr>) \<and>
     (if ai_key src = ai_key dst then info_lamports st' src = info_lamports st src
      else unat (info_lamports st' src) + unat n = unat (info_lamports st src) \<and>
           unat (info_lamports st' dst) = unat (info_lamports st dst) + unat n \<and>
           info_data st' dst = info_data st dst) \<and>
     (\<forall>a. a \<noteq> ai_key src \<and> a \<noteq> ai_key dst \<longrightarrow> st' a = st a)"
proof -
  obtain s n r b st1 where s: "unpack account_base (info_data st src) = Inr s" "is_native (ps_base s)"
    and n: "(if co_option amount = COPTION_SOME then
              bindr (ok_or (checked_sub (a_amount (ps_base s)) (co_value amount)) (Custom InsufficientFunds)) (\<lambda>r.
              Inr (co_value amount, r))
            else if co_option amount = COPTION_NONE then Inr (a_amount (ps_base s), 0)
            else Inl InvalidInstructionData) = Inr (n, r)"
    and b: "(if co_option (a_delegate (ps_base s)) = COPTION_SOME \<and> ai_key auth = co_value (a_delegate (ps_base s)) then
              bindr (validate_owner P program_id (co_value (a_delegate (ps_base s))) auth (length (info_data st auth)) signers st) (\<lambda>_.
              bindr (ok_or (checked_sub (a_delegated_amount (ps_base s)) n) (Custom InsufficientFunds)) (\<lambda>d.
              let base' = (ps_base s)\<lparr>a_delegated_amount := d\<rparr> in
              Inr (if d = 0 then base'\<lparr>a_delegate := coption_none\<rparr> else base')))
            else bindr (validate_owner P program_id (a_owner (ps_base s)) auth (length (info_data st auth)) signers st)
                   (\<lambda>_. Inr (ps_base s))) = Inr b"
    and mv: "(if n \<noteq> 0 \<and> ai_key src \<noteq> ai_key dst
            then move_lamports (ai_key src) (ai_key dst) n (Custom Overflow) st else Inr st) = Inr st1"
    and st': "st' = set_data (ai_key src) (state_bytes account_base
                (s\<lparr>ps_base := if n \<noteq> 0 then b\<lparr>a_amount := r\<rparr> else b\<rparr>)) st1"
  proof -
    from assms show thesis
      by (clarsimp simp: process_unwrap_lamports_def Let_def [of "ps_base _"] Let_def [of "length _"] result_simps
          simp del: coption_simps)
        (rule that; (assumption | rule refl | simp add: Let_def))
  qed
  have nr: "n = (if co_option amount = COPTION_SOME then co_value amount else a_amount (ps_base s))"
    "n \<le> a_amount (ps_base s)" "r = a_amount (ps_base s) - n"
    using n by (auto simp: result_simps checked_sub_def simp del: coption_simps split: if_splits)
  have del: "co_option (a_delegate (ps_base s)) = COPTION_SOME \<and> ai_key auth = co_value (a_delegate (ps_base s)) \<longleftrightarrow>
      is_delegate (ps_base s) (ai_key auth)"
    by (auto simp: is_delegate_def)
  have db: "debit_allowed P program_id auth signers None n (ps_base s) st"
    "b = debited (ai_key auth) None n False (ps_base s)"
  proof -
    have "debit_allowed P program_id auth signers None n (ps_base s) st \<and> b = debited (ai_key auth) None n False (ps_base s)"
    proof (cases "is_delegate (ps_base s) (ai_key auth)")
      case True
      then have "co_value (a_delegate (ps_base s)) = ai_key auth" by (simp add: is_delegate_def)
      with True b show ?thesis
        unfolding del
        by (auto simp: Let_def result_simps validate_owner_authorizes checked_sub_def debit_allowed_def debited_def
            simp del: coption_simps split: if_splits)
    next
      case False
      with b show ?thesis
        unfolding del using authorizes_iff [of P program_id "a_owner (ps_base s)" auth signers st]
        by (auto simp: result_simps validate_owner_authorizes debit_allowed_def debited_def)
    qed
    then show "debit_allowed P program_id auth signers None n (ps_base s) st"
      "b = debited (ai_key auth) None n False (ps_base s)" by auto
  qed
  have base: "(if n \<noteq> 0 then b\<lparr>a_amount := r\<rparr> else b) = b\<lparr>a_amount := a_amount (ps_base s) - n\<rparr>"
    using nr(3) db(2) by (auto simp: debited_def)
  have "unpack account_base (state_bytes account_base (s\<lparr>ps_base := b\<lparr>a_amount := a_amount (ps_base s) - n\<rparr>\<rparr>)) =
      Inr (s\<lparr>ps_base := b\<lparr>a_amount := a_amount (ps_base s) - n\<rparr>\<rparr>)"
    using unpack_account_initialized [OF s(1)] db(2)
    by (intro account_st.unpack_update_base [OF s(1)]) (simp add: pod_account_is_initialized_def)
  moreover have "if ai_key src = ai_key dst then info_lamports st1 src = info_lamports st src
      else unat (info_lamports st1 src) + unat n = unat (info_lamports st src) \<and>
           unat (info_lamports st1 dst) = unat (info_lamports st dst) + unat n \<and> info_data st1 dst = info_data st dst"
    using mv
    by (auto simp: move_lamports_def Let_def result_simps info_lamports_def info_data_def
        dest!: checked_sub_SomeD checked_add_SomeD split: if_splits)
  moreover have "st1 a = st a" if "a \<noteq> ai_key src" "a \<noteq> ai_key dst" for a
    using mv that by (auto dest: move_lamports_frame(3) split: if_splits)
  ultimately show ?thesis
    using s(1,2) nr(2) db(1)
    by (intro exI [of _ s] exI [of _ n] conjI nr(1))
      (simp_all add: st' base db(2) [symmetric] info_data_def info_lamports_def set_data_other split: if_splits)
qed

subsection \<open>Concrete runs\<close>

definition sample_native :: pod_account where
  "sample_native = (sample_account NATIVE_MINT_ID 30 35 Initialized)\<lparr>a_is_native := coption_some 165\<rparr>"

lemma sample_native_simps [simp]:
  "pod_account_is_initialized sample_native" "is_native sample_native" "a_owner sample_native = 30"
  "a_amount sample_native = 35" "a_delegate sample_native = coption_none" "a_is_native sample_native = coption_some 165"
  by (simp_all add: sample_native_def sample_account_def pod_account_is_initialized_def is_native_def)

definition sample_lifecycle_store :: store where
  "sample_lifecycle_store = sample_store
     [(5, token_acct 250 (pod_account_to_bytes (sample_account 4 30 0 Initialized))),
      (6, token_acct 200 (pod_account_to_bytes sample_native)), (30, empty_acct), (40, empty_acct)]"

lemma sample_lifecycle_store_simps [simp]:
  "sample_lifecycle_store 5 = token_acct 250 (pod_account_to_bytes (sample_account 4 30 0 Initialized))"
  "sample_lifecycle_store 6 = token_acct 200 (pod_account_to_bytes sample_native)"
  "sample_lifecycle_store 30 = empty_acct" "sample_lifecycle_store 40 = empty_acct"
  by (simp_all add: sample_lifecycle_store_def)

lemma sample_lifecycle_validate:
  "validate_owner sample_platform TOKEN_2022_ID 30 (signer_info 30) 0 [] sample_lifecycle_store = Inr ()"
  using validate_owner_authorizes [of sample_platform TOKEN_2022_ID 30 "signer_info 30" sample_lifecycle_store "[]"]
  by (simp add: sample_signer_authorizes info_data_def empty_acct_def)

lemma sample_not_incinerator: "a_owner a = 30 \<Longrightarrow> \<not> is_owned_by_system_program_or_incinerator sample_platform a"
  by (simp add: is_owned_by_system_program_or_incinerator_def sample_platform_def)

lemma sample_rent: "pl_rent_get sample_platform = Inr \<lparr>rent_minimum_balance = of_nat, rent_is_exempt = \<lambda>l n. n \<le> unat l\<rparr>"
  by (simp add: sample_platform_def)

lemma close_account_correct_witness:
  "\<exists>st'. process_close_account sample_platform TOKEN_2022_ID [plain_info 5, plain_info 40, signer_info 30]
      sample_lifecycle_store = Inr st' \<and>
    unat (ac_lamports (st' (ai_key (plain_info 40)))) = 250"
  (is "\<exists>st'. ?run = Inr st' \<and> _")
proof -
  have "unpack_ref account_base (pod_account_to_bytes (sample_account 4 30 0 Initialized)) =
      Inr (sample_account 4 30 0 Initialized, [])"
    by (simp add: account_st.unpack_ref_eq)
  then have "\<exists>st'. ?run = Inr st'"
    using sample_lifecycle_validate
    by (simp add: process_close_account_def check_account_closable_def cpi_guard_enabled_def sample_not_incinerator
        info_owner_def info_data_def info_lamports_def ensure_def empty_acct_def checked_add_def delete_account_def Let_def)
      (simp add: sample_platform_def)
  then obtain st' where st': "?run = Inr st'" ..
  from close_account_correct [OF this] st' show ?thesis
    by (intro exI [of _ st']) (simp add: info_lamports_def empty_acct_def)
qed

lemma sync_native_correct_witness:
  "\<exists>st'. process_sync_native sample_platform [plain_info 6] sample_lifecycle_store = Inr st' \<and>
    info_lamports st' (plain_info 6) = 200"
  (is "\<exists>st'. ?run = Inr st' \<and> _")
proof -
  have "\<exists>st'. ?run = Inr st'"
    by (simp add: process_sync_native_def sample_rent initialized_view_def info_owner_def info_data_def info_lamports_def
        checked_sub_def)
  then obtain st' where st': "?run = Inr st'" ..
  from sync_native_correct [OF this] st' show ?thesis
    by (intro exI [of _ st']) (auto simp: info_lamports_def)
qed

lemma withdraw_excess_lamports_correct_witness:
  "\<exists>st'. process_withdraw_excess_lamports sample_platform TOKEN_2022_ID [plain_info 5, plain_info 40, signer_info 30]
      sample_lifecycle_store = Inr st' \<and> 165 \<le> unat (info_lamports st' (plain_info 5))"
  (is "\<exists>st'. ?run = Inr st' \<and> _")
proof -
  have "unpack_ref account_base (pod_account_to_bytes (sample_account 4 30 0 Initialized)) =
      Inr (sample_account 4 30 0 Initialized, [])"
    by (simp add: account_st.unpack_ref_eq)
  then have "\<exists>st'. ?run = Inr st'"
    using sample_lifecycle_validate
    by (simp add: process_withdraw_excess_lamports_def cpi_guard_enabled_def sample_rent move_lamports_def
        info_owner_def info_data_def info_lamports_def ensure_def empty_acct_def checked_sub_def checked_add_def Let_def)
  then obtain st' where st': "?run = Inr st'" ..
  from withdraw_excess_lamports_correct [OF this] st' show ?thesis
    by (intro exI [of _ st']) (auto simp: sample_rent info_data_def)
qed

lemma unwrap_lamports_correct_witness:
  "\<exists>st' s n. process_unwrap_lamports sample_platform TOKEN_2022_ID [plain_info 6, plain_info 40, signer_info 30]
      (coption_some 20) sample_lifecycle_store = Inr st' \<and>
    unpack account_base (info_data st' (plain_info 6)) = Inr (s\<lparr>ps_base :=
       (debited (ai_key (signer_info 30)) None n False (ps_base s))\<lparr>a_amount := a_amount (ps_base s) - n\<rparr>\<rparr>)"
  (is "\<exists>st' s n. ?run = Inr st' \<and> _ st' s n")
proof -
  have "\<exists>st'. ?run = Inr st'"
    using sample_lifecycle_validate
    by (simp add: process_unwrap_lamports_def move_lamports_def info_owner_def info_data_def info_lamports_def
        ensure_def empty_acct_def checked_sub_def checked_add_def Let_def)
  then obtain st' where st': "?run = Inr st'" ..
  from unwrap_lamports_correct [OF this] st' show ?thesis by blast
qed

end
