(* ===== verification/Account_Config.thy ===== *)
theory Account_Config
  imports Lifecycle Single_Ext
begin

text \<open>
  The instructions that configure a token account: required memos and the CPI guard
  (program/src/extension/memo_transfer/processor.rs, cpi_guard/processor.rs) and reallocation for
  more extensions (program/src/extension/reallocate.rs). Beside their own effects, the theorems state
  what the two extensions are for: a transfer to an account that requires memos follows a memo, and
  inside a CPI the owner of a guarded account can neither move, burn nor approve its tokens.
\<close>

section \<open>Model\<close>

text \<open>The extension of an account, initialised when it is not there yet.\<close>

definition get_or_init_extension :: "'v extension \<Rightarrow> bytes \<Rightarrow> ('v \<times> bytes) result" where
  "get_or_init_extension V tlv =
     (case get_extension AtAccount V tlv of
        Inr extension \<Rightarrow> Inr (extension, tlv)
      | Inl _ \<Rightarrow> bindr (init_extension AtAccount V True tlv) (\<lambda>tlv1. Inr (vx_default V, tlv1)))"

definition process_toggle_required_memo_transfers ::
    "platform \<Rightarrow> address \<Rightarrow> account_info list \<Rightarrow> bool \<Rightarrow> store \<Rightarrow> store result" where
  "process_toggle_required_memo_transfers P program_id accounts enable st =
     bindr (next_account_info accounts) (\<lambda>(token_account_info, it).
     bindr (next_account_info it) (\<lambda>(owner_info, signers).
     bindr (check_program_account (info_owner st token_account_info)) (\<lambda>_.
     initialized_view account_base (ai_key token_account_info) (\<lambda>account.
       bindr (validate_owner P program_id (a_owner (ps_base account)) owner_info
                (length (info_data st owner_info)) signers st) (\<lambda>_.
       on_tlv (\<lambda>tlv.
         bindr (get_or_init_extension memo_transfer_ext tlv) (\<lambda>(extension, tlv1).
         put_extension AtAccount memo_transfer_ext
           (extension\<lparr>mt_require_incoming_transfer_memos := pl_pod_from_bool P enable\<rparr>) tlv1)) account)) st)))"

definition process_toggle_cpi_guard ::
    "platform \<Rightarrow> address \<Rightarrow> account_info list \<Rightarrow> bool \<Rightarrow> store \<Rightarrow> store result" where
  "process_toggle_cpi_guard P program_id accounts enable st =
     bindr (next_account_info accounts) (\<lambda>(token_account_info, it).
     bindr (next_account_info it) (\<lambda>(owner_info, signers).
     bindr (check_program_account (info_owner st token_account_info)) (\<lambda>_.
     initialized_view account_base (ai_key token_account_info) (\<lambda>account.
       bindr (validate_owner P program_id (a_owner (ps_base account)) owner_info
                (length (info_data st owner_info)) signers st) (\<lambda>_.
       bindr (ensure (\<not> in_cpi P) (Custom CpiGuardSettingsLocked)) (\<lambda>_.
       on_tlv (\<lambda>tlv.
         bindr (get_or_init_extension cpi_guard_ext tlv) (\<lambda>(extension, tlv1).
         put_extension AtAccount cpi_guard_ext (extension\<lparr>cg_lock_cpi := pl_pod_from_bool P enable\<rparr>) tlv1)) account))) st)))"

text \<open>
  \<open>StateWithExtensions::<Account>::unpack\<close> and its mutable variant: the base state through the
  validating decoder. \<open>account_unpack\<close> is \<open>Account::unpack\<close>, a provided method of the external
  trait \<open>Pack\<close>; what is assumed of it is \<open>pack_law\<close>.
\<close>

definition state_unpack :: "(bytes \<Rightarrow> account result) \<Rightarrow> bytes \<Rightarrow> (account \<times> bytes) result" where
  "state_unpack account_unpack input =
     bindr (check_min_len_and_not_multisig input ACCOUNT_LEN) (\<lambda>_.
     bindr (account_unpack (take ACCOUNT_LEN input)) (\<lambda>base.
     bindr (unpack_tlv_data account_base (drop ACCOUNT_LEN input)) (\<lambda>tlv_data. Inr (base, tlv_data))))"

definition state_unpack_mut ::
    "(bytes \<Rightarrow> account result) \<Rightarrow> bytes \<Rightarrow> (account \<times> bytes \<times> bytes \<times> bytes \<times> bytes) result" where
  "state_unpack_mut account_unpack input =
     bindr (check_min_len_and_not_multisig input ACCOUNT_LEN) (\<lambda>_.
     bindr (account_unpack (take ACCOUNT_LEN input)) (\<lambda>base.
     bindr (unpack_type_and_tlv_data account_base (drop ACCOUNT_LEN input)) (\<lambda>(padding, account_type, tlv_data).
     Inr (base, take ACCOUNT_LEN input, padding, account_type, tlv_data))))"

definition pack_law :: "(bytes \<Rightarrow> account result) \<Rightarrow> bool" where
  "pack_law account_unpack \<longleftrightarrow>
     (\<forall>d a. account_unpack d = Inr a \<longrightarrow>
        length d = ACCOUNT_LEN \<and> account_unpack_from_slice d = Inr a \<and> account_is_initialized a)"

definition process_reallocate ::
    "(bytes \<Rightarrow> account result) \<Rightarrow> platform \<Rightarrow> address \<Rightarrow> account_info list \<Rightarrow> extension_type list \<Rightarrow> store \<Rightarrow> store result" where
  "process_reallocate account_unpack P program_id accounts new_extension_types st =
     bindr (next_account_info accounts) (\<lambda>(token_account_info, it).
     bindr (next_account_info it) (\<lambda>(payer_info, it).
     bindr (next_account_info it) (\<lambda>(system_program_info, it).
     bindr (next_account_info it) (\<lambda>(authority_info, signers).
     bindr (check_program_account (info_owner st token_account_info)) (\<lambda>_.
     let k = ai_key token_account_info; data = info_data st token_account_info in
     bindr (state_unpack account_unpack data) (\<lambda>(base, tlv_data).
     bindr (validate_owner P program_id (acc_owner base) authority_info (length (info_data st authority_info)) signers st) (\<lambda>_.
     let native_token_amount = (if acc_is_native base = None then None else Some (acc_amount base)) in
     bindr (get_tlv_data_info tlv_data) (\<lambda>info.
     bindr (ensure (\<not> (\<exists>t \<in> set new_extension_types. get_account_type t \<noteq> AtAccount)) (Custom InvalidState)) (\<lambda>_.
     bindr (try_calculate_account_len P ACCOUNT_LEN (tdi_extension_types info @ new_extension_types)) (\<lambda>needed_account_len.
     if length data \<ge> needed_account_len then Inr st
     else
       bindr (pl_resize P data needed_account_len) (\<lambda>data1.
       let st1 = set_data k data1 st in
       bindr (pl_rent_get P) (\<lambda>rent.
       let new_rent_exempt_reserve = rent_minimum_balance rent needed_account_len in
       bindr (ok_or (checked_sub (ac_lamports (st1 k)) (case native_token_amount of Some n \<Rightarrow> n | None \<Rightarrow> 0))
                (Custom Overflow)) (\<lambda>current_lamport_reserve.
       let lamports_diff = saturating_sub new_rent_exempt_reserve current_lamport_reserve in
       bindr (if lamports_diff > 0 then pl_system_transfer P payer_info token_account_info lamports_diff st1
              else Inr st1) (\<lambda>st2.
       bindr (set_account_type account_base (ac_data (st2 k))) (\<lambda>data2.
       case native_token_amount of
         None \<Rightarrow> Inr (set_data k data2 st2)
       | Some native_token_amount \<Rightarrow>
           bindr (state_unpack_mut account_unpack data2) (\<lambda>(base, base_data, padding, account_type, tlv_data).
           bindr (ok_or (checked_add new_rent_exempt_reserve native_token_amount) (Custom Overflow)) (\<lambda>minimum_lamports.
           bindr (ensure (\<not> ac_lamports (st2 k) < minimum_lamports) (Custom InvalidState)) (\<lambda>_.
           Inr (set_data k
                  (account_pack_into_slice (base\<lparr>acc_is_native := Some new_rent_exempt_reserve\<rparr>) base_data @
                   padding @ account_type @ tlv_data) st2)))))))))))))))))))"

section \<open>What the extensions guarantee\<close>

text \<open>
  When the destination requires memos, a transfer to it succeeds only right after an instruction of
  the memo program, also when an account transfers to itself.
\<close>

theorem memo_required_enforced:
  assumes "process_transfer P program_id accounts amount instr st = Inr st'"
    and "transfer_accounts instr accounts = Inr (src, em, dst, auth, signers)"
    and "unpack account_base (info_data st dst) = Inr d" and "memo_required P (ps_tlv d)"
  shows "\<exists>k. pl_sibling_program P = Some k \<and> k \<in> {pl_memo_v1_id P, pl_memo_v3_id P, pl_memo_v4_id P}"
proof -
  have memo: ?thesis if "check_previous_sibling_instruction_is_memo P = Inr ()"
    using that by (auto simp: check_previous_sibling_instruction_is_memo_def result_simps split: option.splits)
  obtain s fee permanent hook b where s: "unpack account_base (info_data st src) = Inr s"
    and r: "(if ai_key src = ai_key dst then
        bindr (if memo_required P (ps_tlv s) then check_previous_sibling_instruction_is_memo P else Inr ()) (\<lambda>_. Inr st)
      else transfer_to_other P src em dst auth signers amount fee hook (s\<lparr>ps_base := b\<rparr>) st) = Inr st'"
  proof -
    from assms(1,2) show thesis
      by (clarsimp simp: process_transfer_def Let_def result_simps) (rule that; simp cong: if_cong)
  qed
  show ?thesis
  proof (cases "ai_key src = ai_key dst")
    case True
    with s assms(3) have "d = s" by (simp add: info_data_def)
    with r True assms(4) memo show ?thesis by (simp add: result_simps)
  next
    case False
    with r assms(3,4) memo show ?thesis by (simp add: transfer_to_other_def result_simps)
  qed
qed

section \<open>Reallocation\<close>

text \<open>Appending zeros to a well-formed buffer neither hides an extension nor makes one appear.\<close>

lemma read_u16_append: "i + 2 \<le> length tlv \<Longrightarrow> read_u16 (tlv @ z) i = read_u16 tlv i"
  by (simp add: read_u16_def seg_append_left)

lemma read_u16_zeros: "length tlv \<le> i \<Longrightarrow> read_u16 (tlv @ replicate n 0) i = 0"
proof -
  assume "length tlv \<le> i"
  then have "seg i 2 (tlv @ replicate n 0) = replicate (min 2 (n - (i - length tlv))) (0 :: u8)"
    by (simp add: seg_def min.commute)
  then show ?thesis by (simp add: read_u16_def)
qed

lemma walk_append_zeros:
  assumes "try_for_each_tlv_extension_type f tlv i s = Inr r" and "V \<noteq> ExtUninitialized"
  shows "(\<forall>ix. get_extension_indices V False tlv i = Inr ix \<longrightarrow>
        get_extension_indices V False (tlv @ replicate n 0) i = Inr ix \<and>
        value_start ix + read_u16 tlv (length_start ix) \<le> length tlv) \<and>
     ((\<exists>e. get_extension_indices V False tlv i = Inl e) \<longrightarrow>
        (\<forall>ix. get_extension_indices V False (tlv @ replicate n 0) i = Inr ix \<longrightarrow>
           read_u16 (tlv @ replicate n 0) (length_start ix) = 0))"
  using assms
proof (induction f tlv i s arbitrary: r rule: try_for_each_tlv_extension_type.induct)
  case (1 f tlv i s)
  let ?ix = "get_tlv_indices i" and ?z = "tlv @ replicate n 0"
  have stop: "get_extension_indices V False ?z i = Inr ix \<Longrightarrow> read_u16 ?z (length_start ix) = 0"
    if "length tlv < i + 2" for ix
  proof -
    assume g: "get_extension_indices V False ?z i = Inr ix"
    show ?thesis
    proof (cases "i < length tlv")
      case False
      with g \<open>V \<noteq> ExtUninitialized\<close> show ?thesis
        by (subst (asm) get_extension_indices.simps)
          (auto simp: Let_def read_u16_zeros ext_code_inject split: if_splits)
    next
      case True
      with that have j: "length tlv \<le> i + 2" by simp
      show ?thesis
      proof (cases "read_u16 ?z i = ext_code V")
        case True
        with g j show ?thesis
          by (subst (asm) get_extension_indices.simps) (auto simp: Let_def read_u16_zeros split: if_splits)
      next
        case False
        with g have "get_extension_indices V False ?z (i + 4 + read_u16 ?z (i + 2)) = Inr ix"
          by (subst (asm) get_extension_indices.simps) (auto simp: Let_def split: if_splits)
        moreover have "read_u16 ?z (i + 2) = 0" by (rule read_u16_zeros [OF j])
        ultimately have "get_extension_indices V False ?z (i + 4) = Inr ix" by (simp only: add_0_right)
        moreover have "length tlv \<le> i + 4" using j by simp
        ultimately show ?thesis using \<open>V \<noteq> ExtUninitialized\<close>
          by (subst (asm) get_extension_indices.simps)
            (auto simp: Let_def read_u16_zeros ext_code_inject split: if_splits)
      qed
    qed
  qed
  show ?case
  proof (cases "length tlv < i + 2")
    case True
    then have "\<not> (\<exists>ix. get_extension_indices V False tlv i = Inr ix)"
      by (subst get_extension_indices.simps) (simp add: Let_def)
    with stop [OF True] show ?thesis by auto
  next
    case False
    with "1.prems"(1) obtain t where t: "extension_type_try_from_bytes (seg i 2 tlv) = Inr t"
      by (subst (asm) try_for_each_tlv_extension_type.simps) (auto simp: Let_def split: sum.splits if_splits)
    have code: "read_u16 tlv i = ext_code t" "read_u16 ?z i = ext_code t"
      using t False
      by (auto simp: extension_type_try_from_bytes_def read_u16_def seg_append_left result_simps
          dest: extension_type_of_nat_code split: if_splits)
    show ?thesis
    proof (cases "t = ExtUninitialized")
      case True
      have "get_extension_indices V False x i \<noteq> Inr ix" if "read_u16 x i = ext_code t" for x ix
        using that True \<open>V \<noteq> ExtUninitialized\<close>
        by (subst get_extension_indices.simps) (simp add: Let_def ext_code_inject)
      with code show ?thesis by blast
    next
      case t0: False
      let ?e = "i + 4 + read_u16 tlv (i + 2)"
      from "1.prems"(1) t t0 False obtain s1 where b: "i + 4 \<le> length tlv" "?e \<le> length tlv" "f t s = Inr s1"
        and rest: "try_for_each_tlv_extension_type f tlv ?e s1 = Inr r"
        by (subst (asm) try_for_each_tlv_extension_type.simps) (auto simp: Let_def split: sum.splits if_splits)
      have l: "read_u16 ?z (i + 2) = read_u16 tlv (i + 2)" using b(1) by (intro read_u16_append) simp
      have i: "i < length tlv" using b(1) by simp
      show ?thesis
      proof (cases "t = V")
        case True
        then have "get_extension_indices V False tlv i = Inr ?ix" "get_extension_indices V False ?z i = Inr ?ix"
          using b(1) code by (subst get_extension_indices.simps, simp add: Let_def)+
        with b(2) show ?thesis by simp
      next
        case False
        have "get_extension_indices V False tlv i = get_extension_indices V False tlv ?e"
          "get_extension_indices V False ?z i = get_extension_indices V False ?z ?e"
          using b(1) code l False t0
          by (subst get_extension_indices.simps, simp add: Let_def ext_code_inject)+
        moreover have "length tlv < length_start ?ix \<longleftrightarrow> False" using b(1) by simp
        ultimately show ?thesis
          using "1.IH" [OF i refl _ _ t0 _ refl _ b(3)] t b rest \<open>V \<noteq> ExtUninitialized\<close> by simp
      qed
    qed
  qed
qed

lemma get_extension_append_zeros:
  assumes "get_tlv_data_info tlv = Inr info" and "vx_type V \<noteq> ExtUninitialized" and "0 < vx_len V \<or> get_extension at V tlv = Inr v"
  shows "get_extension at V (tlv @ replicate n 0) = Inr v \<longleftrightarrow> get_extension at V tlv = Inr v"
proof -
  let ?z = "tlv @ replicate n 0"
  obtain r where "try_for_each_tlv_extension_type (\<lambda>t ts. Inr (ts @ [t])) tlv 0 [] = Inr r"
    using assms(1) by (auto simp: get_tlv_data_info_def result_simps)
  note w = walk_append_zeros [OF this assms(2), of n]
  show ?thesis
  proof (cases "get_extension_indices (vx_type V) False tlv 0")
    case (Inr ix)
    then have ix: "get_extension_indices (vx_type V) False ?z 0 = Inr ix"
      "value_start ix + read_u16 tlv (length_start ix) \<le> length tlv"
      using w by blast+
    have "ix = get_tlv_indices (type_start ix)" "type_start ix + 4 \<le> length tlv"
      using get_extension_indices_bounds [OF Inr] by blast+
    then have "read_u16 ?z (length_start ix) = read_u16 tlv (length_start ix)"
      by (intro read_u16_append) (metis add.assoc get_tlv_indices_simps(2) numeral_plus_numeral semiring_norm(2,6))
    then have "get_extension_bytes at (vx_type V) ?z = get_extension_bytes at (vx_type V) tlv"
      using Inr ix by (simp add: get_extension_bytes_def get_extension_range_def Let_def seg_append_left)
    then show ?thesis by (simp add: get_extension_def)
  next
    case (Inl e)
    then have no: "get_extension at V tlv \<noteq> Inr v"
      by (simp add: get_extension_def get_extension_bytes_def get_extension_range_def)
    with assms(3) have "0 < vx_len V" by simp
    moreover have "length w = 0" if "get_extension_bytes at (vx_type V) ?z = Inr w" for w
    proof -
      from that obtain i m where r: "get_extension_range at (vx_type V) ?z = Inr (i, m)" "w = seg i m ?z"
        by (auto simp: result_simps)
      from r(1) obtain jx where "get_extension_indices (vx_type V) False ?z 0 = Inr jx" "m = read_u16 ?z (length_start jx)"
        by (rule get_extension_range_Inr)
      with w Inl have "m = 0" by auto
      with r(2) show ?thesis by (simp add: seg_def)
    qed
    ultimately have "get_extension at V ?z \<noteq> Inr v"
      by (auto simp: get_extension_def result_simps)
    with no show ?thesis by simp
  qed
qed

lemma withheld_append_zeros:
  assumes "get_tlv_data_info tlv = Inr info"
  shows "withheld (tlv @ replicate n 0) = withheld tlv"
proof -
  have eq: "get_extension AtAccount transfer_fee_amount_ext (tlv @ replicate n 0) = Inr v \<longleftrightarrow>
      get_extension AtAccount transfer_fee_amount_ext tlv = Inr v" for v
    by (rule get_extension_append_zeros [OF assms]) (simp_all add: transfer_fee_amount_ext_def)
  show ?thesis
  proof (cases "get_extension AtAccount transfer_fee_amount_ext tlv")
    case (Inr v)
    with eq [of v] show ?thesis by (simp add: withheld_def)
  next
    case (Inl e)
    with eq obtain e' where "get_extension AtAccount transfer_fee_amount_ext (tlv @ replicate n 0) = Inl e'"
      by (metis Inl_Inr_False obj_sumE)
    with Inl show ?thesis by (simp add: withheld_def)
  qed
qed

text \<open>The validating decoder reads the state that the Pod view reads.\<close>

lemma state_unpack_Inr:
  assumes "state_unpack u d = Inr (base, tlv)" and "pack_law u"
  obtains s where "unpack account_base d = Inr s" "account_view base (ps_base s)" "ps_tlv s = tlv"
    "account_unpack_from_slice (take ACCOUNT_LEN d) = Inr base"
proof -
  from assms(1) have c: "check_min_len_and_not_multisig d ACCOUNT_LEN = Inr ()"
    and u: "u (take ACCOUNT_LEN d) = Inr base"
    and t: "unpack_tlv_data account_base (drop ACCOUNT_LEN d) = Inr tlv"
    by (auto simp: state_unpack_def result_simps)
  from u assms(2) have a: "account_unpack_from_slice (take ACCOUNT_LEN d) = Inr base" "account_is_initialized base"
    by (auto simp: pack_law_def)
  note v = account_unpack_view [OF a(1)]
  have "pod_account_is_initialized (pod_account_of_bytes (take ACCOUNT_LEN d))"
    using v a(2) by (cases "acc_state base")
      (auto simp: account_view_def pod_account_is_initialized_def account_is_initialized_def)
  then have "unpack_ref account_base d = Inr (pod_account_of_bytes (take ACCOUNT_LEN d), tlv)"
    using c t by (simp add: unpack_ref_def Let_def)
  then obtain s where "unpack account_base d = Inr s" "ps_base s = pod_account_of_bytes (take ACCOUNT_LEN d)" "ps_tlv s = tlv"
    by (auto simp: account_st.unpack_ref_eq result_simps)
  with v a(1) show thesis by (intro that) simp_all
qed

lemma pack_set_native:
  assumes "account_unpack_from_slice d = Inr a" and "length d = ACCOUNT_LEN"
  shows "account_pack_into_slice (a\<lparr>acc_is_native := Some r\<rparr>) d =
    pod_account_to_bytes ((pod_account_of_bytes d)\<lparr>a_is_native := coption_some r\<rparr>)"
proof -
  have key: "pack_coption_key x bs = bs" if "unpack_coption_key bs = Inr x" "length bs = 36" for x bs
  proof -
    have "le_bytes 32 (of_le (seg 4 32 bs) :: address) = seg 4 32 bs" "seg 0 4 bs @ seg 4 32 bs = bs"
      using that(2) by (simp_all add: codec_simps seg_def)
    with that(1) show ?thesis
      by (auto simp: unpack_coption_key_def pack_coption_key_def split: if_splits)
  qed
  have four: "(4 :: nat) = Suc (Suc (Suc (Suc 0)))" by simp
  have one: "le_bytes 4 (1 :: u32) = [1, 0, 0, 0]"
    unfolding le_bytes_def four nat_le.simps by simp
  have "account_state_u8 (acc_state a) = of_le (seg 108 1 d)"
    using account_unpack_view [OF assms(1)] by (simp add: account_view_def pod_account_of_bytes_def)
  then show ?thesis
    using assms
    by (auto simp: account_unpack_from_slice_def account_pack_into_slice_def pod_account_to_bytes_def
        pod_account_of_bytes_def result_simps ACCOUNT_LEN_def key codec_simps pack_coption_u64_def
        coption_to_bytes_def [of 8] one)
qed

text \<open>A grown account is readable once its account type is set: same base state, zeros after the extensions.\<close>

lemma grow_account:
  assumes "unpack account_base d = Inr s" and "length d < n"
    and "set_account_type account_base (d @ replicate (n - length d) 0) = Inr d2"
  obtains k s2 where "s2 = s\<lparr>ps_account_type := [2], ps_tlv := ps_tlv s @ replicate k 0\<rparr>"
    "unpack account_base d2 = Inr s2" "length d2 = n"
proof -
  let ?z = "replicate (n - length d) (0 :: u8)"
  from assms(1) have wf: "wf_state account_base s" and d: "state_bytes account_base s = d"
    by (simp_all add: account_st.unpack_iff)
  have base: "length (pod_account_to_bytes (ps_base s)) = 165" by simp
  have n: "n \<noteq> MULTISIG_LEN" "165 \<le> length d"
    using assms account_st.length_state_bytes [of s] d
    by (auto simp: set_account_type_def check_min_len_and_not_multisig_def ACCOUNT_LEN_def split: if_splits)
  have pad: "ps_padding s = []"
    using wf by (auto simp: wf_state_def layout_ok_def ACCOUNT_LEN_def BASE_ACCOUNT_LENGTH_def)
  obtain k where d2: "d2 = pod_account_to_bytes (ps_base s) @ [2] @ ps_tlv s @ replicate k 0"
  proof (cases "ps_account_type s = []")
    case True
    then have t: "ps_tlv s = []" and z: "d = pod_account_to_bytes (ps_base s)"
      using wf d pad by (auto simp: wf_state_def layout_ok_def state_bytes_def)
    obtain m where m: "?z = 0 # replicate m 0" using assms(2) by (cases "n - length d") auto
    from assms(3) show thesis
      unfolding m
      by (intro that [of m])
        (auto simp: set_account_type_def Let_def z t result_simps type_and_tlv_indices_def ACCOUNT_LEN_def
          BASE_ACCOUNT_LENGTH_def account_type_try_from_iff account_type_u8_def
          split: if_splits option.splits account_type.splits)
  next
    case False
    then have "d = pod_account_to_bytes (ps_base s) @ [2] @ ps_tlv s"
      using wf d pad by (auto simp: wf_state_def layout_ok_def state_bytes_def account_type_u8_def)
    with assms(3) show thesis
      by (intro that [of "n - length d"])
        (auto simp: set_account_type_def Let_def result_simps type_and_tlv_indices_def ACCOUNT_LEN_def
          BASE_ACCOUNT_LENGTH_def account_type_try_from_iff account_type_u8_def split: if_splits option.splits)
  qed
  let ?s2 = "s\<lparr>ps_account_type := [2], ps_tlv := ps_tlv s @ replicate k 0\<rparr>"
  have "length d2 = n"
    using assms(2,3) n
    by (auto simp: set_account_type_def Let_def result_simps ACCOUNT_LEN_def split: if_splits option.splits)
  moreover from this n d2 wf pad have "unpack account_base d2 = Inr ?s2"
    by (auto simp: account_st.unpack_iff wf_state_def layout_ok_def state_bytes_def account_type_u8_def
        BASE_ACCOUNT_LENGTH_def)
  ultimately show thesis using that by blast
qed

text \<open>The documented effect of a system transfer.\<close>

definition system_transfer_law :: "platform \<Rightarrow> bool" where
  "system_transfer_law P \<longleftrightarrow>
     (\<forall>src dst n st st'. pl_system_transfer P src dst n st = Inr st' \<longrightarrow>
        (\<exists>e. move_lamports (ai_key src) (ai_key dst) n e st = Inr st'))"

lemma native_view: "account_view a p \<Longrightarrow> acc_is_native a = None \<longleftrightarrow> \<not> is_native p"
  by (cases "acc_is_native a") (auto simp: account_view_def coption_view_def is_native_def coption_is_some_def
      COPTION_SOME_def COPTION_NONE_def)

text \<open>The lamports step: afterwards the account holds the new reserve on top of its wrapped tokens.\<close>

lemma top_up_reserve:
  assumes "ok_or (checked_sub (ac_lamports (st k)) w) e = Inr cur"
    and "(if saturating_sub new cur > 0 then pl_system_transfer P payer tok (saturating_sub new cur) st else Inr st) = Inr st2"
    and "system_transfer_law P" and "ai_key tok = k" and "ai_key payer \<noteq> k"
  shows "unat new + unat w \<le> unat (ac_lamports (st2 k))" "total_lamports st2 = total_lamports st"
    "\<And>a. ac_data (st2 a) = ac_data (st a)" "\<And>a. ac_owner (st2 a) = ac_owner (st a)"
    "\<And>a. a \<noteq> k \<Longrightarrow> a \<noteq> ai_key payer \<Longrightarrow> st2 a = st a"
proof -
  have cur: "unat w \<le> unat (ac_lamports (st k))" "unat cur = unat (ac_lamports (st k)) - unat w"
    using assms(1) checked_sub_SomeD [of "ac_lamports (st k)" w cur] by (auto simp: result_simps)
  have sat: "unat (saturating_sub new cur) = unat new - unat cur"
  proof (cases "checked_sub new cur")
    case None
    with checked_sub_None [of new cur] show ?thesis by (simp add: saturating_sub_def)
  qed (simp add: saturating_sub_def checked_sub_SomeD)
  have "st2 = st \<and> unat new \<le> unat cur \<or>
    (\<exists>e'. move_lamports (ai_key payer) k (saturating_sub new cur) e' st = Inr st2 \<and>
       unat (saturating_sub new cur) = unat new - unat cur)"
    using assms(2-4) sat by (auto simp: system_transfer_law_def word_less_nat_alt split: if_splits)
  then have "unat new + unat w \<le> unat (ac_lamports (st2 k)) \<and> total_lamports st2 = total_lamports st \<and>
    (\<forall>a. ac_data (st2 a) = ac_data (st a) \<and> ac_owner (st2 a) = ac_owner (st a) \<and>
       (a \<noteq> k \<and> a \<noteq> ai_key payer \<longrightarrow> st2 a = st a))"
  proof (elim disjE exE conjE)
    fix e' assume m: "move_lamports (ai_key payer) k (saturating_sub new cur) e' st = Inr st2"
      and d: "unat (saturating_sub new cur) = unat new - unat cur"
    from m assms(5) have "unat (ac_lamports (st2 k)) = unat (ac_lamports (st k)) + unat (saturating_sub new cur)"
      by (auto simp: move_lamports_def Let_def result_simps dest!: checked_add_SomeD)
    with d cur have "unat new + unat w \<le> unat (ac_lamports (st2 k))" by simp
    with move_lamports_frame [OF m] move_lamports_total [OF m] show ?thesis by simp
  qed (use cur in simp)
  then show "unat new + unat w \<le> unat (ac_lamports (st2 k))" "total_lamports st2 = total_lamports st"
    "\<And>a. ac_data (st2 a) = ac_data (st a)" "\<And>a. ac_owner (st2 a) = ac_owner (st a)"
    "\<And>a. a \<noteq> k \<Longrightarrow> a \<noteq> ai_key payer \<Longrightarrow> st2 a = st a"
    by blast+
qed

lemma state_unpack_mut_set_native:
  assumes "state_unpack_mut u d = Inr (b, base_data, padding, account_type, tlv)" and "unpack account_base d = Inr s"
    and "pack_law u"
  shows "account_pack_into_slice (b\<lparr>acc_is_native := Some r\<rparr>) base_data @ padding @ account_type @ tlv =
    state_bytes account_base (s\<lparr>ps_base := (ps_base s)\<lparr>a_is_native := coption_some r\<rparr>\<rparr>)"
proof -
  from assms(1,3) have b: "account_unpack_from_slice (take ACCOUNT_LEN d) = Inr b" "base_data = take ACCOUNT_LEN d"
    "length (take ACCOUNT_LEN d) = ACCOUNT_LEN"
    and t: "unpack_type_and_tlv_data account_base (drop ACCOUNT_LEN d) = Inr (padding, account_type, tlv)"
    by (auto simp: state_unpack_mut_def result_simps pack_law_def)
  from assms(2) t have "ps_base s = pod_account_of_bytes (take ACCOUNT_LEN d)" "ps_padding s = padding"
    "ps_account_type s = account_type" "ps_tlv s = tlv"
    by (auto simp: unpack_def Let_def result_simps split: if_splits)
  with pack_set_native [OF b(1,3)] b(2) show ?thesis by (simp add: state_bytes_def)
qed

text \<open>
  C31. Reallocate needs the owner's authority and only adds space for account extensions. When the
  account is too small it ends up with exactly the computed length, every extension it had keeps its
  value, the base state is the same apart from the recorded rent reserve of a wrapped account, its
  lamports cover the new reserve on top of its wrapped tokens, and no other data changes.
\<close>

theorem reallocate_correct:
  assumes run: "process_reallocate u P pid (tok # payer # sys # auth # signers) new st = Inr st'"
    and laws: "pack_law u" "resize_laws P" "system_transfer_law P" and payer: "ai_key payer \<noteq> ai_key tok"
  shows "\<exists>s ts len. unpack account_base (info_data st tok) = Inr s \<and>
     authorizes P pid (a_owner (ps_base s)) auth signers st \<and> (\<forall>t \<in> set new. get_account_type t = AtAccount) \<and>
     get_extension_types s = Inr ts \<and> try_calculate_account_len P ACCOUNT_LEN (ts @ new) = Inr len \<and>
     (if len \<le> length (info_data st tok) then st' = st
      else length (info_data st' tok) = len \<and>
        (\<exists>s' rent. unpack account_base (info_data st' tok) = Inr s' \<and> pl_rent_get P = Inr rent \<and>
           ps_base s' = (if is_native (ps_base s)
             then (ps_base s)\<lparr>a_is_native := coption_some (rent_minimum_balance rent len)\<rparr> else ps_base s) \<and>
           (\<forall>(V :: 'v extension) v. vx_type V \<noteq> ExtUninitialized \<and> get_extension AtAccount V (ps_tlv s) = Inr v \<longrightarrow>
              get_extension AtAccount V (ps_tlv s') = Inr v) \<and>
           withheld (ps_tlv s') = withheld (ps_tlv s) \<and>
           unat (rent_minimum_balance rent len) + (if is_native (ps_base s) then unat (a_amount (ps_base s)) else 0) \<le>
             unat (info_lamports st' tok)) \<and>
        total_lamports st' = total_lamports st \<and>
        (\<forall>a. a \<noteq> ai_key tok \<longrightarrow> ac_data (st' a) = ac_data (st a)) \<and> (\<forall>a. ac_owner (st' a) = ac_owner (st a)))"
proof -
  let ?k = "ai_key tok" and ?d = "info_data st tok"
  from run obtain base tlv info len where
    b: "state_unpack u ?d = Inr (base, tlv)" "validate_owner P pid (acc_owner base) auth (length (info_data st auth)) signers st = Inr ()"
    and info: "get_tlv_data_info tlv = Inr info" and new: "\<forall>t \<in> set new. get_account_type t = AtAccount"
    and len: "try_calculate_account_len P ACCOUNT_LEN (tdi_extension_types info @ new) = Inr len"
    and rest: "len \<le> length ?d \<longrightarrow> st' = st"
    by (auto simp: process_reallocate_def Let_def result_simps split: if_splits)
  from state_unpack_Inr [OF b(1) laws(1)] obtain s where s: "unpack account_base ?d = Inr s"
    "account_view base (ps_base s)" "ps_tlv s = tlv" .
  have own: "acc_owner base = a_owner (ps_base s)" "acc_amount base = a_amount (ps_base s)"
    using s(2) by (simp_all add: account_view_def)
  have auth: "authorizes P pid (a_owner (ps_base s)) auth signers st"
    using b(2) own validate_owner_authorizes [of P pid "a_owner (ps_base s)" auth st signers] by simp
  have ts: "get_extension_types s = Inr (tdi_extension_types info)"
    using info s(3) by (simp add: get_extension_types_def)
  show ?thesis
  proof (cases "len \<le> length ?d")
    case True
    with rest s(1) auth new ts len show ?thesis by auto
  next
    case False
    let ?w = "case (if acc_is_native base = None then None else Some (acc_amount base)) of Some n \<Rightarrow> n | None \<Rightarrow> 0"
    from run False b info new len obtain data1 rent cur st2 data2 where
      r: "pl_resize P ?d len = Inr data1" "pl_rent_get P = Inr rent"
      and cur: "ok_or (checked_sub (ac_lamports (set_data ?k data1 st ?k)) ?w) (Custom Overflow) = Inr cur"
      and st2: "(if saturating_sub (rent_minimum_balance rent len) cur > 0
          then pl_system_transfer P payer tok (saturating_sub (rent_minimum_balance rent len) cur) (set_data ?k data1 st)
          else Inr (set_data ?k data1 st)) = Inr st2"
      and d2: "set_account_type account_base (ac_data (st2 ?k)) = Inr data2"
      and fin: "(case (if acc_is_native base = None then None else Some (acc_amount base)) of
         None \<Rightarrow> Inr (set_data ?k data2 st2)
       | Some native_token_amount \<Rightarrow>
           bindr (state_unpack_mut u data2) (\<lambda>(base, base_data, padding, account_type, tlv_data).
           bindr (ok_or (checked_add (rent_minimum_balance rent len) native_token_amount) (Custom Overflow)) (\<lambda>minimum_lamports.
           bindr (ensure (\<not> ac_lamports (st2 ?k) < minimum_lamports) (Custom InvalidState)) (\<lambda>_.
           Inr (set_data ?k
                  (account_pack_into_slice (base\<lparr>acc_is_native := Some (rent_minimum_balance rent len)\<rparr>) base_data @
                   padding @ account_type @ tlv_data) st2))))) = Inr st'"
      by (auto simp: process_reallocate_def Let_def result_simps(1) result_simps)
    have grow: "data1 = ?d @ replicate (len - length ?d) 0"
      using laws(2) [unfolded resize_laws_def, rule_format, OF r(1)] False by simp
    note top = top_up_reserve [OF cur st2 laws(3) refl payer]
    have w: "unat ?w = (if is_native (ps_base s) then unat (a_amount (ps_base s)) else 0)"
      using native_view [OF s(2)] own(2) by simp
    from d2 have "set_account_type account_base (?d @ replicate (len - length ?d) 0) = Inr data2"
      by (simp add: top(3) grow)
    moreover have "length ?d < len" using False by simp
    ultimately obtain z s2 where
      s2: "s2 = s\<lparr>ps_account_type := [2], ps_tlv := ps_tlv s @ replicate z 0\<rparr>"
        "unpack account_base data2 = Inr s2" "length data2 = len"
      using grow_account [OF s(1)] by metis
    let ?s' = "if is_native (ps_base s)
      then s2\<lparr>ps_base := (ps_base s2)\<lparr>a_is_native := coption_some (rent_minimum_balance rent len)\<rparr>\<rparr> else s2"
    have st': "st' = set_data ?k (state_bytes account_base ?s') st2"
      using fin native_view [OF s(2)] account_st.unpack_bytes [OF s2(2)]
        state_unpack_mut_set_native [OF _ s2(2) laws(1)]
      by (auto simp: result_simps split: if_splits)
    have get: "get_extension AtAccount V (ps_tlv ?s') = Inr v"
      if "vx_type V \<noteq> ExtUninitialized" "get_extension AtAccount V (ps_tlv s) = Inr v" for V :: "'v extension" and v
      using get_extension_append_zeros [of "ps_tlv s" info V AtAccount v z] that info s(3) by (simp add: s2(1))
    have u: "unpack account_base (info_data st' tok) = Inr ?s'"
      using s2(2) unpack_account_initialized [OF s(1)]
      by (simp add: st' info_data_def account_st.unpack_update_base account_st.unpack_bytes s2(1)
          pod_account_is_initialized_def)
    have l: "length (info_data st' tok) = len"
      using s2(3) account_st.unpack_bytes [OF s2(2)]
      by (auto simp: st' info_data_def account_st.length_state_bytes)
    have reserve: "unat (rent_minimum_balance rent len) + (if is_native (ps_base s) then unat (a_amount (ps_base s)) else 0)
        \<le> unat (info_lamports st' tok)"
      using top(1) by (simp add: w st' info_lamports_def)
    have frame: "total_lamports st' = total_lamports st"
      "\<forall>a. a \<noteq> ?k \<longrightarrow> ac_data (st' a) = ac_data (st a)" "\<forall>a. ac_owner (st' a) = ac_owner (st a)"
      using top by (simp_all add: st')
    have base: "ps_base ?s' = (if is_native (ps_base s)
        then (ps_base s)\<lparr>a_is_native := coption_some (rent_minimum_balance rent len)\<rparr> else ps_base s)"
      and held: "withheld (ps_tlv ?s') = withheld (ps_tlv s)"
      using info s(3) by (simp_all add: s2(1) withheld_append_zeros)
    from s(1) auth new ts len False l u base get held reserve frame r(2) show ?thesis
      by (intro exI [of _ s] exI [of _ "tdi_extension_types info"] exI [of _ len]) auto
  qed
qed

section \<open>Concrete instances\<close>

definition memo_platform :: platform where
  "memo_platform = sample_platform\<lparr>pl_sibling_program := Some 901\<rparr>"

definition memo_account :: "pod_account pod_state" where
  "memo_account = single account_base (sample_account 4 31 7 Initialized) memo_transfer_ext
     \<lparr>mt_require_incoming_transfer_memos = 1\<rparr>"

definition sample_memo_store :: store where
  "sample_memo_store = sample_store
     [(5, token_acct 200 (pod_account_to_bytes (sample_account 4 30 50 Initialized))),
      (6, token_acct 200 (state_bytes account_base memo_account))]"

lemma memo_account_unpack [simp]:
  "unpack account_base (state_bytes account_base memo_account) = Inr memo_account"
  unfolding memo_account_def by (rule unpack_single_account) (simp_all add: memo_transfer_ext_def)

lemma memo_account_memo [simp]:
  "get_extension AtAccount memo_transfer_ext (ps_tlv memo_account) = Inr \<lparr>mt_require_incoming_transfer_memos = 1\<rparr>"
  unfolding memo_account_def single_simps
  by (rule memo_transfer_x.get_entry) (simp_all add: memo_transfer_ext_def get_account_type_def)

lemma memo_required_enforced_witness:
  "\<exists>st'. process_transfer memo_platform TOKEN_2022_ID [plain_info 5, plain_info 6, signer_info 30] 20 TransferUnchecked
      sample_memo_store = Inr st' \<and>
    (\<exists>k. pl_sibling_program memo_platform = Some k \<and>
       k \<in> {pl_memo_v1_id memo_platform, pl_memo_v3_id memo_platform, pl_memo_v4_id memo_platform})"
  (is "\<exists>st'. ?run = Inr st' \<and> _")
proof -
  have auth: "debit_authority memo_platform TOKEN_2022_ID (signer_info 30) [] None 20 False
      (sample_account 4 30 50 Initialized) sample_memo_store = Inr (sample_account 4 30 50 Initialized)"
    by (simp add: debit_authority_Inr debit_allowed_def debited_def is_delegate_def authorizes_def
        is_multisig_account_def empty_acct_def MULTISIG_LEN_def sample_memo_store_def)
  have memo: "memo_required memo_platform (ps_tlv memo_account)"
    "check_previous_sibling_instruction_is_memo memo_platform = Inr ()"
    by (simp_all add: memo_required_def check_previous_sibling_instruction_is_memo_def memo_platform_def
        sample_platform_def ensure_def)
  have base: "ps_base memo_account = sample_account 4 31 7 Initialized"
    by (simp add: memo_account_def)
  have other: "get_extension AtAccount V (ps_tlv memo_account) = Inl InvalidAccountData"
    if "vx_type V \<noteq> MemoTransfer" for V :: "'v extension"
    unfolding memo_account_def single_simps using that by (intro no_get_other) (simp_all add: memo_transfer_ext_def)
  have fee: "get_extension AtAccount transfer_fee_amount_ext (ps_tlv memo_account) = Inl InvalidAccountData"
    "get_extension AtAccount confidential_transfer_account_ext (ps_tlv memo_account) = Inl InvalidAccountData"
    by (rule other; simp add: transfer_fee_amount_ext_def confidential_transfer_account_ext_def)+
  have run: "\<exists>st'. ?run = Inr st'"
    using auth memo fee
    by (auto simp: process_transfer_def transfer_accounts_def transfer_terms_def transfer_to_other_def move_tokens_def
        commit_transfer_def check_cpi_guard_transfer_def info_owner_def info_data_def ensure_def base
        sample_memo_store_def Let_def checked_sub_def checked_add_def)
  then obtain st' where st': "?run = Inr st'" ..
  from memo_required_enforced [OF st', of "plain_info 5" None "plain_info 6" "signer_info 30" "[]" memo_account] st' memo(1)
  show ?thesis
    by (auto simp: transfer_accounts_def info_data_def sample_memo_store_def)
qed

definition sample_unpack :: "bytes \<Rightarrow> account result" where
  "sample_unpack d =
     (if length d = ACCOUNT_LEN
      then bindr (account_unpack_from_slice d) (\<lambda>a. if account_is_initialized a then Inr a else Inl UninitializedAccount)
      else Inl InvalidAccountData)"

definition transfer_platform :: platform where
  "transfer_platform = sample_platform\<lparr>pl_system_transfer :=
     (\<lambda>src dst n. move_lamports (ai_key src) (ai_key dst) n (Custom InsufficientFunds))\<rparr>"

definition sample_reallocate_store :: store where
  "sample_reallocate_store = sample_store
     [(5, token_acct 165 (pod_account_to_bytes (sample_account 4 30 50 Initialized))),
      (7, \<lparr>ac_owner = 0, ac_lamports = 100, ac_data = []\<rparr>)]"

lemma sample_pack_law: "pack_law sample_unpack"
  by (auto simp: pack_law_def sample_unpack_def result_simps split: if_splits)

lemma transfer_platform_laws: "resize_laws transfer_platform" "system_transfer_law transfer_platform"
  by (auto simp: resize_laws_def system_transfer_law_def transfer_platform_def sample_platform_def)

lemma sample_unpack_plain:
  "\<exists>a. sample_unpack (pod_account_to_bytes (sample_account 4 30 50 Initialized)) = Inr a \<and>
     acc_owner a = 30 \<and> acc_is_native a = None"
proof -
  let ?a = "\<lparr>acc_mint = 4, acc_owner = 30, acc_amount = 50, acc_delegate = None, acc_state = Initialized,
    acc_is_native = None, acc_delegated_amount = 0, acc_close_authority = None\<rparr>"
  have "replicate 4 (0 :: u8) = [0, 0, 0, 0]" by (simp add: numeral_eq_Suc)
  then have "pod_account_to_bytes (sample_account 4 30 50 Initialized) = account_pack_into_slice ?a (replicate 165 0)"
    by (simp add: pod_account_to_bytes_def account_pack_into_slice_def sample_account_def coption_to_bytes_def
        pack_coption_key_def pack_coption_u64_def seg_def le_bytes_zero)
  moreover have "account_unpack_from_slice (account_pack_into_slice ?a (replicate 165 0)) = Inr ?a"
    by (rule account_unpack_pack) (simp add: ACCOUNT_LEN_def)
  moreover have "length (pod_account_to_bytes (sample_account 4 30 50 Initialized)) = 165" by simp
  ultimately show ?thesis
    by (simp add: sample_unpack_def ACCOUNT_LEN_def account_is_initialized_def)
qed

lemma sample_grown_type:
  assumes "length d = 165" and "d ! 108 \<noteq> 0"
  shows "set_account_type account_base (d @ replicate 6 0) = Inr (d @ 2 # replicate 5 0)"
proof -
  have six: "replicate 6 (0 :: u8) = 0 # replicate 5 0" by (simp add: numeral_eq_Suc)
  show ?thesis
    using assms
    by (simp add: set_account_type_def check_min_len_and_not_multisig_def ACCOUNT_LEN_def MULTISIG_LEN_def
        is_initialized_account_def BASE_ACCOUNT_LENGTH_def type_and_tlv_indices_def six account_type_try_from_def
        account_type_u8_def ensure_def)
qed

lemma sample_state_byte: "pod_account_to_bytes (sample_account m ow n Initialized) ! 108 = 1"
  by (simp add: pod_account_to_bytes_def nth_append sample_account_def le_bytes_def)

lemma reallocate_correct_witness:
  "\<exists>st'. process_reallocate sample_unpack transfer_platform TOKEN_2022_ID
       [plain_info 5, plain_info 7, plain_info 0, signer_info 30] [MemoTransfer] sample_reallocate_store = Inr st' \<and>
     length (info_data st' (plain_info 5)) = 171 \<and> 171 \<le> unat (info_lamports st' (plain_info 5))"
  (is "\<exists>st'. ?run = Inr st' \<and> _")
proof -
  let ?d = "pod_account_to_bytes (sample_account 4 30 50 Initialized)"
  obtain a where a: "sample_unpack ?d = Inr a" "acc_owner a = 30" "acc_is_native a = None"
    using sample_unpack_plain by blast
  have v: "validate_owner transfer_platform TOKEN_2022_ID 30 (signer_info 30) 0 [] sample_reallocate_store = Inr ()"
    using validate_owner_authorizes [of transfer_platform TOKEN_2022_ID 30 "signer_info 30" sample_reallocate_store "[]"]
    by (simp add: sample_signer_authorizes info_data_def empty_acct_def sample_reallocate_store_def)
  have store: "info_data sample_reallocate_store (plain_info 5) = ?d" "info_data sample_reallocate_store (signer_info 30) = []"
    "info_owner sample_reallocate_store (plain_info 5) = TOKEN_2022_ID"
    "ac_lamports (sample_reallocate_store 5) = 165" "ac_lamports (sample_reallocate_store 7) = 100"
    by (simp_all add: sample_reallocate_store_def info_data_def info_owner_def empty_acct_def)
  have u: "state_unpack sample_unpack ?d = Inr (a, [])"
    using a by (simp add: state_unpack_def check_min_len_and_not_multisig_def ACCOUNT_LEN_def MULTISIG_LEN_def
        unpack_tlv_data_def type_and_tlv_indices_def)
  have len: "try_calculate_account_len transfer_platform ACCOUNT_LEN [MemoTransfer] = Inr 171"
    by (simp add: try_calculate_account_len_def accumulator_insert_def accumulator_default_def accumulator_bit_def
        try_get_tlv_len_def try_get_type_len_def sized_def add_type_and_length_to_len_def accumulator_account_len_def
        adjust_len_for_multisig_def BASE_ACCOUNT_AND_TYPE_LENGTH_def BASE_ACCOUNT_LENGTH_def ACCOUNT_LEN_def MULTISIG_LEN_def)
  have info: "get_tlv_data_info [] = Inr \<lparr>tdi_extension_types = [], tdi_used_len = 0\<rparr>"
    by (simp add: get_tlv_data_info_def)
  have p: "pl_resize transfer_platform ?d 171 = Inr (?d @ replicate 6 0)"
    "pl_rent_get transfer_platform = Inr \<lparr>rent_minimum_balance = of_nat, rent_is_exempt = \<lambda>l n. n \<le> unat l\<rparr>"
    "pl_system_transfer transfer_platform = (\<lambda>src dst n. move_lamports (ai_key src) (ai_key dst) n (Custom InsufficientFunds))"
    by (simp_all add: transfer_platform_def sample_platform_def)
  have "\<exists>st'. ?run = Inr st'"
    using a v
    by (simp add: process_reallocate_def store u len info p get_account_type_def ensure_def Let_def checked_sub_def
        saturating_sub_def move_lamports_def checked_add_def sample_grown_type sample_state_byte)
  then obtain st' where st': "?run = Inr st'" ..
  from reallocate_correct [OF this sample_pack_law transfer_platform_laws] st' len info store u show ?thesis
    by (auto simp: get_extension_types_def p)
qed

end
