(* ===== verification/Fee_Processor.thy ===== *)
theory Fee_Processor
  imports Supply Single_Ext
begin

text \<open>
  The transfer-fee instructions (program/src/extension/transfer_fee/processor.rs): configuring and
  changing a fee, and collecting what transfers withheld, from token accounts to the mint and from
  both to a destination account. The theorems state that a new fee waits two epochs, and that every
  collection moves exactly the withheld amounts, each account counted once however often it is listed.
\<close>

section \<open>Model\<close>

definition process_initialize_transfer_fee_config ::
    "platform \<Rightarrow> account_info list \<Rightarrow> address option \<Rightarrow> address option \<Rightarrow> u16 \<Rightarrow> u64 \<Rightarrow> store \<Rightarrow> store result" where
  "process_initialize_transfer_fee_config P accounts transfer_fee_config_authority withdraw_withheld_authority
       transfer_fee_basis_points maximum_fee st =
     bindr (next_account_info accounts) (\<lambda>(mint_account_info, _).
     bindr (check_program_account (info_owner st mint_account_info)) (\<lambda>_.
     init_mint_extension P mint_account_info transfer_fee_config_ext (\<lambda>extension.
       bindr (ok_or (pl_maybe_null_try_from P transfer_fee_config_authority) InvalidArgument) (\<lambda>config_authority.
       bindr (ok_or (pl_maybe_null_try_from P withdraw_withheld_authority) InvalidArgument) (\<lambda>withdraw_authority.
       bindr (ensure (\<not> transfer_fee_basis_points > MAX_FEE_BASIS_POINTS) (Custom TransferFeeExceedsMaximum)) (\<lambda>_.
       bindr (pl_clock_get P) (\<lambda>clock.
       let transfer_fee = \<lparr>tf_epoch = clock_epoch clock, tf_maximum_fee = maximum_fee,
                           tf_transfer_fee_basis_points = transfer_fee_basis_points\<rparr> in
       Inr (extension\<lparr>tfc_transfer_fee_config_authority := config_authority,
              tfc_withdraw_withheld_authority := withdraw_authority, tfc_withheld_amount := 0,
              tfc_older_transfer_fee := transfer_fee, tfc_newer_transfer_fee := transfer_fee\<rparr>)))))) st))"

definition process_set_transfer_fee ::
    "platform \<Rightarrow> address \<Rightarrow> account_info list \<Rightarrow> u16 \<Rightarrow> u64 \<Rightarrow> store \<Rightarrow> store result" where
  "process_set_transfer_fee P program_id accounts transfer_fee_basis_points maximum_fee st =
     bindr (next_account_info accounts) (\<lambda>(mint_account_info, it).
     bindr (next_account_info it) (\<lambda>(authority_info, signers).
     bindr (check_program_account (info_owner st mint_account_info)) (\<lambda>_.
     initialized_view (mint_base P) (ai_key mint_account_info) (on_tlv (\<lambda>tlv.
       bindr (get_extension AtMint transfer_fee_config_ext tlv) (\<lambda>extension.
       bindr (ok_or (pl_option_from_maybe_null P (tfc_transfer_fee_config_authority extension))
                (Custom NoAuthorityExists)) (\<lambda>authority.
       bindr (validate_owner P program_id authority authority_info (length (info_data st authority_info)) signers st) (\<lambda>_.
       bindr (ensure (\<not> transfer_fee_basis_points > MAX_FEE_BASIS_POINTS) (Custom TransferFeeExceedsMaximum)) (\<lambda>_.
       bindr (pl_clock_get P) (\<lambda>clock.
       let epoch = clock_epoch clock;
           extension = (if tf_epoch (tfc_newer_transfer_fee extension) \<le> epoch
                        then extension\<lparr>tfc_older_transfer_fee := tfc_newer_transfer_fee extension\<rparr> else extension);
           newer_fee_start_epoch = saturating_add epoch 2;
           transfer_fee = \<lparr>tf_epoch = newer_fee_start_epoch, tf_maximum_fee = maximum_fee,
                           tf_transfer_fee_basis_points = transfer_fee_basis_points\<rparr> in
       put_extension AtMint transfer_fee_config_ext (extension\<lparr>tfc_newer_transfer_fee := transfer_fee\<rparr>) tlv))))))) st)))"

text \<open>
  The checks both withdrawals share: the authority of the mint's configuration, and a destination of
  that mint that is not frozen. Borrowing the destination panics when it is the mint itself, which
  is already borrowed.
\<close>

definition withdraw_destination ::
    "platform \<Rightarrow> address \<Rightarrow> account_info \<Rightarrow> account_info \<Rightarrow> account_info \<Rightarrow> account_info list \<Rightarrow>
     transfer_fee_config \<Rightarrow> store \<Rightarrow> pod_account pod_state result" where
  "withdraw_destination P program_id mint_account_info destination_account_info authority_info signers extension st =
     bindr (ok_or (pl_option_from_maybe_null P (tfc_withdraw_withheld_authority extension))
              (Custom NoAuthorityExists)) (\<lambda>authority.
     bindr (validate_owner P program_id authority authority_info (length (info_data st authority_info)) signers st) (\<lambda>_.
     bindr (ensure (ai_key destination_account_info \<noteq> ai_key mint_account_info) Panic) (\<lambda>_.
     bindr (unpack account_base (info_data st destination_account_info)) (\<lambda>destination_account.
     bindr (ensure (a_mint (ps_base destination_account) = ai_key mint_account_info) (Custom MintMismatch)) (\<lambda>_.
     bindr (ensure (\<not> is_frozen (ps_base destination_account)) (Custom AccountFrozen)) (\<lambda>_.
     Inr destination_account))))))"

definition process_withdraw_withheld_tokens_from_mint ::
    "platform \<Rightarrow> address \<Rightarrow> account_info list \<Rightarrow> store \<Rightarrow> store result" where
  "process_withdraw_withheld_tokens_from_mint P program_id accounts st =
     bindr (next_account_info accounts) (\<lambda>(mint_account_info, it).
     bindr (next_account_info it) (\<lambda>(destination_account_info, it).
     bindr (next_account_info it) (\<lambda>(authority_info, signers).
     bindr (check_program_account (info_owner st mint_account_info)) (\<lambda>_.
     bindr (check_program_account (info_owner st destination_account_info)) (\<lambda>_.
     bindr (unpack (mint_base P) (info_data st mint_account_info)) (\<lambda>mint.
     bindr (get_extension AtMint transfer_fee_config_ext (ps_tlv mint)) (\<lambda>extension.
     bindr (withdraw_destination P program_id mint_account_info destination_account_info authority_info signers
              extension st) (\<lambda>destination_account.
     let withheld_amount = tfc_withheld_amount extension in
     bindr (put_extension AtMint transfer_fee_config_ext (extension\<lparr>tfc_withheld_amount := 0\<rparr>) (ps_tlv mint)) (\<lambda>tlv.
     bindr (ok_or (checked_add (a_amount (ps_base destination_account)) withheld_amount) (Custom Overflow)) (\<lambda>amount.
     Inr (set_data (ai_key destination_account_info)
            (state_bytes account_base (destination_account\<lparr>ps_base :=
               (ps_base destination_account)\<lparr>a_amount := amount\<rparr>\<rparr>))
            (set_data (ai_key mint_account_info) (state_bytes (mint_base P) (mint\<lparr>ps_tlv := tlv\<rparr>)) st))))))))))))"

definition harvest_from_account :: "address \<Rightarrow> account_info \<Rightarrow> store \<Rightarrow> (u64 \<times> store) result" where
  "harvest_from_account mint_key token_account_info st =
     bindr (map_err (unpack account_base (info_data st token_account_info)) (Custom InvalidState)) (\<lambda>token_account.
     bindr (ensure (a_mint (ps_base token_account) = mint_key) (Custom MintMismatch)) (\<lambda>_.
     bindr (map_err (check_program_account (info_owner st token_account_info)) (Custom InvalidState)) (\<lambda>_.
     bindr (map_err (get_extension AtAccount transfer_fee_amount_ext (ps_tlv token_account)) (Custom InvalidState)) (\<lambda>extension.
     let account_withheld_amount = tfa_withheld_amount extension in
     bindr (put_extension AtAccount transfer_fee_amount_ext (extension\<lparr>tfa_withheld_amount := 0\<rparr>) (ps_tlv token_account)) (\<lambda>tlv.
     Inr (account_withheld_amount,
          set_data (ai_key token_account_info) (state_bytes account_base (token_account\<lparr>ps_tlv := tlv\<rparr>)) st))))))"

text \<open>
  One turn of the loop over the accounts to harvest: a failure is logged and skipped. The mint stays
  borrowed during the loop, so listing it among the accounts panics.
\<close>

definition harvest_step ::
    "address \<Rightarrow> account_info \<Rightarrow> u64 \<times> store \<Rightarrow> (u64 \<times> store) result" where
  "harvest_step mint_key token_account_info = (\<lambda>(total, st).
     bindr (ensure (ai_key token_account_info \<noteq> mint_key) Panic) (\<lambda>_.
     case harvest_from_account mint_key token_account_info st of
       Inr (amount, st') \<Rightarrow> bindr (ok_or (checked_add total amount) (Custom Overflow)) (\<lambda>total'. Inr (total', st'))
     | Inl _ \<Rightarrow> Inr (total, st)))"

definition process_harvest_withheld_tokens_to_mint ::
    "platform \<Rightarrow> account_info list \<Rightarrow> store \<Rightarrow> store result" where
  "process_harvest_withheld_tokens_to_mint P accounts st =
     bindr (next_account_info accounts) (\<lambda>(mint_account_info, token_account_infos).
     bindr (check_program_account (info_owner st mint_account_info)) (\<lambda>_.
     bindr (unpack (mint_base P) (info_data st mint_account_info)) (\<lambda>mint.
     bindr (get_extension AtMint transfer_fee_config_ext (ps_tlv mint)) (\<lambda>mint_extension.
     bindr (try_for_each (harvest_step (ai_key mint_account_info)) token_account_infos
              (tfc_withheld_amount mint_extension, st)) (\<lambda>(withheld_amount, st').
     bindr (put_extension AtMint transfer_fee_config_ext (mint_extension\<lparr>tfc_withheld_amount := withheld_amount\<rparr>)
              (ps_tlv mint)) (\<lambda>tlv.
     Inr (set_data (ai_key mint_account_info) (state_bytes (mint_base P) (mint\<lparr>ps_tlv := tlv\<rparr>)) st')))))))"

text \<open>The same loop for a destination account, whose own withheld amount is collected in place.\<close>

definition withdraw_step ::
    "address \<Rightarrow> address \<Rightarrow> account_info \<Rightarrow> pod_account pod_state \<times> store \<Rightarrow> (pod_account pod_state \<times> store) result" where
  "withdraw_step mint_key destination_key account_info = (\<lambda>(destination_account, st).
     if ai_key account_info = destination_key then
       bindr (map_err (get_extension AtAccount transfer_fee_amount_ext (ps_tlv destination_account))
                (Custom InvalidState)) (\<lambda>extension.
       let account_withheld_amount = tfa_withheld_amount extension in
       bindr (put_extension AtAccount transfer_fee_amount_ext (extension\<lparr>tfa_withheld_amount := 0\<rparr>)
                (ps_tlv destination_account)) (\<lambda>tlv.
       bindr (ok_or (checked_add (a_amount (ps_base destination_account)) account_withheld_amount) (Custom Overflow)) (\<lambda>amount.
       Inr (destination_account\<lparr>ps_base := (ps_base destination_account)\<lparr>a_amount := amount\<rparr>, ps_tlv := tlv\<rparr>, st))))
     else
       bindr (ensure (ai_key account_info \<noteq> mint_key) Panic) (\<lambda>_.
       case harvest_from_account mint_key account_info st of
         Inr (amount, st') \<Rightarrow>
           bindr (ok_or (checked_add (a_amount (ps_base destination_account)) amount) (Custom Overflow)) (\<lambda>total.
           Inr (destination_account\<lparr>ps_base := (ps_base destination_account)\<lparr>a_amount := total\<rparr>\<rparr>, st'))
       | Inl _ \<Rightarrow> Inr (destination_account, st)))"

definition process_withdraw_withheld_tokens_from_accounts ::
    "platform \<Rightarrow> address \<Rightarrow> account_info list \<Rightarrow> u8 \<Rightarrow> store \<Rightarrow> store result" where
  "process_withdraw_withheld_tokens_from_accounts P program_id accounts num_token_accounts st =
     bindr (next_account_info accounts) (\<lambda>(mint_account_info, it).
     bindr (next_account_info it) (\<lambda>(destination_account_info, it).
     bindr (next_account_info it) (\<lambda>(authority_info, account_infos).
     let num_signers = length account_infos - unat num_token_accounts in
     bindr (check_program_account (info_owner st mint_account_info)) (\<lambda>_.
     bindr (check_program_account (info_owner st destination_account_info)) (\<lambda>_.
     bindr (unpack_ref (mint_base P) (info_data st mint_account_info)) (\<lambda>(_, mint_tlv).
     bindr (get_extension AtMint transfer_fee_config_ext mint_tlv) (\<lambda>extension.
     bindr (withdraw_destination P program_id mint_account_info destination_account_info authority_info
              (take num_signers account_infos) extension st) (\<lambda>destination_account.
     bindr (try_for_each (withdraw_step (ai_key mint_account_info) (ai_key destination_account_info))
              (drop num_signers account_infos) (destination_account, st)) (\<lambda>(destination_account, st').
     Inr (set_data (ai_key destination_account_info) (state_bytes account_base destination_account) st'))))))))))"

section \<open>Changing the fee\<close>

text \<open>The fee schedule after \<open>SetTransferFee\<close> in epoch \<open>now\<close>.\<close>

definition rescheduled :: "u64 \<Rightarrow> transfer_fee \<Rightarrow> transfer_fee_config \<Rightarrow> transfer_fee_config" where
  "rescheduled now fee c =
     c\<lparr>tfc_older_transfer_fee := get_epoch_fee c now, tfc_newer_transfer_fee := fee\<rparr>"

text \<open>
  C23. \<open>SetTransferFee\<close> succeeds only under the fee authority of the mint and for a rate of at most
  100 percent. The fee in force stays in force in every epoch before the second next one, and the new
  fee applies from then on; no other field of the mint, no other extension and no other account changes.
\<close>

theorem set_transfer_fee_waits:
  assumes "process_set_transfer_fee P program_id (mint_info # auth # signers) rate maximum st = Inr st'"
    and "pl_clock_get P = Inr clock"
  shows "\<exists>m c c' tlv.
     unpack (mint_base P) (info_data st mint_info) = Inr m \<and> get_extension AtMint transfer_fee_config_ext (ps_tlv m) = Inr c \<and>
     (\<exists>k. pl_option_from_maybe_null P (tfc_transfer_fee_config_authority c) = Some k \<and>
          authorizes P program_id k auth signers st) \<and> unat rate \<le> 10000 \<and>
     unpack (mint_base P) (info_data st' mint_info) = Inr (m\<lparr>ps_tlv := tlv\<rparr>) \<and>
     get_extension AtMint transfer_fee_config_ext tlv = Inr c' \<and> same_except {TransferFeeConfig} (ps_tlv m) tlv \<and>
     tfc_withheld_amount c' = tfc_withheld_amount c \<and>
     (\<forall>e. clock_epoch clock \<le> e \<and> e < saturating_add (clock_epoch clock) 2 \<longrightarrow>
        get_epoch_fee c' e = get_epoch_fee c (clock_epoch clock)) \<and>
     (\<forall>e. saturating_add (clock_epoch clock) 2 \<le> e \<longrightarrow>
        tf_transfer_fee_basis_points (get_epoch_fee c' e) = rate \<and> tf_maximum_fee (get_epoch_fee c' e) = maximum) \<and>
     (\<forall>a. a \<noteq> ai_key mint_info \<longrightarrow> st' a = st a)"
proof -
  obtain m c k tlv where m: "unpack (mint_base P) (info_data st mint_info) = Inr m"
    "get_extension AtMint transfer_fee_config_ext (ps_tlv m) = Inr c"
    "pl_option_from_maybe_null P (tfc_transfer_fee_config_authority c) = Some k"
    "authorizes P program_id k auth signers st" "\<not> rate > MAX_FEE_BASIS_POINTS"
    and tlv: "put_extension AtMint transfer_fee_config_ext
      ((if tf_epoch (tfc_newer_transfer_fee c) \<le> clock_epoch clock
        then c\<lparr>tfc_older_transfer_fee := tfc_newer_transfer_fee c\<rparr> else c)
        \<lparr>tfc_newer_transfer_fee := \<lparr>tf_epoch = saturating_add (clock_epoch clock) 2, tf_maximum_fee = maximum,
                           tf_transfer_fee_basis_points = rate\<rparr>\<rparr>) (ps_tlv m) = Inr tlv"
    and st': "st' = set_data (ai_key mint_info) (state_bytes (mint_base P) (m\<lparr>ps_tlv := tlv\<rparr>)) st"
    using assms(1)
    by (auto simp: process_set_transfer_fee_def result_simps assms(2) Let_def validate_owner_authorizes info_data_def [symmetric])
  define c' where "c' = rescheduled (clock_epoch clock) \<lparr>tf_epoch = saturating_add (clock_epoch clock) 2,
      tf_maximum_fee = maximum, tf_transfer_fee_basis_points = rate\<rparr> c"
  have put: "put_extension AtMint transfer_fee_config_ext c' (ps_tlv m) = Inr tlv"
    using tlv by (simp add: c'_def rescheduled_def get_epoch_fee_def split: if_splits)
  have t: "get_extension AtMint transfer_fee_config_ext tlv = Inr c'"
    using put by (rule transfer_fee_config_x.put_get_same) simp
  have same: "same_except {TransferFeeConfig} (ps_tlv m) tlv"
    using put_same_except [OF put] by simp
  have "unpack (mint_base P) (state_bytes (mint_base P) (m\<lparr>ps_base := ps_base m, ps_tlv := tlv\<rparr>)) =
      Inr (m\<lparr>ps_base := ps_base m, ps_tlv := tlv\<rparr>)"
    using unpack_mint_initialized [OF m(1)] same_except_length [OF same]
    by (intro mint_st.unpack_update [OF m(1)]) simp_all
  moreover have "unat rate \<le> 10000"
    using m(5) by (simp add: MAX_FEE_BASIS_POINTS_def not_less word_le_nat_alt)
  moreover have "get_epoch_fee c' e = get_epoch_fee c (clock_epoch clock)"
    if "e < saturating_add (clock_epoch clock) 2" for e
    using that by (simp add: c'_def rescheduled_def get_epoch_fee_def not_le [symmetric])
  moreover have "tf_transfer_fee_basis_points (get_epoch_fee c' e) = rate" "tf_maximum_fee (get_epoch_fee c' e) = maximum"
    if "saturating_add (clock_epoch clock) 2 \<le> e" for e
    using that by (simp_all add: c'_def rescheduled_def get_epoch_fee_def)
  moreover have "tfc_withheld_amount c' = tfc_withheld_amount c"
    by (simp add: c'_def rescheduled_def)
  ultimately show ?thesis
    using m t same
    by (intro exI [of _ m] exI [of _ c] exI [of _ c'] exI [of _ tlv])
      (simp add: st' info_data_def set_data_other)
qed

section \<open>Collecting withheld fees\<close>

text \<open>What harvesting takes from an account of a mint.\<close>

definition withheld_of :: "address \<Rightarrow> store \<Rightarrow> address \<Rightarrow> nat" where
  "withheld_of mint st a =
     (if ac_owner (st a) = TOKEN_2022_ID then
        (case unpack account_base (ac_data (st a)) of
           Inr s \<Rightarrow> if a_mint (ps_base s) = mint then withheld (ps_tlv s) else 0
         | Inl _ \<Rightarrow> 0)
      else 0)"

text \<open>Between two stores, token accounts may only have lost withheld fees.\<close>

definition fee_taken :: "acct \<Rightarrow> acct \<Rightarrow> bool" where
  "fee_taken x y \<longleftrightarrow> y = x \<or>
     (\<exists>s tlv. unpack account_base (ac_data x) = Inr s \<and> ac_owner x = TOKEN_2022_ID \<and>
        y = x\<lparr>ac_data := state_bytes account_base (s\<lparr>ps_tlv := tlv\<rparr>)\<rparr> \<and>
        unpack account_base (ac_data y) = Inr (s\<lparr>ps_tlv := tlv\<rparr>) \<and> same_except {TransferFeeAmount} (ps_tlv s) tlv)"

definition fees_taken :: "store \<Rightarrow> store \<Rightarrow> bool" where
  "fees_taken st st' \<longleftrightarrow> (\<forall>a. fee_taken (st a) (st' a))"

lemma fee_taken_trans:
  assumes "fee_taken x y" and "fee_taken y z"
  shows "fee_taken x z"
proof (cases "y = x \<or> z = y")
  case False
  with assms obtain s t s' t' where
    x: "unpack account_base (ac_data x) = Inr s" "ac_owner x = TOKEN_2022_ID"
      "y = x\<lparr>ac_data := state_bytes account_base (s\<lparr>ps_tlv := t\<rparr>)\<rparr>"
      "unpack account_base (ac_data y) = Inr (s\<lparr>ps_tlv := t\<rparr>)" "same_except {TransferFeeAmount} (ps_tlv s) t"
    and y: "unpack account_base (ac_data y) = Inr s'" "z = y\<lparr>ac_data := state_bytes account_base (s'\<lparr>ps_tlv := t'\<rparr>)\<rparr>"
      "unpack account_base (ac_data z) = Inr (s'\<lparr>ps_tlv := t'\<rparr>)" "same_except {TransferFeeAmount} (ps_tlv s') t'"
    unfolding fee_taken_def by blast
  from x(4) y(1) have "s' = s\<lparr>ps_tlv := t\<rparr>" by simp
  then have "z = x\<lparr>ac_data := state_bytes account_base (s\<lparr>ps_tlv := t'\<rparr>)\<rparr>"
    "unpack account_base (ac_data z) = Inr (s\<lparr>ps_tlv := t'\<rparr>)" "same_except {TransferFeeAmount} (ps_tlv s) t'"
    using x(3) y(2,3) same_except_trans [OF x(5), of "{TransferFeeAmount}" t'] y(4) by simp_all
  with x(1,2) show ?thesis unfolding fee_taken_def by blast
qed (use assms in auto)

lemma fees_taken_refl [simp]: "fees_taken st st"
  by (simp add: fees_taken_def fee_taken_def)

lemma fees_taken_trans: "fees_taken st st1 \<Longrightarrow> fees_taken st1 st2 \<Longrightarrow> fees_taken st st2"
  unfolding fees_taken_def using fee_taken_trans by blast

lemma fees_takenD:
  assumes "fees_taken st st'" and "unpack account_base (ac_data (st a)) = Inr s"
  obtains tlv where "unpack account_base (ac_data (st' a)) = Inr (s\<lparr>ps_tlv := tlv\<rparr>)"
    "same_except {TransferFeeAmount} (ps_tlv s) tlv"
proof -
  have "fee_taken (st a) (st' a)" using assms(1) by (simp add: fees_taken_def)
  then consider "st' a = st a" | t where "unpack account_base (ac_data (st' a)) = Inr (s\<lparr>ps_tlv := t\<rparr>)"
    "same_except {TransferFeeAmount} (ps_tlv s) t"
    using assms(2) unfolding fee_taken_def by auto
  then show thesis using that [of "ps_tlv s"] that assms(2) by cases auto
qed

lemma fees_taken_frame:
  assumes "fees_taken st st'"
  shows "ac_owner (st' a) = ac_owner (st a)" "ac_lamports (st' a) = ac_lamports (st a)"
proof -
  have "fee_taken (st a) (st' a)" using assms by (simp add: fees_taken_def)
  then show "ac_owner (st' a) = ac_owner (st a)" "ac_lamports (st' a) = ac_lamports (st a)"
    by (auto simp: fee_taken_def)
qed

lemma fees_taken_single:
  assumes "unpack account_base (ac_data (st k)) = Inr s" and "ac_owner (st k) = TOKEN_2022_ID"
    and "same_except {TransferFeeAmount} (ps_tlv s) tlv"
  shows "fees_taken st (set_data k (state_bytes account_base (s\<lparr>ps_tlv := tlv\<rparr>)) st)"
    "unpack account_base (state_bytes account_base (s\<lparr>ps_tlv := tlv\<rparr>)) = Inr (s\<lparr>ps_tlv := tlv\<rparr>)"
proof -
  show u: "unpack account_base (state_bytes account_base (s\<lparr>ps_tlv := tlv\<rparr>)) = Inr (s\<lparr>ps_tlv := tlv\<rparr>)"
    using unpack_account_update [OF assms(1) refl same_except_length [OF assms(3)]] by simp
  show "fees_taken st (set_data k (state_bytes account_base (s\<lparr>ps_tlv := tlv\<rparr>)) st)"
    unfolding fees_taken_def fee_taken_def
  proof (rule allI)
    fix a
    let ?y = "set_data k (state_bytes account_base (s\<lparr>ps_tlv := tlv\<rparr>)) st a"
    show "?y = st a \<or> (\<exists>s tlv. unpack account_base (ac_data (st a)) = Inr s \<and> ac_owner (st a) = TOKEN_2022_ID \<and>
        ?y = (st a)\<lparr>ac_data := state_bytes account_base (s\<lparr>ps_tlv := tlv\<rparr>)\<rparr> \<and>
        unpack account_base (ac_data ?y) = Inr (s\<lparr>ps_tlv := tlv\<rparr>) \<and> same_except {TransferFeeAmount} (ps_tlv s) tlv)"
    proof (cases "a = k")
      case True
      with assms u show ?thesis
        by (intro disjI2 exI [of _ s] exI [of _ tlv]) (simp add: set_data_def)
    qed (simp add: set_data_other)
  qed
qed

lemma harvest_Inr:
  assumes "harvest_from_account mint i st = Inr (n, st')"
  shows "unat n = withheld_of mint st (ai_key i)" "withheld_of mint st' = (withheld_of mint st)(ai_key i := 0)"
    "fees_taken st st'" "\<forall>a. a \<noteq> ai_key i \<longrightarrow> st' a = st a"
proof -
  obtain s e tlv where s: "unpack account_base (info_data st i) = Inr s" "a_mint (ps_base s) = mint"
    "info_owner st i = TOKEN_2022_ID" "get_extension AtAccount transfer_fee_amount_ext (ps_tlv s) = Inr e"
    and n: "n = tfa_withheld_amount e"
    and put: "put_extension AtAccount transfer_fee_amount_ext (e\<lparr>tfa_withheld_amount := 0\<rparr>) (ps_tlv s) = Inr tlv"
    and st': "st' = set_data (ai_key i) (state_bytes account_base (s\<lparr>ps_tlv := tlv\<rparr>)) st"
    using assms by (auto simp: harvest_from_account_def result_simps Let_def)
  have same: "same_except {TransferFeeAmount} (ps_tlv s) tlv"
    using put_same_except [OF put] by simp
  note single = fees_taken_single [of st "ai_key i", OF s(1,3) [unfolded info_data_def info_owner_def] same]
  show "fees_taken st st'" unfolding st' by (rule single(1))
  have "withheld tlv = 0"
    using transfer_fee_amount_x.put_get_same [OF put] by (simp add: withheld_def)
  with single(2) s show "withheld_of mint st' = (withheld_of mint st)(ai_key i := 0)"
    by (intro ext) (simp add: st' withheld_of_def)
  show "unat n = withheld_of mint st (ai_key i)"
    using s by (simp add: n withheld_of_def withheld_def info_data_def info_owner_def)
  show "\<forall>a. a \<noteq> ai_key i \<longrightarrow> st' a = st a" by (simp add: st' set_data_other)
qed

lemma harvest_Inl: "harvest_from_account mint i st = Inl e \<Longrightarrow> withheld_of mint st (ai_key i) = 0"
proof (rule ccontr)
  assume inl: "harvest_from_account mint i st = Inl e" and "withheld_of mint st (ai_key i) \<noteq> 0"
  then obtain s x where s: "unpack account_base (info_data st i) = Inr s" "a_mint (ps_base s) = mint"
    "info_owner st i = TOKEN_2022_ID" "get_extension AtAccount transfer_fee_amount_ext (ps_tlv s) = Inr x"
    by (auto simp: withheld_of_def withheld_def info_data_def info_owner_def split: if_splits sum.splits)
  obtain tlv where "put_extension AtAccount transfer_fee_amount_ext (x\<lparr>tfa_withheld_amount := 0\<rparr>) (ps_tlv s) = Inr tlv"
    using transfer_fee_amount_x.put_defined [OF s(4)] by blast
  with s inl show False by (simp add: harvest_from_account_def Let_def)
qed

text \<open>What all accounts of a list give, each counted once.\<close>

definition withheld_sum :: "address \<Rightarrow> store \<Rightarrow> account_info list \<Rightarrow> nat" where
  "withheld_sum mint st infos = (\<Sum>a\<in>ai_key ` set infos. withheld_of mint st a)"

lemma withheld_sum_Cons:
  assumes "withheld_of mint st1 = (withheld_of mint st)(ai_key i := 0)"
  shows "withheld_sum mint st (i # infos) = withheld_of mint st (ai_key i) + withheld_sum mint st1 infos"
proof -
  let ?K = "ai_key ` set infos"
  have "withheld_sum mint st (i # infos) = withheld_of mint st (ai_key i) + (\<Sum>a\<in>?K - {ai_key i}. withheld_of mint st a)"
    by (simp add: withheld_sum_def sum.insert_remove)
  also have "(\<Sum>a\<in>?K - {ai_key i}. withheld_of mint st a) = (\<Sum>a\<in>?K. withheld_of mint st1 a)"
    by (rule sum.mono_neutral_cong_left) (auto simp: assms)
  finally show ?thesis by (simp add: withheld_sum_def)
qed

lemma harvest_step_Inr:
  assumes "harvest_step mint i (w, st) = Inr (w', st')"
  shows "unat w' = unat w + withheld_of mint st (ai_key i)" "withheld_of mint st' = (withheld_of mint st)(ai_key i := 0)"
    "fees_taken st st'" "ai_key i \<noteq> mint" "\<forall>a. a \<noteq> ai_key i \<longrightarrow> st' a = st a"
proof -
  have "ai_key i \<noteq> mint \<and> unat w' = unat w + withheld_of mint st (ai_key i) \<and>
      withheld_of mint st' = (withheld_of mint st)(ai_key i := 0) \<and> fees_taken st st' \<and>
      (\<forall>a. a \<noteq> ai_key i \<longrightarrow> st' a = st a)"
  proof (cases "harvest_from_account mint i st")
    case (Inl e)
    with assms harvest_Inl [OF Inl] show ?thesis
      by (auto simp: harvest_step_def result_simps)
  next
    case (Inr p)
    obtain n st1 where p: "p = (n, st1)" by (cases p)
    from assms Inr p have *: "ai_key i \<noteq> mint" "checked_add w n = Some w'" "st' = st1"
      by (auto simp: harvest_step_def result_simps)
    note h = harvest_Inr [OF Inr [unfolded p]]
    show ?thesis
      using * h checked_add_SomeD [OF *(2)] by simp
  qed
  then show "unat w' = unat w + withheld_of mint st (ai_key i)" "withheld_of mint st' = (withheld_of mint st)(ai_key i := 0)"
    "fees_taken st st'" "ai_key i \<noteq> mint" "\<forall>a. a \<noteq> ai_key i \<longrightarrow> st' a = st a" by auto
qed

lemma harvest_loop:
  assumes "try_for_each (harvest_step mint) infos (w, st) = Inr (w', st')"
  shows "unat w' = unat w + withheld_sum mint st infos \<and> fees_taken st st' \<and> mint \<notin> ai_key ` set infos \<and>
    (\<forall>a. withheld_of mint st' a = (if a \<in> ai_key ` set infos then 0 else withheld_of mint st a)) \<and>
    (\<forall>a. a \<notin> ai_key ` set infos \<longrightarrow> st' a = st a)"
  using assms
proof (induction infos arbitrary: w st)
  case Nil
  then show ?case by (simp add: withheld_sum_def)
next
  case (Cons i infos)
  then obtain w1 st1 where s1: "harvest_step mint i (w, st) = Inr (w1, st1)"
    and rest: "try_for_each (harvest_step mint) infos (w1, st1) = Inr (w', st')"
    by (auto simp: result_simps)
  note h = harvest_step_Inr [OF s1] and ih = Cons.IH [OF rest]
  have "unat w' = unat w + withheld_sum mint st (i # infos)"
    using h(1) ih by (simp add: withheld_sum_Cons [OF h(2)])
  moreover have "fees_taken st st'"
    using fees_taken_trans [OF h(3)] ih by blast
  ultimately show ?case
    using h ih by simp
qed

text \<open>
  C24. Harvesting succeeds for anyone and moves to the mint exactly what is withheld on the listed
  accounts of that mint, each counted once: the mint's withheld amount grows by their sum without
  wrapping, nothing is left withheld on them, no amount of tokens changes and no other account does.
\<close>

theorem harvest_withheld_tokens_correct:
  assumes "process_harvest_withheld_tokens_to_mint P (mint_info # infos) st = Inr st'"
  shows "\<exists>m c tlv c'.
     unpack (mint_base P) (info_data st mint_info) = Inr m \<and> get_extension AtMint transfer_fee_config_ext (ps_tlv m) = Inr c \<and>
     unpack (mint_base P) (info_data st' mint_info) = Inr (m\<lparr>ps_tlv := tlv\<rparr>) \<and>
     get_extension AtMint transfer_fee_config_ext tlv = Inr c' \<and> same_except {TransferFeeConfig} (ps_tlv m) tlv \<and>
     c' = c\<lparr>tfc_withheld_amount := tfc_withheld_amount c'\<rparr> \<and>
     unat (tfc_withheld_amount c') = unat (tfc_withheld_amount c) + withheld_sum (ai_key mint_info) st infos \<and>
     (\<forall>a. a \<noteq> ai_key mint_info \<longrightarrow> withheld_of (ai_key mint_info) st' a =
        (if a \<in> ai_key ` set infos then 0 else withheld_of (ai_key mint_info) st a)) \<and>
     (\<forall>a. a \<noteq> ai_key mint_info \<longrightarrow> fee_taken (st a) (st' a)) \<and>
     (\<forall>a. a \<noteq> ai_key mint_info \<and> a \<notin> ai_key ` set infos \<longrightarrow> st' a = st a)"
proof -
  obtain m c w st1 tlv where m: "unpack (mint_base P) (info_data st mint_info) = Inr m"
    "get_extension AtMint transfer_fee_config_ext (ps_tlv m) = Inr c"
    and loop: "try_for_each (harvest_step (ai_key mint_info)) infos (tfc_withheld_amount c, st) = Inr (w, st1)"
    and put: "put_extension AtMint transfer_fee_config_ext (c\<lparr>tfc_withheld_amount := w\<rparr>) (ps_tlv m) = Inr tlv"
    and st': "st' = set_data (ai_key mint_info) (state_bytes (mint_base P) (m\<lparr>ps_tlv := tlv\<rparr>)) st1"
    using assms by (auto simp: process_harvest_withheld_tokens_to_mint_def result_simps)
  note h = harvest_loop [OF loop]
  have same: "same_except {TransferFeeConfig} (ps_tlv m) tlv"
    using put_same_except [OF put] by simp
  have "unpack (mint_base P) (state_bytes (mint_base P) (m\<lparr>ps_base := ps_base m, ps_tlv := tlv\<rparr>)) =
      Inr (m\<lparr>ps_base := ps_base m, ps_tlv := tlv\<rparr>)"
    using unpack_mint_initialized [OF m(1)] same_except_length [OF same]
    by (intro mint_st.unpack_update [OF m(1)]) simp_all
  then have "unpack (mint_base P) (info_data st' mint_info) = Inr (m\<lparr>ps_tlv := tlv\<rparr>)"
    by (simp add: st' info_data_def)
  moreover have "withheld_of (ai_key mint_info) st' a = withheld_of (ai_key mint_info) st1 a"
    "st' a = st1 a" if "a \<noteq> ai_key mint_info" for a
    using that by (simp_all add: st' withheld_of_def set_data_other)
  moreover have "get_extension AtMint transfer_fee_config_ext tlv = Inr (c\<lparr>tfc_withheld_amount := w\<rparr>)"
    using put by (rule transfer_fee_config_x.put_get_same) simp
  ultimately show ?thesis
    using m same h
    by (intro exI [of _ m] exI [of _ c] exI [of _ tlv] exI [of _ "c\<lparr>tfc_withheld_amount := w\<rparr>"])
      (simp add: fees_taken_def)
qed

lemma withdraw_destination_Inr:
  assumes "withdraw_destination P program_id mint_info dest auth signers c st = Inr d"
  shows "unpack account_base (info_data st dest) = Inr d" "a_mint (ps_base d) = ai_key mint_info" "\<not> is_frozen (ps_base d)"
    "ai_key dest \<noteq> ai_key mint_info"
    "\<exists>k. pl_option_from_maybe_null P (tfc_withdraw_withheld_authority c) = Some k \<and> authorizes P program_id k auth signers st"
  using assms by (auto simp: withdraw_destination_def result_simps validate_owner_authorizes)

text \<open>
  Withdrawing from the mint succeeds only under its withdrawal authority and moves exactly the
  amount withheld on the mint to an account of that mint that is not frozen: the mint keeps nothing,
  the account grows by that amount without wrapping, and nothing else changes.
\<close>

theorem withdraw_withheld_from_mint_correct:
  assumes "process_withdraw_withheld_tokens_from_mint P program_id (mint_info # dest # auth # signers) st = Inr st'"
  shows "\<exists>m c tlv d amount.
     unpack (mint_base P) (info_data st mint_info) = Inr m \<and> get_extension AtMint transfer_fee_config_ext (ps_tlv m) = Inr c \<and>
     (\<exists>k. pl_option_from_maybe_null P (tfc_withdraw_withheld_authority c) = Some k \<and>
          authorizes P program_id k auth signers st) \<and>
     unpack account_base (info_data st dest) = Inr d \<and> a_mint (ps_base d) = ai_key mint_info \<and> \<not> is_frozen (ps_base d) \<and>
     unpack (mint_base P) (info_data st' mint_info) = Inr (m\<lparr>ps_tlv := tlv\<rparr>) \<and> same_except {TransferFeeConfig} (ps_tlv m) tlv \<and>
     get_extension AtMint transfer_fee_config_ext tlv = Inr (c\<lparr>tfc_withheld_amount := 0\<rparr>) \<and>
     unpack account_base (info_data st' dest) = Inr (d\<lparr>ps_base := (ps_base d)\<lparr>a_amount := amount\<rparr>\<rparr>) \<and>
     unat amount = unat (a_amount (ps_base d)) + unat (tfc_withheld_amount c) \<and>
     (\<forall>a. a \<noteq> ai_key mint_info \<and> a \<noteq> ai_key dest \<longrightarrow> st' a = st a)"
proof -
  obtain m c d tlv amount where m: "unpack (mint_base P) (info_data st mint_info) = Inr m"
    "get_extension AtMint transfer_fee_config_ext (ps_tlv m) = Inr c"
    and d: "withdraw_destination P program_id mint_info dest auth signers c st = Inr d"
    and put: "put_extension AtMint transfer_fee_config_ext (c\<lparr>tfc_withheld_amount := 0\<rparr>) (ps_tlv m) = Inr tlv"
    and amount: "checked_add (a_amount (ps_base d)) (tfc_withheld_amount c) = Some amount"
    and st': "st' = set_data (ai_key dest) (state_bytes account_base (d\<lparr>ps_base := (ps_base d)\<lparr>a_amount := amount\<rparr>\<rparr>))
            (set_data (ai_key mint_info) (state_bytes (mint_base P) (m\<lparr>ps_tlv := tlv\<rparr>)) st)"
    using assms by (auto simp: process_withdraw_withheld_tokens_from_mint_def result_simps Let_def)
  note w = withdraw_destination_Inr [OF d]
  have same: "same_except {TransferFeeConfig} (ps_tlv m) tlv"
    using put_same_except [OF put] by simp
  have um: "unpack (mint_base P) (state_bytes (mint_base P) (m\<lparr>ps_base := ps_base m, ps_tlv := tlv\<rparr>)) =
      Inr (m\<lparr>ps_base := ps_base m, ps_tlv := tlv\<rparr>)"
    using unpack_mint_initialized [OF m(1)] same_except_length [OF same]
    by (intro mint_st.unpack_update [OF m(1)]) simp_all
  have ud: "unpack account_base (state_bytes account_base (d\<lparr>ps_base := (ps_base d)\<lparr>a_amount := amount\<rparr>\<rparr>)) =
      Inr (d\<lparr>ps_base := (ps_base d)\<lparr>a_amount := amount\<rparr>\<rparr>)"
    using unpack_account_update [OF w(1), of "(ps_base d)\<lparr>a_amount := amount\<rparr>" "ps_tlv d"] by simp
  have g: "get_extension AtMint transfer_fee_config_ext tlv = Inr (c\<lparr>tfc_withheld_amount := 0\<rparr>)"
    using put by (rule transfer_fee_config_x.put_get_same) simp
  show ?thesis
    using m w same um ud g checked_add_SomeD [OF amount]
    by (intro exI [of _ m] exI [of _ c] exI [of _ tlv] exI [of _ d] exI [of _ amount])
      (simp add: st' info_data_def set_data_other)
qed

text \<open>The store as the loop sees it: the destination lives in memory until the end.\<close>

definition with_destination :: "address \<Rightarrow> pod_account pod_state \<times> store \<Rightarrow> store" where
  "with_destination k = (\<lambda>(d, st). set_data k (state_bytes account_base d) st)"

text \<open>A destination that grew and lost withheld fees, and is otherwise the same account.\<close>

definition collected :: "pod_account pod_state \<Rightarrow> pod_account pod_state \<Rightarrow> bool" where
  "collected d d' \<longleftrightarrow>
     (\<exists>n tlv. d' = d\<lparr>ps_base := (ps_base d)\<lparr>a_amount := n\<rparr>, ps_tlv := tlv\<rparr> \<and> same_except {TransferFeeAmount} (ps_tlv d) tlv)"

lemma collected_same [simp]: "collected d d"
  unfolding collected_def by (intro exI [of _ "a_amount (ps_base d)"] exI [of _ "ps_tlv d"]) simp

lemma collected_mint: "collected d d' \<Longrightarrow> a_mint (ps_base d') = a_mint (ps_base d)"
  by (auto simp: collected_def)

lemma collected_trans:
  assumes "collected d d1" and "collected d1 d2" shows "collected d d2"
proof -
  obtain n t n' t' where "d1 = d\<lparr>ps_base := (ps_base d)\<lparr>a_amount := n\<rparr>, ps_tlv := t\<rparr>"
    "same_except {TransferFeeAmount} (ps_tlv d) t" "d2 = d1\<lparr>ps_base := (ps_base d1)\<lparr>a_amount := n'\<rparr>, ps_tlv := t'\<rparr>"
    "same_except {TransferFeeAmount} (ps_tlv d1) t'"
    using assms unfolding collected_def by blast
  then show ?thesis
    using same_except_trans [of "{TransferFeeAmount}" "ps_tlv d" t "{TransferFeeAmount}" t']
    unfolding collected_def by (intro exI [of _ n'] exI [of _ t']) simp
qed

lemma withdraw_step_Inr:
  assumes run: "withdraw_step mint k i (d, st) = Inr (d', st')"
    and d: "unpack account_base (state_bytes account_base d) = Inr d" "a_mint (ps_base d) = mint"
    and own: "ac_owner (st k) = TOKEN_2022_ID"
  shows "unat (a_amount (ps_base d')) =
      unat (a_amount (ps_base d)) + withheld_of mint (with_destination k (d, st)) (ai_key i) \<and>
    withheld_of mint (with_destination k (d', st')) = (withheld_of mint (with_destination k (d, st)))(ai_key i := 0) \<and>
    collected d d' \<and>
    unpack account_base (state_bytes account_base d') = Inr d' \<and>
    fees_taken st st' \<and> ac_owner (st' k) = TOKEN_2022_ID \<and> (\<forall>a. a = k \<or> a \<noteq> ai_key i \<longrightarrow> st' a = st a)"
proof (cases "ai_key i = k")
  case True
  with run obtain e tlv amount where e: "get_extension AtAccount transfer_fee_amount_ext (ps_tlv d) = Inr e"
    and put: "put_extension AtAccount transfer_fee_amount_ext (e\<lparr>tfa_withheld_amount := 0\<rparr>) (ps_tlv d) = Inr tlv"
    and add: "checked_add (a_amount (ps_base d)) (tfa_withheld_amount e) = Some amount"
    and d': "d' = d\<lparr>ps_base := (ps_base d)\<lparr>a_amount := amount\<rparr>, ps_tlv := tlv\<rparr>" "st' = st"
    by (auto simp: withdraw_step_def result_simps Let_def)
  have same: "same_except {TransferFeeAmount} (ps_tlv d) tlv"
    using put_same_except [OF put] by simp
  have u: "unpack account_base (state_bytes account_base d') = Inr d'"
    unfolding d' by (rule unpack_account_update [OF d(1) _ same_except_length [OF same]]) simp
  have "withheld tlv = 0"
    using transfer_fee_amount_x.put_get_same [OF put] by (simp add: withheld_def)
  then have "withheld_of mint (with_destination k (d', st')) = (withheld_of mint (with_destination k (d, st)))(ai_key i := 0)"
    using u True d by (intro ext) (simp add: with_destination_def withheld_of_def d')
  moreover have "withheld_of mint (with_destination k (d, st)) (ai_key i) = unat (tfa_withheld_amount e)"
    using True d own e by (simp add: with_destination_def withheld_of_def withheld_def)
  moreover have "collected d d'"
    unfolding collected_def using same d'(1) by blast
  ultimately show ?thesis
    using u same own checked_add_SomeD [OF add] by (simp add: d')
next
  case False
  have wo: "withheld_of mint (with_destination k (x, s)) a = withheld_of mint s a" if "a \<noteq> k" for x s a
    using that by (simp add: withheld_of_def with_destination_def)
  show ?thesis
  proof (cases "harvest_from_account mint i st")
    case (Inl e)
    with run False have "d' = d" "st' = st" by (auto simp: withdraw_step_def result_simps)
    moreover have "withheld_of mint (with_destination k (d, st)) (ai_key i) = 0"
      using False harvest_Inl [OF Inl] by (simp add: wo)
    ultimately show ?thesis using d own by (simp add: fun_upd_idem)
  next
    case (Inr p)
    obtain n st1 where p: "p = (n, st1)" by (cases p)
    obtain amount where add: "checked_add (a_amount (ps_base d)) n = Some amount"
      and d': "d' = d\<lparr>ps_base := (ps_base d)\<lparr>a_amount := amount\<rparr>\<rparr>" "st' = st1"
      using run False Inr by (auto simp: withdraw_step_def result_simps p)
    note h = harvest_Inr [OF Inr [unfolded p]]
    have u: "unpack account_base (state_bytes account_base d') = Inr d'"
      using unpack_account_update [OF d(1), of "(ps_base d)\<lparr>a_amount := amount\<rparr>" "ps_tlv d"] by (simp add: d'(1))
    have "withheld_of mint (with_destination k (d', st')) k = withheld_of mint (with_destination k (d, st)) k"
      using u d fees_taken_frame(1) [OF h(3), of k] by (simp add: withheld_of_def with_destination_def d')
    then have "withheld_of mint (with_destination k (d', st')) a =
        ((withheld_of mint (with_destination k (d, st)))(ai_key i := 0)) a" for a
      using False h(2) by (cases "a = k") (simp_all add: wo d')
    then have "withheld_of mint (with_destination k (d', st')) =
        (withheld_of mint (with_destination k (d, st)))(ai_key i := 0)"
      by (rule ext)
    moreover have "withheld_of mint (with_destination k (d, st)) (ai_key i) = withheld_of mint st (ai_key i)"
      using False by (simp add: wo)
    moreover have "collected d d'"
      unfolding collected_def d'(1) by (intro exI [of _ amount] exI [of _ "ps_tlv d"]) simp
    ultimately show ?thesis
      using u False own h checked_add_SomeD [OF add] fees_taken_frame(1) [OF h(3), of k] by (simp add: d')
  qed
qed

lemma withdraw_loop:
  assumes "try_for_each (withdraw_step mint k) infos (d, st) = Inr (d', st')"
    and "unpack account_base (state_bytes account_base d) = Inr d" "a_mint (ps_base d) = mint"
    and "ac_owner (st k) = TOKEN_2022_ID"
  shows "unat (a_amount (ps_base d')) =
      unat (a_amount (ps_base d)) + withheld_sum mint (with_destination k (d, st)) infos \<and>
    (\<forall>a. withheld_of mint (with_destination k (d', st')) a =
       (if a \<in> ai_key ` set infos then 0 else withheld_of mint (with_destination k (d, st)) a)) \<and>
    collected d d' \<and>
    unpack account_base (state_bytes account_base d') = Inr d' \<and>
    fees_taken st st' \<and> (\<forall>a. a = k \<or> a \<notin> ai_key ` set infos \<longrightarrow> st' a = st a)"
  using assms
proof (induction infos arbitrary: d st)
  case Nil
  then show ?case by (simp add: withheld_sum_def)
next
  case (Cons i infos)
  then obtain d1 st1 where s1: "withdraw_step mint k i (d, st) = Inr (d1, st1)"
    and rest: "try_for_each (withdraw_step mint k) infos (d1, st1) = Inr (d', st')"
    by (auto simp: result_simps)
  note h = withdraw_step_Inr [OF s1 Cons.prems(2-4)]
  have "a_mint (ps_base d1) = mint"
    using collected_mint [of d d1] h Cons.prems(3) by simp
  with h have ih: "unat (a_amount (ps_base d')) =
      unat (a_amount (ps_base d1)) + withheld_sum mint (with_destination k (d1, st1)) infos"
    "\<And>a. withheld_of mint (with_destination k (d', st')) a =
       (if a \<in> ai_key ` set infos then 0 else withheld_of mint (with_destination k (d1, st1)) a)"
    "collected d1 d'" "unpack account_base (state_bytes account_base d') = Inr d'"
    "fees_taken st1 st'" "\<And>a. a = k \<or> a \<notin> ai_key ` set infos \<Longrightarrow> st' a = st1 a"
    using Cons.IH [OF rest] by blast+
  have "unat (a_amount (ps_base d')) =
      unat (a_amount (ps_base d)) + withheld_sum mint (with_destination k (d, st)) (i # infos)"
    using h ih(1) by (simp add: withheld_sum_Cons [of mint "with_destination k (d1, st1)"])
  moreover have "collected d d'"
    using collected_trans ih(3) h by blast
  moreover have "fees_taken st st'"
    using fees_taken_trans ih(5) h by blast
  ultimately show ?case
    using h ih(2,4,6) by simp
qed

text \<open>
  C25. Withdrawing from accounts succeeds only under the mint's withdrawal authority; the destination,
  an account of the mint that is not frozen, grows by exactly the sum of what is withheld on the listed
  accounts, itself included when listed and each counted once, without wrapping; nothing stays withheld
  on them, and no other account changes, the mint included.
\<close>

theorem withdraw_withheld_from_accounts_correct:
  assumes "process_withdraw_withheld_tokens_from_accounts P program_id (mint_info # dest # auth # infos) n st = Inr st'"
    and "sources = drop (length infos - unat n) infos"
  shows "\<exists>base tlv c d d'.
     unpack_ref (mint_base P) (info_data st mint_info) = Inr (base, tlv) \<and>
     get_extension AtMint transfer_fee_config_ext tlv = Inr c \<and>
     (\<exists>k. pl_option_from_maybe_null P (tfc_withdraw_withheld_authority c) = Some k \<and>
          authorizes P program_id k auth (take (length infos - unat n) infos) st) \<and>
     unpack account_base (info_data st dest) = Inr d \<and> a_mint (ps_base d) = ai_key mint_info \<and> \<not> is_frozen (ps_base d) \<and>
     unpack account_base (info_data st' dest) = Inr d' \<and> collected d d' \<and>
     unat (a_amount (ps_base d')) = unat (a_amount (ps_base d)) + withheld_sum (ai_key mint_info) st sources \<and>
     (\<forall>a. withheld_of (ai_key mint_info) st' a =
        (if a \<in> ai_key ` set sources then 0 else withheld_of (ai_key mint_info) st a)) \<and>
     (\<forall>a. a \<noteq> ai_key dest \<longrightarrow> fee_taken (st a) (st' a)) \<and>
     (\<forall>a. a \<noteq> ai_key dest \<and> a \<notin> ai_key ` set sources \<longrightarrow> st' a = st a)"
proof -
  obtain base tlv c d d' st1 where m: "unpack_ref (mint_base P) (info_data st mint_info) = Inr (base, tlv)"
    "get_extension AtMint transfer_fee_config_ext tlv = Inr c"
    and own: "info_owner st dest = TOKEN_2022_ID"
    and d: "withdraw_destination P program_id mint_info dest auth (take (length infos - unat n) infos) c st = Inr d"
    and loop: "try_for_each (withdraw_step (ai_key mint_info) (ai_key dest)) sources (d, st) = Inr (d', st1)"
    and st': "st' = set_data (ai_key dest) (state_bytes account_base d') st1"
    using assms(1) unfolding assms(2)
    by (auto simp: process_withdraw_withheld_tokens_from_accounts_def result_simps Let_def)
  note w = withdraw_destination_Inr [OF d]
  have ud: "state_bytes account_base d = ac_data (st (ai_key dest))"
    using account_st.unpack_bytes [OF w(1)] by (simp add: info_data_def)
  then have mem: "with_destination (ai_key dest) (d, st) = st"
    by (simp add: with_destination_def set_data_def)
  have "unpack account_base (state_bytes account_base d) = Inr d"
    using w(1) ud by (simp add: info_data_def)
  note l = withdraw_loop [OF loop this w(2) own [unfolded info_owner_def], unfolded mem]
  have "st' = with_destination (ai_key dest) (d', st1)" by (simp add: with_destination_def st')
  with l have wo: "withheld_of (ai_key mint_info) st' a =
        (if a \<in> ai_key ` set sources then 0 else withheld_of (ai_key mint_info) st a)" for a by simp
  show ?thesis
    using m w wo l
    by (intro exI [of _ base] exI [of _ tlv] exI [of _ c] exI [of _ d] exI [of _ d'])
      (simp add: st' info_data_def set_data_other fees_taken_def)
qed

subsection \<open>Concrete runs\<close>

definition sample_fee_config :: transfer_fee_config where
  "sample_fee_config =
     \<lparr>tfc_transfer_fee_config_authority = 30, tfc_withdraw_withheld_authority = 30, tfc_withheld_amount = 7,
      tfc_older_transfer_fee = \<lparr>tf_epoch = 1, tf_maximum_fee = 100, tf_transfer_fee_basis_points = 50\<rparr>,
      tfc_newer_transfer_fee = \<lparr>tf_epoch = 3, tf_maximum_fee = 200, tf_transfer_fee_basis_points = 70\<rparr>\<rparr>"

definition fee_mint :: "transfer_fee_config \<Rightarrow> acct" where
  "fee_mint c = token_acct 500 (state_bytes (mint_base sample_platform)
     (single (mint_base sample_platform) (sample_mint 100) transfer_fee_config_ext c))"

definition fee_account :: "u64 \<Rightarrow> u64 \<Rightarrow> acct" where
  "fee_account n w = token_acct 500 (state_bytes account_base
     (single account_base (sample_account 4 30 n Initialized) transfer_fee_amount_ext \<lparr>tfa_withheld_amount = w\<rparr>))"

definition sample_fee_store :: store where
  "sample_fee_store = sample_store
     [(4, fee_mint sample_fee_config), (5, fee_account 20 3), (6, fee_account 30 2), (30, empty_acct)]"

lemma sample_fee_lengths [simp]:
  "length (vx_to_bytes transfer_fee_config_ext c) = 108" "length (vx_to_bytes transfer_fee_amount_ext a) = 8"
  using transfer_fee_config_x.length_to_bytes [of c] transfer_fee_amount_x.length_to_bytes [of a]
  by (simp_all add: transfer_fee_config_ext_def transfer_fee_amount_ext_def)

lemma sample_fee_entries [simp]:
  "get_extension AtMint transfer_fee_config_ext (entry_bytes TransferFeeConfig (vx_to_bytes transfer_fee_config_ext c)) = Inr c"
  "put_extension AtMint transfer_fee_config_ext c' (entry_bytes TransferFeeConfig (vx_to_bytes transfer_fee_config_ext c)) =
     Inr (entry_bytes TransferFeeConfig (vx_to_bytes transfer_fee_config_ext c'))"
  "get_extension AtAccount transfer_fee_amount_ext (entry_bytes TransferFeeAmount (vx_to_bytes transfer_fee_amount_ext a)) = Inr a"
  "put_extension AtAccount transfer_fee_amount_ext a' (entry_bytes TransferFeeAmount (vx_to_bytes transfer_fee_amount_ext a)) =
     Inr (entry_bytes TransferFeeAmount (vx_to_bytes transfer_fee_amount_ext a'))"
  using transfer_fee_config_x.get_entry [of AtMint c] transfer_fee_config_x.put_entry [of AtMint c' c]
    transfer_fee_amount_x.get_entry [of AtAccount a] transfer_fee_amount_x.put_entry [of AtAccount a' a]
  by (simp_all add: transfer_fee_config_ext_def [THEN arg_cong, of vx_len]
      transfer_fee_amount_ext_def [THEN arg_cong, of vx_len] get_account_type_def)

lemma sample_fee_store_simps [simp]:
  "sample_fee_store 4 = fee_mint sample_fee_config" "sample_fee_store 5 = fee_account 20 3"
  "sample_fee_store 6 = fee_account 30 2" "sample_fee_store 30 = empty_acct"
  "ac_owner (fee_mint c) = TOKEN_2022_ID" "ac_owner (fee_account n w) = TOKEN_2022_ID"
  "unpack (mint_base sample_platform) (ac_data (fee_mint c)) =
     Inr (single (mint_base sample_platform) (sample_mint 100) transfer_fee_config_ext c)"
  "unpack_ref (mint_base sample_platform) (ac_data (fee_mint c)) =
     Inr (sample_mint 100, entry_bytes TransferFeeConfig (vx_to_bytes transfer_fee_config_ext c))"
  "unpack account_base (ac_data (fee_account n w)) =
     Inr (single account_base (sample_account 4 30 n Initialized) transfer_fee_amount_ext \<lparr>tfa_withheld_amount = w\<rparr>)"
  by (simp_all add: sample_fee_store_def fee_mint_def fee_account_def)

lemma sample_fee_validate:
  "validate_owner sample_platform TOKEN_2022_ID 30 (signer_info 30) 0 signers sample_fee_store = Inr ()"
  using validate_owner_authorizes [of sample_platform TOKEN_2022_ID 30 "signer_info 30" sample_fee_store signers]
  by (simp add: sample_signer_authorizes info_data_def empty_acct_def)

lemma sample_fee_platform [simp]:
  "pl_option_from_maybe_null sample_platform a = (if a = 0 then None else Some a)"
  "pl_clock_get sample_platform = Inr \<lparr>clock_epoch = 5, clock_unix_timestamp = 1000\<rparr>"
  by (simp_all add: sample_platform_def)

lemma set_transfer_fee_waits_witness:
  "\<exists>st' m c. process_set_transfer_fee sample_platform TOKEN_2022_ID [plain_info 4, signer_info 30] 80 300
      sample_fee_store = Inr st' \<and>
    unpack (mint_base sample_platform) (info_data sample_fee_store (plain_info 4)) = Inr m \<and>
    get_extension AtMint transfer_fee_config_ext (ps_tlv m) = Inr c"
  (is "\<exists>st' m c. ?run = Inr st' \<and> _ m c")
proof -
  have "\<exists>st'. ?run = Inr st'"
    using sample_fee_validate
    by (simp add: process_set_transfer_fee_def initialized_view_def on_tlv_def info_owner_def info_data_def
        ensure_def empty_acct_def sample_fee_config_def MAX_FEE_BASIS_POINTS_def Let_def)
  then obtain st' where st': "?run = Inr st'" ..
  from set_transfer_fee_waits [OF this, of "\<lparr>clock_epoch = 5, clock_unix_timestamp = 1000\<rparr>"] st' show ?thesis by auto
qed

lemma harvest_withheld_tokens_correct_witness:
  "\<exists>st' c c'. process_harvest_withheld_tokens_to_mint sample_platform [plain_info 4, plain_info 5, plain_info 6, plain_info 5]
      sample_fee_store = Inr st' \<and>
    unat (tfc_withheld_amount (c' :: transfer_fee_config)) = unat (tfc_withheld_amount (c :: transfer_fee_config)) +
      withheld_sum (ai_key (plain_info 4)) sample_fee_store [plain_info 5, plain_info 6, plain_info 5]"
  (is "\<exists>st' c c'. ?run = Inr st' \<and> _ c c'")
proof -
  have h: "harvest_from_account 4 (plain_info a) st = Inr (w, set_data a (ac_data (fee_account n 0)) st)"
    if "st a = fee_account n w" for a n w st
    using that by (simp add: harvest_from_account_def info_data_def info_owner_def Let_def)
        (simp add: fee_account_def single_simps(4) [where V = transfer_fee_amount_ext, simplified])
  have u: "set_data a (ac_data (fee_account n 0)) st a = fee_account n 0" if "st a = fee_account n w" for a n w st
    using that by (simp add: set_data_def fee_account_def token_acct_def)
  have "\<exists>st'. ?run = Inr st'"
    by (simp add: process_harvest_withheld_tokens_to_mint_def harvest_step_def info_owner_def info_data_def
        h [of _ _ 20 3] h [of _ _ 30 2] h [of _ _ 20 0] u [of _ _ 20 3] set_data_other sample_fee_config_def checked_add_def)
  then obtain st' where st': "?run = Inr st'" ..
  from harvest_withheld_tokens_correct [OF this] st' show ?thesis by blast
qed

lemma withdraw_withheld_from_mint_correct_witness:
  "\<exists>st' c d amount. process_withdraw_withheld_tokens_from_mint sample_platform TOKEN_2022_ID
      [plain_info 4, plain_info 5, signer_info 30] sample_fee_store = Inr st' \<and>
    unat (amount :: u64) = unat (a_amount (ps_base (d :: pod_account pod_state))) +
      unat (tfc_withheld_amount (c :: transfer_fee_config))"
  (is "\<exists>st' c d amount. ?run = Inr st' \<and> _ c d amount")
proof -
  have "\<exists>st'. ?run = Inr st'"
    using sample_fee_validate [of "[]"]
    by (simp add: process_withdraw_withheld_tokens_from_mint_def withdraw_destination_def info_owner_def info_data_def
        ensure_def empty_acct_def sample_fee_config_def checked_add_def Let_def)
  then obtain st' where st': "?run = Inr st'" ..
  from withdraw_withheld_from_mint_correct [OF this] st' show ?thesis
    by (elim exE conjE) (intro exI conjI; assumption)
qed

lemma withdraw_withheld_from_accounts_correct_witness:
  "\<exists>st' d d'. process_withdraw_withheld_tokens_from_accounts sample_platform TOKEN_2022_ID
      [plain_info 4, plain_info 5, signer_info 30, plain_info 5, plain_info 6] 2 sample_fee_store = Inr st' \<and>
    unat (a_amount (ps_base (d' :: pod_account pod_state))) = unat (a_amount (ps_base (d :: pod_account pod_state))) +
      withheld_sum (ai_key (plain_info 4)) sample_fee_store [plain_info 5, plain_info 6]"
  (is "\<exists>st' d d'. ?run = Inr st' \<and> _ d d'")
proof -
  have "\<exists>st'. ?run = Inr st'"
    using sample_fee_validate [of "[]"]
    by (simp add: process_withdraw_withheld_tokens_from_accounts_def withdraw_destination_def withdraw_step_def
        harvest_from_account_def info_owner_def info_data_def ensure_def empty_acct_def sample_fee_config_def checked_add_def Let_def)
  then obtain st' where st': "?run = Inr st'" ..
  from withdraw_withheld_from_accounts_correct [OF this, of "[plain_info 5, plain_info 6]"] st' show ?thesis
    by auto
qed

end
