(* ===== verification/Alloc_Serialize.thy ===== *)
theory Alloc_Serialize
  imports Views
begin

text \<open>
  \<open>alloc_and_serialize\<close> and its sibling for values of variable length
  (interface/src/extension/mod.rs): an extension is written to an account that is first resized to fit
  it. The trait \<open>VariableLenPack\<close> belongs to another crate: its operations are the record
  \<open>variable_len\<close>, and \<open>variable_len_law\<close> is its contract.

  Whatever branch is taken, the account is readable afterwards, its base state is the one it had, and
  its extension buffer is the map it was, updated.
\<close>

section \<open>Model\<close>

record 'v variable_len =
  vl_type :: extension_type
  vl_packed_len :: "'v \<Rightarrow> nat result"
  vl_pack_into_slice :: "'v \<Rightarrow> bytes \<Rightarrow> bytes result"
  vl_unpack_from_slice :: "bytes \<Rightarrow> 'v result"

definition get_variable_len_extension :: "account_type \<Rightarrow> 'v variable_len \<Rightarrow> bytes \<Rightarrow> 'v result" where
  "get_variable_len_extension at V tlv =
     bindr (get_extension_bytes at (vl_type V) tlv) (vl_unpack_from_slice V)"

definition init_variable_len_extension ::
    "account_type \<Rightarrow> 'v variable_len \<Rightarrow> 'v \<Rightarrow> bool \<Rightarrow> bytes \<Rightarrow> bytes result" where
  "init_variable_len_extension at V extension overwrite tlv =
     bindr (vl_packed_len V extension) (\<lambda>n.
     bindr (alloc at (vl_type V) n overwrite tlv) (\<lambda>(tlv1, i).
     bindr (vl_pack_into_slice V extension (seg i n tlv1)) (\<lambda>data.
     Inr (patch i data tlv1))))"

definition realloc_variable_len_extension :: "'v variable_len \<Rightarrow> 'v \<Rightarrow> bytes \<Rightarrow> bytes result" where
  "realloc_variable_len_extension V new_extension tlv =
     bindr (vl_packed_len V new_extension) (\<lambda>n.
     bindr (realloc (vl_type V) n tlv) (\<lambda>(tlv1, i).
     bindr (vl_pack_into_slice V new_extension (seg i n tlv1)) (\<lambda>data.
     Inr (patch i data tlv1))))"

definition try_get_new_account_len_for_variable_len_extension ::
    "account_type \<Rightarrow> 'v variable_len \<Rightarrow> 'v \<Rightarrow> bytes \<Rightarrow> nat result" where
  "try_get_new_account_len_for_variable_len_extension at V new_extension tlv =
     bindr (vl_packed_len V new_extension) (try_get_new_account_len_for_extension_len at (vl_type V) tlv)"

definition alloc_and_serialize ::
    "platform \<Rightarrow> 's base_state \<Rightarrow> 'v extension \<Rightarrow> 'v \<Rightarrow> bool \<Rightarrow> account_info \<Rightarrow> store \<Rightarrow> store result" where
  "alloc_and_serialize P S V new_extension overwrite account_info st =
     (let data = info_data st account_info; previous_account_len = length data in
      bindr (bindr (unpack_ref S data) (\<lambda>(_, tlv). try_get_new_account_len (bs_account_type S) V tlv)) (\<lambda>new_account_len.
      bindr (if new_account_len > previous_account_len then pl_resize P data new_account_len else Inr data) (\<lambda>data1.
      bindr (if previous_account_len \<le> BASE_ACCOUNT_LENGTH then set_account_type S data1 else Inr data1) (\<lambda>data2.
      bindr (unpack S data2) (\<lambda>state.
      bindr (init_extension (bs_account_type S) V overwrite (ps_tlv state)) (\<lambda>tlv.
      bindr (put_extension (bs_account_type S) V new_extension tlv) (\<lambda>tlv.
      Inr (set_data (ai_key account_info) (state_bytes S (state\<lparr>ps_tlv := tlv\<rparr>)) st))))))))"

definition alloc_and_serialize_variable_len_extension ::
    "platform \<Rightarrow> 's base_state \<Rightarrow> 'v variable_len \<Rightarrow> 'v \<Rightarrow> bool \<Rightarrow> account_info \<Rightarrow> store \<Rightarrow> store result" where
  "alloc_and_serialize_variable_len_extension P S V new_extension overwrite account_info st =
     (let data = info_data st account_info; previous_account_len = length data; at = bs_account_type S in
      bindr (unpack_ref S data) (\<lambda>(_, tlv).
      bindr (try_get_new_account_len_for_variable_len_extension at V new_extension tlv) (\<lambda>new_account_len.
      let extension_already_exists = is_ok (get_extension_bytes at (vl_type V) tlv) in
      if extension_already_exists \<and> \<not> overwrite then Inl (Custom ExtensionAlreadyInitialized)
      else if previous_account_len < new_account_len then
        bindr (pl_resize P data new_account_len) (\<lambda>data1.
        if extension_already_exists then
          bindr (unpack S data1) (\<lambda>state.
          bindr (realloc_variable_len_extension V new_extension (ps_tlv state)) (\<lambda>tlv.
          Inr (set_data (ai_key account_info) (state_bytes S (state\<lparr>ps_tlv := tlv\<rparr>)) st)))
        else
          bindr (if previous_account_len \<le> BASE_ACCOUNT_LENGTH then set_account_type S data1 else Inr data1) (\<lambda>data2.
          bindr (unpack S data2) (\<lambda>state.
          bindr (init_variable_len_extension at V new_extension False (ps_tlv state)) (\<lambda>tlv.
          Inr (set_data (ai_key account_info) (state_bytes S (state\<lparr>ps_tlv := tlv\<rparr>)) st)))))
      else
        bindr (unpack S data) (\<lambda>state.
        bindr (if extension_already_exists then realloc_variable_len_extension V new_extension (ps_tlv state)
               else init_variable_len_extension at V new_extension False (ps_tlv state)) (\<lambda>tlv.
        let data1 = state_bytes S (state\<lparr>ps_tlv := tlv\<rparr>) in
        bindr (ensure (new_account_len \<le> previous_account_len) AccountDataTooSmall) (\<lambda>_.
        let removed_bytes = previous_account_len - new_account_len in
        bindr (if removed_bytes > 0 then pl_resize P data1 new_account_len else Inr data1) (\<lambda>data2.
        Inr (set_data (ai_key account_info) data2 st))))))))"

section \<open>Variable lengths\<close>

definition variable_len_law :: "'v variable_len \<Rightarrow> bool" where
  "variable_len_law V \<longleftrightarrow>
     (\<forall>v n d d'. vl_packed_len V v = Inr n \<longrightarrow> length d = n \<longrightarrow> vl_pack_into_slice V v d = Inr d' \<longrightarrow>
        length d' = n \<and> vl_unpack_from_slice V d' = Inr v)"

lemma variable_len_lawD:
  assumes "variable_len_law V" and "vl_packed_len V v = Inr (length d)" and "vl_pack_into_slice V v d = Inr d'"
  shows "length d' = length d" "vl_unpack_from_slice V d' = Inr v"
  using assms unfolding variable_len_law_def by blast+

lemma realloc_length:
  assumes "realloc V n tlv = Inr (tlv', i)"
  shows "length tlv' = length tlv" "i + n \<le> length tlv"
proof -
  from assms obtain ix info where ix: "get_extension_indices V False tlv 0 = Inr ix"
    and info: "get_tlv_data_info tlv = Inr info"
    by (auto simp: realloc_def result_simps)
  define s where "s = type_start ix"
  have b: "ix = get_tlv_indices s" "s + 4 \<le> length tlv"
    using get_extension_indices_bounds [OF ix] by (auto simp: s_def)
  show "length tlv' = length tlv" "i + n \<le> length tlv"
    using assms b by (auto simp: realloc_def result_simps ix info Let_def copy_within_def split: if_splits)
qed

lemma init_variable_len_laid_out:
  assumes "init_variable_len_extension at V v ow tlv = Inr tlv'" and "variable_len_law V"
    and "laid_out es tlv" "vl_type V \<noteq> ExtUninitialized" "at \<noteq> AtUninitialized"
  obtains bs where "vl_packed_len V v = Inr (length bs)" "vl_unpack_from_slice V bs = Inr v" "length tlv' = length tlv"
    "laid_out (AList.update (vl_type V) bs es) tlv'" "get_account_type (vl_type V) = at"
proof -
  from assms(1) obtain n tlv1 i bs where n: "vl_packed_len V v = Inr n" and al: "alloc at (vl_type V) n ow tlv = Inr (tlv1, i)"
    and bs: "vl_pack_into_slice V v (seg i n tlv1) = Inr bs" and tlv': "tlv' = patch i bs tlv1"
    by (auto simp: init_variable_len_extension_def result_simps)
  obtain s where a: "get_account_type (vl_type V) = at" "i = s + 4" "s + 4 + n \<le> length tlv" "length tlv1 = length tlv"
    using alloc_Inr [of at "vl_type V" "replicate n 0" ow tlv tlv1 i] al assms(5) by (metis length_replicate)
  have bs': "length bs = n" "vl_unpack_from_slice V bs = Inr v"
    using variable_len_lawD [OF assms(2) _ bs] n a by (simp_all add: length_seg)
  have lo: "laid_out (AList.update (vl_type V) bs es) tlv'"
    unfolding tlv' by (rule alloc_laid_out(1) [OF assms(3-5), where ow = ow]) (simp only: bs'(1) al)
  have "length tlv' = length tlv"
    using a(3,4) bs'(1) by (simp add: tlv' a(2))
  with n bs' a(1) lo show thesis by (intro that) simp_all
qed

lemma realloc_variable_len_laid_out:
  assumes "realloc_variable_len_extension V v tlv = Inr tlv'" and "variable_len_law V"
    and "laid_out es tlv" "vl_type V \<noteq> ExtUninitialized" and "map_of es (vl_type V) = Some w"
  obtains bs where "vl_packed_len V v = Inr (length bs)" "vl_unpack_from_slice V bs = Inr v" "length tlv' = length tlv"
    "laid_out (AList.update (vl_type V) bs es) tlv'"
proof -
  from assms(1) obtain n tlv1 i bs where n: "vl_packed_len V v = Inr n" and al: "realloc (vl_type V) n tlv = Inr (tlv1, i)"
    and bs: "vl_pack_into_slice V v (seg i n tlv1) = Inr bs" and tlv': "tlv' = patch i bs tlv1"
    by (auto simp: realloc_variable_len_extension_def result_simps)
  note l = realloc_length [OF al]
  have bs': "length bs = n" "vl_unpack_from_slice V bs = Inr v"
    using variable_len_lawD [OF assms(2) _ bs] n l by (simp_all add: length_seg)
  have lo: "laid_out (AList.update (vl_type V) bs es) tlv'"
    unfolding tlv' by (rule realloc_laid_out [OF assms(3-5)]) (simp only: bs'(1) al)
  have "length tlv' = length tlv"
    using l bs'(1) by (simp add: tlv')
  with n bs' lo show thesis by (intro that) simp_all
qed

section \<open>Resized accounts\<close>

lemma resize_shape:
  assumes "resize_laws P" and "pl_resize P d n = Inr d'"
  shows "d' = take n d @ replicate (n - length d) 0"
  using assms unfolding resize_laws_def by blast

lemma resize_zeros:
  "resize_laws P \<Longrightarrow> pl_resize P d n = Inr d' \<Longrightarrow> length d \<le> n \<Longrightarrow> d' = d @ replicate (n - length d) 0"
  by (drule (1) resize_shape) simp

lemma laid_out_take: "laid_out es tlv \<Longrightarrow> length (entries_bytes es) \<le> n \<Longrightarrow> laid_out es (take n tlv)"
  by (auto simp: laid_out_def intro: exI [of _ "min (n - length (entries_bytes es)) k" for k])

lemma length_entries_update:
  assumes "wf_entries es"
  shows "length (entries_bytes (AList.update t v es)) + (case map_of es t of Some w \<Rightarrow> 4 + length w | None \<Rightarrow> 0) =
    length (entries_bytes es) + 4 + length v"
proof (cases "map_of es t")
  case None
  then have "t \<notin> fst ` set es" by (simp add: map_of_eq_None_iff)
  with None show ?thesis by (simp add: update_absent)
next
  case (Some w)
  from map_of_SomeD [OF this] obtain es1 es2 where es: "es = es1 @ (t, w) # es2" by (meson split_list)
  with assms have "t \<notin> fst ` set es1" by (auto simp: wf_entries_append)
  with Some es show ?thesis by (simp add: update_split)
qed

text \<open>The computed length is the one of the updated map, or two more where that is the length of a multisig.\<close>

lemma new_account_len_laid_out:
  assumes "try_get_new_account_len_for_extension_len at t tlv (length v) = Inr n"
    and "laid_out es tlv" "t \<noteq> ExtUninitialized" "get_account_type t = at"
  shows "BASE_ACCOUNT_LENGTH + 1 + length (entries_bytes (AList.update t v es)) \<le> n" "n \<noteq> MULTISIG_LEN"
proof -
  let ?cur = "case map_of es t of Some w \<Rightarrow> 4 + length w | None \<Rightarrow> 0"
  have wf: "wf_entries es" using assms(2) by (simp add: laid_out_def)
  have info: "get_tlv_data_info tlv = Inr \<lparr>tdi_extension_types = map fst es, tdi_used_len = length (entries_bytes es)\<rparr>"
    using info_laid_out assms(2) by (auto simp: laid_out_def)
  have cur: "(case get_extension_bytes at t tlv of Inl _ \<Rightarrow> 0 | Inr x \<Rightarrow> add_type_and_length_to_len (length x)) = ?cur"
  proof (cases "map_of es t")
    case None
    then obtain e where "get_extension_bytes at t tlv = Inl e"
      using get_laid_out [OF assms(2,3), of at] by (cases "get_extension_bytes at t tlv") auto
    with None show ?thesis by simp
  next
    case (Some w)
    then show ?thesis
      using get_laid_out [OF assms(2,3), of at w] assms(4) by (simp add: add_type_and_length_to_len_def)
  qed
  have "n = adjust_len_for_multisig (length (entries_bytes es) + BASE_ACCOUNT_AND_TYPE_LENGTH - ?cur + 4 + length v)"
    using assms(1) by (simp add: try_get_new_account_len_for_extension_len_def info cur add_type_and_length_to_len_def eval_nat_numeral)
  moreover have "?cur \<le> length (entries_bytes es)"
    using length_entries_update [OF wf, of t "[]"] length_entries_update [OF wf, of t v]
    by (cases "map_of es t") (auto simp: AList.update_conv' dest!: map_of_SomeD split_list)
  ultimately show "BASE_ACCOUNT_LENGTH + 1 + length (entries_bytes (AList.update t v es)) \<le> n" "n \<noteq> MULTISIG_LEN"
    using length_entries_update [OF wf, of t v]
    by (auto simp: adjust_len_for_multisig_def BASE_ACCOUNT_AND_TYPE_LENGTH_def BASE_ACCOUNT_LENGTH_def ACCOUNT_LEN_def MULTISIG_LEN_def)
qed

text \<open>Whatever fits in the buffer can be written.\<close>

lemma realloc_defined:
  assumes lo: "laid_out es tlv" and w: "map_of es V = Some w" and v: "length v < 2 ^ 16"
    and room: "length (entries_bytes (AList.update V v es)) \<le> length tlv"
  shows "\<exists>tlv1 i. realloc V (length v) tlv = Inr (tlv1, i)"
proof -
  from range_laid_out [OF lo w, of False] obtain es1 es2 n where
    s: "es = es1 @ (V, w) # es2" "V \<notin> fst ` set es1" "tlv = entries_bytes es @ replicate n 0" "wf_entries es"
      "get_extension_indices V False tlv 0 = Inr (get_tlv_indices (length (entries_bytes es1)))"
      "read_u16 tlv (length (entries_bytes es1) + 2) = length w"
    by metis
  have info: "get_tlv_data_info tlv = Inr \<lparr>tdi_extension_types = map fst es, tdi_used_len = length (entries_bytes es)\<rparr>"
    using info_laid_out [OF s(4)] s(3) by simp
  have "length (entries_bytes es) + length v \<le> length w + length tlv"
    using length_entries_update [OF s(4), of V v] w room by simp
  moreover have "length (entries_bytes es) = length (entries_bytes es1) + 4 + length w + length (entries_bytes es2)"
    "length (entries_bytes es) \<le> length tlv" by (simp_all add: s(1,3))
  ultimately show ?thesis
    using s(5,6) v by (simp add: realloc_def info Let_def length_try_from_def copy_within_def)
qed

lemma variable_len_written:
  assumes V: "vl_packed_len V v = Inr (length bs)" "\<And>d. length d = length bs \<Longrightarrow> vl_pack_into_slice V v d = Inr bs"
    and t: "vl_type V \<noteq> ExtUninitialized" "get_account_type (vl_type V) = at" "at \<noteq> AtUninitialized"
    and es: "laid_out es tlv" "length bs < 2 ^ 16" "length (entries_bytes (AList.update (vl_type V) bs es)) \<le> length tlv"
  shows "map_of es (vl_type V) = Some w \<Longrightarrow> \<exists>tlv'. realloc_variable_len_extension V v tlv = Inr tlv' \<and> length tlv' = length tlv"
    and "map_of es (vl_type V) = None \<Longrightarrow> \<exists>tlv'. init_variable_len_extension at V v False tlv = Inr tlv' \<and> length tlv' = length tlv"
proof -
  have wf: "wf_entries es" using es(1) by (simp add: laid_out_def)
  assume w: "map_of es (vl_type V) = Some w"
  from realloc_defined [OF es(1) w es(2,3)] obtain tlv1 i where r: "realloc (vl_type V) (length bs) tlv = Inr (tlv1, i)"
    by blast
  with V realloc_length [OF r] show "\<exists>tlv'. realloc_variable_len_extension V v tlv = Inr tlv' \<and> length tlv' = length tlv"
    by (simp add: realloc_variable_len_extension_def length_seg)
next
  have wf: "wf_entries es" using es(1) by (simp add: laid_out_def)
  assume w: "map_of es (vl_type V) = None"
  then have "length (entries_bytes es) + 4 + length bs \<le> length tlv"
    using length_entries_update [OF wf, of "vl_type V" bs] es(3) by simp
  from alloc_defined_free [OF es(1) t(1,2) w this es(2), of False] obtain tlv1 i
    where r: "alloc at (vl_type V) (length bs) False tlv = Inr (tlv1, i)" by blast
  then obtain k where "i = k + 4" "k + 4 + length bs \<le> length tlv" "length tlv1 = length tlv"
    using alloc_Inr [OF r t(3)] by metis
  with r V show "\<exists>tlv'. init_variable_len_extension at V v False tlv = Inr tlv' \<and> length tlv' = length tlv"
    by (simp add: init_variable_len_extension_def length_seg)
qed

context base_contract
begin

lemma set_account_type_shape:
  assumes "set_account_type S x = Inr y" and "bs_size S \<le> BASE_ACCOUNT_LENGTH"
  shows "take (bs_size S) y = take (bs_size S) x" "drop (BASE_ACCOUNT_LENGTH + 1) y = drop (BASE_ACCOUNT_LENGTH + 1) x"
proof -
  let ?i = "BASE_ACCOUNT_LENGTH - bs_size S"
  let ?y = "take (bs_size S) x @ (drop (bs_size S) x)[?i := account_type_u8 (bs_account_type S)]"
  have le: "bs_size S \<le> length x" using assms(1)
    by (auto simp: set_account_type_def check_min_len_and_not_multisig_def split: if_splits)
  have "y = x \<or> y = ?y"
    using assms(1) by (auto simp: set_account_type_def Let_def result_simps type_and_tlv_indices_Some type_and_tlv_indices_None
        split: if_splits option.splits)
  moreover have "drop (BASE_ACCOUNT_LENGTH + 1) ?y = drop (BASE_ACCOUNT_LENGTH + 1) x"
    using le assms(2) by (simp add: drop_update_cancel)
  ultimately show "take (bs_size S) y = take (bs_size S) x" "drop (BASE_ACCOUNT_LENGTH + 1) y = drop (BASE_ACCOUNT_LENGTH + 1) x"
    using le by auto
qed

lemma grown_state:
  assumes "unpack S d = Inr s" "bs_size S \<le> BASE_ACCOUNT_LENGTH"
    and "d2 = d @ replicate (n - length d) 0 \<or> set_account_type S (d @ replicate (n - length d) 0) = Inr d2"
    and "unpack S d2 = Inr s2"
  shows "ps_base s2 = ps_base s" "\<exists>k. ps_tlv s2 = ps_tlv s @ replicate k 0"
proof -
  let ?d = "d @ replicate (n - length d) 0"
  have le: "bs_size S \<le> length d"
    using assms(1) by (auto simp: unpack_def check_min_len_and_not_multisig_def split: if_splits)
  have "take (bs_size S) d2 = take (bs_size S) ?d" "drop (BASE_ACCOUNT_LENGTH + 1) d2 = drop (BASE_ACCOUNT_LENGTH + 1) ?d"
    using assms(3) set_account_type_shape [of ?d d2] assms(2) by auto
  then show "ps_base s2 = ps_base s" "\<exists>k. ps_tlv s2 = ps_tlv s @ replicate k 0"
    using unpack_shape(1,2) [OF assms(1,2)] unpack_shape(1,2) [OF assms(4,2)] le by (simp, metis drop_append drop_replicate)
qed

lemma unpack_take:
  assumes "unpack S d = Inr s" and "bs_size S \<le> BASE_ACCOUNT_LENGTH"
    and n: "BASE_ACCOUNT_LENGTH < n" "n \<le> length d" "n \<noteq> MULTISIG_LEN"
  shows "unpack S (take n d) = Inr (s\<lparr>ps_tlv := take (n - (BASE_ACCOUNT_LENGTH + 1)) (ps_tlv s)\<rparr>)" (is "_ = Inr ?s")
proof -
  have w: "wf_state S s" "state_bytes S s = d" using assms(1) by (simp_all add: unpack_iff)
  have p: "ps_padding s = replicate (BASE_ACCOUNT_LENGTH - bs_size S) 0" "ps_account_type s = [account_type_u8 (bs_account_type S)]"
    using w n assms(2) length_state_bytes [of s] by (auto simp: wf_state_def layout_ok_def)
  have t: "state_bytes S ?s = take n d"
    using n assms(2) unfolding w(2) [symmetric] by (auto simp: state_bytes_def p length_to_bytes take_Cons' simp flip: diff_Suc_eq_diff_pred)
  moreover from t n have "length (state_bytes S ?s) = n" by simp
  with w(1) p n have "wf_state S ?s" by (simp add: wf_state_def layout_ok_def)
  ultimately show ?thesis by (simp add: unpack_iff)
qed

text \<open>What \<open>alloc_and_serialize\<close> leaves: the same base state, and the buffer as the updated map.\<close>

lemma alloc_and_serialize_Inr:
  assumes run: "alloc_and_serialize P S V v ow i st = Inr st'" and laws: "resize_laws P" "extension_contract V"
    and size: "bs_size S \<le> BASE_ACCOUNT_LENGTH" "bs_account_type S \<noteq> AtUninitialized"
  obtains s s' where "unpack S (info_data st i) = Inr s"
    "st' = set_data (ai_key i) (state_bytes S s') st" "unpack S (state_bytes S s') = Inr s'" "ps_base s' = ps_base s"
    "get_extension (bs_account_type S) V (ps_tlv s') = Inr v"
    "\<And>es. laid_out es (ps_tlv s) \<Longrightarrow> laid_out (AList.update (vx_type V) (vx_to_bytes V v) es) (ps_tlv s')"
proof -
  let ?d = "info_data st i" and ?at = "bs_account_type S"
  from run obtain s n d1 d2 s2 tlv tlv' where s: "unpack S ?d = Inr s"
    and d1: "(if n > length ?d then pl_resize P ?d n else Inr ?d) = Inr d1"
    and d2: "(if length ?d \<le> BASE_ACCOUNT_LENGTH then set_account_type S d1 else Inr d1) = Inr d2"
    and s2: "unpack S d2 = Inr s2" and tlv: "init_extension ?at V ow (ps_tlv s2) = Inr tlv"
    and tlv': "put_extension ?at V v tlv = Inr tlv'" and st': "st' = set_data (ai_key i) (state_bytes S (s2\<lparr>ps_tlv := tlv'\<rparr>)) st"
    by (auto simp: alloc_and_serialize_def Let_def result_simps unpack_ref_eq)
  have "d1 = ?d @ replicate (n - length ?d) 0"
    using d1 by (auto split: if_splits dest: resize_zeros [OF laws(1)])
  then have "d2 = ?d @ replicate (n - length ?d) 0 \<or> set_account_type S (?d @ replicate (n - length ?d) 0) = Inr d2"
    using d2 by (auto split: if_splits)
  note g = grown_state [OF s size(1) this s2]
  from g(2) obtain k where k: "ps_tlv s2 = ps_tlv s @ replicate k 0" ..
  let ?s = "s2\<lparr>ps_tlv := tlv'\<rparr>"
  note len = extension_contract.init_length [OF laws(2) tlv size(2)] put_extension_length [OF tlv']
  have "bs_is_initialized S (ps_base s2)" using s2 by (simp add: unpack_iff wf_state_def)
  then have u: "unpack S (state_bytes S ?s) = Inr ?s"
    using unpack_update [OF s2, of "ps_base s2" tlv'] len by simp
  have v: "get_extension ?at V (ps_tlv ?s) = Inr v"
    using extension_contract.put_get_same [OF laws(2) tlv' size(2)] by simp
  have "laid_out (AList.update (vx_type V) (vx_to_bytes V v) es) tlv'" if "laid_out es (ps_tlv s)" for es
  proof -
    have "laid_out es (ps_tlv s2)" unfolding k using that by (rule laid_out_append_zeros)
    note l = extension_contract.init_laid_out [OF laws(2) tlv size(2) this]
    have "laid_out (AList.update (vx_type V) (vx_to_bytes V v) (AList.update (vx_type V) (vx_to_bytes V (vx_default V)) es)) tlv'"
      using put_laid_out(1) [OF l extension_contract.type_not_uninitialized [OF laws(2)]] tlv' by (simp add: put_extension_def)
    then show ?thesis by simp
  qed
  with s st' u g(1) v show thesis by (intro that [of s ?s]) simp_all
qed

text \<open>The same for a value of variable length, which may shrink the account as well.\<close>

lemma alloc_and_serialize_variable_len_Inr:
  assumes run: "alloc_and_serialize_variable_len_extension P S V v ow i st = Inr st'"
    and laws: "resize_laws P" "variable_len_law V" "vl_type V \<noteq> ExtUninitialized"
    and size: "bs_size S \<le> BASE_ACCOUNT_LENGTH" "bs_account_type S \<noteq> AtUninitialized" "get_account_type (vl_type V) = bs_account_type S"
    and s: "unpack S (info_data st i) = Inr s" and es: "laid_out es (ps_tlv s)"
  obtains s' bs where "st' = set_data (ai_key i) (state_bytes S s') st" "unpack S (state_bytes S s') = Inr s'"
    "ps_base s' = ps_base s" "vl_unpack_from_slice V bs = Inr v" "laid_out (AList.update (vl_type V) bs es) (ps_tlv s')"
    "map_of es (vl_type V) = None \<or> ow"
proof -
  let ?d = "info_data st i" and ?at = "bs_account_type S" and ?old = "is_ok (get_extension_bytes (bs_account_type S) (vl_type V) (ps_tlv s))"
  have old: "?old \<longleftrightarrow> (\<exists>w. map_of es (vl_type V) = Some w)"
    using get_laid_out [OF es laws(3), of ?at] size(3) by (cases "get_extension_bytes ?at (vl_type V) (ps_tlv s)") auto
  from run obtain n where n: "try_get_new_account_len_for_variable_len_extension ?at V v (ps_tlv s) = Inr n"
    and ow: "map_of es (vl_type V) = None \<or> ow"
    by (cases "map_of es (vl_type V)") (auto simp: alloc_and_serialize_variable_len_extension_def Let_def result_simps unpack_ref_eq s old
        split: if_splits)
  define wr where "wr tlv = (if ?old then realloc_variable_len_extension V v tlv
    else init_variable_len_extension ?at V v False tlv)" for tlv
  have wr: thesis if u: "unpack S d2 = Inr s2" and w: "wr (ps_tlv s2) = Inr tlv" and b: "ps_base s2 = ps_base s" "laid_out es (ps_tlv s2)"
    and fin: "\<And>s2' bs. unpack S (state_bytes S s2') = Inr s2' \<Longrightarrow> ps_base s2' = ps_base s \<Longrightarrow> vl_packed_len V v = Inr (length bs) \<Longrightarrow>
      vl_unpack_from_slice V bs = Inr v \<Longrightarrow> s2' = s2\<lparr>ps_tlv := tlv\<rparr> \<Longrightarrow> length tlv = length (ps_tlv s2) \<Longrightarrow>
      laid_out (AList.update (vl_type V) bs es) tlv \<Longrightarrow> thesis" for d2 s2 tlv thesis
  proof -
    obtain bs where bs: "vl_packed_len V v = Inr (length bs)" "vl_unpack_from_slice V bs = Inr v" "length tlv = length (ps_tlv s2)"
      "laid_out (AList.update (vl_type V) bs es) tlv"
    proof (cases ?old)
      case True
      then obtain w where "map_of es (vl_type V) = Some w" using old by blast
      with True w show ?thesis by (auto simp: wr_def intro: that elim: realloc_variable_len_laid_out [OF _ laws(2) b(2) laws(3)])
    next
      case False
      with w show ?thesis by (auto simp: wr_def intro: that elim: init_variable_len_laid_out [OF _ laws(2) b(2) laws(3) size(2)])
    qed
    have "bs_is_initialized S (ps_base s2)" using u by (simp add: unpack_iff wf_state_def)
    then have "unpack S (state_bytes S (s2\<lparr>ps_tlv := tlv\<rparr>)) = Inr (s2\<lparr>ps_tlv := tlv\<rparr>)"
      using unpack_update [OF u, of "ps_base s2" tlv] bs(3) by simp
    then show ?thesis using bs b(1) by (intro fin) simp_all
  qed
  show thesis
  proof (cases "length ?d < n")
    case True
    with run n obtain d1 d2 s2 tlv where d1: "pl_resize P ?d n = Inr d1"
      and d2: "(if \<not> ?old \<and> length ?d \<le> BASE_ACCOUNT_LENGTH then set_account_type S d1 else Inr d1) = Inr d2"
      and s2: "unpack S d2 = Inr s2" and tlv: "wr (ps_tlv s2) = Inr tlv"
      and st': "st' = set_data (ai_key i) (state_bytes S (s2\<lparr>ps_tlv := tlv\<rparr>)) st"
      by (cases ?old; cases ow; cases "length ?d \<le> BASE_ACCOUNT_LENGTH")
        (auto simp: alloc_and_serialize_variable_len_extension_def Let_def result_simps unpack_ref_eq s wr_def)
    have "d1 = ?d @ replicate (n - length ?d) 0" using d1 True resize_zeros [OF laws(1)] by simp
    then have "d2 = ?d @ replicate (n - length ?d) 0 \<or> set_account_type S (?d @ replicate (n - length ?d) 0) = Inr d2"
      using d2 by (auto split: if_splits)
    note g = grown_state [OF s size(1) this s2]
    have "laid_out es (ps_tlv s2)" using g(2) laid_out_append_zeros [OF es] by auto
    from s2 tlv g(1) this show thesis
      by (rule wr) (rule that [of "s2\<lparr>ps_tlv := tlv\<rparr>"], simp_all add: st' ow)
  next
    case False
    with run n obtain tlv d2 where tlv: "wr (ps_tlv s) = Inr tlv"
      and d2: "(if length ?d - n > 0 then pl_resize P (state_bytes S (s\<lparr>ps_tlv := tlv\<rparr>)) n
        else Inr (state_bytes S (s\<lparr>ps_tlv := tlv\<rparr>))) = Inr d2"
      and st': "st' = set_data (ai_key i) d2 st"
      by (cases ?old; cases ow; cases "n < length ?d") (auto simp: alloc_and_serialize_variable_len_extension_def Let_def result_simps unpack_ref_eq s wr_def
        split: if_splits)
    from s tlv refl es show thesis
    proof (rule wr)
      fix s2 bs assume u: "unpack S (state_bytes S s2) = Inr s2" "ps_base s2 = ps_base s" and p: "vl_packed_len V v = Inr (length bs)"
        "vl_unpack_from_slice V bs = Inr v" and s2: "s2 = s\<lparr>ps_tlv := tlv\<rparr>" "length tlv = length (ps_tlv s)"
        and lo: "laid_out (AList.update (vl_type V) bs es) tlv"
      let ?n = "n - (BASE_ACCOUNT_LENGTH + 1)"
      have len: "length (state_bytes S s2) = length ?d"
        using length_state_bytes_update [OF s, of tlv "ps_base s"] s2 by simp
      have "d2 = take n (state_bytes S s2)"
        using d2 False len by (auto simp: s2(1) split: if_splits dest!: resize_shape [OF laws(1)])
      moreover have nl: "BASE_ACCOUNT_LENGTH + 1 + length (entries_bytes (AList.update (vl_type V) bs es)) \<le> n" "n \<noteq> MULTISIG_LEN"
        using new_account_len_laid_out [OF _ es laws(3) size(3), of bs n] n p(1)
        by (simp_all add: try_get_new_account_len_for_variable_len_extension_def)
      moreover have t: "unpack S (take n (state_bytes S s2)) = Inr (s2\<lparr>ps_tlv := take ?n (ps_tlv s2)\<rparr>)"
        using nl False len by (intro unpack_take [OF u(1) size(1)]) simp_all
      moreover from nl(1) have "laid_out (AList.update (vl_type V) bs es) (take ?n tlv)"
        by (intro laid_out_take [OF lo]) simp
      ultimately show thesis
        using that [of "s2\<lparr>ps_tlv := take ?n (ps_tlv s2)\<rparr>" bs] st' u(2) p(2) s2 ow unpack_bytes [OF t] by simp
    qed
  qed
qed

text \<open>
  Neither fails for an account that already has an extension buffer: it is resized to whatever the
  value needs, so only the runtime's limits can stop it.
\<close>

lemma unpack_grow:
  assumes "unpack S d = Inr s" and "bs_size S \<le> BASE_ACCOUNT_LENGTH" and "BASE_ACCOUNT_LENGTH < length d"
    and "length d + k \<noteq> MULTISIG_LEN"
  shows "unpack S (d @ replicate k 0) = Inr (s\<lparr>ps_tlv := ps_tlv s @ replicate k 0\<rparr>)" (is "_ = Inr ?s")
proof -
  have w: "wf_state S s" "state_bytes S s = d" using assms(1) by (simp_all add: unpack_iff)
  have t: "state_bytes S ?s = d @ replicate k 0" unfolding w(2) [symmetric] by (simp add: state_bytes_def)
  moreover have len: "length (state_bytes S ?s) = length d + k" by (simp add: t)
  have "wf_state S ?s"
    using w assms(2-4) length_state_bytes [of s] by (auto simp: wf_state_def layout_ok_def len)
  ultimately show ?thesis by (simp add: unpack_iff)
qed

lemma long_tlv:
  assumes "unpack S d = Inr s" and "bs_size S \<le> BASE_ACCOUNT_LENGTH" and "BASE_ACCOUNT_LENGTH < length d"
  shows "length (ps_tlv s) = length d - (BASE_ACCOUNT_LENGTH + 1)"
  using unpack_shape(1) [OF assms(1,2)] by (metis length_drop)

lemma new_account_len_defined:
  assumes "laid_out es tlv" and "t \<noteq> ExtUninitialized" and "get_account_type t = at"
  obtains n where "try_get_new_account_len_for_extension_len at t tlv (length v) = Inr n"
    "BASE_ACCOUNT_LENGTH + 1 + length (entries_bytes (AList.update t v es)) \<le> n" "n \<noteq> MULTISIG_LEN"
proof -
  from assms(1) have "get_tlv_data_info tlv = Inr \<lparr>tdi_extension_types = map fst es, tdi_used_len = length (entries_bytes es)\<rparr>"
    using info_laid_out by (auto simp: laid_out_def)
  then obtain n where "try_get_new_account_len_for_extension_len at t tlv (length v) = Inr n"
    by (simp add: try_get_new_account_len_for_extension_len_def Let_def)
  with new_account_len_laid_out [OF this assms] show thesis by (intro that)
qed

lemma alloc_and_serialize_defined:
  assumes s: "unpack S (info_data st i) = Inr s" and es: "laid_out es (ps_tlv s)" "map_of es (vx_type V) = None"
    and V: "extension_contract V" "get_account_type (vx_type V) = bs_account_type S" "vx_len V < 2 ^ 16"
    and size: "bs_size S \<le> BASE_ACCOUNT_LENGTH" "bs_account_type S \<noteq> AtUninitialized" "BASE_ACCOUNT_LENGTH < length (info_data st i)"
    and grow: "\<And>n. length (info_data st i) < n \<Longrightarrow>
      pl_resize P (info_data st i) n = Inr (info_data st i @ replicate (n - length (info_data st i)) 0)"
  shows "\<exists>st'. alloc_and_serialize P S V v ow i st = Inr st'"
proof -
  let ?d = "info_data st i" and ?at = "bs_account_type S" and ?v = "vx_to_bytes V (vx_default V)"
  note t = extension_contract.type_not_uninitialized [OF V(1)]
  have len: "length ?v = vx_len V" using V(1) by (simp add: extension_contract_def pod_codec_def)
  obtain n where n: "try_get_new_account_len ?at V (ps_tlv s) = Inr n"
    "BASE_ACCOUNT_LENGTH + 1 + length (entries_bytes (AList.update (vx_type V) ?v es)) \<le> n" "n \<noteq> MULTISIG_LEN"
    using new_account_len_defined [OF es(1) t V(2), of ?v] by (auto simp: try_get_new_account_len_def len)
  define k where "k = n - length ?d"
  let ?s = "s\<lparr>ps_tlv := ps_tlv s @ replicate k 0\<rparr>"
  have k: "length ?d + k \<noteq> MULTISIG_LEN" "n \<le> length ?d + k"
    using n(3) unpack_shape(4) [OF s size(1)] by (auto simp: k_def)
  note u = unpack_grow [OF s size(1,3) k(1)]
  have "length (ps_tlv ?s) = length ?d + k - (BASE_ACCOUNT_LENGTH + 1)"
    using long_tlv [OF s size(1,3)] size(3) by simp
  moreover have wf: "wf_entries es" using es(1) by (simp add: laid_out_def)
  ultimately have room: "length (entries_bytes es) + 4 + length ?v \<le> length (ps_tlv ?s)"
    using length_entries_update [OF wf, of "vx_type V" ?v] es(2) n(2) k(2) by simp
  have "laid_out es (ps_tlv ?s)" using laid_out_append_zeros [OF es(1)] by simp
  then obtain tlv where tlv: "init_extension ?at V ow (ps_tlv ?s) = Inr tlv"
    using alloc_defined_free [OF _ t V(2) es(2) room, of ow] V(3) by (auto simp: init_extension_def len)
  obtain tlv' where tlv': "put_extension ?at V v tlv = Inr tlv'"
    using extension_contract.init_put_defined [OF V(1) tlv size(2)] by blast
  have "(if n > length ?d then pl_resize P ?d n else Inr ?d) = Inr (?d @ replicate k 0)"
    using grow by (simp add: k_def)
  then show ?thesis
    using s n(1) size(3) u tlv tlv'
    by (simp add: alloc_and_serialize_def Let_def unpack_ref_eq)
qed

lemma alloc_and_serialize_variable_len_defined:
  assumes s: "unpack S (info_data st i) = Inr s" and es: "laid_out es (ps_tlv s)" "map_of es (vl_type V) = None \<or> ow"
    and V: "vl_packed_len V v = Inr (length bs)" "\<And>d. length d = length bs \<Longrightarrow> vl_pack_into_slice V v d = Inr bs"
    and t: "vl_type V \<noteq> ExtUninitialized" "get_account_type (vl_type V) = bs_account_type S" "length bs < 2 ^ 16"
    and size: "bs_size S \<le> BASE_ACCOUNT_LENGTH" "bs_account_type S \<noteq> AtUninitialized" "BASE_ACCOUNT_LENGTH < length (info_data st i)"
    and grow: "\<And>n. length (info_data st i) < n \<Longrightarrow>
      pl_resize P (info_data st i) n = Inr (info_data st i @ replicate (n - length (info_data st i)) 0)"
    and shrink: "\<And>d n. n < length d \<Longrightarrow> \<exists>d'. pl_resize P d n = Inr d'"
  shows "\<exists>st'. alloc_and_serialize_variable_len_extension P S V v ow i st = Inr st'"
proof -
  let ?d = "info_data st i" and ?at = "bs_account_type S" and ?old = "is_ok (get_extension_bytes (bs_account_type S) (vl_type V) (ps_tlv s))"
  have old: "?old \<longleftrightarrow> (\<exists>w. map_of es (vl_type V) = Some w)"
    using get_laid_out [OF es(1) t(1), of ?at] t(2) by (cases "get_extension_bytes ?at (vl_type V) (ps_tlv s)") auto
  obtain n where n: "try_get_new_account_len_for_variable_len_extension ?at V v (ps_tlv s) = Inr n"
    "BASE_ACCOUNT_LENGTH + 1 + length (entries_bytes (AList.update (vl_type V) bs es)) \<le> n" "n \<noteq> MULTISIG_LEN"
    using new_account_len_defined [OF es(1) t(1,2), of bs] by (auto simp: try_get_new_account_len_for_variable_len_extension_def V(1))
  define k where "k = n - length ?d"
  let ?s = "s\<lparr>ps_tlv := ps_tlv s @ replicate k 0\<rparr>"
  have k: "length ?d + k \<noteq> MULTISIG_LEN" "n \<le> length ?d + k"
    using n(3) unpack_shape(4) [OF s size(1)] by (auto simp: k_def)
  note u = unpack_grow [OF s size(1,3) k(1)]
  have "length (ps_tlv ?s) = length ?d + k - (BASE_ACCOUNT_LENGTH + 1)"
    using long_tlv [OF s size(1,3)] size(3) by simp
  then have room: "length (entries_bytes (AList.update (vl_type V) bs es)) \<le> length (ps_tlv ?s)"
    using n(2) k(2) by simp
  have "laid_out es (ps_tlv ?s)" using laid_out_append_zeros [OF es(1)] by simp
  note wr = variable_len_written [OF V t(1,2) size(2) this t(3) room]
  show ?thesis
  proof (cases ?old)
    case True
    then obtain w where w: "map_of es (vl_type V) = Some w" using old by blast
    with es(2) wr(1) obtain tlv where tlv: "realloc_variable_len_extension V v (ps_tlv ?s) = Inr tlv" "ow" "length tlv = length (ps_tlv ?s)" by auto
    show ?thesis
    proof (cases "length ?d < n")
      case True
      with grow [OF True] u tlv s n(1) \<open>?old\<close> show ?thesis
        by (simp add: alloc_and_serialize_variable_len_extension_def Let_def unpack_ref_eq k_def)
    next
      case False
      then have k0: "k = 0" by (simp add: k_def)
      have "length (state_bytes S (s\<lparr>ps_tlv := tlv\<rparr>)) = length ?d"
        using length_state_bytes_update [OF s, of tlv "ps_base s"] tlv(3) k0 by simp
      with False tlv s n(1) \<open>?old\<close> k0 shrink [of n "state_bytes S (s\<lparr>ps_tlv := tlv\<rparr>)"] show ?thesis
        by (auto simp: alloc_and_serialize_variable_len_extension_def Let_def unpack_ref_eq)
    qed
  next
    case False
    then have w: "map_of es (vl_type V) = None" using old by (cases "map_of es (vl_type V)") auto
    with wr(2) obtain tlv where tlv: "init_variable_len_extension ?at V v False (ps_tlv ?s) = Inr tlv"
      "length tlv = length (ps_tlv ?s)" by auto
    show ?thesis
    proof (cases "length ?d < n")
      case True
      with grow [OF True] u tlv s n(1) \<open>\<not> ?old\<close> size(3) show ?thesis
        by (simp add: alloc_and_serialize_variable_len_extension_def Let_def unpack_ref_eq k_def)
    next
      case False
      then have k0: "k = 0" by (simp add: k_def)
      have "length (state_bytes S (s\<lparr>ps_tlv := tlv\<rparr>)) = length ?d"
        using length_state_bytes_update [OF s, of tlv "ps_base s"] tlv(2) k0 by simp
      with False tlv s n(1) \<open>\<not> ?old\<close> k0 shrink [of n "state_bytes S (s\<lparr>ps_tlv := tlv\<rparr>)"] show ?thesis
        by (auto simp: alloc_and_serialize_variable_len_extension_def Let_def unpack_ref_eq)
    qed
  qed
qed

end

end
