(* ===== verification/Token_Group.thy ===== *)
theory Token_Group
  imports Alloc_Serialize Mint_Config
begin

text \<open>
  The processor of the token-group interface (program/src/extension/token_group/processor.rs): a mint is
  made a group, and other mints become numbered members of it. The types \<open>TokenGroup\<close> and
  \<open>TokenGroupMember\<close>, their operations and the format of the instructions belong to another crate: they
  are the fields of the record \<open>group_interface\<close>, and the program's own \<open>impl Extension\<close> makes
  extensions of the two types.
\<close>

section \<open>Model\<close>

datatype token_group_instruction =
    InitializeGroup address u64
  | UpdateGroupMaxSize u64
  | UpdateGroupAuthority address
  | InitializeMember

record ('g, 'm) group_interface =
  gi_unpack :: "bytes \<Rightarrow> token_group_instruction option"
  gi_group_to_bytes :: "'g \<Rightarrow> bytes"
  gi_group_of_bytes :: "bytes \<Rightarrow> 'g"
  gi_group_default :: 'g
  gi_member_to_bytes :: "'m \<Rightarrow> bytes"
  gi_member_of_bytes :: "bytes \<Rightarrow> 'm"
  gi_member_default :: 'm
  gi_group_new :: "address \<Rightarrow> address \<Rightarrow> u64 \<Rightarrow> 'g"
  gi_update_authority :: "'g \<Rightarrow> address"
  gi_set_update_authority :: "address \<Rightarrow> 'g \<Rightarrow> 'g"
  gi_update_max_size :: "u64 \<Rightarrow> 'g \<Rightarrow> 'g result"
  gi_increment_size :: "'g \<Rightarrow> (u64 \<times> 'g) result"
  gi_member_new :: "address \<Rightarrow> address \<Rightarrow> u64 \<Rightarrow> 'm"

text \<open>The two extensions; their lengths are the ones \<open>ExtensionType\<close> reserves for them.\<close>

definition token_group_ext :: "platform \<Rightarrow> ('g, 'm) group_interface \<Rightarrow> 'g extension" where
  "token_group_ext P G =
     \<lparr>vx_type = TokenGroup, vx_len = pl_token_group_len P, vx_to_bytes = gi_group_to_bytes G,
      vx_of_bytes = gi_group_of_bytes G, vx_default = gi_group_default G\<rparr>"

definition token_group_member_ext :: "platform \<Rightarrow> ('g, 'm) group_interface \<Rightarrow> 'm extension" where
  "token_group_member_ext P G =
     \<lparr>vx_type = TokenGroupMember, vx_len = pl_token_group_member_len P, vx_to_bytes = gi_member_to_bytes G,
      vx_of_bytes = gi_member_of_bytes G, vx_default = gi_member_default G\<rparr>"

definition check_group_update_authority :: "platform \<Rightarrow> account_info \<Rightarrow> address \<Rightarrow> unit result" where
  "check_group_update_authority P update_authority_info expected_update_authority =
     bindr (ensure (ai_is_signer update_authority_info) MissingRequiredSignature) (\<lambda>_.
     bindr (ok_or (pl_option_from_maybe_null P expected_update_authority) (GroupError ImmutableGroup)) (\<lambda>update_authority.
     ensure (update_authority = ai_key update_authority_info) (GroupError GroupIncorrectUpdateAuthority)))"

text \<open>
  The scope both initialisers open on the mint, and the initialiser of metadata as well: the mint
  authority signs, and the mint has the pointer extension \<open>V\<close>.
\<close>

definition check_mint_for_interface ::
    "platform \<Rightarrow> account_info \<Rightarrow> account_info \<Rightarrow> program_error \<Rightarrow> 'v extension \<Rightarrow> store \<Rightarrow> unit result" where
  "check_mint_for_interface P mint_info mint_authority_info incorrect_mint_authority V st =
     bindr (check_program_account (info_owner st mint_info)) (\<lambda>_.
     bindr (unpack_ref (mint_base P) (info_data st mint_info)) (\<lambda>(base, tlv).
     bindr (ensure (ai_is_signer mint_authority_info) MissingRequiredSignature) (\<lambda>_.
     bindr (ensure (m_mint_authority base = coption_some (ai_key mint_authority_info)) incorrect_mint_authority) (\<lambda>_.
     ensure (is_ok (get_extension AtMint V tlv)) (Custom InvalidExtensionCombination)))))"

definition process_initialize_group ::
    "('g, 'm) group_interface \<Rightarrow> platform \<Rightarrow> account_info list \<Rightarrow> address \<Rightarrow> u64 \<Rightarrow> store \<Rightarrow> store result" where
  "process_initialize_group G P accounts update_authority max_size st =
     bindr (next_account_info accounts) (\<lambda>(group_info, it).
     bindr (next_account_info it) (\<lambda>(mint_info, it).
     bindr (next_account_info it) (\<lambda>(mint_authority_info, _).
     bindr (ensure (ai_key group_info = ai_key mint_info) (Custom MintMismatch)) (\<lambda>_.
     bindr (check_mint_for_interface P mint_info mint_authority_info (GroupError GroupIncorrectMintAuthority) group_pointer_ext st) (\<lambda>_.
     let group = gi_group_new G (ai_key mint_info) update_authority max_size in
     alloc_and_serialize P (mint_base P) (token_group_ext P G) group False group_info st)))))"

text \<open>The two updates of a group: its authority signs, and a function is applied to it.\<close>

definition update_group ::
    "('g, 'm) group_interface \<Rightarrow> platform \<Rightarrow> account_info list \<Rightarrow> ('g \<Rightarrow> 'g result) \<Rightarrow> store \<Rightarrow> store result" where
  "update_group G P accounts f st =
     bindr (next_account_info accounts) (\<lambda>(group_info, it).
     bindr (next_account_info it) (\<lambda>(update_authority_info, _).
     bindr (check_program_account (info_owner st group_info)) (\<lambda>_.
     initialized_view (mint_base P) (ai_key group_info) (on_tlv (\<lambda>tlv.
       bindr (get_extension AtMint (token_group_ext P G) tlv) (\<lambda>group.
       bindr (check_group_update_authority P update_authority_info (gi_update_authority G group)) (\<lambda>_.
       bindr (f group) (\<lambda>group'.
       put_extension AtMint (token_group_ext P G) group' tlv))))) st)))"

definition process_update_group_max_size ::
    "('g, 'm) group_interface \<Rightarrow> platform \<Rightarrow> account_info list \<Rightarrow> u64 \<Rightarrow> store \<Rightarrow> store result" where
  "process_update_group_max_size G P accounts max_size = update_group G P accounts (gi_update_max_size G max_size)"

definition process_update_group_authority ::
    "('g, 'm) group_interface \<Rightarrow> platform \<Rightarrow> account_info list \<Rightarrow> address \<Rightarrow> store \<Rightarrow> store result" where
  "process_update_group_authority G P accounts new_authority =
     update_group G P accounts (\<lambda>group. Inr (gi_set_update_authority G new_authority group))"

definition process_initialize_member ::
    "('g, 'm) group_interface \<Rightarrow> platform \<Rightarrow> account_info list \<Rightarrow> store \<Rightarrow> store result" where
  "process_initialize_member G P accounts st =
     bindr (next_account_info accounts) (\<lambda>(member_info, it).
     bindr (next_account_info it) (\<lambda>(member_mint_info, it).
     bindr (next_account_info it) (\<lambda>(member_mint_authority_info, it).
     bindr (next_account_info it) (\<lambda>(group_info, it).
     bindr (next_account_info it) (\<lambda>(group_update_authority_info, _).
     bindr (check_program_account (info_owner st group_info)) (\<lambda>_.
     bindr (ensure (ai_key member_info = ai_key member_mint_info) (Custom MintMismatch)) (\<lambda>_.
     bindr (check_mint_for_interface P member_mint_info member_mint_authority_info
              (GroupError GroupIncorrectMintAuthority) group_member_pointer_ext st) (\<lambda>_.
     bindr (ensure (ai_key member_info \<noteq> ai_key group_info) (GroupError MemberAccountIsGroupAccount)) (\<lambda>_.
     bindr (unpack (mint_base P) (info_data st group_info)) (\<lambda>state.
     bindr (get_extension AtMint (token_group_ext P G) (ps_tlv state)) (\<lambda>group.
     bindr (check_group_update_authority P group_update_authority_info (gi_update_authority G group)) (\<lambda>_.
     bindr (gi_increment_size G group) (\<lambda>(member_number, group').
     bindr (put_extension AtMint (token_group_ext P G) group' (ps_tlv state)) (\<lambda>tlv.
     let st1 = set_data (ai_key group_info) (state_bytes (mint_base P) (state\<lparr>ps_tlv := tlv\<rparr>)) st;
         member = gi_member_new G (ai_key member_mint_info) (ai_key group_info) member_number in
     alloc_and_serialize P (mint_base P) (token_group_member_ext P G) member False member_info st1))))))))))))))"

definition token_group_process_instruction ::
    "('g, 'm) group_interface \<Rightarrow> platform \<Rightarrow> account_info list \<Rightarrow> token_group_instruction \<Rightarrow> store \<Rightarrow> store result" where
  "token_group_process_instruction G P accounts instruction =
     (case instruction of
        InitializeGroup update_authority max_size \<Rightarrow> process_initialize_group G P accounts update_authority max_size
      | UpdateGroupMaxSize max_size \<Rightarrow> process_update_group_max_size G P accounts max_size
      | UpdateGroupAuthority new_authority \<Rightarrow> process_update_group_authority G P accounts new_authority
      | InitializeMember \<Rightarrow> process_initialize_member G P accounts)"

section \<open>Properties\<close>

text \<open>
  What the program relies on of the interface crate: both types are plain data of the lengths their
  extension types reserve.
\<close>

definition group_laws :: "platform \<Rightarrow> ('g, 'm) group_interface \<Rightarrow> bool" where
  "group_laws P G \<longleftrightarrow> extension_contract (token_group_ext P G) \<and> extension_contract (token_group_member_ext P G)"

lemma group_ext_simps [simp]:
  "vx_type (token_group_ext P G) = TokenGroup" "vx_type (token_group_member_ext P G) = TokenGroupMember"
  by (simp_all add: token_group_ext_def token_group_member_ext_def)

lemma check_group_update_authority_Inr [result_simps]:
  "check_group_update_authority P i a = Inr u \<longleftrightarrow> ai_is_signer i \<and> pl_option_from_maybe_null P a = Some (ai_key i)"
  by (auto simp: check_group_update_authority_def result_simps)

lemma check_mint_for_interface_Inr:
  "check_mint_for_interface P mint_info auth e V st = Inr u \<longleftrightarrow>
     (\<exists>m. info_owner st mint_info = TOKEN_2022_ID \<and> unpack (mint_base P) (info_data st mint_info) = Inr m \<and>
        ai_is_signer auth \<and> m_mint_authority (ps_base m) = coption_some (ai_key auth) \<and>
        is_ok (get_extension AtMint V (ps_tlv m)))"
  by (auto simp: check_mint_for_interface_def check_program_account_def mint_st.unpack_ref_eq result_simps simp del: coption_simps)

text \<open>A new extension of a mint, for both initialisers: base, other extensions and accounts stay.\<close>

definition mint_extended :: "platform \<Rightarrow> 'v extension \<Rightarrow> 'v \<Rightarrow> pod_mint pod_state \<Rightarrow> pod_mint pod_state \<Rightarrow> bool" where
  "mint_extended P V v m m' \<longleftrightarrow>
     unpack (mint_base P) (state_bytes (mint_base P) m') = Inr m' \<and> ps_base m' = ps_base m \<and>
     get_extension AtMint V (ps_tlv m') = Inr v \<and>
     (\<forall>es. laid_out es (ps_tlv m) \<longrightarrow> laid_out (AList.update (vx_type V) (vx_to_bytes V v) es) (ps_tlv m'))"

lemma alloc_and_serialize_mint:
  assumes "alloc_and_serialize P (mint_base P) V v ow i st = Inr st'" and "resize_laws P" "extension_contract V"
  obtains m m' where "unpack (mint_base P) (info_data st i) = Inr m" "mint_extended P V v m m'"
    "st' = set_data (ai_key i) (state_bytes (mint_base P) m') st"
  using mint_st.alloc_and_serialize_Inr [OF assms base_sizes(1)] that by (auto simp: mint_extended_def)

lemma put_mint_extended:
  assumes "unpack (mint_base P) d = Inr m" and "put_extension AtMint V v (ps_tlv m) = Inr tlv"
    and "extension_contract V"
  shows "mint_extended P V v m (m\<lparr>ps_tlv := tlv\<rparr>)"
proof -
  have "pod_mint_is_initialized P (ps_base m)" using assms(1) by (simp add: mint_st.unpack_iff wf_state_def)
  then have "unpack (mint_base P) (state_bytes (mint_base P) (m\<lparr>ps_tlv := tlv\<rparr>)) = Inr (m\<lparr>ps_tlv := tlv\<rparr>)"
    using mint_st.unpack_update [OF assms(1), of "ps_base m" tlv] put_extension_length [OF assms(2)] by simp
  moreover have "get_extension AtMint V tlv = Inr v"
    using extension_contract.put_get_same [OF assms(3,2)] by simp
  ultimately show ?thesis
    using put_laid_out(1) [OF _ extension_contract.type_not_uninitialized [OF assms(3)] assms(2) [unfolded put_extension_def]]
    by (simp add: mint_extended_def)
qed

lemma update_group_Inr:
  assumes "update_group G P accounts f st = Inr st'"
  obtains gi auth rest m g g' tlv where "accounts = gi # auth # rest" "info_owner st gi = TOKEN_2022_ID"
    "unpack (mint_base P) (info_data st gi) = Inr m" "get_extension AtMint (token_group_ext P G) (ps_tlv m) = Inr g"
    "ai_is_signer auth" "pl_option_from_maybe_null P (gi_update_authority G g) = Some (ai_key auth)" "f g = Inr g'"
    "put_extension AtMint (token_group_ext P G) g' (ps_tlv m) = Inr tlv"
    "st' = set_data (ai_key gi) (state_bytes (mint_base P) (m\<lparr>ps_tlv := tlv\<rparr>)) st"
proof -
  from assms show thesis
    by (clarsimp simp: update_group_def check_program_account_def result_simps info_data_def [symmetric])
      (rule that; (assumption | rule refl | simp))
qed

lemma initialize_member_Inr:
  assumes "process_initialize_member G P accounts st = Inr st'"
  obtains mi mm ma gi ga rest x m g n g' tlv where "accounts = mi # mm # ma # gi # ga # rest" "info_owner st gi = TOKEN_2022_ID"
    "ai_key mi = ai_key mm" "ai_key mi \<noteq> ai_key gi"
    "check_mint_for_interface P mm ma (GroupError GroupIncorrectMintAuthority) group_member_pointer_ext st = Inr x"
    "unpack (mint_base P) (info_data st gi) = Inr m" "get_extension AtMint (token_group_ext P G) (ps_tlv m) = Inr g"
    "ai_is_signer ga" "pl_option_from_maybe_null P (gi_update_authority G g) = Some (ai_key ga)"
    "gi_increment_size G g = Inr (n, g')" "put_extension AtMint (token_group_ext P G) g' (ps_tlv m) = Inr tlv"
    "alloc_and_serialize P (mint_base P) (token_group_member_ext P G) (gi_member_new G (ai_key mm) (ai_key gi) n) False mi
       (set_data (ai_key gi) (state_bytes (mint_base P) (m\<lparr>ps_tlv := tlv\<rparr>)) st) = Inr st'"
proof -
  from assms show thesis
    by (clarsimp simp: process_initialize_member_def check_program_account_def Let_def result_simps)
      (rule that; (assumption | rule refl | simp))
qed

text \<open>
  C28. A new member of a group is numbered by the group: the mint authority of the member and the update
  authority of the group both signed, the member is another mint with a group-member pointer, the group
  is the one it was with its size increased, and the number that gave is what the member records. Both
  mints keep their base state, hence their supply, and their other extensions; no other account changes.
\<close>

theorem initialize_member_correct:
  assumes "process_initialize_member G P accounts st = Inr st'" and "resize_laws P" and "group_laws P G"
  shows "\<exists>mi mm ma gi ga rest mint mint' group group' g g' n.
     accounts = mi # mm # ma # gi # ga # rest \<and> ai_key mi = ai_key mm \<and> ai_key mi \<noteq> ai_key gi \<and>
     info_owner st mi = TOKEN_2022_ID \<and> info_owner st gi = TOKEN_2022_ID \<and>
     ai_is_signer ma \<and> m_mint_authority (ps_base mint) = coption_some (ai_key ma) \<and>
     is_ok (get_extension AtMint group_member_pointer_ext (ps_tlv mint)) \<and>
     ai_is_signer ga \<and> pl_option_from_maybe_null P (gi_update_authority G g) = Some (ai_key ga) \<and>
     unpack (mint_base P) (info_data st mi) = Inr mint \<and> unpack (mint_base P) (info_data st gi) = Inr group \<and>
     get_extension AtMint (token_group_ext P G) (ps_tlv group) = Inr g \<and> gi_increment_size G g = Inr (n, g') \<and>
     mint_extended P (token_group_ext P G) g' group group' \<and>
     mint_extended P (token_group_member_ext P G) (gi_member_new G (ai_key mi) (ai_key gi) n) mint mint' \<and>
     st' = set_data (ai_key mi) (state_bytes (mint_base P) mint')
       (set_data (ai_key gi) (state_bytes (mint_base P) group') st)"
proof -
  note G = assms(3) [unfolded group_laws_def]
  obtain mi mm ma gi ga rest x group n g g' tlv where r: "accounts = mi # mm # ma # gi # ga # rest" "info_owner st gi = TOKEN_2022_ID"
    "ai_key mi = ai_key mm" "ai_key mi \<noteq> ai_key gi"
    "check_mint_for_interface P mm ma (GroupError GroupIncorrectMintAuthority) group_member_pointer_ext st = Inr x"
    "unpack (mint_base P) (info_data st gi) = Inr group" "get_extension AtMint (token_group_ext P G) (ps_tlv group) = Inr g"
    "ai_is_signer ga" "pl_option_from_maybe_null P (gi_update_authority G g) = Some (ai_key ga)"
    "gi_increment_size G g = Inr (n, g')" "put_extension AtMint (token_group_ext P G) g' (ps_tlv group) = Inr tlv"
    "alloc_and_serialize P (mint_base P) (token_group_member_ext P G) (gi_member_new G (ai_key mm) (ai_key gi) n) False mi
       (set_data (ai_key gi) (state_bytes (mint_base P) (group\<lparr>ps_tlv := tlv\<rparr>)) st) = Inr st'"
    by (rule initialize_member_Inr [OF assms(1)]) blast
  let ?group = "group\<lparr>ps_tlv := tlv\<rparr>"
  let ?st = "set_data (ai_key gi) (state_bytes (mint_base P) ?group) st"
  obtain mint mint' where m: "unpack (mint_base P) (info_data ?st mi) = Inr mint"
    "mint_extended P (token_group_member_ext P G) (gi_member_new G (ai_key mm) (ai_key gi) n) mint mint'"
    "st' = set_data (ai_key mi) (state_bytes (mint_base P) mint') ?st"
    using alloc_and_serialize_mint [OF r(12) assms(2) conjunct2 [OF G]] by blast
  have same: "info_data ?st mi = info_data st mm" "info_data st mi = info_data st mm" "info_owner st mi = info_owner st mm"
    using r(3,4) by (simp_all add: info_data_def info_owner_def set_data_def)
  then have mint: "info_owner st mi = TOKEN_2022_ID" "ai_is_signer ma" "m_mint_authority (ps_base mint) = coption_some (ai_key ma)"
    "is_ok (get_extension AtMint group_member_pointer_ext (ps_tlv mint))"
    using r(5) m(1) by (auto simp: check_mint_for_interface_Inr)
  have "mint_extended P (token_group_ext P G) g' group ?group"
    using put_mint_extended [OF r(6,11) conjunct1 [OF G]] .
  moreover have "unpack (mint_base P) (info_data st mi) = Inr mint"
    using m(1) unfolding same .
  moreover note r(1-4,6-10) m(2) [folded r(3)] m(3) mint
  ultimately show ?thesis by blast
qed

subsection \<open>A concrete run\<close>

text \<open>The interface on plain numbers: a group is its authority, mint, size and limit.\<close>

record sample_group =
  sg_authority :: address
  sg_mint :: address
  sg_size :: u64
  sg_max_size :: u64

record sample_member =
  sm_mint :: address
  sm_group :: address
  sm_number :: u64

definition sample_groups :: "(sample_group, sample_member) group_interface" where
  "sample_groups =
     \<lparr>gi_unpack = \<lambda>_. None,
      gi_group_to_bytes = \<lambda>g. le_bytes 32 (sg_authority g) @ le_bytes 32 (sg_mint g) @ le_bytes 8 (sg_size g) @ le_bytes 8 (sg_max_size g),
      gi_group_of_bytes = \<lambda>bs. \<lparr>sg_authority = of_le (seg 0 32 bs), sg_mint = of_le (seg 32 32 bs),
        sg_size = of_le (seg 64 8 bs), sg_max_size = of_le (seg 72 8 bs)\<rparr>,
      gi_group_default = \<lparr>sg_authority = 0, sg_mint = 0, sg_size = 0, sg_max_size = 0\<rparr>,
      gi_member_to_bytes = \<lambda>m. le_bytes 32 (sm_mint m) @ le_bytes 32 (sm_group m) @ le_bytes 8 (sm_number m),
      gi_member_of_bytes = \<lambda>bs. \<lparr>sm_mint = of_le (seg 0 32 bs), sm_group = of_le (seg 32 32 bs), sm_number = of_le (seg 64 8 bs)\<rparr>,
      gi_member_default = \<lparr>sm_mint = 0, sm_group = 0, sm_number = 0\<rparr>,
      gi_group_new = \<lambda>mint authority n. \<lparr>sg_authority = authority, sg_mint = mint, sg_size = 0, sg_max_size = n\<rparr>,
      gi_update_authority = sg_authority,
      gi_set_update_authority = \<lambda>a g. g\<lparr>sg_authority := a\<rparr>,
      gi_update_max_size = \<lambda>n g. if n < sg_size g then Inl (RuntimeError 1) else Inr (g\<lparr>sg_max_size := n\<rparr>),
      gi_increment_size = \<lambda>g. if sg_size g < sg_max_size g then Inr (sg_size g + 1, g\<lparr>sg_size := sg_size g + 1\<rparr>) else Inl (RuntimeError 2),
      gi_member_new = \<lambda>mint group n. \<lparr>sm_mint = mint, sm_group = group, sm_number = n\<rparr>\<rparr>"

lemma sample_group_laws [simp]: "group_laws sample_platform sample_groups"
  unfolding group_laws_def
  by (intro conjI; unfold_locales) (simp_all add: token_group_ext_def token_group_member_ext_def sample_groups_def
      sample_platform_def codec_simps seg_joins)

definition sample_group_ext :: "sample_group extension" where
  "sample_group_ext = token_group_ext sample_platform sample_groups"

definition sample_member_pointer :: group_member_pointer where
  "sample_member_pointer = \<lparr>gmp_authority = 20, gmp_member_address = 5\<rparr>"

definition sample_full :: "u64 \<Rightarrow> sample_group" where
  "sample_full n = \<lparr>sg_authority = 30, sg_mint = 4, sg_size = n, sg_max_size = 10\<rparr>"

definition sample_group_store :: store where
  "sample_group_store = sample_store
     [(4, config_mint sample_group_ext (sample_full 6)), (5, config_mint group_member_pointer_ext sample_member_pointer)]"

lemma sample_resize: "pl_resize sample_platform d n = Inr (take n d @ replicate (n - length d) 0)"
  by (simp add: sample_platform_def)

lemma laid_out_single: "t \<noteq> ExtUninitialized \<Longrightarrow> length v < 2 ^ 16 \<Longrightarrow> laid_out [(t, v)] (entry_bytes t v)"
  by (auto simp: laid_out_def intro!: exI [of _ 0])

lemma sample_group_contract:
  "extension_contract sample_group_ext" "extension_contract (token_group_member_ext sample_platform sample_groups)"
  using sample_group_laws by (simp_all add: group_laws_def sample_group_ext_def)

lemma sample_group_simps [simp]:
  "vx_type sample_group_ext = TokenGroup" "vx_len sample_group_ext = 80"
  "length (vx_to_bytes sample_group_ext g) = 80" "vx_len (token_group_member_ext sample_platform sample_groups) = 72"
  "length (vx_to_bytes group_member_pointer_ext p) = 64"
  using group_member_pointer_x.length_to_bytes [of p]
  by (simp_all add: sample_group_ext_def token_group_ext_def token_group_member_ext_def sample_platform_def sample_groups_def
      group_member_pointer_ext_def [THEN arg_cong, of vx_len])

lemma sample_groups_simps [simp]:
  "gi_update_authority sample_groups = sg_authority" "sg_authority (sample_full n) = 30"
  "gi_increment_size sample_groups (sample_full 6) = Inr (7, sample_full 7)"
  "gi_member_new sample_groups a b n = \<lparr>sm_mint = a, sm_group = b, sm_number = n\<rparr>"
  by (simp_all add: sample_groups_def sample_full_def)

lemma initialize_member_correct_witness:
  "\<exists>st' mint mint' group'. process_initialize_member sample_groups sample_platform
      [plain_info 5, plain_info 5, signer_info 20, plain_info 4, signer_info 30] sample_group_store = Inr st' \<and>
    mint_extended sample_platform sample_group_ext (sample_full 7) (single (mint_base sample_platform) (sample_mint 100) sample_group_ext (sample_full 6)) group' \<and>
    mint_extended sample_platform (token_group_member_ext sample_platform sample_groups) \<lparr>sm_mint = 5, sm_group = 4, sm_number = 7\<rparr> mint mint'"
  (is "\<exists>st' mint mint' group'. ?run = Inr st' \<and> _ mint mint' group'")
proof -
  let ?S = "mint_base sample_platform" and ?g = "\<lambda>n. single (mint_base sample_platform) (sample_mint 100) sample_group_ext (sample_full n)"
    and ?m = "single (mint_base sample_platform) (sample_mint 100) group_member_pointer_ext sample_member_pointer"
  have g: "get_extension AtMint sample_group_ext (ps_tlv (?g 6)) = Inr (sample_full 6)"
    "put_extension AtMint sample_group_ext (sample_full 7) (ps_tlv (?g 6)) = Inr (ps_tlv (?g 7))"
    "get_extension AtMint group_member_pointer_ext (ps_tlv ?m) = Inr sample_member_pointer"
    using extension_contract.get_entry [OF sample_group_contract(1), of AtMint "sample_full 6"]
      extension_contract.put_entry [OF sample_group_contract(1), of AtMint "sample_full 7" "sample_full 6"]
      group_member_pointer_x.get_entry [of AtMint sample_member_pointer]
    by (simp_all add: get_account_type_def group_member_pointer_ext_def [THEN arg_cong, of vx_len])
  let ?st = "set_data 4 (state_bytes ?S (?g 7)) sample_group_store"
  have u: "unpack ?S (info_data st (plain_info 5)) = Inr ?m" if "st 5 = sample_group_store 5" for st
    using that by (simp add: info_data_def sample_group_store_def config_mint_def)
  obtain st' where st': "alloc_and_serialize sample_platform ?S (token_group_member_ext sample_platform sample_groups)
      \<lparr>sm_mint = 5, sm_group = 4, sm_number = 7\<rparr> False (plain_info 5) ?st = Inr st'"
  proof -
    have "unpack ?S (info_data ?st (plain_info 5)) = Inr ?m" by (rule u) (simp add: set_data_def)
    moreover have "laid_out [(GroupMemberPointer, vx_to_bytes group_member_pointer_ext sample_member_pointer)] (ps_tlv ?m)"
      using laid_out_single [of GroupMemberPointer "vx_to_bytes group_member_pointer_ext sample_member_pointer"] by simp
    moreover have "BASE_ACCOUNT_LENGTH < length (info_data ?st (plain_info 5))"
      by (simp add: info_data_def set_data_def sample_group_store_def config_mint_def mint_st.length_state_bytes single_def size_numerals)
    ultimately have "\<exists>st'. alloc_and_serialize sample_platform ?S (token_group_member_ext sample_platform sample_groups)
        \<lparr>sm_mint = 5, sm_group = 4, sm_number = 7\<rparr> False (plain_info 5) ?st = Inr st'"
      by (intro mint_st.alloc_and_serialize_defined [OF _ _ _ sample_group_contract(2),
            where s = ?m and es = "[(GroupMemberPointer, vx_to_bytes group_member_pointer_ext sample_member_pointer)]"])
        (simp_all add: sample_resize get_account_type_def size_numerals)
    then show thesis using that by blast
  qed
  have "check_mint_for_interface sample_platform (plain_info 5) (signer_info 20) (GroupError GroupIncorrectMintAuthority)
      group_member_pointer_ext sample_group_store = Inr ()"
    using u [of sample_group_store] g(3)
    by (auto simp: check_mint_for_interface_Inr info_owner_def sample_group_store_def simp del: coption_simps)
  moreover have ug: "unpack ?S (info_data sample_group_store (plain_info 4)) = Inr (?g 6)"
    by (simp add: info_data_def sample_group_store_def config_mint_def)
  moreover have "info_owner sample_group_store (plain_info 4) = TOKEN_2022_ID"
    by (simp add: info_owner_def sample_group_store_def)
  ultimately have run: "?run = Inr st'"
    using g(1,2) st'
    by (simp add: process_initialize_member_def check_program_account_def check_group_update_authority_def sample_group_ext_def [symmetric]
        sample_maybe_null ensure_def single_simps(4) [where V = sample_group_ext, simplified])
  from initialize_member_correct [OF run sample_resize_laws sample_group_laws] ug g(1) run show ?thesis
    by (auto simp: sample_group_ext_def [symmetric])
qed

end
