(* ===== verification/Token_Metadata.thy ===== *)
theory Token_Metadata
  imports Token_Group
begin

text \<open>
  The processor of the token-metadata interface (program/src/extension/token_metadata/processor.rs): a
  name, a symbol, a link and further fields are kept in the mint, whose account grows and shrinks with
  them. The type \<open>TokenMetadata\<close>, its encoding and operations and the format of the instructions belong
  to another crate: they are the fields of the record \<open>metadata_interface\<close>. A \<open>String\<close> is its bytes.
\<close>

section \<open>Model\<close>

datatype 'k token_metadata_instruction =
    MetadataInitialize bytes bytes bytes
  | MetadataUpdateField 'k bytes
  | MetadataRemoveKey bool bytes
  | MetadataUpdateAuthority address
  | MetadataEmit "u64 option" "u64 option"

record ('t, 'k) metadata_interface =
  ti_unpack :: "bytes \<Rightarrow> 'k token_metadata_instruction option"
  ti_packed_len :: "'t \<Rightarrow> nat result"
  ti_pack_into_slice :: "'t \<Rightarrow> bytes \<Rightarrow> bytes result"
  ti_unpack_from_slice :: "bytes \<Rightarrow> 't result"
  ti_new :: "bytes \<Rightarrow> bytes \<Rightarrow> bytes \<Rightarrow> address \<Rightarrow> address \<Rightarrow> 't"
  ti_update_authority :: "'t \<Rightarrow> address"
  ti_set_update_authority :: "address \<Rightarrow> 't \<Rightarrow> 't"
  ti_update :: "'k \<Rightarrow> bytes \<Rightarrow> 't \<Rightarrow> 't"
  ti_remove_key :: "bytes \<Rightarrow> 't \<Rightarrow> 't \<times> bool"
  ti_get_slice :: "bytes \<Rightarrow> u64 option \<Rightarrow> u64 option \<Rightarrow> bytes option"

definition token_metadata_ext :: "('t, 'k) metadata_interface \<Rightarrow> 't variable_len" where
  "token_metadata_ext T =
     \<lparr>vl_type = TokenMetadata, vl_packed_len = ti_packed_len T, vl_pack_into_slice = ti_pack_into_slice T,
      vl_unpack_from_slice = ti_unpack_from_slice T\<rparr>"

definition check_metadata_update_authority :: "platform \<Rightarrow> account_info \<Rightarrow> address \<Rightarrow> unit result" where
  "check_metadata_update_authority P update_authority_info expected_update_authority =
     bindr (ensure (ai_is_signer update_authority_info) MissingRequiredSignature) (\<lambda>_.
     bindr (ok_or (pl_option_from_maybe_null P expected_update_authority) (MetadataError ImmutableMetadata)) (\<lambda>update_authority.
     ensure (update_authority = ai_key update_authority_info) (MetadataError MetadataIncorrectUpdateAuthority)))"

definition metadata_process_initialize ::
    "('t, 'k) metadata_interface \<Rightarrow> platform \<Rightarrow> account_info list \<Rightarrow> bytes \<Rightarrow> bytes \<Rightarrow> bytes \<Rightarrow> store \<Rightarrow> store result" where
  "metadata_process_initialize T P accounts name symbol uri st =
     bindr (next_account_info accounts) (\<lambda>(metadata_info, it).
     bindr (next_account_info it) (\<lambda>(update_authority_info, it).
     bindr (next_account_info it) (\<lambda>(mint_info, it).
     bindr (next_account_info it) (\<lambda>(mint_authority_info, _).
     bindr (ensure (ai_key metadata_info = ai_key mint_info) (Custom MintMismatch)) (\<lambda>_.
     bindr (check_mint_for_interface P mint_info mint_authority_info (MetadataError MetadataIncorrectMintAuthority)
              metadata_pointer_ext st) (\<lambda>_.
     bindr (ok_or (pl_maybe_null_try_from P (Some (ai_key update_authority_info))) InvalidArgument) (\<lambda>update_authority.
     let token_metadata = ti_new T name symbol uri update_authority (ai_key mint_info) in
     alloc_and_serialize_variable_len_extension P (mint_base P) (token_metadata_ext T) token_metadata False metadata_info st)))))))"

text \<open>The three updates: the metadata is read, its authority checked, and what \<open>f\<close> makes of it written.\<close>

definition update_metadata ::
    "('t, 'k) metadata_interface \<Rightarrow> platform \<Rightarrow> account_info list \<Rightarrow> ('t \<Rightarrow> 't result) \<Rightarrow> store \<Rightarrow> store result" where
  "update_metadata T P accounts f st =
     bindr (next_account_info accounts) (\<lambda>(metadata_info, it).
     bindr (next_account_info it) (\<lambda>(update_authority_info, _).
     bindr (check_program_account (info_owner st metadata_info)) (\<lambda>_.
     bindr (bindr (unpack_ref (mint_base P) (info_data st metadata_info)) (\<lambda>(_, tlv).
              get_variable_len_extension AtMint (token_metadata_ext T) tlv)) (\<lambda>token_metadata.
     bindr (check_metadata_update_authority P update_authority_info (ti_update_authority T token_metadata)) (\<lambda>_.
     bindr (f token_metadata) (\<lambda>token_metadata'.
     alloc_and_serialize_variable_len_extension P (mint_base P) (token_metadata_ext T) token_metadata' True metadata_info st))))))"

definition process_update_field ::
    "('t, 'k) metadata_interface \<Rightarrow> platform \<Rightarrow> account_info list \<Rightarrow> 'k \<Rightarrow> bytes \<Rightarrow> store \<Rightarrow> store result" where
  "process_update_field T P accounts field value =
     update_metadata T P accounts (\<lambda>token_metadata. Inr (ti_update T field value token_metadata))"

definition process_remove_key ::
    "('t, 'k) metadata_interface \<Rightarrow> platform \<Rightarrow> account_info list \<Rightarrow> bool \<Rightarrow> bytes \<Rightarrow> store \<Rightarrow> store result" where
  "process_remove_key T P accounts idempotent key =
     update_metadata T P accounts (\<lambda>token_metadata.
       let (token_metadata', removed) = ti_remove_key T key token_metadata in
       if \<not> removed \<and> \<not> idempotent then Inl (MetadataError KeyNotFound) else Inr token_metadata')"

definition metadata_process_update_authority ::
    "('t, 'k) metadata_interface \<Rightarrow> platform \<Rightarrow> account_info list \<Rightarrow> address \<Rightarrow> store \<Rightarrow> store result" where
  "metadata_process_update_authority T P accounts new_authority =
     update_metadata T P accounts (\<lambda>token_metadata. Inr (ti_set_update_authority T new_authority token_metadata))"

text \<open>\<open>process_emit\<close> sets the return data, or leaves them when the range is not one of the metadata.\<close>

definition process_emit ::
    "('t, 'k) metadata_interface \<Rightarrow> platform \<Rightarrow> account_info list \<Rightarrow> u64 option \<Rightarrow> u64 option \<Rightarrow> store \<Rightarrow> bytes option result" where
  "process_emit T P accounts start finish st =
     bindr (next_account_info accounts) (\<lambda>(metadata_info, _).
     bindr (check_program_account (info_owner st metadata_info)) (\<lambda>_.
     bindr (unpack_ref (mint_base P) (info_data st metadata_info)) (\<lambda>(_, tlv).
     bindr (get_extension_bytes AtMint TokenMetadata tlv) (\<lambda>metadata_bytes.
     Inr (ti_get_slice T metadata_bytes start finish)))))"

definition token_metadata_process_instruction ::
    "('t, 'k) metadata_interface \<Rightarrow> platform \<Rightarrow> account_info list \<Rightarrow> 'k token_metadata_instruction \<Rightarrow> store \<Rightarrow>
     (store \<times> bytes option) result" where
  "token_metadata_process_instruction T P accounts instruction st =
     (let silent = (\<lambda>r. bindr r (\<lambda>st'. Inr (st', None))) in
      case instruction of
        MetadataInitialize name symbol uri \<Rightarrow> silent (metadata_process_initialize T P accounts name symbol uri st)
      | MetadataUpdateField field value \<Rightarrow> silent (process_update_field T P accounts field value st)
      | MetadataRemoveKey idempotent key \<Rightarrow> silent (process_remove_key T P accounts idempotent key st)
      | MetadataUpdateAuthority new_authority \<Rightarrow> silent (metadata_process_update_authority T P accounts new_authority st)
      | MetadataEmit start finish \<Rightarrow> bindr (process_emit T P accounts start finish st) (\<lambda>r. Inr (st, r)))"

section \<open>Properties\<close>

text \<open>What an update makes of the metadata, by the instruction alone.\<close>

definition edited :: "('t, 'k) metadata_interface \<Rightarrow> 'k token_metadata_instruction \<Rightarrow> 't \<Rightarrow> 't \<Rightarrow> bool" where
  "edited T i t t' \<longleftrightarrow>
     (case i of
        MetadataUpdateField field value \<Rightarrow> t' = ti_update T field value t
      | MetadataRemoveKey idempotent key \<Rightarrow> \<exists>removed. ti_remove_key T key t = (t', removed) \<and> (removed \<or> idempotent)
      | MetadataUpdateAuthority new_authority \<Rightarrow> t' = ti_set_update_authority T new_authority t
      | _ \<Rightarrow> False)"

text \<open>What the program relies on: an encoding of the announced length that decodes to what was encoded.\<close>

definition metadata_laws :: "('t, 'k) metadata_interface \<Rightarrow> bool" where
  "metadata_laws T \<longleftrightarrow> variable_len_law (token_metadata_ext T)"

lemma metadata_ext_simps [simp]: "vl_type (token_metadata_ext T) = TokenMetadata"
  by (simp add: token_metadata_ext_def)

lemma check_metadata_update_authority_Inr [result_simps]:
  "check_metadata_update_authority P i a = Inr u \<longleftrightarrow> ai_is_signer i \<and> pl_option_from_maybe_null P a = Some (ai_key i)"
  by (auto simp: check_metadata_update_authority_def result_simps)

text \<open>A mint whose metadata are \<open>t\<close>; its base state and every other extension are those of \<open>m\<close>.\<close>

definition describes ::
    "platform \<Rightarrow> ('t, 'k) metadata_interface \<Rightarrow> 't \<Rightarrow> entries \<Rightarrow> pod_mint pod_state \<Rightarrow> pod_mint pod_state \<Rightarrow> bool" where
  "describes P T t es m m' \<longleftrightarrow>
     unpack (mint_base P) (state_bytes (mint_base P) m') = Inr m' \<and> ps_base m' = ps_base m \<and>
     get_variable_len_extension AtMint (token_metadata_ext T) (ps_tlv m') = Inr t \<and>
     (\<exists>bs. laid_out (AList.update TokenMetadata bs es) (ps_tlv m'))"

lemma write_metadata:
  assumes "alloc_and_serialize_variable_len_extension P (mint_base P) (token_metadata_ext T) t ow i st = Inr st'"
    and "resize_laws P" "metadata_laws T" and "unpack (mint_base P) (info_data st i) = Inr m" "laid_out es (ps_tlv m)"
  obtains m' where "describes P T t es m m'" "st' = set_data (ai_key i) (state_bytes (mint_base P) m') st"
    "map_of es TokenMetadata = None \<or> ow"
proof -
  obtain m' bs where m: "st' = set_data (ai_key i) (state_bytes (mint_base P) m') st"
    "unpack (mint_base P) (state_bytes (mint_base P) m') = Inr m'" "ps_base m' = ps_base m"
    "vl_unpack_from_slice (token_metadata_ext T) bs = Inr t"
    "laid_out (AList.update (vl_type (token_metadata_ext T)) bs es) (ps_tlv m')" "map_of es (vl_type (token_metadata_ext T)) = None \<or> ow"
    using mint_st.alloc_and_serialize_variable_len_Inr [OF assms(1,2) assms(3) [unfolded metadata_laws_def] _ base_sizes(1) _ _ assms(4,5)]
    by (auto simp: get_account_type_def)
  have "get_extension_bytes AtMint TokenMetadata (ps_tlv m') = Inr bs"
    using get_laid_out [OF m(5), of TokenMetadata AtMint bs] by (simp add: get_account_type_def update_conv')
  with m show thesis
    by (intro that [of m']) (auto simp: describes_def get_variable_len_extension_def)
qed

lemma update_metadata_Inr:
  assumes "update_metadata T P accounts f st = Inr st'"
  obtains mi auth rest m t t' where "accounts = mi # auth # rest" "info_owner st mi = TOKEN_2022_ID"
    "unpack (mint_base P) (info_data st mi) = Inr m"
    "get_variable_len_extension AtMint (token_metadata_ext T) (ps_tlv m) = Inr t"
    "ai_is_signer auth" "pl_option_from_maybe_null P (ti_update_authority T t) = Some (ai_key auth)" "f t = Inr t'"
    "alloc_and_serialize_variable_len_extension P (mint_base P) (token_metadata_ext T) t' True mi st = Inr st'"
proof -
  from assms show thesis
    by (clarsimp simp: update_metadata_def check_program_account_def mint_st.unpack_ref_eq result_simps)
      (rule that; (assumption | rule refl | simp))
qed

definition is_update :: "'k token_metadata_instruction \<Rightarrow> bool" where
  "is_update i \<longleftrightarrow> (case i of MetadataInitialize _ _ _ \<Rightarrow> False | MetadataEmit _ _ \<Rightarrow> False | _ \<Rightarrow> True)"

lemma metadata_instruction_update:
  assumes run: "token_metadata_process_instruction T P accounts i st = Inr (st', r)" and i: "is_update i"
  obtains f where "update_metadata T P accounts f st = Inr st'" "\<And>t t'. f t = Inr t' \<Longrightarrow> edited T i t t'" "r = None"
proof (cases i)
  case (MetadataRemoveKey idempotent key)
  show thesis
    using run MetadataRemoveKey
    by (intro that [of "\<lambda>t. let (t', removed) = ti_remove_key T key t in
        if \<not> removed \<and> \<not> idempotent then Inl (MetadataError KeyNotFound) else Inr t'"])
      (auto simp: token_metadata_process_instruction_def process_remove_key_def edited_def Let_def result_simps
        split: prod.splits if_splits)
qed (use run i that in \<open>auto simp: token_metadata_process_instruction_def process_update_field_def is_update_def
      metadata_process_update_authority_def edited_def Let_def result_simps\<close>)

lemma metadata_initialize_Inr:
  assumes "metadata_process_initialize T P accounts name symbol uri st = Inr st'"
  obtains mi a mm ma rest m b where "accounts = mi # a # mm # ma # rest" "ai_key mi = ai_key mm"
    "info_owner st mm = TOKEN_2022_ID" "unpack (mint_base P) (info_data st mm) = Inr m" "ai_is_signer ma"
    "m_mint_authority (ps_base m) = coption_some (ai_key ma)" "pl_maybe_null_try_from P (Some (ai_key a)) = Some b"
    "alloc_and_serialize_variable_len_extension P (mint_base P) (token_metadata_ext T)
       (ti_new T name symbol uri b (ai_key mm)) False mi st = Inr st'"
proof -
  from assms show thesis
    by (clarsimp simp: metadata_process_initialize_def check_mint_for_interface_Inr Let_def result_simps simp del: coption_simps)
      (rule that; (assumption | rule refl | simp del: coption_simps))
qed

text \<open>
  C27. Metadata change only under their update authority: an update that succeeds is signed by the
  authority the metadata themselves name, writes exactly what the instruction makes of them, whether the
  account grows, shrinks or keeps its length, and leaves the base state of the mint, every other
  extension and every other account as they were.
\<close>

theorem metadata_update_correct:
  assumes "token_metadata_process_instruction T P accounts i st = Inr (st', r)" and "is_update i"
    and "resize_laws P" and "metadata_laws T"
    and "unpack (mint_base P) (ac_data (st (ai_key (hd accounts)))) = Inr m" and "laid_out es (ps_tlv m)"
  shows "\<exists>mi auth rest t t' m'. accounts = mi # auth # rest \<and> info_owner st mi = TOKEN_2022_ID \<and>
     get_variable_len_extension AtMint (token_metadata_ext T) (ps_tlv m) = Inr t \<and>
     ai_is_signer auth \<and> pl_option_from_maybe_null P (ti_update_authority T t) = Some (ai_key auth) \<and>
     edited T i t t' \<and> describes P T t' es m m' \<and>
     st' = set_data (ai_key mi) (state_bytes (mint_base P) m') st \<and> r = None"
proof -
  obtain f where f: "update_metadata T P accounts f st = Inr st'" "\<And>t t'. f t = Inr t' \<Longrightarrow> edited T i t t'" "r = None"
    by (rule metadata_instruction_update [OF assms(1,2)]) blast
  obtain mi auth rest m1 t t' where u: "accounts = mi # auth # rest" "info_owner st mi = TOKEN_2022_ID"
    "unpack (mint_base P) (info_data st mi) = Inr m1"
    "get_variable_len_extension AtMint (token_metadata_ext T) (ps_tlv m1) = Inr t"
    "ai_is_signer auth" "pl_option_from_maybe_null P (ti_update_authority T t) = Some (ai_key auth)" "f t = Inr t'"
    "alloc_and_serialize_variable_len_extension P (mint_base P) (token_metadata_ext T) t' True mi st = Inr st'"
    by (rule update_metadata_Inr [OF f(1)]) blast
  have m1: "m1 = m" using u(1,3) assms(5) by (simp add: info_data_def)
  obtain m' where "describes P T t' es m m'" "st' = set_data (ai_key mi) (state_bytes (mint_base P) m') st"
    using write_metadata [OF u(8) assms(3,4) u(3) [unfolded m1] assms(6)] by metis
  with u f(2) [OF u(7)] f(3) show ?thesis unfolding m1 by blast
qed

subsection \<open>A concrete run\<close>

text \<open>The interface on a name alone.\<close>

record sample_metadata =
  sd_authority :: address
  sd_mint :: address
  sd_name :: bytes

definition sample_metadatas :: "(sample_metadata, unit) metadata_interface" where
  "sample_metadatas =
     \<lparr>ti_unpack = \<lambda>_. None,
      ti_packed_len = \<lambda>t. Inr (64 + length (sd_name t)),
      ti_pack_into_slice = \<lambda>t _. Inr (le_bytes 32 (sd_authority t) @ le_bytes 32 (sd_mint t) @ sd_name t),
      ti_unpack_from_slice = \<lambda>bs. Inr \<lparr>sd_authority = of_le (seg 0 32 bs), sd_mint = of_le (seg 32 32 bs), sd_name = drop 64 bs\<rparr>,
      ti_new = \<lambda>name _ _ authority mint. \<lparr>sd_authority = authority, sd_mint = mint, sd_name = name\<rparr>,
      ti_update_authority = sd_authority,
      ti_set_update_authority = \<lambda>a t. t\<lparr>sd_authority := a\<rparr>,
      ti_update = \<lambda>_ name t. t\<lparr>sd_name := name\<rparr>,
      ti_remove_key = \<lambda>_ t. (t, False),
      ti_get_slice = \<lambda>bs _ _. Some bs\<rparr>"

lemma sample_metadata_laws [simp]: "metadata_laws sample_metadatas"
  by (auto simp: metadata_laws_def variable_len_law_def token_metadata_ext_def sample_metadatas_def codec_simps)

definition sample_encoding :: "sample_metadata \<Rightarrow> bytes" where
  "sample_encoding t = le_bytes 32 (sd_authority t) @ le_bytes 32 (sd_mint t) @ sd_name t"

definition sample_named :: "bytes \<Rightarrow> sample_metadata" where
  "sample_named name = \<lparr>sd_authority = 30, sd_mint = 4, sd_name = name\<rparr>"

definition raw_metadata_ext :: "bytes extension" where
  "raw_metadata_ext = \<lparr>vx_type = TokenMetadata, vx_len = 0, vx_to_bytes = \<lambda>bs. bs, vx_of_bytes = \<lambda>bs. bs, vx_default = []\<rparr>"

definition sample_metadata_store :: store where
  "sample_metadata_store = sample_store [(4, config_mint raw_metadata_ext (sample_encoding (sample_named [1, 2, 3])))]"

lemma sample_metadatas_simps [simp]:
  "ti_update_authority sample_metadatas = sd_authority" "sd_authority (sample_named n) = 30"
  "ti_update sample_metadatas u name (sample_named n) = sample_named name"
  "vl_packed_len (token_metadata_ext sample_metadatas) t = Inr (length (sample_encoding t))"
  "vl_pack_into_slice (token_metadata_ext sample_metadatas) t d = Inr (sample_encoding t)"
  "vl_unpack_from_slice (token_metadata_ext sample_metadatas) (sample_encoding t) = Inr t"
  "length (sample_encoding (sample_named n)) = 64 + length n" "vx_type raw_metadata_ext = TokenMetadata"
  "vx_to_bytes raw_metadata_ext bs = bs"
  by (simp_all add: sample_metadatas_def sample_named_def token_metadata_ext_def sample_encoding_def raw_metadata_ext_def codec_simps)

lemma metadata_update_correct_witness:
  "\<exists>st' m m'. token_metadata_process_instruction sample_metadatas sample_platform [plain_info 4, signer_info 30]
      (MetadataUpdateField () [4, 5, 6, 7, 8]) sample_metadata_store = Inr (st', None) \<and>
    unpack (mint_base sample_platform) (info_data sample_metadata_store (plain_info 4)) = Inr m \<and>
    describes sample_platform sample_metadatas (sample_named [4, 5, 6, 7, 8])
      [(TokenMetadata, sample_encoding (sample_named [1, 2, 3]))] m m'"
  (is "\<exists>st' m m'. ?run = Inr (st', None) \<and> _ m \<and> _ m m'")
proof -
  let ?S = "mint_base sample_platform" and ?T = "token_metadata_ext sample_metadatas"
  let ?old = "sample_named [1, 2, 3]" and ?new = "sample_named [4, 5, 6, 7, 8]"
  let ?m = "single ?S (sample_mint 100) raw_metadata_ext (sample_encoding ?old)"
  let ?es = "[(TokenMetadata, sample_encoding ?old)]"
  have u: "unpack ?S (info_data sample_metadata_store (plain_info 4)) = Inr ?m"
    by (simp add: info_data_def sample_metadata_store_def config_mint_def)
  have lo: "laid_out ?es (ps_tlv ?m)"
    using laid_out_single [of TokenMetadata "sample_encoding ?old"] by simp
  have t: "get_variable_len_extension AtMint ?T (ps_tlv ?m) = Inr ?old"
    using get_laid_out [OF lo, of TokenMetadata AtMint "sample_encoding ?old"]
    by (simp add: get_variable_len_extension_def get_account_type_def)
  have long: "BASE_ACCOUNT_LENGTH < length (info_data sample_metadata_store (plain_info 4))"
    by (simp add: info_data_def sample_metadata_store_def config_mint_def mint_st.length_state_bytes single_def size_numerals)
  have "\<exists>st'. alloc_and_serialize_variable_len_extension sample_platform ?S ?T ?new True (plain_info 4) sample_metadata_store = Inr st'"
    by (rule mint_st.alloc_and_serialize_variable_len_defined [OF u lo, where bs = "sample_encoding ?new"])
      (use long in \<open>simp_all add: sample_resize get_account_type_def size_numerals\<close>)
  then obtain st' where st': "alloc_and_serialize_variable_len_extension sample_platform ?S ?T ?new True (plain_info 4)
      sample_metadata_store = Inr st'" ..
  have "info_owner sample_metadata_store (plain_info 4) = TOKEN_2022_ID"
    by (simp add: info_owner_def sample_metadata_store_def)
  with u t st' have run: "?run = Inr (st', None)"
    by (simp add: token_metadata_process_instruction_def process_update_field_def update_metadata_def check_program_account_def
        mint_st.unpack_ref_eq check_metadata_update_authority_def sample_maybe_null ensure_def)
  have "unpack ?S (ac_data (sample_metadata_store (ai_key (hd [plain_info 4, signer_info 30])))) = Inr ?m"
    using u by (simp add: info_data_def)
  from metadata_update_correct [OF run _ sample_resize_laws sample_metadata_laws this lo] run u t show ?thesis
    by (auto simp: is_update_def edited_def)
qed

end
