(* ===== verification/Processor.thy ===== *)
theory Processor
  imports Confidential_Instruction Ui_Amount Account_Config Fee_Processor Token_Metadata
begin

text \<open>
  The program's entry: \<open>Processor::process\<close>, \<open>_process_inner\<close> and \<open>process_batch\<close>
  (program/src/processor.rs) with the \<open>process_instruction\<close> of every extension
  (program/src/extension/*/processor.rs). The record \<open>environment\<close> collects what belongs to other
  crates, the interfaces of token metadata and groups among it, and the build feature \<open>zk-ops\<close>.

  The theorems state that the program runs the handler a client packed an instruction for, with the
  same arguments, and that a batch succeeds exactly when its instructions succeed one after the other.
\<close>

section \<open>The environment\<close>

text \<open>The state of a run: the accounts and the return data of the transaction.\<close>

type_synonym world = "store \<times> bytes"

type_synonym processor = "address \<Rightarrow> account_info list \<Rightarrow> bytes \<Rightarrow> world \<Rightarrow> world result"

record ('f, 'g, 'm, 't, 'k) environment =
  en_platform :: platform
  en_floats :: "'f float_ops"
  en_account_unpack :: "bytes \<Rightarrow> account result"
  en_zk_ops :: bool
  en_zk :: zk
  en_metadata :: "('t, 'k) metadata_interface"
  en_groups :: "('g, 'm) group_interface"

definition on_store :: "(store \<Rightarrow> store result) \<Rightarrow> world \<Rightarrow> world result" where
  "on_store f w = bindr (f (fst w)) (\<lambda>st. Inr (st, snd w))"

definition set_return_data :: "(store \<Rightarrow> bytes result) \<Rightarrow> world \<Rightarrow> world result" where
  "set_return_data f w = bindr (f (fst w)) (\<lambda>d. Inr (fst w, d))"

definition may_return :: "(store \<Rightarrow> (store \<times> bytes option) result) \<Rightarrow> world \<Rightarrow> world result" where
  "may_return f w = bindr (f (fst w)) (\<lambda>(st, d). Inr (st, case d of None \<Rightarrow> snd w | Some bs \<Rightarrow> bs))"

section \<open>Extension processors\<close>

definition read_address :: "bytes \<Rightarrow> address" where
  "read_address bs = of_le bs"

definition read_addresses :: "bytes \<Rightarrow> address \<times> address" where
  "read_addresses bs = (of_le (seg 0 32 bs), of_le (seg 32 32 bs))"

definition transfer_fee_handler ::
    "platform \<Rightarrow> address \<Rightarrow> account_info list \<Rightarrow> transfer_fee_instruction \<Rightarrow> store \<Rightarrow> store result" where
  "transfer_fee_handler P program_id accounts instruction =
     (case instruction of
        InitializeTransferFeeConfig transfer_fee_config_authority withdraw_withheld_authority
          transfer_fee_basis_points maximum_fee \<Rightarrow>
          process_initialize_transfer_fee_config P accounts transfer_fee_config_authority
            withdraw_withheld_authority transfer_fee_basis_points maximum_fee
      | FeeTransferCheckedWithFee amount decimals fee \<Rightarrow>
          process_transfer P program_id accounts amount (transfer_instruction.TransferCheckedWithFee decimals fee)
      | WithdrawWithheldTokensFromMint \<Rightarrow> process_withdraw_withheld_tokens_from_mint P program_id accounts
      | WithdrawWithheldTokensFromAccounts num_token_accounts \<Rightarrow>
          process_withdraw_withheld_tokens_from_accounts P program_id accounts num_token_accounts
      | HarvestWithheldTokensToMint \<Rightarrow> process_harvest_withheld_tokens_to_mint P accounts
      | SetTransferFee transfer_fee_basis_points maximum_fee \<Rightarrow>
          process_set_transfer_fee P program_id accounts transfer_fee_basis_points maximum_fee)"

definition transfer_fee_process_instruction :: "('f, 'g, 'm, 't, 'k) environment \<Rightarrow> processor" where
  "transfer_fee_process_instruction E program_id accounts input w =
     bindr (transfer_fee_unpack input) (\<lambda>instruction.
     bindr (check_program_account program_id) (\<lambda>_.
     on_store (transfer_fee_handler (en_platform E) program_id accounts instruction) w))"

datatype default_account_state_instruction = DefaultStateInitialize | DefaultStateUpdate

definition default_account_state_decode_instruction ::
    "bytes \<Rightarrow> (default_account_state_instruction \<times> account_state) result" where
  "default_account_state_decode_instruction input =
     (if length input \<noteq> 2 then Inl (Custom InvalidInstruction)
      else
        bindr (ok_or (enum_try_from [DefaultStateInitialize, DefaultStateUpdate] (input ! 0)) (Custom InvalidInstruction)) (\<lambda>i.
        bindr (ok_or (account_state_try_from (input ! 1)) (Custom InvalidInstruction)) (\<lambda>s.
        Inr (i, s))))"

definition default_account_state_process_instruction :: "('f, 'g, 'm, 't, 'k) environment \<Rightarrow> processor" where
  "default_account_state_process_instruction E program_id accounts input w =
     bindr (check_program_account program_id) (\<lambda>_.
     bindr (default_account_state_decode_instruction input) (\<lambda>(instruction, state).
     on_store (case instruction of
         DefaultStateInitialize \<Rightarrow> process_initialize_default_account_state (en_platform E) accounts state
       | DefaultStateUpdate \<Rightarrow> process_update_default_account_state (en_platform E) program_id accounts state) w))"

datatype memo_transfer_instruction = MemoTransferEnable | MemoTransferDisable

definition memo_transfer_process_instruction :: "('f, 'g, 'm, 't, 'k) environment \<Rightarrow> processor" where
  "memo_transfer_process_instruction E program_id accounts input w =
     bindr (check_program_account program_id) (\<lambda>_.
     bindr (decode_instruction_type (enum_try_from [MemoTransferEnable, MemoTransferDisable]) input) (\<lambda>instruction.
     on_store (process_toggle_required_memo_transfers (en_platform E) program_id accounts
                 (instruction = MemoTransferEnable)) w))"

datatype cpi_guard_instruction = CpiGuardEnable | CpiGuardDisable

definition cpi_guard_process_instruction :: "('f, 'g, 'm, 't, 'k) environment \<Rightarrow> processor" where
  "cpi_guard_process_instruction E program_id accounts input w =
     bindr (check_program_account program_id) (\<lambda>_.
     bindr (decode_instruction_type (enum_try_from [CpiGuardEnable, CpiGuardDisable]) input) (\<lambda>instruction.
     on_store (process_toggle_cpi_guard (en_platform E) program_id accounts (instruction = CpiGuardEnable)) w))"

datatype interest_bearing_instruction = InterestInitialize | InterestUpdateRate

definition interest_bearing_process_instruction :: "('f, 'g, 'm, 't, 'k) environment \<Rightarrow> processor" where
  "interest_bearing_process_instruction E program_id accounts input w =
     bindr (check_program_account program_id) (\<lambda>_.
     bindr (decode_instruction_type (enum_try_from [InterestInitialize, InterestUpdateRate]) input) (\<lambda>instruction.
     case instruction of
       InterestInitialize \<Rightarrow>
         bindr (decode_instruction_data 34 (\<lambda>bs. (of_le (seg 0 32 bs), of_le (seg 32 2 bs))) input) (\<lambda>(rate_authority, rate).
         on_store (interest_process_initialize (en_platform E) accounts rate_authority rate) w)
     | InterestUpdateRate \<Rightarrow>
         bindr (decode_instruction_data 2 of_le input) (\<lambda>new_rate.
         on_store (process_update_rate (en_platform E) program_id accounts new_rate) w)))"

datatype pointer_instruction = PointerInitialize | PointerUpdate

text \<open>
  The three pointer extensions and the transfer hook share the shape of their instructions: an
  initialiser with an authority and an address, an update with the address.
\<close>

definition pointer_process_instruction ::
    "(account_info list \<Rightarrow> address \<Rightarrow> address \<Rightarrow> store \<Rightarrow> store result) \<Rightarrow>
     (account_info list \<Rightarrow> address \<Rightarrow> store \<Rightarrow> store result) \<Rightarrow> processor" where
  "pointer_process_instruction process_initialize process_update program_id accounts input w =
     bindr (check_program_account program_id) (\<lambda>_.
     bindr (decode_instruction_type (enum_try_from [PointerInitialize, PointerUpdate]) input) (\<lambda>instruction.
     case instruction of
       PointerInitialize \<Rightarrow>
         bindr (decode_instruction_data 64 read_addresses input) (\<lambda>(authority, pointer_address).
         on_store (process_initialize accounts authority pointer_address) w)
     | PointerUpdate \<Rightarrow>
         bindr (decode_instruction_data 32 read_address input) (\<lambda>pointer_address.
         on_store (process_update accounts pointer_address) w)))"

definition metadata_pointer_process_instruction :: "('f, 'g, 'm, 't, 'k) environment \<Rightarrow> processor" where
  "metadata_pointer_process_instruction E program_id =
     pointer_process_instruction (metadata_pointer_process_initialize (en_platform E))
       (metadata_pointer_process_update (en_platform E) program_id) program_id"

definition group_pointer_process_instruction :: "('f, 'g, 'm, 't, 'k) environment \<Rightarrow> processor" where
  "group_pointer_process_instruction E program_id =
     pointer_process_instruction (group_pointer_process_initialize (en_platform E))
       (group_pointer_process_update (en_platform E) program_id) program_id"

definition group_member_pointer_process_instruction :: "('f, 'g, 'm, 't, 'k) environment \<Rightarrow> processor" where
  "group_member_pointer_process_instruction E program_id =
     pointer_process_instruction (group_member_pointer_process_initialize (en_platform E))
       (group_member_pointer_process_update (en_platform E) program_id) program_id"

definition transfer_hook_process_instruction :: "('f, 'g, 'm, 't, 'k) environment \<Rightarrow> processor" where
  "transfer_hook_process_instruction E program_id =
     pointer_process_instruction (transfer_hook_process_initialize (en_platform E) program_id)
       (transfer_hook_process_update (en_platform E) program_id) program_id"

datatype scaled_ui_amount_instruction = ScaledInitialize | ScaledUpdateMultiplier

definition scaled_ui_amount_process_instruction :: "('f, 'g, 'm, 't, 'k) environment \<Rightarrow> processor" where
  "scaled_ui_amount_process_instruction E program_id accounts input w =
     bindr (check_program_account program_id) (\<lambda>_.
     bindr (decode_instruction_type (enum_try_from [ScaledInitialize, ScaledUpdateMultiplier]) input) (\<lambda>instruction.
     case instruction of
       ScaledInitialize \<Rightarrow>
         bindr (decode_instruction_data 40 (\<lambda>bs. (of_le (seg 0 32 bs), of_le (seg 32 8 bs))) input) (\<lambda>(authority, multiplier).
         on_store (scaled_ui_amount_process_initialize (en_platform E) accounts authority multiplier) w)
     | ScaledUpdateMultiplier \<Rightarrow>
         bindr (decode_instruction_data 16 (\<lambda>bs. (of_le (seg 0 8 bs), of_le (seg 8 8 bs))) input) (\<lambda>(multiplier, effective_timestamp).
         on_store (process_update_multiplier (en_platform E) program_id accounts multiplier effective_timestamp) w)))"

datatype pausable_instruction = PausableInitialize | PausablePause | PausableResume

definition pausable_process_instruction :: "('f, 'g, 'm, 't, 'k) environment \<Rightarrow> processor" where
  "pausable_process_instruction E program_id accounts input w =
     bindr (check_program_account program_id) (\<lambda>_.
     bindr (decode_instruction_type (enum_try_from [PausableInitialize, PausablePause, PausableResume]) input) (\<lambda>instruction.
     case instruction of
       PausableInitialize \<Rightarrow>
         bindr (decode_instruction_data 32 read_address input) (\<lambda>authority.
         on_store (pausable_process_initialize (en_platform E) accounts authority) w)
     | PausablePause \<Rightarrow> on_store (process_toggle_pause (en_platform E) program_id accounts True) w
     | PausableResume \<Rightarrow> on_store (process_toggle_pause (en_platform E) program_id accounts False) w))"

datatype permissioned_burn_instruction =
    PermissionedInitialize | PermissionedBurnPlain | PermissionedBurnChecked | PermissionedConfidentialBurn

definition permissioned_burn_process_instruction :: "('f, 'g, 'm, 't, 'k) environment \<Rightarrow> processor" where
  "permissioned_burn_process_instruction E program_id accounts input w =
     bindr (check_program_account program_id) (\<lambda>_.
     bindr (decode_instruction_type (enum_try_from
              [PermissionedInitialize, PermissionedBurnPlain, PermissionedBurnChecked, PermissionedConfidentialBurn])
              input) (\<lambda>instruction.
     case instruction of
       PermissionedInitialize \<Rightarrow>
         bindr (decode_instruction_data 32 read_address input) (\<lambda>authority.
         on_store (permissioned_burn_process_initialize (en_platform E) accounts authority) w)
     | PermissionedBurnPlain \<Rightarrow>
         bindr (decode_instruction_data 8 of_le input) (\<lambda>amount.
         on_store (process_burn (en_platform E) program_id accounts amount BurnPermissioned VariantUnchecked) w)
     | PermissionedBurnChecked \<Rightarrow>
         bindr (decode_instruction_data 9 amount_checked_data input) (\<lambda>(amount, decimals).
         on_store (process_burn (en_platform E) program_id accounts amount BurnPermissioned (VariantChecked decimals)) w)
     | PermissionedConfidentialBurn \<Rightarrow>
         on_store (permissioned_confidential_burn (en_zk_ops E) (en_zk E) (en_platform E) program_id accounts input) w))"

section \<open>The processor\<close>

definition process_inner :: "('f, 'g, 'm, 't, 'k) environment \<Rightarrow> processor" where
  "process_inner E program_id accounts input w =
     (case decode_instruction_type pod_token_instruction_try_from input of
        Inr instruction_type \<Rightarrow>
        (case instruction_type of
           PodInitializeMint \<Rightarrow>
             bindr (decode_instruction_data_with_coption_pubkey 33 initialize_mint_data input) (\<lambda>((decimals, mint_authority), freeze_authority).
             on_store (process_initialize_mint (en_platform E) accounts decimals mint_authority freeze_authority) w)
         | PodInitializeMint2 \<Rightarrow>
             bindr (decode_instruction_data_with_coption_pubkey 33 initialize_mint_data input) (\<lambda>((decimals, mint_authority), freeze_authority).
             on_store (process_initialize_mint2 (en_platform E) accounts decimals mint_authority freeze_authority) w)
         | PodInitializeAccount \<Rightarrow>
             on_store (process_initialize_account (en_platform E) accounts) w
         | PodInitializeAccount2 \<Rightarrow>
             bindr (decode_instruction_data 32 read_address input) (\<lambda>owner.
             on_store (process_initialize_account2 (en_platform E) accounts owner) w)
         | PodInitializeAccount3 \<Rightarrow>
             bindr (decode_instruction_data 32 read_address input) (\<lambda>owner.
             on_store (process_initialize_account3 (en_platform E) accounts owner) w)
         | PodInitializeMultisig \<Rightarrow>
             bindr (decode_instruction_data 1 of_le input) (\<lambda>m.
             on_store (process_initialize_multisig (en_platform E) accounts m) w)
         | PodInitializeMultisig2 \<Rightarrow>
             bindr (decode_instruction_data 1 of_le input) (\<lambda>m.
             on_store (process_initialize_multisig2 (en_platform E) accounts m) w)
         | PodTransfer \<Rightarrow>
             bindr (decode_instruction_data 8 of_le input) (\<lambda>amount.
             on_store (process_transfer (en_platform E) program_id accounts amount TransferUnchecked) w)
         | PodApprove \<Rightarrow>
             bindr (decode_instruction_data 8 of_le input) (\<lambda>amount.
             on_store (process_approve (en_platform E) program_id accounts amount VariantUnchecked) w)
         | PodRevoke \<Rightarrow>
             on_store (process_revoke (en_platform E) program_id accounts) w
         | PodSetAuthority \<Rightarrow>
             bindr (decode_instruction_data_with_coption_pubkey 1 of_le input) (\<lambda>(data, new_authority).
             bindr (authority_type_from data) (\<lambda>authority_type.
             on_store (process_set_authority (en_platform E) program_id accounts authority_type new_authority) w))
         | PodMintTo \<Rightarrow>
             bindr (decode_instruction_data 8 of_le input) (\<lambda>amount.
             on_store (process_mint_to (en_platform E) program_id accounts amount VariantUnchecked) w)
         | PodBurn \<Rightarrow>
             bindr (decode_instruction_data 8 of_le input) (\<lambda>amount.
             on_store (process_burn (en_platform E) program_id accounts amount BurnStandard VariantUnchecked) w)
         | PodCloseAccount \<Rightarrow>
             on_store (process_close_account (en_platform E) program_id accounts) w
         | PodFreezeAccount \<Rightarrow>
             on_store (process_toggle_freeze_account (en_platform E) program_id accounts True) w
         | PodThawAccount \<Rightarrow>
             on_store (process_toggle_freeze_account (en_platform E) program_id accounts False) w
         | PodTransferChecked \<Rightarrow>
             bindr (decode_instruction_data 9 amount_checked_data input) (\<lambda>(amount, decimals).
             on_store (process_transfer (en_platform E) program_id accounts amount (transfer_instruction.TransferChecked decimals)) w)
         | PodApproveChecked \<Rightarrow>
             bindr (decode_instruction_data 9 amount_checked_data input) (\<lambda>(amount, decimals).
             on_store (process_approve (en_platform E) program_id accounts amount (VariantChecked decimals)) w)
         | PodMintToChecked \<Rightarrow>
             bindr (decode_instruction_data 9 amount_checked_data input) (\<lambda>(amount, decimals).
             on_store (process_mint_to (en_platform E) program_id accounts amount (VariantChecked decimals)) w)
         | PodBurnChecked \<Rightarrow>
             bindr (decode_instruction_data 9 amount_checked_data input) (\<lambda>(amount, decimals).
             on_store (process_burn (en_platform E) program_id accounts amount BurnStandard (VariantChecked decimals)) w)
         | PodSyncNative \<Rightarrow>
             on_store (process_sync_native (en_platform E) accounts) w
         | PodGetAccountDataSize \<Rightarrow>
             bindr (extension_types_of_chunks (drop 1 input)) (\<lambda>types.
             set_return_data (\<lambda>st. bindr (process_get_account_data_size (en_platform E) accounts types st) (\<lambda>n. Inr (le_bytes 8 (of_nat n :: u64)))) w)
         | PodInitializeMintCloseAuthority \<Rightarrow>
             bindr (decode_instruction_data_with_coption_pubkey 0 (\<lambda>_. ()) input) (\<lambda>(_, close_authority).
             on_store (process_initialize_mint_close_authority (en_platform E) accounts close_authority) w)
         | PodTransferFeeExtension \<Rightarrow>
             transfer_fee_process_instruction E program_id accounts (drop 1 input) w
         | PodConfidentialTransferExtension \<Rightarrow>
             on_store (confidential_transfer_process_instruction (en_zk_ops E) (en_zk E) (en_platform E) program_id accounts (drop 1 input)) w
         | PodDefaultAccountStateExtension \<Rightarrow>
             default_account_state_process_instruction E program_id accounts (drop 1 input) w
         | PodInitializeImmutableOwner \<Rightarrow>
             on_store (process_initialize_immutable_owner accounts) w
         | PodAmountToUiAmount \<Rightarrow>
             bindr (decode_instruction_data 8 of_le input) (\<lambda>amount.
             set_return_data (process_amount_to_ui_amount (en_floats E) (en_platform E) accounts amount) w)
         | PodUiAmountToAmount \<Rightarrow>
             if utf8_valid (drop 1 input)
             then set_return_data (process_ui_amount_to_amount (en_floats E) (en_platform E) accounts (drop 1 input)) w
             else Inl (Custom InvalidInstruction)
         | PodReallocate \<Rightarrow>
             bindr (extension_types_of_chunks (drop 1 input)) (\<lambda>types.
             on_store (process_reallocate (en_account_unpack E) (en_platform E) program_id accounts types) w)
         | PodMemoTransferExtension \<Rightarrow>
             memo_transfer_process_instruction E program_id accounts (drop 1 input) w
         | PodCreateNativeMint \<Rightarrow>
             on_store (process_create_native_mint (en_platform E) accounts) w
         | PodInitializeNonTransferableMint \<Rightarrow>
             on_store (process_initialize_non_transferable_mint (en_platform E) accounts) w
         | PodInterestBearingMintExtension \<Rightarrow>
             interest_bearing_process_instruction E program_id accounts (drop 1 input) w
         | PodCpiGuardExtension \<Rightarrow>
             cpi_guard_process_instruction E program_id accounts (drop 1 input) w
         | PodInitializePermanentDelegate \<Rightarrow>
             bindr (decode_instruction_data 32 read_address input) (\<lambda>delegate.
             on_store (process_initialize_permanent_delegate (en_platform E) accounts delegate) w)
         | PodTransferHookExtension \<Rightarrow>
             transfer_hook_process_instruction E program_id accounts (drop 1 input) w
         | PodConfidentialTransferFeeExtension \<Rightarrow>
             on_store (confidential_transfer_fee_process_instruction (en_zk_ops E) (en_zk E) (en_platform E) program_id accounts (drop 1 input)) w
         | PodWithdrawExcessLamports \<Rightarrow>
             on_store (process_withdraw_excess_lamports (en_platform E) program_id accounts) w
         | PodMetadataPointerExtension \<Rightarrow>
             metadata_pointer_process_instruction E program_id accounts (drop 1 input) w
         | PodGroupPointerExtension \<Rightarrow>
             group_pointer_process_instruction E program_id accounts (drop 1 input) w
         | PodGroupMemberPointerExtension \<Rightarrow>
             group_member_pointer_process_instruction E program_id accounts (drop 1 input) w
         | PodConfidentialMintBurnExtension \<Rightarrow>
             on_store (confidential_mint_burn_process_instruction (en_zk_ops E) (en_zk E) (en_platform E) program_id accounts (drop 1 input)) w
         | PodScaledUiAmountExtension \<Rightarrow>
             scaled_ui_amount_process_instruction E program_id accounts (drop 1 input) w
         | PodPausableExtension \<Rightarrow>
             pausable_process_instruction E program_id accounts (drop 1 input) w
         | PodPermissionedBurnExtension \<Rightarrow>
             permissioned_burn_process_instruction E program_id accounts (drop 1 input) w
         | PodUnwrapLamports \<Rightarrow>
             bindr (decode_instruction_data_with_coption_u64 0 (\<lambda>_. ()) input) (\<lambda>(_, amount).
             on_store (process_unwrap_lamports (en_platform E) program_id accounts amount) w)
         | PodBatch \<Rightarrow>
             Inl (Custom InvalidInstruction))
      | Inl _ \<Rightarrow>
        (case ti_unpack (en_metadata E) input of
           Some instruction \<Rightarrow>
             may_return (token_metadata_process_instruction (en_metadata E) (en_platform E) accounts instruction) w
         | None \<Rightarrow>
           (case gi_unpack (en_groups E) input of
              Some instruction \<Rightarrow>
                on_store (token_group_process_instruction (en_groups E) (en_platform E) accounts instruction) w
            | None \<Rightarrow> Inl (Custom InvalidInstruction))))"

text \<open>The batch loop, for any processor of a single instruction; \<open>IX_HEADER_SIZE\<close> is two.\<close>

function batch_loop ::
    "(account_info list \<Rightarrow> bytes \<Rightarrow> 'w \<Rightarrow> 'w result) \<Rightarrow> account_info list \<Rightarrow> bytes \<Rightarrow> 'w \<Rightarrow> 'w result" where
  "batch_loop run accounts data w =
     (if length data < 2 then Inl (Custom InvalidInstruction)
      else
        let expected_accounts = unat (data ! 0); data_offset = 2 + unat (data ! 1) in
        if length accounts < expected_accounts then Inl NotEnoughAccountKeys
        else if length data < data_offset then Inl (Custom InvalidInstruction)
        else
          bindr (run (take expected_accounts accounts) (seg 2 (data_offset - 2) data) w) (\<lambda>w'.
          if data_offset = length data then Inr w'
          else batch_loop run (drop expected_accounts accounts) (drop data_offset data) w'))"
  by pat_completeness auto
termination
  by (relation "measure (\<lambda>(run, accounts, data, w). length data)") auto

declare batch_loop.simps [simp del]

definition process_batch :: "('f, 'g, 'm, 't, 'k) environment \<Rightarrow> processor" where
  "process_batch E program_id = batch_loop (process_inner E program_id)"

definition process :: "('f, 'g, 'm, 't, 'k) environment \<Rightarrow> processor" where
  "process E program_id accounts input w =
     (if decode_instruction_type pod_token_instruction_try_from input = Inr PodBatch
      then process_batch E program_id accounts (drop 1 input) w
      else process_inner E program_id accounts input w)"

section \<open>What is run is what was packed\<close>

text \<open>
  The handler of an instruction with its arguments; \<open>rest\<close> is what follows the packed instruction,
  the data of an extension's own instruction.
\<close>

definition execute :: "('f, 'g, 'm, 't, 'k) environment \<Rightarrow> address \<Rightarrow> account_info list \<Rightarrow> token_instruction \<Rightarrow> bytes \<Rightarrow> world \<Rightarrow> world result" where
  "execute E program_id accounts i rest w =
     (case i of
        InitializeMint mint_authority freeze_authority decimals \<Rightarrow> on_store (process_initialize_mint (en_platform E) accounts decimals mint_authority (coption_of_option freeze_authority)) w
      | InitializeMint2 mint_authority freeze_authority decimals \<Rightarrow> on_store (process_initialize_mint2 (en_platform E) accounts decimals mint_authority (coption_of_option freeze_authority)) w
      | InitializeAccount \<Rightarrow> on_store (process_initialize_account (en_platform E) accounts) w
      | InitializeAccount2 owner \<Rightarrow> on_store (process_initialize_account2 (en_platform E) accounts owner) w
      | InitializeAccount3 owner \<Rightarrow> on_store (process_initialize_account3 (en_platform E) accounts owner) w
      | InitializeMultisig m \<Rightarrow> on_store (process_initialize_multisig (en_platform E) accounts m) w
      | InitializeMultisig2 m \<Rightarrow> on_store (process_initialize_multisig2 (en_platform E) accounts m) w
      | Transfer amount \<Rightarrow> on_store (process_transfer (en_platform E) program_id accounts amount TransferUnchecked) w
      | Approve amount \<Rightarrow> on_store (process_approve (en_platform E) program_id accounts amount VariantUnchecked) w
      | Revoke \<Rightarrow> on_store (process_revoke (en_platform E) program_id accounts) w
      | SetAuthority authority_type new_authority \<Rightarrow> on_store (process_set_authority (en_platform E) program_id accounts authority_type (coption_of_option new_authority)) w
      | MintTo amount \<Rightarrow> on_store (process_mint_to (en_platform E) program_id accounts amount VariantUnchecked) w
      | Burn amount \<Rightarrow> on_store (process_burn (en_platform E) program_id accounts amount BurnStandard VariantUnchecked) w
      | CloseAccount \<Rightarrow> on_store (process_close_account (en_platform E) program_id accounts) w
      | FreezeAccount \<Rightarrow> on_store (process_toggle_freeze_account (en_platform E) program_id accounts True) w
      | ThawAccount \<Rightarrow> on_store (process_toggle_freeze_account (en_platform E) program_id accounts False) w
      | TransferChecked amount decimals \<Rightarrow> on_store (process_transfer (en_platform E) program_id accounts amount (transfer_instruction.TransferChecked decimals)) w
      | ApproveChecked amount decimals \<Rightarrow> on_store (process_approve (en_platform E) program_id accounts amount (VariantChecked decimals)) w
      | MintToChecked amount decimals \<Rightarrow> on_store (process_mint_to (en_platform E) program_id accounts amount (VariantChecked decimals)) w
      | BurnChecked amount decimals \<Rightarrow> on_store (process_burn (en_platform E) program_id accounts amount BurnStandard (VariantChecked decimals)) w
      | SyncNative \<Rightarrow> on_store (process_sync_native (en_platform E) accounts) w
      | GetAccountDataSize types \<Rightarrow> set_return_data (\<lambda>st. bindr (process_get_account_data_size (en_platform E) accounts types st) (\<lambda>n. Inr (le_bytes 8 (of_nat n :: u64)))) w
      | InitializeMintCloseAuthority close_authority \<Rightarrow> on_store (process_initialize_mint_close_authority (en_platform E) accounts (coption_of_option close_authority)) w
      | TransferFeeExtension \<Rightarrow> transfer_fee_process_instruction E program_id accounts rest w
      | ConfidentialTransferExtension \<Rightarrow> on_store (confidential_transfer_process_instruction (en_zk_ops E) (en_zk E) (en_platform E) program_id accounts rest) w
      | DefaultAccountStateExtension \<Rightarrow> default_account_state_process_instruction E program_id accounts rest w
      | InitializeImmutableOwner \<Rightarrow> on_store (process_initialize_immutable_owner accounts) w
      | AmountToUiAmount amount \<Rightarrow> set_return_data (process_amount_to_ui_amount (en_floats E) (en_platform E) accounts amount) w
      | UiAmountToAmount ui_amount \<Rightarrow> set_return_data (process_ui_amount_to_amount (en_floats E) (en_platform E) accounts ui_amount) w
      | Reallocate types \<Rightarrow> on_store (process_reallocate (en_account_unpack E) (en_platform E) program_id accounts types) w
      | MemoTransferExtension \<Rightarrow> memo_transfer_process_instruction E program_id accounts rest w
      | CreateNativeMint \<Rightarrow> on_store (process_create_native_mint (en_platform E) accounts) w
      | InitializeNonTransferableMint \<Rightarrow> on_store (process_initialize_non_transferable_mint (en_platform E) accounts) w
      | InterestBearingMintExtension \<Rightarrow> interest_bearing_process_instruction E program_id accounts rest w
      | CpiGuardExtension \<Rightarrow> cpi_guard_process_instruction E program_id accounts rest w
      | InitializePermanentDelegate delegate \<Rightarrow> on_store (process_initialize_permanent_delegate (en_platform E) accounts delegate) w
      | TransferHookExtension \<Rightarrow> transfer_hook_process_instruction E program_id accounts rest w
      | ConfidentialTransferFeeExtension \<Rightarrow> on_store (confidential_transfer_fee_process_instruction (en_zk_ops E) (en_zk E) (en_platform E) program_id accounts rest) w
      | WithdrawExcessLamports \<Rightarrow> on_store (process_withdraw_excess_lamports (en_platform E) program_id accounts) w
      | MetadataPointerExtension \<Rightarrow> metadata_pointer_process_instruction E program_id accounts rest w
      | GroupPointerExtension \<Rightarrow> group_pointer_process_instruction E program_id accounts rest w
      | GroupMemberPointerExtension \<Rightarrow> group_member_pointer_process_instruction E program_id accounts rest w
      | ConfidentialMintBurnExtension \<Rightarrow> on_store (confidential_mint_burn_process_instruction (en_zk_ops E) (en_zk E) (en_platform E) program_id accounts rest) w
      | ScaledUiAmountExtension \<Rightarrow> scaled_ui_amount_process_instruction E program_id accounts rest w
      | PausableExtension \<Rightarrow> pausable_process_instruction E program_id accounts rest w
      | PermissionedBurnExtension \<Rightarrow> permissioned_burn_process_instruction E program_id accounts rest w
      | UnwrapLamports amount \<Rightarrow> on_store (process_unwrap_lamports (en_platform E) program_id accounts (coption_of_option amount)) w
      | Batch data \<Rightarrow> process_batch E program_id accounts data w)"

definition extension_instruction :: "token_instruction \<Rightarrow> bool" where
  "extension_instruction i \<longleftrightarrow> i \<in>
     {TransferFeeExtension, ConfidentialTransferExtension, DefaultAccountStateExtension, MemoTransferExtension,
      InterestBearingMintExtension, CpiGuardExtension, TransferHookExtension, ConfidentialTransferFeeExtension,
      MetadataPointerExtension, GroupPointerExtension, GroupMemberPointerExtension, ConfidentialMintBurnExtension,
      ScaledUiAmountExtension, PausableExtension, PermissionedBurnExtension}"

lemma pod_try_from_simps [simp]:
  "unat b < 47 \<Longrightarrow> pod_token_instruction_try_from b = Some (pod_token_instructions ! unat b)"
  "pod_token_instruction_try_from 255 = Some PodBatch"
  by (simp_all add: pod_token_instruction_try_from_def pod_token_instructions_def)

lemma pod_unpack_packed [simp]:
  "pod_unpack_pubkey_option (pack_pubkey_option key) = Inr (coption_of_option key)"
  "pod_unpack_u64_option (pack_u64_option amount) = Inr (coption_of_option amount)"
  by (cases key; cases amount; simp add: pod_unpack_pubkey_option_def pack_pubkey_option_def pod_unpack_u64_option_def
      pack_u64_option_def split_first_def coption_of_option_def codec_simps)+

lemma decode_packed:
  "decode_instruction_data 1 of_le [b, m] = Inr (m :: u8)"
  "decode_instruction_data 8 of_le (b # le_bytes 8 amount) = Inr (amount :: u64)"
  "decode_instruction_data 9 amount_checked_data (b # le_bytes 8 amount @ [decimals]) = Inr (amount, decimals)"
  "decode_instruction_data 32 read_address (b # le_bytes 32 key) = Inr key"
  "decode_instruction_data_with_coption_pubkey 33 initialize_mint_data (b # decimals # le_bytes 32 key @ pack_pubkey_option freeze) =
     Inr ((decimals, key), coption_of_option freeze)"
  "decode_instruction_data_with_coption_pubkey 1 of_le (b # t # pack_pubkey_option freeze) = Inr (t :: u8, coption_of_option freeze)"
  "decode_instruction_data_with_coption_pubkey 0 g (b # pack_pubkey_option freeze) = Inr (g [], coption_of_option freeze)"
  "decode_instruction_data_with_coption_u64 0 g (b # pack_u64_option x) = Inr (g [], coption_of_option x)"
proof -
  have one: "of_le [x] = x" for x :: u8
    using of_le_le_bytes [of 1 x] by (simp add: of_le_def)
  show "decode_instruction_data 1 of_le [b, m] = Inr (m :: u8)"
    "decode_instruction_data 8 of_le (b # le_bytes 8 amount) = Inr (amount :: u64)"
    "decode_instruction_data 9 amount_checked_data (b # le_bytes 8 amount @ [decimals]) = Inr (amount, decimals)"
    "decode_instruction_data 32 read_address (b # le_bytes 32 key) = Inr key"
    "decode_instruction_data_with_coption_pubkey 33 initialize_mint_data (b # decimals # le_bytes 32 key @ pack_pubkey_option freeze) =
       Inr ((decimals, key), coption_of_option freeze)"
    "decode_instruction_data_with_coption_pubkey 1 of_le (b # t # pack_pubkey_option freeze) = Inr (t :: u8, coption_of_option freeze)"
    "decode_instruction_data_with_coption_pubkey 0 g (b # pack_pubkey_option freeze) = Inr (g [], coption_of_option freeze)"
    "decode_instruction_data_with_coption_u64 0 g (b # pack_u64_option x) = Inr (g [], coption_of_option x)"
    by (simp_all add: decode_instruction_data_def amount_checked_data_def read_address_def initialize_mint_data_def
        decode_instruction_data_with_coption_pubkey_def decode_instruction_data_with_coption_u64_def codec_simps seg_def one)
qed

lemmas decode_packed_simps [simp] = decode_packed [unfolded One_nat_def]

lemma chunks_packed [simp]: "extension_types_of_chunks (concat (map extension_type_to_bytes types)) = Inr types"
  by (simp add: unpack_iffs)

lemma authority_type_packed [simp]: "authority_type_from (authority_type_into t) = Inr t"
  by (simp add: unpack_iffs)

lemma process_pack:
  assumes "well_formed_instruction i" and "extension_instruction i \<or> rest = []"
  shows "process E program_id accounts (pack i @ rest) w = execute E program_id accounts i rest w"
  using assms
  by (cases i)
    (simp_all add: process_def process_inner_def pack_def execute_def decode_instruction_type_def
      pod_token_instructions_def extension_instruction_def well_formed_instruction_def)

text \<open>
  C32. What a client packs is what the program runs: for every instruction, the program on its packed
  bytes is the handler of that instruction on the packed arguments. An extension's own instruction
  follows the packed token instruction and reaches that extension's processor unchanged, and a packed
  transfer-fee instruction reaches its handler.
\<close>

theorem process_packed:
  assumes "well_formed_instruction i" and "extension_instruction i \<or> rest = []"
  shows "process E program_id accounts (pack i @ rest) w = execute E program_id accounts i rest w \<and>
    process E program_id accounts (pack TransferFeeExtension @ transfer_fee_pack j) w =
      bindr (check_program_account program_id) (\<lambda>_.
      on_store (transfer_fee_handler (en_platform E) program_id accounts j) w)"
proof
  show "process E program_id accounts (pack i @ rest) w = execute E program_id accounts i rest w"
    using assms by (rule process_pack)
  show "process E program_id accounts (pack TransferFeeExtension @ transfer_fee_pack j) w =
      bindr (check_program_account program_id) (\<lambda>_.
      on_store (transfer_fee_handler (en_platform E) program_id accounts j) w)"
    using transfer_fee_unpack_pack [of j "[]"]
    by (simp add: process_def process_inner_def pack_def decode_instruction_type_def pod_token_instructions_def
        transfer_fee_process_instruction_def)
qed

section \<open>Batches\<close>

text \<open>The encoding of a list of instructions, each with its accounts and its data.\<close>

definition batch_data :: "(account_info list \<times> bytes) list \<Rightarrow> bytes" where
  "batch_data ixs = concat (map (\<lambda>(accounts, data). of_nat (length accounts) # of_nat (length data) # data) ixs)"

definition batch_fits :: "(account_info list \<times> bytes) list \<Rightarrow> bool" where
  "batch_fits ixs \<longleftrightarrow> ixs \<noteq> [] \<and> list_all (\<lambda>(accounts, data). length accounts < 256 \<and> length data < 256) ixs"

lemma batch_loop_Cons:
  assumes "length accounts < 256" and "length data < 256"
  shows "batch_loop run (accounts @ extra) (batch_data ((accounts, data) # ixs)) w =
    bindr (run accounts data w) (\<lambda>w'. if ixs = [] then Inr w' else batch_loop run extra (batch_data ixs) w')"
proof -
  have n: "unat (of_nat (length accounts) :: u8) = length accounts" "unat (of_nat (length data) :: u8) = length data"
    using assms by (simp_all add: unat_of_nat)
  have "(batch_data ixs = []) = (ixs = [])"
    by (cases ixs) (auto simp: batch_data_def)
  moreover have "batch_data ((accounts, data) # ixs) =
      of_nat (length accounts) # of_nat (length data) # data @ batch_data ixs"
    by (simp add: batch_data_def)
  ultimately show ?thesis
    by (subst batch_loop.simps) (simp add: n Let_def seg_def cong: if_cong)
qed

text \<open>Whatever the batch loop accepts is the encoding of instructions that run one after the other.\<close>

lemma batch_loop_Inr:
  assumes "batch_loop run accounts data w = Inr w'"
  shows "\<exists>ixs extra. batch_fits ixs \<and> data = batch_data ixs \<and> accounts = concat (map fst ixs) @ extra \<and>
    try_for_each (\<lambda>(accounts, data). run accounts data) ixs w = Inr w'"
  using assms
proof (induction run accounts data w rule: batch_loop.induct)
  case (1 run accounts data w)
  define n m where nm: "n = unat (data ! 0)" "m = unat (data ! 1)"
  let ?d = "seg 2 m data"
  from "1.prems" obtain w1 where s: "2 \<le> length data" "n \<le> length accounts" "2 + m \<le> length data"
    "run (take n accounts) ?d w = Inr w1"
    and rest: "(if 2 + m = length data then Inr w1 else batch_loop run (drop n accounts) (drop (2 + m) data) w1) = Inr w'"
    by (subst (asm) batch_loop.simps) (auto simp: Let_def nm result_simps not_less split: if_splits)
  have d: "data = data ! 0 # data ! 1 # ?d @ drop (2 + m) data"
    using s(1) by (cases data; cases "tl data") (auto simp: seg_def)
  have lt: "n < 256" "m < 256"
    using unsigned_less [of "data ! 0", where ?'a = nat] unsigned_less [of "data ! 1", where ?'a = nat] by (simp_all add: nm)
  have len: "length (take n accounts) = n" "length ?d = m" using s by (simp_all add: seg_def)
  have one: "batch_data ((take n accounts, ?d) # ixs) = data ! 0 # data ! 1 # ?d @ batch_data ixs" for ixs
  proof -
    have "of_nat (length (take n accounts)) = data ! 0" "of_nat (length ?d) = data ! 1"
      unfolding len by (simp_all add: nm)
    then show ?thesis by (simp add: batch_data_def)
  qed
  show ?case
  proof (cases "2 + m = length data")
    case True
    with rest s d one [of "[]"] lt len show ?thesis
      by (intro exI [of _ "[(take n accounts, ?d)]"] exI [of _ "drop n accounts"])
        (simp add: batch_fits_def batch_data_def)
  next
    case False
    with rest have "batch_loop run (drop n accounts) (drop (2 + m) data) w1 = Inr w'" by simp
    from "1.IH" [OF _ nm(1) _ _ _ _ this] s False obtain ixs extra where
      ih: "batch_fits ixs" "drop (2 + m) data = batch_data ixs" "drop n accounts = concat (map fst ixs) @ extra"
        "try_for_each (\<lambda>(accounts, data). run accounts data) ixs w1 = Inr w'"
      by (auto simp: nm not_less)
    have "accounts = take n accounts @ concat (map fst ixs) @ extra" by (simp flip: ih(3))
    with ih s d one [of ixs] lt len show ?thesis
      by (intro exI [of _ "(take n accounts, ?d) # ixs"] exI [of _ extra]) (simp add: batch_fits_def)
  qed
qed

lemma batch_loop_run:
  assumes "batch_fits ixs"
  shows "batch_loop run (concat (map fst ixs) @ extra) (batch_data ixs) w =
    try_for_each (\<lambda>(accounts, data). run accounts data) ixs w"
  using assms
proof (induction ixs arbitrary: w)
  case (Cons ix ixs)
  obtain accounts data where ix: "ix = (accounts, data)" by (cases ix)
  show ?case
  proof (cases "ixs = []")
    case True
    with Cons.prems show ?thesis
      by (simp add: ix batch_fits_def batch_loop_Cons) (simp add: bindr_def split: sum.splits)
  next
    case False
    with Cons.prems have "batch_fits ixs" "length accounts < 256" "length data < 256"
      by (simp_all add: ix batch_fits_def)
    with Cons.IH False show ?thesis by (simp add: ix batch_loop_Cons)
  qed
qed (simp add: batch_fits_def)

text \<open>
  C33. A batch is its instructions: on an encoded list it does what running them one after the other
  does, their errors included, it accepts nothing but such encodings, and it refuses a batch inside.
\<close>

theorem batch_is_sequence:
  "(batch_fits ixs \<longrightarrow>
     process E program_id (concat (map fst ixs) @ extra) (pack (Batch (batch_data ixs))) w =
       try_for_each (\<lambda>(accounts, data). process_inner E program_id accounts data) ixs w) \<and>
   (process_batch E program_id accounts data w = Inr w' \<longrightarrow>
     (\<exists>ixs extra. batch_fits ixs \<and> data = batch_data ixs \<and> accounts = concat (map fst ixs) @ extra \<and>
        try_for_each (\<lambda>(accounts, data). process_inner E program_id accounts data) ixs w = Inr w')) \<and>
   process_inner E program_id accounts (pack (Batch data)) w = Inl (Custom InvalidInstruction)"
proof (intro conjI impI)
  assume "batch_fits ixs"
  then show "process E program_id (concat (map fst ixs) @ extra) (pack (Batch (batch_data ixs))) w =
      try_for_each (\<lambda>(accounts, data). process_inner E program_id accounts data) ixs w"
    using process_pack [of "Batch (batch_data ixs)" "[]" E program_id "concat (map fst ixs) @ extra" w]
    by (simp add: well_formed_instruction_def execute_def process_batch_def batch_loop_run)
next
  assume "process_batch E program_id accounts data w = Inr w'"
  then show "\<exists>ixs extra. batch_fits ixs \<and> data = batch_data ixs \<and> accounts = concat (map fst ixs) @ extra \<and>
        try_for_each (\<lambda>(accounts, data). process_inner E program_id accounts data) ixs w = Inr w'"
    unfolding process_batch_def by (rule batch_loop_Inr)
next
  show "process_inner E program_id accounts (pack (Batch data)) w = Inl (Custom InvalidInstruction)"
    by (simp add: process_inner_def pack_def decode_instruction_type_def)
qed

section \<open>Concrete instances\<close>

definition sample_floats :: "unit float_ops" where
  "sample_floats =
     \<lparr>fl_of_u64 = \<lambda>_. (), fl_of_int = \<lambda>_. (), fl_of_bits = \<lambda>_. (), fl_decimal = \<lambda>_ _. (), fl_mul = \<lambda>_ _. (),
      fl_div = \<lambda>_ _. (), fl_exp = \<lambda>_. (), fl_pow = \<lambda>_ _. (), fl_less = \<lambda>_ _. False, fl_is_nan = \<lambda>_. True,
      fl_round = \<lambda>_. (), fl_trunc = \<lambda>_. (), fl_to_u64 = \<lambda>_. 0, fl_format = \<lambda>_ _. [], fl_parse = \<lambda>_. None\<rparr>"

definition sample_environment :: "(unit, sample_group, sample_member, sample_metadata, unit) environment" where
  "sample_environment =
     \<lparr>en_platform = sample_platform, en_floats = sample_floats, en_account_unpack = sample_unpack,
      en_zk_ops = True, en_zk = sample_zk, en_metadata = sample_metadatas, en_groups = sample_groups\<rparr>"

theorem process_packed_witness:
  "process sample_environment TOKEN_2022_ID [plain_info 5, plain_info 6, signer_info 30] (3 # le_bytes 8 (20 :: u64))
     (sample_transfer_store, []) =
   on_store (process_transfer sample_platform TOKEN_2022_ID [plain_info 5, plain_info 6, signer_info 30] 20
     TransferUnchecked) (sample_transfer_store, [])"
proof -
  have "process sample_environment TOKEN_2022_ID [plain_info 5, plain_info 6, signer_info 30] (pack (Transfer 20) @ [])
      (sample_transfer_store, []) =
    execute sample_environment TOKEN_2022_ID [plain_info 5, plain_info 6, signer_info 30] (Transfer 20) []
      (sample_transfer_store, [])"
    by (rule process_packed [THEN conjunct1]) (simp_all add: well_formed_instruction_def)
  then show ?thesis by (simp add: pack_def execute_def sample_environment_def)
qed

theorem batch_is_sequence_witness:
  "process sample_environment TOKEN_2022_ID [plain_info 5, plain_info 6, signer_info 30, plain_info 8]
     [255, 3, 9, 3, 20, 0, 0, 0, 0, 0, 0, 0, 1, 1, 17] (sample_transfer_store, []) =
   try_for_each (\<lambda>(accounts, data). process_inner sample_environment TOKEN_2022_ID accounts data)
     [([plain_info 5, plain_info 6, signer_info 30], [3, 20, 0, 0, 0, 0, 0, 0, 0]), ([plain_info 8], [17])]
     (sample_transfer_store, [])"
  using batch_is_sequence [of "[([plain_info 5, plain_info 6, signer_info 30], [3, 20, 0, 0, 0, 0, 0, 0, 0]), ([plain_info 8], [17])]"
      sample_environment TOKEN_2022_ID "[]" "(sample_transfer_store, [])", THEN conjunct1]
  by (simp add: batch_fits_def batch_data_def pack_def)

end
