(* ===== verification/Ledger.thy ===== *)
theory Ledger
  imports Processor
begin

text \<open>
  The books of the program. Every account the token program owns is read as an entry: a token account
  holds its amount and the fees withheld on it, a mint has issued its supply and pools the fees it
  collected. What was deposited into encrypted balances is not visible in any account: it is a ledger
  \<open>h\<close> of net deposits. The books balance when, for every mint but the native one, what its accounts hold,
  what the mint pools and what is encrypted add up to what it issued.

  A state is sound when the bytes of every account of the program are: its extension buffer is laid
  out, an account that is not initialised yet carries neither supply nor fees, and only accounts of
  the native mint are native. Soundness is what keeps an initialisation from conjuring tokens out of
  left-over bytes. This theory defines both and shows how a change of one account, of a view or of a
  few accounts acts on them; \<open>Ledger_Handlers\<close> applies that to every instruction.
\<close>

section \<open>The books\<close>

definition token_account :: "acct \<Rightarrow> pod_account pod_state option" where
  "token_account c =
     (if ac_owner c = TOKEN_2022_ID then result_ok (unpack account_base (ac_data c)) else None)"

definition token_mint :: "platform \<Rightarrow> acct \<Rightarrow> pod_mint pod_state option" where
  "token_mint P c =
     (if ac_owner c = TOKEN_2022_ID then result_ok (unpack (mint_base P) (ac_data c)) else None)"

definition mint_fees :: "bytes \<Rightarrow> nat" where
  "mint_fees tlv =
     (case get_extension AtMint transfer_fee_config_ext tlv of
        Inr e \<Rightarrow> unat (tfc_withheld_amount e) | Inl _ \<Rightarrow> 0)"

definition held :: "address \<Rightarrow> acct \<Rightarrow> nat" where
  "held m c =
     (case token_account c of Some s \<Rightarrow> if a_mint (ps_base s) = m then holding s else 0 | None \<Rightarrow> 0)"

definition issued :: "platform \<Rightarrow> acct \<Rightarrow> nat" where
  "issued P c = (case token_mint P c of Some s \<Rightarrow> unat (m_supply (ps_base s)) | None \<Rightarrow> 0)"

definition pooled :: "platform \<Rightarrow> acct \<Rightarrow> nat" where
  "pooled P c = (case token_mint P c of Some s \<Rightarrow> mint_fees (ps_tlv s) | None \<Rightarrow> 0)"

definition circulating :: "address \<Rightarrow> store \<Rightarrow> nat" where
  "circulating m st = (\<Sum>a\<in>UNIV. held m (st a))"

definition balanced :: "platform \<Rightarrow> (address \<Rightarrow> int) \<Rightarrow> store \<Rightarrow> bool" where
  "balanced P h st \<longleftrightarrow> (\<forall>m. m \<noteq> NATIVE_MINT_ID \<longrightarrow>
     int (circulating m st) + int (pooled P (st m)) + h m = int (issued P (st m)))"

text \<open>Bytes that no view has typed yet: a bare mint, or a zero account-type byte.\<close>

definition untyped :: "platform \<Rightarrow> bytes \<Rightarrow> bool" where
  "untyped P d \<longleftrightarrow>
     length d = MINT_LEN \<and> \<not> pod_mint_is_initialized P (pod_mint_of_bytes d) \<or>
     BASE_ACCOUNT_LENGTH < length d \<and> d ! BASE_ACCOUNT_LENGTH = 0"

definition sound_data :: "platform \<Rightarrow> bytes \<Rightarrow> bool" where
  "sound_data P d \<longleftrightarrow>
     (length d \<noteq> MULTISIG_LEN \<longrightarrow>
        (\<exists>es. laid_out es (drop (BASE_ACCOUNT_LENGTH + 1) d)) \<and>
        (untyped P d \<longrightarrow>
           m_supply (pod_mint_of_bytes (take MINT_LEN d)) = 0 \<and>
           withheld (drop (BASE_ACCOUNT_LENGTH + 1) d) = 0 \<and> mint_fees (drop (BASE_ACCOUNT_LENGTH + 1) d) = 0) \<and>
        (\<forall>s. unpack account_base d = Inr s \<longrightarrow> is_native (ps_base s) \<longrightarrow> a_mint (ps_base s) = NATIVE_MINT_ID))"

definition sound :: "platform \<Rightarrow> acct \<Rightarrow> bool" where
  "sound P c \<longleftrightarrow> (ac_owner c = TOKEN_2022_ID \<longrightarrow> sound_data P (ac_data c))"

section \<open>What a change of the buffer does\<close>

lemma get_extension_laid_out:
  assumes "laid_out es tlv" and "vx_type V \<noteq> ExtUninitialized"
  shows "get_extension at V tlv = Inr x \<longleftrightarrow> get_account_type (vx_type V) = at \<and>
    (\<exists>bs. map_of es (vx_type V) = Some bs \<and> length bs = vx_len V \<and> x = vx_of_bytes V bs)"
  using get_laid_out [OF assms, of at] by (auto simp: get_extension_def result_simps)

lemma laid_out_same_Inr:
  assumes "laid_out es tlv" "laid_out es' tlv'" and "map_of es' (vx_type V) = map_of es (vx_type V)"
    and "vx_type V \<noteq> ExtUninitialized"
  shows "get_extension at V tlv' = Inr x \<longleftrightarrow> get_extension at V tlv = Inr x"
  using assms by (simp add: get_extension_laid_out)

lemma case_Inr_cong:
  "(\<And>x. m' = Inr x \<longleftrightarrow> m = Inr x) \<Longrightarrow>
    (case m' of Inl _ \<Rightarrow> z | Inr x \<Rightarrow> f x) = (case m of Inl _ \<Rightarrow> z | Inr x \<Rightarrow> f x)"
  by (cases m; cases m'; simp) (metis sum.inject(2))+

lemma extension_vx_types [simp]:
  "vx_type transfer_fee_config_ext = TransferFeeConfig"
  "vx_type transfer_fee_amount_ext = TransferFeeAmount"
  "vx_type mint_close_authority_ext = MintCloseAuthority"
  "vx_type confidential_transfer_mint_ext = ConfidentialTransferMint"
  "vx_type confidential_transfer_account_ext = ConfidentialTransferAccount"
  "vx_type default_account_state_ext = DefaultAccountState"
  "vx_type memo_transfer_ext = MemoTransfer"
  "vx_type interest_bearing_config_ext = InterestBearingConfig"
  "vx_type cpi_guard_ext = CpiGuard"
  "vx_type permanent_delegate_ext = PermanentDelegate"
  "vx_type transfer_hook_ext = TransferHook"
  "vx_type transfer_hook_account_ext = TransferHookAccount"
  "vx_type confidential_transfer_fee_config_ext = ConfidentialTransferFeeConfig"
  "vx_type confidential_transfer_fee_amount_ext = ConfidentialTransferFeeAmount"
  "vx_type metadata_pointer_ext = MetadataPointer"
  "vx_type group_pointer_ext = GroupPointer"
  "vx_type group_member_pointer_ext = GroupMemberPointer"
  "vx_type confidential_mint_burn_ext = ConfidentialMintBurn"
  "vx_type scaled_ui_amount_config_ext = ScaledUiAmount"
  "vx_type pausable_config_ext = Pausable"
  "vx_type permissioned_burn_config_ext = PermissionedBurn"
  "vx_type immutable_owner_ext = ImmutableOwner"
  "vx_type non_transferable_ext = NonTransferable"
  "vx_type non_transferable_account_ext = NonTransferableAccount"
  "vx_type pausable_account_ext = PausableAccount"
  by (simp_all add: transfer_fee_config_ext_def transfer_fee_amount_ext_def mint_close_authority_ext_def
      confidential_transfer_mint_ext_def confidential_transfer_account_ext_def default_account_state_ext_def
      memo_transfer_ext_def interest_bearing_config_ext_def cpi_guard_ext_def permanent_delegate_ext_def
      transfer_hook_ext_def transfer_hook_account_ext_def confidential_transfer_fee_config_ext_def
      confidential_transfer_fee_amount_ext_def metadata_pointer_ext_def group_pointer_ext_def
      group_member_pointer_ext_def confidential_mint_burn_ext_def scaled_ui_amount_config_ext_def
      pausable_config_ext_def permissioned_burn_config_ext_def immutable_owner_ext_def
      non_transferable_ext_def non_transferable_account_ext_def pausable_account_ext_def)

lemma laid_out_same_fees:
  assumes "laid_out es tlv" "laid_out es' tlv'"
  shows "map_of es' TransferFeeAmount = map_of es TransferFeeAmount \<Longrightarrow> withheld tlv' = withheld tlv"
    and "map_of es' TransferFeeConfig = map_of es TransferFeeConfig \<Longrightarrow> mint_fees tlv' = mint_fees tlv"
  unfolding withheld_def mint_fees_def
  by (rule case_Inr_cong, rule laid_out_same_Inr [OF assms], simp_all)+

text \<open>A buffer that keeps its length, its layout and the fees recorded in it.\<close>

definition tlv_quiet :: "bytes \<Rightarrow> bytes \<Rightarrow> bool" where
  "tlv_quiet tlv tlv' \<longleftrightarrow> length tlv' = length tlv \<and>
     ((\<exists>es. laid_out es tlv) \<longrightarrow>
        (\<exists>es. laid_out es tlv') \<and> withheld tlv' = withheld tlv \<and> mint_fees tlv' = mint_fees tlv)"

lemma tlv_quiet_refl [simp]: "tlv_quiet tlv tlv"
  by (simp add: tlv_quiet_def)

lemma tlv_quiet_trans: "tlv_quiet a b \<Longrightarrow> tlv_quiet b c \<Longrightarrow> tlv_quiet a c"
  by (auto simp: tlv_quiet_def)

lemma tlv_quiet_same_except:
  "same_except T a b \<Longrightarrow> TransferFeeAmount \<notin> T \<Longrightarrow> TransferFeeConfig \<notin> T \<Longrightarrow> tlv_quiet a b"
  using same_except_get [of T a b transfer_fee_config_ext AtMint] withheld_same [of T a b]
  by (auto simp: tlv_quiet_def same_except_def mint_fees_def)

lemma tlv_quiet_put:
  assumes "put_extension at V v tlv = Inr tlv'" and "at \<noteq> AtUninitialized"
    and "vx_type V \<noteq> TransferFeeAmount" "vx_type V \<noteq> TransferFeeConfig"
  shows "tlv_quiet tlv tlv'"
  using put_same_except [OF assms(1,2)] assms(3,4) by (intro tlv_quiet_same_except) auto

context extension_contract
begin

lemma tlv_quiet_init:
  assumes "init_extension at V ow tlv = Inr tlv'" and "at \<noteq> AtUninitialized"
    and "vx_type V \<noteq> TransferFeeAmount" "vx_type V \<noteq> TransferFeeConfig"
  shows "tlv_quiet tlv tlv'"
  unfolding tlv_quiet_def
proof (intro conjI impI)
  show "length tlv' = length tlv" using assms(1,2) by (rule init_length)
  assume "\<exists>es. laid_out es tlv"
  then obtain es where es: "laid_out es tlv" ..
  note es' = init_laid_out [OF assms(1,2) es]
  show "\<exists>es. laid_out es tlv'" using es' ..
  show "withheld tlv' = withheld tlv" "mint_fees tlv' = mint_fees tlv"
    using assms(3,4) by (intro laid_out_same_fees [OF es es']; simp add: update_conv')+
qed

end

text \<open>A buffer without fees that stays one: what initialisations do to an account not typed yet.\<close>

definition tlv_fresh :: "bytes \<Rightarrow> bool" where
  "tlv_fresh tlv \<longleftrightarrow> (\<exists>es. laid_out es tlv) \<and> withheld tlv = 0 \<and> mint_fees tlv = 0"

lemma tlv_fresh_quiet: "tlv_fresh tlv \<Longrightarrow> tlv_quiet tlv tlv' \<Longrightarrow> tlv_fresh tlv'"
  by (auto simp: tlv_fresh_def tlv_quiet_def)

lemma tlv_fresh_zeros: "tlv_fresh (replicate n 0)"
proof -
  note z = laid_out_zeros [of n]
  have "get_extension AtAccount transfer_fee_amount_ext (replicate n 0) \<noteq> Inr x"
    "get_extension AtMint transfer_fee_config_ext (replicate n 0) \<noteq> Inr y" for x y
    by (simp_all add: get_extension_laid_out [OF z])
  then show ?thesis
    using z by (auto simp: tlv_fresh_def withheld_def mint_fees_def split: sum.splits)
qed

lemma tlv_fresh_init_fees:
  assumes "tlv_fresh tlv"
  shows "init_extension AtAccount transfer_fee_amount_ext ow tlv = Inr tlv' \<Longrightarrow> tlv_fresh tlv' \<and> length tlv' = length tlv"
    and "init_extension AtMint transfer_fee_config_ext ow tlv = Inr tlv' \<Longrightarrow> tlv_fresh tlv' \<and> length tlv' = length tlv"
proof -
  from assms obtain es where es: "laid_out es tlv" "withheld tlv = 0" "mint_fees tlv = 0"
    by (auto simp: tlv_fresh_def)
  show "tlv_fresh tlv' \<and> length tlv' = length tlv" if i: "init_extension AtAccount transfer_fee_amount_ext ow tlv = Inr tlv'"
  proof -
    note es' = transfer_fee_amount_x.init_laid_out [OF i _ es(1)]
    have "withheld tlv' = 0"
      using transfer_fee_amount_x.init_get_same [OF i] by (simp add: withheld_def transfer_fee_amount_ext_def)
    moreover have "mint_fees tlv' = mint_fees tlv"
      using laid_out_same_fees(2) [OF es(1) es'] by (simp add: update_conv')
    ultimately show ?thesis
      using es es' transfer_fee_amount_x.init_length [OF i] by (auto simp: tlv_fresh_def)
  qed
  show "tlv_fresh tlv' \<and> length tlv' = length tlv" if i: "init_extension AtMint transfer_fee_config_ext ow tlv = Inr tlv'"
  proof -
    note es' = transfer_fee_config_x.init_laid_out [OF i _ es(1)]
    have "mint_fees tlv' = 0"
      using transfer_fee_config_x.init_get_same [OF i] by (simp add: mint_fees_def transfer_fee_config_ext_def)
    moreover have "withheld tlv' = withheld tlv"
      using laid_out_same_fees(1) [OF es(1) es'] by (simp add: update_conv')
    ultimately show ?thesis
      using es es' transfer_fee_config_x.init_length [OF i] by (auto simp: tlv_fresh_def)
  qed
qed

section \<open>What the bytes of an account record\<close>

lemma unpack_account_shape:
  assumes "unpack account_base d = Inr s"
  shows "drop (BASE_ACCOUNT_LENGTH + 1) d = ps_tlv s" "\<not> untyped P d" "length d \<noteq> MULTISIG_LEN"
  using account_st.unpack_shape [OF assms] by (auto simp: size_numerals untyped_def account_type_u8_def)

lemma unpack_mint_shape:
  assumes "unpack (mint_base P) d = Inr s"
  shows "drop (BASE_ACCOUNT_LENGTH + 1) d = ps_tlv s" "\<not> untyped P d" "length d \<noteq> MULTISIG_LEN"
  using mint_st.unpack_shape [OF assms] unpack_mint_initialized [OF assms]
  by (auto simp: size_numerals untyped_def account_type_u8_def)

lemma uninitialized_mint_shape:
  assumes "unpack_uninitialized (mint_base P) d = Inr s"
  shows "drop (BASE_ACCOUNT_LENGTH + 1) d = ps_tlv s" "untyped P d" "length d \<noteq> MULTISIG_LEN"
    "pod_mint_of_bytes (take MINT_LEN d) = ps_base s"
  using mint_st.unpack_uninitialized_shape [OF assms] by (auto simp: size_numerals untyped_def)

lemma token_account_eq:
  "token_account c = Some s \<longleftrightarrow> ac_owner c = TOKEN_2022_ID \<and> unpack account_base (ac_data c) = Inr s"
  by (simp add: token_account_def result_simps)

lemma token_mint_eq:
  "token_mint P c = Some s \<longleftrightarrow> ac_owner c = TOKEN_2022_ID \<and> unpack (mint_base P) (ac_data c) = Inr s"
  by (simp add: token_mint_def result_simps)

text \<open>The entries of an account: a token account, a mint, or nothing.\<close>

lemma account_entries:
  assumes "unpack account_base (ac_data c) = Inr s" and "ac_owner c = TOKEN_2022_ID"
  shows "held m c = (if a_mint (ps_base s) = m then holding s else 0)" "issued P c = 0" "pooled P c = 0"
proof -
  have "token_account c = Some s" using assms by (simp add: token_account_eq)
  moreover have "token_mint P c = None"
    using mint_account_disjoint [of P "ac_data c"] assms(1) by (auto simp: token_mint_def split: sum.splits)
      (metis Inl_Inr_False result_ok_def not_None_eq result_ok_eq_Some)
  ultimately show "held m c = (if a_mint (ps_base s) = m then holding s else 0)" "issued P c = 0" "pooled P c = 0"
    by (simp_all add: held_def issued_def pooled_def)
qed

lemma mint_entries:
  assumes "unpack (mint_base P) (ac_data c) = Inr s" and "ac_owner c = TOKEN_2022_ID"
  shows "held m c = 0" "issued P c = unat (m_supply (ps_base s))" "pooled P c = mint_fees (ps_tlv s)"
proof -
  have "token_mint P c = Some s" using assms by (simp add: token_mint_eq)
  moreover have "token_account c = None"
    using mint_account_disjoint [OF assms(1)] by (auto simp: token_account_def)
  ultimately show "held m c = 0" "issued P c = unat (m_supply (ps_base s))" "pooled P c = mint_fees (ps_tlv s)"
    by (simp_all add: held_def issued_def pooled_def)
qed

lemma no_entries:
  assumes "ac_owner c \<noteq> TOKEN_2022_ID \<or> untyped P (ac_data c) \<or> length (ac_data c) = MULTISIG_LEN"
  shows "held m c = 0" "issued P c = 0" "pooled P c = 0"
proof -
  have "token_account c = None" "token_mint P c = None"
    using assms unpack_account_shape(2,3) unpack_mint_shape(2,3)
    by (metis not_None_eq token_account_eq, metis not_None_eq token_mint_eq)
  then show "held m c = 0" "issued P c = 0" "pooled P c = 0"
    by (simp_all add: held_def issued_def pooled_def)
qed

section \<open>Quiet changes\<close>

text \<open>
  A change of the account at address \<open>k\<close> that no book notices: it stays sound, holds the same of
  every mint but the native one, and has issued and pooled the same unless it is the native mint.
\<close>

definition quiet :: "platform \<Rightarrow> address \<Rightarrow> acct \<Rightarrow> acct \<Rightarrow> bool" where
  "quiet P k c c' \<longleftrightarrow>
     (sound P c \<longrightarrow>
        sound P c' \<and> (\<forall>m. m \<noteq> NATIVE_MINT_ID \<longrightarrow> held m c' = held m c) \<and>
        (k \<noteq> NATIVE_MINT_ID \<longrightarrow> issued P c' = issued P c \<and> pooled P c' = pooled P c))"

lemma quiet_refl [simp]: "quiet P k c c"
  by (simp add: quiet_def)

lemma quiet_trans: "quiet P k a b \<Longrightarrow> quiet P k b c \<Longrightarrow> quiet P k a c"
  by (auto simp: quiet_def)

lemma quiet_same:
  assumes "ac_owner c' = ac_owner c" "ac_data c' = ac_data c"
  shows "quiet P k c c'"
  using assms
  by (simp add: quiet_def sound_def held_def issued_def pooled_def token_account_def token_mint_def)

lemma sound_data_untyped:
  assumes "untyped P d" and "length d \<noteq> MULTISIG_LEN"
  shows "sound_data P d \<longleftrightarrow>
    m_supply (pod_mint_of_bytes (take MINT_LEN d)) = 0 \<and> tlv_fresh (drop (BASE_ACCOUNT_LENGTH + 1) d)"
  using assms unpack_account_shape(2) by (auto simp: sound_data_def tlv_fresh_def)

lemma pod_mint_of_zeros: "m_supply (pod_mint_of_bytes (replicate n 0)) = 0" "m_is_initialized (pod_mint_of_bytes (replicate 82 0)) = 0"
  using of_le_zeros [of 1] by (simp_all add: pod_mint_of_bytes_def seg_def take_replicate)

lemma sound_zeros:
  assumes "\<not> pl_bool_from_pod P 0"
  shows "sound_data P (replicate n 0)" "held m (c\<lparr>ac_data := replicate n 0\<rparr>) = 0"
    "issued P (c\<lparr>ac_data := replicate n 0\<rparr>) = 0" "pooled P (c\<lparr>ac_data := replicate n 0\<rparr>) = 0"
proof -
  have na: "unpack account_base (replicate n 0) \<noteq> Inr s" for s
  proof
    assume a: "unpack account_base (replicate n 0) = Inr s"
    then have "pod_account_is_initialized (pod_account_of_bytes (take 165 (replicate n 0)))"
      using account_st.unpack_shape(2) [OF a] unpack_account_initialized [OF a] by (simp add: size_numerals)
    then show False
      by (simp add: pod_account_is_initialized_def pod_account_of_bytes_def seg_def take_replicate)
  qed
  have nm: "unpack (mint_base P) (replicate n 0) \<noteq> Inr s" for s
  proof
    assume a: "unpack (mint_base P) (replicate n 0) = Inr s"
    then have "pod_mint_is_initialized P (pod_mint_of_bytes (take 82 (replicate n 0)))" 
      using mint_st.unpack_shape(2) [OF a] unpack_mint_initialized [OF a] by (simp add: size_numerals)
    with assms show False
      by (simp add: pod_mint_is_initialized_def pod_mint_of_bytes_def seg_def take_replicate)
  qed
  show "sound_data P (replicate n 0)"
    using tlv_fresh_zeros [of "n - 166"] na
    by (auto simp: sound_data_def tlv_fresh_def take_replicate drop_replicate size_numerals pod_mint_of_zeros)
  have "token_account (c\<lparr>ac_data := replicate n 0\<rparr>) = None" "token_mint P (c\<lparr>ac_data := replicate n 0\<rparr>) = None"
    using na nm by (auto simp: token_account_def token_mint_def result_ok_def split: sum.splits)
  then show "held m (c\<lparr>ac_data := replicate n 0\<rparr>) = 0" "issued P (c\<lparr>ac_data := replicate n 0\<rparr>) = 0"
    "pooled P (c\<lparr>ac_data := replicate n 0\<rparr>) = 0"
    by (simp_all add: held_def issued_def pooled_def)
qed

text \<open>An account the program neither owned nor owns, or receives with zeroed data.\<close>

lemma quiet_foreign:
  assumes "ac_owner c \<noteq> TOKEN_2022_ID"
    and "ac_owner c' = TOKEN_2022_ID \<Longrightarrow> ac_data c' = replicate (length (ac_data c')) 0"
    and "\<not> pl_bool_from_pod P 0"
  shows "quiet P k c c'"
proof (cases "ac_owner c' = TOKEN_2022_ID")
  case True
  have c': "c' = c'\<lparr>ac_data := replicate (length (ac_data c')) 0\<rparr>"
    using assms(2) [OF True] by simp
  have "sound P c'" "held m c' = 0" "issued P c' = 0" "pooled P c' = 0" for m
    using sound_zeros [OF assms(3)] c' by (metis acct.select_convs(3) acct.surjective acct.update_convs(3) sound_def)+
  with no_entries [of c] assms(1) show ?thesis by (simp add: quiet_def)
next
  case False
  with no_entries [of c P] no_entries [of c' P] assms(1) show ?thesis by (simp add: quiet_def sound_def)
qed

lemma quiet_frame:
  assumes "token_frame K st st'" and "a \<notin> K" and "\<not> pl_bool_from_pod P 0"
  shows "quiet P k (st a) (st' a)"
proof (cases "ac_owner (st a) = TOKEN_2022_ID")
  case True
  with assms(1,2) show ?thesis by (intro quiet_same) (auto simp: token_frame_def)
next
  case False
  with assms show ?thesis by (intro quiet_foreign) (auto simp: token_frame_def)
qed

text \<open>Writes to a token account, to a mint and to an account not typed yet.\<close>

lemma sound_account:
  assumes "unpack account_base d = Inr s"
  shows "sound_data P d \<longleftrightarrow> (\<exists>es. laid_out es (ps_tlv s)) \<and> (is_native (ps_base s) \<longrightarrow> a_mint (ps_base s) = NATIVE_MINT_ID)"
  using assms unpack_account_shape [OF assms] by (simp add: sound_data_def)

lemma sound_mint:
  assumes "unpack (mint_base P) d = Inr s"
  shows "sound_data P d \<longleftrightarrow> (\<exists>es. laid_out es (ps_tlv s))"
  using unpack_mint_shape [OF assms] mint_account_disjoint [OF assms] by (auto simp: sound_data_def)

lemma quiet_account:
  assumes "unpack account_base (ac_data c) = Inr s" and "unpack account_base (ac_data c') = Inr s'"
    and "ac_owner c' = ac_owner c" and "a_mint (ps_base s') = a_mint (ps_base s)"
    and "a_amount (ps_base s') = a_amount (ps_base s) \<or> is_native (ps_base s)"
    and "is_native (ps_base s') \<Longrightarrow> is_native (ps_base s)"
    and "(\<exists>es. laid_out es (ps_tlv s)) \<Longrightarrow> (\<exists>es. laid_out es (ps_tlv s')) \<and> withheld (ps_tlv s') = withheld (ps_tlv s)"
  shows "quiet P k c c'"
proof (cases "ac_owner c = TOKEN_2022_ID")
  case True
  with assms show ?thesis
    using account_entries [OF assms(1)] account_entries [OF assms(2)]
    by (auto simp: quiet_def sound_def sound_account [OF assms(1)] sound_account [OF assms(2)] holding_def)
next
  case False
  with assms(3) no_entries [of c P] no_entries [of c' P] show ?thesis by (simp add: quiet_def sound_def)
qed

lemma quiet_mint:
  assumes "unpack (mint_base P) (ac_data c) = Inr s" and "unpack (mint_base P) (ac_data c') = Inr s'"
    and "ac_owner c' = ac_owner c" and "m_supply (ps_base s') = m_supply (ps_base s)"
    and "(\<exists>es. laid_out es (ps_tlv s)) \<Longrightarrow> (\<exists>es. laid_out es (ps_tlv s')) \<and> mint_fees (ps_tlv s') = mint_fees (ps_tlv s)"
  shows "quiet P k c c'"
proof (cases "ac_owner c = TOKEN_2022_ID")
  case True
  with assms show ?thesis
    using mint_entries [OF assms(1)] mint_entries [OF assms(2)]
    by (auto simp: quiet_def sound_def sound_mint [OF assms(1)] sound_mint [OF assms(2)])
next
  case False
  with assms(3) no_entries [of c P] no_entries [of c' P] show ?thesis by (simp add: quiet_def sound_def)
qed

lemma untyped_entries:
  assumes "untyped P (ac_data c)"
  shows "held m c = 0" "issued P c = 0" "pooled P c = 0"
  using no_entries assms by blast+

lemma mint_layout_untyped:
  assumes "layout_ok (mint_base P) 0 s" and "\<not> pod_mint_is_initialized P (ps_base s)"
  defines "d \<equiv> state_bytes (mint_base P) s"
  shows "untyped P d" "length d \<noteq> MULTISIG_LEN" "drop (BASE_ACCOUNT_LENGTH + 1) d = ps_tlv s"
    "pod_mint_of_bytes (take MINT_LEN d) = ps_base s"
  using mint_st.layout_shape [OF assms(1)] assms(2) by (auto simp: d_def untyped_def size_numerals)

text \<open>A mint that is being prepared: its extensions change, its base does not.\<close>

lemma quiet_preparing_mint:
  assumes "unpack_uninitialized (mint_base P) (ac_data c) = Inr s" and "ac_data c' = state_bytes (mint_base P) (s\<lparr>ps_tlv := tlv\<rparr>)"
    and "ac_owner c' = ac_owner c" and "tlv_fresh (ps_tlv s) \<Longrightarrow> tlv_fresh tlv" and "length tlv = length (ps_tlv s)"
  shows "quiet P k c c'"
proof -
  note u = uninitialized_mint_shape [OF assms(1)]
  note i = mint_st.unpack_uninitialized_Inr [OF assms(1)]
  have "layout_ok (mint_base P) 0 (s\<lparr>ps_tlv := tlv\<rparr>)"
    using i(2) assms(5) by (auto simp: layout_ok_def mint_st.length_state_bytes)
  then have u': "untyped P (ac_data c')" "length (ac_data c') \<noteq> MULTISIG_LEN"
    "drop (BASE_ACCOUNT_LENGTH + 1) (ac_data c') = tlv" "pod_mint_of_bytes (take MINT_LEN (ac_data c')) = ps_base s"
    using mint_layout_untyped [of P "s\<lparr>ps_tlv := tlv\<rparr>"] i(1) assms(2) by simp_all
  show ?thesis
    using untyped_entries [OF u(2)] untyped_entries [OF u'(1)] u u' assms(3,4)
    by (simp add: quiet_def sound_def sound_data_untyped)
qed

text \<open>A mint that is created: it inherits the supply of the bytes, which soundness keeps at zero.\<close>

lemma quiet_new_mint:
  assumes "unpack_uninitialized (mint_base P) (ac_data c) = Inr s" and "unpack (mint_base P) (ac_data c') = Inr s'"
    and "ac_owner c' = ac_owner c" and "ps_tlv s' = ps_tlv s" and "m_supply (ps_base s') = m_supply (ps_base s)"
  shows "quiet P k c c'"
proof (cases "ac_owner c = TOKEN_2022_ID")
  case True
  note u = uninitialized_mint_shape [OF assms(1)]
  have fresh: "m_supply (ps_base s) = 0 \<and> tlv_fresh (ps_tlv s)" if "sound P c"
    using that True sound_data_untyped [OF u(2,3)] u(1,4) by (simp add: sound_def)
  have "sound P c' \<and> issued P c' = 0 \<and> pooled P c' = 0" if "sound P c"
    using fresh [OF that] mint_entries [OF assms(2)] True assms(3-5) sound_mint [OF assms(2)]
    by (simp add: sound_def tlv_fresh_def)
  with untyped_entries [OF u(2)] mint_entries(1) [OF assms(2)] True assms(3) show ?thesis
    by (simp add: quiet_def)
next
  case False
  with assms(3) no_entries [of c P] no_entries [of c' P] show ?thesis by (simp add: quiet_def sound_def)
qed

text \<open>The same for token accounts, whose base has the full length, so a bare one is never untyped.\<close>

lemma uninitialized_account_entries:
  assumes "layout_ok account_base t s" and "\<not> pod_account_is_initialized (ps_base s)"
    and "ac_data c = state_bytes account_base s"
  shows "held m c = 0" "t \<noteq> 1 \<Longrightarrow> issued P c = 0" "t \<noteq> 1 \<Longrightarrow> pooled P c = 0"
    "length (ac_data c) \<noteq> MULTISIG_LEN" "drop (BASE_ACCOUNT_LENGTH + 1) (ac_data c) = ps_tlv s"
    "unpack account_base (ac_data c) \<noteq> Inr s'"
proof -
  note l = account_st.layout_shape [OF assms(1), folded assms(3)]
  show a: "unpack account_base (ac_data c) \<noteq> Inr s'" for s'
  proof
    assume u: "unpack account_base (ac_data c) = Inr s'"
    with account_st.unpack_shape(2) [OF u] l(2) unpack_account_initialized [OF u] assms(2) show False
      by (simp add: size_numerals)
  qed
  then have "token_account c = None"
    by (auto simp: token_account_def result_ok_def split: sum.splits)
  then show "held m c = 0" by (simp add: held_def)
  have "token_mint P c = None" if "t \<noteq> 1"
  proof (cases "token_mint P c")
    case (Some s')
    then have "unpack (mint_base P) (ac_data c) = Inr s'" by (simp add: token_mint_eq)
    from mint_st.unpack_shape(3) [OF this] l(4) that show ?thesis
      by (auto simp: size_numerals account_type_u8_def)
  qed simp
  then show "t \<noteq> 1 \<Longrightarrow> issued P c = 0" "t \<noteq> 1 \<Longrightarrow> pooled P c = 0" by (simp_all add: issued_def pooled_def)
  show "length (ac_data c) \<noteq> MULTISIG_LEN" "drop (BASE_ACCOUNT_LENGTH + 1) (ac_data c) = ps_tlv s"
    using l by (simp_all add: size_numerals)
qed

lemma uninitialized_account_fresh:
  assumes "unpack_uninitialized account_base d = Inr s" and "sound_data P d"
  shows "tlv_fresh (ps_tlv s)"
proof -
  note u = account_st.unpack_uninitialized_shape [OF assms(1) base_sizes(2)]
  from u(3) show ?thesis
  proof
    assume "length d = bs_size account_base"
    with u(1) have "ps_tlv s = replicate 0 0" by (simp add: size_numerals)
    then show ?thesis using tlv_fresh_zeros by metis
  next
    assume "BASE_ACCOUNT_LENGTH < length d \<and> d ! BASE_ACCOUNT_LENGTH = 0"
    with assms(2) u(1,4) show ?thesis
      by (auto simp: sound_data_def untyped_def tlv_fresh_def size_numerals)
  qed
qed

text \<open>The account while it is prepared, and the account that is created.\<close>

lemma quiet_preparing_account:
  assumes "unpack_uninitialized account_base (ac_data c) = Inr s" and "ac_data c' = state_bytes account_base (s\<lparr>ps_tlv := tlv\<rparr>)"
    and "ac_owner c' = ac_owner c" and "tlv_fresh (ps_tlv s) \<Longrightarrow> tlv_fresh tlv" and "length tlv = length (ps_tlv s)"
  shows "quiet P k c c'"
proof -
  note i = account_st.unpack_uninitialized_Inr [OF assms(1)]
  have l: "layout_ok account_base 0 (s\<lparr>ps_tlv := tlv\<rparr>)"
    using i(2) assms(5) by (auto simp: layout_ok_def account_st.length_state_bytes)
  have ni: "\<not> pod_account_is_initialized (ps_base s)" using i(1) by simp
  note e = uninitialized_account_entries [OF i(2) ni i(3) [symmetric]]
    uninitialized_account_entries [OF l _ assms(2)]
  have pre: "take (BASE_ACCOUNT_LENGTH + 1) (ac_data c') = take (BASE_ACCOUNT_LENGTH + 1) (ac_data c)"
    "length (ac_data c') = length (ac_data c)"
    using i(2) l assms(2,5) by (auto simp flip: i(3) simp: layout_ok_def state_bytes_def size_numerals)
  have tk: "take MINT_LEN (ac_data c') = take MINT_LEN (ac_data c)"
    using arg_cong [OF pre(1), of "take MINT_LEN"] by (simp add: size_numerals min_def)
  have nth: "ac_data c' ! BASE_ACCOUNT_LENGTH = ac_data c ! BASE_ACCOUNT_LENGTH"
    using arg_cong [OF pre(1), of "\<lambda>xs. xs ! BASE_ACCOUNT_LENGTH"] by simp
  have ln: "length (ac_data c) \<noteq> MINT_LEN"
    using account_st.layout_shape(4) [OF i(2) base_sizes(2), unfolded i(3)] unfolding account_base_simps size_numerals by linarith
  have ut: "untyped P (ac_data c') \<longleftrightarrow> untyped P (ac_data c)"
    using ln unfolding untyped_def pre(2) nth by simp
  have d: "drop (BASE_ACCOUNT_LENGTH + 1) (ac_data c) = ps_tlv s" "drop (BASE_ACCOUNT_LENGTH + 1) (ac_data c') = tlv"
    "length (ac_data c) \<noteq> MULTISIG_LEN" "unpack account_base (ac_data c') \<noteq> Inr s'" for s'
    using e(4,5,11,12) ni by simp_all
  have "sound_data P (ac_data c')" if sd: "sound_data P (ac_data c)"
  proof -
    have "tlv_fresh tlv" using assms(4) [OF uninitialized_account_fresh [OF assms(1) sd]] .
    then show ?thesis
      using sd d(3,4) unfolding sound_data_def d(1,2) ut tk tlv_fresh_def by blast
  qed
  then show ?thesis using e(1-3,7-9) ni assms(3) by (simp add: quiet_def sound_def)
qed

lemma quiet_new_account:
  assumes "unpack_uninitialized account_base (ac_data c) = Inr s"
    and "layout_ok account_base 2 s'" "ac_data c' = state_bytes account_base s'" "ac_owner c' = ac_owner c"
    and "tlv_fresh (ps_tlv s) \<Longrightarrow> tlv_fresh (ps_tlv s')"
    and "a_mint (ps_base s') = NATIVE_MINT_ID \<or> a_amount (ps_base s') = 0 \<and> \<not> is_native (ps_base s')"
    and "pod_account_is_initialized (ps_base s') \<Longrightarrow> unpack account_base (ac_data c') = Inr s'"
  shows "quiet P k c c'"
proof (cases "ac_owner c = TOKEN_2022_ID")
  case True
  note i = account_st.unpack_uninitialized_Inr [OF assms(1)]
  have ni: "\<not> pod_account_is_initialized (ps_base s)" using i(1) by simp
  note e = uninitialized_account_entries [OF i(2) ni i(3) [symmetric]]
  have fresh: "tlv_fresh (ps_tlv s')" if "sound P c"
    using that True assms(5) uninitialized_account_fresh [OF assms(1)] by (simp add: sound_def)
  have ut: "\<not> untyped P (ac_data c')"
    using account_st.layout_shape(4) [OF assms(2) base_sizes(2)] assms(3)
    by (auto simp: untyped_def size_numerals)
  show ?thesis
  proof (cases "pod_account_is_initialized (ps_base s')")
    case init: True
    note u = assms(7) [OF init]
    have "held m c' = 0" if "sound P c" "m \<noteq> NATIVE_MINT_ID" for m
      using account_entries(1) [OF u, of m] fresh [OF that(1)] True assms(4,6) that(2)
      by (auto simp: holding_def tlv_fresh_def)
    moreover have "sound P c'" if "sound P c"
      using fresh [OF that] sound_account [OF u] assms(6) by (auto simp: sound_def tlv_fresh_def)
    ultimately show ?thesis
      using account_entries(2,3) [OF u] True assms(4) e(1-3) by (simp add: quiet_def)
  next
    case False
    note e' = uninitialized_account_entries [OF assms(2) False assms(3)]
    have "sound P c'" if "sound P c"
      using fresh [OF that] e'(5,6) ut by (auto simp: sound_def sound_data_def tlv_fresh_def)
    with e(1-3) e'(1-3) show ?thesis by (simp add: quiet_def)
  qed
next
  case False
  with assms(4) no_entries [of c P] no_entries [of c' P] show ?thesis by (simp add: quiet_def sound_def)
qed

section \<open>Books of a store\<close>

definition sound_store :: "platform \<Rightarrow> store \<Rightarrow> bool" where
  "sound_store P st \<longleftrightarrow> (\<forall>a. sound P (st a))"

definition books :: "platform \<Rightarrow> (address \<Rightarrow> int) \<Rightarrow> store \<Rightarrow> bool" where
  "books P h st \<longleftrightarrow> sound_store P st \<and> balanced P h st"

definition quiet_store :: "platform \<Rightarrow> store \<Rightarrow> store \<Rightarrow> bool" where
  "quiet_store P st st' \<longleftrightarrow> (\<forall>a. quiet P a (st a) (st' a))"

lemma quiet_store_refl [simp]: "quiet_store P st st"
  by (simp add: quiet_store_def)

lemma quiet_store_trans: "quiet_store P a b \<Longrightarrow> quiet_store P b c \<Longrightarrow> quiet_store P a c"
  unfolding quiet_store_def using quiet_trans by blast

lemma quiet_storeD: "quiet_store P st st' \<Longrightarrow> quiet P a (st a) (st' a)"
  by (simp add: quiet_store_def)

lemma circulating_split:
  assumes "finite K"
  shows "circulating m st = (\<Sum>a\<in>K. held m (st a)) + (\<Sum>a\<in>UNIV - K. held m (st a))"
  unfolding circulating_def by (subst sum.subset_diff [of K UNIV]) (simp_all add: assms add.commute)

text \<open>
  When all accounts but a few change quietly, and on those few what is held, pooled and encrypted moves
  by as much as what is issued, the books stay balanced.
\<close>

lemma books_shift:
  assumes bk: "books P h st" and fin: "finite K" and out: "\<And>a. a \<notin> K \<Longrightarrow> quiet P a (st a) (st' a)"
    and snd: "\<And>a. a \<in> K \<Longrightarrow> sound P (st' a)"
    and bal: "\<And>m. m \<noteq> NATIVE_MINT_ID \<Longrightarrow>
      int ((\<Sum>a\<in>K. held m (st' a)) + pooled P (st' m) + issued P (st m)) + h' m =
      int ((\<Sum>a\<in>K. held m (st a)) + pooled P (st m) + issued P (st' m)) + h m"
  shows "books P h' st'"
proof -
  have ss: "sound P (st a)" for a using bk by (simp add: books_def sound_store_def)
  have "sound P (st' a)" for a
    using snd out ss by (cases "a \<in> K") (auto simp: quiet_def)
  moreover have "int (circulating m st') + int (pooled P (st' m)) + h' m = int (issued P (st' m))" if m: "m \<noteq> NATIVE_MINT_ID" for m
  proof -
    have "(\<Sum>a\<in>UNIV - K. held m (st' a)) = (\<Sum>a\<in>UNIV - K. held m (st a))"
      using out ss m by (intro sum.cong) (auto simp: quiet_def)
    moreover have "int (circulating m st) + int (pooled P (st m)) + h m = int (issued P (st m))"
      using bk m by (simp add: books_def balanced_def)
    ultimately show ?thesis
      using bal [OF m] circulating_split [OF fin, of m st] circulating_split [OF fin, of m st'] by linarith
  qed
  ultimately show ?thesis by (simp add: books_def sound_store_def balanced_def)
qed

lemma books_change:
  assumes bk: "books P h st" and fin: "finite K" and out: "\<And>a. a \<notin> K \<Longrightarrow> quiet P a (st a) (st' a)"
    and snd: "\<And>a. a \<in> K \<Longrightarrow> sound P (st' a)"
    and bal: "\<And>m. m \<noteq> NATIVE_MINT_ID \<Longrightarrow>
      (\<Sum>a\<in>K. held m (st' a)) + pooled P (st' m) + issued P (st m) =
      (\<Sum>a\<in>K. held m (st a)) + pooled P (st m) + issued P (st' m)"
  shows "books P h st'"
proof (rule books_shift [OF bk fin, where st' = st' and h' = h])
  show "quiet P a (st a) (st' a)" if "a \<notin> K" for a using out that .
  show "sound P (st' a)" if "a \<in> K" for a using snd that .
qed (simp add: bal)

lemma books_quiet:
  assumes "books P h st" and "quiet_store P st st'"
  shows "books P h st'"
proof (rule books_change [OF assms(1), of "{}"])
  show "quiet P a (st a) (st' a)" for a using assms(2) by (simp add: quiet_store_def)
  then show "(\<Sum>a\<in>{}. held m (st' a)) + pooled P (st' m) + issued P (st m) =
      (\<Sum>a\<in>{}. held m (st a)) + pooled P (st m) + issued P (st' m)" if "m \<noteq> NATIVE_MINT_ID" for m
    using that assms(1) by (simp add: quiet_def books_def sound_store_def)
qed simp_all

section \<open>Quiet views\<close>

lemma quiet_store_frame: "token_frame {} st st' \<Longrightarrow> \<not> pl_bool_from_pod P 0 \<Longrightarrow> quiet_store P st st'"
  by (simp add: quiet_store_def quiet_frame)

lemma quiet_store_move: "move_lamports src dst n e st = Inr st' \<Longrightarrow> quiet_store P st st'"
  by (simp add: quiet_store_def quiet_same move_lamports_frame)

lemma quiet_store_set_data:
  "quiet P k (st k) ((st k)\<lparr>ac_data := d\<rparr>) \<Longrightarrow> quiet_store P st (set_data k d st)"
  by (simp add: quiet_store_def set_data_def)

definition calm_account :: "pod_account pod_state \<Rightarrow> pod_account pod_state \<Rightarrow> bool" where
  "calm_account s s' \<longleftrightarrow>
     ps_padding s' = ps_padding s \<and> ps_account_type s' = ps_account_type s \<and>
     pod_account_is_initialized (ps_base s') \<and> a_mint (ps_base s') = a_mint (ps_base s) \<and>
     (a_amount (ps_base s') = a_amount (ps_base s) \<or> is_native (ps_base s)) \<and>
     (is_native (ps_base s') \<longrightarrow> is_native (ps_base s)) \<and> tlv_quiet (ps_tlv s) (ps_tlv s')"

definition calm_mint :: "platform \<Rightarrow> pod_mint pod_state \<Rightarrow> pod_mint pod_state \<Rightarrow> bool" where
  "calm_mint P s s' \<longleftrightarrow>
     ps_padding s' = ps_padding s \<and> ps_account_type s' = ps_account_type s \<and>
     pod_mint_is_initialized P (ps_base s') \<and> m_supply (ps_base s') = m_supply (ps_base s) \<and>
     length (ps_tlv s') = length (ps_tlv s) \<and>
     ((\<exists>es. laid_out es (ps_tlv s)) \<longrightarrow> (\<exists>es. laid_out es (ps_tlv s')) \<and> mint_fees (ps_tlv s') = mint_fees (ps_tlv s))"

lemma calm_account_unpack:
  assumes "unpack account_base d = Inr s" and "calm_account s s'"
  shows "unpack account_base (state_bytes account_base s') = Inr s'"
proof -
  have "s\<lparr>ps_base := ps_base s', ps_tlv := ps_tlv s'\<rparr> = s'"
    using assms(2) by (cases s; cases s') (simp add: calm_account_def)
  then show ?thesis
    using account_st.unpack_update [OF assms(1), of "ps_base s'" "ps_tlv s'"] assms(2)
    by (simp add: calm_account_def tlv_quiet_def)
qed

lemma calm_mint_unpack:
  assumes "unpack (mint_base P) d = Inr s" and "calm_mint P s s'"
  shows "unpack (mint_base P) (state_bytes (mint_base P) s') = Inr s'"
proof -
  have "s\<lparr>ps_base := ps_base s', ps_tlv := ps_tlv s'\<rparr> = s'"
    using assms(2) by (cases s; cases s') (simp add: calm_mint_def)
  then show ?thesis
    using mint_st.unpack_update [OF assms(1), of "ps_base s'" "ps_tlv s'"] assms(2)
    by (simp add: calm_mint_def)
qed

lemma quiet_write_account:
  assumes "unpack account_base (ac_data (st k)) = Inr s" and "calm_account s s'"
  shows "quiet_store P st (set_data k (state_bytes account_base s') st)"
  using calm_account_unpack [OF assms] assms(2)
  by (intro quiet_store_set_data quiet_account [OF assms(1), where s' = s']) (auto simp: calm_account_def tlv_quiet_def)

lemma quiet_write_mint:
  assumes "unpack (mint_base P) (ac_data (st k)) = Inr s" and "calm_mint P s s'"
  shows "quiet_store P st (set_data k (state_bytes (mint_base P) s') st)"
  using calm_mint_unpack [OF assms] assms(2)
  by (intro quiet_store_set_data quiet_mint [OF assms(1), where s' = s']) (auto simp: calm_mint_def)

lemma quiet_account_view:
  assumes "initialized_view account_base k f st = Inr st'"
    and "\<And>s s'. unpack account_base (ac_data (st k)) = Inr s \<Longrightarrow> f s = Inr s' \<Longrightarrow> calm_account s s'"
  shows "quiet_store P st st'"
  using assms by (auto simp: initialized_view_Inr intro: quiet_write_account)

lemma quiet_mint_view:
  assumes "initialized_view (mint_base P) k f st = Inr st'"
    and "\<And>s s'. unpack (mint_base P) (ac_data (st k)) = Inr s \<Longrightarrow> f s = Inr s' \<Longrightarrow> calm_mint P s s'"
  shows "quiet_store P st st'"
  using assms by (auto simp: initialized_view_Inr intro: quiet_write_mint)

lemma calm_account_base:
  "pod_account_is_initialized b \<Longrightarrow> a_mint b = a_mint (ps_base s) \<Longrightarrow> a_amount b = a_amount (ps_base s) \<Longrightarrow>
    a_is_native b = a_is_native (ps_base s) \<Longrightarrow> calm_account s (s\<lparr>ps_base := b\<rparr>)"
  by (simp add: calm_account_def is_native_def)

lemma calm_mint_base:
  "pod_mint_is_initialized P b \<Longrightarrow> m_supply b = m_supply (ps_base s) \<Longrightarrow> calm_mint P s (s\<lparr>ps_base := b\<rparr>)"
  by (simp add: calm_mint_def)

lemma calm_tlv:
  assumes "tlv_quiet (ps_tlv s) tlv"
  shows "pod_account_is_initialized (ps_base s) \<Longrightarrow> calm_account s (s\<lparr>ps_tlv := tlv\<rparr>)"
  using assms by (simp add: calm_account_def)

lemma calm_mint_tlv:
  assumes "tlv_quiet (ps_tlv s) tlv" and "pod_mint_is_initialized P (ps_base s)"
  shows "calm_mint P s (s\<lparr>ps_tlv := tlv\<rparr>)"
  using assms by (auto simp: calm_mint_def tlv_quiet_def)

lemma quiet_preparing_mint_view:
  assumes "uninitialized_view (mint_base P) k (on_tlv f) st = Inr st'"
    and "\<And>tlv tlv'. f tlv = Inr tlv' \<Longrightarrow> length tlv' = length tlv \<and> (tlv_fresh tlv \<longrightarrow> tlv_fresh tlv')"
  shows "quiet_store P st st'"
proof -
  obtain s tlv where s: "unpack_uninitialized (mint_base P) (ac_data (st k)) = Inr s" "f (ps_tlv s) = Inr tlv"
    and st': "st' = set_data k (state_bytes (mint_base P) (s\<lparr>ps_tlv := tlv\<rparr>)) st"
    using assms(1) by (auto simp: uninitialized_view_Inr on_tlv_Inr)
  show ?thesis
    unfolding st' using assms(2) [OF s(2)]
    by (intro quiet_store_set_data quiet_preparing_mint [OF s(1), where tlv = tlv]) auto
qed

lemma quiet_preparing_account_view:
  assumes "uninitialized_view account_base k (on_tlv f) st = Inr st'"
    and "\<And>tlv tlv'. f tlv = Inr tlv' \<Longrightarrow> length tlv' = length tlv \<and> (tlv_fresh tlv \<longrightarrow> tlv_fresh tlv')"
  shows "quiet_store P st st'"
proof -
  obtain s tlv where s: "unpack_uninitialized account_base (ac_data (st k)) = Inr s" "f (ps_tlv s) = Inr tlv"
    and st': "st' = set_data k (state_bytes account_base (s\<lparr>ps_tlv := tlv\<rparr>)) st"
    using assms(1) by (auto simp: uninitialized_view_Inr on_tlv_Inr)
  show ?thesis
    unfolding st' using assms(2) [OF s(2)]
    by (intro quiet_store_set_data quiet_preparing_account [OF s(1), where tlv = tlv]) auto
qed

end
