(* ===== verification/Ledger_Handlers.thy ===== *)
theory Ledger_Handlers
  imports Ledger
begin

text \<open>
  What every instruction does to the books. Most handlers are quiet: they write one view and touch
  neither amounts, supplies nor fees. Transfers, mints, burns, fee collections and closed mints change
  several entries at once, and the change adds up.
\<close>

section \<open>Quiet handlers of token accounts\<close>

lemma initialized_state [simp]: "pod_account_is_initialized (b\<lparr>a_state := n\<rparr>) \<longleftrightarrow> n = 1 \<or> n = 2"
  by (simp add: pod_account_is_initialized_def)

lemma initialized_update [simp]:
  "pod_account_is_initialized (b\<lparr>a_delegate := x\<rparr>) = pod_account_is_initialized b"
  "pod_account_is_initialized (b\<lparr>a_delegated_amount := n\<rparr>) = pod_account_is_initialized b"
  "pod_account_is_initialized (b\<lparr>a_owner := k\<rparr>) = pod_account_is_initialized b"
  "pod_account_is_initialized (b\<lparr>a_close_authority := x\<rparr>) = pod_account_is_initialized b"
  "pod_account_is_initialized (b\<lparr>a_amount := n\<rparr>) = pod_account_is_initialized b"
  "pod_account_is_initialized (b\<lparr>a_is_native := y\<rparr>) = pod_account_is_initialized b"
  by (simp_all add: pod_account_is_initialized_def)

lemma approve_quiet:
  assumes "process_approve P program_id accounts amount v st = Inr st'"
  shows "quiet_store P st st'"
proof -
  from assms show ?thesis
    by (clarsimp simp: process_approve_def result_simps simp del: initialized_view_Inr coption_simps)
      (erule quiet_account_view, auto simp: result_simps simp del: coption_simps
        intro!: calm_account_base dest!: unpack_account_initialized)
qed

lemma revoke_quiet:
  assumes "process_revoke P program_id accounts st = Inr st'"
  shows "quiet_store P st st'"
proof -
  from assms show ?thesis
    by (clarsimp simp: process_revoke_def result_simps simp del: initialized_view_Inr coption_simps)
      (erule quiet_account_view, auto simp: result_simps simp del: coption_simps
        intro!: calm_account_base dest!: unpack_account_initialized)
qed

lemma toggle_freeze_quiet:
  assumes "process_toggle_freeze_account P program_id accounts freeze st = Inr st'"
  shows "quiet_store P st st'"
proof -
  from assms show ?thesis
    by (clarsimp simp: process_toggle_freeze_account_def result_simps simp del: initialized_view_Inr coption_simps)
      (erule quiet_account_view, auto simp: result_simps simp del: coption_simps intro!: calm_account_base)
qed

lemma set_account_authority_calm:
  assumes "set_account_authority P program_id auth signers t new_authority st s = Inr s'"
    and "pod_account_is_initialized (ps_base s)"
  shows "calm_account s s'"
  using assms
  by (cases t)
    (auto simp: set_account_authority_def Let_def result_simps simp del: coption_simps intro!: calm_account_base)

text \<open>Writing the authority of an extension, the fee configuration included, moves no fees.\<close>

lemma set_extension_authority_quiet:
  assumes "set_extension_authority P program_id auth signers V f upd new_authority st tlv = Inr tlv'"
    and "vx_type V \<noteq> TransferFeeAmount" "vx_type V \<noteq> TransferFeeConfig"
  shows "tlv_quiet tlv tlv'"
  using assms by (elim set_extension_authority_Inr) (rule tlv_quiet_same_except, auto)

lemma put_fee_config_quiet:
  assumes "get_extension AtMint transfer_fee_config_ext tlv = Inr e"
    and "put_extension AtMint transfer_fee_config_ext e' tlv = Inr tlv'"
    and "tfc_withheld_amount e' = tfc_withheld_amount e"
  shows "tlv_quiet tlv tlv'"
proof -
  have "same_except {TransferFeeConfig} tlv tlv'" using put_same_except [OF assms(2)] by simp
  moreover from this have "withheld tlv' = withheld tlv" by (rule withheld_same) simp
  moreover have "mint_fees tlv' = mint_fees tlv"
    using assms transfer_fee_config_x.put_get_same [OF assms(2)] by (simp add: mint_fees_def)
  ultimately show ?thesis by (auto simp: tlv_quiet_def same_except_def)
qed

lemma set_fee_authority_quiet:
  assumes "set_extension_authority P program_id auth signers transfer_fee_config_ext f upd new_authority st tlv = Inr tlv'"
    and "\<And>a e. tfc_withheld_amount (upd a e) = tfc_withheld_amount e"
  shows "tlv_quiet tlv tlv'"
  using assms by (elim set_extension_authority_Inr) (erule (1) put_fee_config_quiet, simp)

lemma mint_initialized_update [simp]:
  "pod_mint_is_initialized P (b\<lparr>m_mint_authority := x\<rparr>) = pod_mint_is_initialized P b"
  "pod_mint_is_initialized P (b\<lparr>m_freeze_authority := x\<rparr>) = pod_mint_is_initialized P b"
  "pod_mint_is_initialized P (b\<lparr>m_supply := n\<rparr>) = pod_mint_is_initialized P b"
  by (simp_all add: pod_mint_is_initialized_def)

lemma set_mint_authority_calm:
  assumes "set_mint_authority P program_id auth signers t new_authority st s = Inr s'"
    and "pod_mint_is_initialized P (ps_base s)"
  shows "calm_mint P s s'"
proof -
  show ?thesis
    using assms
    by (cases t)
      (auto simp: set_mint_authority_def Let_def result_simps simp del: coption_simps
        intro!: calm_mint_base calm_mint_tlv elim!: set_extension_authority_quiet set_fee_authority_quiet)
qed

lemma set_authority_quiet:
  assumes "process_set_authority P program_id accounts t new_authority st = Inr st'"
  shows "quiet_store P st st'"
proof -
  from assms obtain k auth signers where
    "initialized_view account_base k
       (set_account_authority P program_id auth signers t new_authority st) st = Inr st' \<or>
     initialized_view (mint_base P) k
       (set_mint_authority P program_id auth signers t new_authority st) st = Inr st'"
    by (auto simp: process_set_authority_def result_simps simp del: initialized_view_Inr split: if_splits)
  then show ?thesis
  proof
    assume "initialized_view account_base k
       (set_account_authority P program_id auth signers t new_authority st) st = Inr st'"
    then show ?thesis
      by (rule quiet_account_view) (auto dest: unpack_account_initialized intro: set_account_authority_calm)
  next
    assume "initialized_view (mint_base P) k
       (set_mint_authority P program_id auth signers t new_authority st) st = Inr st'"
    then show ?thesis
      by (rule quiet_mint_view) (auto dest: unpack_mint_initialized intro: set_mint_authority_calm)
  qed
qed

section \<open>Quiet handlers of mints\<close>

context extension_contract
begin

lemma init_mint_extension_quiet:
  assumes "init_mint_extension P info V f st = Inr st'"
    and "vx_type V \<noteq> TransferFeeAmount" "vx_type V \<noteq> TransferFeeConfig"
  shows "quiet_store P st st'"
  using assms(1) unfolding init_mint_extension_def
proof (rule quiet_preparing_mint_view)
  fix tlv tlv'
  assume "bindr (init_extension AtMint V True tlv)
     (\<lambda>tlv1. bindr (f (vx_default V)) (\<lambda>v. put_extension AtMint V v tlv1)) = Inr tlv'"
  then obtain tlv1 v where i: "init_extension AtMint V True tlv = Inr tlv1" "put_extension AtMint V v tlv1 = Inr tlv'"
    by (auto simp: result_simps(1))
  have "tlv_quiet tlv tlv'"
    using tlv_quiet_trans [OF tlv_quiet_init [OF i(1) _ assms(2,3)] tlv_quiet_put [OF i(2) _ assms(2,3)]] by simp
  then show "length tlv' = length tlv \<and> (tlv_fresh tlv \<longrightarrow> tlv_fresh tlv')"
    using tlv_fresh_quiet by (auto simp: tlv_quiet_def)
qed

lemma preparing_view_quiet:
  assumes "uninitialized_view (mint_base P) k (on_tlv f) st = Inr st'"
    and "\<And>tlv tlv'. f tlv = Inr tlv' \<Longrightarrow>
      \<exists>tlv1. init_extension AtMint V True tlv = Inr tlv1 \<and> (tlv' = tlv1 \<or> (\<exists>v. put_extension AtMint V v tlv1 = Inr tlv'))"
    and "vx_type V \<noteq> TransferFeeAmount" "vx_type V \<noteq> TransferFeeConfig"
  shows "quiet_store P st st'"
  using assms(1)
proof (rule quiet_preparing_mint_view)
  fix tlv tlv'
  assume "f tlv = Inr tlv'"
  with assms(2) obtain tlv1 where i: "init_extension AtMint V True tlv = Inr tlv1"
    "tlv' = tlv1 \<or> (\<exists>v. put_extension AtMint V v tlv1 = Inr tlv')"
    by blast
  have "tlv_quiet tlv1 tlv'" using i(2) tlv_quiet_put [OF _ _ assms(3,4)] by auto
  with tlv_quiet_init [OF i(1) _ assms(3,4)] have "tlv_quiet tlv tlv'" using tlv_quiet_trans by auto
  then show "length tlv' = length tlv \<and> (tlv_fresh tlv \<longrightarrow> tlv_fresh tlv')"
    using tlv_fresh_quiet by (auto simp: tlv_quiet_def)
qed

end

lemma update_mint_extension_quiet:
  assumes "update_mint_extension P program_id accounts V g e f st = Inr st'"
    and "vx_type V \<noteq> TransferFeeAmount" "vx_type V \<noteq> TransferFeeConfig"
  shows "quiet_store P st st'"
proof -
  have q: "tlv_quiet tlv tlv'" if "put_extension AtMint V v tlv = Inr tlv'" for v tlv tlv'
    using tlv_quiet_put [OF that _ assms(2,3)] by simp
  from assms(1) show ?thesis
    by (clarsimp simp: update_mint_extension_def result_simps simp del: initialized_view_Inr coption_simps)
      (erule quiet_mint_view, auto simp: result_simps dest!: unpack_mint_initialized intro!: calm_mint_tlv elim!: q)
qed

lemma mint_close_authority_quiet:
  "process_initialize_mint_close_authority P accounts a st = Inr st' \<Longrightarrow> quiet_store P st st'"
  by (auto simp: process_initialize_mint_close_authority_def result_simps
      elim!: mint_close_authority_x.init_mint_extension_quiet)

lemma non_transferable_mint_quiet:
  assumes "process_initialize_non_transferable_mint P accounts st = Inr st'"
  shows "quiet_store P st st'"
proof -
  from assms show ?thesis
    by (clarsimp simp: process_initialize_non_transferable_mint_def result_simps simp del: uninitialized_view_Inr)
      (erule non_transferable_x.preparing_view_quiet, auto)
qed

lemma permanent_delegate_quiet:
  "process_initialize_permanent_delegate P accounts a st = Inr st' \<Longrightarrow> quiet_store P st st'"
  by (auto simp: process_initialize_permanent_delegate_def result_simps
      elim!: permanent_delegate_x.init_mint_extension_quiet)

lemma default_state_init_quiet:
  "process_initialize_default_account_state P accounts s st = Inr st' \<Longrightarrow> quiet_store P st st'"
  by (auto simp: process_initialize_default_account_state_def result_simps
      elim!: default_account_state_x.init_mint_extension_quiet)

lemma default_state_update_quiet:
  assumes "process_update_default_account_state P program_id accounts state st = Inr st'"
  shows "quiet_store P st st'"
proof -
  have q: "tlv_quiet tlv tlv'" if "put_extension AtMint default_account_state_ext v tlv = Inr tlv'" for v tlv tlv'
    using tlv_quiet_put [OF that] by simp
  from assms show ?thesis
    by (clarsimp simp: process_update_default_account_state_def result_simps simp del: initialized_view_Inr coption_simps)
      (erule quiet_mint_view, auto simp: Let_def result_simps dest!: unpack_mint_initialized intro!: calm_mint_tlv elim!: q
        simp del: coption_simps)
qed

lemma pausable_quiet:
  "pausable_process_initialize P accounts a st = Inr st' \<Longrightarrow> quiet_store P st st'"
  "process_toggle_pause P program_id accounts pause st = Inr st' \<Longrightarrow> quiet_store P st st'"
  by (auto simp: pausable_process_initialize_def process_toggle_pause_def result_simps
      elim!: pausable_config_x.init_mint_extension_quiet update_mint_extension_quiet)

lemma permissioned_burn_init_quiet:
  "permissioned_burn_process_initialize P accounts a st = Inr st' \<Longrightarrow> quiet_store P st st'"
  by (auto simp: permissioned_burn_process_initialize_def result_simps
      elim!: permissioned_burn_config_x.init_mint_extension_quiet)

lemma interest_quiet:
  "process_update_rate P program_id accounts new_rate st = Inr st' \<Longrightarrow> quiet_store P st st'"
  by (auto simp: process_update_rate_def elim!: update_mint_extension_quiet)

lemma interest_init_quiet:
  assumes "interest_process_initialize P accounts a r st = Inr st'"
  shows "quiet_store P st st'"
proof -
  from assms show ?thesis
    by (clarsimp simp: interest_process_initialize_def result_simps simp del: uninitialized_view_Inr)
      (erule interest_bearing_config_x.preparing_view_quiet, auto simp: result_simps)
qed

lemma pointers_quiet:
  "metadata_pointer_process_initialize P accounts a m st = Inr st' \<Longrightarrow> quiet_store P st st'"
  "metadata_pointer_process_update P program_id accounts m st = Inr st' \<Longrightarrow> quiet_store P st st'"
  "group_pointer_process_update P program_id accounts m st = Inr st' \<Longrightarrow> quiet_store P st st'"
  "group_member_pointer_process_update P program_id accounts m st = Inr st' \<Longrightarrow> quiet_store P st st'"
  "transfer_hook_process_update P program_id accounts m st = Inr st' \<Longrightarrow> quiet_store P st st'"
  "process_update_multiplier P program_id accounts r t st = Inr st' \<Longrightarrow> quiet_store P st st'"
  by (auto simp: metadata_pointer_process_initialize_def metadata_pointer_process_update_def result_simps
      group_pointer_process_update_def group_member_pointer_process_update_def transfer_hook_process_update_def
      process_update_multiplier_def
      elim!: metadata_pointer_x.init_mint_extension_quiet update_mint_extension_quiet)

lemma group_pointer_init_quiet:
  assumes "group_pointer_process_initialize P accounts a g st = Inr st'"
  shows "quiet_store P st st'"
proof -
  from assms show ?thesis
    by (clarsimp simp: group_pointer_process_initialize_def result_simps simp del: uninitialized_view_Inr)
      (erule group_pointer_x.preparing_view_quiet, auto simp: result_simps)
qed

lemma group_member_pointer_init_quiet:
  assumes "group_member_pointer_process_initialize P accounts a g st = Inr st'"
  shows "quiet_store P st st'"
proof -
  from assms show ?thesis
    by (clarsimp simp: group_member_pointer_process_initialize_def result_simps simp del: uninitialized_view_Inr)
      (erule group_member_pointer_x.preparing_view_quiet, auto simp: result_simps)
qed

lemma scaled_init_quiet:
  "scaled_ui_amount_process_initialize P accounts a m st = Inr st' \<Longrightarrow> quiet_store P st st'"
  by (auto simp: scaled_ui_amount_process_initialize_def result_simps
      elim!: scaled_ui_amount_config_x.init_mint_extension_quiet)

lemma transfer_hook_init_quiet:
  "transfer_hook_process_initialize P program_id accounts a h st = Inr st' \<Longrightarrow> quiet_store P st st'"
  by (auto simp: transfer_hook_process_initialize_def result_simps
      elim!: transfer_hook_x.init_mint_extension_quiet)

text \<open>The fee configuration starts empty, and a new fee leaves what was collected.\<close>

lemma fee_config_init_extension_quiet:
  assumes "init_mint_extension P info transfer_fee_config_ext f st = Inr st'"
    and f: "\<And>e v. f e = Inr v \<Longrightarrow> tfc_withheld_amount v = 0"
  shows "quiet_store P st st'"
  using assms(1) unfolding init_mint_extension_def
proof (rule quiet_preparing_mint_view)
  fix tlv tlv'
  assume "bindr (init_extension AtMint transfer_fee_config_ext True tlv) (\<lambda>tlv1.
    bindr (f (vx_default transfer_fee_config_ext)) (\<lambda>v. put_extension AtMint transfer_fee_config_ext v tlv1)) = Inr tlv'"
  then obtain tlv1 v where i: "init_extension AtMint transfer_fee_config_ext True tlv = Inr tlv1"
    "f (vx_default transfer_fee_config_ext) = Inr v" "put_extension AtMint transfer_fee_config_ext v tlv1 = Inr tlv'"
    by (auto simp: result_simps(1))
  have d: "get_extension AtMint transfer_fee_config_ext tlv1 = Inr (vx_default transfer_fee_config_ext)"
    using transfer_fee_config_x.init_get_same [OF i(1)] by simp
  have "tlv_quiet tlv1 tlv'"
    using f [OF i(2)] by (intro put_fee_config_quiet [OF d i(3)]) (simp add: transfer_fee_config_ext_def)
  moreover from this have "length tlv' = length tlv"
    using transfer_fee_config_x.init_length [OF i(1)] by (simp add: tlv_quiet_def)
  ultimately show "length tlv' = length tlv \<and> (tlv_fresh tlv \<longrightarrow> tlv_fresh tlv')"
    using tlv_fresh_init_fees(2) [OF _ i(1)] tlv_fresh_quiet by blast
qed

lemma fee_config_init_quiet:
  assumes "process_initialize_transfer_fee_config P accounts a w bp maximum st = Inr st'"
  shows "quiet_store P st st'"
proof -
  from assms show ?thesis
    by (clarsimp simp: process_initialize_transfer_fee_config_def result_simps)
      (erule fee_config_init_extension_quiet, auto simp: result_simps Let_def)
qed

lemma set_transfer_fee_quiet:
  assumes "process_set_transfer_fee P program_id accounts bp maximum st = Inr st'"
  shows "quiet_store P st st'"
proof -
  have q: "tlv_quiet tlv tlv'"
    if "get_extension AtMint transfer_fee_config_ext tlv = Inr e" "put_extension AtMint transfer_fee_config_ext
        ((if c then e\<lparr>tfc_older_transfer_fee := g\<rparr> else e)\<lparr>tfc_newer_transfer_fee := f\<rparr>) tlv = Inr tlv'" for e c g f tlv tlv'
    using that by (rule put_fee_config_quiet) simp
  from assms show ?thesis
    by (clarsimp simp: process_set_transfer_fee_def result_simps simp del: initialized_view_Inr)
      (erule quiet_mint_view, auto simp: Let_def result_simps dest!: unpack_mint_initialized intro!: calm_mint_tlv q
        split del: if_split)
qed

section \<open>Account extensions\<close>

lemma get_or_init_quiet:
  assumes "extension_contract V" and "get_or_init_extension V tlv = Inr (e, tlv1)" and "put_extension AtAccount V v tlv1 = Inr tlv'"
    and "vx_type V \<noteq> TransferFeeAmount" "vx_type V \<noteq> TransferFeeConfig"
  shows "tlv_quiet tlv tlv'"
proof -
  have "tlv_quiet tlv tlv1"
    using assms(2) extension_contract.tlv_quiet_init [OF assms(1) _ _ assms(4,5), where at = AtAccount]
    by (auto simp: get_or_init_extension_def result_simps split: sum.splits)
  with tlv_quiet_put [OF assms(3) _ assms(4,5)] show ?thesis by (auto intro: tlv_quiet_trans)
qed

lemma memo_toggle_quiet:
  assumes "process_toggle_required_memo_transfers P program_id accounts enable st = Inr st'"
  shows "quiet_store P st st'"
proof -
  note q = get_or_init_quiet [OF memo_transfer_x.extension_contract_axioms]
  from assms show ?thesis
    by (clarsimp simp: process_toggle_required_memo_transfers_def result_simps simp del: initialized_view_Inr)
      (erule quiet_account_view, auto simp: result_simps dest!: unpack_account_initialized intro!: calm_tlv elim!: q)
qed

lemma cpi_guard_toggle_quiet:
  assumes "process_toggle_cpi_guard P program_id accounts enable st = Inr st'"
  shows "quiet_store P st st'"
proof -
  note q = get_or_init_quiet [OF cpi_guard_x.extension_contract_axioms]
  from assms show ?thesis
    by (clarsimp simp: process_toggle_cpi_guard_def result_simps simp del: initialized_view_Inr)
      (erule quiet_account_view, auto simp: result_simps dest!: unpack_account_initialized intro!: calm_tlv elim!: q)
qed

lemma immutable_owner_quiet:
  assumes "process_initialize_immutable_owner accounts st = Inr st'"
  shows "quiet_store P st st'"
proof -
  have q: "length tlv' = length tlv \<and> (tlv_fresh tlv \<longrightarrow> tlv_fresh tlv')"
    if "init_extension AtAccount immutable_owner_ext True tlv = Inr tlv'" for tlv tlv'
    using immutable_owner_x.tlv_quiet_init [OF that] tlv_fresh_quiet by (auto simp: tlv_quiet_def)
  from assms show ?thesis
    by (clarsimp simp: process_initialize_immutable_owner_def result_simps simp del: uninitialized_view_Inr)
      (erule quiet_preparing_account_view, auto dest: q)
qed

section \<open>Creating mints, accounts and multisigs\<close>

lemma initialize_mint_quiet:
  assumes run: "process_initialize_mint_inner P accounts decimals auth freeze r st = Inr st'" and laws: "bool_laws P"
  shows "quiet_store P st st'"
proof -
  obtain info old b new where
    b: "m_is_initialized b = pl_pod_from_bool P True" "m_supply b = m_supply (ps_base old)"
    and old: "unpack_uninitialized (mint_base P) (ac_data (st (ai_key (info :: account_info)))) = Inr old"
    and new: "init_account_type (mint_base P) (old\<lparr>ps_base := b\<rparr>) = Inr new"
    and st': "st' = set_data (ai_key info) (state_bytes (mint_base P) new) st"
  proof -
    from run show thesis
      by (clarsimp simp: process_initialize_mint_inner_def Let_def result_simps simp del: coption_simps)
        (rule that; (assumption | rule refl | simp))
  qed
  have "layout_ok (mint_base P) 0 (old\<lparr>ps_base := b\<rparr>)"
    using mint_st.unpack_uninitialized_Inr(2) [OF old] by (auto simp: layout_ok_def mint_st.length_state_bytes)
  from mint_st.init_account_type_unpack [OF new this] laws b
  have "unpack (mint_base P) (state_bytes (mint_base P) new) = Inr new" "ps_base new = b" "ps_tlv new = ps_tlv old"
    by (simp_all add: pod_mint_is_initialized_def bool_laws_def)
  with b(2) show ?thesis
    unfolding st' by (intro quiet_store_set_data quiet_new_mint [OF old, where s' = new]) simp_all
qed

lemma tlv_fresh_step:
  assumes "tlv_fresh tlv" and "tlv_quiet tlv tlv'"
  shows "tlv_fresh tlv' \<and> length tlv' = length tlv"
  using tlv_fresh_quiet [OF assms] assms(2) by (simp add: tlv_quiet_def)

lemma init_account_extension_fresh:
  assumes "init_account_extension_from_type t tlv = Inr tlv'" and "tlv_fresh tlv"
  shows "tlv_fresh tlv' \<and> length tlv' = length tlv"
proof -
  have "tlv' = tlv \<or>
      init_extension AtAccount transfer_fee_amount_ext True tlv = Inr tlv' \<or>
      init_extension AtAccount immutable_owner_ext True tlv = Inr tlv' \<or>
      init_extension AtAccount non_transferable_account_ext True tlv = Inr tlv' \<or>
      init_extension AtAccount transfer_hook_account_ext True tlv = Inr tlv' \<or>
      init_extension AtAccount pausable_account_ext True tlv = Inr tlv'"
    using assms(1) by (cases t) (simp_all add: init_account_extension_from_type_def get_account_type_def)
  then show ?thesis
    using assms(2) tlv_fresh_init_fees(1) [OF assms(2)]
      immutable_owner_x.tlv_quiet_init [THEN tlv_fresh_step [OF assms(2)]]
      non_transferable_account_x.tlv_quiet_init [THEN tlv_fresh_step [OF assms(2)]]
      transfer_hook_account_x.tlv_quiet_init [THEN tlv_fresh_step [OF assms(2)]]
      pausable_account_x.tlv_quiet_init [THEN tlv_fresh_step [OF assms(2)]]
    by (elim disjE) simp_all
qed

lemma init_account_extensions_fresh:
  "try_for_each init_account_extension_from_type ts tlv = Inr tlv' \<Longrightarrow> tlv_fresh tlv \<Longrightarrow>
    tlv_fresh tlv' \<and> length tlv' = length tlv"
  by (induction ts arbitrary: tlv) (auto simp: result_simps dest: init_account_extension_fresh)

lemma required_walk:
  assumes "try_for_each_required_init_account_extension init_account_extension_from_type mint_tlv tlv = Inr tlv'"
  obtains ts where "try_for_each init_account_extension_from_type ts tlv = Inr tlv'" "set ts \<subseteq> set created_with_account"
proof -
  from assms obtain j where "try_for_each_tlv_extension_type
      (\<lambda>t. try_for_each init_account_extension_from_type (required_init_account_extensions t)) mint_tlv 0 tlv = Inr (j, tlv')"
    by (auto simp: try_for_each_required_init_account_extension_def result_simps)
  then obtain info :: tlv_data_info where
    "try_for_each (\<lambda>t. try_for_each init_account_extension_from_type (required_init_account_extensions t))
       (tdi_extension_types info) tlv = Inr tlv'"
    by (rule tlv_walk_info)
  then show thesis
    using that required_init_created unfolding try_for_each_concat by fastforce
qed

context base_contract
begin

lemma init_account_type_layout:
  assumes "init_account_type S st = Inr st'" and "layout_ok S 0 st"
  shows "layout_ok S (account_type_u8 (bs_account_type S)) st'"
  using assms
  by (cases "ps_account_type st = []")
    (auto simp: init_account_type_def layout_ok_def result_simps length_state_bytes)

end

lemma initialize_account_quiet:
  assumes run: "process_initialize_account_inner P accounts owner r st = Inr st'"
  shows "quiet_store P st st'"
proof -
  obtain new_info mint_info old mint_tlv tlv start native amount b new where
    native: "ai_key (mint_info :: account_info) \<noteq> NATIVE_MINT_ID \<Longrightarrow> native = coption_none \<and> amount = 0"
    and b: "a_mint b = ai_key mint_info" "a_amount b = amount" "a_is_native b = native" "a_state b = account_state_u8 start"
    and old: "unpack_uninitialized account_base (ac_data (st (ai_key (new_info :: account_info)))) = Inr old"
    and tlv: "try_for_each_required_init_account_extension init_account_extension_from_type mint_tlv (ps_tlv old) = Inr tlv"
    and new: "init_account_type account_base (old\<lparr>ps_base := b, ps_tlv := tlv\<rparr>) = Inr new"
    and st': "st' = set_data (ai_key new_info) (state_bytes account_base new) st"
  proof -
    from run show thesis
      by (clarsimp simp: process_initialize_account_inner_def Let_def result_simps simp del: coption_simps)
        (rule that; (assumption | rule refl | simp))
  qed
  obtain ts where ts: "try_for_each init_account_extension_from_type ts (ps_tlv old) = Inr tlv" "set ts \<subseteq> set created_with_account"
    using required_walk [OF tlv] .
  let ?s = "old\<lparr>ps_base := b, ps_tlv := tlv\<rparr>"
  have lo: "layout_ok account_base 0 ?s"
    using account_st.unpack_uninitialized_Inr(2) [OF old] init_account_extensions [OF ts]
    by (auto simp: layout_ok_def account_st.length_state_bytes)
  note shape = account_st.init_account_type_shape [OF new]
  have "layout_ok account_base 2 new"
    using account_st.init_account_type_layout [OF new lo] by (simp add: account_type_u8_def)
  moreover have "unpack account_base (state_bytes account_base new) = Inr new" if "pod_account_is_initialized (ps_base new)"
    using that shape(1) by (intro account_st.init_account_type_unpack(1) [OF new lo]) simp
  moreover have "a_mint (ps_base new) = NATIVE_MINT_ID \<or> a_amount (ps_base new) = 0 \<and> \<not> is_native (ps_base new)"
    using native b shape(1) by (cases "ai_key mint_info = NATIVE_MINT_ID") (simp_all add: is_native_def)
  moreover have "tlv_fresh (ps_tlv new)" if "tlv_fresh (ps_tlv old)"
    using init_account_extensions_fresh [OF ts(1) that] shape(2) by simp
  ultimately show ?thesis
    unfolding st' by (intro quiet_store_set_data quiet_new_account [OF old, where s' = new]) simp_all
qed

end
