(* ===== verification/Ledger_Moves.thy ===== *)
theory Ledger_Moves
  imports Ledger_Handlers
begin

text \<open>
  The instructions that move what the books record: transfers, mints and burns, the collection of
  fees, closing and reallocation, and the lamport instructions of wrapped accounts. Each keeps the
  books because what one entry loses another gains.
\<close>

section \<open>Lamports and space\<close>

text \<open>
  What the runtime guarantees about invocations of the system program: like any other program it
  cannot touch an account of the token program, and an account it hands over has zeroed data.
\<close>

definition system_laws :: "platform \<Rightarrow> bool" where
  "system_laws P \<longleftrightarrow>
     (\<forall>i j n. cpi_respects_owner TOKEN_2022_ID (pl_system_transfer P i j n)) \<and>
     (\<forall>i n. cpi_respects_owner TOKEN_2022_ID (pl_system_allocate P i n)) \<and>
     (\<forall>i k. cpi_respects_owner TOKEN_2022_ID (pl_system_assign P i k))"

lemma sample_system_laws [simp]: "system_laws sample_platform"
  by (simp add: system_laws_def cpi_respects_owner_def sample_platform_def)

lemma quiet_multisig:
  assumes "length (ac_data c) = MULTISIG_LEN" "length (ac_data c') = MULTISIG_LEN" "ac_owner c' = ac_owner c"
  shows "quiet P k c c'"
  using no_entries [of c P] no_entries [of c' P] assms by (simp add: quiet_def sound_def sound_data_def)

lemma initialize_multisig_quiet:
  assumes "process_initialize_multisig_inner P accounts m r st = Inr st'"
  shows "quiet_store P st st'"
proof -
  obtain k :: address and ms where k: "pod_multisig_try_from_bytes (ac_data (st k)) = Some ms"
    and ms': "\<exists>ms'. length (ms_signers ms') = MAX_SIGNERS \<and> st' = set_data k (pod_multisig_to_bytes ms') st"
  proof -
    from assms obtain i :: account_info and ms and sg :: "account_info list" and n where
      "pod_multisig_try_from_bytes (ac_data (st (ai_key i))) = Some ms" "length sg \<le> length (ms_signers ms)"
      "st' = set_data (ai_key i) (pod_multisig_to_bytes (ms\<lparr>ms_m := m, ms_n := n,
         ms_signers := map ai_key sg @ drop (length sg) (ms_signers ms), ms_is_initialized := pl_pod_from_bool P True\<rparr>)) st"
      by (auto simp: process_initialize_multisig_inner_def Let_def result_simps info_data_def)
    moreover from this(1) have "length (ms_signers ms) = MAX_SIGNERS"
      by (auto simp: pod_multisig_try_from_bytes_def split: if_splits)
    ultimately show thesis
      by (intro that [of "ai_key i" ms]) (auto intro!: exI [of _ "ms\<lparr>ms_m := m, ms_n := n,
         ms_signers := map ai_key sg @ drop (length sg) (ms_signers ms), ms_is_initialized := pl_pod_from_bool P True\<rparr>"])
  qed
  have "length (ac_data (st k)) = MULTISIG_LEN"
    using k by (auto simp: pod_multisig_try_from_bytes_def split: if_splits)
  with ms' show ?thesis
    by (auto intro!: quiet_store_set_data quiet_multisig simp: length_pod_multisig_to_bytes)
qed

lemma calm_native:
  assumes "pod_account_is_initialized b" "a_mint b = a_mint (ps_base s)" "is_native (ps_base s)"
  shows "calm_account s (s\<lparr>ps_base := b\<rparr>)"
  using assms by (simp add: calm_account_def)

lemma native_flag: "co_option (a_is_native b) = COPTION_SOME \<Longrightarrow> is_native b"
  by (simp add: is_native_def)

lemma sync_native_quiet:
  assumes "process_sync_native P accounts st = Inr st'"
  shows "quiet_store P st st'"
proof -
  from assms show ?thesis
    by (clarsimp simp: process_sync_native_def result_simps simp del: initialized_view_Inr coption_simps)
      (erule quiet_account_view, auto simp: result_simps simp del: coption_simps
        dest!: unpack_account_initialized intro!: calm_native native_flag split: if_splits)
qed

lemma withdraw_excess_quiet:
  assumes "process_withdraw_excess_lamports P program_id accounts st = Inr st'"
  shows "quiet_store P st st'"
proof -
  from assms show ?thesis
    by (auto simp: process_withdraw_excess_lamports_def Let_def result_simps intro: quiet_store_move)
qed

lemma unwrap_lamports_quiet:
  assumes "process_unwrap_lamports P program_id accounts amount st = Inr st'"
  shows "quiet_store P st st'"
proof -
  obtain b st1 k src dst s n r where
    st1: "st1 = st \<or> move_lamports src dst n (Custom Overflow) st = Inr st1"
    and b: "b = (ps_base s) \<or> (\<exists>d. b = (ps_base s)\<lparr>a_delegated_amount := d\<rparr>) \<or>
      (\<exists>d. b = (ps_base s)\<lparr>a_delegated_amount := d, a_delegate := coption_none\<rparr>)"
    and s: "unpack account_base (ac_data (st k)) = Inr s" "is_native (ps_base s)"
    and st': "st' = set_data k (state_bytes account_base (s\<lparr>ps_base := if n \<noteq> 0 then b\<lparr>a_amount := r\<rparr> else b\<rparr>)) st1"
  proof -
    from assms show thesis
      by (clarsimp simp: process_unwrap_lamports_def Let_def [of "ps_base _"] Let_def [of "length _"] result_simps
          simp del: coption_simps)
        (rule that; (assumption | rule refl | (auto simp: Let_def result_simps info_data_def simp del: coption_simps split: if_splits)))
  qed
  let ?s' = "s\<lparr>ps_base := if n \<noteq> 0 then b\<lparr>a_amount := r\<rparr> else b\<rparr>"
  have d1: "ac_data (st1 a) = ac_data (st a)" "ac_owner (st1 a) = ac_owner (st a)" for a
    using st1 move_lamports_frame by auto
  have calm: "calm_account s ?s'"
    using b s(2) unpack_account_initialized [OF s(1)] by (intro calm_native) (auto simp: pod_account_is_initialized_def)
  have "quiet_store P st1 st'"
    unfolding st' using calm_account_unpack [OF s(1) calm] calm s(1) d1
    by (intro quiet_store_set_data quiet_account [where s = s and s' = ?s']) (auto simp: calm_account_def tlv_quiet_def)
  moreover have "quiet_store P st st1"
    using d1 by (simp add: quiet_store_def quiet_same)
  ultimately show ?thesis by (rule quiet_store_trans [rotated])
qed

text \<open>The native mint is written over whatever 82 bytes its address received.\<close>

lemma length_mint_pack: "length dst = MINT_LEN \<Longrightarrow> length (mint_pack_into_slice m dst) = MINT_LEN"
  by (simp add: mint_pack_into_slice_def pack_coption_key_def pack_bool_def MINT_LEN_def split: option.splits)

lemma quiet_native_mint:
  assumes "length (ac_data c) = MINT_LEN" "ac_owner c' = ac_owner c" "mi_supply m = 0"
    and "ac_data c' = mint_pack_into_slice m (ac_data c)"
  shows "quiet P NATIVE_MINT_ID c c'"
proof -
  have u: "mint_unpack_from_slice (ac_data c') = Inr m"
    unfolding assms(4) by (rule mint_unpack_pack [OF assms(1)])
  have l: "length (ac_data c') = 82"
    using assms(1) by (simp add: assms(4) length_mint_pack size_numerals)
  have na: "unpack account_base d \<noteq> Inr s" if "length d = 82" for d s
  proof
    assume "unpack account_base d = Inr s"
    from account_st.unpack_shape(3) [OF this] that show False by (simp add: size_numerals)
  qed
  have "token_account c = None" "token_account c' = None"
    using na [of "ac_data c"] na [OF l] assms(1)
    by (simp_all add: token_account_def result_ok_def size_numerals split: sum.splits)
  then have "held k c = 0" "held k c' = 0" for k
    by (simp_all add: held_def)
  moreover have "sound_data P (ac_data c')"
    using mint_unpack_view [OF u] assms(3) l na [OF l] tlv_fresh_zeros [of 0]
    by (auto simp: sound_data_def size_numerals mint_view_def tlv_fresh_def)
  ultimately show ?thesis by (simp add: quiet_def sound_def)
qed

lemma system_calls_frame:
  assumes "system_laws P"
  shows "pl_system_transfer P i j n st = Inr st' \<Longrightarrow> token_frame {} st st'"
    "pl_system_allocate P i l st = Inr st' \<Longrightarrow> token_frame {} st st'"
    "pl_system_assign P i k st = Inr st' \<Longrightarrow> token_frame {} st st'"
  using assms token_frame_cpi unfolding system_laws_def by blast+

lemma create_native_mint_quiet:
  assumes run: "process_create_native_mint P accounts st = Inr st'" and laws: "system_laws P" "bool_laws P"
  shows "quiet_store P st st'"
proof -
  obtain i payer n st1 st2 st3 m where t: "pl_system_transfer P payer i n st = Inr st1"
    and a: "pl_system_allocate P i MINT_LEN st1 = Inr st2" and o: "pl_system_assign P i TOKEN_2022_ID st2 = Inr st3"
    and l: "length (ac_data (st3 NATIVE_MINT_ID)) = MINT_LEN" "mi_supply m = 0"
    and st': "st' = set_data NATIVE_MINT_ID (mint_pack_into_slice m (ac_data (st3 NATIVE_MINT_ID))) st3"
  proof -
    from run show thesis
      by (clarsimp simp: process_create_native_mint_def Let_def result_simps info_data_def)
        (rule that; (assumption | rule refl | simp))
  qed
  have "quiet_store P st st1" "quiet_store P st1 st2" "quiet_store P st2 st3"
    using laws(2) system_calls_frame [OF laws(1)] t a o by (auto simp: bool_laws_def intro!: quiet_store_frame)
  moreover have "quiet_store P st3 st'"
    unfolding st' using l by (intro quiet_store_set_data quiet_native_mint) simp_all
  ultimately show ?thesis using quiet_store_trans by blast
qed

section \<open>Reallocation\<close>

lemma quiet_grown_account:
  assumes "unpack account_base (ac_data c) = Inr s" "ac_owner c' = ac_owner c"
    and "unpack account_base (ac_data c') = Inr (s\<lparr>ps_account_type := t, ps_tlv := ps_tlv s @ replicate k 0, ps_base := b\<rparr>)"
    and "b = ps_base s \<or> is_native (ps_base s) \<and> a_mint b = a_mint (ps_base s)"
  shows "quiet P a c c'"
  using assms(1,3,2)
proof (rule quiet_account)
  assume "\<exists>es. laid_out es (ps_tlv s)"
  then obtain es where es: "laid_out es (ps_tlv s)" ..
  have es': "laid_out es (ps_tlv s @ replicate k 0)" using es by (rule laid_out_append_zeros)
  have "withheld (ps_tlv s @ replicate k 0) = withheld (ps_tlv s)"
    by (rule laid_out_same_fees(1) [OF es es' refl])
  with es' show "(\<exists>es. laid_out es (ps_tlv (s\<lparr>ps_account_type := t, ps_tlv := ps_tlv s @ replicate k 0, ps_base := b\<rparr>))) \<and>
    withheld (ps_tlv (s\<lparr>ps_account_type := t, ps_tlv := ps_tlv s @ replicate k 0, ps_base := b\<rparr>)) = withheld (ps_tlv s)"
    by auto
qed (use assms(4) in auto)

lemma reallocate_Inr:
  assumes "process_reallocate u P pid accounts new st = Inr st'" and "st' \<noteq> st"
  obtains tok base tlv len data1 n payer st2 data2 reserve w where
    "ac_owner (st (ai_key (tok :: account_info))) = TOKEN_2022_ID"
    "state_unpack u (ac_data (st (ai_key tok))) = Inr (base, tlv)" "\<not> len \<le> length (ac_data (st (ai_key tok)))"
    "pl_resize P (ac_data (st (ai_key tok))) len = Inr data1"
    "(if n > 0 then pl_system_transfer P payer tok n (set_data (ai_key tok) data1 st)
      else Inr (set_data (ai_key tok) data1 st)) = Inr st2"
    "set_account_type account_base (ac_data (st2 (ai_key tok))) = Inr data2"
    "(case (if acc_is_native base = None then None else Some (acc_amount base)) of
         None \<Rightarrow> Inr (set_data (ai_key tok) data2 st2)
       | Some native_token_amount \<Rightarrow>
           bindr (state_unpack_mut u data2) (\<lambda>(base, base_data, padding, account_type, tlv_data).
           bindr (ok_or (checked_add reserve native_token_amount) (Custom Overflow)) (\<lambda>minimum_lamports.
           bindr (ensure (\<not> ac_lamports (st2 (ai_key tok)) < minimum_lamports) (Custom InvalidState)) (\<lambda>_.
           Inr (set_data (ai_key tok)
                  (account_pack_into_slice (base\<lparr>acc_is_native := Some reserve\<rparr>) base_data @
                   padding @ account_type @ tlv_data) st2))))) = Inr st'"
proof -
  note defs = process_reallocate_def Let_def result_simps(1) result_simps info_data_def info_owner_def
  from assms obtain tok payer sys auth and signers :: "account_info list" where acc: "accounts = tok # payer # sys # auth # signers"
    by (auto simp: defs)
  let ?d = "ac_data (st (ai_key tok))"
  from assms acc obtain base tlv info len where
    b: "ac_owner (st (ai_key tok)) = TOKEN_2022_ID" "state_unpack u ?d = Inr (base, tlv)"
      "validate_owner P pid (acc_owner base) auth (length (ac_data (st (ai_key auth)))) signers st = Inr ()"
    and info: "get_tlv_data_info tlv = Inr info" and new: "\<forall>t \<in> set new. get_account_type t = AtAccount"
    and len: "try_calculate_account_len P ACCOUNT_LEN (tdi_extension_types info @ new) = Inr len"
    and long: "\<not> len \<le> length ?d"
    by (auto simp: defs split: if_splits)
  let ?w = "case (if acc_is_native base = None then None else Some (acc_amount base)) of Some n \<Rightarrow> n | None \<Rightarrow> 0"
  from assms(1) acc b info new len long obtain data1 rent cur st2 data2 where
    r: "pl_resize P ?d len = Inr data1" "pl_rent_get P = Inr rent"
    and st2: "(if saturating_sub (rent_minimum_balance rent len) cur > 0
          then pl_system_transfer P payer tok (saturating_sub (rent_minimum_balance rent len) cur) (set_data (ai_key tok) data1 st)
          else Inr (set_data (ai_key tok) data1 st)) = Inr st2"
    and d2: "set_account_type account_base (ac_data (st2 (ai_key tok))) = Inr data2"
    and fin: "(case (if acc_is_native base = None then None else Some (acc_amount base)) of
         None \<Rightarrow> Inr (set_data (ai_key tok) data2 st2)
       | Some native_token_amount \<Rightarrow>
           bindr (state_unpack_mut u data2) (\<lambda>(base, base_data, padding, account_type, tlv_data).
           bindr (ok_or (checked_add (rent_minimum_balance rent len) native_token_amount) (Custom Overflow)) (\<lambda>minimum_lamports.
           bindr (ensure (\<not> ac_lamports (st2 (ai_key tok)) < minimum_lamports) (Custom InvalidState)) (\<lambda>_.
           Inr (set_data (ai_key tok)
                  (account_pack_into_slice (base\<lparr>acc_is_native := Some (rent_minimum_balance rent len)\<rparr>) base_data @
                   padding @ account_type @ tlv_data) st2))))) = Inr st'"
    by (auto simp: defs)
  show thesis by (rule that [OF b(1,2) long r(1) st2 d2 fin])
qed

lemma reallocate_quiet:
  assumes run: "process_reallocate u P pid accounts new st = Inr st'"
    and laws: "pack_law u" "resize_laws P" "system_laws P" "bool_laws P"
  shows "quiet_store P st st'"
proof (cases "st' = st")
  case False
  obtain tok base tlv len data1 n payer st2 data2 reserve where
    own: "ac_owner (st (ai_key (tok :: account_info))) = TOKEN_2022_ID"
    and b: "state_unpack u (ac_data (st (ai_key tok))) = Inr (base, tlv)" and long: "\<not> len \<le> length (ac_data (st (ai_key tok)))"
    and r: "pl_resize P (ac_data (st (ai_key tok))) len = Inr data1"
    and st2: "(if n > 0 then pl_system_transfer P payer tok n (set_data (ai_key tok) data1 st)
      else Inr (set_data (ai_key tok) data1 st)) = Inr st2"
    and d2: "set_account_type account_base (ac_data (st2 (ai_key tok))) = Inr data2"
    and fin: "(case (if acc_is_native base = None then None else Some (acc_amount base)) of
         None \<Rightarrow> Inr (set_data (ai_key tok) data2 st2)
       | Some native_token_amount \<Rightarrow>
           bindr (state_unpack_mut u data2) (\<lambda>(base, base_data, padding, account_type, tlv_data).
           bindr (ok_or (checked_add reserve native_token_amount) (Custom Overflow)) (\<lambda>minimum_lamports.
           bindr (ensure (\<not> ac_lamports (st2 (ai_key tok)) < minimum_lamports) (Custom InvalidState)) (\<lambda>_.
           Inr (set_data (ai_key tok)
                  (account_pack_into_slice (base\<lparr>acc_is_native := Some reserve\<rparr>) base_data @
                   padding @ account_type @ tlv_data) st2))))) = Inr st'"
    using run False by (rule reallocate_Inr)
  let ?k = "ai_key tok" and ?c = "st (ai_key tok)"
  have f2: "token_frame {} (set_data ?k data1 st) st2"
    using st2 system_calls_frame(1) [OF laws(3)] by (auto split: if_splits)
  obtain s where s: "unpack account_base (ac_data ?c) = Inr s" "account_view base (ps_base s)"
    using state_unpack_Inr [OF b laws(1)] .
  have grow: "data1 = ac_data ?c @ replicate (len - length (ac_data ?c)) 0"
    using laws(2) [unfolded resize_laws_def, rule_format, OF r] long by simp
  have k2: "ac_owner (st2 ?k) = TOKEN_2022_ID" "ac_data (st2 ?k) = data1"
    using token_frameD(2,3) [OF f2, of ?k] own by simp_all
  obtain z s2 where s2: "s2 = s\<lparr>ps_account_type := [2], ps_tlv := ps_tlv s @ replicate z 0\<rparr>"
    "unpack account_base data2 = Inr s2"
  proof -
    have "set_account_type account_base (ac_data ?c @ replicate (len - length (ac_data ?c)) 0) = Inr data2"
      using d2 by (simp only: k2(2) grow)
    moreover have "length (ac_data ?c) < len" using long by simp
    ultimately show thesis using grow_account [OF s(1)] that by metis
  qed
  let ?b = "if is_native (ps_base s) then (ps_base s2)\<lparr>a_is_native := coption_some reserve\<rparr> else ps_base s"
  let ?s' = "s\<lparr>ps_account_type := [2], ps_tlv := ps_tlv s @ replicate z 0, ps_base := ?b\<rparr>"
  have st': "st' = set_data ?k (state_bytes account_base ?s') st2"
    using fin native_view [OF s(2)] account_st.unpack_bytes [OF s2(2)]
      state_unpack_mut_set_native [OF _ s2(2) laws(1)]
    by (auto simp: result_simps s2(1) split: if_splits)
  have "unpack account_base (ac_data (st' ?k)) = Inr ?s'"
    using s2(2) unpack_account_initialized [OF s(1)] account_st.unpack_update_base [OF s2(2), of ?b]
    by (simp add: st' s2(1) pod_account_is_initialized_def)
  then have "quiet P ?k (st ?k) (st' ?k)"
    using own k2(1) by (intro quiet_grown_account [OF s(1), where b = ?b and t = "[2]" and k = z]) (simp_all add: st' s2(1))
  moreover have "quiet P a (st a) (st' a)" if "a \<noteq> ?k" for a
    using quiet_frame [OF f2, of a P a] that laws(4) by (simp add: st' set_data_other bool_laws_def)
  ultimately show ?thesis unfolding quiet_store_def by metis
qed simp

section \<open>Changes of a mint and its accounts\<close>

definition token_entry :: "acct \<Rightarrow> bool" where
  "token_entry c \<longleftrightarrow> ac_owner c = TOKEN_2022_ID \<and> (\<exists>s. unpack account_base (ac_data c) = Inr s)"

lemma token_entry_entries:
  assumes "token_entry c" shows "issued P c = 0" "pooled P c = 0"
  using assms account_entries(2,3) by (auto simp: token_entry_def)

lemma sound_storeD: "books P h st \<Longrightarrow> sound P (st a)"
  by (simp add: books_def sound_store_def)

lemma quiet_mint_entries:
  "books P h st \<Longrightarrow> quiet P m (st m) c \<Longrightarrow> m \<noteq> NATIVE_MINT_ID \<Longrightarrow>
    pooled P c = pooled P (st m) \<and> issued P c = issued P (st m)"
  using sound_storeD by (auto simp: quiet_def)

text \<open>Token accounts that exchange holdings.\<close>

lemma books_accounts:
  assumes bk: "books P h st" and fin: "finite K" and out: "\<And>a. a \<notin> K \<Longrightarrow> quiet P a (st a) (st' a)"
    and ty: "\<And>a. a \<in> K \<Longrightarrow> token_entry (st a) \<and> token_entry (st' a) \<and> sound P (st' a)"
    and bal: "\<And>m. m \<noteq> NATIVE_MINT_ID \<Longrightarrow> (\<Sum>a\<in>K. held m (st' a)) = (\<Sum>a\<in>K. held m (st a))"
  shows "books P h st'"
proof (rule books_change [OF bk fin out])
  show "sound P (st' a)" if "a \<in> K" for a using ty [OF that] by simp
  show "(\<Sum>a\<in>K. held m (st' a)) + pooled P (st' m) + issued P (st m) =
      (\<Sum>a\<in>K. held m (st a)) + pooled P (st m) + issued P (st' m)" if m: "m \<noteq> NATIVE_MINT_ID" for m
  proof (cases "m \<in> K")
    case True
    then show ?thesis using ty [OF True] bal [OF m] by (simp add: token_entry_entries)
  next
    case False
    from quiet_mint_entries [OF bk out [OF False] m] bal [OF m] show ?thesis by simp
  qed
qed simp

text \<open>A mint with some of its accounts.\<close>

lemma books_mint:
  assumes bk: "books P h st" and fin: "finite A" and out: "\<And>a. a \<notin> insert k A \<Longrightarrow> quiet P a (st a) (st' a)"
    and ty: "\<And>a. a \<in> A \<Longrightarrow> token_entry (st a) \<and> token_entry (st' a) \<and> sound P (st' a)"
    and x: "unpack (mint_base P) (ac_data (st k)) = Inr x" "unpack (mint_base P) (ac_data (st' k)) = Inr x'"
    and own: "ac_owner (st k) = TOKEN_2022_ID" "ac_owner (st' k) = TOKEN_2022_ID"
    and lay: "(\<exists>es. laid_out es (ps_tlv x)) \<Longrightarrow> \<exists>es. laid_out es (ps_tlv x')"
    and other: "\<And>m. m \<noteq> NATIVE_MINT_ID \<Longrightarrow> m \<noteq> k \<Longrightarrow> (\<Sum>a\<in>A. held m (st' a)) = (\<Sum>a\<in>A. held m (st a))"
    and self: "k \<noteq> NATIVE_MINT_ID \<Longrightarrow>
      (\<Sum>a\<in>A. held k (st' a)) + mint_fees (ps_tlv x') + unat (m_supply (ps_base x)) =
      (\<Sum>a\<in>A. held k (st a)) + mint_fees (ps_tlv x) + unat (m_supply (ps_base x'))"
  shows "books P h st'"
proof (rule books_change [OF bk, of "insert k A"])
  note e = mint_entries [OF x(1) own(1)] mint_entries [OF x(2) own(2)]
  have k: "k \<notin> A"
    using ty [of k] e x mint_account_disjoint [OF x(1)] by (auto simp: token_entry_def)
  show "finite (insert k A)" using fin by simp
  show "quiet P a (st a) (st' a)" if "a \<notin> insert k A" for a using out [OF that] .
  show "sound P (st' a)" if "a \<in> insert k A" for a
  proof (cases "a = k")
    case True
    then show ?thesis
      using lay sound_mint [OF x(1)] sound_mint [OF x(2)] own sound_storeD [OF bk, of k] by (auto simp: sound_def)
  next
    case False
    with that ty show ?thesis by simp
  qed
  have sums: "(\<Sum>a\<in>insert k A. held m (st' a)) = (\<Sum>a\<in>A. held m (st' a))"
    "(\<Sum>a\<in>insert k A. held m (st a)) = (\<Sum>a\<in>A. held m (st a))" for m
    using fin k e(1,4) by simp_all
  show "(\<Sum>a\<in>insert k A. held m (st' a)) + pooled P (st' m) + issued P (st m) =
      (\<Sum>a\<in>insert k A. held m (st a)) + pooled P (st m) + issued P (st' m)" if m: "m \<noteq> NATIVE_MINT_ID" for m
  proof -
    consider "m = k" | "m \<noteq> k" "m \<in> A" | "m \<noteq> k" "m \<notin> A" by blast
    then show ?thesis
    proof cases
      case 1
      with m self show ?thesis by (simp add: sums e)
    next
      case 2
      with m other ty show ?thesis by (simp add: sums token_entry_entries)
    next
      case 3
      then have "quiet P m (st m) (st' m)" using out by simp
      from quiet_mint_entries [OF bk this m] other [OF m 3(1)] show ?thesis by (simp add: sums)
    qed
  qed
qed

section \<open>Transfers\<close>

text \<open>What an account that keeps its mint and its wrapping holds after a change.\<close>

lemma account_change:
  assumes "unpack account_base (ac_data c) = Inr s" "unpack account_base (ac_data c') = Inr s'"
    and "ac_owner c = TOKEN_2022_ID" "ac_owner c' = TOKEN_2022_ID" and "sound P c"
    and "a_mint (ps_base s') = a_mint (ps_base s)" "is_native (ps_base s') = is_native (ps_base s)"
    and "(\<exists>es. laid_out es (ps_tlv s)) \<Longrightarrow> (\<exists>es. laid_out es (ps_tlv s'))"
  shows "token_entry c \<and> token_entry c' \<and> sound P c'"
    "held m c' + (if a_mint (ps_base s) = m then holding s else 0) =
     held m c + (if a_mint (ps_base s) = m then holding s' else 0)"
proof -
  show "token_entry c \<and> token_entry c' \<and> sound P c'"
    using assms by (auto simp: token_entry_def sound_def sound_account [OF assms(1)] sound_account [OF assms(2)])
  show "held m c' + (if a_mint (ps_base s) = m then holding s else 0) =
     held m c + (if a_mint (ps_base s) = m then holding s' else 0)"
    using account_entries(1) [OF assms(1,3), of m] account_entries(1) [OF assms(2,4), of m] assms(6) by simp
qed

lemma same_except_laid_out: "same_except T tlv tlv' \<Longrightarrow> (\<exists>es. laid_out es tlv) \<Longrightarrow> (\<exists>es. laid_out es tlv')"
  by (simp add: same_except_def)

lemma transfer_books:
  assumes run: "process_transfer P program_id accounts amount instr st = Inr st'"
    and laws: "hook_laws P" "bool_laws P" and bk: "books P h st"
  shows "books P h st'"
proof -
  obtain src em dst auth signers s fee permanent hook where
    own: "info_owner st src = TOKEN_2022_ID" "info_owner st dst = TOKEN_2022_ID"
    and s: "unpack account_base (info_data st src) = Inr s"
    and e: "if ai_key src = ai_key dst then st' = st
     else transfer_to_other P src em dst auth signers amount fee hook
            (s\<lparr>ps_base := debited (ai_key auth) permanent amount False (ps_base s)\<rparr>) st = Inr st'"
    using run by (rule process_transfer_Inr)
  show ?thesis
  proof (cases "ai_key src = ai_key dst")
    case True
    with e bk show ?thesis by simp
  next
    case ne: False
    let ?b = "debited (ai_key auth) permanent amount False (ps_base s)"
    obtain d where d: "unpack account_base (info_data st dst) = Inr d" "a_mint (ps_base d) = a_mint (ps_base s)"
      and eff: "transfer_effect (ai_key src) (ai_key dst) amount fee (s\<lparr>ps_base := ?b\<rparr>) d st st'"
    proof -
      have t: "transfer_to_other P src em dst auth signers amount fee hook (s\<lparr>ps_base := ?b\<rparr>) st = Inr st'"
        using e ne by simp
      show thesis
        by (rule transfer_to_other_effect [OF t s refl _ own ne]) (auto simp: laws intro: that)
    qed
    obtain s' d' where u: "unpack account_base (ac_data (st' (ai_key src))) = Inr s'"
        "unpack account_base (ac_data (st' (ai_key dst))) = Inr d'"
      and bs: "fee \<le> amount" "amount \<le> a_amount (ps_base s)"
        "ps_base s' = ?b\<lparr>a_amount := a_amount (ps_base s) - amount\<rparr>"
        "ps_base d' = (ps_base d)\<lparr>a_amount := a_amount (ps_base d) + (amount - fee)\<rparr>"
        "unat (a_amount (ps_base d')) = unat (a_amount (ps_base d)) + (unat amount - unat fee)"
        "withheld (ps_tlv s') = withheld (ps_tlv s)" "withheld (ps_tlv d') = withheld (ps_tlv d) + unat fee"
      and lay: "same_except {TransferHookAccount} (ps_tlv s) (ps_tlv s')"
        "same_except {TransferHookAccount, TransferFeeAmount} (ps_tlv d) (ps_tlv d')"
      and fr: "token_frame {ai_key src, ai_key dst} st st'"
      using eff by (auto simp: transfer_effect_def)
    have own': "ac_owner (st (ai_key src)) = TOKEN_2022_ID" "ac_owner (st (ai_key dst)) = TOKEN_2022_ID"
      "ac_owner (st' (ai_key src)) = TOKEN_2022_ID" "ac_owner (st' (ai_key dst)) = TOKEN_2022_ID"
      using own token_frameD(2) [OF fr] by (simp_all add: info_owner_def)
    note cs = account_change [OF s [unfolded info_data_def] u(1) own'(1,3) sound_storeD [OF bk] _ _ same_except_laid_out [OF lay(1)]]
    note cd = account_change [OF d(1) [unfolded info_data_def] u(2) own'(2,4) sound_storeD [OF bk] _ _ same_except_laid_out [OF lay(2)]]
    have same: "a_mint (ps_base s') = a_mint (ps_base s)" "is_native (ps_base s') = is_native (ps_base s)"
      "a_mint (ps_base d') = a_mint (ps_base d)" "is_native (ps_base d') = is_native (ps_base d)"
      using bs(3,4) by (simp_all add: is_native_def)
    have "unat fee \<le> unat amount" "unat amount \<le> unat (a_amount (ps_base s))"
      using bs(1,2) by (simp_all add: word_le_nat_alt)
    then have tot: "holding s' + holding d' = holding s + holding d"
      using bs(2,3,5-7) by (simp add: holding_def unat_sub)
    show ?thesis
    proof (rule books_accounts [OF bk, of "{ai_key src, ai_key dst}"])
      show "quiet P a (st a) (st' a)" if "a \<notin> {ai_key src, ai_key dst}" for a
        using quiet_frame [OF fr that] laws(2) by (simp add: bool_laws_def)
      show "token_entry (st a) \<and> token_entry (st' a) \<and> sound P (st' a)" if "a \<in> {ai_key src, ai_key dst}" for a
        using that cs(1) [OF same(1,2)] cd(1) [OF same(3,4)] by auto
      show "(\<Sum>a\<in>{ai_key src, ai_key dst}. held m (st' a)) = (\<Sum>a\<in>{ai_key src, ai_key dst}. held m (st a))" for m
        using cs(2) [OF same(1,2), of m] cd(2) [OF same(3,4), of m] tot ne d(2) by (simp split: if_splits)
    qed simp
  qed
qed

section \<open>Minting and burning\<close>

text \<open>A supply and one account of the mint that move together.\<close>

lemma supply_books:
  assumes bk: "books P h st"
    and x: "unpack (mint_base P) (ac_data (st k)) = Inr x" and s: "unpack account_base (ac_data (st a)) = Inr s"
    and own: "ac_owner (st k) = TOKEN_2022_ID" "ac_owner (st a) = TOKEN_2022_ID" and ne: "k \<noteq> a"
    and b: "a_mint (ps_base s) = k" "a_mint b = k" "a_state b = a_state (ps_base s)" "a_is_native b = a_is_native (ps_base s)"
    and n: "unat (a_amount b) + unat (m_supply (ps_base x)) = unat (a_amount (ps_base s)) + unat supply"
    and st': "st' = set_data k (state_bytes (mint_base P) (x\<lparr>ps_base := (ps_base x)\<lparr>m_supply := supply\<rparr>\<rparr>))
        (set_data a (state_bytes account_base (s\<lparr>ps_base := b\<rparr>)) st)"
  shows "books P h st'"
proof -
  have eff: "supply_effect P k a x supply s b st st'"
    unfolding st' by (rule supply_effectI [OF x s ne b(3)])
  then have u: "unpack (mint_base P) (ac_data (st' k)) = Inr (x\<lparr>ps_base := (ps_base x)\<lparr>m_supply := supply\<rparr>\<rparr>)"
    "unpack account_base (ac_data (st' a)) = Inr (s\<lparr>ps_base := b\<rparr>)"
    and out: "\<And>c. c \<notin> insert k {a} \<Longrightarrow> quiet P c (st c) (st' c)"
    by (auto simp: supply_effect_def)
  have own': "ac_owner (st' k) = TOKEN_2022_ID" "ac_owner (st' a) = TOKEN_2022_ID"
    using own by (simp_all add: st')
  note c = account_change [OF s u(2) own(2) own'(2) sound_storeD [OF bk]]
  have "is_native b = is_native (ps_base s)" using b(4) by (simp add: is_native_def)
  then have c': "token_entry (st a) \<and> token_entry (st' a) \<and> sound P (st' a)"
    "held m (st' a) + (if k = m then holding s else 0) = held m (st a) + (if k = m then holding (s\<lparr>ps_base := b\<rparr>) else 0)" for m
    using c(1) c(2) [of m] b(1,2) by simp_all
  show ?thesis
  proof (rule books_mint [OF bk _ out _ x u(1) own(1) own'(1)])
    show "token_entry (st y) \<and> token_entry (st' y) \<and> sound P (st' y)" if "y \<in> {a}" for y
      using that c'(1) by simp
    show "(\<Sum>y\<in>{a}. held m (st' y)) = (\<Sum>y\<in>{a}. held m (st y))" if "m \<noteq> k" for m
      using that c'(2) [of m] by simp
    show "(\<Sum>y\<in>{a}. held k (st' y)) + mint_fees (ps_tlv (x\<lparr>ps_base := (ps_base x)\<lparr>m_supply := supply\<rparr>\<rparr>)) +
        unat (m_supply (ps_base x)) =
      (\<Sum>y\<in>{a}. held k (st y)) + mint_fees (ps_tlv x) +
        unat (m_supply (ps_base (x\<lparr>ps_base := (ps_base x)\<lparr>m_supply := supply\<rparr>\<rparr>)))"
      using c'(2) [of k] n by (simp add: holding_def)
  qed simp_all
qed

lemma mint_to_books:
  assumes run: "process_mint_to P program_id accounts amount variant st = Inr st'" and bk: "books P h st"
  shows "books P h st'"
proof -
  obtain mint_info dest_info mint dest new_supply n where
    su: "checked_add (m_supply (ps_base mint)) amount = Some new_supply" and n: "checked_add (a_amount (ps_base dest)) amount = Some n"
    and m: "ai_key (mint_info :: account_info) = a_mint (ps_base dest)" "ai_key mint_info \<noteq> ai_key dest_info"
    and own: "info_owner st mint_info = TOKEN_2022_ID" "info_owner st dest_info = TOKEN_2022_ID"
    and u: "unpack (mint_base P) (info_data st mint_info) = Inr mint" "unpack account_base (info_data st dest_info) = Inr dest"
    and st': "st' = set_data (a_mint (ps_base dest))
            (state_bytes (mint_base P) (mint\<lparr>ps_base := (ps_base mint)\<lparr>m_supply := new_supply\<rparr>\<rparr>))
            (set_data (ai_key (dest_info :: account_info))
              (state_bytes account_base (dest\<lparr>ps_base := (ps_base dest)\<lparr>a_amount := n\<rparr>\<rparr>)) st)"
  proof -
    from run show thesis
      by (clarsimp simp: process_mint_to_def result_simps simp del: coption_simps)
        (rule that; (assumption | rule refl | simp))
  qed
  show ?thesis
    using u own m checked_add_SomeD [OF su] checked_add_SomeD [OF n]
    by (intro supply_books [OF bk _ _ _ _ _ _ _ _ _ _ st' [folded m(1)]]) (simp_all add: info_data_def info_owner_def)
qed

lemma burn_books:
  assumes run: "process_burn P program_id accounts amount burn variant st = Inr st'" and bk: "books P h st"
  shows "books P h st'"
proof -
  obtain mint_info src_info auth signers permanent mint src new_supply n base where
    su: "checked_sub (m_supply (ps_base mint)) amount = Some new_supply" and n: "checked_sub (a_amount base) amount = Some n"
    and m: "ai_key (mint_info :: account_info) = a_mint (ps_base src)" "ai_key mint_info \<noteq> ai_key src_info"
    and own: "info_owner st mint_info = TOKEN_2022_ID" "info_owner st src_info = TOKEN_2022_ID"
    and u: "unpack (mint_base P) (info_data st mint_info) = Inr mint" "unpack account_base (info_data st src_info) = Inr src"
    and base: "(if is_owned_by_system_program_or_incinerator P (ps_base src) then Inr (ps_base src)
            else debit_authority P program_id auth signers permanent amount False (ps_base src) st) = Inr base"
    and st': "st' = set_data (a_mint (ps_base src))
            (state_bytes (mint_base P) (mint\<lparr>ps_base := (ps_base mint)\<lparr>m_supply := new_supply\<rparr>\<rparr>))
            (set_data (ai_key (src_info :: account_info))
              (state_bytes account_base (src\<lparr>ps_base := base\<lparr>a_amount := n\<rparr>\<rparr>)) st)"
  proof -
    from run show thesis
      by (clarsimp simp: process_burn_def result_simps simp del: coption_simps)
        (rule that; (assumption | rule refl | simp))
  qed
  have b: "a_amount base = a_amount (ps_base src)" "a_state base = a_state (ps_base src)" "a_mint base = a_mint (ps_base src)"
    "a_is_native base = a_is_native (ps_base src)"
    using base by (auto simp: debit_authority_Inr split: if_splits)
  show ?thesis
    using u own m b checked_sub_SomeD [OF su] checked_sub_SomeD [OF n]
    by (intro supply_books [OF bk _ _ _ _ _ _ _ _ _ _ st' [folded m(1)]]) (simp_all add: info_data_def info_owner_def)
qed

section \<open>Closing\<close>

lemma cleared_entries:
  assumes "bool_laws P" and "ac_data c = []"
  shows "sound P c" "held m c = 0" "issued P c = 0" "pooled P c = 0"
proof -
  have c: "c\<lparr>ac_data := replicate 0 0\<rparr> = c" using assms(2) by (cases c) simp
  have z: "\<not> pl_bool_from_pod P 0" using assms(1) by (simp add: bool_laws_def)
  show "sound P c" "held m c = 0" "issued P c = 0" "pooled P c = 0"
    using sound_zeros(1) [OF z, of 0] sound_zeros(2) [OF z, where c = c and n = 0] sound_zeros(3) [OF z, where c = c and n = 0]
      sound_zeros(4) [OF z, where c = c and n = 0] assms(2) by (simp_all add: sound_def c [simplified])
qed

lemma books_single:
  assumes bk: "books P h st" and out: "\<And>a. a \<noteq> k \<Longrightarrow> quiet P a (st a) (st' a)" and "sound P (st' k)"
    and "\<And>m. m \<noteq> NATIVE_MINT_ID \<Longrightarrow> held m (st' k) = held m (st k)"
    and "k \<noteq> NATIVE_MINT_ID \<Longrightarrow> pooled P (st' k) + issued P (st k) = pooled P (st k) + issued P (st' k)"
  shows "books P h st'"
proof (rule books_change [OF bk, of "{k}"])
  show "(\<Sum>a\<in>{k}. held m (st' a)) + pooled P (st' m) + issued P (st m) =
      (\<Sum>a\<in>{k}. held m (st a)) + pooled P (st m) + issued P (st' m)" if m: "m \<noteq> NATIVE_MINT_ID" for m
  proof (cases "m = k")
    case False
    from quiet_mint_entries [OF bk out [OF False] m] assms(4) [OF m] show ?thesis by simp
  qed (use assms(4,5) m in simp)
qed (use assms in auto)

lemma close_books:
  assumes run: "process_close_account P program_id accounts st = Inr st'"
    and laws: "resize_laws P" "bool_laws P" and bk: "books P h st" and covered: "\<And>m. 0 \<le> h m"
  shows "books P h st'"
proof -
  obtain src dst auth signers n where ne: "ai_key src \<noteq> ai_key dst" and own: "info_owner st src = TOKEN_2022_ID"
    and chk: "(case unpack_ref account_base (info_data st src) of
         Inr (base, tlv) \<Rightarrow> check_account_closable P program_id dst auth signers st base tlv
       | Inl _ \<Rightarrow>
           (case unpack_ref (mint_base P) (info_data st src) of
              Inr (mint, tlv) \<Rightarrow> check_mint_closable P program_id auth signers st mint tlv
            | Inl _ \<Rightarrow> Inl UninitializedAccount)) = Inr ()"
    and del: "delete_account P (ai_key src) (set_lamports (ai_key src) 0 (set_lamports (ai_key dst) n st)) = Inr st'"
    using run by (auto simp: process_close_account_def Let_def result_simps)
  let ?k = "ai_key src"
  have st': "st' = set_data ?k [] (set_owner ?k (pl_system_program_id P) (set_lamports ?k 0 (set_lamports (ai_key dst) n st)))"
    using del laws(1) by (auto simp: delete_account_def Let_def result_simps dest: resize_zero)
  have out: "quiet P a (st a) (st' a)" if "a \<noteq> ?k" for a
    using that by (intro quiet_same) (simp_all add: st')
  have d: "ac_data (st' ?k) = []" by (simp add: st')
  note c' = cleared_entries [OF laws(2) d]
  have own': "ac_owner (st ?k) = TOKEN_2022_ID" using own by (simp add: info_owner_def)
  have sd: "sound_data P (ac_data (st ?k))"
    using sound_storeD [OF bk, of ?k] own' by (simp add: sound_def)
  show ?thesis
  proof (cases "unpack_ref account_base (info_data st src)")
    case (Inr p)
    then obtain s where s: "unpack account_base (ac_data (st ?k)) = Inr s" "p = (ps_base s, ps_tlv s)"
      by (auto simp: account_st.unpack_ref_eq info_data_def result_simps)
    from chk Inr s(2) have "check_account_closable P program_id dst auth signers st (ps_base s) (ps_tlv s) = Inr ()" by simp
    note cl = check_account_closable_Inr(1,2) [OF this]
    have "held m (st ?k) = 0" if "m \<noteq> NATIVE_MINT_ID" for m
      using account_entries(1) [OF s(1) own', of m] cl that sd sound_account [OF s(1)] by (auto simp: holding_def)
    then show ?thesis
      using c' account_entries(2,3) [OF s(1) own'] out by (intro books_single [OF bk, of ?k st']) simp_all
  next
    case (Inl e)
    with chk obtain mint tlv where "unpack_ref (mint_base P) (info_data st src) = Inr (mint, tlv)"
      "check_mint_closable P program_id auth signers st mint tlv = Inr ()"
      by (auto split: sum.splits)
    then obtain x where x: "unpack (mint_base P) (ac_data (st ?k)) = Inr x" "m_supply (ps_base x) = 0"
      by (auto simp: mint_st.unpack_ref_eq info_data_def result_simps elim!: check_mint_closable_Inr)
    note e = mint_entries [OF x(1) own']
    have "pooled P (st ?k) = 0" if "?k \<noteq> NATIVE_MINT_ID"
    proof -
      have "int (circulating ?k st) + int (pooled P (st ?k)) + h ?k = int (issued P (st ?k))"
        using bk that by (simp add: books_def balanced_def)
      with x(2) e(2) covered [of ?k] show ?thesis by simp
    qed
    then show ?thesis
      using c' e(1,2) x(2) out by (intro books_single [OF bk, of ?k st']) simp_all
  qed
qed

section \<open>Collecting fees\<close>

lemma fee_config_put_fees:
  assumes "put_extension AtMint transfer_fee_config_ext c tlv = Inr tlv'"
  shows "mint_fees tlv' = unat (tfc_withheld_amount c)" "(\<exists>es. laid_out es tlv) \<Longrightarrow> (\<exists>es. laid_out es tlv')"
    "length tlv' = length tlv"
  using transfer_fee_config_x.put_get_same [OF assms] put_same_except [OF assms]
  by (auto simp: mint_fees_def same_except_def)

lemma withdraw_from_mint_books:
  assumes run: "process_withdraw_withheld_tokens_from_mint P program_id accounts st = Inr st'" and bk: "books P h st"
  shows "books P h st'"
proof -
  obtain mint_info dest auth signers m c d tlv n where
    own: "info_owner st mint_info = TOKEN_2022_ID" "info_owner st dest = TOKEN_2022_ID"
    and m: "unpack (mint_base P) (info_data st mint_info) = Inr m" "get_extension AtMint transfer_fee_config_ext (ps_tlv m) = Inr c"
    and d: "withdraw_destination P program_id mint_info dest auth signers c st = Inr d"
    and put: "put_extension AtMint transfer_fee_config_ext (c\<lparr>tfc_withheld_amount := 0\<rparr>) (ps_tlv m) = Inr tlv"
    and n: "checked_add (a_amount (ps_base d)) (tfc_withheld_amount c) = Some n"
    and st': "st' = set_data (ai_key dest) (state_bytes account_base (d\<lparr>ps_base := (ps_base d)\<lparr>a_amount := n\<rparr>\<rparr>))
            (set_data (ai_key mint_info) (state_bytes (mint_base P) (m\<lparr>ps_tlv := tlv\<rparr>)) st)"
    using run by (auto simp: process_withdraw_withheld_tokens_from_mint_def result_simps Let_def)
  let ?k = "ai_key mint_info" and ?a = "ai_key dest"
  note w = withdraw_destination_Inr(1,2,4) [OF d] and p = fee_config_put_fees [OF put]
  have "unpack (mint_base P) (state_bytes (mint_base P) (m\<lparr>ps_base := ps_base m, ps_tlv := tlv\<rparr>)) =
      Inr (m\<lparr>ps_base := ps_base m, ps_tlv := tlv\<rparr>)"
    using unpack_mint_initialized [OF m(1)] p(3) by (intro mint_st.unpack_update [OF m(1)]) simp_all
  moreover have "unpack account_base (state_bytes account_base (d\<lparr>ps_base := (ps_base d)\<lparr>a_amount := n\<rparr>\<rparr>)) =
      Inr (d\<lparr>ps_base := (ps_base d)\<lparr>a_amount := n\<rparr>\<rparr>)"
    using unpack_account_update [OF w(1), of "(ps_base d)\<lparr>a_amount := n\<rparr>" "ps_tlv d"] by simp
  ultimately have u: "unpack (mint_base P) (ac_data (st' ?k)) = Inr (m\<lparr>ps_tlv := tlv\<rparr>)"
    "unpack account_base (ac_data (st' ?a)) = Inr (d\<lparr>ps_base := (ps_base d)\<lparr>a_amount := n\<rparr>\<rparr>)"
    using w(3) by (simp_all add: st')
  have o: "ac_owner (st ?k) = TOKEN_2022_ID" "ac_owner (st' ?k) = TOKEN_2022_ID" "ac_owner (st ?a) = TOKEN_2022_ID"
    "ac_owner (st' ?a) = TOKEN_2022_ID"
    using own by (simp_all add: st' info_owner_def)
  note ch = account_change [OF w(1) [unfolded info_data_def] u(2) o(3,4) sound_storeD [OF bk]]
  have c1: "token_entry (st ?a) \<and> token_entry (st' ?a) \<and> sound P (st' ?a)"
    and c2: "held x (st' ?a) + (if ?k = x then holding d else 0) =
      held x (st ?a) + (if ?k = x then holding d + unat (tfc_withheld_amount c) else 0)" for x
    using ch(1) ch(2) [of x] w(2) checked_add_SomeD [OF n] by (simp_all add: is_native_def holding_def split: if_splits)
  show ?thesis
  proof (rule books_mint [where st' = st' and k = ?k and A = "{?a}", OF bk _ _ _ m(1) [unfolded info_data_def] u(1) o(1,2)])
    show "quiet P y (st y) (st' y)" if "y \<notin> insert ?k {?a}" for y using that by (simp add: st' set_data_other)
    show "token_entry (st y) \<and> token_entry (st' y) \<and> sound P (st' y)" if "y \<in> {?a}" for y using that c1 by simp
    show "(\<Sum>y\<in>{?a}. held x (st' y)) = (\<Sum>y\<in>{?a}. held x (st y))" if "x \<noteq> ?k" for x using that c2 [of x] by simp
    show "(\<Sum>y\<in>{?a}. held ?k (st' y)) + mint_fees (ps_tlv (m\<lparr>ps_tlv := tlv\<rparr>)) + unat (m_supply (ps_base m)) =
      (\<Sum>y\<in>{?a}. held ?k (st y)) + mint_fees (ps_tlv m) + unat (m_supply (ps_base (m\<lparr>ps_tlv := tlv\<rparr>)))"
      using c2 [of ?k] p(1) m(2) by (simp add: mint_fees_def)
  qed (simp_all add: p(2))
qed

text \<open>What an account holds is its amount and what is withheld on it; harvesting takes the latter only.\<close>

definition amount_of :: "address \<Rightarrow> acct \<Rightarrow> nat" where
  "amount_of m c =
     (case token_account c of Some s \<Rightarrow> if a_mint (ps_base s) = m then unat (a_amount (ps_base s)) else 0 | None \<Rightarrow> 0)"

lemma held_split: "held m (st a) = amount_of m (st a) + withheld_of m st a"
  by (auto simp: held_def amount_of_def withheld_of_def token_account_def result_ok_def holding_def
      split: sum.splits)

lemma fee_taken_change:
  assumes "fee_taken x y" and "y \<noteq> x" and "sound P x"
  shows "token_entry x \<and> token_entry y \<and> sound P y" "amount_of m y = amount_of m x"
proof -
  from assms(1,2) obtain s tlv where s: "unpack account_base (ac_data x) = Inr s" "ac_owner x = TOKEN_2022_ID"
    "y = x\<lparr>ac_data := state_bytes account_base (s\<lparr>ps_tlv := tlv\<rparr>)\<rparr>"
    and u: "unpack account_base (ac_data y) = Inr (s\<lparr>ps_tlv := tlv\<rparr>)"
    and same: "same_except {TransferFeeAmount} (ps_tlv s) tlv"
    unfolding fee_taken_def by blast
  have o: "ac_owner y = TOKEN_2022_ID" using s(2,3) by simp
  show "token_entry x \<and> token_entry y \<and> sound P y"
    using account_change(1) [OF s(1) u s(2) o assms(3)] same_except_laid_out [OF same] by simp
  have "token_account x = Some s" "token_account y = Some (s\<lparr>ps_tlv := tlv\<rparr>)"
    using s(1,2) u o by (simp_all add: token_account_eq)
  then show "amount_of m y = amount_of m x" by (simp add: amount_of_def)
qed

lemma harvest_from_other:
  assumes "harvest_from_account mint i st = Inr (n, st')" and "m \<noteq> mint"
  shows "withheld_of m st' = withheld_of m st"
proof -
  obtain s e tlv where s: "unpack account_base (info_data st i) = Inr s" "a_mint (ps_base s) = mint"
    and put: "put_extension AtAccount transfer_fee_amount_ext (e\<lparr>tfa_withheld_amount := 0\<rparr>) (ps_tlv s) = Inr tlv"
    and own: "info_owner st i = TOKEN_2022_ID"
    and st': "st' = set_data (ai_key i) (state_bytes account_base (s\<lparr>ps_tlv := tlv\<rparr>)) st"
    using assms(1) by (auto simp: harvest_from_account_def result_simps Let_def)
  have "same_except {TransferFeeAmount} (ps_tlv s) tlv"
    using put_same_except [OF put] by simp
  note t = fees_taken_single [of st "ai_key i", OF s(1) [unfolded info_data_def] own [unfolded info_owner_def] this]
  from t(2) show ?thesis
    using s assms(2) by (intro ext) (simp add: st' withheld_of_def info_data_def)
qed

lemma harvest_loop_other:
  "try_for_each (harvest_step mint) infos (w, st) = Inr (w', st') \<Longrightarrow> m \<noteq> mint \<Longrightarrow> withheld_of m st' = withheld_of m st"
proof (induction infos arbitrary: w st)
  case (Cons i infos)
  then obtain w1 st1 where s1: "harvest_step mint i (w, st) = Inr (w1, st1)"
    and rest: "try_for_each (harvest_step mint) infos (w1, st1) = Inr (w', st')"
    by (auto simp: result_simps)
  have "withheld_of m st1 = withheld_of m st"
    using s1 Cons.prems(2) by (auto simp: harvest_step_def result_simps dest: harvest_from_other split: sum.splits)
  with Cons.IH [OF rest Cons.prems(2)] show ?case by simp
qed simp

lemma withheld_of_cong: "st' a = st a \<Longrightarrow> withheld_of m st' a = withheld_of m st a"
  by (simp add: withheld_of_def)

text \<open>What a set of token accounts holds after a harvest for one mint.\<close>

lemma harvest_held:
  assumes ft: "\<And>a. a \<in> A \<Longrightarrow> fee_taken (st a) (st' a) \<and> sound P (st a)"
  shows "(\<Sum>a\<in>A. held m (st' a)) + (\<Sum>a\<in>A. withheld_of m st a) = (\<Sum>a\<in>A. held m (st a)) + (\<Sum>a\<in>A. withheld_of m st' a)"
proof -
  have "amount_of m (st' a) = amount_of m (st a)" if "a \<in> A" for a
    using ft [OF that] fee_taken_change(2) [of "st a" "st' a" P m] by (cases "st' a = st a") auto
  then have "(\<Sum>a\<in>A. amount_of m (st' a)) = (\<Sum>a\<in>A. amount_of m (st a))" by simp
  then show ?thesis by (simp add: held_split sum.distrib)
qed

lemma changed_sum:
  assumes "finite K" and "\<And>a. a \<in> K \<Longrightarrow> a \<notin> A \<Longrightarrow> f a = (0 :: nat)" and "A \<subseteq> K"
  shows "(\<Sum>a\<in>A. f a) = (\<Sum>a\<in>K. f a)"
  using assms by (intro sum.mono_neutral_left) auto

lemma harvest_books:
  assumes run: "process_harvest_withheld_tokens_to_mint P accounts st = Inr st'" and bk: "books P h st"
  shows "books P h st'"
proof -
  obtain mint_info infos m c w st1 tlv where own: "info_owner st mint_info = TOKEN_2022_ID"
    and m: "unpack (mint_base P) (info_data st mint_info) = Inr m" "get_extension AtMint transfer_fee_config_ext (ps_tlv m) = Inr c"
    and loop: "try_for_each (harvest_step (ai_key mint_info)) infos (tfc_withheld_amount c, st) = Inr (w, st1)"
    and put: "put_extension AtMint transfer_fee_config_ext (c\<lparr>tfc_withheld_amount := w\<rparr>) (ps_tlv m) = Inr tlv"
    and st': "st' = set_data (ai_key mint_info) (state_bytes (mint_base P) (m\<lparr>ps_tlv := tlv\<rparr>)) st1"
    using run by (auto simp: process_harvest_withheld_tokens_to_mint_def result_simps)
  let ?k = "ai_key mint_info" and ?K = "ai_key ` set infos"
  define A where "A = {a \<in> ?K. st1 a \<noteq> st a}"
  note h = harvest_loop [OF loop] and p = fee_config_put_fees [OF put]
  have kA: "?k \<notin> A" and fin: "finite A" using h by (auto simp: A_def)
  have ft: "fee_taken (st a) (st1 a)" for a using h by (simp add: fees_taken_def)
  have stA: "st' a = st1 a" if "a \<noteq> ?k" for a using that by (simp add: st' set_data_other)
  have same: "st' a = st a" if "a \<notin> insert ?k A" for a
    using that h stA [of a] by (cases "a \<in> ?K") (auto simp: A_def)
  have "unpack (mint_base P) (state_bytes (mint_base P) (m\<lparr>ps_base := ps_base m, ps_tlv := tlv\<rparr>)) =
      Inr (m\<lparr>ps_base := ps_base m, ps_tlv := tlv\<rparr>)"
    using unpack_mint_initialized [OF m(1)] p(3) by (intro mint_st.unpack_update [OF m(1)]) simp_all
  then have u: "unpack (mint_base P) (ac_data (st' ?k)) = Inr (m\<lparr>ps_tlv := tlv\<rparr>)" by (simp add: st')
  have o: "ac_owner (st ?k) = TOKEN_2022_ID" "ac_owner (st' ?k) = TOKEN_2022_ID"
    using own fees_taken_frame(1) [of st st1 ?k] h by (simp_all add: st' info_owner_def)
  have held: "(\<Sum>a\<in>A. held x (st' a)) + (\<Sum>a\<in>A. withheld_of x st a) =
      (\<Sum>a\<in>A. held x (st a)) + (\<Sum>a\<in>A. withheld_of x st1 a)" for x
  proof -
    have "(\<Sum>a\<in>A. held x (st' a)) = (\<Sum>a\<in>A. held x (st1 a))"
      by (intro sum.cong refl arg_cong [of _ _ "held x"]) (metis kA stA)
    with harvest_held [of A st st1 P x] ft sound_storeD [OF bk] show ?thesis by simp
  qed
  show ?thesis
  proof (rule books_mint [where st' = st' and k = ?k and A = A, OF bk fin _ _ m(1) [unfolded info_data_def] u o])
    show "quiet P a (st a) (st' a)" if "a \<notin> insert ?k A" for a using same [OF that] by simp
    show "token_entry (st a) \<and> token_entry (st' a) \<and> sound P (st' a)" if a: "a \<in> A" for a
    proof -
      have "a \<noteq> ?k" using a kA by metis
      moreover have "st1 a \<noteq> st a" using a by (simp add: A_def)
      ultimately show ?thesis using fee_taken_change(1) [OF ft _ sound_storeD [OF bk]] stA by simp
    qed
    show "\<exists>es. laid_out es (ps_tlv (m\<lparr>ps_tlv := tlv\<rparr>))" if "\<exists>es. laid_out es (ps_tlv m)" using p(2) that by simp
    show "(\<Sum>a\<in>A. held x (st' a)) = (\<Sum>a\<in>A. held x (st a))" if "x \<noteq> ?k" for x
      using held [of x] harvest_loop_other [OF loop that] by simp
    have "(\<Sum>a\<in>A. withheld_of ?k st1 a) = 0" using h by (simp add: A_def)
    moreover have "(\<Sum>a\<in>A. withheld_of ?k st a) = withheld_sum ?k st infos"
      unfolding withheld_sum_def
    proof (rule changed_sum)
      show "withheld_of ?k st a = 0" if "a \<in> ?K" "a \<notin> A" for a
        using that h by (auto simp: A_def withheld_of_def split: if_splits)
    qed (auto simp: A_def)
    ultimately show "(\<Sum>a\<in>A. held ?k (st' a)) + mint_fees (ps_tlv (m\<lparr>ps_tlv := tlv\<rparr>)) + unat (m_supply (ps_base m)) =
      (\<Sum>a\<in>A. held ?k (st a)) + mint_fees (ps_tlv m) + unat (m_supply (ps_base (m\<lparr>ps_tlv := tlv\<rparr>)))"
      using held [of ?k] h p(1) m(2) by (simp add: mint_fees_def)
  qed
qed

lemma withdraw_loop_other:
  "try_for_each (withdraw_step mint k) infos (d, st) = Inr (d', st') \<Longrightarrow> m \<noteq> mint \<Longrightarrow> withheld_of m st' = withheld_of m st"
proof (induction infos arbitrary: d st)
  case (Cons i infos)
  then obtain d1 st1 where s1: "withdraw_step mint k i (d, st) = Inr (d1, st1)"
    and rest: "try_for_each (withdraw_step mint k) infos (d1, st1) = Inr (d', st')"
    by (auto simp: result_simps)
  have "withheld_of m st1 = withheld_of m st"
    using s1 Cons.prems(2)
    by (auto simp: withdraw_step_def Let_def result_simps dest: harvest_from_other split: sum.splits if_splits)
  with Cons.IH [OF rest Cons.prems(2)] show ?case by simp
qed simp

lemma withdraw_from_accounts_books:
  assumes run: "process_withdraw_withheld_tokens_from_accounts P program_id accounts n st = Inr st'" and bk: "books P h st"
  shows "books P h st'"
proof -
  obtain mint_info dest auth signers infos c d d' st1 where own: "info_owner st dest = TOKEN_2022_ID"
    and d: "withdraw_destination P program_id mint_info dest auth signers c st = Inr d"
    and loop: "try_for_each (withdraw_step (ai_key mint_info) (ai_key dest)) infos (d, st) = Inr (d', st1)"
    and st': "st' = set_data (ai_key dest) (state_bytes account_base d') st1"
    using run by (auto simp: process_withdraw_withheld_tokens_from_accounts_def result_simps Let_def)
  let ?m = "ai_key mint_info" and ?k = "ai_key dest" and ?K = "ai_key ` set infos"
  define A where "A = {a \<in> ?K. st1 a \<noteq> st a}"
  note w = withdraw_destination_Inr [OF d]
  have ud: "state_bytes account_base d = ac_data (st ?k)"
    using account_st.unpack_bytes [OF w(1)] by (simp add: info_data_def)
  then have mem: "with_destination ?k (d, st) = st"
    by (simp add: with_destination_def set_data_def)
  have "unpack account_base (state_bytes account_base d) = Inr d"
    using w(1) ud by (simp add: info_data_def)
  note l = withdraw_loop [OF loop this w(2) own [unfolded info_owner_def], unfolded mem]
  have st'_eq: "with_destination ?k (d', st1) = st'" by (simp add: with_destination_def st')
  have col: "collected d d'" and ft: "fee_taken (st a) (st1 a)" and u: "unpack account_base (ac_data (st' ?k)) = Inr d'"
    and amt: "unat (a_amount (ps_base d')) = unat (a_amount (ps_base d)) + withheld_sum ?m st infos" for a
    using l by (simp_all add: fees_taken_def st')
  have wo: "withheld_of ?m st' a = (if a \<in> ?K then 0 else withheld_of ?m st a)" for a
    using l st'_eq by simp
  have kA: "?k \<notin> A" and fin: "finite A" using l by (auto simp: A_def)
  have stA: "st' a = st1 a" if "a \<noteq> ?k" for a using that by (simp add: st' set_data_other)
  have same: "st' a = st a" if "a \<notin> insert ?k A" for a
    using that l stA [of a] by (cases "a \<in> ?K") (auto simp: A_def)
  have o: "ac_owner (st ?k) = TOKEN_2022_ID" "ac_owner (st' ?k) = TOKEN_2022_ID"
    using own l by (simp_all add: st' info_owner_def)
  obtain x t where d': "d' = d\<lparr>ps_base := (ps_base d)\<lparr>a_amount := x\<rparr>, ps_tlv := t\<rparr>"
    "same_except {TransferFeeAmount} (ps_tlv d) t"
    using col by (auto simp: collected_def)
  note ch = account_change [OF w(1) [unfolded info_data_def] u o sound_storeD [OF bk]]
  have c1: "token_entry (st ?k) \<and> token_entry (st' ?k) \<and> sound P (st' ?k)"
    and c2: "held y (st' ?k) + (if ?m = y then holding d else 0) = held y (st ?k) + (if ?m = y then holding d' else 0)" for y
    using ch(1) ch(2) [of y] w(2) d'(1) same_except_laid_out [OF d'(2)] by (simp_all add: is_native_def)
  have held: "(\<Sum>a\<in>A. held y (st' a)) + (\<Sum>a\<in>A. withheld_of y st a) =
      (\<Sum>a\<in>A. held y (st a)) + (\<Sum>a\<in>A. withheld_of y st1 a)" for y
  proof -
    have "(\<Sum>a\<in>A. held y (st' a)) = (\<Sum>a\<in>A. held y (st1 a))"
      by (intro sum.cong refl arg_cong [of _ _ "held y"]) (metis kA stA)
    with harvest_held [of A st st1 P y] ft sound_storeD [OF bk] show ?thesis by simp
  qed
  have wk: "withheld_of ?m st ?k = withheld (ps_tlv d)" "withheld_of ?m st' ?k = withheld (ps_tlv d')"
    using w(1,2) u o d'(1) by (simp_all add: withheld_of_def info_data_def)
  have zero: "(\<Sum>a\<in>A. withheld_of ?m st1 a) = 0"
  proof (intro sum.neutral ballI)
    fix a assume a: "a \<in> A"
    then have "a \<noteq> ?k" using kA by metis
    then have "withheld_of ?m st1 a = withheld_of ?m st' a" using stA by (simp add: withheld_of_def)
    with wo [of a] a show "withheld_of ?m st1 a = 0" by (simp add: A_def)
  qed
  have unchanged: "withheld_of ?m st a = 0" if "a \<in> ?K" "a \<notin> insert ?k A" for a
    using wo [of a] that(1) withheld_of_cong [of st' a st ?m] same [OF that(2)] by simp
  have wsum: "withheld_sum ?m st infos + withheld (ps_tlv d') = (\<Sum>a\<in>A. withheld_of ?m st a) + withheld (ps_tlv d)"
  proof (cases "?k \<in> ?K")
    case True
    have "(\<Sum>a\<in>insert ?k A. withheld_of ?m st a) = (\<Sum>a\<in>?K. withheld_of ?m st a)"
      by (rule changed_sum) (use True unchanged in \<open>auto simp: A_def\<close>)
    then show ?thesis using True wo [of ?k] wk fin kA by (simp add: withheld_sum_def)
  next
    case False
    have "(\<Sum>a\<in>A. withheld_of ?m st a) = (\<Sum>a\<in>?K. withheld_of ?m st a)"
    proof (rule changed_sum)
      show "withheld_of ?m st a = 0" if "a \<in> ?K" "a \<notin> A" for a
        using unchanged that False by (metis insert_iff)
    qed (auto simp: A_def)
    then show ?thesis using False wo [of ?k] wk by (simp add: withheld_sum_def)
  qed
  show ?thesis
  proof (rule books_accounts [OF bk, of "insert ?k A"])
    show "quiet P a (st a) (st' a)" if "a \<notin> insert ?k A" for a using same [OF that] by simp
    show "token_entry (st a) \<and> token_entry (st' a) \<and> sound P (st' a)" if "a \<in> insert ?k A" for a
    proof (cases "a = ?k")
      case False
      with that have "st1 a \<noteq> st a" by (simp add: A_def)
      with False show ?thesis using fee_taken_change(1) [OF ft _ sound_storeD [OF bk]] stA by simp
    qed (use c1 in simp)
    show "(\<Sum>a\<in>insert ?k A. held y (st' a)) = (\<Sum>a\<in>insert ?k A. held y (st a))" for y
    proof (cases "y = ?m")
      case True
      then show ?thesis
        using c2 [of ?m] held [of ?m] zero wsum amt kA fin by (simp add: holding_def)
    next
      case False
      then show ?thesis
        using c2 [of y] held [of y] withdraw_loop_other [OF loop False] kA fin by simp
    qed
  qed (use fin in simp)
qed

end
