(* ===== verification/Ledger_Confidential.thy ===== *)
theory Ledger_Confidential
  imports Ledger_Moves
begin

text \<open>
  The confidential instructions in the books. All but two are quiet: they touch encrypted balances,
  which no account shows. A deposit takes its amount out of what an account holds and into the ledger of
  net deposits, and a withdrawal brings it back.
\<close>

section \<open>Quiet instructions\<close>

lemmas confidential_puts =
  tlv_quiet_put [of AtAccount confidential_transfer_account_ext, simplified]
  tlv_quiet_put [of AtAccount confidential_transfer_fee_amount_ext, simplified]
  tlv_quiet_put [of AtMint confidential_transfer_mint_ext, simplified]
  tlv_quiet_put [of AtMint confidential_transfer_fee_config_ext, simplified]
  tlv_quiet_put [of AtMint confidential_mint_burn_ext, simplified]
  tlv_quiet_put [of AtAccount transfer_hook_account_ext, simplified]

lemma confidential_transfer_mint_quiet:
  "confidential_transfer_initialize_mint P accounts a b c st = Inr st' \<Longrightarrow> quiet_store P st st'"
  "process_initialize_confidential_transfer_fee_config P accounts a k st = Inr st' \<Longrightarrow> quiet_store P st st'"
  "confidential_mint_burn_initialize_mint P accounts k d st = Inr st' \<Longrightarrow> quiet_store P st st'"
  by (auto simp: confidential_transfer_initialize_mint_def process_initialize_confidential_transfer_fee_config_def
      confidential_mint_burn_initialize_mint_def result_simps
      elim!: confidential_transfer_mint_x.init_mint_extension_quiet
        confidential_transfer_fee_config_x.init_mint_extension_quiet confidential_mint_burn_x.init_mint_extension_quiet)

lemma confidential_update_mint_quiet:
  assumes "confidential_transfer_update_mint P accounts b k st = Inr st'"
  shows "quiet_store P st st'"
proof -
  from assms show ?thesis
    by (clarsimp simp: confidential_transfer_update_mint_def result_simps simp del: initialized_view_Inr)
      (erule quiet_mint_view, auto simp: result_simps dest!: unpack_mint_initialized confidential_puts intro!: calm_mint_tlv)
qed

lemma set_harvest_quiet:
  assumes "set_harvest_to_mint P program_id accounts b st = Inr st'"
  shows "quiet_store P st st'"
proof -
  from assms show ?thesis
    by (clarsimp simp: set_harvest_to_mint_def result_simps simp del: initialized_view_Inr)
      (erule quiet_mint_view, auto simp: result_simps dest!: unpack_mint_initialized confidential_puts intro!: calm_mint_tlv)
qed

lemma owner_updates_quiet:
  assumes "owner_updates_confidential_account P program_id i a signers check f st = Inr st'"
  shows "quiet_store P st st'"
proof -
  from assms show ?thesis
    by (clarsimp simp: owner_updates_confidential_account_def result_simps simp del: initialized_view_Inr)
      (erule quiet_account_view, auto simp: result_simps dest!: unpack_account_initialized confidential_puts intro!: calm_tlv)
qed

lemma owner_instructions_quiet:
  "process_empty_account Z P program_id accounts n st = Inr st' \<Longrightarrow> quiet_store P st st'"
  "process_apply_pending_balance Z P program_id accounts c d st = Inr st' \<Longrightarrow> quiet_store P st st'"
  "process_allow_confidential_credits P program_id accounts b st = Inr st' \<Longrightarrow> quiet_store P st st'"
  "process_allow_non_confidential_credits P program_id accounts b st = Inr st' \<Longrightarrow> quiet_store P st st'"
  by (auto simp: process_empty_account_def process_apply_pending_balance_def process_allow_confidential_credits_def
      process_allow_non_confidential_credits_def result_simps elim!: owner_updates_quiet)

lemma approve_account_quiet:
  assumes "process_approve_account P accounts st = Inr st'"
  shows "quiet_store P st st'"
proof -
  from assms show ?thesis
    by (clarsimp simp: process_approve_account_def result_simps simp del: initialized_view_Inr)
      (erule quiet_account_view, auto simp: result_simps dest!: unpack_account_initialized confidential_puts intro!: calm_tlv)
qed

subsection \<open>Configuring an account\<close>

lemma init_put_quiet:
  assumes "extension_contract V" and "init_extension AtAccount V ow tlv = Inr tlv1" and "put_extension AtAccount V v tlv1 = Inr tlv'"
    and "vx_type V \<noteq> TransferFeeAmount" "vx_type V \<noteq> TransferFeeConfig"
  shows "tlv_quiet tlv tlv'"
  using tlv_quiet_trans [OF extension_contract.tlv_quiet_init [OF assms(1,2) _ assms(4,5)] tlv_quiet_put [OF assms(3) _ assms(4,5)]]
  by simp

lemma configure_account_quiet:
  assumes "process_configure_account Z P program_id accounts d n src st = Inr st'"
  shows "quiet_store P st st'"
proof -
  note q = init_put_quiet [OF confidential_transfer_account_x.extension_contract_axioms]
    init_put_quiet [OF confidential_transfer_fee_amount_x.extension_contract_axioms]
  have both: "tlv_quiet tlv tlv4"
    if "init_extension AtAccount confidential_transfer_account_ext False tlv = Inr tlv1"
      "put_extension AtAccount confidential_transfer_account_ext v tlv1 = Inr tlv2"
      "init_extension AtAccount confidential_transfer_fee_amount_ext False tlv2 = Inr tlv3"
      "put_extension AtAccount confidential_transfer_fee_amount_ext w tlv3 = Inr tlv4" for tlv tlv1 tlv2 tlv3 tlv4 v w
    using q(1) [OF that(1,2)] q(2) [OF that(3,4)] by (auto intro: tlv_quiet_trans)
  from assms show ?thesis
    by (clarsimp simp: process_configure_account_def result_simps simp del: initialized_view_Inr)
      (erule quiet_account_view, auto simp: result_simps dest!: unpack_account_initialized intro!: calm_tlv
        intro: both q(1) split: if_splits)
qed

lemma registry_reallocate_Inr:
  assumes run: "reallocate_for_configure_account_with_registry P tok payer st = Inr st'" and ne: "st' \<noteq> st"
  defines "k \<equiv> ai_key tok"
  obtains s len data1 n st2 data2 where
    "unpack account_base (ac_data (st k)) = Inr s" "\<not> len \<le> length (ac_data (st k))"
    "pl_resize P (ac_data (st k)) len = Inr data1"
    "(if n > 0 then pl_system_transfer P payer tok n (set_data k data1 st) else Inr (set_data k data1 st)) = Inr st2"
    "set_account_type account_base (ac_data (st2 k)) = Inr data2" "st' = set_data k data2 st2"
proof -
  obtain p where "unpack_ref account_base (ac_data (st k)) = Inr p"
    using run by (auto simp: k_def reallocate_for_configure_account_with_registry_def Let_def result_simps(1) info_data_def)
  then obtain s where s: "unpack account_base (ac_data (st k)) = Inr s"
    by (auto simp: account_st.unpack_ref_eq result_simps)
  obtain len where body: "(if len \<le> length (ac_data (st k)) then Inr st
      else bindr (pl_resize P (ac_data (st k)) len) (\<lambda>data1.
        bindr (pl_rent_get P) (\<lambda>rent.
        bindr (if 0 < saturating_sub (rent_minimum_balance rent len) (ac_lamports (set_data k data1 st k))
               then pl_system_transfer P payer tok
                 (saturating_sub (rent_minimum_balance rent len) (ac_lamports (set_data k data1 st k))) (set_data k data1 st)
               else Inr (set_data k data1 st)) (\<lambda>st2.
        bindr (set_account_type account_base (ac_data (st2 k))) (\<lambda>data2. Inr (set_data k data2 st2)))))) = Inr st'"
    using run unfolding reallocate_for_configure_account_with_registry_def Let_def info_data_def bindr_eq_Inr case_prod_beta k_def
    by blast
  with ne have long: "\<not> len \<le> length (ac_data (st k))" by (cases "len \<le> length (ac_data (st k))") simp_all
  with body s show thesis
    using that unfolding if_not_P [OF long] bindr_eq_Inr sum.inject by blast
qed

lemma set_account_type_zeros: "set_account_type account_base (replicate n 0) \<noteq> Inr d"
  by (auto simp: set_account_type_def is_initialized_account_def result_simps Let_def check_min_len_and_not_multisig_def
      take_replicate size_numerals split: if_splits)

text \<open>
  The owner of the account is only checked once it has been reallocated; an account that then turns out
  to be the program's was so before, because an account handed over has zeroed data.
\<close>

lemma registry_reallocate_quiet:
  assumes run: "reallocate_for_configure_account_with_registry P tok payer st = Inr st'"
    and own: "info_owner st' tok = TOKEN_2022_ID"
    and laws: "resize_laws P" "system_laws P" "bool_laws P"
  shows "quiet_store P st st'"
proof (cases "st' = st")
  case False
  let ?k = "ai_key tok" and ?c = "st (ai_key tok)"
  obtain s len data1 n st2 data2 where s: "unpack account_base (ac_data ?c) = Inr s"
    and long: "\<not> len \<le> length (ac_data ?c)"
    and r: "pl_resize P (ac_data ?c) len = Inr data1"
    and st2: "(if n > 0 then pl_system_transfer P payer tok n (set_data ?k data1 st) else Inr (set_data ?k data1 st)) = Inr st2"
    and d2: "set_account_type account_base (ac_data (st2 ?k)) = Inr data2" and st': "st' = set_data ?k data2 st2"
    using run False by (rule registry_reallocate_Inr)
  have f2: "token_frame {} (set_data ?k data1 st) st2"
    using st2 system_calls_frame(1) [OF laws(2)] by (auto split: if_splits)
  have grow: "data1 = ac_data ?c @ replicate (len - length (ac_data ?c)) 0"
    using laws(1) [unfolded resize_laws_def, rule_format, OF r] long by simp
  have own0: "ac_owner ?c = TOKEN_2022_ID"
  proof (rule ccontr)
    assume "ac_owner ?c \<noteq> TOKEN_2022_ID"
    moreover have "ac_owner (st2 ?k) = TOKEN_2022_ID" using own by (simp add: st' info_owner_def)
    ultimately have "ac_data (st2 ?k) = replicate (length (ac_data (st2 ?k))) 0"
      using f2 by (simp add: token_frame_def)
    with d2 set_account_type_zeros show False by metis
  qed
  have k2: "ac_owner (st2 ?k) = TOKEN_2022_ID" "ac_data (st2 ?k) = data1"
    using token_frameD(2,3) [OF f2, of ?k] own0 by simp_all
  have "set_account_type account_base (ac_data ?c @ replicate (len - length (ac_data ?c)) 0) = Inr data2"
    using d2 by (simp only: k2(2) grow)
  moreover have "length (ac_data ?c) < len" using long by simp
  ultimately obtain z where s2: "unpack account_base data2 = Inr (s\<lparr>ps_account_type := [2], ps_tlv := ps_tlv s @ replicate z 0\<rparr>)"
    using grow_account [OF s] by metis
  have "quiet P ?k (st ?k) (st' ?k)"
    using own0 k2(1) s2
    by (intro quiet_grown_account [OF s, where b = "ps_base s" and t = "[2]" and k = z]) (simp_all add: st')
  moreover have "quiet P a (st a) (st' a)" if "a \<noteq> ?k" for a
    using quiet_frame [OF f2, of a P a] that laws(3) by (simp add: st' set_data_other bool_laws_def)
  ultimately show ?thesis unfolding quiet_store_def by metis
qed simp

lemma case_next_account_info:
  "(case next_account_info it of Inl e \<Rightarrow> f e | Inr p \<Rightarrow> g p) =
    (case it of [] \<Rightarrow> f NotEnoughAccountKeys | i # rest \<Rightarrow> g (i, rest))"
  by (cases it) simp_all

lemma configure_with_registry_quiet:
  assumes run: "process_configure_account_with_registry Z P program_id accounts st = Inr st'"
    and laws: "resize_laws P" "system_laws P" "bool_laws P"
  shows "quiet_store P st st'"
proof -
  obtain tok rest registry st1 where acc: "accounts = tok # rest"
    and st1: "st1 = st \<or> (\<exists>payer. reallocate_for_configure_account_with_registry P tok payer st = Inr st1)"
    and conf: "process_configure_account Z P program_id accounts 0 DEFAULT_MAXIMUM_PENDING_BALANCE_CREDIT_COUNTER
       (FromElGamalRegistry registry) st1 = Inr st'"
    using run by (auto simp: process_configure_account_with_registry_def case_next_account_info result_simps neq_Nil_conv split: list.split_asm) blast
  have "info_owner st1 tok = TOKEN_2022_ID"
    using conf acc by (auto simp: process_configure_account_def result_simps)
  then have "quiet_store P st st1"
    using st1 registry_reallocate_quiet [OF _ _ laws] by auto
  with configure_account_quiet [OF conf] show ?thesis using quiet_store_trans by blast
qed

subsection \<open>Collecting encrypted fees\<close>

lemma quiet_write_both:
  assumes "unpack (mint_base P) (ac_data (st k)) = Inr m" "unpack account_base (ac_data (st a)) = Inr s" "a \<noteq> k"
    and "tlv_quiet (ps_tlv m) mt" "tlv_quiet (ps_tlv s) t"
  shows "quiet_store P st (set_data k (state_bytes (mint_base P) (m\<lparr>ps_tlv := mt\<rparr>))
           (set_data a (state_bytes account_base (s\<lparr>ps_tlv := t\<rparr>)) st))"
proof -
  have "quiet_store P st (set_data a (state_bytes account_base (s\<lparr>ps_tlv := t\<rparr>)) st)"
    using unpack_account_initialized [OF assms(2)] by (intro quiet_write_account [where st = st and k = a, OF assms(2)] calm_tlv assms(5)) simp
  moreover have "unpack (mint_base P) (ac_data (set_data a (state_bytes account_base (s\<lparr>ps_tlv := t\<rparr>)) st k)) = Inr m"
    using assms(1,3) by (simp add: set_data_other)
  then have "quiet_store P (set_data a (state_bytes account_base (s\<lparr>ps_tlv := t\<rparr>)) st)
      (set_data k (state_bytes (mint_base P) (m\<lparr>ps_tlv := mt\<rparr>)) (set_data a (state_bytes account_base (s\<lparr>ps_tlv := t\<rparr>)) st))"
    using unpack_mint_initialized [OF assms(1)] by (intro quiet_write_mint [where s = m] calm_mint_tlv assms(4)) simp_all
  ultimately show ?thesis by (rule quiet_store_trans)
qed

lemma confidential_withdraw_from_mint_quiet:
  assumes "confidential_withdraw_withheld_tokens_from_mint Z P program_id accounts d n st = Inr st'"
  shows "quiet_store P st st'"
proof -
  from assms show ?thesis
    by (clarsimp simp: confidential_withdraw_withheld_tokens_from_mint_def result_simps info_data_def)
      (intro quiet_write_both; (assumption | erule confidential_puts | (drule confidential_puts)+; simp)?)
qed

lemma confidential_harvest_from_account_quiet:
  assumes "confidential_harvest_from_account m i st = Inr (c, st')"
  shows "quiet_store P st st' \<and> (\<forall>k. k \<noteq> ai_key i \<longrightarrow> st' k = st k)"
proof -
  from assms show ?thesis
    by (clarsimp simp: confidential_harvest_from_account_def result_simps info_data_def set_data_other)
      (auto dest: confidential_puts unpack_account_initialized intro!: quiet_write_account calm_tlv)
qed

lemma confidential_harvest_loop:
  "try_for_each (confidential_harvest_step Z m) infos (c, st) = Inr (c', st') \<Longrightarrow> quiet_store P st st' \<and> st' m = st m"
proof (induction infos arbitrary: c st)
  case (Cons i infos)
  then obtain c1 st1 where s1: "confidential_harvest_step Z m i (c, st) = Inr (c1, st1)"
    and rest: "try_for_each (confidential_harvest_step Z m) infos (c1, st1) = Inr (c', st')"
    by (auto simp: result_simps)
  have "quiet_store P st st1 \<and> st1 m = st m"
    using s1 by (auto simp: confidential_harvest_step_def result_simps split: sum.splits
        dest: confidential_harvest_from_account_quiet [where P = P])
  with Cons.IH [OF rest] show ?case using quiet_store_trans by auto
qed simp

lemma confidential_harvest_quiet:
  assumes "confidential_harvest_withheld_tokens_to_mint Z P accounts st = Inr st'"
  shows "quiet_store P st st'"
proof -
  obtain k m c infos w st1 tlv where m: "unpack (mint_base P) (ac_data (st k)) = Inr m"
    and loop: "try_for_each (confidential_harvest_step Z k) infos (ctfc_withheld_amount c, st) = Inr (w, st1)"
    and put: "put_extension AtMint confidential_transfer_fee_config_ext (c\<lparr>ctfc_withheld_amount := w\<rparr>) (ps_tlv m) = Inr tlv"
    and st': "st' = set_data k (state_bytes (mint_base P) (m\<lparr>ps_tlv := tlv\<rparr>)) st1"
    using assms by (auto simp: confidential_harvest_withheld_tokens_to_mint_def result_simps info_data_def)
  note l = confidential_harvest_loop [OF loop, of P]
  have "unpack (mint_base P) (ac_data (st1 k)) = Inr m" using l m by simp
  then have "quiet_store P st1 st'"
    unfolding st' using confidential_puts(4) [OF put] unpack_mint_initialized [OF m] by (intro quiet_write_mint [where s = m] calm_mint_tlv) simp_all
  with l show ?thesis using quiet_store_trans by blast
qed

lemma confidential_withdraw_loop:
  "try_for_each (confidential_withdraw_step Z m k) infos (c, d, st) = Inr (c', d', st') \<Longrightarrow>
    quiet_store P st st' \<and> st' k = st k \<and> d' = d\<lparr>ps_tlv := ps_tlv d'\<rparr> \<and> tlv_quiet (ps_tlv d) (ps_tlv d')"
proof (induction infos arbitrary: c d st)
  case (Cons i infos)
  then obtain c1 d1 st1 where s1: "confidential_withdraw_step Z m k i (c, d, st) = Inr (c1, d1, st1)"
    and rest: "try_for_each (confidential_withdraw_step Z m k) infos (c1, d1, st1) = Inr (c', d', st')"
    by (auto simp: result_simps)
  have "quiet_store P st st1 \<and> st1 k = st k \<and> d1 = d\<lparr>ps_tlv := ps_tlv d1\<rparr> \<and> tlv_quiet (ps_tlv d) (ps_tlv d1)"
    using s1 confidential_harvest_from_account_quiet [where P = P]
    by (auto simp: confidential_withdraw_step_def result_simps dest: confidential_puts(2) split: sum.splits if_splits)
  moreover note Cons.IH [OF rest]
  moreover from calculation have "d' = d\<lparr>ps_tlv := ps_tlv d'\<rparr>" by (cases d; cases d1; cases d') simp
  ultimately show ?case using quiet_store_trans tlv_quiet_trans by metis
qed simp

lemma confidential_withdraw_from_accounts_quiet:
  assumes "confidential_withdraw_withheld_tokens_from_accounts Z P program_id accounts n d o' st = Inr st'"
  shows "quiet_store P st st'"
proof -
  obtain m k infos s c s' st1 v tlv where s: "unpack account_base (ac_data (st k)) = Inr s"
    and loop: "try_for_each (confidential_withdraw_step Z m k) infos (0, s, st) = Inr (c, s', st1)"
    and put: "put_extension AtAccount confidential_transfer_account_ext v (ps_tlv s') = Inr tlv"
    and st': "st' = set_data k (state_bytes account_base (s'\<lparr>ps_tlv := tlv\<rparr>)) st1"
  proof -
    from assms show thesis
      by (clarsimp simp: confidential_withdraw_withheld_tokens_from_accounts_def Let_def result_simps info_data_def)
        (rule that; (assumption | rule refl | simp))
  qed
  note l = confidential_withdraw_loop [OF loop, of P]
  have q: "tlv_quiet (ps_tlv s) tlv" using confidential_puts(1) [OF put] l by (auto intro: tlv_quiet_trans)
  have s': "s'\<lparr>ps_tlv := tlv\<rparr> = s\<lparr>ps_tlv := tlv\<rparr>" using l by (cases s; cases s') simp
  have "quiet_store P st1 st'"
    unfolding st' s' using l s unpack_account_initialized [OF s]
    by (intro quiet_write_account [where s = s] calm_tlv q) simp_all
  with l show ?thesis using quiet_store_trans by blast
qed

subsection \<open>Encrypted supplies\<close>

lemma confidential_supply_quiet:
  "process_rotate_supply_elgamal_pubkey Z P program_id accounts n st = Inr st' \<Longrightarrow> quiet_store P st st'"
  "process_update_decryptable_supply P program_id accounts d st = Inr st' \<Longrightarrow> quiet_store P st st'"
  "process_apply_pending_burn Z P program_id accounts st = Inr st' \<Longrightarrow> quiet_store P st st'"
  by (clarsimp simp: process_rotate_supply_elgamal_pubkey_def process_update_decryptable_supply_def
        process_apply_pending_burn_def result_simps simp del: initialized_view_Inr coption_simps,
      erule quiet_mint_view,
      auto simp: result_simps dest!: unpack_mint_initialized confidential_puts intro!: calm_mint_tlv)+

lemma confidential_mint_quiet:
  assumes "process_confidential_mint Z P program_id accounts d lo hi n1 n2 n3 st = Inr st'"
  shows "quiet_store P st st'"
proof -
  obtain k m a s e tlv c mtlv where m: "unpack (mint_base P) (ac_data (st k)) = Inr m"
    and s: "unpack account_base (ac_data (st a)) = Inr s" and ne: "a \<noteq> k"
    and put: "put_extension AtAccount confidential_transfer_account_ext e (ps_tlv s) = Inr tlv"
      "put_extension AtMint confidential_mint_burn_ext c (ps_tlv m) = Inr mtlv"
    and st': "st' = set_data k (state_bytes (mint_base P) (m\<lparr>ps_tlv := mtlv\<rparr>))
      (set_data a (state_bytes account_base (s\<lparr>ps_tlv := tlv\<rparr>)) st)"
  proof -
    from assms show thesis
      by (clarsimp simp: process_confidential_mint_def result_simps info_data_def simp del: coption_simps)
        (rule that; (assumption | rule refl | simp))
  qed
  show ?thesis
    unfolding st' using confidential_puts(1) [OF put(1)] confidential_puts(5) [OF put(2)] by (intro quiet_write_both m s ne)
qed

lemma confidential_burn_quiet:
  assumes "process_confidential_burn Z P program_id accounts d lo hi n1 n2 n3 v st = Inr st'"
  shows "quiet_store P st st'"
proof -
  obtain k m a s e tlv c mtlv where m: "unpack (mint_base P) (ac_data (st k)) = Inr m"
    and s: "unpack account_base (ac_data (st a)) = Inr s" and ne: "a \<noteq> k"
    and put: "put_extension AtAccount confidential_transfer_account_ext e (ps_tlv s) = Inr tlv"
      "put_extension AtMint confidential_mint_burn_ext c (ps_tlv m) = Inr mtlv"
    and st': "st' = set_data k (state_bytes (mint_base P) (m\<lparr>ps_tlv := mtlv\<rparr>))
      (set_data a (state_bytes account_base (s\<lparr>ps_tlv := tlv\<rparr>)) st)"
  proof -
    from assms show thesis
      by (clarsimp simp: process_confidential_burn_def result_simps info_data_def simp del: coption_simps)
        (rule that; (assumption | rule refl | simp))
  qed
  show ?thesis
    unfolding st' using confidential_puts(1) [OF put(1)] confidential_puts(5) [OF put(2)] by (intro quiet_write_both m s ne)
qed

subsection \<open>Encrypted transfers\<close>

lemma debit_source_quiet:
  assumes "debit_confidential_source Z P program_id src m auth signers k lo hi c d st = Inr st'"
  shows "quiet_store P st st'"
proof -
  from assms show ?thesis
    by (clarsimp simp: debit_confidential_source_def result_simps simp del: initialized_view_Inr)
      (erule quiet_account_view, auto simp: result_simps dest!: unpack_account_initialized confidential_puts intro!: calm_tlv)
qed

lemma withhold_fee_quiet: "withhold_confidential_fee Z c e tlv = Inr tlv' \<Longrightarrow> tlv_quiet tlv tlv'"
  by (auto simp: withhold_confidential_fee_def result_simps dest!: confidential_puts intro: tlv_quiet_trans)

lemma credit_destination_quiet:
  assumes "credit_confidential_destination Z P dst m k lo hi fee st = Inr st'"
    and "\<And>e tlv tlv'. fee e tlv = Inr tlv' \<Longrightarrow> tlv_quiet tlv tlv'"
  shows "quiet_store P st st'"
proof -
  from assms(1) show ?thesis
    by (clarsimp simp: credit_confidential_destination_def result_simps simp del: initialized_view_Inr)
      (erule quiet_account_view, auto simp: result_simps dest!: unpack_account_initialized assms(2) intro!: calm_tlv)
qed

lemma transferring_quiet:
  "initialized_view account_base k (on_tlv (set_transferring P)) st = Inr st' \<Longrightarrow> quiet_store P st st'"
  "unset_transferring P k st = Inr st' \<Longrightarrow> quiet_store P st st'"
  by (auto simp: unset_transferring_def set_transferring_def clear_transferring_def result_simps on_tlv_Inr
      simp del: initialized_view_Inr dest!: unpack_account_initialized confidential_puts
      intro!: calm_tlv elim!: quiet_account_view)

lemma confidential_hook_quiet:
  assumes "invoke_confidential_hook P hook src m dst auth signers st = Inr st'" and laws: "hook_laws P" "bool_laws P"
  shows "quiet_store P st st'"
proof (cases hook)
  case (Some k)
  with assms(1) obtain st1 st2 st3 st4 where
    "initialized_view account_base (ai_key src) (on_tlv (set_transferring P)) st = Inr st1"
    "initialized_view account_base (ai_key dst) (on_tlv (set_transferring P)) st1 = Inr st2"
    and run: "pl_transfer_hook_execute P k src m dst auth signers (- 1) st2 = Inr st3"
    and "unset_transferring P (ai_key src) st3 = Inr st4" "unset_transferring P (ai_key dst) st4 = Inr st'"
    by (auto simp: invoke_confidential_hook_def result_simps(1) simp del: initialized_view_Inr)
  moreover have "token_frame {} st2 st3"
    using run laws(1) token_frame_cpi unfolding hook_laws_def by blast
  then have "quiet_store P st2 st3" using laws(2) by (simp add: quiet_store_frame bool_laws_def)
  ultimately show ?thesis using transferring_quiet quiet_store_trans by meson
qed (use assms(1) in \<open>simp add: invoke_confidential_hook_def\<close>)

lemma confidential_transfer_quiet:
  assumes run: "confidential_process_transfer Z P program_id accounts d lo hi n1 n2 n3 n4 n5 st = Inr st'"
    and laws: "hook_laws P" "bool_laws P"
  shows "quiet_store P st st'"
proof -
  obtain src em dst auth signers k k' tlo thi new fee hook st1 st2 where
    fee: "fee = put_extension AtAccount confidential_transfer_account_ext \<or>
       ai_key src \<noteq> ai_key dst \<and> (\<exists>c. fee = withhold_confidential_fee Z c)"
    and s1: "debit_confidential_source Z P program_id src em auth signers k tlo thi new d st = Inr st1"
    and s2: "credit_confidential_destination Z P dst em k' tlo thi fee st1 = Inr st2"
    and h: "invoke_confidential_hook P hook src em dst auth signers st2 = Inr st'"
    using run by (rule confidential_transfer_Inr)
  have "quiet_store P st1 st2"
    using s2 by (rule credit_destination_quiet) (use fee confidential_puts(1) withhold_fee_quiet in blast)
  with debit_source_quiet [OF s1] confidential_hook_quiet [OF h laws] show ?thesis
    using quiet_store_trans by blast
qed

section \<open>Deposits and withdrawals\<close>

lemma books_exchange:
  assumes bk: "books P h st" and s: "unpack account_base (ac_data (st k)) = Inr s" and own: "ac_owner (st k) = TOKEN_2022_ID"
    and b: "a_mint b = a_mint (ps_base s)" "is_native b = is_native (ps_base s)" "pod_account_is_initialized b"
    and tlv: "tlv_quiet (ps_tlv s) tlv"
    and d: "int (unat (a_amount b)) + d = int (unat (a_amount (ps_base s)))"
    and st': "st' = set_data k (state_bytes account_base (s\<lparr>ps_base := b, ps_tlv := tlv\<rparr>)) st"
  shows "books P (\<lambda>m. h m + (if m = a_mint (ps_base s) then d else 0)) st'"
proof (rule books_shift [OF bk, of "{k}"])
  let ?s = "s\<lparr>ps_base := b, ps_tlv := tlv\<rparr>"
  have u: "unpack account_base (ac_data (st' k)) = Inr ?s"
    using account_st.unpack_update [OF s, of b tlv] b(3) tlv by (simp add: st' tlv_quiet_def)
  have own': "ac_owner (st' k) = TOKEN_2022_ID" by (simp add: st' own)
  have lay: "\<exists>es. laid_out es (ps_tlv s) \<Longrightarrow> \<exists>es. laid_out es (ps_tlv ?s)" using tlv by (simp add: tlv_quiet_def)
  note c = account_change [OF s u own own' sound_storeD [OF bk] _ _ lay]
  have snd: "sound P (st' k)" using c(1) b by simp
  have w: "withheld (ps_tlv ?s) = withheld (ps_tlv s)"
    using tlv sound_storeD [OF bk, of k] own sound_account [OF s] by (simp add: sound_def tlv_quiet_def)
  have hold: "int (holding ?s) + d = int (holding s)" using d w by (simp add: holding_def)
  show "sound P (st' a)" if "a \<in> {k}" for a using that snd by simp
  show "quiet P a (st a) (st' a)" if "a \<notin> {k}" for a using that by (simp add: st' set_data_other)
  show "int ((\<Sum>a\<in>{k}. held m (st' a)) + pooled P (st' m) + issued P (st m)) +
      (h m + (if m = a_mint (ps_base s) then d else 0)) =
    int ((\<Sum>a\<in>{k}. held m (st a)) + pooled P (st m) + issued P (st' m)) + h m" for m
  proof -
    have "pooled P (st' m) = pooled P (st m) \<and> issued P (st' m) = issued P (st m)"
      using account_entries(2,3) [OF s own, of P] account_entries(2,3) [OF u own', of P]
      by (cases "m = k") (simp_all add: st' set_data_other)
    then show ?thesis using c(2) [of m] b hold by (auto split: if_splits)
  qed
qed simp

lemma deposit_books:
  assumes "process_deposit Z P program_id accounts amount decimals st = Inr st'" and bk: "books P h st"
  shows "books P (\<lambda>k. h k + (if k = ai_key (accounts ! 1) then int (unat amount) else 0)) st'"
  using assms(1)
proof (rule deposit_Inr)
  fix i m auth signers s e e' lo hi new tlv
  assume acc: "accounts = i # m # auth # signers" and s: "unpack account_base (ac_data (st (ai_key i))) = Inr s"
    and own: "ac_owner (st (ai_key i)) = TOKEN_2022_ID"
    and c: "check_public_account P program_id m auth signers s st = Inr ()"
    and new: "checked_sub (a_amount (ps_base s)) amount = Some new"
    and put: "put_extension AtAccount confidential_transfer_account_ext e' (ps_tlv s) = Inr tlv"
    and st': "st' = set_data (ai_key i) (state_bytes account_base
       (s\<lparr>ps_base := (ps_base s)\<lparr>a_amount := new\<rparr>, ps_tlv := tlv\<rparr>)) st"
  note c = check_public_account_Inr [OF c]
  have "int (unat new) + int (unat amount) = int (unat (a_amount (ps_base s)))"
    using checked_sub_SomeD [OF new] by simp
  then show ?thesis
    using books_exchange [OF bk s own _ _ _ confidential_puts(1) [OF put] _ st', of "int (unat amount)"] c(1)
      unpack_account_initialized [OF s] by (simp add: acc is_native_def)
qed

lemma withdraw_books:
  assumes "process_withdraw Z P program_id accounts amount decimals d n1 n2 st = Inr st'" and bk: "books P h st"
  shows "books P (\<lambda>k. h k + (if k = ai_key (accounts ! 1) then - int (unat amount) else 0)) st'"
  using assms(1)
proof (rule withdraw_Inr)
  fix i m it s e c auth signers v new tlv
  assume acc: "accounts = i # m # it" and s: "unpack account_base (ac_data (st (ai_key i))) = Inr s"
    and own: "ac_owner (st (ai_key i)) = TOKEN_2022_ID"
    and c: "check_public_account P program_id m auth signers s st = Inr ()"
    and put: "put_extension AtAccount confidential_transfer_account_ext
       (e\<lparr>cta_available_balance := v, cta_decryptable_available_balance := d\<rparr>) (ps_tlv s) = Inr tlv"
    and new: "checked_add (a_amount (ps_base s)) amount = Some new"
    and st': "st' = set_data (ai_key i) (state_bytes account_base
       (s\<lparr>ps_base := (ps_base s)\<lparr>a_amount := new\<rparr>, ps_tlv := tlv\<rparr>)) st"
  note c = check_public_account_Inr [OF c]
  have "int (unat new) + - int (unat amount) = int (unat (a_amount (ps_base s)))"
    using checked_add_SomeD [OF new] by simp
  then show ?thesis
    using books_exchange [OF bk s own _ _ _ confidential_puts(1) [OF put] _ st', of "- int (unat amount)"] c(1)
      unpack_account_initialized [OF s] by (simp add: acc is_native_def)
qed

end
