(* ===== verification/Ledger_Interfaces.thy ===== *)
theory Ledger_Interfaces
  imports Ledger_Confidential
begin

text \<open>
  The token-group and token-metadata instructions in the books: all are quiet. They grow or shrink the
  account of a mint and rewrite its extension buffer, but no supply and no fee.
\<close>

section \<open>Mints written by the interfaces\<close>

text \<open>
  A mint whose data are written anew: it is enough that a buffer laid out as a map is laid out
  afterwards, with the same transfer-fee extension; nothing is claimed of other buffers.
\<close>

lemma quiet_rewritten_mint:
  assumes m: "unpack (mint_base P) (ac_data (st k)) = Inr m" and st': "st' = set_data k d st"
    and written: "\<And>es. laid_out es (ps_tlv m) \<Longrightarrow> \<exists>m' es'. unpack (mint_base P) d = Inr m' \<and> ps_base m' = ps_base m \<and>
      laid_out es' (ps_tlv m') \<and> map_of es' TransferFeeConfig = map_of es TransferFeeConfig"
  shows "quiet_store P st st'"
  unfolding st'
proof (rule quiet_store_set_data)
  let ?c' = "(st k)\<lparr>ac_data := d\<rparr>"
  show "quiet P k (st k) ?c'"
  proof (cases "\<exists>es. laid_out es (ps_tlv m)")
    case True
    then obtain es where es: "laid_out es (ps_tlv m)" ..
    from written [OF es] obtain m' es' where m': "unpack (mint_base P) d = Inr m'" "ps_base m' = ps_base m"
      "laid_out es' (ps_tlv m')" "map_of es' TransferFeeConfig = map_of es TransferFeeConfig" by blast
    show ?thesis
      using m' laid_out_same_fees(2) [OF es m'(3,4)]
      by (intro quiet_mint [OF m, where s' = m']) auto
  next
    case False
    show ?thesis
    proof (cases "ac_owner (st k) = TOKEN_2022_ID")
      case True
      with False show ?thesis by (simp add: quiet_def sound_def sound_mint [OF m])
    next
      case other: False
      with no_entries [of "st k" P] no_entries [of ?c' P] show ?thesis by (simp add: quiet_def sound_def)
    qed
  qed
qed

lemma quiet_extended_mint:
  assumes "unpack (mint_base P) (ac_data (st k)) = Inr m" and "mint_extended P V v m m'" and "vx_type V \<noteq> TransferFeeConfig"
    and "st' = set_data k (state_bytes (mint_base P) m') st"
  shows "quiet_store P st st'"
proof (rule quiet_rewritten_mint [OF assms(1,4)])
  fix es assume es: "laid_out es (ps_tlv m)"
  then show "\<exists>m1 es'. unpack (mint_base P) (state_bytes (mint_base P) m') = Inr m1 \<and> ps_base m1 = ps_base m \<and>
      laid_out es' (ps_tlv m1) \<and> map_of es' TransferFeeConfig = map_of es TransferFeeConfig"
    using assms(2,3)
    by (intro exI [of _ m'] exI [of _ "AList.update (vx_type V) (vx_to_bytes V v) es"]) (simp add: mint_extended_def update_conv')
qed

lemma alloc_and_serialize_quiet:
  assumes "alloc_and_serialize P (mint_base P) V v ow i st = Inr st'" and "resize_laws P" "extension_contract V"
    and "vx_type V \<noteq> TransferFeeConfig"
  shows "quiet_store P st st'"
proof -
  obtain m m' where "unpack (mint_base P) (info_data st i) = Inr m" "mint_extended P V v m m'"
    "st' = set_data (ai_key i) (state_bytes (mint_base P) m') st"
    by (rule alloc_and_serialize_mint [OF assms(1-3)]) blast
  then show ?thesis using assms(4) by (intro quiet_extended_mint) (simp_all add: info_data_def)
qed

lemma write_metadata_quiet:
  assumes run: "alloc_and_serialize_variable_len_extension P (mint_base P) (token_metadata_ext T) t ow i st = Inr st'"
    and laws: "resize_laws P" "metadata_laws T"
  shows "quiet_store P st st'"
proof -
  obtain m d where m: "unpack (mint_base P) (ac_data (st (ai_key i))) = Inr m" and d: "st' = set_data (ai_key i) d st"
    using run
    by (auto simp: alloc_and_serialize_variable_len_extension_def mint_st.unpack_ref_eq Let_def result_simps info_data_def
        split: if_splits)
  show ?thesis
  proof (rule quiet_rewritten_mint [OF m d])
    fix es assume es: "laid_out es (ps_tlv m)"
    obtain m' where m': "describes P T t es m m'" "st' = set_data (ai_key i) (state_bytes (mint_base P) m') st"
      by (rule write_metadata [OF run laws m [folded info_data_def] es]) blast
    then have "d = state_bytes (mint_base P) m'"
      using arg_cong [OF trans [OF sym [OF d] m'(2)], of "\<lambda>st. ac_data (st (ai_key i))"] by (simp add: set_data_def)
    with m'(1) show "\<exists>m1 es'. unpack (mint_base P) d = Inr m1 \<and> ps_base m1 = ps_base m \<and>
        laid_out es' (ps_tlv m1) \<and> map_of es' TransferFeeConfig = map_of es TransferFeeConfig"
      by (auto simp: describes_def update_conv' intro!: exI [of _ m'])
  qed
qed

section \<open>The processors\<close>

lemma token_group_quiet:
  assumes run: "token_group_process_instruction G P accounts i st = Inr st'" and laws: "resize_laws P" "group_laws P G"
  shows "quiet_store P st st'"
proof -
  note G = laws(2) [unfolded group_laws_def]
  have update: "quiet_store P st st'" if upd: "update_group G P accounts f st = Inr st'" for f
  proof -
    obtain gi m g' tlv where "unpack (mint_base P) (info_data st gi) = Inr m"
      "put_extension AtMint (token_group_ext P G) g' (ps_tlv m) = Inr tlv"
      "st' = set_data (ai_key gi) (state_bytes (mint_base P) (m\<lparr>ps_tlv := tlv\<rparr>)) st"
      by (rule update_group_Inr [OF upd]) blast
    then show ?thesis
      by (intro quiet_extended_mint [OF _ put_mint_extended [OF _ _ conjunct1 [OF G]]]) (simp_all add: info_data_def)
  qed
  show ?thesis
  proof (cases i)
    case (InitializeGroup a n)
    then show ?thesis
      using run alloc_and_serialize_quiet [OF _ laws(1) conjunct1 [OF G]]
      by (auto simp: token_group_process_instruction_def process_initialize_group_def Let_def result_simps)
  next
    case InitializeMember
    then have "process_initialize_member G P accounts st = Inr st'"
      using run by (simp add: token_group_process_instruction_def)
    then obtain mm :: account_info and gi m n g' tlv mi where m: "unpack (mint_base P) (info_data st gi) = Inr m"
      "put_extension AtMint (token_group_ext P G) g' (ps_tlv m) = Inr tlv"
      "alloc_and_serialize P (mint_base P) (token_group_member_ext P G) (gi_member_new G (ai_key mm) (ai_key gi) n) False mi
         (set_data (ai_key gi) (state_bytes (mint_base P) (m\<lparr>ps_tlv := tlv\<rparr>)) st) = Inr st'"
      by (rule initialize_member_Inr) (rule that; assumption)
    then have "quiet_store P st (set_data (ai_key gi) (state_bytes (mint_base P) (m\<lparr>ps_tlv := tlv\<rparr>)) st)"
      by (intro quiet_extended_mint [OF _ put_mint_extended [OF _ _ conjunct1 [OF G]]]) (simp_all add: info_data_def)
    then show ?thesis
      using alloc_and_serialize_quiet [OF m(3) laws(1) conjunct2 [OF G]] by (auto intro: quiet_store_trans)
  qed (use run update in \<open>auto simp: token_group_process_instruction_def process_update_group_max_size_def
    process_update_group_authority_def\<close>)
qed

lemma token_metadata_quiet:
  assumes run: "token_metadata_process_instruction T P accounts i st = Inr (st', r)" and laws: "resize_laws P" "metadata_laws T"
  shows "quiet_store P st st'"
proof (cases "is_update i")
  case True
  then obtain f where "update_metadata T P accounts f st = Inr st'"
    using metadata_instruction_update [OF run] by blast
  then show ?thesis
    by (rule update_metadata_Inr) (rule write_metadata_quiet [OF _ laws])
next
  case False
  show ?thesis
  proof (cases i)
    case (MetadataInitialize name symbol uri)
    then have "metadata_process_initialize T P accounts name symbol uri st = Inr st'"
      using run by (auto simp: token_metadata_process_instruction_def result_simps)
    then show ?thesis
      by (rule metadata_initialize_Inr) (rule write_metadata_quiet [OF _ laws])
  qed (use run False in \<open>auto simp: token_metadata_process_instruction_def is_update_def result_simps\<close>)
qed

end
