(* ===== verification/Solvency.thy ===== *)
theory Solvency
  imports Ledger_Interfaces
begin

text \<open>
  The invariant of the whole program: whatever instructions run, in whatever order and whatever other
  programs do in between, the books balance and the data of every account of the program is sound.
\<close>

section \<open>Every instruction keeps the books\<close>

text \<open>
  What an instruction brings into the encrypted balances of mint \<open>m\<close>: a deposit its amount, a withdrawal
  its amount with the sign changed, any other instruction nothing. The mint is the second account.
\<close>

definition net_deposit :: "account_info list \<Rightarrow> bytes \<Rightarrow> address \<Rightarrow> int" where
  "net_deposit accounts input m =
     (if decode_instruction_type pod_token_instruction_try_from input = Inr PodConfidentialTransferExtension \<and>
         m = ai_key (accounts ! 1)
      then
        (case decode_tagged True confidential_transfer_zk_tags confidential_transfer_decoders (drop 1 input) of
           Inr i \<Rightarrow>
             (case i of
                ConfidentialDeposit amount decimals \<Rightarrow> int (unat amount)
              | ConfidentialWithdraw amount decimals balance equality_offset range_offset \<Rightarrow> - int (unat amount)
              | _ \<Rightarrow> 0)
         | Inl _ \<Rightarrow> 0)
      else 0)"

text \<open>What the runtime and the libraries guarantee.\<close>

definition runtime_laws :: "('f, 'g, 'm, 't, 'k) environment \<Rightarrow> bool" where
  "runtime_laws E \<longleftrightarrow>
     bool_laws (en_platform E) \<and> hook_laws (en_platform E) \<and> resize_laws (en_platform E) \<and>
     system_laws (en_platform E) \<and> pack_law (en_account_unpack E) \<and>
     metadata_laws (en_metadata E) \<and> group_laws (en_platform E) (en_groups E)"

definition keeps :: "platform \<Rightarrow> (address \<Rightarrow> int) \<Rightarrow> world \<Rightarrow> world result \<Rightarrow> bool" where
  "keeps P h w r \<longleftrightarrow>
     (\<forall>w'. r = Inr w' \<longrightarrow> (\<forall>m. 0 \<le> h m) \<longrightarrow> books P h (fst w) \<longrightarrow> books P h (fst w'))"

lemma keeps_Inl [simp]: "keeps P h w (Inl e)"
  by (simp add: keeps_def)

lemma keeps_bind: "(\<And>x. r = Inr x \<Longrightarrow> keeps P h w (f x)) \<Longrightarrow> keeps P h w (bindr r f)"
  by (auto simp: keeps_def result_simps(1))

lemma keeps_on_store:
  "(\<And>st'. f (fst w) = Inr st' \<Longrightarrow> books P h (fst w) \<Longrightarrow> (\<And>m. 0 \<le> h m) \<Longrightarrow> books P h st') \<Longrightarrow> keeps P h w (on_store f w)"
  by (auto simp: keeps_def on_store_def result_simps(1))

lemma keeps_return: "keeps P h w (set_return_data f w)"
  by (auto simp: keeps_def set_return_data_def result_simps(1))

lemma keeps_quiet: "(\<And>st'. f (fst w) = Inr st' \<Longrightarrow> quiet_store P (fst w) st') \<Longrightarrow> keeps P h w (on_store f w)"
  using books_quiet by (intro keeps_on_store) blast

lemma keeps_prod: "(\<And>a b. x = (a, b) \<Longrightarrow> keeps P h w (f a b)) \<Longrightarrow> keeps P h w (case x of (a, b) \<Rightarrow> f a b)"
  by (cases x) simp

lemmas keeps_intros = keeps_bind keeps_prod keeps_return

lemma initialise_quiet:
  "process_initialize_mint P accounts n a f st = Inr st' \<Longrightarrow> bool_laws P \<Longrightarrow> quiet_store P st st'"
  "process_initialize_mint2 P accounts n a f st = Inr st' \<Longrightarrow> bool_laws P \<Longrightarrow> quiet_store P st st'"
  "process_initialize_account P accounts st = Inr st' \<Longrightarrow> quiet_store P st st'"
  "process_initialize_account2 P accounts owner st = Inr st' \<Longrightarrow> quiet_store P st st'"
  "process_initialize_account3 P accounts owner st = Inr st' \<Longrightarrow> quiet_store P st st'"
  "process_initialize_multisig P accounts m st = Inr st' \<Longrightarrow> quiet_store P st st'"
  "process_initialize_multisig2 P accounts m st = Inr st' \<Longrightarrow> quiet_store P st st'"
  by (auto simp: process_initialize_mint_def process_initialize_mint2_def process_initialize_account_def
      process_initialize_account2_def process_initialize_account3_def process_initialize_multisig_def
      process_initialize_multisig2_def
      intro: initialize_mint_quiet initialize_account_quiet initialize_multisig_quiet)

lemma runtime_lawsD:
  assumes "runtime_laws E"
  shows "bool_laws (en_platform E)" "hook_laws (en_platform E)" "resize_laws (en_platform E)"
    "system_laws (en_platform E)" "pack_law (en_account_unpack E)"
    "metadata_laws (en_metadata E)" "group_laws (en_platform E) (en_groups E)"
  using assms by (simp_all add: runtime_laws_def)

subsection \<open>The extension processors\<close>

lemma transfer_fee_keeps:
  assumes "runtime_laws E"
  shows "keeps (en_platform E) h w (transfer_fee_process_instruction E program_id accounts input w)"
proof -
  note l = runtime_lawsD [OF assms]
  have "books (en_platform E) h st'"
    if "transfer_fee_handler (en_platform E) program_id accounts i st = Inr st'" "books (en_platform E) h st" for i st st'
    using that
    by (cases i) (auto simp: transfer_fee_handler_def
        intro: transfer_books [OF _ l(2,1)] withdraw_from_mint_books withdraw_from_accounts_books harvest_books
          books_quiet fee_config_init_quiet set_transfer_fee_quiet)
  then show ?thesis
    unfolding transfer_fee_process_instruction_def by (intro keeps_intros keeps_on_store) blast
qed

lemma quiet_extensions_keep:
  "keeps (en_platform E) h w (default_account_state_process_instruction E program_id accounts input w)"
  "keeps (en_platform E) h w (memo_transfer_process_instruction E program_id accounts input w)"
  "keeps (en_platform E) h w (cpi_guard_process_instruction E program_id accounts input w)"
  "keeps (en_platform E) h w (interest_bearing_process_instruction E program_id accounts input w)"
  "keeps (en_platform E) h w (scaled_ui_amount_process_instruction E program_id accounts input w)"
  "keeps (en_platform E) h w (pausable_process_instruction E program_id accounts input w)"
  unfolding default_account_state_process_instruction_def memo_transfer_process_instruction_def
    cpi_guard_process_instruction_def interest_bearing_process_instruction_def
    scaled_ui_amount_process_instruction_def pausable_process_instruction_def
  by (intro keeps_intros keeps_quiet; auto split: default_account_state_instruction.splits
      interest_bearing_instruction.splits scaled_ui_amount_instruction.splits pausable_instruction.splits
      intro!: keeps_intros keeps_quiet
      intro: default_state_init_quiet default_state_update_quiet memo_toggle_quiet cpi_guard_toggle_quiet
        interest_quiet interest_init_quiet scaled_init_quiet pointers_quiet pausable_quiet)+

lemma pointers_keep:
  "keeps (en_platform E) h w (metadata_pointer_process_instruction E program_id accounts input w)"
  "keeps (en_platform E) h w (group_pointer_process_instruction E program_id accounts input w)"
  "keeps (en_platform E) h w (group_member_pointer_process_instruction E program_id accounts input w)"
  "keeps (en_platform E) h w (transfer_hook_process_instruction E program_id accounts input w)"
proof -
  have "keeps P h w (pointer_process_instruction f g program_id accounts input w)"
    if "\<And>a b st'. f accounts a b (fst w) = Inr st' \<Longrightarrow> quiet_store P (fst w) st'"
      "\<And>a st'. g accounts a (fst w) = Inr st' \<Longrightarrow> quiet_store P (fst w) st'" for P f g
    unfolding pointer_process_instruction_def
    by (intro keeps_intros) (auto split: pointer_instruction.split intro!: keeps_intros keeps_quiet intro: that)
  then show "keeps (en_platform E) h w (metadata_pointer_process_instruction E program_id accounts input w)"
    "keeps (en_platform E) h w (group_pointer_process_instruction E program_id accounts input w)"
    "keeps (en_platform E) h w (group_member_pointer_process_instruction E program_id accounts input w)"
    "keeps (en_platform E) h w (transfer_hook_process_instruction E program_id accounts input w)"
    unfolding metadata_pointer_process_instruction_def group_pointer_process_instruction_def
      group_member_pointer_process_instruction_def transfer_hook_process_instruction_def
    by (blast intro: pointers_quiet group_pointer_init_quiet group_member_pointer_init_quiet transfer_hook_init_quiet)+
qed

lemma permissioned_burn_keeps:
  "keeps (en_platform E) h w (permissioned_burn_process_instruction E program_id accounts input w)"
proof -
  have "quiet_store P st st'" if "permissioned_confidential_burn ops Z P pid accounts input st = Inr st'" for P ops Z pid st st'
  proof -
    from that obtain i where "(case i of ConfidentialSupplyBurn b lo hi n1 n2 n3 \<Rightarrow>
        process_confidential_burn Z P pid accounts b lo hi n1 n2 n3 BurnPermissioned st
      | _ \<Rightarrow> Inl InvalidInstructionData) = Inr st'"
      by (auto simp: permissioned_confidential_burn_def result_simps(1) split: if_split_asm)
    then show ?thesis by (cases i) (auto intro: confidential_burn_quiet)
  qed
  then show ?thesis
    unfolding permissioned_burn_process_instruction_def
    by (intro keeps_intros)
      (auto split: permissioned_burn_instruction.split
        intro!: keeps_intros keeps_on_store intro: burn_books books_quiet permissioned_burn_init_quiet)
qed

subsection \<open>The confidential processors\<close>

lemma confidential_fee_quiet:
  assumes "confidential_transfer_fee_process_instruction ops Z P program_id accounts input st = Inr st'"
  shows "quiet_store P st st'"
proof -
  from assms obtain i where "confidential_transfer_fee_handler Z P program_id accounts i st = Inr st'"
    by (auto simp: confidential_transfer_fee_process_instruction_def result_simps)
  then show ?thesis
    by (cases i) (auto simp: confidential_transfer_fee_handler_def process_enable_harvest_to_mint_def
        process_disable_harvest_to_mint_def intro: confidential_transfer_mint_quiet set_harvest_quiet
          confidential_withdraw_from_mint_quiet confidential_withdraw_from_accounts_quiet confidential_harvest_quiet)
qed

lemma confidential_mint_burn_quiet:
  assumes "confidential_mint_burn_process_instruction ops Z P program_id accounts input st = Inr st'"
  shows "quiet_store P st st'"
proof -
  from assms obtain i where "confidential_mint_burn_handler Z P program_id accounts i st = Inr st'"
    by (auto simp: confidential_mint_burn_process_instruction_def result_simps)
  then show ?thesis
    by (cases i) (auto simp: confidential_mint_burn_handler_def
        intro: confidential_transfer_mint_quiet confidential_supply_quiet confidential_mint_quiet confidential_burn_quiet)
qed

lemma decode_tagged_zk: "decode_tagged ops tags ds input = Inr i \<Longrightarrow> decode_tagged True tags ds input = Inr i"
  by (auto simp: decode_tagged_def result_simps split: if_splits)

lemma confidential_transfer_books:
  assumes run: "confidential_transfer_process_instruction ops Z P program_id accounts (drop 1 input) st = Inr st'"
    and ty: "decode_instruction_type pod_token_instruction_try_from input = Inr PodConfidentialTransferExtension"
    and bk: "books P h st" and laws: "hook_laws P" "resize_laws P" "system_laws P" "bool_laws P"
  shows "books P (\<lambda>m. h m + net_deposit accounts input m) st'"
proof -
  from run obtain i where d: "decode_tagged True confidential_transfer_zk_tags confidential_transfer_decoders (drop 1 input) = Inr i"
    and r: "confidential_transfer_handler Z P program_id accounts i st = Inr st'"
    by (auto simp: confidential_transfer_process_instruction_def result_simps dest: decode_tagged_zk)
  have n: "net_deposit accounts input m =
      (case i of ConfidentialDeposit amount decimals \<Rightarrow> if m = ai_key (accounts ! 1) then int (unat amount) else 0
       | ConfidentialWithdraw amount decimals b n1 n2 \<Rightarrow> if m = ai_key (accounts ! 1) then - int (unat amount) else 0
       | _ \<Rightarrow> 0)" for m
    unfolding net_deposit_def ty d by (cases i) simp_all
  consider amount decimals where "i = ConfidentialDeposit amount decimals"
    | amount decimals b n1 n2 where "i = ConfidentialWithdraw amount decimals b n1 n2"
    | "\<And>m. net_deposit accounts input m = 0" "quiet_store P st st'"
    using r by (cases i) (auto simp: confidential_transfer_handler_def n
      intro: confidential_transfer_mint_quiet confidential_update_mint_quiet configure_account_quiet approve_account_quiet
        owner_instructions_quiet confidential_transfer_quiet [OF _ laws(1,4)]
        configure_with_registry_quiet [OF _ laws(2,3,4)])
  then show ?thesis
  proof cases
    case (1 amount decimals)
    then have "net_deposit accounts input m = (if m = ai_key (accounts ! 1) then int (unat amount) else 0)" for m
      by (simp add: n)
    with deposit_books [OF _ bk, of Z program_id accounts amount decimals st'] r show ?thesis
      by (simp add: confidential_transfer_handler_def 1)
  next
    case (2 amount decimals b n1 n2)
    then have "net_deposit accounts input m = (if m = ai_key (accounts ! 1) then - int (unat amount) else 0)" for m
      by (simp add: n)
    with withdraw_books [OF _ bk, of Z program_id accounts amount decimals b "sint n1" "sint n2" st'] r show ?thesis
      by (simp add: confidential_transfer_handler_def 2)
  next
    case 3
    with books_quiet [OF bk] show ?thesis by simp
  qed
qed

subsection \<open>The processor\<close>

lemma process_inner_books:
  assumes laws: "runtime_laws E" and run: "process_inner E program_id accounts input w = Inr w'"
    and bk: "books (en_platform E) h (fst w)" and covered: "\<And>m. 0 \<le> h m"
  shows "books (en_platform E) (\<lambda>m. h m + net_deposit accounts input m) (fst w')"
proof (cases "decode_instruction_type pod_token_instruction_try_from input")
  case (Inl e)
  note l = runtime_lawsD [OF laws]
  have "quiet_store (en_platform E) (fst w) (fst w')"
  proof (cases "ti_unpack (en_metadata E) input")
    case None
    with run show ?thesis
      by (auto simp: process_inner_def Inl on_store_def result_simps split: option.split_asm
          intro: token_group_quiet [OF _ l(3,7)])
  next
    case (Some i)
    with run obtain r where "token_metadata_process_instruction (en_metadata E) (en_platform E) accounts i (fst w) = Inr (fst w', r)"
      by (auto simp: process_inner_def Inl may_return_def result_simps)
    then show ?thesis by (rule token_metadata_quiet [OF _ l(3,6)])
  qed
  with books_quiet [OF bk] show ?thesis by (simp add: net_deposit_def Inl)
next
  case (Inr i)
  let ?P = "en_platform E"
  note l = runtime_lawsD [OF laws]
  show ?thesis
  proof (cases "i = PodConfidentialTransferExtension")
    case True
    with run Inr obtain ops Z where
      "confidential_transfer_process_instruction ops Z ?P program_id accounts (drop 1 input) (fst w) = Inr (fst w')"
      by (auto simp: process_inner_def on_store_def result_simps)
    then show ?thesis using confidential_transfer_books [OF _ Inr [unfolded True] bk l(2-4,1)] by blast
  next
    case False
    note q = initialise_quiet(1,2) [OF _ l(1)] initialise_quiet(3-) approve_quiet revoke_quiet set_authority_quiet toggle_freeze_quiet sync_native_quiet
      mint_close_authority_quiet immutable_owner_quiet reallocate_quiet [OF _ l(5,3,4,1)] create_native_mint_quiet [OF _ l(4,1)]
      non_transferable_mint_quiet permanent_delegate_quiet withdraw_excess_quiet unwrap_lamports_quiet
      confidential_fee_quiet confidential_mint_burn_quiet
    note b = transfer_books [OF _ l(2,1)] mint_to_books burn_books close_books [OF _ l(3,1)]
    note k = transfer_fee_keeps [OF laws] quiet_extensions_keep pointers_keep permissioned_burn_keeps
    have "keeps ?P h w (process_inner E program_id accounts input w)"
      unfolding process_inner_def using False
      by (cases i) (auto simp: Inr intro!: keeps_intros k keeps_on_store intro: books_quiet q b)
    with run bk covered have "books ?P h (fst w')" by (auto simp: keeps_def)
    with False show ?thesis by (simp add: net_deposit_def Inr)
  qed
qed

section \<open>Reachable states\<close>

text \<open>
  Between two instructions of the program other programs may do anything to the accounts they own;
  an account they give to the token program has zeroed data.
\<close>

definition outside_step :: "store \<Rightarrow> store \<Rightarrow> bool" where
  "outside_step st st' \<longleftrightarrow>
     (\<forall>a. (ac_owner (st a) = TOKEN_2022_ID \<longrightarrow>
             ac_owner (st' a) = TOKEN_2022_ID \<and> ac_data (st' a) = ac_data (st a)) \<and>
          (ac_owner (st a) \<noteq> TOKEN_2022_ID \<and> ac_owner (st' a) = TOKEN_2022_ID \<longrightarrow>
             ac_data (st' a) = replicate (length (ac_data (st' a))) 0))"

text \<open>
  The instructions an input holds, more than one for a batch, and the ledger of net deposits after
  them. A run is covered when no more is withdrawn from the encrypted balances of a mint than was
  deposited: the zero-knowledge proofs, which are verified by another program, are there to ensure that.
\<close>

definition holds_instructions :: "account_info list \<Rightarrow> bytes \<Rightarrow> (account_info list \<times> bytes) list \<Rightarrow> bool" where
  "holds_instructions accounts input ixs \<longleftrightarrow>
     (if decode_instruction_type pod_token_instruction_try_from input = Inr PodBatch
      then batch_fits ixs \<and> drop 1 input = batch_data ixs \<and> (\<exists>extra. accounts = concat (map fst ixs) @ extra)
      else ixs = [(accounts, input)])"

fun deposits_after :: "(address \<Rightarrow> int) \<Rightarrow> (account_info list \<times> bytes) list \<Rightarrow> address \<Rightarrow> int" where
  "deposits_after h [] = h"
| "deposits_after h ((accounts, input) # ixs) = deposits_after (\<lambda>m. h m + net_deposit accounts input m) ixs"

fun covered :: "(address \<Rightarrow> int) \<Rightarrow> (account_info list \<times> bytes) list \<Rightarrow> bool" where
  "covered h [] = True"
| "covered h ((accounts, input) # ixs) \<longleftrightarrow>
     (\<forall>m. 0 \<le> h m) \<and> covered (\<lambda>m. h m + net_deposit accounts input m) ixs"

text \<open>
  The platform of each step is its own, since clocks and call stacks move on; all steps agree on how a
  flag byte is read.
\<close>

inductive reachable :: "(u8 \<Rightarrow> bool) \<Rightarrow> ('f, 'g, 'm, 't, 'k) environment set \<Rightarrow> (address \<Rightarrow> int) \<Rightarrow> store \<Rightarrow> bool" for flag Es where
  start: "\<forall>a. ac_owner (st a) \<noteq> TOKEN_2022_ID \<Longrightarrow> reachable flag Es (\<lambda>_. 0) st"
| outside: "reachable flag Es h st \<Longrightarrow> outside_step st st' \<Longrightarrow> reachable flag Es h st'"
| instruction: "reachable flag Es h st \<Longrightarrow> E \<in> Es \<Longrightarrow> pl_bool_from_pod (en_platform E) = flag \<Longrightarrow>
    process E TOKEN_2022_ID accounts input (st, return_data) = Inr (st', return_data') \<Longrightarrow>
    holds_instructions accounts input ixs \<Longrightarrow> covered h ixs \<Longrightarrow>
    reachable flag Es (deposits_after h ixs) st'"

lemma books_flag:
  assumes "pl_bool_from_pod P' = pl_bool_from_pod P"
  shows "books P' h st = books P h st"
proof -
  have m: "mint_base P' = mint_base P"
    using assms by (simp add: mint_base_def pod_mint_is_initialized_def [abs_def])
  have "untyped P' = untyped P"
    using assms by (intro ext) (simp add: untyped_def pod_mint_is_initialized_def)
  then have "sound P' c = sound P c" "pooled P' c = pooled P c" "issued P' c = issued P c" for c
    by (simp_all add: sound_def sound_data_def pooled_def issued_def token_mint_def m)
  then show ?thesis by (simp add: books_def sound_store_def balanced_def)
qed

lemma books_start:
  assumes "\<forall>a. ac_owner (st a) \<noteq> TOKEN_2022_ID"
  shows "books P (\<lambda>_. 0) st"
proof -
  have "held m (st a) = 0" "issued P (st a) = 0" "pooled P (st a) = 0" for m a
    using no_entries [of "st a" P] assms by simp_all
  with assms show ?thesis
    by (simp add: books_def sound_store_def sound_def balanced_def circulating_def)
qed

lemma books_outside:
  assumes "books P h st" "outside_step st st'" "\<not> pl_bool_from_pod P 0"
  shows "books P h st'"
proof -
  have "quiet P a (st a) (st' a)" for a
    using assms(2,3) quiet_same [of "st' a" "st a"] quiet_foreign [of "st a" "st' a" P]
    by (cases "ac_owner (st a) = TOKEN_2022_ID") (auto simp: outside_step_def)
  then show ?thesis using assms(1) books_quiet by (auto simp: quiet_store_def)
qed

lemma instructions_books:
  assumes "runtime_laws E"
  shows "try_for_each (\<lambda>(accounts, data). process_inner E program_id accounts data) ixs w = Inr w' \<Longrightarrow>
    covered h ixs \<Longrightarrow> books (en_platform E) h (fst w) \<Longrightarrow> books (en_platform E) (deposits_after h ixs) (fst w')"
proof (induction ixs arbitrary: h w)
  case (Cons ix ixs)
  obtain accounts input where ix: "ix = (accounts, input)" by (cases ix)
  from Cons.prems(1) obtain w1 where w1: "process_inner E program_id accounts input w = Inr w1"
    and rest: "try_for_each (\<lambda>(accounts, data). process_inner E program_id accounts data) ixs w1 = Inr w'"
    by (auto simp: ix result_simps(1))
  from process_inner_books [OF assms w1 Cons.prems(3)] Cons.IH [OF rest] Cons.prems(2) show ?case
    by (simp add: ix)
qed simp

lemma process_books:
  assumes "runtime_laws E" and run: "process E program_id accounts input w = Inr w'"
    and ixs: "holds_instructions accounts input ixs" and "covered h ixs" and "books (en_platform E) h (fst w)"
  shows "books (en_platform E) (deposits_after h ixs) (fst w')"
proof -
  have "try_for_each (\<lambda>(accounts, data). process_inner E program_id accounts data) ixs w = Inr w'"
  proof (cases "decode_instruction_type pod_token_instruction_try_from input = Inr PodBatch")
    case True
    with ixs obtain extra where "batch_fits ixs" "drop 1 input = batch_data ixs" "accounts = concat (map fst ixs) @ extra"
      by (auto simp: holds_instructions_def)
    with run True show ?thesis by (simp add: process_def process_batch_def batch_loop_run)
  next
    case False
    with run ixs show ?thesis by (simp add: process_def holds_instructions_def result_simps(1))
  qed
  with assms(1,4,5) show ?thesis by (intro instructions_books)
qed

lemma reachable_books:
  assumes "reachable flag Es h st" and "\<forall>E\<in>Es. runtime_laws E" and "\<not> flag 0" and "pl_bool_from_pod P = flag"
  shows "books P h st"
  using assms(1)
proof (induction rule: reachable.induct)
  case (start st)
  then show ?case by (rule books_start)
next
  case (outside h st st')
  with assms(3,4) show ?case by (auto intro: books_outside)
next
  case (instruction h st E accounts input return_data st' return_data' ixs)
  then show ?case
    using process_books [of E TOKEN_2022_ID accounts input "(st, return_data)" "(st', return_data')" ixs h] assms(2,4)
      books_flag [of "en_platform E" P] by simp
qed

section \<open>A concrete run\<close>

text \<open>
  Two accounts with zeroed data are handed to the program; \<open>InitializeMint2\<close>, \<open>InitializeAccount3\<close>
  and \<open>MintTo\<close> make them a mint of 25 tokens and the account that holds them.
\<close>

definition blank_mint :: pod_mint where
  "blank_mint =
     \<lparr>m_mint_authority = coption_none, m_supply = 0, m_decimals = 0, m_is_initialized = 0, m_freeze_authority = coption_none\<rparr>"

definition sample_books :: "pod_mint \<Rightarrow> pod_account \<Rightarrow> pod_account \<Rightarrow> store" where
  "sample_books m a b = sample_store
     [(4, token_acct 200 (pod_mint_to_bytes m)), (5, token_acct 200 (pod_account_to_bytes a)),
      (6, token_acct 200 (pod_account_to_bytes b))]"

lemma sample_books_simps [simp]:
  "sample_books m a b 4 = token_acct 200 (pod_mint_to_bytes m)" "sample_books m a b 5 = token_acct 200 (pod_account_to_bytes a)"
  "sample_books m a b 6 = token_acct 200 (pod_account_to_bytes b)"
  "sample_books m a b 20 = empty_acct" "sample_books m a b 30 = empty_acct"
  "set_data 4 (pod_mint_to_bytes m') (sample_books m a b) = sample_books m' a b"
  "set_data 5 (pod_account_to_bytes a') (sample_books m a b) = sample_books m a' b"
  "set_data 6 (pod_account_to_bytes b') (sample_books m a b) = sample_books m a b'"
  by (auto simp: sample_books_def set_data_def token_acct_def)

lemma sample_environment_simps [simp]:
  "en_platform sample_environment = sample_platform" "en_metadata sample_environment = sample_metadatas"
  "en_groups sample_environment = sample_groups"
  "pl_bool_from_pod sample_platform = (\<lambda>b. b \<noteq> 0)"
  by (simp_all add: sample_environment_def sample_platform_def)

lemma sample_runtime_laws: "runtime_laws sample_environment"
  using sample_pack_law by (simp add: runtime_laws_def hook_laws_def) (simp add: sample_environment_def)

lemma sample_program_step:
  assumes "reachable (\<lambda>b. b \<noteq> 0) {sample_environment} (\<lambda>_. 0) st" and "well_formed_instruction i" "\<not> extension_instruction i"
    and "execute sample_environment TOKEN_2022_ID accounts i [] (st, []) = Inr (st', [])"
    and "decode_instruction_type pod_token_instruction_try_from (pack i) \<notin> {Inr PodBatch, Inr PodConfidentialTransferExtension}"
  shows "reachable (\<lambda>b. b \<noteq> 0) {sample_environment} (\<lambda>_. 0) st'"
proof -
  have "process sample_environment TOKEN_2022_ID accounts (pack i) (st, []) = Inr (st', [])"
    using assms(2-4) process_pack [of i "[]" "sample_environment" TOKEN_2022_ID accounts "(st, [])"] by simp
  moreover have "holds_instructions accounts (pack i) [(accounts, pack i)]"
    using assms(5) by (simp add: holds_instructions_def)
  ultimately have "reachable (\<lambda>b. b \<noteq> 0) {sample_environment} (deposits_after (\<lambda>_. 0) [(accounts, pack i)]) st'"
    by (intro reachable.instruction [OF assms(1)]) simp_all
  moreover have "deposits_after (\<lambda>_. 0) [(accounts, pack i)] = (\<lambda>_. 0)"
    using assms(5) by (auto simp: net_deposit_def)
  ultimately show ?thesis by simp
qed

lemma blank_bytes:
  "pod_mint_to_bytes blank_mint = replicate 82 0"
  "pod_account_to_bytes (sample_account 0 0 0 Uninitialized) = replicate 165 0"
  by (rule replicate_eqI; auto simp: blank_mint_def sample_account_def pod_mint_to_bytes_def pod_account_to_bytes_def
      coption_to_bytes_def le_bytes_zero)+

lemma sample_blank [simp]: "\<not> pod_mint_is_initialized sample_platform blank_mint"
  by (simp add: pod_mint_is_initialized_def blank_mint_def)

lemma sample_initialize_mint:
  "process_initialize_mint2 sample_platform [plain_info 4] 6 20 (coption_some 21) (sample_books blank_mint a b) =
     Inr (sample_books (sample_mint 0) a b)"
proof -
  have "get_extension_types (bare blank_mint) = Inr []"
    by (simp add: get_extension_types_def get_tlv_data_info_def)
  moreover have "try_calculate_account_len sample_platform MINT_LEN [] = Inr 82"
    by (simp add: try_calculate_account_len_def accumulator_account_len_def accumulator_default_def MINT_LEN_def)
  moreover have "check_for_invalid_mint_extension_combinations [] = Inr ()"
    by (simp add: check_for_invalid_mint_extension_combinations_def)
  moreover have "blank_mint\<lparr>m_mint_authority := coption_some 20, m_decimals := 6,
      m_is_initialized := pl_pod_from_bool sample_platform True, m_freeze_authority := coption_some 21\<rparr> = sample_mint 0"
    by (simp add: blank_mint_def sample_mint_def sample_platform_def)
  ultimately show ?thesis
    by (simp add: process_initialize_mint2_def process_initialize_mint_inner_def get_rent_def sample_rent
        uninitialized_view_def info_owner_def info_data_def info_lamports_def ensure_def)
qed

lemma sample_initialize_account:
  "process_initialize_account3 sample_platform [plain_info 5, plain_info 4] 30
     (sample_books (sample_mint 0) (sample_account 0 0 0 Uninitialized) b) =
   Inr (sample_books (sample_mint 0) (sample_account 4 30 0 Initialized) b)"
  "process_initialize_account3 sample_platform [plain_info 6, plain_info 4] 31
     (sample_books (sample_mint 0) a (sample_account 0 0 0 Uninitialized)) =
   Inr (sample_books (sample_mint 0) a (sample_account 4 31 0 Initialized))"
proof -
  have "(sample_account 0 0 0 Uninitialized)\<lparr>a_mint := 4, a_owner := k, a_close_authority := coption_none,
      a_delegate := coption_none, a_delegated_amount := 0, a_state := 1, a_is_native := coption_none, a_amount := 0\<rparr> =
    sample_account 4 k 0 Initialized" for k
    by (simp add: sample_account_def)
  then show "process_initialize_account3 sample_platform [plain_info 5, plain_info 4] 30
     (sample_books (sample_mint 0) (sample_account 0 0 0 Uninitialized) b) =
   Inr (sample_books (sample_mint 0) (sample_account 4 30 0 Initialized) b)"
    "process_initialize_account3 sample_platform [plain_info 6, plain_info 4] 31
     (sample_books (sample_mint 0) a (sample_account 0 0 0 Uninitialized)) =
   Inr (sample_books (sample_mint 0) a (sample_account 4 31 0 Initialized))"
    by (simp_all add: process_initialize_account3_def process_initialize_account_inner_def get_rent_def Let_def
        info_owner_def info_data_def info_lamports_def uninitialized_view_def ensure_def sample_rent
        try_calculate_account_len_from_mint_data_def try_for_each_required_init_account_extension_def
        accumulator_account_len_def accumulator_default_def ACCOUNT_LEN_def NATIVE_MINT_ID_def)
qed

lemma sample_mint_to:
  "process_mint_to sample_platform TOKEN_2022_ID [plain_info 4, plain_info 5, signer_info 20] 25 VariantUnchecked
     (sample_books (sample_mint 0) (sample_account 4 30 0 Initialized) b) =
   Inr (sample_books (sample_mint 25) (sample_account 4 30 25 Initialized) b)"
proof -
  have "validate_owner sample_platform TOKEN_2022_ID 20 (signer_info 20) 0 []
      (sample_books (sample_mint 0) (sample_account 4 30 0 Initialized) b) = Inr ()"
    using validate_owner_authorizes [of sample_platform TOKEN_2022_ID 20 "signer_info 20"
        "sample_books (sample_mint 0) (sample_account 4 30 0 Initialized) b" "[]"]
    by (simp add: sample_signer_authorizes info_data_def empty_acct_def)
  then show ?thesis
    by (simp add: process_mint_to_def check_not_paused_def check_decimals_def info_owner_def info_data_def ensure_def
        checked_add_def empty_acct_def)
qed

definition sample_ledger :: store where
  "sample_ledger = sample_books (sample_mint 25) (sample_account 4 30 25 Initialized) (sample_account 4 31 0 Initialized)"

lemma sample_reachable: "reachable (\<lambda>b. b \<noteq> 0) {sample_environment} (\<lambda>_. 0) sample_ledger"
proof -
  let ?reach = "reachable (\<lambda>b. b \<noteq> 0) {sample_environment} (\<lambda>_. 0)"
  let ?blank = "sample_account 0 0 0 Uninitialized" and ?a = "sample_account 4 30 0 Initialized"
  note ix = well_formed_instruction_def extension_instruction_def execute_def on_store_def pack_def decode_instruction_type_def
    pod_token_instructions_def
  have "?reach (\<lambda>_. empty_acct)"
    by (rule reachable.start) (simp add: empty_acct_def TOKEN_2022_ID_def)
  moreover have "outside_step (\<lambda>_. empty_acct) (sample_books blank_mint ?blank ?blank)"
    by (simp add: outside_step_def sample_books_def empty_acct_def TOKEN_2022_ID_def token_acct_def blank_bytes)
  ultimately have "?reach (sample_books blank_mint ?blank ?blank)" by (rule reachable.outside)
  then have "?reach (sample_books (sample_mint 0) ?blank ?blank)"
    by (rule sample_program_step [where i = "InitializeMint2 20 (Some 21) 6" and accounts = "[plain_info 4]"])
      (use sample_initialize_mint [of ?blank ?blank] in \<open>simp_all add: ix coption_of_option_def\<close>)
  then have "?reach (sample_books (sample_mint 0) ?a ?blank)"
    by (rule sample_program_step [where i = "InitializeAccount3 30" and accounts = "[plain_info 5, plain_info 4]"])
      (simp_all add: ix sample_initialize_account)
  then have "?reach (sample_books (sample_mint 0) ?a (sample_account 4 31 0 Initialized))"
    by (rule sample_program_step [where i = "InitializeAccount3 31" and accounts = "[plain_info 6, plain_info 4]"])
      (simp_all add: ix sample_initialize_account)
  then show ?thesis
    unfolding sample_ledger_def
    by (rule sample_program_step [where i = "MintTo 25" and accounts = "[plain_info 4, plain_info 5, signer_info 20]"])
      (simp_all add: ix sample_mint_to)
qed

lemma sample_ledger_simps [simp]:
  "sample_ledger 4 = token_acct 200 (pod_mint_to_bytes (sample_mint 25))"
  "sample_ledger 5 = token_acct 200 (pod_account_to_bytes (sample_account 4 30 25 Initialized))"
  "sample_ledger 6 = token_acct 200 (pod_account_to_bytes (sample_account 4 31 0 Initialized))"
  "sample_ledger 30 = empty_acct"
  by (simp_all add: sample_ledger_def)

section \<open>The invariant and what follows\<close>

text \<open>
  C1. In every reachable state, the supply of a mint (but the native one, whose tokens are lamports) is
  exactly what its token accounts hold, their amounts and the fees withheld on them, plus the fees the
  mint has collected, plus what was deposited into encrypted balances and not withdrawn: no sequence of
  instructions, batches and foreign writes creates or loses tokens.
\<close>

theorem reachable_solvent:
  assumes "reachable flag Es h st" and "\<forall>E\<in>Es. runtime_laws E" and "\<not> flag 0" and "pl_bool_from_pod P = flag"
    and "m \<noteq> NATIVE_MINT_ID"
  shows "int (circulating m st) + int (pooled P (st m)) + h m = int (issued P (st m))"
  using reachable_books [OF assms(1-4)] assms(5) by (simp add: books_def balanced_def)

text \<open>
  C2. In every reachable state the data of every account of the program is well typed: the extension
  buffer of a token account or mint is a sequence of entries of distinct types followed by zeros, which
  the walk lists; only accounts of the native mint are native; and an account not initialised yet
  carries no supply and no fees.
\<close>

theorem reachable_well_typed:
  assumes "reachable flag Es h st" and "\<forall>E\<in>Es. runtime_laws E" and "\<not> flag 0" and "pl_bool_from_pod P = flag"
    and "ac_owner (st a) = TOKEN_2022_ID"
  shows "(\<forall>s. unpack account_base (ac_data (st a)) = Inr s \<longrightarrow>
       (\<exists>es. laid_out es (ps_tlv s) \<and> get_extension_types s = Inr (map fst es)) \<and>
       (is_native (ps_base s) \<longrightarrow> a_mint (ps_base s) = NATIVE_MINT_ID)) \<and>
     (\<forall>s. unpack (mint_base P) (ac_data (st a)) = Inr s \<longrightarrow>
       (\<exists>es. laid_out es (ps_tlv s) \<and> get_extension_types s = Inr (map fst es))) \<and>
     (\<forall>s. unpack_uninitialized (mint_base P) (ac_data (st a)) = Inr s \<longrightarrow>
       m_supply (ps_base s) = 0 \<and> mint_fees (ps_tlv s) = 0) \<and>
     (\<forall>s. unpack_uninitialized account_base (ac_data (st a)) = Inr s \<longrightarrow> withheld (ps_tlv s) = 0)"
proof -
  have sd: "sound_data P (ac_data (st a))"
    using sound_storeD [OF reachable_books [OF assms(1-4)], of a] assms(5) by (simp add: sound_def)
  have types: "get_extension_types s = Inr (map fst es)" if "laid_out es (ps_tlv s)" for s :: "'s pod_state" and es
    using that info_laid_out by (auto simp: laid_out_def get_extension_types_def)
  show ?thesis
  proof (intro conjI allI impI)
    fix s assume u: "unpack account_base (ac_data (st a)) = Inr s"
    with sd sound_account [OF u] show "\<exists>es. laid_out es (ps_tlv s) \<and> get_extension_types s = Inr (map fst es)"
      "is_native (ps_base s) \<Longrightarrow> a_mint (ps_base s) = NATIVE_MINT_ID"
      using types by blast+
  next
    fix s assume u: "unpack (mint_base P) (ac_data (st a)) = Inr s"
    with sd sound_mint [OF u] show "\<exists>es. laid_out es (ps_tlv s) \<and> get_extension_types s = Inr (map fst es)"
      using types by blast
  next
    fix s assume u: "unpack_uninitialized (mint_base P) (ac_data (st a)) = Inr s"
    note sh = uninitialized_mint_shape [OF u]
    show "m_supply (ps_base s) = 0" "mint_fees (ps_tlv s) = 0"
      using sd sh(1,4) by (simp_all add: sound_data_untyped [OF sh(2,3)] tlv_fresh_def)
  next
    fix s assume "unpack_uninitialized account_base (ac_data (st a)) = Inr s"
    from uninitialized_account_fresh [OF this sd] show "withheld (ps_tlv s) = 0" by (simp add: tlv_fresh_def)
  qed
qed

text \<open>Two accounts of a mint together hold no more than its supply.\<close>

lemma amounts_fit:
  assumes bk: "books P h st" and "0 \<le> h m" and "a \<noteq> b" and ne: "m \<noteq> NATIVE_MINT_ID"
    and s: "unpack account_base (ac_data (st a)) = Inr s" "ac_owner (st a) = TOKEN_2022_ID" "a_mint (ps_base s) = m"
    and d: "unpack account_base (ac_data (st b)) = Inr d" "ac_owner (st b) = TOKEN_2022_ID" "a_mint (ps_base d) = m"
  shows "unat (a_amount (ps_base s)) + unat (a_amount (ps_base d)) < 2 ^ 64"
proof -
  have "unat (a_amount (ps_base s)) \<le> held m (st a)" "unat (a_amount (ps_base d)) \<le> held m (st b)"
    using account_entries(1) [OF s(1,2), of m] account_entries(1) [OF d(1,2), of m] s(3) d(3) by (simp_all add: holding_def)
  moreover have "held m (st a) + held m (st b) = (\<Sum>x\<in>{a, b}. held m (st x))"
    using assms(3) by simp
  moreover have "(\<Sum>x\<in>{a, b}. held m (st x)) \<le> circulating m st"
    unfolding circulating_def by (rule sum_mono2) simp_all
  moreover have "circulating m st \<le> issued P (st m)"
  proof -
    have "int (circulating m st) + int (pooled P (st m)) + h m = int (issued P (st m))"
      using bk ne by (simp add: books_def balanced_def)
    with assms(2) show ?thesis by linarith
  qed
  moreover have "issued P (st m) < 2 ^ 64"
  proof (cases "token_mint P (st m)")
    case (Some x)
    then show ?thesis using unsigned_less [of "m_supply (ps_base x)"] by (simp add: issued_def)
  qed (simp add: issued_def)
  ultimately show ?thesis by linarith
qed

text \<open>
  C3. In every reachable state tokens are never stuck: an authority that may debit a plain, unfrozen
  account within its balance can transfer to any other plain, unfrozen account of the mint, and the
  transfer succeeds, since the destination cannot overflow.
\<close>

theorem transfer_available:
  assumes "reachable flag Es h st" and "\<forall>E\<in>Es. runtime_laws E" and "\<not> flag 0" and "pl_bool_from_pod P = flag"
    and own: "info_owner st src = TOKEN_2022_ID" "info_owner st dst = TOKEN_2022_ID" and ne: "ai_key src \<noteq> ai_key dst"
    and s: "info_data st src = pod_account_to_bytes s" "pod_account_is_initialized s" "\<not> is_frozen s"
    and d: "info_data st dst = pod_account_to_bytes d" "pod_account_is_initialized d" "\<not> is_frozen d"
    and m: "a_mint s = a_mint d" "a_mint s \<noteq> NATIVE_MINT_ID" and covered: "0 \<le> h (a_mint s)"
    and amount: "amount \<le> a_amount s" and auth: "debit_allowed P program_id auth signers None amount s st"
  shows "\<exists>st'. process_transfer P program_id (src # dst # auth # signers) amount TransferUnchecked st = Inr st'"
proof -
  note bk = reachable_books [OF assms(1-4)]
  have us: "unpack account_base (ac_data (st (ai_key src))) = Inr (bare s)"
    and ud: "unpack account_base (ac_data (st (ai_key dst))) = Inr (bare d)"
    using s(1,2) d(1,2) by (simp_all add: info_data_def)
  have o: "ac_owner (st (ai_key src)) = TOKEN_2022_ID" "ac_owner (st (ai_key dst)) = TOKEN_2022_ID"
    using own by (simp_all add: info_owner_def)
  have "\<not> is_native s"
    using sound_storeD [OF bk, of "ai_key src"] o(1) sound_account [OF us] m(2) by (auto simp: sound_def)
  moreover have "unat (a_amount s) + unat (a_amount d) < 2 ^ 64"
    using amounts_fit [OF bk covered ne m(2) us o(1) _ ud o(2)] m(1) by simp
  then have "\<not> 2 ^ 64 \<le> unat (a_amount d) + unat amount"
    using amount by (simp add: word_le_nat_alt)
  moreover have "\<exists>s1. debit_authority P program_id auth signers None amount False s st = Inr s1 \<and> a_mint s1 = a_mint s"
    using auth by (simp add: debit_authority_Inr)
  ultimately show ?thesis
    using transfer_plain_cases [OF own ne s(1,2) _ d(1,2), of P program_id auth signers amount] s(3) d(3) m(1) amount
    by (auto simp: not_less)
qed

lemma reachable_solvent_witness:
  "issued sample_platform (sample_ledger 4) = 25 \<and>
   int (circulating 4 sample_ledger) + int (pooled sample_platform (sample_ledger 4)) + 0 = 25"
proof -
  have "issued sample_platform (sample_ledger 4) = 25"
    using mint_entries(2) [of sample_platform "sample_ledger 4"] by simp
  with reachable_solvent [OF sample_reachable, of sample_platform 4] sample_runtime_laws show ?thesis
    by (simp add: NATIVE_MINT_ID_def)
qed

lemma reachable_well_typed_witness:
  "\<exists>es. laid_out es (ps_tlv (bare (sample_account 4 30 25 Initialized))) \<and>
     get_extension_types (bare (sample_account 4 30 25 Initialized)) = Inr (map fst es)"
  using reachable_well_typed [OF sample_reachable, of sample_platform 5, THEN conjunct1] sample_runtime_laws
  by simp

lemma transfer_available_witness:
  "\<exists>st'. process_transfer sample_platform TOKEN_2022_ID [plain_info 5, plain_info 6, signer_info 30] 20 TransferUnchecked
     sample_ledger = Inr st'"
proof -
  have "debit_allowed sample_platform TOKEN_2022_ID (signer_info 30) [] None 20 (sample_account 4 30 25 Initialized) sample_ledger"
    using sample_signer_authorizes [of sample_ledger 30 sample_platform TOKEN_2022_ID "[]"]
    by (simp add: debit_allowed_def is_delegate_def)
  then show ?thesis
    using sample_runtime_laws
    by (intro transfer_available [OF sample_reachable, where s = "sample_account 4 30 25 Initialized" and
        d = "sample_account 4 31 0 Initialized"])
      (simp_all add: info_owner_def info_data_def NATIVE_MINT_ID_def)
qed

end
