(* ===== verification/Confidential_Worth.thy ===== *)
theory Confidential_Worth
  imports Confidential_Balance
begin

text \<open>
  What encrypted balances are worth, without knowing them. A ciphertext commits to a group element
  (\<open>Ciphertext.committed\<close>), and the program's arithmetic on ciphertexts acts on these elements. An
  account is worth what its available balance, the two halves of its pending balance and the encrypted
  fees withheld on it commit to. An encrypted transfer moves worth between accounts and never changes
  the total; a deposit adds the commitment to its public amount, a withdrawal takes it away.
\<close>

section \<open>Worth\<close>

definition balance_worth :: "(point \<Rightarrow> 'g::ab_group_add) \<Rightarrow> confidential_transfer_account \<Rightarrow> 'g" where
  "balance_worth val e = committed val (cta_available_balance e) +
     committed_lo_hi val (cta_pending_balance_lo e) (cta_pending_balance_hi e)"

definition tlv_worth :: "(point \<Rightarrow> 'g::ab_group_add) \<Rightarrow> bytes \<Rightarrow> 'g" where
  "tlv_worth val tlv =
     (case get_extension AtAccount confidential_transfer_account_ext tlv of Inr e \<Rightarrow> balance_worth val e | Inl _ \<Rightarrow> 0) +
     (case get_extension AtAccount confidential_transfer_fee_amount_ext tlv of
        Inr f \<Rightarrow> committed val (ctfa_withheld_amount f) | Inl _ \<Rightarrow> 0)"

definition encrypted_worth :: "(point \<Rightarrow> 'g::ab_group_add) \<Rightarrow> acct \<Rightarrow> 'g" where
  "encrypted_worth val c =
     (if ac_owner c = TOKEN_2022_ID
      then (case unpack account_base (ac_data c) of Inr s \<Rightarrow> tlv_worth val (ps_tlv s) | Inl _ \<Rightarrow> 0) else 0)"

text \<open>The base states of all token accounts are kept, amounts, owners and delegates included.\<close>

definition same_bases :: "store \<Rightarrow> store \<Rightarrow> bool" where
  "same_bases st st' \<longleftrightarrow>
     (\<forall>a s. ac_owner (st a) = TOKEN_2022_ID \<longrightarrow> unpack account_base (ac_data (st a)) = Inr s \<longrightarrow>
        ac_owner (st' a) = TOKEN_2022_ID \<and> (\<exists>tlv. unpack account_base (ac_data (st' a)) = Inr (s\<lparr>ps_tlv := tlv\<rparr>)))"

lemma same_bases_refl [simp]: "same_bases st st"
  unfolding same_bases_def by (metis pod_state.surjective pod_state.update_convs(4))

lemma same_bases_trans: "same_bases a b \<Longrightarrow> same_bases b c \<Longrightarrow> same_bases a c"
  unfolding same_bases_def by (metis pod_state.cases_scheme pod_state.update_convs(4))

section \<open>Writes\<close>

lemma worth_put_account:
  assumes "get_extension AtAccount confidential_transfer_account_ext tlv = Inr e"
    and "put_extension AtAccount confidential_transfer_account_ext e' tlv = Inr tlv'"
  shows "tlv_worth val tlv' = tlv_worth val tlv + (balance_worth val e' - balance_worth val e)"
  using assms(1) confidential_transfer_account_x.put_get_same [OF assms(2)]
    same_except_get [OF put_same_except [OF assms(2)], of confidential_transfer_fee_amount_ext AtAccount]
  by (simp add: tlv_worth_def confidential_transfer_account_ext_def confidential_transfer_fee_amount_ext_def)

lemma worth_put_withheld:
  assumes "get_extension AtAccount confidential_transfer_fee_amount_ext tlv = Inr f"
    and "put_extension AtAccount confidential_transfer_fee_amount_ext f' tlv = Inr tlv'"
  shows "tlv_worth val tlv' = tlv_worth val tlv +
    (committed val (ctfa_withheld_amount f') - committed val (ctfa_withheld_amount f))"
  using assms(1) confidential_transfer_fee_amount_x.put_get_same [OF assms(2)]
    same_except_get [OF put_same_except [OF assms(2)], of confidential_transfer_account_ext AtAccount]
  by (simp add: tlv_worth_def confidential_transfer_account_ext_def confidential_transfer_fee_amount_ext_def)

lemma worth_same_except:
  assumes "same_except {TransferHookAccount} tlv tlv'"
  shows "tlv_worth val tlv' = tlv_worth val tlv"
  using same_except_get [OF assms, of confidential_transfer_fee_amount_ext AtAccount]
    same_except_get [OF assms, of confidential_transfer_account_ext AtAccount]
  by (simp add: tlv_worth_def confidential_transfer_account_ext_def confidential_transfer_fee_amount_ext_def)

text \<open>The total after one account was rewritten.\<close>

lemma worth_update:
  assumes s: "unpack account_base (ac_data (st k)) = Inr s" and len: "length tlv = length (ps_tlv s)"
    and b: "pod_account_is_initialized b"
    and w: "ac_owner (st k) = TOKEN_2022_ID \<Longrightarrow> tlv_worth val tlv = tlv_worth val (ps_tlv s) + d"
    and d: "ac_owner (st k) = TOKEN_2022_ID \<or> d = 0"
    and st': "st' = set_data k (state_bytes account_base (s\<lparr>ps_base := b, ps_tlv := tlv\<rparr>)) st"
  shows "(\<Sum>a\<in>UNIV. encrypted_worth val (st' a)) = (\<Sum>a\<in>UNIV. encrypted_worth val (st a)) + d"
    "unpack account_base (ac_data (st' k)) = Inr (s\<lparr>ps_base := b, ps_tlv := tlv\<rparr>)"
proof -
  show u: "unpack account_base (ac_data (st' k)) = Inr (s\<lparr>ps_base := b, ps_tlv := tlv\<rparr>)"
    using account_st.unpack_update [OF s, of b tlv] len b by (simp add: st')
  have other: "st' a = st a" if "a \<noteq> k" for a using that by (simp add: st' set_data_other)
  have own: "ac_owner (st' k) = ac_owner (st k)" by (simp add: st')
  have "encrypted_worth val (st' k) = encrypted_worth val (st k) + d"
    using s u w d own by (auto simp: encrypted_worth_def)
  moreover have "(\<Sum>a\<in>UNIV - {k}. encrypted_worth val (st' a)) = (\<Sum>a\<in>UNIV - {k}. encrypted_worth val (st a))"
    using other by (intro sum.cong) auto
  ultimately show "(\<Sum>a\<in>UNIV. encrypted_worth val (st' a)) = (\<Sum>a\<in>UNIV. encrypted_worth val (st a)) + d"
    by (simp add: sum.remove [of UNIV k] algebra_simps)
qed

lemma worth_write:
  assumes s: "unpack account_base (ac_data (st k)) = Inr s" and len: "length tlv = length (ps_tlv s)"
    and w: "ac_owner (st k) = TOKEN_2022_ID \<Longrightarrow> tlv_worth val tlv = tlv_worth val (ps_tlv s) + d"
    and d: "ac_owner (st k) = TOKEN_2022_ID \<or> d = 0"
    and st': "st' = set_data k (state_bytes account_base (s\<lparr>ps_tlv := tlv\<rparr>)) st"
  shows "(\<Sum>a\<in>UNIV. encrypted_worth val (st' a)) = (\<Sum>a\<in>UNIV. encrypted_worth val (st a)) + d" "same_bases st st'"
proof -
  have "st' = set_data k (state_bytes account_base (s\<lparr>ps_base := ps_base s, ps_tlv := tlv\<rparr>)) st" by (simp add: st')
  note up = worth_update [OF s len _ w d this, simplified]
  then show "(\<Sum>a\<in>UNIV. encrypted_worth val (st' a)) = (\<Sum>a\<in>UNIV. encrypted_worth val (st a)) + d"
    using unpack_account_initialized [OF s] by simp
  show "same_bases st st'"
    unfolding same_bases_def
  proof (intro allI impI)
    fix a x assume "ac_owner (st a) = TOKEN_2022_ID" and x: "unpack account_base (ac_data (st a)) = Inr x"
    then show "ac_owner (st' a) = TOKEN_2022_ID \<and> (\<exists>tlv. unpack account_base (ac_data (st' a)) = Inr (x\<lparr>ps_tlv := tlv\<rparr>))"
      using up(2) unpack_account_initialized [OF s] s x
      by (cases "a = k") (auto simp: st' set_data_other intro: exI [of _ "ps_tlv x"])
  qed
qed

section \<open>Encrypted transfers\<close>

text \<open>What a pair of grouped ciphertexts, the two halves of an amount, commits to.\<close>

definition grouped_worth :: "(grouped_ciphertext \<Rightarrow> point) \<Rightarrow> (point \<Rightarrow> 'g::ab_group_add) \<Rightarrow>
    grouped_ciphertext \<Rightarrow> grouped_ciphertext \<Rightarrow> 'g" where
  "grouped_worth commitment val lo hi = val (commitment lo) + multiple 65536 (val (commitment hi))"

lemma debit_Inr:
  assumes "debit_confidential_source Z P program_id src em auth signers k tlo thi new d st = Inr st'"
  obtains s e lo hi tlv where "ac_owner (st (ai_key src)) = TOKEN_2022_ID"
    "unpack account_base (ac_data (st (ai_key src))) = Inr s"
    "get_extension AtAccount confidential_transfer_account_ext (ps_tlv s) = Inr e"
    "zk_extract_3 Z tlo 0 = Some lo" "zk_extract_3 Z thi 0 = Some hi"
    "subtract_with_lo_hi (zk_curve Z) (cta_available_balance e) lo hi = Some new"
    "put_extension AtAccount confidential_transfer_account_ext
       (e\<lparr>cta_available_balance := new, cta_decryptable_available_balance := d\<rparr>) (ps_tlv s) = Inr tlv"
    "st' = set_data (ai_key src) (state_bytes account_base (s\<lparr>ps_tlv := tlv\<rparr>)) st"
proof -
  from assms show thesis
    by (clarsimp simp: debit_confidential_source_def result_simps info_owner_def on_tlv_Inr curve_result_def
        extraction_result_def pod_transfer_amount_try_extract_def split: sum.split_asm)
      (rule that; (assumption | rule refl | simp))
qed

lemma credit_Inr:
  assumes "credit_confidential_destination Z P dst em k tlo thi fee st = Inr st'"
  obtains s e lo hi lo' hi' e' tlv where "ac_owner (st (ai_key dst)) = TOKEN_2022_ID"
    "unpack account_base (ac_data (st (ai_key dst))) = Inr s"
    "get_extension AtAccount confidential_transfer_account_ext (ps_tlv s) = Inr e"
    "zk_extract_3 Z tlo 1 = Some lo" "zk_extract_3 Z thi 1 = Some hi"
    "ciphertext_add (zk_curve Z) (cta_pending_balance_lo e) lo = Some lo'"
    "ciphertext_add (zk_curve Z) (cta_pending_balance_hi e) hi = Some hi'"
    "increment_pending_balance_credit_counter (e\<lparr>cta_pending_balance_lo := lo', cta_pending_balance_hi := hi'\<rparr>) = Inr e'"
    "fee e' (ps_tlv s) = Inr tlv"
    "st' = set_data (ai_key dst) (state_bytes account_base (s\<lparr>ps_tlv := tlv\<rparr>)) st"
proof -
  from assms show thesis
    by (clarsimp simp: credit_confidential_destination_def result_simps info_owner_def on_tlv_Inr curve_result_def
        extraction_result_def pod_transfer_amount_try_extract_def split: sum.split_asm)
      (rule that; (assumption | rule refl | simp))
qed

lemma increment_worth:
  "increment_pending_balance_credit_counter e = Inr e' \<Longrightarrow> balance_worth val e' = balance_worth val e"
  by (auto simp: increment_pending_balance_credit_counter_def balance_worth_def result_simps)

lemma debit_worth:
  assumes run: "debit_confidential_source Z P program_id src em auth signers k tlo thi new d st = Inr st'"
    and laws: "curve_laws (zk_curve Z) val" "extraction_laws Z"
  shows "(\<Sum>a\<in>UNIV. encrypted_worth val (st' a)) =
      (\<Sum>a\<in>UNIV. encrypted_worth val (st a)) + - grouped_worth (zk_commitment_3 Z) val tlo thi"
    "same_bases st st'"
proof -
  obtain s e lo hi tlv where own: "ac_owner (st (ai_key src)) = TOKEN_2022_ID"
    and s: "unpack account_base (ac_data (st (ai_key src))) = Inr s"
    and e: "get_extension AtAccount confidential_transfer_account_ext (ps_tlv s) = Inr e"
    and x: "zk_extract_3 Z tlo 0 = Some lo" "zk_extract_3 Z thi 0 = Some hi"
    and new: "subtract_with_lo_hi (zk_curve Z) (cta_available_balance e) lo hi = Some new"
    and put: "put_extension AtAccount confidential_transfer_account_ext
       (e\<lparr>cta_available_balance := new, cta_decryptable_available_balance := d\<rparr>) (ps_tlv s) = Inr tlv"
    and st': "st' = set_data (ai_key src) (state_bytes account_base (s\<lparr>ps_tlv := tlv\<rparr>)) st"
    using run by (rule debit_Inr)
  have "tlv_worth val tlv = tlv_worth val (ps_tlv s) + - grouped_worth (zk_commitment_3 Z) val tlo thi"
    using worth_put_account [OF e put, of val] committed_operations(5) [OF laws(1) new]
      committed_extract(1) [OF laws(2) x(1), of val] committed_extract(1) [OF laws(2) x(2), of val]
    by (simp add: balance_worth_def grouped_worth_def committed_lo_hi_def)
  note w = worth_write [OF s _ this _ st']
  show "(\<Sum>a\<in>UNIV. encrypted_worth val (st' a)) =
      (\<Sum>a\<in>UNIV. encrypted_worth val (st a)) + - grouped_worth (zk_commitment_3 Z) val tlo thi"
    "same_bases st st'"
    using w own same_except_length [OF put_same_except [OF put]] by simp_all
qed

lemma withhold_worth:
  assumes run: "withhold_confidential_fee Z c e' tlv = Inr tlv'"
    and e: "get_extension AtAccount confidential_transfer_account_ext tlv = Inr e"
    and laws: "curve_laws (zk_curve Z) val" "extraction_laws Z"
  shows "tlv_worth val tlv' = tlv_worth val tlv + (balance_worth val e' - balance_worth val e)" "length tlv' = length tlv"
proof -
  obtain lo hi lo' hi' tlv1 alo ahi f w where x: "zk_extract_2 Z (fp_fee_ciphertext_lo c) 0 = Some lo"
      "zk_extract_2 Z (fp_fee_ciphertext_hi c) 0 = Some hi"
      "zk_extract_2 Z (fp_fee_ciphertext_lo c) 1 = Some alo" "zk_extract_2 Z (fp_fee_ciphertext_hi c) 1 = Some ahi"
    and p: "ciphertext_subtract (zk_curve Z) (cta_pending_balance_lo e') lo = Some lo'"
      "ciphertext_subtract (zk_curve Z) (cta_pending_balance_hi e') hi = Some hi'"
    and put1: "put_extension AtAccount confidential_transfer_account_ext
        (e'\<lparr>cta_pending_balance_lo := lo', cta_pending_balance_hi := hi'\<rparr>) tlv = Inr tlv1"
    and f: "get_extension AtAccount confidential_transfer_fee_amount_ext tlv1 = Inr f"
    and w: "add_with_lo_hi (zk_curve Z) (ctfa_withheld_amount f) alo ahi = Some w"
    and put2: "put_extension AtAccount confidential_transfer_fee_amount_ext (f\<lparr>ctfa_withheld_amount := w\<rparr>) tlv1 = Inr tlv'"
  proof -
    from run show thesis
      by (clarsimp simp: withhold_confidential_fee_def result_simps curve_result_def
          extraction_result_def pod_fee_try_extract_def split: sum.split_asm)
        (rule that; (assumption | rule refl | simp))
  qed
  note ext = committed_extract(2) [OF laws(2) x(1), of val] committed_extract(2) [OF laws(2) x(2), of val]
    committed_extract(2) [OF laws(2) x(3), of val] committed_extract(2) [OF laws(2) x(4), of val]
  show "tlv_worth val tlv' = tlv_worth val tlv + (balance_worth val e' - balance_worth val e)"
    using worth_put_account [OF e put1, of val] worth_put_withheld [OF f put2, of val] ext
      committed_operations(2) [OF laws(1) p(1)] committed_operations(2) [OF laws(1) p(2)]
      committed_operations(4) [OF laws(1) w]
    by (simp add: balance_worth_def committed_lo_hi_def multiple_diff)
  show "length tlv' = length tlv"
    using same_except_length [OF put_same_except [OF put1]] same_except_length [OF put_same_except [OF put2]] by simp
qed

lemma credit_worth:
  assumes run: "credit_confidential_destination Z P dst em k tlo thi fee st = Inr st'"
    and fee: "fee = put_extension AtAccount confidential_transfer_account_ext \<or> (\<exists>c. fee = withhold_confidential_fee Z c)"
    and laws: "curve_laws (zk_curve Z) val" "extraction_laws Z"
  shows "(\<Sum>a\<in>UNIV. encrypted_worth val (st' a)) =
      (\<Sum>a\<in>UNIV. encrypted_worth val (st a)) + grouped_worth (zk_commitment_3 Z) val tlo thi"
    "same_bases st st'"
proof -
  obtain s e lo hi lo' hi' e' tlv where own: "ac_owner (st (ai_key dst)) = TOKEN_2022_ID"
    and s: "unpack account_base (ac_data (st (ai_key dst))) = Inr s"
    and e: "get_extension AtAccount confidential_transfer_account_ext (ps_tlv s) = Inr e"
    and x: "zk_extract_3 Z tlo 1 = Some lo" "zk_extract_3 Z thi 1 = Some hi"
    and p: "ciphertext_add (zk_curve Z) (cta_pending_balance_lo e) lo = Some lo'"
      "ciphertext_add (zk_curve Z) (cta_pending_balance_hi e) hi = Some hi'"
    and inc: "increment_pending_balance_credit_counter (e\<lparr>cta_pending_balance_lo := lo', cta_pending_balance_hi := hi'\<rparr>) = Inr e'"
    and f: "fee e' (ps_tlv s) = Inr tlv"
    and st': "st' = set_data (ai_key dst) (state_bytes account_base (s\<lparr>ps_tlv := tlv\<rparr>)) st"
    using run by (rule credit_Inr)
  have b: "balance_worth val e' - balance_worth val e = grouped_worth (zk_commitment_3 Z) val tlo thi"
    using increment_worth [OF inc, of val] committed_operations(1) [OF laws(1) p(1)] committed_operations(1) [OF laws(1) p(2)]
      committed_extract(1) [OF laws(2) x(1), of val] committed_extract(1) [OF laws(2) x(2), of val]
    by (simp add: balance_worth_def grouped_worth_def committed_lo_hi_def multiple_add algebra_simps)
  have t: "tlv_worth val tlv = tlv_worth val (ps_tlv s) + (balance_worth val e' - balance_worth val e) \<and> length tlv = length (ps_tlv s)"
    using fee f worth_put_account [OF e] withhold_worth [OF _ e laws]
      same_except_length [OF put_same_except [of AtAccount confidential_transfer_account_ext e' "ps_tlv s" tlv]] by auto
  then have "tlv_worth val tlv = tlv_worth val (ps_tlv s) + grouped_worth (zk_commitment_3 Z) val tlo thi"
    by (simp add: b)
  note w = worth_write [OF s _ this _ st']
  show "(\<Sum>a\<in>UNIV. encrypted_worth val (st' a)) =
      (\<Sum>a\<in>UNIV. encrypted_worth val (st a)) + grouped_worth (zk_commitment_3 Z) val tlo thi"
    "same_bases st st'"
    using w own t by simp_all
qed

text \<open>Other programs cannot write into the accounts of this one, and what they hand over is zeroed.\<close>

lemma zeros_no_account: "unpack account_base (replicate n 0) \<noteq> Inr s"
proof
  assume a: "unpack account_base (replicate n 0) = Inr s"
  have "take 165 (state_bytes account_base s) = pod_account_to_bytes (ps_base s)"
    by (simp add: state_bytes_def)
  then have "ps_base s = pod_account_of_bytes (take 165 (replicate n 0))"
    using account_st.unpack_bytes [OF a] account_st.of_to_bytes [of "ps_base s"] by simp
  with unpack_account_initialized [OF a] show False
    by (auto simp: pod_account_is_initialized_def pod_account_of_bytes_def seg_def take_replicate)
qed

lemma worth_foreign:
  assumes "token_frame {} st st'"
  shows "(\<Sum>a\<in>UNIV. encrypted_worth val (st' a)) = (\<Sum>a\<in>UNIV. encrypted_worth val (st a))" "same_bases st st'"
proof -
  have "encrypted_worth val (st' a) = encrypted_worth val (st a)" for a
  proof (cases "ac_owner (st a) = TOKEN_2022_ID")
    case True
    with token_frameD(2,3) [OF assms, of a] show ?thesis by (simp add: encrypted_worth_def)
  next
    case False
    then have "unpack account_base (ac_data (st' a)) \<noteq> Inr s" if "ac_owner (st' a) = TOKEN_2022_ID" for s
      using assms that zeros_no_account unfolding token_frame_def by (metis empty_iff)
    with False show ?thesis by (auto simp: encrypted_worth_def split: sum.split)
  qed
  then show "(\<Sum>a\<in>UNIV. encrypted_worth val (st' a)) = (\<Sum>a\<in>UNIV. encrypted_worth val (st a))" by simp
  show "same_bases st st'"
    unfolding same_bases_def
  proof (intro allI impI)
    fix a x assume "ac_owner (st a) = TOKEN_2022_ID" and x: "unpack account_base (ac_data (st a)) = Inr x"
    with token_frameD(2,3) [OF assms, of a]
    show "ac_owner (st' a) = TOKEN_2022_ID \<and> (\<exists>tlv. unpack account_base (ac_data (st' a)) = Inr (x\<lparr>ps_tlv := tlv\<rparr>))"
      by (auto intro: exI [of _ "ps_tlv x"])
  qed
qed

lemma transferring_worth:
  assumes "initialized_view account_base k (on_tlv f) st = Inr st'"
    and f: "\<And>tlv tlv'. f tlv = Inr tlv' \<Longrightarrow> same_except {TransferHookAccount} tlv tlv'"
  shows "(\<Sum>a\<in>UNIV. encrypted_worth val (st' a)) = (\<Sum>a\<in>UNIV. encrypted_worth val (st a))" "same_bases st st'"
proof -
  obtain s tlv where s: "unpack account_base (ac_data (st k)) = Inr s" "f (ps_tlv s) = Inr tlv"
    and st': "st' = set_data k (state_bytes account_base (s\<lparr>ps_tlv := tlv\<rparr>)) st"
    using assms(1) by (auto simp: initialized_view_Inr on_tlv_Inr)
  note sx = f [OF s(2)]
  note w = worth_write [OF s(1) same_except_length [OF sx] _ _ st', of val 0]
  then show "(\<Sum>a\<in>UNIV. encrypted_worth val (st' a)) = (\<Sum>a\<in>UNIV. encrypted_worth val (st a))" "same_bases st st'"
    using worth_same_except [OF sx, of val] by simp_all
qed

lemma hook_worth:
  assumes run: "invoke_confidential_hook P hook src m dst auth signers st = Inr st'" and laws: "hook_laws P"
  shows "(\<Sum>a\<in>UNIV. encrypted_worth val (st' a)) = (\<Sum>a\<in>UNIV. encrypted_worth val (st a))" "same_bases st st'"
proof -
  have "(\<Sum>a\<in>UNIV. encrypted_worth val (st' a)) = (\<Sum>a\<in>UNIV. encrypted_worth val (st a)) \<and> same_bases st st'"
  proof (cases hook)
    case (Some k)
    with run obtain st1 st2 st3 st4 where
      r: "initialized_view account_base (ai_key src) (on_tlv (set_transferring P)) st = Inr st1"
      "initialized_view account_base (ai_key dst) (on_tlv (set_transferring P)) st1 = Inr st2"
      "pl_transfer_hook_execute P k src m dst auth signers (- 1) st2 = Inr st3"
      "initialized_view account_base (ai_key src) (on_tlv (clear_transferring P)) st3 = Inr st4"
      "initialized_view account_base (ai_key dst) (on_tlv (clear_transferring P)) st4 = Inr st'"
      by (auto simp: invoke_confidential_hook_def unset_transferring_def result_simps(1) simp del: initialized_view_Inr)
    have "token_frame {} st2 st3"
      using r(3) laws token_frame_cpi unfolding hook_laws_def by blast
    note f = worth_foreign [OF this]
    note t = transferring_worth [OF r(1) transferring_same_except(1) [where P = P]]
      transferring_worth [OF r(2) transferring_same_except(1) [where P = P]]
      transferring_worth [OF r(4) transferring_same_except(2) [where P = P]]
      transferring_worth [OF r(5) transferring_same_except(2) [where P = P]]
    have "same_bases st st'" using f(2) t(2,4,6,8) same_bases_trans by blast
    with f(1) [of val] t(1,3,5,7) [of val] show ?thesis by simp
  qed (use run in \<open>simp add: invoke_confidential_hook_def\<close>)
  then show "(\<Sum>a\<in>UNIV. encrypted_worth val (st' a)) = (\<Sum>a\<in>UNIV. encrypted_worth val (st a))" "same_bases st st'"
    by simp_all
qed

text \<open>
  C4. An encrypted transfer, with or without fee, to another account or to the same, conserves the total
  worth of all encrypted balances and withheld fees, and leaves the public state of every token account,
  its amount, owner and delegate, as it was.
\<close>

theorem confidential_transfer_conserves:
  assumes run: "confidential_process_transfer Z P program_id accounts d lo hi n1 n2 n3 n4 n5 st = Inr st'"
    and laws: "curve_laws (zk_curve Z) val" "extraction_laws Z" "hook_laws P"
  shows "(\<Sum>a\<in>UNIV. encrypted_worth val (st' a)) = (\<Sum>a\<in>UNIV. encrypted_worth val (st a)) \<and> same_bases st st'"
proof -
  obtain src em dst auth signers k k' tlo thi new fee hook st1 st2 where
    fee: "fee = put_extension AtAccount confidential_transfer_account_ext \<or>
       ai_key src \<noteq> ai_key dst \<and> (\<exists>c. fee = withhold_confidential_fee Z c)"
    and s1: "debit_confidential_source Z P program_id src em auth signers k tlo thi new d st = Inr st1"
    and s2: "credit_confidential_destination Z P dst em k' tlo thi fee st1 = Inr st2"
    and h: "invoke_confidential_hook P hook src em dst auth signers st2 = Inr st'"
    using run by (rule confidential_transfer_Inr)
  have "fee = put_extension AtAccount confidential_transfer_account_ext \<or> (\<exists>c. fee = withhold_confidential_fee Z c)"
    using fee by blast
  note w = debit_worth [OF s1 laws(1,2)] credit_worth [OF s2 this laws(1,2)] hook_worth [OF h laws(3)]
  have "same_bases st st'" using w(2,4,6) same_bases_trans by blast
  with w(1,3) w(5) [of val] show ?thesis by simp
qed

section \<open>Deposits and withdrawals\<close>

lemma split_amount: "unat (and amount 65535) + 65536 * unat (drop_bit 16 amount) = unat (amount :: u64)"
proof -
  have "mask 16 = (65535 :: u64)" by (simp add: mask_eq_exp_minus_1)
  then have "unat (and amount 65535) = take_bit 16 (unat amount)"
    by (simp only: flip: \<open>mask 16 = 65535\<close> take_bit_eq_mask) (simp only: unsigned_take_bit_eq)
  then have "unat (and amount 65535) = unat amount mod 65536" by (simp add: take_bit_eq_mod)
  moreover have "unat (drop_bit 16 amount) = unat amount div 65536"
    by (simp add: drop_bit_eq_div unat_div_distrib)
  ultimately show ?thesis by simp
qed

lemma deposit_limit: "amount \<le> MAXIMUM_DEPOSIT_TRANSFER_AMOUNT \<longleftrightarrow> unat amount < 2 ^ 48"
proof -
  have "unat MAXIMUM_DEPOSIT_TRANSFER_AMOUNT = 2 ^ 48 - 1"
    by (simp add: MAXIMUM_DEPOSIT_TRANSFER_AMOUNT_def)
  then show ?thesis by (simp add: word_le_nat_alt less_Suc_eq_le flip: less_Suc_eq_le)
qed


text \<open>
  C6. A successful withdrawal is authorised by the owner of an unfrozen account of the mint, adds exactly
  the amount to the account and changes no other; the encrypted balances are worth less by the bare
  commitment to the amount, and what is left available is, under the account's own key, the ciphertext
  that the accompanying proofs speak of.
\<close>

theorem withdraw_correct:
  assumes "process_withdraw Z P program_id accounts amount decimals d n1 n2 st = Inr st'"
    and laws: "curve_laws (zk_curve Z) val"
  shows "\<exists>i m it auth signers c s e tlv. accounts = i # m # it \<and>
    verify_withdraw_proof Z it n1 n2 st = Inr (c, auth # signers) \<and>
    unpack account_base (info_data st i) = Inr s \<and> a_mint (ps_base s) = ai_key m \<and> \<not> is_frozen (ps_base s) \<and>
    authorizes P program_id (a_owner (ps_base s)) auth signers st \<and>
    unat (a_amount (ps_base s)) + unat amount < 2 ^ 64 \<and>
    st' = set_data (ai_key i) (state_bytes account_base
      (s\<lparr>ps_base := (ps_base s)\<lparr>a_amount := a_amount (ps_base s) + amount\<rparr>, ps_tlv := tlv\<rparr>)) st \<and>
    get_extension AtAccount confidential_transfer_account_ext tlv = Inr e \<and>
    cta_elgamal_pubkey e = wp_source_pubkey c \<and> cta_available_balance e = wp_remaining_balance_ciphertext c \<and>
    (\<Sum>a\<in>UNIV. encrypted_worth val (st' a)) =
      (\<Sum>a\<in>UNIV. encrypted_worth val (st a)) - multiple (unat amount) (val ristretto_G)"
  using assms(1)
proof (rule withdraw_Inr)
  fix i m it s e c auth signers v new tlv
  assume acc: "accounts = i # m # it"
    and s: "unpack account_base (ac_data (st (ai_key i))) = Inr s" and own: "ac_owner (st (ai_key i)) = TOKEN_2022_ID"
    and chk: "check_public_account P program_id m auth signers s st = Inr ()"
    and proofs: "verify_withdraw_proof Z it n1 n2 st = Inr (c, auth # signers)"
    and e: "get_extension AtAccount confidential_transfer_account_ext (ps_tlv s) = Inr e"
    and key: "cta_elgamal_pubkey e = wp_source_pubkey c"
    and v: "(if amount > 0 then subtract_from (zk_curve Z) (cta_available_balance e) amount
      else Some (cta_available_balance e)) = Some v" "v = wp_remaining_balance_ciphertext c"
    and put: "put_extension AtAccount confidential_transfer_account_ext
       (e\<lparr>cta_available_balance := v, cta_decryptable_available_balance := d\<rparr>) (ps_tlv s) = Inr tlv"
    and new: "checked_add (a_amount (ps_base s)) amount = Some new"
    and st': "st' = set_data (ai_key i) (state_bytes account_base
       (s\<lparr>ps_base := (ps_base s)\<lparr>a_amount := new\<rparr>, ps_tlv := tlv\<rparr>)) st"
  let ?d = "- multiple (unat amount) (val ristretto_G)"
  have "committed val v = committed val (cta_available_balance e) + ?d"
    using v(1) committed_operations(8) [OF laws, of "cta_available_balance e" amount v]
    by (auto simp: word_gt_0 split: if_splits)
  then have w: "tlv_worth val tlv = tlv_worth val (ps_tlv s) + ?d"
    using worth_put_account [OF e put, of val] by (simp add: balance_worth_def)
  have b: "pod_account_is_initialized ((ps_base s)\<lparr>a_amount := new\<rparr>)"
    using unpack_account_initialized [OF s] by (simp add: pod_account_is_initialized_def)
  have sum: "(\<Sum>a\<in>UNIV. encrypted_worth val (st' a)) = (\<Sum>a\<in>UNIV. encrypted_worth val (st a)) + ?d"
    using worth_update(1) [OF s _ b w _ st'] own same_except_length [OF put_same_except [OF put]] by simp
  have "unat (a_amount (ps_base s)) + unat amount < 2 ^ 64" "new = a_amount (ps_base s) + amount"
    using new by (auto simp: checked_add_def split: if_splits)
  with sum acc s st' proofs key v(2) check_public_account_Inr [OF chk] confidential_transfer_account_x.put_get_same [OF put]
  show ?thesis
    by (simp add: info_data_def)
      (rule exI [of _ "e\<lparr>cta_available_balance := v, cta_decryptable_available_balance := d\<rparr>"], rule exI [of _ tlv], simp)
qed

section \<open>Applying what was received\<close>

text \<open>
  C7. Applying the pending balance moves its whole worth into the available balance and leaves nothing
  pending; the total, and the public state of every account, stay what they were; and the account
  records how many credits were applied, next to how many its owner expected.
\<close>

theorem apply_pending_balance_correct:
  assumes "process_apply_pending_balance Z P program_id (i # rest) expected d st = Inr st'"
    and laws: "curve_laws (zk_curve Z) val"
  shows "(\<Sum>a\<in>UNIV. encrypted_worth val (st' a)) = (\<Sum>a\<in>UNIV. encrypted_worth val (st a)) \<and> same_bases st st' \<and>
    (\<exists>s s' e e'. unpack account_base (info_data st i) = Inr s \<and> unpack account_base (info_data st' i) = Inr s' \<and>
       get_extension AtAccount confidential_transfer_account_ext (ps_tlv s) = Inr e \<and>
       get_extension AtAccount confidential_transfer_account_ext (ps_tlv s') = Inr e' \<and>
       committed val (cta_available_balance e') = balance_worth val e \<and>
       cta_pending_balance_lo e' = 0 \<and> cta_pending_balance_hi e' = 0 \<and> cta_pending_balance_credit_counter e' = 0 \<and>
       cta_actual_pending_balance_credit_counter e' = cta_pending_balance_credit_counter e \<and>
       cta_expected_pending_balance_credit_counter e' = expected)"
proof -
  obtain s e v tlv where own: "ac_owner (st (ai_key i)) = TOKEN_2022_ID"
    and s: "unpack account_base (ac_data (st (ai_key i))) = Inr s"
    and e: "get_extension AtAccount confidential_transfer_account_ext (ps_tlv s) = Inr e"
    and v: "add_with_lo_hi (zk_curve Z) (cta_available_balance e) (cta_pending_balance_lo e) (cta_pending_balance_hi e) = Some v"
    and put: "put_extension AtAccount confidential_transfer_account_ext (e\<lparr>cta_available_balance := v,
        cta_actual_pending_balance_credit_counter := cta_pending_balance_credit_counter e,
        cta_expected_pending_balance_credit_counter := expected, cta_decryptable_available_balance := d,
        cta_pending_balance_credit_counter := 0, cta_pending_balance_lo := 0, cta_pending_balance_hi := 0\<rparr>)
        (ps_tlv s) = Inr tlv"
    and st': "st' = set_data (ai_key i) (state_bytes account_base (s\<lparr>ps_tlv := tlv\<rparr>)) st"
  proof -
    from assms(1) show thesis
      by (clarsimp simp: process_apply_pending_balance_def owner_updates_confidential_account_def result_simps
          info_owner_def on_tlv_Inr curve_result_def)
        (rule that; (assumption | rule refl | simp))
  qed
  note z = committed_zero [OF laws]
  have bal: "committed val v = balance_worth val e"
    using committed_operations(4) [OF laws v] by (simp add: balance_worth_def)
  then have "tlv_worth val tlv = tlv_worth val (ps_tlv s) + 0"
    using worth_put_account [OF e put, of val] by (simp add: balance_worth_def committed_lo_hi_def z)
  note w = worth_write [OF s _ this _ st']
  have len: "length tlv = length (ps_tlv s)" using same_except_length [OF put_same_except [OF put]] by simp
  have "unpack account_base (info_data st' i) = Inr (s\<lparr>ps_tlv := tlv\<rparr>)"
    using unpack_account_update [OF s, of "ps_base s" tlv] unpack_account_initialized [OF s] len
    by (simp add: st' info_data_def)
  with w len own s e bal confidential_transfer_account_x.put_get_same [OF put] show ?thesis
    by (simp add: info_data_def)
qed

section \<open>Concrete instances\<close>

text \<open>
  Accounts 5 and 6 of owner 30 hold tokens of mint 4, and encrypted balances under the keys 71 and 72,
  on the curve of 256-bit words.
\<close>

definition sample_balance :: "elgamal_pubkey \<Rightarrow> ciphertext \<Rightarrow> ciphertext \<Rightarrow> confidential_transfer_account" where
  "sample_balance k pending available =
     \<lparr>cta_approved = 1, cta_elgamal_pubkey = k, cta_pending_balance_lo = pending, cta_pending_balance_hi = 0,
      cta_available_balance = available, cta_decryptable_available_balance = 0,
      cta_allow_confidential_credits = 1, cta_allow_non_confidential_credits = 1,
      cta_pending_balance_credit_counter = 3, cta_maximum_pending_balance_credit_counter = 10,
      cta_expected_pending_balance_credit_counter = 0, cta_actual_pending_balance_credit_counter = 0\<rparr>"

definition sample_encrypted :: "u64 \<Rightarrow> confidential_transfer_account \<Rightarrow> pod_account pod_state" where
  "sample_encrypted amount e =
     single account_base (sample_account 4 30 amount Initialized) confidential_transfer_account_ext e"

lemma sample_encrypted_simps [simp]:
  "ps_base (sample_encrypted n e) = sample_account 4 30 n Initialized"
  "unpack account_base (state_bytes account_base (sample_encrypted n e)) = Inr (sample_encrypted n e)"
  "get_extension AtAccount confidential_transfer_account_ext (ps_tlv (sample_encrypted n e)) = Inr e"
  "put_extension AtAccount confidential_transfer_account_ext e' (ps_tlv (sample_encrypted n e)) =
     Inr (ps_tlv (sample_encrypted n e'))"
  "(sample_encrypted n e)\<lparr>ps_base := sample_account 4 30 n' Initialized, ps_tlv := ps_tlv (sample_encrypted n e')\<rparr> =
     sample_encrypted n' e'"
  "(sample_encrypted n e)\<lparr>ps_tlv := ps_tlv (sample_encrypted n e')\<rparr> = sample_encrypted n e'"
proof -
  have x: "vx_len confidential_transfer_account_ext < 2 ^ 16"
    "get_account_type (vx_type confidential_transfer_account_ext) = AtAccount"
    by (simp_all add: confidential_transfer_account_ext_def get_account_type_def)
  have len: "length (vx_to_bytes confidential_transfer_account_ext e) \<noteq> 185" for e
    by (simp add: confidential_transfer_account_x.length_to_bytes) (simp add: confidential_transfer_account_ext_def)
  show "ps_base (sample_encrypted n e) = sample_account 4 30 n Initialized"
    "(sample_encrypted n e)\<lparr>ps_base := sample_account 4 30 n' Initialized, ps_tlv := ps_tlv (sample_encrypted n e')\<rparr> =
      sample_encrypted n' e'"
    "(sample_encrypted n e)\<lparr>ps_tlv := ps_tlv (sample_encrypted n e')\<rparr> = sample_encrypted n e'"
    by (simp_all only: sample_encrypted_def single_simps)
  show "unpack account_base (state_bytes account_base (sample_encrypted n e)) = Inr (sample_encrypted n e)"
    unfolding sample_encrypted_def using len by (intro unpack_single_account) simp_all
  show "get_extension AtAccount confidential_transfer_account_ext (ps_tlv (sample_encrypted n e)) = Inr e"
    "put_extension AtAccount confidential_transfer_account_ext e' (ps_tlv (sample_encrypted n e)) =
      Inr (ps_tlv (sample_encrypted n e'))"
    unfolding sample_encrypted_def single_simps
    by (rule confidential_transfer_account_x.get_entry [OF x] confidential_transfer_account_x.put_entry [OF x])+
qed

lemma sample_encrypted_other:
  "vx_type V \<noteq> ConfidentialTransferAccount \<Longrightarrow> get_extension at V (ps_tlv (sample_encrypted n e)) = Inl InvalidAccountData"
  unfolding sample_encrypted_def single_simps
  by (rule no_get_other) (simp_all add: confidential_transfer_account_ext_def confidential_transfer_account_x.length_to_bytes)

definition sample_deposit_store :: store where
  "sample_deposit_store = sample_store
     [(4, token_acct 200 (pod_mint_to_bytes (sample_mint 50))),
      (5, token_acct 200 (state_bytes account_base (sample_encrypted 50 (sample_balance 71 0 500))))]"

lemma sample_deposit_store_simps [simp]:
  "sample_deposit_store 4 = token_acct 200 (pod_mint_to_bytes (sample_mint 50))"
  "sample_deposit_store 5 = token_acct 200 (state_bytes account_base (sample_encrypted 50 (sample_balance 71 0 500)))"
  "sample_deposit_store 30 = empty_acct"
  by (simp_all add: sample_deposit_store_def)

lemma sample_owner_signs:
  assumes "st 30 = empty_acct"
  shows "validate_owner sample_platform TOKEN_2022_ID 30 (signer_info 30) 0 [] st = Inr ()"
  using validate_owner_authorizes [of sample_platform TOKEN_2022_ID 30 "signer_info 30" st "[]"] assms
    sample_signer_authorizes [of st 30 sample_platform TOKEN_2022_ID "[]"]
  by (simp add: info_data_def empty_acct_def)

lemma sample_not_non_transferable:
  "get_extension AtAccount non_transferable_account_ext (ps_tlv (sample_encrypted n e)) = Inl InvalidAccountData"
  by (rule sample_encrypted_other) (simp add: non_transferable_account_ext_def)

lemma sample_zk_curve: "zk_curve sample_zk = word_curve" "curve_laws (zk_curve sample_zk) (\<lambda>p. p)"
  by (simp_all add: sample_zk_def word_curve_laws)

lemma sample_flag [simp]: "pl_bool_from_pod sample_platform = (\<lambda>b. b \<noteq> 0)"
  by (simp add: sample_platform_def)


text \<open>A context account of the proof program: an authority, the type of the proof, and the context.\<close>

definition context_acct :: "u8 \<Rightarrow> bytes \<Rightarrow> acct" where
  "context_acct t context = \<lparr>ac_owner = 60, ac_lamports = 9, ac_data = replicate 32 0 @ [t] @ context\<rparr>"

definition equality_context :: "elgamal_pubkey \<Rightarrow> ciphertext \<Rightarrow> acct" where
  "equality_context k c = context_acct 3 (le_bytes 32 k @ le_bytes 64 c @ le_bytes 32 (90 :: point))"

definition range_context :: "u8 \<Rightarrow> point list \<Rightarrow> bytes \<Rightarrow> acct" where
  "range_context t commitments lengths = context_acct t (concat (List.map (le_bytes 32) commitments) @ lengths)"

lemma equality_context_read:
  "ac_owner (equality_context k c) = 60"
  "pk_context_state (zk_ciphertext_commitment_equality sample_zk) (ac_data (equality_context k c)) =
     Some (3, \<lparr>cmc_pubkey = k, cmc_ciphertext = c, cmc_commitment = 90\<rparr>)"
  by (simp_all add: equality_context_def context_acct_def sample_zk_def sample_kind_def codec_simps nth_append)

lemma range_context_read:
  "ac_owner (range_context t cs ls) = 60"
  "length ls = 8 \<Longrightarrow> pk_context_state (zk_range_proof_u64 sample_zk) (ac_data (range_context t [a, b, c, d, e, f, g, h] ls)) =
     Some (t, \<lparr>rpc_commitments = [a, b, c, d, e, f, g, h], rpc_bit_lengths = ls\<rparr>)"
  "length ls = 8 \<Longrightarrow> pk_context_state (zk_range_proof_u128 sample_zk) (ac_data (range_context t [a, b, c, d, e, f, g, h] ls)) =
     Some (t, \<lparr>rpc_commitments = [a, b, c, d, e, f, g, h], rpc_bit_lengths = ls\<rparr>)"
  by (simp_all add: range_context_def context_acct_def sample_zk_def sample_kind_def codec_simps nth_append upt_rec)

abbreviation bare_ciphertext :: "point \<Rightarrow> ciphertext" where
  "bare_ciphertext p \<equiv> ristretto_to_elgamal_ciphertext p 0"

definition sample_withdraw_store :: store where
  "sample_withdraw_store = sample_store
     [(4, token_acct 200 (pod_mint_to_bytes (sample_mint 50))),
      (5, token_acct 200 (state_bytes account_base (sample_encrypted 50 (sample_balance 71 0 (bare_ciphertext 500))))),
      (61, equality_context 71 (bare_ciphertext (500 - u64_to_scalar 20 * ristretto_G))),
      (62, range_context 6 [90, 0, 0, 0, 0, 0, 0, 0] [64, 0, 0, 0, 0, 0, 0, 0])]"

lemma sample_withdraw_store_simps [simp]:
  "sample_withdraw_store 4 = token_acct 200 (pod_mint_to_bytes (sample_mint 50))"
  "sample_withdraw_store 5 =
     token_acct 200 (state_bytes account_base (sample_encrypted 50 (sample_balance 71 0 (bare_ciphertext 500))))"
  "sample_withdraw_store 61 = equality_context 71 (bare_ciphertext (500 - u64_to_scalar 20 * ristretto_G))"
  "sample_withdraw_store 62 = range_context 6 [90, 0, 0, 0, 0, 0, 0, 0] [64, 0, 0, 0, 0, 0, 0, 0]"
  "sample_withdraw_store 30 = empty_acct"
  by (simp_all add: sample_withdraw_store_def)

lemma sample_zk_kinds:
  "zk_program_id sample_zk = 60"
  "pk_proof_type (zk_ciphertext_commitment_equality sample_zk) = TypeCiphertextCommitmentEquality"
  "pk_proof_type (zk_range_proof_u64 sample_zk) = TypeBatchedRangeProofU64"
  "pk_proof_type (zk_range_proof_u128 sample_zk) = TypeBatchedRangeProofU128"
  "pk_proof_type (zk_grouped_3_handles_validity sample_zk) = TypeBatchedGroupedCiphertext3HandlesValidity"
  "zk_proof_type_byte sample_zk TypeCiphertextCommitmentEquality = 3"
  "zk_proof_type_byte sample_zk TypeBatchedRangeProofU64 = 6"
  "zk_proof_type_byte sample_zk TypeBatchedRangeProofU128 = 7"
  "zk_proof_type_byte sample_zk TypeBatchedGroupedCiphertext3HandlesValidity = 12"
  by (simp_all add: sample_zk_def sample_kind_def)

lemmas sample_run = initialized_view_def on_tlv_def sample_not_non_transferable info_owner_def info_data_def ensure_def
  check_not_paused_def empty_acct_def sample_balance_def valid_as_destination_def valid_as_source_def
  confidential_account_approved_def checked_add_def checked_sub_def sample_zk_curve word_curve_def curve_result_def ok_or_def
  increment_pending_balance_credit_counter_def case_prod_beta

lemmas sample_proofs = proof_sysvar_account_def verify_and_extract_context_def check_zk_elgamal_proof_program_account_def
  equality_context_read range_context_read sample_zk_kinds extraction_result_def zip_all_equal_def

lemma sample_withdraw_proof:
  "verify_withdraw_proof sample_zk [plain_info 61, plain_info 62, signer_info 30] 0 0 sample_withdraw_store =
     Inr (\<lparr>wp_source_pubkey = 71,
            wp_remaining_balance_ciphertext = bare_ciphertext (500 - u64_to_scalar 20 * ristretto_G)\<rparr>, [signer_info 30])"
  by (simp add: verify_withdraw_proof_def withdraw_verify_and_extract_def sample_run sample_proofs)

theorem withdraw_correct_witness:
  "\<exists>st'. process_withdraw sample_zk sample_platform TOKEN_2022_ID
      [plain_info 5, plain_info 4, plain_info 61, plain_info 62, signer_info 30] 20 6 0 0 0 sample_withdraw_store = Inr st' \<and>
    (\<Sum>a\<in>UNIV. encrypted_worth (\<lambda>p. p) (st' a)) =
      (\<Sum>a\<in>UNIV. encrypted_worth (\<lambda>p. p) (sample_withdraw_store a)) - multiple 20 ristretto_G"
proof -
  have "\<exists>st'. process_withdraw sample_zk sample_platform TOKEN_2022_ID
      [plain_info 5, plain_info 4, plain_info 61, plain_info 62, signer_info 30] 20 6 0 0 0 sample_withdraw_store = Inr st'"
    using sample_owner_signs [of sample_withdraw_store]
    by (simp add: process_withdraw_def sample_withdraw_proof check_public_account_def subtract_from_def sample_run)
  then obtain st' where run: "process_withdraw sample_zk sample_platform TOKEN_2022_ID
      [plain_info 5, plain_info 4, plain_info 61, plain_info 62, signer_info 30] 20 6 0 0 0 sample_withdraw_store = Inr st'" ..
  from withdraw_correct [OF run sample_zk_curve(2)] run show ?thesis by auto
qed

theorem apply_pending_balance_correct_witness:
  "\<exists>st'. process_apply_pending_balance sample_zk sample_platform TOKEN_2022_ID [plain_info 5, signer_info 30] 3 0
      (sample_store [(5, token_acct 200 (state_bytes account_base
         (sample_encrypted 50 (sample_balance 71 (bare_ciphertext 7) (bare_ciphertext 500)))))]) = Inr st' \<and>
    (\<exists>s' e'. unpack account_base (info_data st' (plain_info 5)) = Inr s' \<and>
       get_extension AtAccount confidential_transfer_account_ext (ps_tlv s') = Inr e' \<and>
       cta_pending_balance_lo e' = 0 \<and> cta_actual_pending_balance_credit_counter e' = 3)"
  (is "\<exists>st'. ?run = Inr st' \<and> _")
proof -
  let ?e = "sample_balance 71 (bare_ciphertext 7) (bare_ciphertext 500)"
  let ?st = "sample_store [(5, token_acct 200 (state_bytes account_base (sample_encrypted 50 ?e)))]"
  have "\<exists>st'. ?run = Inr st'"
    using sample_owner_signs [of ?st]
    by (simp add: process_apply_pending_balance_def owner_updates_confidential_account_def add_with_lo_hi_def sample_run)
  then obtain st' where run: "?run = Inr st'" ..
  have "info_data ?st (plain_info 5) = state_bytes account_base (sample_encrypted 50 ?e)" by (simp add: info_data_def)
  with apply_pending_balance_correct [OF run sample_zk_curve(2)] run show ?thesis
    by (auto simp: sample_balance_def)
qed

definition sample_grouped :: "point \<Rightarrow> grouped_ciphertext" where
  "sample_grouped p = le_bytes 32 p @ le_bytes 32 (0 :: point) @ le_bytes 32 (0 :: point) @ le_bytes 32 (0 :: point)"

lemma sample_grouped_simps:
  "zk_commitment_3 sample_zk (sample_grouped p) = p"
  "i < 3 \<Longrightarrow> zk_extract_3 sample_zk (sample_grouped p) i = Some (bare_ciphertext p)"
proof -
  show "zk_commitment_3 sample_zk (sample_grouped p) = p"
    by (simp add: sample_zk_def sample_grouped_def codec_simps)
  assume "i < 3"
  then consider "i = 0" | "i = 1" | "i = 2" by linarith
  then show "zk_extract_3 sample_zk (sample_grouped p) i = Some (bare_ciphertext p)"
    by cases (simp_all add: sample_zk_def sample_extract_def sample_grouped_def codec_simps ristretto_to_elgamal_ciphertext_def)
qed

lemma sample_grouped_length [simp]: "length (sample_grouped p) = 128"
  by (simp add: sample_grouped_def)

definition validity_context :: acct where
  "validity_context = context_acct 12 (le_bytes 32 (71 :: elgamal_pubkey) @ le_bytes 32 (72 :: elgamal_pubkey) @
     le_bytes 32 (0 :: elgamal_pubkey) @ sample_grouped 20 @ sample_grouped 0)"

lemma validity_context_read:
  "ac_owner validity_context = 60"
  "pk_context_state (zk_grouped_3_handles_validity sample_zk) (ac_data validity_context) =
     Some (12, \<lparr>g3_first_pubkey = 71, g3_second_pubkey = 72, g3_third_pubkey = 0,
       g3_grouped_ciphertext_lo = sample_grouped 20, g3_grouped_ciphertext_hi = sample_grouped 0\<rparr>)"
  by (simp_all add: validity_context_def context_acct_def sample_zk_def sample_kind_def codec_simps nth_append)

definition sample_ct_mint :: "pod_mint pod_state" where
  "sample_ct_mint = single (mint_base sample_platform) (sample_mint 50) confidential_transfer_mint_ext
     \<lparr>ctm_authority = 0, ctm_auto_approve_new_accounts = 1, ctm_auditor_elgamal_pubkey = 0\<rparr>"

definition sample_transfer_accounts :: "account_info list" where
  "sample_transfer_accounts =
     [plain_info 5, plain_info 4, plain_info 6, plain_info 61, plain_info 62, plain_info 63, signer_info 30]"

definition sample_conf_store :: store where
  "sample_conf_store = sample_store
     [(4, token_acct 200 (state_bytes (mint_base sample_platform) sample_ct_mint)),
      (5, token_acct 200 (state_bytes account_base (sample_encrypted 50 (sample_balance 71 0 (bare_ciphertext 500))))),
      (6, token_acct 200 (state_bytes account_base (sample_encrypted 0 (sample_balance 72 0 0)))),
      (61, equality_context 71 (bare_ciphertext 480)), (62, validity_context),
      (63, range_context 7 [90, 20, 0, 0, 0, 0, 0, 0] [64, 16, 32, 16, 0, 0, 0, 0])]"

lemma sample_conf_store_simps [simp]:
  "sample_conf_store 4 = token_acct 200 (state_bytes (mint_base sample_platform) sample_ct_mint)"
  "sample_conf_store 5 =
     token_acct 200 (state_bytes account_base (sample_encrypted 50 (sample_balance 71 0 (bare_ciphertext 500))))"
  "sample_conf_store 6 = token_acct 200 (state_bytes account_base (sample_encrypted 0 (sample_balance 72 0 0)))"
  "sample_conf_store 61 = equality_context 71 (bare_ciphertext 480)" "sample_conf_store 62 = validity_context"
  "sample_conf_store 63 = range_context 7 [90, 20, 0, 0, 0, 0, 0, 0] [64, 16, 32, 16, 0, 0, 0, 0]"
  "sample_conf_store 30 = empty_acct"
  by (simp_all add: sample_conf_store_def)

lemma sample_ct_mint_read:
  "unpack_ref (mint_base sample_platform) (state_bytes (mint_base sample_platform) sample_ct_mint) =
     Inr (sample_mint 50, ps_tlv sample_ct_mint)"
  "get_extension AtMint confidential_transfer_mint_ext (ps_tlv sample_ct_mint) =
     Inr \<lparr>ctm_authority = 0, ctm_auto_approve_new_accounts = 1, ctm_auditor_elgamal_pubkey = 0\<rparr>"
  "vx_type V \<noteq> ConfidentialTransferMint \<Longrightarrow> get_extension at V (ps_tlv sample_ct_mint) = Inl InvalidAccountData"
proof -
  let ?x = "confidential_transfer_mint_ext"
  have x: "vx_len ?x < 2 ^ 16" "get_account_type (vx_type ?x) = AtMint" "length (vx_to_bytes ?x e) \<noteq> 185" for e
    by (simp_all add: confidential_transfer_mint_ext_def get_account_type_def)
  show "unpack_ref (mint_base sample_platform) (state_bytes (mint_base sample_platform) sample_ct_mint) =
     Inr (sample_mint 50, ps_tlv sample_ct_mint)"
    unfolding sample_ct_mint_def single_simps by (rule unpack_single(2)) (simp_all add: x(3))
  show "get_extension AtMint ?x (ps_tlv sample_ct_mint) =
     Inr \<lparr>ctm_authority = 0, ctm_auto_approve_new_accounts = 1, ctm_auditor_elgamal_pubkey = 0\<rparr>"
    unfolding sample_ct_mint_def single_simps by (rule confidential_transfer_mint_x.get_entry [OF x(1,2)])
  show "get_extension at V (ps_tlv sample_ct_mint) = Inl InvalidAccountData" if "vx_type V \<noteq> ConfidentialTransferMint"
    unfolding sample_ct_mint_def single_simps using that
    by (intro no_get_other) (simp_all add: confidential_transfer_mint_ext_def)
qed

lemma sample_transfer_proof:
  "verify_transfer_proof sample_zk [4] [plain_info 61, plain_info 62, plain_info 63, signer_info 30] 0 0 0 sample_conf_store =
     Inr (\<lparr>tp_ciphertext_lo = sample_grouped 20, tp_ciphertext_hi = sample_grouped 0, tp_source = 71, tp_destination = 72,
            tp_auditor = 0, tp_new_source_ciphertext = bare_ciphertext 480\<rparr>, [signer_info 30])"
  by (simp add: verify_transfer_proof_def verify_amount_proofs_def transfer_verify_and_extract_def check_amount_proofs_def
      sample_grouped_simps validity_context_read sample_run sample_proofs)

theorem confidential_transfer_conserves_witness:
  "\<exists>st'. confidential_process_transfer sample_zk sample_platform TOKEN_2022_ID sample_transfer_accounts 0
      (bare_ciphertext 20) (bare_ciphertext 0) 0 0 None None 0 sample_conf_store = Inr st' \<and>
    (\<Sum>a\<in>UNIV. encrypted_worth (\<lambda>p. p) (st' a)) = (\<Sum>a\<in>UNIV. encrypted_worth (\<lambda>p. p) (sample_conf_store a))"
  (is "\<exists>st'. ?run = Inr st' \<and> _")
proof -
  have none: "get_extension AtMint pausable_config_ext (ps_tlv sample_ct_mint) = Inl InvalidAccountData"
    "get_extension AtMint transfer_fee_config_ext (ps_tlv sample_ct_mint) = Inl InvalidAccountData"
    "get_extension AtMint transfer_hook_ext (ps_tlv sample_ct_mint) = Inl InvalidAccountData"
    by (rule sample_ct_mint_read(3); simp add: pausable_config_ext_def transfer_fee_config_ext_def transfer_hook_ext_def)+
  have other: "get_extension AtAccount cpi_guard_ext (ps_tlv (sample_encrypted n e)) = Inl InvalidAccountData"
    "get_extension AtAccount memo_transfer_ext (ps_tlv (sample_encrypted n e)) = Inl InvalidAccountData" for n e
    by (rule sample_encrypted_other; simp add: cpi_guard_ext_def memo_transfer_ext_def)+
  have "\<exists>st'. ?run = Inr st'"
    using sample_owner_signs [of sample_conf_store]
    by (simp add: confidential_process_transfer_def sample_transfer_accounts_def sample_ct_mint_read none other
        sample_transfer_proof check_auditor_def check_auditor_ciphertext_def pod_transfer_amount_try_extract_def
        sample_grouped_simps process_source_for_transfer_def process_destination_for_transfer_def
        debit_confidential_source_def credit_confidential_destination_def extraction_result_def
        check_cpi_guard_transfer_def memo_required_def transfer_hook_get_program_id_def
        invoke_confidential_hook_def subtract_with_lo_hi_def ciphertext_add_def sample_run)
  then obtain st' where run: "?run = Inr st'" ..
  from confidential_transfer_conserves [OF run sample_zk_curve(2) sample_extraction_laws] run show ?thesis
    by (auto simp: hook_laws_def)
qed

end
