(* ===== verification/Client_Instruction.thy ===== *)
theory Client_Instruction
  imports Processor
begin

text \<open>
  The constructors clients build instructions with (interface/src/instruction.rs): the program, the
  accounts with their signer and writable flags, and the packed data. The addresses of the rent sysvar
  and of the system program, which belong to the runtime, are arguments.

  The theorems close the circle: an instruction built here runs the handler it was built for, and the
  authority it names can act, alone or through the members of its multisignature account.
\<close>

section \<open>Model\<close>

record account_meta =
  am_pubkey :: address
  am_is_signer :: bool
  am_is_writable :: bool

record instruction =
  ix_program_id :: address
  ix_accounts :: "account_meta list"
  ix_data :: bytes

definition meta_new :: "address \<Rightarrow> bool \<Rightarrow> account_meta" where
  "meta_new k s = \<lparr>am_pubkey = k, am_is_signer = s, am_is_writable = True\<rparr>"

definition meta_readonly :: "address \<Rightarrow> bool \<Rightarrow> account_meta" where
  "meta_readonly k s = \<lparr>am_pubkey = k, am_is_signer = s, am_is_writable = False\<rparr>"

text \<open>An authority signs itself, unless signers are given for its multisignature account.\<close>

definition authority_metas :: "address \<Rightarrow> address list \<Rightarrow> account_meta list" where
  "authority_metas authority signers =
     meta_readonly authority (signers = []) # map (\<lambda>k. meta_readonly k True) signers"

definition built :: "address \<Rightarrow> account_meta list \<Rightarrow> bytes \<Rightarrow> instruction result" where
  "built token_program_id accounts data =
     Inr \<lparr>ix_program_id = token_program_id, ix_accounts = accounts, ix_data = data\<rparr>"

definition initialize_mint_ix :: "address \<Rightarrow> address \<Rightarrow> address \<Rightarrow> address \<Rightarrow> address option \<Rightarrow> u8 \<Rightarrow> instruction result" where
  "initialize_mint_ix rent token_program_id mint mint_authority freeze_authority decimals =
     bindr (check_spl_token_program_account token_program_id) (\<lambda>_.
     built token_program_id ([meta_new mint False, meta_readonly rent False]) (pack (InitializeMint mint_authority freeze_authority decimals)))"

definition initialize_mint2_ix :: "address \<Rightarrow> address \<Rightarrow> address \<Rightarrow> address option \<Rightarrow> u8 \<Rightarrow> instruction result" where
  "initialize_mint2_ix token_program_id mint mint_authority freeze_authority decimals =
     bindr (check_spl_token_program_account token_program_id) (\<lambda>_.
     built token_program_id ([meta_new mint False]) (pack (InitializeMint2 mint_authority freeze_authority decimals)))"

definition initialize_account_ix :: "address \<Rightarrow> address \<Rightarrow> address \<Rightarrow> address \<Rightarrow> address \<Rightarrow> instruction result" where
  "initialize_account_ix rent token_program_id account mint owner =
     bindr (check_spl_token_program_account token_program_id) (\<lambda>_.
     built token_program_id ([meta_new account False, meta_readonly mint False, meta_readonly owner False, meta_readonly rent False]) (pack InitializeAccount))"

definition initialize_account2_ix :: "address \<Rightarrow> address \<Rightarrow> address \<Rightarrow> address \<Rightarrow> address \<Rightarrow> instruction result" where
  "initialize_account2_ix rent token_program_id account mint owner =
     bindr (check_spl_token_program_account token_program_id) (\<lambda>_.
     built token_program_id ([meta_new account False, meta_readonly mint False, meta_readonly rent False]) (pack (InitializeAccount2 owner)))"

definition initialize_account3_ix :: "address \<Rightarrow> address \<Rightarrow> address \<Rightarrow> address \<Rightarrow> instruction result" where
  "initialize_account3_ix token_program_id account mint owner =
     bindr (check_spl_token_program_account token_program_id) (\<lambda>_.
     built token_program_id ([meta_new account False, meta_readonly mint False]) (pack (InitializeAccount3 owner)))"

definition initialize_multisig_ix :: "address \<Rightarrow> address \<Rightarrow> address \<Rightarrow> address list \<Rightarrow> u8 \<Rightarrow> instruction result" where
  "initialize_multisig_ix rent token_program_id multisig signers m =
     bindr (check_spl_token_program_account token_program_id) (\<lambda>_.
     bindr (ensure (is_valid_signer_index (unat m) \<and> is_valid_signer_index (length signers) \<and> unat m \<le> length signers)
              MissingRequiredSignature) (\<lambda>_.
     built token_program_id ([meta_new multisig False, meta_readonly rent False] @ map (\<lambda>k. meta_readonly k False) signers) (pack (InitializeMultisig m))))"

definition initialize_multisig2_ix :: "address \<Rightarrow> address \<Rightarrow> address list \<Rightarrow> u8 \<Rightarrow> instruction result" where
  "initialize_multisig2_ix token_program_id multisig signers m =
     bindr (check_spl_token_program_account token_program_id) (\<lambda>_.
     bindr (ensure (is_valid_signer_index (unat m) \<and> is_valid_signer_index (length signers) \<and> unat m \<le> length signers)
              MissingRequiredSignature) (\<lambda>_.
     built token_program_id (meta_new multisig False # map (\<lambda>k. meta_readonly k False) signers) (pack (InitializeMultisig2 m))))"

definition transfer_ix :: "address \<Rightarrow> address \<Rightarrow> address \<Rightarrow> address \<Rightarrow> address list \<Rightarrow> u64 \<Rightarrow> instruction result" where
  "transfer_ix token_program_id source destination authority signers amount =
     bindr (check_spl_token_program_account token_program_id) (\<lambda>_.
     built token_program_id ([meta_new source False, meta_new destination False] @ authority_metas authority signers) (pack (Transfer amount)))"

definition approve_ix :: "address \<Rightarrow> address \<Rightarrow> address \<Rightarrow> address \<Rightarrow> address list \<Rightarrow> u64 \<Rightarrow> instruction result" where
  "approve_ix token_program_id source delegate owner signers amount =
     bindr (check_spl_token_program_account token_program_id) (\<lambda>_.
     built token_program_id ([meta_new source False, meta_readonly delegate False] @ authority_metas owner signers) (pack (Approve amount)))"

definition revoke_ix :: "address \<Rightarrow> address \<Rightarrow> address \<Rightarrow> address list \<Rightarrow> instruction result" where
  "revoke_ix token_program_id source owner signers =
     bindr (check_spl_token_program_account token_program_id) (\<lambda>_.
     built token_program_id ([meta_new source False] @ authority_metas owner signers) (pack Revoke))"

definition set_authority_ix :: "address \<Rightarrow> address \<Rightarrow> address option \<Rightarrow> authority_type \<Rightarrow> address \<Rightarrow> address list \<Rightarrow> instruction result" where
  "set_authority_ix token_program_id owned new_authority ty owner signers =
     bindr (check_spl_token_program_account token_program_id) (\<lambda>_.
     built token_program_id ([meta_new owned False] @ authority_metas owner signers) (pack (SetAuthority ty new_authority)))"

definition mint_to_ix :: "address \<Rightarrow> address \<Rightarrow> address \<Rightarrow> address \<Rightarrow> address list \<Rightarrow> u64 \<Rightarrow> instruction result" where
  "mint_to_ix token_program_id mint account mint_authority signers amount =
     bindr (check_spl_token_program_account token_program_id) (\<lambda>_.
     built token_program_id ([meta_new mint False, meta_new account False] @ authority_metas mint_authority signers) (pack (MintTo amount)))"

definition burn_ix :: "address \<Rightarrow> address \<Rightarrow> address \<Rightarrow> address \<Rightarrow> address list \<Rightarrow> u64 \<Rightarrow> instruction result" where
  "burn_ix token_program_id account mint authority signers amount =
     bindr (check_spl_token_program_account token_program_id) (\<lambda>_.
     built token_program_id ([meta_new account False, meta_new mint False] @ authority_metas authority signers) (pack (Burn amount)))"

definition close_account_ix :: "address \<Rightarrow> address \<Rightarrow> address \<Rightarrow> address \<Rightarrow> address list \<Rightarrow> instruction result" where
  "close_account_ix token_program_id account destination owner signers =
     bindr (check_spl_token_program_account token_program_id) (\<lambda>_.
     built token_program_id ([meta_new account False, meta_new destination False] @ authority_metas owner signers) (pack CloseAccount))"

definition freeze_account_ix :: "address \<Rightarrow> address \<Rightarrow> address \<Rightarrow> address \<Rightarrow> address list \<Rightarrow> instruction result" where
  "freeze_account_ix token_program_id account mint authority signers =
     bindr (check_spl_token_program_account token_program_id) (\<lambda>_.
     built token_program_id ([meta_new account False, meta_readonly mint False] @ authority_metas authority signers) (pack FreezeAccount))"

definition thaw_account_ix :: "address \<Rightarrow> address \<Rightarrow> address \<Rightarrow> address \<Rightarrow> address list \<Rightarrow> instruction result" where
  "thaw_account_ix token_program_id account mint authority signers =
     bindr (check_spl_token_program_account token_program_id) (\<lambda>_.
     built token_program_id ([meta_new account False, meta_readonly mint False] @ authority_metas authority signers) (pack ThawAccount))"

definition transfer_checked_ix :: "address \<Rightarrow> address \<Rightarrow> address \<Rightarrow> address \<Rightarrow> address \<Rightarrow> address list \<Rightarrow> u64 \<Rightarrow> u8 \<Rightarrow> instruction result" where
  "transfer_checked_ix token_program_id source mint destination authority signers amount decimals =
     bindr (check_spl_token_program_account token_program_id) (\<lambda>_.
     built token_program_id ([meta_new source False, meta_readonly mint False, meta_new destination False] @ authority_metas authority signers) (pack (TransferChecked amount decimals)))"

definition approve_checked_ix :: "address \<Rightarrow> address \<Rightarrow> address \<Rightarrow> address \<Rightarrow> address \<Rightarrow> address list \<Rightarrow> u64 \<Rightarrow> u8 \<Rightarrow> instruction result" where
  "approve_checked_ix token_program_id source mint delegate owner signers amount decimals =
     bindr (check_spl_token_program_account token_program_id) (\<lambda>_.
     built token_program_id ([meta_new source False, meta_readonly mint False, meta_readonly delegate False] @ authority_metas owner signers) (pack (ApproveChecked amount decimals)))"

definition mint_to_checked_ix :: "address \<Rightarrow> address \<Rightarrow> address \<Rightarrow> address \<Rightarrow> address list \<Rightarrow> u64 \<Rightarrow> u8 \<Rightarrow> instruction result" where
  "mint_to_checked_ix token_program_id mint account mint_authority signers amount decimals =
     bindr (check_spl_token_program_account token_program_id) (\<lambda>_.
     built token_program_id ([meta_new mint False, meta_new account False] @ authority_metas mint_authority signers) (pack (MintToChecked amount decimals)))"

definition burn_checked_ix :: "address \<Rightarrow> address \<Rightarrow> address \<Rightarrow> address \<Rightarrow> address list \<Rightarrow> u64 \<Rightarrow> u8 \<Rightarrow> instruction result" where
  "burn_checked_ix token_program_id account mint authority signers amount decimals =
     bindr (check_spl_token_program_account token_program_id) (\<lambda>_.
     built token_program_id ([meta_new account False, meta_new mint False] @ authority_metas authority signers) (pack (BurnChecked amount decimals)))"

definition sync_native_ix :: "address \<Rightarrow> address \<Rightarrow> instruction result" where
  "sync_native_ix token_program_id account =
     bindr (check_spl_token_program_account token_program_id) (\<lambda>_.
     built token_program_id ([meta_new account False]) (pack SyncNative))"

definition sync_native_with_rent_sysvar_ix :: "address \<Rightarrow> address \<Rightarrow> address \<Rightarrow> instruction result" where
  "sync_native_with_rent_sysvar_ix rent token_program_id account =
     bindr (sync_native_ix token_program_id account) (\<lambda>instruction.
     Inr (instruction\<lparr>ix_accounts := ix_accounts instruction @ [meta_readonly rent False]\<rparr>))"

definition get_account_data_size_ix :: "address \<Rightarrow> address \<Rightarrow> extension_type list \<Rightarrow> instruction result" where
  "get_account_data_size_ix token_program_id mint types =
     bindr (check_spl_token_program_account token_program_id) (\<lambda>_.
     built token_program_id ([meta_readonly mint False]) (pack (GetAccountDataSize types)))"

definition initialize_mint_close_authority_ix :: "address \<Rightarrow> address \<Rightarrow> address option \<Rightarrow> instruction result" where
  "initialize_mint_close_authority_ix token_program_id mint close_authority =
     bindr (check_program_account token_program_id) (\<lambda>_.
     built token_program_id ([meta_new mint False]) (pack (InitializeMintCloseAuthority close_authority)))"

definition initialize_immutable_owner_ix :: "address \<Rightarrow> address \<Rightarrow> instruction result" where
  "initialize_immutable_owner_ix token_program_id account =
     bindr (check_spl_token_program_account token_program_id) (\<lambda>_.
     built token_program_id ([meta_new account False]) (pack InitializeImmutableOwner))"

definition amount_to_ui_amount_ix :: "address \<Rightarrow> address \<Rightarrow> u64 \<Rightarrow> instruction result" where
  "amount_to_ui_amount_ix token_program_id mint amount =
     bindr (check_spl_token_program_account token_program_id) (\<lambda>_.
     built token_program_id ([meta_readonly mint False]) (pack (AmountToUiAmount amount)))"

definition ui_amount_to_amount_ix :: "address \<Rightarrow> address \<Rightarrow> bytes \<Rightarrow> instruction result" where
  "ui_amount_to_amount_ix token_program_id mint ui_amount =
     bindr (check_spl_token_program_account token_program_id) (\<lambda>_.
     built token_program_id ([meta_readonly mint False]) (pack (UiAmountToAmount ui_amount)))"

definition reallocate_ix :: "address \<Rightarrow> address \<Rightarrow> address \<Rightarrow> address \<Rightarrow> address \<Rightarrow> address list \<Rightarrow> extension_type list \<Rightarrow> instruction result" where
  "reallocate_ix system token_program_id account payer owner signers types =
     bindr (check_program_account token_program_id) (\<lambda>_.
     built token_program_id ([meta_new account False, meta_new payer True, meta_readonly system False] @ authority_metas owner signers) (pack (Reallocate types)))"

definition create_native_mint_ix :: "address \<Rightarrow> address \<Rightarrow> address \<Rightarrow> instruction result" where
  "create_native_mint_ix system token_program_id payer =
     bindr (check_program_account token_program_id) (\<lambda>_.
     built token_program_id ([meta_new payer True, meta_new NATIVE_MINT_ID False, meta_readonly system False]) (pack CreateNativeMint))"

definition initialize_non_transferable_mint_ix :: "address \<Rightarrow> address \<Rightarrow> instruction result" where
  "initialize_non_transferable_mint_ix token_program_id mint =
     bindr (check_program_account token_program_id) (\<lambda>_.
     built token_program_id ([meta_new mint False]) (pack InitializeNonTransferableMint))"

definition initialize_permanent_delegate_ix :: "address \<Rightarrow> address \<Rightarrow> address \<Rightarrow> instruction result" where
  "initialize_permanent_delegate_ix token_program_id mint delegate =
     bindr (check_program_account token_program_id) (\<lambda>_.
     built token_program_id ([meta_new mint False]) (pack (InitializePermanentDelegate delegate)))"

definition withdraw_excess_lamports_ix :: "address \<Rightarrow> address \<Rightarrow> address \<Rightarrow> address \<Rightarrow> address list \<Rightarrow> instruction result" where
  "withdraw_excess_lamports_ix token_program_id source destination authority signers =
     bindr (check_program_account token_program_id) (\<lambda>_.
     built token_program_id ([meta_new source False, meta_new destination False] @ authority_metas authority signers) (pack WithdrawExcessLamports))"

definition unwrap_lamports_ix :: "address \<Rightarrow> address \<Rightarrow> address \<Rightarrow> address \<Rightarrow> address list \<Rightarrow> u64 option \<Rightarrow> instruction result" where
  "unwrap_lamports_ix token_program_id source destination authority signers some_amount =
     bindr (check_spl_token_program_account token_program_id) (\<lambda>_.
     built token_program_id ([meta_new source False, meta_new destination False] @ authority_metas authority signers) (pack (UnwrapLamports some_amount)))"

section \<open>What is built runs\<close>

text \<open>
  The accounts as the runtime presents them: an account named more than once has the flags of any of its
  mentions.
\<close>

definition presented :: "account_meta list \<Rightarrow> account_info list" where
  "presented metas =
     map (\<lambda>m. \<lparr>ai_key = am_pubkey m,
       ai_is_signer = (\<exists>n \<in> set metas. am_pubkey n = am_pubkey m \<and> am_is_signer n),
       ai_is_writable = (\<exists>n \<in> set metas. am_pubkey n = am_pubkey m \<and> am_is_writable n)\<rparr>) metas"

text \<open>
  What an authority needs: a single key no signers, a multisignature account enough of its members
  among the signers.
\<close>

definition ready :: "platform \<Rightarrow> address \<Rightarrow> address \<Rightarrow> address list \<Rightarrow> store \<Rightarrow> bool" where
  "ready P program_id k signers st \<longleftrightarrow>
     (if is_multisig_account program_id (st k)
      then let ms = pod_multisig_of_bytes (ac_data (st k)) in
        pl_bool_from_pod P (ms_is_initialized ms) \<and> unat (ms_n ms) \<le> MAX_SIGNERS \<and>
        unat (ms_m ms) \<le> card {p. p < length (members ms) \<and> members ms ! p \<in> set signers}
      else signers = [])"

lemma ready_authorizes:
  assumes "ready P program_id k signers st" and "ai_key auth = k" and "signers = [] \<Longrightarrow> ai_is_signer auth"
    and "map ai_key infos = signers" and "\<And>i. i \<in> set infos \<Longrightarrow> ai_is_signer i"
  shows "authorizes P program_id k auth infos st"
proof (cases "is_multisig_account program_id (st k)")
  case True
  let ?ms = "pod_multisig_of_bytes (ac_data (st k))"
  have "ai_key ` set infos = set signers" using assms(4) by (metis list.set_map)
  then have "matching_positions (members ?ms) infos = {p. p < length (members ?ms) \<and> members ?ms ! p \<in> set signers}"
    by (simp add: matching_positions_def)
  moreover have "acceptable infos x" for x
    using assms(5) by (auto simp: acceptable_def find_Some_iff split: option.splits)
  ultimately show ?thesis
    using assms(1,2) True by (simp add: ready_def Let_def authorizes_def threshold_met_def info_data_def)
next
  case False
  with assms show ?thesis by (simp add: ready_def authorizes_def)
qed

lemma presented_append:
  obtains fi bi where "presented (front @ back) = fi @ bi" "length fi = length front" "map ai_key bi = map am_pubkey back"
    "\<And>i. i < length back \<Longrightarrow> am_is_signer (back ! i) \<Longrightarrow> ai_is_signer (bi ! i)"
  by (rule that [of "take (length front) (presented (front @ back))" "drop (length front) (presented (front @ back))"])
    (auto simp: presented_def nth_append)

text \<open>The accounts of an instruction: some in front, the authority with its signers, the rest.\<close>

lemma presented_authorized:
  obtains fi auth infos where "presented (front @ authority_metas k signers @ rest) = fi @ auth # infos"
    "map ai_key fi = map am_pubkey front"
    "\<forall>P program_id st. ready P program_id k signers st \<longrightarrow>
       authorizes P program_id k auth (take (length signers) infos) st"
proof -
  obtain fi bi where b: "presented (front @ authority_metas k signers @ rest) = fi @ bi" "length fi = length front"
    "map ai_key bi = k # signers @ map am_pubkey rest"
    "\<And>i. i < length (authority_metas k signers @ rest) \<Longrightarrow> am_is_signer ((authority_metas k signers @ rest) ! i) \<Longrightarrow>
       ai_is_signer (bi ! i)"
    by (rule presented_append [of front "authority_metas k signers @ rest"])
      (auto simp: authority_metas_def meta_readonly_def comp_def)
  have "map ai_key (fi @ bi) = map am_pubkey (front @ authority_metas k signers @ rest)"
    using b(1) [symmetric] by (simp add: presented_def comp_def)
  then have fi: "map ai_key fi = map am_pubkey front"
    using b(2) by (metis append_eq_append_conv length_map map_append)
  from b(3) obtain auth infos where bi: "bi = auth # infos" "ai_key auth = k" "map ai_key infos = signers @ map am_pubkey rest"
    by (cases bi) auto
  then have keys: "map ai_key (take (length signers) infos) = signers"
    by (metis append_eq_conv_conj take_map)
  have "ai_is_signer auth" if "signers = []"
    using b(4) [of 0] that by (simp add: bi(1) authority_metas_def meta_readonly_def)
  moreover have "ai_is_signer i" if "i \<in> set (take (length signers) infos)" for i
  proof -
    from that obtain n where n: "n < length (take (length signers) infos)" "i = infos ! n"
      by (auto simp: in_set_conv_nth)
    then show ?thesis
      using b(4) [of "Suc n"] by (simp add: bi(1) authority_metas_def meta_readonly_def nth_append)
  qed
  ultimately have "authorizes P program_id k auth (take (length signers) infos) st"
    if "ready P program_id k signers st" for P program_id st
    using that bi keys by (intro ready_authorizes)
  with b(1) bi(1) fi show thesis by (intro that [of fi auth infos]) simp_all
qed

text \<open>
  What an instruction asks of an account, as its documentation lists it: a signature, that it may be
  written. An authority signs itself, or the given members of its multisignature account do.
\<close>

datatype role = Role (role_key: address) (role_signs: bool) (role_writes: bool)

abbreviation readable :: "address \<Rightarrow> role" where
  "readable k \<equiv> Role k False False"

abbreviation writable :: "address \<Rightarrow> role" where
  "writable k \<equiv> Role k False True"

abbreviation signing :: "address \<Rightarrow> role" where
  "signing k \<equiv> Role k True False"

abbreviation paying :: "address \<Rightarrow> role" where
  "paying k \<equiv> Role k True True"

fun authority_roles :: "(address \<times> address list) option \<Rightarrow> role list" where
  "authority_roles None = []"
| "authority_roles (Some (authority, [])) = [signing authority]"
| "authority_roles (Some (authority, s # signers)) = readable authority # map signing (s # signers)"

definition role_of :: "account_meta \<Rightarrow> role" where
  "role_of m = Role (am_pubkey m) (am_is_signer m) (am_is_writable m)"

lemma role_of_authority_metas: "map role_of (authority_metas k signers) = authority_roles (Some (k, signers))"
  by (cases signers) (simp_all add: authority_metas_def role_of_def meta_readonly_def comp_def)

lemma role_of_inj: "inj role_of"
proof (rule injI)
  fix m n :: account_meta
  assume "role_of m = role_of n"
  then show "m = n" by (cases m; cases n) (simp add: role_of_def)
qed

lemma role_of_simps:
  "role_of (meta_new k False) = writable k" "role_of (meta_new k True) = paying k"
  "role_of (meta_readonly k False) = readable k" "role_of (meta_readonly k True) = signing k"
  by (simp_all add: role_of_def meta_new_def meta_readonly_def)

lemmas role_simps = role_of_simps role_of_authority_metas comp_def

text \<open>
  What a constructor promises: it succeeds exactly if \<open>ok\<close>; the instruction is for the program asked for
  and names exactly the accounts of \<open>roles\<close>, then the authority \<open>who\<close> with its signers, then \<open>rest\<close>, with
  these privileges; the program runs it by the handler \<open>h\<close> on those accounts; and the authority passes
  the program's check.
\<close>

definition runs_handler ::
    "('f, 'g, 'm, 't, 'k) environment \<Rightarrow> address \<Rightarrow> instruction result \<Rightarrow> bool \<Rightarrow> role list \<Rightarrow>
     (address \<times> address list) option \<Rightarrow> role list \<Rightarrow>
     (address \<Rightarrow> account_info list \<Rightarrow> world \<Rightarrow> world result) \<Rightarrow> bool" where
  "runs_handler E program_id r ok roles who rest h \<longleftrightarrow>
     ((\<exists>ix. r = Inr ix) \<longleftrightarrow> ok) \<and>
     (\<forall>ix. r = Inr ix \<longrightarrow>
        ix_program_id ix = program_id \<and>
        map role_of (ix_accounts ix) = roles @ authority_roles who @ rest \<and>
        process E program_id (presented (ix_accounts ix)) (ix_data ix) = h program_id (presented (ix_accounts ix)) \<and>
        (case who of None \<Rightarrow> True
         | Some (k, signers) \<Rightarrow> \<forall>st. ready (en_platform E) program_id k signers st \<longrightarrow>
             (\<exists>auth infos. drop (length roles) (presented (ix_accounts ix)) = auth # infos \<and>
                authorizes (en_platform E) program_id k auth (take (length signers) infos) st)))"

definition runs_as ::
    "('f, 'g, 'm, 't, 'k) environment \<Rightarrow> address \<Rightarrow> instruction result \<Rightarrow> bool \<Rightarrow> role list \<Rightarrow>
     (address \<times> address list) option \<Rightarrow> token_instruction \<Rightarrow> bool" where
  "runs_as E program_id r ok roles who i =
     runs_handler E program_id r ok roles who [] (\<lambda>program_id accounts. execute E program_id accounts i [])"

lemma runs_handlerI:
  assumes "(\<exists>ix. r = Inr ix) \<longleftrightarrow> ok"
    and "\<And>ix. r = Inr ix \<Longrightarrow> ix_program_id ix = program_id"
    and "\<And>ix. r = Inr ix \<Longrightarrow> map role_of (ix_accounts ix) = roles @ authority_roles who @ rest"
    and "\<And>ix accounts w. r = Inr ix \<Longrightarrow> process E program_id accounts (ix_data ix) w = h program_id accounts w"
  shows "runs_handler E program_id r ok roles who rest h"
proof -
  have who: "\<exists>auth infos. drop (length roles) (presented (ix_accounts ix)) = auth # infos \<and>
      authorizes P program_id k auth (take (length signers) infos) st"
    if r: "r = Inr ix" "who = Some (k, signers)" and rdy: "ready P program_id k signers st" for ix k signers st P
  proof -
    from assms(3) [OF r(1)] have "map role_of (ix_accounts ix) = roles @ map role_of (authority_metas k signers) @ rest"
      by (simp add: r(2) role_of_authority_metas)
    then obtain front au post where f: "ix_accounts ix = front @ au @ post" "map role_of front = roles"
      "map role_of au = map role_of (authority_metas k signers)"
      by (auto simp: map_eq_append_conv append_eq_map_conv)
    from f(3) have "au = authority_metas k signers"
      by (rule map_injective [OF _ role_of_inj])
    moreover obtain fi auth infos where p: "presented (front @ authority_metas k signers @ post) = fi @ auth # infos"
      "map ai_key fi = map am_pubkey front"
      "\<forall>P program_id st. ready P program_id k signers st \<longrightarrow>
         authorizes P program_id k auth (take (length signers) infos) st"
      by (rule presented_authorized [of front k signers post])
    moreover have "length fi = length roles"
      using p(2) f(2) by (metis length_map)
    ultimately show ?thesis using rdy f(1) by auto
  qed
  show ?thesis
    unfolding runs_handler_def using assms who by (auto split: option.split)
qed

lemma runs_asI:
  assumes "well_formed_instruction i" and "(\<exists>ix. r = Inr ix) \<longleftrightarrow> ok"
    and "\<And>ix. r = Inr ix \<Longrightarrow> ix_program_id ix = program_id \<and>
      map role_of (ix_accounts ix) = roles @ authority_roles who \<and> ix_data ix = pack i"
  shows "runs_as E program_id r ok roles who i"
  unfolding runs_as_def using process_pack [of i "[]"] assms by (intro runs_handlerI) simp_all

text \<open>The programs these constructors accept, and the members of a multisignature account.\<close>

definition token_program :: "address \<Rightarrow> bool" where
  "token_program program_id \<longleftrightarrow> program_id \<in> {TOKEN_2022_ID, SPL_TOKEN_ID}"

definition signers_allowed :: "u8 \<Rightarrow> address list \<Rightarrow> bool" where
  "signers_allowed m signers \<longleftrightarrow> 1 \<le> unat m \<and> unat m \<le> length signers \<and> length signers \<le> 11"

lemma checks_token_program [result_simps]:
  "check_spl_token_program_account program_id = Inr u \<longleftrightarrow> token_program program_id"
  by (auto simp: check_spl_token_program_account_def ensure_def token_program_def)

lemma signers_allowed_eq:
  "is_valid_signer_index (unat m) \<and> is_valid_signer_index (length signers) \<and> unat m \<le> length signers \<longleftrightarrow>
   signers_allowed m signers"
  by (auto simp: is_valid_signer_index_def signers_allowed_def MIN_SIGNERS_def MAX_SIGNERS_def)

lemmas client_defs =
  built_def
  initialize_mint_ix_def
  initialize_mint2_ix_def
  initialize_account_ix_def
  initialize_account2_ix_def
  initialize_account3_ix_def
  initialize_multisig_ix_def
  initialize_multisig2_ix_def
  transfer_ix_def
  approve_ix_def
  revoke_ix_def
  set_authority_ix_def
  mint_to_ix_def
  burn_ix_def
  close_account_ix_def
  freeze_account_ix_def
  thaw_account_ix_def
  transfer_checked_ix_def
  approve_checked_ix_def
  mint_to_checked_ix_def
  burn_checked_ix_def
  sync_native_ix_def
  get_account_data_size_ix_def
  initialize_mint_close_authority_ix_def
  initialize_immutable_owner_ix_def
  amount_to_ui_amount_ix_def
  ui_amount_to_amount_ix_def
  reallocate_ix_def
  create_native_mint_ix_def
  initialize_non_transferable_mint_ix_def
  initialize_permanent_delegate_ix_def
  withdraw_excess_lamports_ix_def
  unwrap_lamports_ix_def
  sync_native_with_rent_sysvar_ix_def

text \<open>
  C34. Every constructor succeeds exactly for the programs it accepts (and a possible multisignature
  account), for that program; the instruction names exactly the accounts it documents, in that order, with
  these privileges, and the authority with its signers last; the program runs it by the handler it was
  built for on those accounts and the arguments given; and the authority passes the program's check:
  a single key because it signs, a multisignature account because the given members do.
\<close>

theorem built_instructions_run:
  assumes "utf8_valid ui_amount"
  shows "
    runs_as E program_id (initialize_mint_ix rent program_id mint mint_authority freeze_authority decimals) (token_program program_id)
      [writable mint, readable rent] None (InitializeMint mint_authority freeze_authority decimals) \<and>
    runs_as E program_id (initialize_mint2_ix program_id mint mint_authority freeze_authority decimals) (token_program program_id)
      [writable mint] None (InitializeMint2 mint_authority freeze_authority decimals) \<and>
    runs_as E program_id (initialize_account_ix rent program_id account mint owner) (token_program program_id)
      [writable account, readable mint, readable owner, readable rent] None InitializeAccount \<and>
    runs_as E program_id (initialize_account2_ix rent program_id account mint owner) (token_program program_id)
      [writable account, readable mint, readable rent] None (InitializeAccount2 owner) \<and>
    runs_as E program_id (initialize_account3_ix program_id account mint owner) (token_program program_id)
      [writable account, readable mint] None (InitializeAccount3 owner) \<and>
    runs_as E program_id (initialize_multisig_ix rent program_id multisig signers m) (token_program program_id \<and> signers_allowed m signers)
      ([writable multisig, readable rent] @ map readable signers) None (InitializeMultisig m) \<and>
    runs_as E program_id (initialize_multisig2_ix program_id multisig signers m) (token_program program_id \<and> signers_allowed m signers)
      (writable multisig # map readable signers) None (InitializeMultisig2 m) \<and>
    runs_as E program_id (transfer_ix program_id source destination authority signers amount) (token_program program_id)
      [writable source, writable destination] (Some (authority, signers)) (Transfer amount) \<and>
    runs_as E program_id (approve_ix program_id source delegate owner signers amount) (token_program program_id)
      [writable source, readable delegate] (Some (owner, signers)) (Approve amount) \<and>
    runs_as E program_id (revoke_ix program_id source owner signers) (token_program program_id)
      [writable source] (Some (owner, signers)) Revoke \<and>
    runs_as E program_id (set_authority_ix program_id owned new_authority ty owner signers) (token_program program_id)
      [writable owned] (Some (owner, signers)) (SetAuthority ty new_authority) \<and>
    runs_as E program_id (mint_to_ix program_id mint account mint_authority signers amount) (token_program program_id)
      [writable mint, writable account] (Some (mint_authority, signers)) (MintTo amount) \<and>
    runs_as E program_id (burn_ix program_id account mint authority signers amount) (token_program program_id)
      [writable account, writable mint] (Some (authority, signers)) (Burn amount) \<and>
    runs_as E program_id (close_account_ix program_id account destination owner signers) (token_program program_id)
      [writable account, writable destination] (Some (owner, signers)) CloseAccount \<and>
    runs_as E program_id (freeze_account_ix program_id account mint authority signers) (token_program program_id)
      [writable account, readable mint] (Some (authority, signers)) FreezeAccount \<and>
    runs_as E program_id (thaw_account_ix program_id account mint authority signers) (token_program program_id)
      [writable account, readable mint] (Some (authority, signers)) ThawAccount \<and>
    runs_as E program_id (transfer_checked_ix program_id source mint destination authority signers amount decimals) (token_program program_id)
      [writable source, readable mint, writable destination] (Some (authority, signers)) (TransferChecked amount decimals) \<and>
    runs_as E program_id (approve_checked_ix program_id source mint delegate owner signers amount decimals) (token_program program_id)
      [writable source, readable mint, readable delegate] (Some (owner, signers)) (ApproveChecked amount decimals) \<and>
    runs_as E program_id (mint_to_checked_ix program_id mint account mint_authority signers amount decimals) (token_program program_id)
      [writable mint, writable account] (Some (mint_authority, signers)) (MintToChecked amount decimals) \<and>
    runs_as E program_id (burn_checked_ix program_id account mint authority signers amount decimals) (token_program program_id)
      [writable account, writable mint] (Some (authority, signers)) (BurnChecked amount decimals) \<and>
    runs_as E program_id (sync_native_ix program_id account) (token_program program_id)
      [writable account] None SyncNative \<and>
    runs_as E program_id (get_account_data_size_ix program_id mint types) (token_program program_id)
      [readable mint] None (GetAccountDataSize types) \<and>
    runs_as E program_id (initialize_mint_close_authority_ix program_id mint close_authority) (program_id = TOKEN_2022_ID)
      [writable mint] None (InitializeMintCloseAuthority close_authority) \<and>
    runs_as E program_id (initialize_immutable_owner_ix program_id account) (token_program program_id)
      [writable account] None InitializeImmutableOwner \<and>
    runs_as E program_id (amount_to_ui_amount_ix program_id mint amount) (token_program program_id)
      [readable mint] None (AmountToUiAmount amount) \<and>
    runs_as E program_id (ui_amount_to_amount_ix program_id mint ui_amount) (token_program program_id)
      [readable mint] None (UiAmountToAmount ui_amount) \<and>
    runs_as E program_id (reallocate_ix system program_id account payer owner signers types) (program_id = TOKEN_2022_ID)
      [writable account, paying payer, readable system] (Some (owner, signers)) (Reallocate types) \<and>
    runs_as E program_id (create_native_mint_ix system program_id payer) (program_id = TOKEN_2022_ID)
      [paying payer, writable NATIVE_MINT_ID, readable system] None CreateNativeMint \<and>
    runs_as E program_id (initialize_non_transferable_mint_ix program_id mint) (program_id = TOKEN_2022_ID)
      [writable mint] None InitializeNonTransferableMint \<and>
    runs_as E program_id (initialize_permanent_delegate_ix program_id mint delegate) (program_id = TOKEN_2022_ID)
      [writable mint] None (InitializePermanentDelegate delegate) \<and>
    runs_as E program_id (withdraw_excess_lamports_ix program_id source destination authority signers) (program_id = TOKEN_2022_ID)
      [writable source, writable destination] (Some (authority, signers)) WithdrawExcessLamports \<and>
    runs_as E program_id (unwrap_lamports_ix program_id source destination authority signers some_amount) (token_program program_id)
      [writable source, writable destination] (Some (authority, signers)) (UnwrapLamports some_amount) \<and>
    runs_as E program_id (sync_native_with_rent_sysvar_ix rent program_id account) (token_program program_id)
      [writable account, readable rent] None SyncNative"
  by (intro conjI; rule runs_asI; use assms in \<open>auto simp: client_defs signers_allowed_eq role_simps well_formed_instruction_def result_simps\<close>)

theorem built_instructions_run_witness:
  "runs_as sample_environment TOKEN_2022_ID (ui_amount_to_amount_ix TOKEN_2022_ID 4 [49, 46, 53]) (token_program TOKEN_2022_ID)
     [readable 4] None (UiAmountToAmount [49, 46, 53]) \<and>
   runs_as sample_environment TOKEN_2022_ID (transfer_ix TOKEN_2022_ID 5 6 30 [] 20) (token_program TOKEN_2022_ID)
     [writable 5, writable 6] (Some (30, [])) (Transfer 20)"
proof -
  have "utf8_valid [49, 46, 53]" by code_simp
  from built_instructions_run [OF this, where program_id = TOKEN_2022_ID and E = sample_environment and mint = 4 and source = 5
      and destination = 6 and authority = 30 and signers = "[]" and amount = 20]
  show ?thesis by blast
qed

end
