(* ===== verification/Client_Extension.thy ===== *)
theory Client_Extension
  imports Client_Instruction
begin

text \<open>
  The constructors of the extensions' own instructions (interface/src/extension/*/instruction.rs), those
  of the confidential extensions excepted, and that each runs its handler. An optional authority is
  written as \<open>MaybeNull\<close>, which refuses the zero address.
\<close>

section \<open>Model\<close>

text \<open>\<open>encode_instruction\<close>; the type of the extension's instruction is its number.\<close>

definition encode_instruction :: "address \<Rightarrow> account_meta list \<Rightarrow> token_instruction \<Rightarrow> u8 \<Rightarrow> bytes \<Rightarrow> instruction result" where
  "encode_instruction token_program_id accounts token_instruction_type instruction_type instruction_data =
     built token_program_id accounts (pack token_instruction_type @ instruction_type # instruction_data)"

definition transfer_fee_encode_instruction_data :: "transfer_fee_instruction \<Rightarrow> bytes" where
  "transfer_fee_encode_instruction_data i = pack TransferFeeExtension @ transfer_fee_pack i"

definition try_into_maybe_null :: "platform \<Rightarrow> address option \<Rightarrow> address result" where
  "try_into_maybe_null P x = ok_or (pl_maybe_null_try_from P x) InvalidArgument"

definition initialize_transfer_fee_config_ix ::
    "address \<Rightarrow> address \<Rightarrow> address option \<Rightarrow> address option \<Rightarrow> u16 \<Rightarrow> u64 \<Rightarrow> instruction result" where
  "initialize_transfer_fee_config_ix token_program_id mint config_authority withdraw_authority basis_points maximum_fee =
     bindr (check_program_account token_program_id) (\<lambda>_.
     built token_program_id ([meta_new mint False])
       (transfer_fee_encode_instruction_data (InitializeTransferFeeConfig config_authority withdraw_authority basis_points maximum_fee)))"

definition transfer_checked_with_fee_ix ::
    "address \<Rightarrow> address \<Rightarrow> address \<Rightarrow> address \<Rightarrow> address \<Rightarrow> address list \<Rightarrow> u64 \<Rightarrow> u8 \<Rightarrow> u64 \<Rightarrow> instruction result" where
  "transfer_checked_with_fee_ix token_program_id source mint destination authority signers amount decimals fee =
     bindr (check_program_account token_program_id) (\<lambda>_.
     built token_program_id ([meta_new source False, meta_readonly mint False, meta_new destination False] @ authority_metas authority signers)
       (transfer_fee_encode_instruction_data (FeeTransferCheckedWithFee amount decimals fee)))"

definition withdraw_withheld_tokens_from_mint_ix ::
    "address \<Rightarrow> address \<Rightarrow> address \<Rightarrow> address \<Rightarrow> address list \<Rightarrow> instruction result" where
  "withdraw_withheld_tokens_from_mint_ix token_program_id mint destination authority signers =
     bindr (check_program_account token_program_id) (\<lambda>_.
     built token_program_id ([meta_new mint False, meta_new destination False] @ authority_metas authority signers)
       (transfer_fee_encode_instruction_data WithdrawWithheldTokensFromMint))"

definition withdraw_withheld_tokens_from_accounts_ix ::
    "address \<Rightarrow> address \<Rightarrow> address \<Rightarrow> address \<Rightarrow> address list \<Rightarrow> address list \<Rightarrow> instruction result" where
  "withdraw_withheld_tokens_from_accounts_ix token_program_id mint destination authority signers sources =
     bindr (check_program_account token_program_id) (\<lambda>_.
     bindr (ensure (length sources < 256) InvalidInstructionData) (\<lambda>_.
     built token_program_id
       ([meta_readonly mint False, meta_new destination False] @ authority_metas authority signers @ map (\<lambda>k. meta_new k False) sources)
       (transfer_fee_encode_instruction_data (WithdrawWithheldTokensFromAccounts (of_nat (length sources))))))"

definition harvest_withheld_tokens_to_mint_ix ::
    "address \<Rightarrow> address \<Rightarrow> address list \<Rightarrow> instruction result" where
  "harvest_withheld_tokens_to_mint_ix token_program_id mint sources =
     bindr (check_program_account token_program_id) (\<lambda>_.
     built token_program_id (meta_new mint False # map (\<lambda>k. meta_new k False) sources)
       (transfer_fee_encode_instruction_data HarvestWithheldTokensToMint))"

definition set_transfer_fee_ix ::
    "address \<Rightarrow> address \<Rightarrow> address \<Rightarrow> address list \<Rightarrow> u16 \<Rightarrow> u64 \<Rightarrow> instruction result" where
  "set_transfer_fee_ix token_program_id mint authority signers basis_points maximum_fee =
     bindr (check_program_account token_program_id) (\<lambda>_.
     built token_program_id ([meta_new mint False] @ authority_metas authority signers)
       (transfer_fee_encode_instruction_data (SetTransferFee basis_points maximum_fee)))"

definition initialize_default_account_state_ix ::
    "address \<Rightarrow> address \<Rightarrow> account_state \<Rightarrow> instruction result" where
  "initialize_default_account_state_ix token_program_id mint state =
     bindr (check_program_account token_program_id) (\<lambda>_.
     encode_instruction token_program_id ([meta_new mint False]) DefaultAccountStateExtension 0 ([account_state_u8 state]))"

definition update_default_account_state_ix ::
    "address \<Rightarrow> address \<Rightarrow> address \<Rightarrow> address list \<Rightarrow> account_state \<Rightarrow> instruction result" where
  "update_default_account_state_ix token_program_id mint authority signers state =
     bindr (check_program_account token_program_id) (\<lambda>_.
     encode_instruction token_program_id ([meta_new mint False] @ authority_metas authority signers) DefaultAccountStateExtension 1 ([account_state_u8 state]))"

definition enable_required_transfer_memos_ix ::
    "address \<Rightarrow> address \<Rightarrow> address \<Rightarrow> address list \<Rightarrow> instruction result" where
  "enable_required_transfer_memos_ix token_program_id account owner signers =
     bindr (check_program_account token_program_id) (\<lambda>_.
     encode_instruction token_program_id ([meta_new account False] @ authority_metas owner signers) MemoTransferExtension 0 ([]))"

definition disable_required_transfer_memos_ix ::
    "address \<Rightarrow> address \<Rightarrow> address \<Rightarrow> address list \<Rightarrow> instruction result" where
  "disable_required_transfer_memos_ix token_program_id account owner signers =
     bindr (check_program_account token_program_id) (\<lambda>_.
     encode_instruction token_program_id ([meta_new account False] @ authority_metas owner signers) MemoTransferExtension 1 ([]))"

definition enable_cpi_guard_ix ::
    "address \<Rightarrow> address \<Rightarrow> address \<Rightarrow> address list \<Rightarrow> instruction result" where
  "enable_cpi_guard_ix token_program_id account owner signers =
     bindr (check_program_account token_program_id) (\<lambda>_.
     encode_instruction token_program_id ([meta_new account False] @ authority_metas owner signers) CpiGuardExtension 0 ([]))"

definition disable_cpi_guard_ix ::
    "address \<Rightarrow> address \<Rightarrow> address \<Rightarrow> address list \<Rightarrow> instruction result" where
  "disable_cpi_guard_ix token_program_id account owner signers =
     bindr (check_program_account token_program_id) (\<lambda>_.
     encode_instruction token_program_id ([meta_new account False] @ authority_metas owner signers) CpiGuardExtension 1 ([]))"

definition interest_initialize_ix ::
    "platform \<Rightarrow> address \<Rightarrow> address \<Rightarrow> address option \<Rightarrow> u16 \<Rightarrow> instruction result" where
  "interest_initialize_ix P token_program_id mint rate_authority rate =
     bindr (check_program_account token_program_id) (\<lambda>_.
     bindr (try_into_maybe_null P rate_authority) (\<lambda>a.
     encode_instruction token_program_id ([meta_new mint False]) InterestBearingMintExtension 0 (le_bytes 32 a @ le_bytes 2 rate)))"

definition update_rate_ix ::
    "address \<Rightarrow> address \<Rightarrow> address \<Rightarrow> address list \<Rightarrow> u16 \<Rightarrow> instruction result" where
  "update_rate_ix token_program_id mint authority signers rate =
     bindr (check_program_account token_program_id) (\<lambda>_.
     encode_instruction token_program_id ([meta_new mint False] @ authority_metas authority signers) InterestBearingMintExtension 1 (le_bytes 2 rate))"

definition metadata_pointer_initialize_ix ::
    "platform \<Rightarrow> address \<Rightarrow> address \<Rightarrow> address option \<Rightarrow> address option \<Rightarrow> instruction result" where
  "metadata_pointer_initialize_ix P token_program_id mint authority_option address_option =
     bindr (check_program_account token_program_id) (\<lambda>_.
     bindr (try_into_maybe_null P authority_option) (\<lambda>a.
     bindr (try_into_maybe_null P address_option) (\<lambda>x.
     encode_instruction token_program_id ([meta_new mint False]) MetadataPointerExtension 0 (le_bytes 32 a @ le_bytes 32 x))))"

definition metadata_pointer_update_ix ::
    "platform \<Rightarrow> address \<Rightarrow> address \<Rightarrow> address \<Rightarrow> address list \<Rightarrow> address option \<Rightarrow> instruction result" where
  "metadata_pointer_update_ix P token_program_id mint authority signers address_option =
     bindr (check_program_account token_program_id) (\<lambda>_.
     bindr (try_into_maybe_null P address_option) (\<lambda>x.
     encode_instruction token_program_id ([meta_new mint False] @ authority_metas authority signers) MetadataPointerExtension 1 (le_bytes 32 x)))"

definition group_pointer_initialize_ix ::
    "platform \<Rightarrow> address \<Rightarrow> address \<Rightarrow> address option \<Rightarrow> address option \<Rightarrow> instruction result" where
  "group_pointer_initialize_ix P token_program_id mint authority_option address_option =
     bindr (check_program_account token_program_id) (\<lambda>_.
     bindr (try_into_maybe_null P authority_option) (\<lambda>a.
     bindr (try_into_maybe_null P address_option) (\<lambda>x.
     encode_instruction token_program_id ([meta_new mint False]) GroupPointerExtension 0 (le_bytes 32 a @ le_bytes 32 x))))"

definition group_pointer_update_ix ::
    "platform \<Rightarrow> address \<Rightarrow> address \<Rightarrow> address \<Rightarrow> address list \<Rightarrow> address option \<Rightarrow> instruction result" where
  "group_pointer_update_ix P token_program_id mint authority signers address_option =
     bindr (check_program_account token_program_id) (\<lambda>_.
     bindr (try_into_maybe_null P address_option) (\<lambda>x.
     encode_instruction token_program_id ([meta_new mint False] @ authority_metas authority signers) GroupPointerExtension 1 (le_bytes 32 x)))"

definition group_member_pointer_initialize_ix ::
    "platform \<Rightarrow> address \<Rightarrow> address \<Rightarrow> address option \<Rightarrow> address option \<Rightarrow> instruction result" where
  "group_member_pointer_initialize_ix P token_program_id mint authority_option address_option =
     bindr (check_program_account token_program_id) (\<lambda>_.
     bindr (try_into_maybe_null P authority_option) (\<lambda>a.
     bindr (try_into_maybe_null P address_option) (\<lambda>x.
     encode_instruction token_program_id ([meta_new mint False]) GroupMemberPointerExtension 0 (le_bytes 32 a @ le_bytes 32 x))))"

definition group_member_pointer_update_ix ::
    "platform \<Rightarrow> address \<Rightarrow> address \<Rightarrow> address \<Rightarrow> address list \<Rightarrow> address option \<Rightarrow> instruction result" where
  "group_member_pointer_update_ix P token_program_id mint authority signers address_option =
     bindr (check_program_account token_program_id) (\<lambda>_.
     bindr (try_into_maybe_null P address_option) (\<lambda>x.
     encode_instruction token_program_id ([meta_new mint False] @ authority_metas authority signers) GroupMemberPointerExtension 1 (le_bytes 32 x)))"

definition transfer_hook_initialize_ix ::
    "platform \<Rightarrow> address \<Rightarrow> address \<Rightarrow> address option \<Rightarrow> address option \<Rightarrow> instruction result" where
  "transfer_hook_initialize_ix P token_program_id mint authority_option address_option =
     bindr (check_program_account token_program_id) (\<lambda>_.
     bindr (try_into_maybe_null P authority_option) (\<lambda>a.
     bindr (try_into_maybe_null P address_option) (\<lambda>x.
     encode_instruction token_program_id ([meta_new mint False]) TransferHookExtension 0 (le_bytes 32 a @ le_bytes 32 x))))"

definition transfer_hook_update_ix ::
    "platform \<Rightarrow> address \<Rightarrow> address \<Rightarrow> address \<Rightarrow> address list \<Rightarrow> address option \<Rightarrow> instruction result" where
  "transfer_hook_update_ix P token_program_id mint authority signers address_option =
     bindr (check_program_account token_program_id) (\<lambda>_.
     bindr (try_into_maybe_null P address_option) (\<lambda>x.
     encode_instruction token_program_id ([meta_new mint False] @ authority_metas authority signers) TransferHookExtension 1 (le_bytes 32 x)))"

definition scaled_ui_amount_initialize_ix ::
    "platform \<Rightarrow> address \<Rightarrow> address \<Rightarrow> address option \<Rightarrow> u64 \<Rightarrow> instruction result" where
  "scaled_ui_amount_initialize_ix P token_program_id mint authority_option multiplier =
     bindr (check_program_account token_program_id) (\<lambda>_.
     bindr (try_into_maybe_null P authority_option) (\<lambda>a.
     encode_instruction token_program_id ([meta_new mint False]) ScaledUiAmountExtension 0 (le_bytes 32 a @ le_bytes 8 multiplier)))"

definition update_multiplier_ix ::
    "address \<Rightarrow> address \<Rightarrow> address \<Rightarrow> address list \<Rightarrow> u64 \<Rightarrow> u64 \<Rightarrow> instruction result" where
  "update_multiplier_ix token_program_id mint authority signers multiplier effective_timestamp =
     bindr (check_program_account token_program_id) (\<lambda>_.
     encode_instruction token_program_id ([meta_new mint False] @ authority_metas authority signers) ScaledUiAmountExtension 1 (le_bytes 8 multiplier @ le_bytes 8 effective_timestamp))"

definition pausable_initialize_ix ::
    "address \<Rightarrow> address \<Rightarrow> address \<Rightarrow> instruction result" where
  "pausable_initialize_ix token_program_id mint authority =
     bindr (check_program_account token_program_id) (\<lambda>_.
     encode_instruction token_program_id ([meta_new mint False]) PausableExtension 0 (le_bytes 32 authority))"

definition pause_ix ::
    "address \<Rightarrow> address \<Rightarrow> address \<Rightarrow> address list \<Rightarrow> instruction result" where
  "pause_ix token_program_id mint authority signers =
     bindr (check_program_account token_program_id) (\<lambda>_.
     encode_instruction token_program_id ([meta_new mint False] @ authority_metas authority signers) PausableExtension 1 ([]))"

definition resume_ix ::
    "address \<Rightarrow> address \<Rightarrow> address \<Rightarrow> address list \<Rightarrow> instruction result" where
  "resume_ix token_program_id mint authority signers =
     bindr (check_program_account token_program_id) (\<lambda>_.
     encode_instruction token_program_id ([meta_new mint False] @ authority_metas authority signers) PausableExtension 2 ([]))"

definition permissioned_burn_initialize_ix ::
    "address \<Rightarrow> address \<Rightarrow> address \<Rightarrow> instruction result" where
  "permissioned_burn_initialize_ix token_program_id mint authority =
     bindr (check_program_account token_program_id) (\<lambda>_.
     encode_instruction token_program_id ([meta_new mint False]) PermissionedBurnExtension 0 (le_bytes 32 authority))"

definition permissioned_burn_ix ::
    "address \<Rightarrow> address \<Rightarrow> address \<Rightarrow> address \<Rightarrow> address \<Rightarrow> address list \<Rightarrow> u64 \<Rightarrow> instruction result" where
  "permissioned_burn_ix token_program_id account mint permissioned_burn_authority authority signers amount =
     bindr (check_program_account token_program_id) (\<lambda>_.
     encode_instruction token_program_id ([meta_new account False, meta_new mint False, meta_readonly permissioned_burn_authority True] @ authority_metas authority signers) PermissionedBurnExtension 1 (le_bytes 8 amount))"

definition permissioned_burn_checked_ix ::
    "address \<Rightarrow> address \<Rightarrow> address \<Rightarrow> address \<Rightarrow> address \<Rightarrow> address list \<Rightarrow> u64 \<Rightarrow> u8 \<Rightarrow> instruction result" where
  "permissioned_burn_checked_ix token_program_id account mint permissioned_burn_authority authority signers amount decimals =
     bindr (check_program_account token_program_id) (\<lambda>_.
     encode_instruction token_program_id ([meta_new account False, meta_new mint False, meta_readonly permissioned_burn_authority True] @ authority_metas authority signers) PermissionedBurnExtension 2 (le_bytes 8 amount @ [decimals]))"

section \<open>What is built runs\<close>

text \<open>The address written for an optional one, and which optional addresses can be written.\<close>

definition nullable :: "('f, 'g, 'm, 't, 'k) environment \<Rightarrow> address option \<Rightarrow> address" where
  "nullable E x = (case pl_maybe_null_try_from (en_platform E) x of Some a \<Rightarrow> a | None \<Rightarrow> 0)"

definition may_be_null :: "('f, 'g, 'm, 't, 'k) environment \<Rightarrow> address option \<Rightarrow> bool" where
  "may_be_null E x \<longleftrightarrow> pl_maybe_null_try_from (en_platform E) x \<noteq> None"

lemma try_into_maybe_null_Inr [result_simps]:
  "try_into_maybe_null (en_platform E) x = Inr a \<longleftrightarrow> may_be_null E x \<and> a = nullable E x"
  by (auto simp: try_into_maybe_null_def nullable_def may_be_null_def result_simps)

lemmas clientx_defs =
  built_def encode_instruction_def transfer_fee_encode_instruction_data_def
  initialize_transfer_fee_config_ix_def
  transfer_checked_with_fee_ix_def
  withdraw_withheld_tokens_from_mint_ix_def
  withdraw_withheld_tokens_from_accounts_ix_def
  harvest_withheld_tokens_to_mint_ix_def
  set_transfer_fee_ix_def
  initialize_default_account_state_ix_def
  update_default_account_state_ix_def
  enable_required_transfer_memos_ix_def
  disable_required_transfer_memos_ix_def
  enable_cpi_guard_ix_def
  disable_cpi_guard_ix_def
  interest_initialize_ix_def
  update_rate_ix_def
  metadata_pointer_initialize_ix_def
  metadata_pointer_update_ix_def
  group_pointer_initialize_ix_def
  group_pointer_update_ix_def
  group_member_pointer_initialize_ix_def
  group_member_pointer_update_ix_def
  transfer_hook_initialize_ix_def
  transfer_hook_update_ix_def
  scaled_ui_amount_initialize_ix_def
  update_multiplier_ix_def
  pausable_initialize_ix_def
  pause_ix_def
  resume_ix_def
  permissioned_burn_initialize_ix_def
  permissioned_burn_ix_def
  permissioned_burn_checked_ix_def

text \<open>The bytes of an extension's own instruction reach that extension's processor.\<close>

lemma process_extension:
  "extension_instruction i \<Longrightarrow> well_formed_instruction i \<Longrightarrow>
     process E program_id accounts (pack i @ rest) w = execute E program_id accounts i rest w"
  by (rule process_pack) simp_all

lemmas extension_processors =
  transfer_fee_process_instruction_def default_account_state_process_instruction_def memo_transfer_process_instruction_def
  cpi_guard_process_instruction_def interest_bearing_process_instruction_def pointer_process_instruction_def
  metadata_pointer_process_instruction_def group_pointer_process_instruction_def group_member_pointer_process_instruction_def
  transfer_hook_process_instruction_def scaled_ui_amount_process_instruction_def pausable_process_instruction_def
  permissioned_burn_process_instruction_def

lemma transfer_fee_unpack_packed: "transfer_fee_unpack (transfer_fee_pack i) = Inr i"
  using transfer_fee_unpack_pack [of i "[]"] by simp

lemma of_le_byte: "of_le [b] = (b :: u8)"
  by (simp add: of_le_def)

lemma default_account_state_decoded:
  "default_account_state_decode_instruction [0, account_state_u8 s] = Inr (DefaultStateInitialize, s)"
  "default_account_state_decode_instruction [1, account_state_u8 s] = Inr (DefaultStateUpdate, s)"
  by (simp_all add: default_account_state_decode_instruction_def enum_try_from_def)

text \<open>
  C35. Every constructor of an extension's instruction succeeds exactly for the Token-2022 program (when an
  optional address is not the zero address, and there are at most 255 source accounts); the
  instruction names exactly the accounts it documents, with these privileges, the authority with its
  signers in its place; the program runs it by the handler of that extension on those accounts and
  the arguments given; and the authority passes the program's check.
\<close>

theorem built_extension_instructions_run:
  "runs_handler E program_id (initialize_transfer_fee_config_ix program_id mint config_authority withdraw_authority basis_points maximum_fee)
      (program_id = TOKEN_2022_ID) [writable mint] None []
      (\<lambda>pid accounts. on_store (transfer_fee_handler (en_platform E) pid accounts (InitializeTransferFeeConfig config_authority withdraw_authority basis_points maximum_fee))) \<and>
   runs_handler E program_id (transfer_checked_with_fee_ix program_id source mint destination authority signers amount decimals fee)
      (program_id = TOKEN_2022_ID) [writable source, readable mint, writable destination] (Some (authority, signers)) []
      (\<lambda>pid accounts. on_store (transfer_fee_handler (en_platform E) pid accounts (FeeTransferCheckedWithFee amount decimals fee))) \<and>
   runs_handler E program_id (withdraw_withheld_tokens_from_mint_ix program_id mint destination authority signers)
      (program_id = TOKEN_2022_ID) [writable mint, writable destination] (Some (authority, signers)) []
      (\<lambda>pid accounts. on_store (transfer_fee_handler (en_platform E) pid accounts WithdrawWithheldTokensFromMint)) \<and>
   runs_handler E program_id (withdraw_withheld_tokens_from_accounts_ix program_id mint destination authority signers sources)
      (program_id = TOKEN_2022_ID \<and> length sources < 256) [readable mint, writable destination] (Some (authority, signers)) (map writable sources)
      (\<lambda>pid accounts. on_store (transfer_fee_handler (en_platform E) pid accounts (WithdrawWithheldTokensFromAccounts (of_nat (length sources))))) \<and>
   runs_handler E program_id (harvest_withheld_tokens_to_mint_ix program_id mint sources)
      (program_id = TOKEN_2022_ID) (writable mint # map writable sources) None []
      (\<lambda>pid accounts. on_store (transfer_fee_handler (en_platform E) pid accounts HarvestWithheldTokensToMint)) \<and>
   runs_handler E program_id (set_transfer_fee_ix program_id mint authority signers basis_points maximum_fee)
      (program_id = TOKEN_2022_ID) [writable mint] (Some (authority, signers)) []
      (\<lambda>pid accounts. on_store (transfer_fee_handler (en_platform E) pid accounts (SetTransferFee basis_points maximum_fee))) \<and>
   runs_handler E program_id (initialize_default_account_state_ix program_id mint state)
      (program_id = TOKEN_2022_ID) [writable mint] None []
      (\<lambda>pid accounts. on_store (process_initialize_default_account_state (en_platform E) accounts state)) \<and>
   runs_handler E program_id (update_default_account_state_ix program_id mint authority signers state)
      (program_id = TOKEN_2022_ID) [writable mint] (Some (authority, signers)) []
      (\<lambda>pid accounts. on_store (process_update_default_account_state (en_platform E) pid accounts state)) \<and>
   runs_handler E program_id (enable_required_transfer_memos_ix program_id account owner signers)
      (program_id = TOKEN_2022_ID) [writable account] (Some (owner, signers)) []
      (\<lambda>pid accounts. on_store (process_toggle_required_memo_transfers (en_platform E) pid accounts True)) \<and>
   runs_handler E program_id (disable_required_transfer_memos_ix program_id account owner signers)
      (program_id = TOKEN_2022_ID) [writable account] (Some (owner, signers)) []
      (\<lambda>pid accounts. on_store (process_toggle_required_memo_transfers (en_platform E) pid accounts False)) \<and>
   runs_handler E program_id (enable_cpi_guard_ix program_id account owner signers)
      (program_id = TOKEN_2022_ID) [writable account] (Some (owner, signers)) []
      (\<lambda>pid accounts. on_store (process_toggle_cpi_guard (en_platform E) pid accounts True)) \<and>
   runs_handler E program_id (disable_cpi_guard_ix program_id account owner signers)
      (program_id = TOKEN_2022_ID) [writable account] (Some (owner, signers)) []
      (\<lambda>pid accounts. on_store (process_toggle_cpi_guard (en_platform E) pid accounts False)) \<and>
   runs_handler E program_id (interest_initialize_ix (en_platform E) program_id mint rate_authority rate)
      (program_id = TOKEN_2022_ID \<and> may_be_null E rate_authority) [writable mint] None []
      (\<lambda>pid accounts. on_store (interest_process_initialize (en_platform E) accounts (nullable E rate_authority) rate)) \<and>
   runs_handler E program_id (update_rate_ix program_id mint authority signers rate)
      (program_id = TOKEN_2022_ID) [writable mint] (Some (authority, signers)) []
      (\<lambda>pid accounts. on_store (process_update_rate (en_platform E) pid accounts rate)) \<and>
   runs_handler E program_id (metadata_pointer_initialize_ix (en_platform E) program_id mint authority_option address_option)
      (program_id = TOKEN_2022_ID \<and> may_be_null E authority_option \<and> may_be_null E address_option) [writable mint] None []
      (\<lambda>pid accounts. on_store (metadata_pointer_process_initialize (en_platform E) accounts (nullable E authority_option) (nullable E address_option))) \<and>
   runs_handler E program_id (metadata_pointer_update_ix (en_platform E) program_id mint authority signers address_option)
      (program_id = TOKEN_2022_ID \<and> may_be_null E address_option) [writable mint] (Some (authority, signers)) []
      (\<lambda>pid accounts. on_store (metadata_pointer_process_update (en_platform E) pid accounts (nullable E address_option))) \<and>
   runs_handler E program_id (group_pointer_initialize_ix (en_platform E) program_id mint authority_option address_option)
      (program_id = TOKEN_2022_ID \<and> may_be_null E authority_option \<and> may_be_null E address_option) [writable mint] None []
      (\<lambda>pid accounts. on_store (group_pointer_process_initialize (en_platform E) accounts (nullable E authority_option) (nullable E address_option))) \<and>
   runs_handler E program_id (group_pointer_update_ix (en_platform E) program_id mint authority signers address_option)
      (program_id = TOKEN_2022_ID \<and> may_be_null E address_option) [writable mint] (Some (authority, signers)) []
      (\<lambda>pid accounts. on_store (group_pointer_process_update (en_platform E) pid accounts (nullable E address_option))) \<and>
   runs_handler E program_id (group_member_pointer_initialize_ix (en_platform E) program_id mint authority_option address_option)
      (program_id = TOKEN_2022_ID \<and> may_be_null E authority_option \<and> may_be_null E address_option) [writable mint] None []
      (\<lambda>pid accounts. on_store (group_member_pointer_process_initialize (en_platform E) accounts (nullable E authority_option) (nullable E address_option))) \<and>
   runs_handler E program_id (group_member_pointer_update_ix (en_platform E) program_id mint authority signers address_option)
      (program_id = TOKEN_2022_ID \<and> may_be_null E address_option) [writable mint] (Some (authority, signers)) []
      (\<lambda>pid accounts. on_store (group_member_pointer_process_update (en_platform E) pid accounts (nullable E address_option))) \<and>
   runs_handler E program_id (transfer_hook_initialize_ix (en_platform E) program_id mint authority_option address_option)
      (program_id = TOKEN_2022_ID \<and> may_be_null E authority_option \<and> may_be_null E address_option) [writable mint] None []
      (\<lambda>pid accounts. on_store (transfer_hook_process_initialize (en_platform E) pid accounts (nullable E authority_option) (nullable E address_option))) \<and>
   runs_handler E program_id (transfer_hook_update_ix (en_platform E) program_id mint authority signers address_option)
      (program_id = TOKEN_2022_ID \<and> may_be_null E address_option) [writable mint] (Some (authority, signers)) []
      (\<lambda>pid accounts. on_store (transfer_hook_process_update (en_platform E) pid accounts (nullable E address_option))) \<and>
   runs_handler E program_id (scaled_ui_amount_initialize_ix (en_platform E) program_id mint authority_option multiplier)
      (program_id = TOKEN_2022_ID \<and> may_be_null E authority_option) [writable mint] None []
      (\<lambda>pid accounts. on_store (scaled_ui_amount_process_initialize (en_platform E) accounts (nullable E authority_option) multiplier)) \<and>
   runs_handler E program_id (update_multiplier_ix program_id mint authority signers multiplier effective_timestamp)
      (program_id = TOKEN_2022_ID) [writable mint] (Some (authority, signers)) []
      (\<lambda>pid accounts. on_store (process_update_multiplier (en_platform E) pid accounts multiplier effective_timestamp)) \<and>
   runs_handler E program_id (pausable_initialize_ix program_id mint authority)
      (program_id = TOKEN_2022_ID) [writable mint] None []
      (\<lambda>pid accounts. on_store (pausable_process_initialize (en_platform E) accounts authority)) \<and>
   runs_handler E program_id (pause_ix program_id mint authority signers)
      (program_id = TOKEN_2022_ID) [writable mint] (Some (authority, signers)) []
      (\<lambda>pid accounts. on_store (process_toggle_pause (en_platform E) pid accounts True)) \<and>
   runs_handler E program_id (resume_ix program_id mint authority signers)
      (program_id = TOKEN_2022_ID) [writable mint] (Some (authority, signers)) []
      (\<lambda>pid accounts. on_store (process_toggle_pause (en_platform E) pid accounts False)) \<and>
   runs_handler E program_id (permissioned_burn_initialize_ix program_id mint authority)
      (program_id = TOKEN_2022_ID) [writable mint] None []
      (\<lambda>pid accounts. on_store (permissioned_burn_process_initialize (en_platform E) accounts authority)) \<and>
   runs_handler E program_id (permissioned_burn_ix program_id account mint permissioned_burn_authority authority signers amount)
      (program_id = TOKEN_2022_ID) [writable account, writable mint, signing permissioned_burn_authority] (Some (authority, signers)) []
      (\<lambda>pid accounts. on_store (process_burn (en_platform E) pid accounts amount BurnPermissioned VariantUnchecked)) \<and>
   runs_handler E program_id (permissioned_burn_checked_ix program_id account mint permissioned_burn_authority authority signers amount decimals)
      (program_id = TOKEN_2022_ID) [writable account, writable mint, signing permissioned_burn_authority] (Some (authority, signers)) []
      (\<lambda>pid accounts. on_store (process_burn (en_platform E) pid accounts amount BurnPermissioned (VariantChecked decimals)))"
  by (intro conjI; rule runs_handlerI;
      auto simp: clientx_defs role_simps result_simps process_extension extension_instruction_def
        well_formed_instruction_def transfer_fee_unpack_packed of_le_byte execute_def extension_processors
        decode_instruction_type_def enum_try_from_def decode_instruction_data_def default_account_state_decoded
        read_address_def read_addresses_def codec_simps amount_checked_data_def seg_def)

end
