(* ===== verification/Client_Confidential.thy ===== *)
theory Client_Confidential
  imports Client_Extension
begin

text \<open>
  The constructors of the confidential instructions
  (interface/src/extension/confidential_transfer, confidential_transfer_fee and
      confidential_mint_burn/instruction.rs)
  and \<open>process_proof_location\<close> of confidential/proof-extraction/src/instruction.rs. An instruction
  that relies on a zero-knowledge proof is told where it is: in a later instruction of the transaction or
  in a context account. The \<open>inner\<close> constructors build the instruction alone, the others append
  the instructions that carry the proofs.
\<close>

section \<open>Where the proofs are\<close>

text \<open>
  The offset is a \<open>NonZeroI8\<close>, the proof data is plain bytes. The address of the instructions
      sysvar and
  \<open>ProofInstruction::encode_verify_proof\<close> belong to other crates.
\<close>

datatype (plugins only: code) proof_location = InstructionOffset i8 bytes | ContextStateAccount address

record client =
  cl_instructions_sysvar :: address
  cl_encode_verify_proof :: "proof_instruction \<Rightarrow> bytes \<Rightarrow> instruction"

definition nonzero_offset :: "proof_location \<Rightarrow> bool" where
  "nonzero_offset l = (case l of InstructionOffset offset _ \<Rightarrow> offset \<noteq> 0 |
      ContextStateAccount _ \<Rightarrow> True)"

definition is_instruction_offset :: "proof_location \<Rightarrow> bool" where
  "is_instruction_offset l = (case l of InstructionOffset _ _ \<Rightarrow> True | ContextStateAccount _
      \<Rightarrow> False)"

definition location_offset :: "proof_location \<Rightarrow> i8" where
  "location_offset l = (case l of InstructionOffset offset _ \<Rightarrow> offset | ContextStateAccount _
      \<Rightarrow> 0)"

definition context_metas :: "proof_location \<Rightarrow> account_meta list" where
  "context_metas l =
     (case l of InstructionOffset _ _ \<Rightarrow> [] | ContextStateAccount context_state_account
         \<Rightarrow> [meta_readonly context_state_account False])"

text \<open>The instructions sysvar, where a proof is in an instruction, then the context accounts.\<close>

definition proof_metas :: "client \<Rightarrow> proof_location list \<Rightarrow> account_meta list" where
  "proof_metas C locations =
     (if list_ex is_instruction_offset locations then [meta_readonly (cl_instructions_sysvar C) False] else []) @
     concat (map context_metas locations)"

text \<open>The instructions that carry proofs follow in order, so their offsets have to count up.\<close>

fun appended_proofs :: "client \<Rightarrow> i8 \<Rightarrow> (proof_location \<times> proof_instruction) list
    \<Rightarrow> instruction list result" where
  "appended_proofs C expected_instruction_offset [] = Inr []"
| "appended_proofs C expected_instruction_offset ((l, kind) # locations) =
     (case l of
        InstructionOffset proof_instruction_offset proof_data \<Rightarrow>
          bindr (ensure (proof_instruction_offset = expected_instruction_offset) (Custom
              InvalidProofInstructionOffset)) (\<lambda>_.
          bindr (appended_proofs C (expected_instruction_offset + 1) locations) (\<lambda>instructions.
          Inr (cl_encode_verify_proof C kind proof_data # instructions)))
      | ContextStateAccount _ \<Rightarrow> appended_proofs C expected_instruction_offset locations)"

definition with_proofs ::
    "client \<Rightarrow> instruction result \<Rightarrow> (proof_location \<times> proof_instruction) list
        \<Rightarrow> instruction list result" where
  "with_proofs C inner locations =
     bindr inner (\<lambda>i.
     bindr (appended_proofs C 1 locations) (\<lambda>instructions.
     Inr (i # instructions)))"

text \<open>The offset found, and the accounts, the offset expected next and the proof instructions so far.\<close>

definition process_proof_location ::
    "client \<Rightarrow> account_meta list \<Rightarrow> i8 \<Rightarrow> instruction list \<Rightarrow>
        proof_location \<Rightarrow> bool \<Rightarrow> proof_instruction \<Rightarrow>
     (i8 \<times> account_meta list \<times> i8 \<times> instruction list) result" where
  "process_proof_location C accounts expected_instruction_offset proof_instructions proof_location
       push_sysvar_to_accounts proof_instruction_type =
     (case proof_location of
        InstructionOffset proof_instruction_offset proof_data \<Rightarrow>
          bindr (ensure (proof_instruction_offset = expected_instruction_offset) InvalidInstructionData)
              (\<lambda>_.
          bindr (ensure (sint expected_instruction_offset < 127) InvalidInstructionData) (\<lambda>_.
          Inr (proof_instruction_offset,
               accounts @ (if push_sysvar_to_accounts then [meta_readonly (cl_instructions_sysvar C) False]
                   else []),
               expected_instruction_offset + 1,
               proof_instructions @ [cl_encode_verify_proof C proof_instruction_type proof_data])))
      | ContextStateAccount context_state_account \<Rightarrow>
          Inr (0, accounts @ [meta_readonly context_state_account False], expected_instruction_offset,
              proof_instructions))"

definition confidential_transfer_built ::
    "address \<Rightarrow> account_meta list \<Rightarrow> confidential_transfer_instruction \<Rightarrow>
        instruction result" where
  "confidential_transfer_built token_program_id accounts i =
     built token_program_id accounts (pack ConfidentialTransferExtension @ encode_confidential_transfer i)"

definition confidential_fee_built ::
    "address \<Rightarrow> account_meta list \<Rightarrow> confidential_transfer_fee_instruction \<Rightarrow>
        instruction result" where
  "confidential_fee_built token_program_id accounts i =
     built token_program_id accounts (pack ConfidentialTransferFeeExtension @ encode_confidential_transfer_fee i)"

definition confidential_mint_burn_built ::
    "address \<Rightarrow> account_meta list \<Rightarrow> confidential_mint_burn_instruction \<Rightarrow>
        instruction result" where
  "confidential_mint_burn_built token_program_id accounts i =
     built token_program_id accounts (pack ConfidentialMintBurnExtension @ encode_confidential_mint_burn i)"

section \<open>Confidential transfers\<close>

definition confidential_initialize_mint_ix ::
    "platform \<Rightarrow> address \<Rightarrow> address \<Rightarrow> address option \<Rightarrow> bool
        \<Rightarrow> elgamal_pubkey option \<Rightarrow> instruction result" where
  "confidential_initialize_mint_ix P token_program_id mint authority auto_approve_new_accounts
      auditor_elgamal_pubkey =
     bindr (check_program_account token_program_id) (\<lambda>_.
     bindr (try_into_maybe_null P authority) (\<lambda>a.
     bindr (try_into_maybe_null P auditor_elgamal_pubkey) (\<lambda>k.
     confidential_transfer_built token_program_id ([meta_new mint False])
       (ConfidentialInitializeMint a (pl_pod_from_bool P auto_approve_new_accounts) k))))"

definition confidential_update_mint_ix ::
    "platform \<Rightarrow> address \<Rightarrow> address \<Rightarrow> address \<Rightarrow> address list
        \<Rightarrow> bool \<Rightarrow> elgamal_pubkey option \<Rightarrow> instruction result" where
  "confidential_update_mint_ix P token_program_id mint authority multisig_signers auto_approve_new_accounts
      auditor_elgamal_pubkey =
     bindr (check_program_account token_program_id) (\<lambda>_.
     bindr (try_into_maybe_null P auditor_elgamal_pubkey) (\<lambda>k.
     confidential_transfer_built token_program_id ([meta_new mint False] @ authority_metas authority
         multisig_signers)
       (ConfidentialUpdateMint (pl_pod_from_bool P auto_approve_new_accounts) k)))"

definition inner_configure_account_ix ::
    "client \<Rightarrow> address \<Rightarrow> address \<Rightarrow> address \<Rightarrow> ae_ciphertext
        \<Rightarrow> u64 \<Rightarrow> address \<Rightarrow> address list \<Rightarrow> proof_location
        \<Rightarrow> instruction result" where
  "inner_configure_account_ix C token_program_id token_account mint decryptable_zero_balance
      maximum_pending_balance_credit_counter authority multisig_signers proof_data_location =
     bindr (check_program_account token_program_id) (\<lambda>_.
     confidential_transfer_built token_program_id ([meta_new token_account False, meta_readonly mint False] @
         proof_metas C [proof_data_location] @ authority_metas authority multisig_signers)
       (ConfidentialConfigureAccount decryptable_zero_balance maximum_pending_balance_credit_counter
          (location_offset proof_data_location)))"

definition configure_account_ix ::
    "client \<Rightarrow> address \<Rightarrow> address \<Rightarrow> address \<Rightarrow> ae_ciphertext
        \<Rightarrow> u64 \<Rightarrow> address \<Rightarrow> address list \<Rightarrow> proof_location
        \<Rightarrow> instruction list result" where
  "configure_account_ix C token_program_id token_account mint decryptable_zero_balance
      maximum_pending_balance_credit_counter authority multisig_signers proof_data_location =
     with_proofs C (inner_configure_account_ix C token_program_id token_account mint decryptable_zero_balance
         maximum_pending_balance_credit_counter authority multisig_signers proof_data_location)
       [(proof_data_location, VerifyPubkeyValidity)]"

definition approve_account_ix ::
    "address \<Rightarrow> address \<Rightarrow> address \<Rightarrow> address \<Rightarrow> address list
        \<Rightarrow> instruction result" where
  "approve_account_ix token_program_id account_to_approve mint authority multisig_signers =
     bindr (check_program_account token_program_id) (\<lambda>_.
     confidential_transfer_built token_program_id ([meta_new account_to_approve False, meta_readonly mint
         False] @ authority_metas authority multisig_signers)
       (ConfidentialApproveAccount))"

definition inner_empty_account_ix ::
    "client \<Rightarrow> address \<Rightarrow> address \<Rightarrow> address \<Rightarrow> address list
        \<Rightarrow> proof_location \<Rightarrow> instruction result" where
  "inner_empty_account_ix C token_program_id token_account authority multisig_signers proof_data_location =
     bindr (check_program_account token_program_id) (\<lambda>_.
     confidential_transfer_built token_program_id ([meta_new token_account False] @ proof_metas C
         [proof_data_location] @ authority_metas authority multisig_signers)
       (ConfidentialEmptyAccount (location_offset proof_data_location)))"

definition empty_account_ix ::
    "client \<Rightarrow> address \<Rightarrow> address \<Rightarrow> address \<Rightarrow> address list
        \<Rightarrow> proof_location \<Rightarrow> instruction list result" where
  "empty_account_ix C token_program_id token_account authority multisig_signers proof_data_location =
     with_proofs C (inner_empty_account_ix C token_program_id token_account authority multisig_signers
         proof_data_location)
       [(proof_data_location, VerifyZeroCiphertext)]"

definition deposit_ix ::
    "address \<Rightarrow> address \<Rightarrow> address \<Rightarrow> u64 \<Rightarrow> u8 \<Rightarrow>
        address \<Rightarrow> address list \<Rightarrow> instruction result" where
  "deposit_ix token_program_id token_account mint amount decimals authority multisig_signers =
     bindr (check_program_account token_program_id) (\<lambda>_.
     confidential_transfer_built token_program_id ([meta_new token_account False, meta_readonly mint False] @
         authority_metas authority multisig_signers)
       (ConfidentialDeposit amount decimals))"

definition inner_withdraw_ix ::
    "client \<Rightarrow> address \<Rightarrow> address \<Rightarrow> address \<Rightarrow> u64 \<Rightarrow>
        u8 \<Rightarrow> ae_ciphertext \<Rightarrow> address \<Rightarrow> address list \<Rightarrow>
        proof_location \<Rightarrow> proof_location \<Rightarrow> instruction result" where
  "inner_withdraw_ix C token_program_id token_account mint amount decimals new_decryptable_available_balance
      authority multisig_signers equality range_proof =
     bindr (check_program_account token_program_id) (\<lambda>_.
     confidential_transfer_built token_program_id ([meta_new token_account False, meta_readonly mint False] @
         proof_metas C [equality, range_proof] @ authority_metas authority multisig_signers)
       (ConfidentialWithdraw amount decimals new_decryptable_available_balance
          (location_offset equality) (location_offset range_proof)))"

definition withdraw_ix ::
    "client \<Rightarrow> address \<Rightarrow> address \<Rightarrow> address \<Rightarrow> u64 \<Rightarrow>
        u8 \<Rightarrow> ae_ciphertext \<Rightarrow> address \<Rightarrow> address list \<Rightarrow>
        proof_location \<Rightarrow> proof_location \<Rightarrow> instruction list result" where
  "withdraw_ix C token_program_id token_account mint amount decimals new_decryptable_available_balance
      authority multisig_signers equality range_proof =
     with_proofs C (inner_withdraw_ix C token_program_id token_account mint amount decimals
         new_decryptable_available_balance authority multisig_signers equality range_proof)
       [(equality, VerifyCiphertextCommitmentEquality),
        (range_proof, VerifyBatchedRangeProofU64)]"

definition inner_confidential_transfer_ix ::
    "client \<Rightarrow> address \<Rightarrow> address \<Rightarrow> address \<Rightarrow> address
        \<Rightarrow> ae_ciphertext \<Rightarrow> ciphertext \<Rightarrow> ciphertext \<Rightarrow> address
        \<Rightarrow> address list \<Rightarrow> proof_location \<Rightarrow> proof_location \<Rightarrow>
        proof_location \<Rightarrow> instruction result" where
  "inner_confidential_transfer_ix C token_program_id source_token_account mint destination_token_account
      new_source_decryptable_available_balance auditor_ciphertext_lo auditor_ciphertext_hi authority
      multisig_signers equality validity range_proof =
     bindr (check_program_account token_program_id) (\<lambda>_.
     confidential_transfer_built token_program_id ([meta_new source_token_account False, meta_readonly mint
         False, meta_new destination_token_account False] @ proof_metas C [equality, validity, range_proof] @
         authority_metas authority multisig_signers)
       (ConfidentialTransfer new_source_decryptable_available_balance auditor_ciphertext_lo auditor_ciphertext_hi
          (location_offset equality) (location_offset validity) (location_offset range_proof)))"

definition confidential_transfer_ix ::
    "client \<Rightarrow> address \<Rightarrow> address \<Rightarrow> address \<Rightarrow> address
        \<Rightarrow> ae_ciphertext \<Rightarrow> ciphertext \<Rightarrow> ciphertext \<Rightarrow> address
        \<Rightarrow> address list \<Rightarrow> proof_location \<Rightarrow> proof_location \<Rightarrow>
        proof_location \<Rightarrow> instruction list result" where
  "confidential_transfer_ix C token_program_id source_token_account mint destination_token_account
      new_source_decryptable_available_balance auditor_ciphertext_lo auditor_ciphertext_hi authority
      multisig_signers equality validity range_proof =
     with_proofs C (inner_confidential_transfer_ix C token_program_id source_token_account mint
         destination_token_account new_source_decryptable_available_balance auditor_ciphertext_lo
         auditor_ciphertext_hi authority multisig_signers equality validity range_proof)
       [(equality, VerifyCiphertextCommitmentEquality),
        (validity, VerifyBatchedGroupedCiphertext3HandlesValidity),
        (range_proof, VerifyBatchedRangeProofU128)]"

definition inner_apply_pending_balance_ix ::
    "address \<Rightarrow> address \<Rightarrow> u64 \<Rightarrow> ae_ciphertext \<Rightarrow> address
        \<Rightarrow> address list \<Rightarrow> instruction result" where
  "inner_apply_pending_balance_ix token_program_id token_account expected_pending_balance_credit_counter
      new_decryptable_available_balance authority multisig_signers =
     bindr (check_program_account token_program_id) (\<lambda>_.
     confidential_transfer_built token_program_id ([meta_new token_account False] @ authority_metas authority
         multisig_signers)
       (ConfidentialApplyPendingBalance expected_pending_balance_credit_counter new_decryptable_available_balance))"

definition apply_pending_balance_ix ::
    "address \<Rightarrow> address \<Rightarrow> u64 \<Rightarrow> ae_ciphertext \<Rightarrow> address
        \<Rightarrow> address list \<Rightarrow> instruction result" where
  "apply_pending_balance_ix token_program_id token_account expected_pending_balance_credit_counter
      new_decryptable_available_balance authority multisig_signers =
     inner_apply_pending_balance_ix token_program_id token_account expected_pending_balance_credit_counter
         new_decryptable_available_balance authority multisig_signers"

definition enable_or_disable_balance_credits_ix ::
    "confidential_transfer_instruction \<Rightarrow> address \<Rightarrow> address \<Rightarrow> address
        \<Rightarrow> address list \<Rightarrow> instruction result" where
  "enable_or_disable_balance_credits_ix i token_program_id token_account authority multisig_signers =
     bindr (check_program_account token_program_id) (\<lambda>_.
     confidential_transfer_built token_program_id ([meta_new token_account False] @ authority_metas authority
         multisig_signers)
       (i))"

definition enable_confidential_credits_ix ::
    "address \<Rightarrow> address \<Rightarrow> address \<Rightarrow> address list \<Rightarrow> instruction
        result" where
  "enable_confidential_credits_ix token_program_id token_account authority multisig_signers =
     enable_or_disable_balance_credits_ix ConfidentialEnableConfidentialCredits token_program_id token_account
         authority multisig_signers"

definition disable_confidential_credits_ix ::
    "address \<Rightarrow> address \<Rightarrow> address \<Rightarrow> address list \<Rightarrow> instruction
        result" where
  "disable_confidential_credits_ix token_program_id token_account authority multisig_signers =
     enable_or_disable_balance_credits_ix ConfidentialDisableConfidentialCredits token_program_id token_account
         authority multisig_signers"

definition enable_non_confidential_credits_ix ::
    "address \<Rightarrow> address \<Rightarrow> address \<Rightarrow> address list \<Rightarrow> instruction
        result" where
  "enable_non_confidential_credits_ix token_program_id token_account authority multisig_signers =
     enable_or_disable_balance_credits_ix ConfidentialEnableNonConfidentialCredits token_program_id
         token_account authority multisig_signers"

definition disable_non_confidential_credits_ix ::
    "address \<Rightarrow> address \<Rightarrow> address \<Rightarrow> address list \<Rightarrow> instruction
        result" where
  "disable_non_confidential_credits_ix token_program_id token_account authority multisig_signers =
     enable_or_disable_balance_credits_ix ConfidentialDisableNonConfidentialCredits token_program_id
         token_account authority multisig_signers"

definition inner_transfer_with_fee_ix ::
    "client \<Rightarrow> address \<Rightarrow> address \<Rightarrow> address \<Rightarrow> address
        \<Rightarrow> ae_ciphertext \<Rightarrow> ciphertext \<Rightarrow> ciphertext \<Rightarrow> address
        \<Rightarrow> address list \<Rightarrow> proof_location \<Rightarrow> proof_location \<Rightarrow>
        proof_location \<Rightarrow> proof_location \<Rightarrow> proof_location \<Rightarrow> instruction
        result" where
  "inner_transfer_with_fee_ix C token_program_id source_token_account mint destination_token_account
      new_source_decryptable_available_balance auditor_ciphertext_lo auditor_ciphertext_hi authority
      multisig_signers equality validity fee_sigma fee_validity range_proof =
     bindr (check_program_account token_program_id) (\<lambda>_.
     confidential_transfer_built token_program_id ([meta_new source_token_account False, meta_readonly mint
         False, meta_new destination_token_account False] @ proof_metas C [equality, validity, fee_sigma,
         fee_validity, range_proof] @ authority_metas authority multisig_signers)
       (ConfidentialTransferWithFee new_source_decryptable_available_balance auditor_ciphertext_lo
           auditor_ciphertext_hi
          (location_offset equality) (location_offset validity) (location_offset fee_sigma)
          (location_offset fee_validity) (location_offset range_proof)))"

definition transfer_with_fee_ix ::
    "client \<Rightarrow> address \<Rightarrow> address \<Rightarrow> address \<Rightarrow> address
        \<Rightarrow> ae_ciphertext \<Rightarrow> ciphertext \<Rightarrow> ciphertext \<Rightarrow> address
        \<Rightarrow> address list \<Rightarrow> proof_location \<Rightarrow> proof_location \<Rightarrow>
        proof_location \<Rightarrow> proof_location \<Rightarrow> proof_location \<Rightarrow> instruction list
        result" where
  "transfer_with_fee_ix C token_program_id source_token_account mint destination_token_account
      new_source_decryptable_available_balance auditor_ciphertext_lo auditor_ciphertext_hi authority
      multisig_signers equality validity fee_sigma fee_validity range_proof =
     with_proofs C (inner_transfer_with_fee_ix C token_program_id source_token_account mint
         destination_token_account new_source_decryptable_available_balance auditor_ciphertext_lo
         auditor_ciphertext_hi authority multisig_signers equality validity fee_sigma fee_validity range_proof)
       [(equality, VerifyCiphertextCommitmentEquality),
        (validity, VerifyBatchedGroupedCiphertext3HandlesValidity),
        (fee_sigma, VerifyPercentageWithCap),
        (fee_validity, VerifyBatchedGroupedCiphertext2HandlesValidity),
        (range_proof, VerifyBatchedRangeProofU256)]"

definition configure_account_with_registry_ix ::
    "address \<Rightarrow> address \<Rightarrow> address \<Rightarrow> address \<Rightarrow> address
        \<Rightarrow> address option \<Rightarrow> instruction result" where
  "configure_account_with_registry_ix system token_program_id token_account mint elgamal_registry_account payer =
     bindr (check_program_account token_program_id) (\<lambda>_.
     confidential_transfer_built token_program_id ([meta_new token_account False, meta_readonly mint False,
         meta_readonly elgamal_registry_account False] @
        (case payer of Some payer \<Rightarrow> [meta_new payer True, meta_readonly system False] | None
            \<Rightarrow> []))
       (ConfidentialConfigureAccountWithRegistry))"

section \<open>Confidential transfer fees\<close>

definition initialize_confidential_transfer_fee_config_ix ::
    "platform \<Rightarrow> address \<Rightarrow> address \<Rightarrow> address option \<Rightarrow>
        elgamal_pubkey \<Rightarrow> instruction result" where
  "initialize_confidential_transfer_fee_config_ix P token_program_id mint authority
      withdraw_withheld_authority_elgamal_pubkey =
     bindr (check_program_account token_program_id) (\<lambda>_.
     bindr (try_into_maybe_null P authority) (\<lambda>a.
     confidential_fee_built token_program_id ([meta_new mint False])
       (ConfidentialFeeInitialize a withdraw_withheld_authority_elgamal_pubkey)))"

definition inner_confidential_withdraw_withheld_from_mint_ix ::
    "client \<Rightarrow> address \<Rightarrow> address \<Rightarrow> address \<Rightarrow> ae_ciphertext
        \<Rightarrow> address \<Rightarrow> address list \<Rightarrow> proof_location \<Rightarrow> instruction
        result" where
  "inner_confidential_withdraw_withheld_from_mint_ix C token_program_id mint destination
      new_decryptable_available_balance authority multisig_signers proof_data_location =
     bindr (check_program_account token_program_id) (\<lambda>_.
     confidential_fee_built token_program_id ([meta_new mint False, meta_new destination False] @ proof_metas C
         [proof_data_location] @ authority_metas authority multisig_signers)
       (ConfidentialFeeWithdrawFromMint (location_offset proof_data_location) new_decryptable_available_balance))"

definition confidential_withdraw_withheld_from_mint_ix ::
    "client \<Rightarrow> address \<Rightarrow> address \<Rightarrow> address \<Rightarrow> ae_ciphertext
        \<Rightarrow> address \<Rightarrow> address list \<Rightarrow> proof_location \<Rightarrow> instruction
        list result" where
  "confidential_withdraw_withheld_from_mint_ix C token_program_id mint destination
      new_decryptable_available_balance authority multisig_signers proof_data_location =
     with_proofs C (inner_confidential_withdraw_withheld_from_mint_ix C token_program_id mint destination
         new_decryptable_available_balance authority multisig_signers proof_data_location)
       [(proof_data_location, VerifyCiphertextCiphertextEquality)]"

definition inner_confidential_withdraw_withheld_from_accounts_ix ::
    "client \<Rightarrow> address \<Rightarrow> address \<Rightarrow> address \<Rightarrow> ae_ciphertext
        \<Rightarrow> address \<Rightarrow> address list \<Rightarrow> address list \<Rightarrow>
        proof_location \<Rightarrow> instruction result" where
  "inner_confidential_withdraw_withheld_from_accounts_ix C token_program_id mint destination
      new_decryptable_available_balance authority multisig_signers sources proof_data_location =
     bindr (check_program_account token_program_id) (\<lambda>_.
     bindr (ensure (length sources < 256) InvalidInstructionData) (\<lambda>_.
     confidential_fee_built token_program_id ([meta_new mint False, meta_new destination False] @ proof_metas C
         [proof_data_location] @ authority_metas authority multisig_signers @
        map (\<lambda>k. meta_new k False) sources)
       (ConfidentialFeeWithdrawFromAccounts (of_nat (length sources)) (location_offset proof_data_location)
          new_decryptable_available_balance)))"

definition confidential_withdraw_withheld_from_accounts_ix ::
    "client \<Rightarrow> address \<Rightarrow> address \<Rightarrow> address \<Rightarrow> ae_ciphertext
        \<Rightarrow> address \<Rightarrow> address list \<Rightarrow> address list \<Rightarrow>
        proof_location \<Rightarrow> instruction list result" where
  "confidential_withdraw_withheld_from_accounts_ix C token_program_id mint destination
      new_decryptable_available_balance authority multisig_signers sources proof_data_location =
     with_proofs C (inner_confidential_withdraw_withheld_from_accounts_ix C token_program_id mint destination
         new_decryptable_available_balance authority multisig_signers sources proof_data_location)
       [(proof_data_location, VerifyCiphertextCiphertextEquality)]"

definition confidential_harvest_to_mint_ix ::
    "address \<Rightarrow> address \<Rightarrow> address list \<Rightarrow> instruction result" where
  "confidential_harvest_to_mint_ix token_program_id mint sources =
     bindr (check_program_account token_program_id) (\<lambda>_.
     confidential_fee_built token_program_id (meta_new mint False # map (\<lambda>k. meta_new k False) sources)
       (ConfidentialFeeHarvestToMint))"

definition enable_harvest_to_mint_ix ::
    "address \<Rightarrow> address \<Rightarrow> address \<Rightarrow> address list \<Rightarrow> instruction
        result" where
  "enable_harvest_to_mint_ix token_program_id mint authority multisig_signers =
     bindr (check_program_account token_program_id) (\<lambda>_.
     confidential_fee_built token_program_id ([meta_new mint False] @ authority_metas authority multisig_signers)
       (ConfidentialFeeEnableHarvest))"

definition disable_harvest_to_mint_ix ::
    "address \<Rightarrow> address \<Rightarrow> address \<Rightarrow> address list \<Rightarrow> instruction
        result" where
  "disable_harvest_to_mint_ix token_program_id mint authority multisig_signers =
     bindr (check_program_account token_program_id) (\<lambda>_.
     confidential_fee_built token_program_id ([meta_new mint False] @ authority_metas authority multisig_signers)
       (ConfidentialFeeDisableHarvest))"

section \<open>Confidential mint and burn\<close>

definition confidential_mint_burn_initialize_ix ::
    "address \<Rightarrow> address \<Rightarrow> elgamal_pubkey \<Rightarrow> ae_ciphertext \<Rightarrow>
        instruction result" where
  "confidential_mint_burn_initialize_ix token_program_id mint supply_elgamal_pubkey decryptable_supply =
     bindr (check_program_account token_program_id) (\<lambda>_.
     confidential_mint_burn_built token_program_id ([meta_new mint False])
       (ConfidentialSupplyInitialize supply_elgamal_pubkey decryptable_supply))"

definition rotate_supply_elgamal_pubkey_ix ::
    "client \<Rightarrow> address \<Rightarrow> address \<Rightarrow> address \<Rightarrow> address list
        \<Rightarrow> elgamal_pubkey \<Rightarrow> proof_location \<Rightarrow> instruction list result" where
  "rotate_supply_elgamal_pubkey_ix C token_program_id mint authority multisig_signers new_supply_elgamal_pubkey
      ciphertext_equality_proof =
     bindr (check_program_account token_program_id) (\<lambda>_.
     bindr (process_proof_location C [meta_new mint False] 1 [] ciphertext_equality_proof True
              VerifyCiphertextCiphertextEquality) (\<lambda>(proof_instruction_offset, accounts, _,
                  proof_instructions).
     bindr (confidential_mint_burn_built token_program_id (accounts @ authority_metas authority multisig_signers)
              (ConfidentialSupplyRotate new_supply_elgamal_pubkey proof_instruction_offset)) (\<lambda>i.
     Inr (i # proof_instructions))))"

definition update_decryptable_supply_ix ::
    "address \<Rightarrow> address \<Rightarrow> address \<Rightarrow> address list \<Rightarrow> ae_ciphertext
        \<Rightarrow> instruction result" where
  "update_decryptable_supply_ix token_program_id mint authority multisig_signers new_decryptable_supply =
     bindr (check_program_account token_program_id) (\<lambda>_.
     confidential_mint_burn_built token_program_id ([meta_new mint False] @ authority_metas authority
         multisig_signers)
       (ConfidentialSupplyUpdate new_decryptable_supply))"

definition inner_confidential_mint_ix ::
    "client \<Rightarrow> address \<Rightarrow> address \<Rightarrow> address \<Rightarrow> ciphertext
        \<Rightarrow> ciphertext \<Rightarrow> address \<Rightarrow> address list \<Rightarrow> proof_location
        \<Rightarrow> proof_location \<Rightarrow> proof_location \<Rightarrow> ae_ciphertext \<Rightarrow>
        instruction result" where
  "inner_confidential_mint_ix C token_program_id token_account mint auditor_ciphertext_lo auditor_ciphertext_hi
      authority multisig_signers equality validity range_proof new_decryptable_supply =
     bindr (check_program_account token_program_id) (\<lambda>_.
     confidential_mint_burn_built token_program_id ([meta_new token_account False, meta_new mint False] @
         proof_metas C [equality, validity, range_proof] @ authority_metas authority multisig_signers)
       (ConfidentialSupplyMint new_decryptable_supply auditor_ciphertext_lo auditor_ciphertext_hi
          (location_offset equality) (location_offset validity) (location_offset range_proof)))"

definition confidential_mint_ix ::
    "client \<Rightarrow> address \<Rightarrow> address \<Rightarrow> address \<Rightarrow> ciphertext
        \<Rightarrow> ciphertext \<Rightarrow> address \<Rightarrow> address list \<Rightarrow> proof_location
        \<Rightarrow> proof_location \<Rightarrow> proof_location \<Rightarrow> ae_ciphertext \<Rightarrow>
        instruction list result" where
  "confidential_mint_ix C token_program_id token_account mint auditor_ciphertext_lo auditor_ciphertext_hi
      authority multisig_signers equality validity range_proof new_decryptable_supply =
     with_proofs C (inner_confidential_mint_ix C token_program_id token_account mint auditor_ciphertext_lo
         auditor_ciphertext_hi authority multisig_signers equality validity range_proof new_decryptable_supply)
       [(equality, VerifyCiphertextCommitmentEquality),
        (validity, VerifyBatchedGroupedCiphertext3HandlesValidity),
        (range_proof, VerifyBatchedRangeProofU128)]"

definition inner_confidential_burn_ix ::
    "client \<Rightarrow> address \<Rightarrow> address \<Rightarrow> address \<Rightarrow> ae_ciphertext
        \<Rightarrow> ciphertext \<Rightarrow> ciphertext \<Rightarrow> address \<Rightarrow> address list
        \<Rightarrow> proof_location \<Rightarrow> proof_location \<Rightarrow> proof_location \<Rightarrow>
        instruction result" where
  "inner_confidential_burn_ix C token_program_id token_account mint new_decryptable_available_balance
      auditor_ciphertext_lo auditor_ciphertext_hi authority multisig_signers equality validity range_proof =
     bindr (check_program_account token_program_id) (\<lambda>_.
     confidential_mint_burn_built token_program_id ([meta_new token_account False, meta_new mint False] @
         proof_metas C [equality, validity, range_proof] @ authority_metas authority multisig_signers)
       (ConfidentialSupplyBurn new_decryptable_available_balance auditor_ciphertext_lo auditor_ciphertext_hi
          (location_offset equality) (location_offset validity) (location_offset range_proof)))"

definition confidential_burn_ix ::
    "client \<Rightarrow> address \<Rightarrow> address \<Rightarrow> address \<Rightarrow> ae_ciphertext
        \<Rightarrow> ciphertext \<Rightarrow> ciphertext \<Rightarrow> address \<Rightarrow> address list
        \<Rightarrow> proof_location \<Rightarrow> proof_location \<Rightarrow> proof_location \<Rightarrow>
        instruction list result" where
  "confidential_burn_ix C token_program_id token_account mint new_decryptable_available_balance
      auditor_ciphertext_lo auditor_ciphertext_hi authority multisig_signers equality validity range_proof =
     with_proofs C (inner_confidential_burn_ix C token_program_id token_account mint
         new_decryptable_available_balance auditor_ciphertext_lo auditor_ciphertext_hi authority
         multisig_signers equality validity range_proof)
       [(equality, VerifyCiphertextCommitmentEquality),
        (validity, VerifyBatchedGroupedCiphertext3HandlesValidity),
        (range_proof, VerifyBatchedRangeProofU128)]"

definition apply_pending_burn_ix ::
    "address \<Rightarrow> address \<Rightarrow> address \<Rightarrow> address list \<Rightarrow> instruction
        result" where
  "apply_pending_burn_ix token_program_id mint authority multisig_signers =
     bindr (check_program_account token_program_id) (\<lambda>_.
     confidential_mint_burn_built token_program_id ([meta_new mint False] @ authority_metas authority
         multisig_signers)
       (ConfidentialSupplyApplyPendingBurn))"

text \<open>
  The burn of the permissioned-burn extension; the instructions sysvar is added with the first proof only.
\<close>

definition permissioned_confidential_burn_ix ::
    "client \<Rightarrow> address \<Rightarrow> address \<Rightarrow> address \<Rightarrow> address
        \<Rightarrow> ae_ciphertext \<Rightarrow> ciphertext \<Rightarrow> ciphertext \<Rightarrow> address
        \<Rightarrow> address list \<Rightarrow> proof_location \<Rightarrow> proof_location \<Rightarrow>
        proof_location \<Rightarrow> instruction list result" where
  "permissioned_confidential_burn_ix C token_program_id token_account mint permissioned_burn_authority
      new_decryptable_available_balance auditor_ciphertext_lo auditor_ciphertext_hi authority multisig_signers
      equality validity range_proof =
     bindr (check_program_account token_program_id) (\<lambda>_.
     bindr (process_proof_location C [meta_new token_account False, meta_new mint False] 1 [] equality True
              VerifyCiphertextCommitmentEquality) (\<lambda>(equality_offset, accounts, expected, proofs).
     bindr (process_proof_location C accounts expected proofs validity False
              VerifyBatchedGroupedCiphertext3HandlesValidity) (\<lambda>(validity_offset, accounts, expected,
                  proofs).
     bindr (process_proof_location C accounts expected proofs range_proof False
              VerifyBatchedRangeProofU128) (\<lambda>(range_offset, accounts, _, proofs).
     bindr (encode_instruction token_program_id
              (accounts @ [meta_readonly permissioned_burn_authority True] @ authority_metas authority
                  multisig_signers)
              PermissionedBurnExtension 3
              (le_bytes 36 new_decryptable_available_balance @ le_bytes 64 auditor_ciphertext_lo @
               le_bytes 64 auditor_ciphertext_hi @ [equality_offset, validity_offset, range_offset])) (\<lambda>i.
     Inr (i # proofs))))))"

lemmas clientc_defs =
  built_def confidential_transfer_built_def confidential_fee_built_def confidential_mint_burn_built_def
  confidential_initialize_mint_ix_def
  confidential_update_mint_ix_def
  inner_configure_account_ix_def
  configure_account_ix_def
  approve_account_ix_def
  inner_empty_account_ix_def
  empty_account_ix_def
  deposit_ix_def
  inner_withdraw_ix_def
  withdraw_ix_def
  inner_confidential_transfer_ix_def
  confidential_transfer_ix_def
  inner_apply_pending_balance_ix_def
  apply_pending_balance_ix_def
  enable_or_disable_balance_credits_ix_def
  enable_confidential_credits_ix_def
  disable_confidential_credits_ix_def
  enable_non_confidential_credits_ix_def
  disable_non_confidential_credits_ix_def
  inner_transfer_with_fee_ix_def
  transfer_with_fee_ix_def
  configure_account_with_registry_ix_def
  initialize_confidential_transfer_fee_config_ix_def
  inner_confidential_withdraw_withheld_from_mint_ix_def
  confidential_withdraw_withheld_from_mint_ix_def
  inner_confidential_withdraw_withheld_from_accounts_ix_def
  confidential_withdraw_withheld_from_accounts_ix_def
  confidential_harvest_to_mint_ix_def
  enable_harvest_to_mint_ix_def
  disable_harvest_to_mint_ix_def
  confidential_mint_burn_initialize_ix_def
  rotate_supply_elgamal_pubkey_ix_def
  update_decryptable_supply_ix_def
  inner_confidential_mint_ix_def
  confidential_mint_ix_def
  inner_confidential_burn_ix_def
  confidential_burn_ix_def
  apply_pending_burn_ix_def
  permissioned_confidential_burn_ix_def

section \<open>What is built runs\<close>

text \<open>What the proofs need of the accounts, and that the offsets given count up 1, 2, 3 and so on.\<close>

definition context_roles :: "proof_location \<Rightarrow> role list" where
  "context_roles l = (case l of InstructionOffset _ _ \<Rightarrow> [] | ContextStateAccount a \<Rightarrow> [readable a])"

definition proof_roles :: "client \<Rightarrow> proof_location list \<Rightarrow> role list" where
  "proof_roles C ls =
     (if \<exists>l \<in> set ls. is_instruction_offset l then [readable (cl_instructions_sysvar C)] else []) @
     concat (map context_roles ls)"

definition offsets :: "proof_location list \<Rightarrow> i8 list" where
  "offsets ls = map location_offset (filter is_instruction_offset ls)"

definition follow_on :: "proof_location list \<Rightarrow> bool" where
  "follow_on ls \<longleftrightarrow> offsets ls = map of_nat [1..<Suc (length (offsets ls))]"

text \<open>The instruction itself, in front of those that carry its proofs.\<close>

definition first_of :: "instruction list result \<Rightarrow> instruction result" where
  "first_of r = bindr r (\<lambda>instructions. Inr (hd instructions))"

lemma role_of_context_metas: "map role_of (context_metas l) = context_roles l"
  by (cases l) (simp_all add: context_metas_def context_roles_def role_of_simps)

lemma role_of_proof_metas: "map role_of (proof_metas C ls) = proof_roles C ls"
  by (simp add: proof_metas_def proof_roles_def role_of_simps list_ex_iff map_concat comp_def role_of_context_metas)

lemma offsets_simps [simp]:
  "offsets [] = []" "offsets (InstructionOffset x d # ls) = x # offsets ls" "offsets (ContextStateAccount a # ls) = offsets ls"
  by (simp_all add: offsets_def is_instruction_offset_def location_offset_def)

lemma count_up_Cons: "map of_nat [e..<e + length (x # xs)] = of_nat e # map of_nat [Suc e..<Suc e + length xs]"
  by (simp add: upt_conv_Cons del: upt_Suc)

lemma appended_proofs_ok:
  "(\<exists>ps. appended_proofs C (of_nat e) locations = Inr ps) \<longleftrightarrow>
     offsets (map fst locations) = map of_nat [e..<e + length (offsets (map fst locations))]"
proof (induction locations arbitrary: e)
  case (Cons lk locations)
  obtain l k where lk: "lk = (l, k)" by (cases lk)
  show ?case
  proof (cases l)
    case (InstructionOffset x d)
    have "of_nat e + 1 = (of_nat (Suc e) :: i8)" by simp
    then have "(\<exists>ps. appended_proofs C (of_nat e) (lk # locations) = Inr ps) \<longleftrightarrow>
        x = of_nat e \<and> (\<exists>ps. appended_proofs C (of_nat (Suc e)) locations = Inr ps)"
      using lk InstructionOffset by (auto simp: result_simps simp del: of_nat_Suc)
    also have "\<dots> \<longleftrightarrow> x = of_nat e \<and>
        offsets (map fst locations) = map of_nat [Suc e..<Suc e + length (offsets (map fst locations))]"
      by (simp only: Cons.IH)
    finally show ?thesis
      using lk InstructionOffset by (simp only: list.map fst_conv offsets_simps count_up_Cons list.inject)
  next
    case (ContextStateAccount x)
    with Cons.IH [of e] lk show ?thesis by simp
  qed
qed simp

lemma first_of_with_proofs:
  "first_of (with_proofs C inner locations) = Inr ix \<longleftrightarrow> inner = Inr ix \<and> follow_on (map fst locations)"
  using appended_proofs_ok [of C 1 locations] by (auto simp: first_of_def with_proofs_def follow_on_def result_simps)

lemma process_proof_location_eq:
  "process_proof_location C accounts e ps l push kind = Inr (x, accounts', e', ps') \<longleftrightarrow>
     x = location_offset l \<and>
     accounts' = accounts @ (if is_instruction_offset l \<and> push then [meta_readonly (cl_instructions_sysvar C) False] else []) @
       context_metas l \<and>
     (if is_instruction_offset l then location_offset l = e \<and> sint e < 127 \<and> e' = e + 1 else e' = e) \<and>
     ps' = ps @ (case l of InstructionOffset _ d \<Rightarrow> [cl_encode_verify_proof C kind d] | ContextStateAccount _ \<Rightarrow> [])"
  by (cases l) (auto simp: process_proof_location_def is_instruction_offset_def location_offset_def context_metas_def
      result_simps)

lemma rotate_supply_built:
  "first_of (rotate_supply_elgamal_pubkey_ix C program_id mint authority signers pubkey location) = Inr ix \<longleftrightarrow>
     program_id = TOKEN_2022_ID \<and> follow_on [location] \<and>
     ix = \<lparr>ix_program_id = program_id,
       ix_accounts = [meta_new mint False] @ proof_metas C [location] @ authority_metas authority signers,
       ix_data = pack ConfidentialMintBurnExtension @
         encode_confidential_mint_burn (ConfidentialSupplyRotate pubkey (location_offset location))\<rparr>"
  by (cases location)
    (auto simp: first_of_def rotate_supply_elgamal_pubkey_ix_def confidential_mint_burn_built_def built_def
      process_proof_location_eq proof_metas_def follow_on_def offsets_def is_instruction_offset_def location_offset_def
      result_simps)

lemma permissioned_burn_built:
  "first_of (permissioned_confidential_burn_ix C program_id account mint burn_authority balance lo hi authority signers
      equality validity range_proof) = Inr ix \<longleftrightarrow>
     program_id = TOKEN_2022_ID \<and> follow_on [equality, validity, range_proof] \<and>
     ix = \<lparr>ix_program_id = program_id,
       ix_accounts = [meta_new account False, meta_new mint False] @ proof_metas C [equality] @ context_metas validity @
         context_metas range_proof @ [meta_readonly burn_authority True] @ authority_metas authority signers,
       ix_data = pack PermissionedBurnExtension @ 3 # le_bytes 36 balance @ le_bytes 64 lo @ le_bytes 64 hi @
         [location_offset equality, location_offset validity, location_offset range_proof]\<rparr>"
  by (cases equality; cases validity; cases range_proof)
    (auto simp: first_of_def permissioned_confidential_burn_ix_def encode_instruction_def built_def
      process_proof_location_eq proof_metas_def follow_on_def offsets_def is_instruction_offset_def location_offset_def
      context_metas_def result_simps upt_conv_Cons)

text \<open>With the feature \<open>zk-ops\<close> built in, the processor runs the handler of the instruction.\<close>

definition runs_confidential_transfer ::
    "('f, 'g, 'm, 't, 'k) environment \<Rightarrow> address \<Rightarrow> instruction result \<Rightarrow> bool \<Rightarrow> role list \<Rightarrow>
     (address \<times> address list) option \<Rightarrow> role list \<Rightarrow> confidential_transfer_instruction \<Rightarrow> bool" where
  "runs_confidential_transfer E program_id r ok roles who rest i =
     runs_handler E program_id r ok roles who rest
       (\<lambda>program_id accounts. on_store (confidential_transfer_handler (en_zk E) (en_platform E) program_id accounts i))"

definition runs_confidential_fee ::
    "('f, 'g, 'm, 't, 'k) environment \<Rightarrow> address \<Rightarrow> instruction result \<Rightarrow> bool \<Rightarrow> role list \<Rightarrow>
     (address \<times> address list) option \<Rightarrow> role list \<Rightarrow> confidential_transfer_fee_instruction \<Rightarrow> bool" where
  "runs_confidential_fee E program_id r ok roles who rest i =
     runs_handler E program_id r ok roles who rest
       (\<lambda>program_id accounts. on_store (confidential_transfer_fee_handler (en_zk E) (en_platform E) program_id accounts i))"

definition runs_confidential_mint_burn ::
    "('f, 'g, 'm, 't, 'k) environment \<Rightarrow> address \<Rightarrow> instruction result \<Rightarrow> bool \<Rightarrow> role list \<Rightarrow>
     (address \<times> address list) option \<Rightarrow> role list \<Rightarrow> confidential_mint_burn_instruction \<Rightarrow> bool" where
  "runs_confidential_mint_burn E program_id r ok roles who rest i =
     runs_handler E program_id r ok roles who rest
       (\<lambda>program_id accounts. on_store (confidential_mint_burn_handler (en_zk E) (en_platform E) program_id accounts i))"

lemma check_program_account_built:
  "bindr (check_program_account program_id) f = Inr ix \<longleftrightarrow> program_id = TOKEN_2022_ID \<and> f () = Inr ix"
  by (auto simp: check_program_account_def ensure_def)

lemma process_confidential:
  assumes "en_zk_ops E" and "program_id = TOKEN_2022_ID"
  shows "process E program_id accounts (pack ConfidentialTransferExtension @ encode_confidential_transfer ci) w =
      on_store (confidential_transfer_handler (en_zk E) (en_platform E) program_id accounts ci) w"
    and "process E program_id accounts (pack ConfidentialTransferFeeExtension @ encode_confidential_transfer_fee fi) w =
      on_store (confidential_transfer_fee_handler (en_zk E) (en_platform E) program_id accounts fi) w"
    and "process E program_id accounts (pack ConfidentialMintBurnExtension @ encode_confidential_mint_burn mi) w =
      on_store (confidential_mint_burn_handler (en_zk E) (en_platform E) program_id accounts mi) w"
  using assms
  by (simp_all add: process_extension extension_instruction_def well_formed_instruction_def execute_def on_store_def
      confidential_transfer_process_instruction_def confidential_transfer_fee_process_instruction_def
      confidential_mint_burn_process_instruction_def decode_encode_confidential_transfer
      decode_encode_confidential_transfer_fee decode_encode_confidential_mint_burn check_program_account_def)

lemma process_permissioned_confidential_burn:
  assumes "en_zk_ops E"
  shows "process E TOKEN_2022_ID accounts (pack PermissionedBurnExtension @ 3 # le_bytes 36 balance @ le_bytes 64 lo @
      le_bytes 64 hi @ [equality_offset, validity_offset, range_offset]) w =
    on_store (process_confidential_burn (en_zk E) (en_platform E) TOKEN_2022_ID accounts balance lo hi
      equality_offset validity_offset range_offset BurnPermissioned) w"
  using assms
  by (simp add: process_extension extension_instruction_def well_formed_instruction_def execute_def on_store_def
      permissioned_burn_process_instruction_def check_program_account_def decode_instruction_type_def enum_try_from_def
      permissioned_confidential_burn_def decode_instruction_data_def supply_burn_of_bytes_def codec_simps seg_Cons nth_append)

lemma runs_builtI:
  assumes "(\<exists>ix. r = Inr ix) \<longleftrightarrow> ok"
    and "\<And>ix. r = Inr ix \<Longrightarrow> map role_of (ix_accounts ix) = roles @ authority_roles who @ rest"
    and "\<And>ix. r = Inr ix \<Longrightarrow> ix_program_id ix = program_id \<and> program_id = TOKEN_2022_ID \<and> ix_data ix = data"
    and "\<And>accounts w. process E TOKEN_2022_ID accounts data w = h TOKEN_2022_ID accounts w"
  shows "runs_handler E program_id r ok roles who rest h"
proof (rule runs_handlerI [OF assms(1)])
  fix ix accounts w
  assume r: "r = Inr ix"
  show "ix_program_id ix = program_id" by (rule conjunct1 [OF assms(3) [OF r]])
  show "map role_of (ix_accounts ix) = roles @ authority_roles who @ rest" by (rule assms(2) [OF r])
  from assms(3) [OF r] assms(4) show "process E program_id accounts (ix_data ix) w = h program_id accounts w"
    by simp
qed

lemma runs_confidentialI:
  assumes "en_zk_ops E" and "(\<exists>ix. r = Inr ix) \<longleftrightarrow> ok"
    and "\<And>ix. r = Inr ix \<Longrightarrow> map role_of (ix_accounts ix) = roles @ authority_roles who @ rest"
    and "\<And>ix. r = Inr ix \<Longrightarrow> ix_program_id ix = program_id \<and> program_id = TOKEN_2022_ID \<and> ix_data ix = data"
  shows "data = pack ConfidentialTransferExtension @ encode_confidential_transfer ci \<Longrightarrow>
      runs_confidential_transfer E program_id r ok roles who rest ci"
    and "data = pack ConfidentialTransferFeeExtension @ encode_confidential_transfer_fee fi \<Longrightarrow>
      runs_confidential_fee E program_id r ok roles who rest fi"
    and "data = pack ConfidentialMintBurnExtension @ encode_confidential_mint_burn mi \<Longrightarrow>
      runs_confidential_mint_burn E program_id r ok roles who rest mi"
    and "data = pack PermissionedBurnExtension @ 3 # le_bytes 36 balance @ le_bytes 64 lo @
        le_bytes 64 hi @ [equality_offset, validity_offset, range_offset] \<Longrightarrow>
      runs_handler E program_id r ok roles who rest
        (\<lambda>pid accounts. on_store (process_confidential_burn (en_zk E) (en_platform E) pid accounts balance lo hi
           equality_offset validity_offset range_offset BurnPermissioned))"
  unfolding runs_confidential_transfer_def runs_confidential_fee_def runs_confidential_mint_burn_def
  by (rule runs_builtI [OF assms(2-4)];
      simp add: process_confidential [OF assms(1) refl] process_permissioned_confidential_burn [OF assms(1)])+



end
