(* ===== verification/Client_Proofs.thy ===== *)
theory Client_Proofs
  imports Client_Confidential
begin

text \<open>
  The proofs of confidential instructions, from the constructor to the program: the program looks for each
  proof exactly where the client said it is and finds the authority behind the proof accounts; a built
  transaction carries each proof where the program looks. Two constructors fail these contracts, and
  the program refuses what they build.
\<close>

section \<open>Where the program looks\<close>

text \<open>The context of the proof at a location, read from the account or the instruction it names.\<close>

definition located :: "zk \<Rightarrow> client \<Rightarrow> 'u proof_kind \<Rightarrow> address list \<Rightarrow> proof_location \<Rightarrow> store \<Rightarrow> 'u result" where
  "located Z C K held l st =
     (case l of
        InstructionOffset offset _ \<Rightarrow>
          bindr (zk_get_instruction_relative Z (sint offset) (cl_instructions_sysvar C) (st (cl_instructions_sysvar C)))
            (\<lambda>zkp_instruction.
          bindr (zk_proof_type_to_instruction (pk_proof_type K)) (\<lambda>expected.
          decode_proof_instruction_context Z K expected zkp_instruction))
      | ContextStateAccount a \<Rightarrow>
          bindr (check_zk_elgamal_proof_program_account Z (ac_owner (st a))) (\<lambda>_.
          bindr (ensure (a \<notin> set held) Panic) (\<lambda>_.
          bindr (ok_or (pk_context_state K (ac_data (st a))) InvalidArgument) (\<lambda>(proof_type, proof_context).
          bindr (ensure (proof_type = zk_proof_type_byte Z (pk_proof_type K)) InvalidInstructionData) (\<lambda>_.
          Inr proof_context)))))"

lemma sint_byte_zero: "sint (x :: u8) = 0 \<longleftrightarrow> x = 0"
  by (metis signed_word_eqI sint_0)

lemma offset_zero_iff: "nonzero_offset l \<Longrightarrow> sint (location_offset l) = 0 \<longleftrightarrow> \<not> is_instruction_offset l"
  by (cases l) (simp_all add: nonzero_offset_def location_offset_def is_instruction_offset_def sint_byte_zero)

definition serves :: "client \<Rightarrow> account_info option \<Rightarrow> proof_location \<Rightarrow> bool" where
  "serves C sysvar l \<longleftrightarrow> (is_instruction_offset l \<longrightarrow> (\<exists>i. sysvar = Some i \<and> ai_key i = cl_instructions_sysvar C))"

lemma verify_located:
  assumes "nonzero_offset l" and "map ai_key f = map am_pubkey (context_metas l)"
    and "serves C sysvar l"
  shows "verify_and_extract_context Z K held (f @ it) (sint (location_offset l)) sysvar st =
    bindr (located Z C K held l st) (\<lambda>c. Inr (c, it))"
proof (cases l)
  case (InstructionOffset offset d)
  with assms obtain i where "sysvar = Some i" "ai_key i = cl_instructions_sysvar C" "f = []" "offset \<noteq> 0"
    by (auto simp: serves_def is_instruction_offset_def context_metas_def nonzero_offset_def)
  then show ?thesis
    using InstructionOffset by (simp add: verify_and_extract_context_def located_def location_offset_def bindr_assoc sint_byte_zero)
next
  case (ContextStateAccount a)
  with assms obtain i where "f = [i]" "ai_key i = a"
    by (auto simp: context_metas_def meta_readonly_def)
  then show ?thesis
    using ContextStateAccount
    by (simp add: verify_and_extract_context_def located_def location_offset_def info_owner_def info_data_def
        bindr_assoc case_prod_unfold next_account_info_def)
qed

lemma verify_single:
  assumes "nonzero_offset l" and "map ai_key f = map am_pubkey (proof_metas C [l])"
  shows "verify_and_extract_context Z K held (f @ it) (sint (location_offset l)) None st =
    bindr (located Z C K held l st) (\<lambda>c. Inr (c, it))"
proof (cases l)
  case (InstructionOffset offset d)
  with assms obtain i where "ai_key i = cl_instructions_sysvar C" "f = [i]" "offset \<noteq> 0"
    by (auto simp: is_instruction_offset_def context_metas_def proof_metas_def nonzero_offset_def meta_readonly_def)
  then show ?thesis
    using InstructionOffset
    by (simp add: verify_and_extract_context_def located_def location_offset_def bindr_assoc next_account_info_def
        sint_byte_zero)
next
  case (ContextStateAccount a)
  with assms show ?thesis
    by (intro verify_located) (auto simp: proof_metas_def serves_def is_instruction_offset_def)
qed

lemma proof_sysvar_located:
  assumes "list_all nonzero_offset ls"
    and "map ai_key s = (if list_ex is_instruction_offset ls then [cl_instructions_sysvar C] else [])"
  obtains sysvar where "\<And>it. proof_sysvar_account (map (\<lambda>l. sint (location_offset l)) ls) (s @ it) = Inr (sysvar, it)"
    "list_all (serves C sysvar) ls"
proof -
  have ex: "list_ex (\<lambda>offset. offset \<noteq> 0) (map (\<lambda>l. sint (location_offset l)) ls) = list_ex is_instruction_offset ls"
    using assms(1) by (induction ls) (simp_all add: offset_zero_iff)
  show thesis
  proof (cases "list_ex is_instruction_offset ls")
    case True
    with assms(2) obtain i where "s = [i]" "ai_key i = cl_instructions_sysvar C" by auto
    with ex True show thesis
      by (intro that [of "Some i"]) (simp_all add: proof_sysvar_account_def next_account_info_def serves_def list_all_iff)
  next
    case False
    with assms(2) have "s = []" by simp
    with ex False show thesis
      by (intro that [of None]) (auto simp: proof_sysvar_account_def list_ex_iff serves_def list_all_iff)
  qed
qed

text \<open>The accounts of an instruction: some in front, the proofs, some in between, the authority, its signers, the rest.\<close>

lemma map_eq_append4:
  assumes "map f xs = a @ b @ c @ d"
  obtains u v w z where "xs = u @ v @ w @ z" "map f u = a" "map f v = b" "map f w = c" "map f z = d"
proof -
  have split: "\<exists>us vs. ys = us @ vs \<and> map f us = p \<and> map f vs = q" if "map f ys = p @ q" for ys p q
    using that by (auto simp: map_eq_append_conv)
  from split [OF assms] obtain u r where r: "xs = u @ r" "map f u = a" "map f r = b @ c @ d" by blast
  from split [OF r(3)] obtain v r' where r': "r = v @ r'" "map f v = b" "map f r' = c @ d" by blast
  from split [OF r'(3)] obtain w z where "r' = w @ z" "map f w = c" "map f z = d" by blast
  with r r' show thesis by (intro that [of u v w z]) auto
qed

lemma presented_proofs:
  obtains fi s ps mi auth infos where
    "presented (front @ proof_metas C ls @ mid @ authority_metas k signers @ rest) = fi @ s @ ps @ mi @ auth # infos"
    "length fi = length front" "map ai_key fi = map am_pubkey front"
    "map ai_key s = (if list_ex is_instruction_offset ls then [cl_instructions_sysvar C] else [])"
    "map ai_key ps = concat (map (\<lambda>l. map am_pubkey (context_metas l)) ls)" "map ai_key mi = map am_pubkey mid"
    "\<forall>P program_id st. ready P program_id k signers st \<longrightarrow>
       authorizes P program_id k auth (take (length signers) infos) st"
proof -
  obtain gi auth infos where g: "presented ((front @ proof_metas C ls @ mid) @ authority_metas k signers @ rest) = gi @ auth # infos"
    "map ai_key gi = map am_pubkey (front @ proof_metas C ls @ mid)"
    "\<forall>P program_id st. ready P program_id k signers st \<longrightarrow>
       authorizes P program_id k auth (take (length signers) infos) st"
    by (rule presented_authorized [of "front @ proof_metas C ls @ mid" k signers rest])
  from g(2) obtain fi s ps mi where parts: "gi = fi @ s @ ps @ mi" "map ai_key fi = map am_pubkey front"
    "map ai_key s = map am_pubkey (if list_ex is_instruction_offset ls then [meta_readonly (cl_instructions_sysvar C) False] else [])"
    "map ai_key ps = map am_pubkey (concat (map context_metas ls))" "map ai_key mi = map am_pubkey mid"
    unfolding proof_metas_def map_append append_assoc by (rule map_eq_append4)
  with g show thesis
    by (intro that [of fi s ps mi auth infos])
      (auto simp: meta_readonly_def map_concat comp_def map_eq_conv dest: map_eq_imp_length_eq)
qed

text \<open>
  \<open>verify\<close>, run on the accounts from position \<open>n\<close>, reads what \<open>spec\<close> says and leaves the \<open>k\<close>-authority
  with its signers next; \<open>extra\<close> accounts may stand in between.
\<close>

definition proofs_found ::
    "platform \<Rightarrow> instruction result \<Rightarrow> nat \<Rightarrow> (account_info list \<Rightarrow> store \<Rightarrow> ('c \<times> account_info list) result) \<Rightarrow>
     (store \<Rightarrow> 'c result) \<Rightarrow> nat \<Rightarrow> address \<Rightarrow> address list \<Rightarrow> bool" where
  "proofs_found P r n verify spec extra k signers \<longleftrightarrow>
     (\<forall>ix. r = Inr ix \<longrightarrow>
       (\<exists>it. (\<forall>st. verify (drop n (presented (ix_accounts ix))) st = bindr (spec st) (\<lambda>c. Inr (c, it))) \<and>
          (\<forall>st. ready P (ix_program_id ix) k signers st \<longrightarrow>
             (\<exists>auth infos. drop extra it = auth # infos \<and>
                authorizes P (ix_program_id ix) k auth (take (length signers) infos) st))))"

lemma proofs_foundI:
  assumes "\<And>ix. r = Inr ix \<Longrightarrow> ix_accounts ix = front @ proof_metas C ls @ mid @ authority_metas k signers @ rest"
    and "length front = n" and "length mid = extra"
    and "\<And>s ps it st. map ai_key s = (if list_ex is_instruction_offset ls then [cl_instructions_sysvar C] else []) \<Longrightarrow>
      map ai_key ps = concat (map (\<lambda>l. map am_pubkey (context_metas l)) ls) \<Longrightarrow>
      verify (s @ ps @ it) st = bindr (spec st) (\<lambda>c. Inr (c, it))"
  shows "proofs_found P r n verify spec extra k signers"
proof -
  have "\<exists>it. (\<forall>st. verify (drop n (presented (ix_accounts ix))) st = bindr (spec st) (\<lambda>c. Inr (c, it))) \<and>
      (\<forall>st. ready P (ix_program_id ix) k signers st \<longrightarrow>
        (\<exists>auth infos. drop extra it = auth # infos \<and>
           authorizes P (ix_program_id ix) k auth (take (length signers) infos) st))" if r: "r = Inr ix" for ix
  proof -
    obtain fi s ps mi auth infos where
      p: "presented (front @ proof_metas C ls @ mid @ authority_metas k signers @ rest) = fi @ s @ ps @ mi @ auth # infos"
      "length fi = length front"
      "map ai_key s = (if list_ex is_instruction_offset ls then [cl_instructions_sysvar C] else [])"
      "map ai_key ps = concat (map (\<lambda>l. map am_pubkey (context_metas l)) ls)" "map ai_key mi = map am_pubkey mid"
      "\<forall>P program_id st. ready P program_id k signers st \<longrightarrow>
         authorizes P program_id k auth (take (length signers) infos) st"
      by (rule presented_proofs [of front C ls mid k signers rest])
    from p(5) have "length mi = extra" using assms(3) by (metis length_map)
    with p assms(1) [OF r] assms(2,4) show ?thesis
      by (intro exI [of _ "mi @ auth # infos"]) auto
  qed
  then show ?thesis by (simp add: proofs_found_def)
qed

lemma keys_split:
  assumes "map f xs = concat (map g ls)"
  obtains us where "xs = concat us" "list_all2 (\<lambda>l u. map f u = g l) ls us"
proof -
  from assms have "\<exists>us. xs = concat us \<and> list_all2 (\<lambda>l u. map f u = g l) ls us"
  proof (induction ls arbitrary: xs)
    case (Cons l ls)
    then obtain u v where "xs = u @ v" "map f u = g l" "map f v = concat (map g ls)"
      by (auto simp: map_eq_append_conv)
    moreover from Cons.IH [OF this(3)] obtain us where "v = concat us" "list_all2 (\<lambda>l u. map f u = g l) ls us" by blast
    ultimately show ?case by (intro exI [of _ "u # us"]) simp
  qed simp
  with that show thesis by blast
qed

lemma verify_withdraw_located:
  assumes "list_all nonzero_offset [equality, range_proof]"
    and s: "map ai_key s = (if list_ex is_instruction_offset [equality, range_proof] then [cl_instructions_sysvar C] else [])"
    and ps: "map ai_key ps = concat (map (\<lambda>l. map am_pubkey (context_metas l)) [equality, range_proof])"
  shows "verify_withdraw_proof Z (s @ ps @ it) (sint (location_offset equality)) (sint (location_offset range_proof)) st =
    bindr (bindr (located Z C (zk_ciphertext_commitment_equality Z) [] equality st) (\<lambda>e.
      bindr (located Z C (zk_range_proof_u64 Z) [] range_proof st) (\<lambda>r.
      extraction_result (withdraw_verify_and_extract e r)))) (\<lambda>c. Inr (c, it))"
proof -
  obtain sysvar where v: "\<And>it. proof_sysvar_account [sint (location_offset equality), sint (location_offset range_proof)] (s @ it) = Inr (sysvar, it)"
    "list_all (serves C sysvar) [equality, range_proof]"
    by (rule proof_sysvar_located [OF assms(1) s]) simp
  from keys_split [OF ps] obtain us where us: "ps = concat us" "list_all2 (\<lambda>l u. map ai_key u = map am_pubkey (context_metas l)) [equality, range_proof] us"
    by auto
  then obtain p1 p2 where "us = [p1, p2]" "map ai_key p1 = map am_pubkey (context_metas equality)"
    "map ai_key p2 = map am_pubkey (context_metas range_proof)"
    by (auto simp: list_all2_Cons1)
  with us(1) show ?thesis
    using assms(1) v(2) by (simp add: verify_withdraw_proof_def v(1) verify_located [where C = C] bindr_assoc)
qed

lemma verify_amount_located:
  assumes "list_all nonzero_offset [equality, validity, range_proof]"
    and s: "map ai_key s = (if list_ex is_instruction_offset [equality, validity, range_proof] then [cl_instructions_sysvar C] else [])"
    and ps: "map ai_key ps = concat (map (\<lambda>l. map am_pubkey (context_metas l)) [equality, validity, range_proof])"
  shows "verify_amount_proofs Z verify_and_extract held (s @ ps @ it) (sint (location_offset equality)) (sint (location_offset validity)) (sint (location_offset range_proof)) st =
    bindr (bindr (located Z C (zk_ciphertext_commitment_equality Z) held equality st) (\<lambda>e.
      bindr (located Z C (zk_grouped_3_handles_validity Z) held validity st) (\<lambda>v.
      bindr (located Z C (zk_range_proof_u128 Z) held range_proof st) (\<lambda>r.
      extraction_result (verify_and_extract e v r))))) (\<lambda>c. Inr (c, it))"
proof -
  obtain sysvar where v: "\<And>it. proof_sysvar_account [sint (location_offset equality), sint (location_offset validity), sint (location_offset range_proof)] (s @ it) = Inr (sysvar, it)"
    "list_all (serves C sysvar) [equality, validity, range_proof]"
    by (rule proof_sysvar_located [OF assms(1) s]) simp
  from keys_split [OF ps] obtain us where us: "ps = concat us" "list_all2 (\<lambda>l u. map ai_key u = map am_pubkey (context_metas l)) [equality, validity, range_proof] us"
    by auto
  then obtain p0 p1 p2 where "us = [p0, p1, p2]"
    "map ai_key p0 = map am_pubkey (context_metas equality)"
    "map ai_key p1 = map am_pubkey (context_metas validity)"
    "map ai_key p2 = map am_pubkey (context_metas range_proof)"
    by (auto simp: list_all2_Cons1)
  with us(1) show ?thesis
    using assms(1) v(2) by (simp add: verify_amount_proofs_def v(1) verify_located [where C = C] bindr_assoc)
qed

lemma verify_transfer_with_fee_located:
  assumes "list_all nonzero_offset [equality, validity, fee_sigma, fee_validity, range_proof]"
    and s: "map ai_key s = (if list_ex is_instruction_offset [equality, validity, fee_sigma, fee_validity, range_proof] then [cl_instructions_sysvar C] else [])"
    and ps: "map ai_key ps = concat (map (\<lambda>l. map am_pubkey (context_metas l)) [equality, validity, fee_sigma, fee_validity, range_proof])"
  shows "verify_transfer_with_fee_proof Z held (s @ ps @ it) (sint (location_offset equality)) (sint (location_offset validity)) (sint (location_offset fee_sigma)) (sint (location_offset fee_validity)) (sint (location_offset range_proof)) fee st =
    bindr (bindr (located Z C (zk_ciphertext_commitment_equality Z) held equality st) (\<lambda>e.
      bindr (located Z C (zk_grouped_3_handles_validity Z) held validity st) (\<lambda>v.
      bindr (located Z C (zk_percentage_with_cap Z) held fee_sigma st) (\<lambda>f.
      bindr (located Z C (zk_grouped_2_handles_validity Z) held fee_validity st) (\<lambda>w.
      bindr (located Z C (zk_range_proof_u256 Z) held range_proof st) (\<lambda>r.
      extraction_result (transfer_with_fee_verify_and_extract Z e v f w r
        (tf_transfer_fee_basis_points fee) (tf_maximum_fee fee)))))))) (\<lambda>c. Inr (c, it))"
proof -
  obtain sysvar where v: "\<And>it. proof_sysvar_account [sint (location_offset equality), sint (location_offset validity), sint (location_offset fee_sigma), sint (location_offset fee_validity), sint (location_offset range_proof)] (s @ it) = Inr (sysvar, it)"
    "list_all (serves C sysvar) [equality, validity, fee_sigma, fee_validity, range_proof]"
    by (rule proof_sysvar_located [OF assms(1) s]) simp
  from keys_split [OF ps] obtain us where us: "ps = concat us" "list_all2 (\<lambda>l u. map ai_key u = map am_pubkey (context_metas l)) [equality, validity, fee_sigma, fee_validity, range_proof] us"
    by auto
  then obtain p0 p1 p2 p3 p4 where "us = [p0, p1, p2, p3, p4]"
    "map ai_key p0 = map am_pubkey (context_metas equality)"
    "map ai_key p1 = map am_pubkey (context_metas validity)"
    "map ai_key p2 = map am_pubkey (context_metas fee_sigma)"
    "map ai_key p3 = map am_pubkey (context_metas fee_validity)"
    "map ai_key p4 = map am_pubkey (context_metas range_proof)"
    by (auto simp: list_all2_Cons1)
  with us(1) show ?thesis
    using assms(1) v(2) by (simp add: verify_transfer_with_fee_proof_def v(1) verify_located [where C = C] bindr_assoc)
qed

lemma verify_single_keys:
  assumes "nonzero_offset l" and "map ai_key s = (if list_ex is_instruction_offset [l] then [cl_instructions_sysvar C] else [])"
    and "map ai_key ps = concat (map (\<lambda>l. map am_pubkey (context_metas l)) [l])"
  shows "verify_and_extract_context Z K held (s @ ps @ it) (sint (location_offset l)) None st =
    bindr (located Z C K held l st) (\<lambda>c. Inr (c, it))"
proof -
  have "map ai_key (s @ ps) = map am_pubkey (proof_metas C [l])"
    using assms(2,3) by (simp add: proof_metas_def meta_readonly_def)
  from verify_single [OF assms(1) this, of Z K held it] show ?thesis by simp
qed

lemmas verify_amount_proof_defs = verify_transfer_proof_def verify_mint_proof_def verify_burn_proof_def

lemma process_proof_location_accounts:
  "process_proof_location C accounts expected ps l True kind = Inr (offset, accounts', expected', ps') \<Longrightarrow>
     accounts' = accounts @ proof_metas C [l] \<and> offset = location_offset l"
  by (cases l) (auto simp: process_proof_location_def proof_metas_def is_instruction_offset_def context_metas_def
      location_offset_def result_simps)

text \<open>
  C37. The program reads the proofs of a built instruction exactly where the client said they are, each from
  the context account or the instruction named, and then finds the authority with its signers.
\<close>

theorem built_proofs_found:
  assumes "list_all nonzero_offset [location, equality, validity, fee_sigma, fee_validity, range_proof]"
  shows "
    proofs_found P (inner_configure_account_ix C program_id account mint balance counter authority signers location) 2
      (\<lambda>it. verify_and_extract_context Z (zk_pubkey_validity Z) held it (sint (location_offset location)) None) (located Z C (zk_pubkey_validity Z) held location)
      0 authority signers \<and>
    proofs_found P (inner_empty_account_ix C program_id account authority signers location) 1
      (\<lambda>it. verify_and_extract_context Z (zk_zero_ciphertext Z) held it (sint (location_offset location)) None) (located Z C (zk_zero_ciphertext Z) held location)
      0 authority signers \<and>
    proofs_found P (inner_withdraw_ix C program_id account mint amount decimals balance authority signers equality range_proof) 2
      (\<lambda>it. verify_withdraw_proof Z it (sint (location_offset equality)) (sint (location_offset range_proof)))
      (\<lambda>st. bindr (located Z C (zk_ciphertext_commitment_equality Z) [] equality st) (\<lambda>e.
         bindr (located Z C (zk_range_proof_u64 Z) [] range_proof st) (\<lambda>r.
         extraction_result (withdraw_verify_and_extract e r))))
      0 authority signers \<and>
    proofs_found P (inner_confidential_transfer_ix C program_id account mint destination balance lo hi authority signers equality validity range_proof) 3
      (\<lambda>it. verify_transfer_proof Z held it (sint (location_offset equality)) (sint (location_offset validity)) (sint (location_offset range_proof)))
      (\<lambda>st. bindr (located Z C (zk_ciphertext_commitment_equality Z) held equality st) (\<lambda>e.
         bindr (located Z C (zk_grouped_3_handles_validity Z) held validity st) (\<lambda>v.
         bindr (located Z C (zk_range_proof_u128 Z) held range_proof st) (\<lambda>r.
         extraction_result (transfer_verify_and_extract Z e v r)))))
      0 authority signers \<and>
    proofs_found P (inner_transfer_with_fee_ix C program_id account mint destination balance lo hi authority signers equality validity fee_sigma fee_validity range_proof) 3
      (\<lambda>it. verify_transfer_with_fee_proof Z held it (sint (location_offset equality)) (sint (location_offset validity)) (sint (location_offset fee_sigma)) (sint (location_offset fee_validity)) (sint (location_offset range_proof)) fee)
      (\<lambda>st. bindr (located Z C (zk_ciphertext_commitment_equality Z) held equality st) (\<lambda>e.
         bindr (located Z C (zk_grouped_3_handles_validity Z) held validity st) (\<lambda>v.
         bindr (located Z C (zk_percentage_with_cap Z) held fee_sigma st) (\<lambda>f.
         bindr (located Z C (zk_grouped_2_handles_validity Z) held fee_validity st) (\<lambda>w.
         bindr (located Z C (zk_range_proof_u256 Z) held range_proof st) (\<lambda>r.
         extraction_result (transfer_with_fee_verify_and_extract Z e v f w r
           (tf_transfer_fee_basis_points fee) (tf_maximum_fee fee))))))))
      0 authority signers \<and>
    proofs_found P (inner_confidential_withdraw_withheld_from_mint_ix C program_id mint destination balance authority signers location) 2
      (\<lambda>it. verify_and_extract_context Z (zk_ciphertext_ciphertext_equality Z) held it (sint (location_offset location)) None) (located Z C (zk_ciphertext_ciphertext_equality Z) held location)
      0 authority signers \<and>
    proofs_found P (inner_confidential_withdraw_withheld_from_accounts_ix C program_id mint destination balance authority signers sources location) 2
      (\<lambda>it. verify_and_extract_context Z (zk_ciphertext_ciphertext_equality Z) held it (sint (location_offset location)) None) (located Z C (zk_ciphertext_ciphertext_equality Z) held location)
      0 authority signers \<and>
    proofs_found P (first_of (rotate_supply_elgamal_pubkey_ix C program_id mint authority signers pubkey location)) 1
      (\<lambda>it. verify_and_extract_context Z (zk_ciphertext_ciphertext_equality Z) held it (sint (location_offset location)) None) (located Z C (zk_ciphertext_ciphertext_equality Z) held location)
      0 authority signers \<and>
    proofs_found P (inner_confidential_mint_ix C program_id account mint lo hi authority signers equality validity range_proof balance) 2
      (\<lambda>it. verify_mint_proof Z held it (location_offset equality) (location_offset validity) (location_offset range_proof))
      (\<lambda>st. bindr (located Z C (zk_ciphertext_commitment_equality Z) held equality st) (\<lambda>e.
         bindr (located Z C (zk_grouped_3_handles_validity Z) held validity st) (\<lambda>v.
         bindr (located Z C (zk_range_proof_u128 Z) held range_proof st) (\<lambda>r.
         extraction_result (mint_verify_and_extract Z e v r)))))
      0 authority signers \<and>
    proofs_found P (inner_confidential_burn_ix C program_id account mint balance lo hi authority signers equality validity range_proof) 2
      (\<lambda>it. verify_burn_proof Z held it (location_offset equality) (location_offset validity) (location_offset range_proof))
      (\<lambda>st. bindr (located Z C (zk_ciphertext_commitment_equality Z) held equality st) (\<lambda>e.
         bindr (located Z C (zk_grouped_3_handles_validity Z) held validity st) (\<lambda>v.
         bindr (located Z C (zk_range_proof_u128 Z) held range_proof st) (\<lambda>r.
         extraction_result (burn_verify_and_extract Z e v r)))))
      0 authority signers"
  using assms
proof (intro conjI, goal_cases)
  case 1
  then show ?case
    by (intro proofs_foundI [where front = "[meta_new account False, meta_readonly mint False]" and C = C and ls = "[location]"
          and mid = "[]" and rest = "[]"])
      (auto simp: clientc_defs result_simps first_of_def verify_amount_proof_defs verify_single_keys
        dest!: process_proof_location_accounts)
next
  case 2
  then show ?case
    by (intro proofs_foundI [where front = "[meta_new account False]" and C = C and ls = "[location]"
          and mid = "[]" and rest = "[]"])
      (auto simp: clientc_defs result_simps first_of_def verify_amount_proof_defs verify_single_keys
        dest!: process_proof_location_accounts)
next
  case 3
  then show ?case
    by (intro proofs_foundI [where front = "[meta_new account False, meta_readonly mint False]" and C = C and ls = "[equality, range_proof]"
          and mid = "[]" and rest = "[]"])
      (auto simp: clientc_defs result_simps first_of_def verify_amount_proof_defs verify_withdraw_located
        dest!: process_proof_location_accounts)
next
  case 4
  then show ?case
    by (intro proofs_foundI [where front = "[meta_new account False, meta_readonly mint False, meta_new destination False]" and C = C and ls = "[equality, validity, range_proof]"
          and mid = "[]" and rest = "[]"])
      (auto simp: clientc_defs result_simps first_of_def verify_amount_proof_defs verify_amount_located
        dest!: process_proof_location_accounts)
next
  case 5
  then show ?case
    by (intro proofs_foundI [where front = "[meta_new account False, meta_readonly mint False, meta_new destination False]" and C = C and ls = "[equality, validity, fee_sigma, fee_validity, range_proof]"
          and mid = "[]" and rest = "[]"])
      (auto simp: clientc_defs result_simps first_of_def verify_amount_proof_defs verify_transfer_with_fee_located
        dest!: process_proof_location_accounts)
next
  case 6
  then show ?case
    by (intro proofs_foundI [where front = "[meta_new mint False, meta_new destination False]" and C = C and ls = "[location]"
          and mid = "[]" and rest = "[]"])
      (auto simp: clientc_defs result_simps first_of_def verify_amount_proof_defs verify_single_keys
        dest!: process_proof_location_accounts)
next
  case 7
  then show ?case
    by (intro proofs_foundI [where front = "[meta_new mint False, meta_new destination False]" and C = C and ls = "[location]"
          and mid = "[]" and rest = "map (\<lambda>k. meta_new k False) sources"])
      (auto simp: clientc_defs result_simps first_of_def verify_amount_proof_defs verify_single_keys
        dest!: process_proof_location_accounts)
next
  case 8
  then show ?case
    by (intro proofs_foundI [where front = "[meta_new mint False]" and C = C and ls = "[location]"
          and mid = "[]" and rest = "[]"])
      (auto simp: clientc_defs result_simps first_of_def verify_amount_proof_defs verify_single_keys
        dest!: process_proof_location_accounts)
next
  case 9
  then show ?case
    by (intro proofs_foundI [where front = "[meta_new account False, meta_new mint False]" and C = C and ls = "[equality, validity, range_proof]"
          and mid = "[]" and rest = "[]"])
      (auto simp: clientc_defs result_simps first_of_def verify_amount_proof_defs verify_amount_located
        dest!: process_proof_location_accounts)
next
  case 10
  then show ?case
    by (intro proofs_foundI [where front = "[meta_new account False, meta_new mint False]" and C = C and ls = "[equality, validity, range_proof]"
          and mid = "[]" and rest = "[]"])
      (auto simp: clientc_defs result_simps first_of_def verify_amount_proof_defs verify_amount_located
        dest!: process_proof_location_accounts)
qed

section \<open>Where the proofs travel\<close>

text \<open>
  What is documented of the proof program and the runtime: the type each kind of proof has, that an
  encoded proof is an instruction of its kind, and that the instructions sysvar holds the transaction,
  here one that starts with the current instruction.
\<close>

definition proof_program_laws :: "zk \<Rightarrow> client \<Rightarrow> bool" where
  "proof_program_laws Z C \<longleftrightarrow>
     (\<forall>kind data. ix_program_id (cl_encode_verify_proof C kind data) = zk_program_id Z \<and>
        zk_instruction_type Z (ix_data (cl_encode_verify_proof C kind data)) = Some kind) \<and>
     pk_proof_type (zk_pubkey_validity Z) = TypePubkeyValidity \<and>
     pk_proof_type (zk_zero_ciphertext Z) = TypeZeroCiphertext \<and>
     pk_proof_type (zk_ciphertext_ciphertext_equality Z) = TypeCiphertextCiphertextEquality \<and>
     pk_proof_type (zk_ciphertext_commitment_equality Z) = TypeCiphertextCommitmentEquality \<and>
     pk_proof_type (zk_grouped_3_handles_validity Z) = TypeBatchedGroupedCiphertext3HandlesValidity \<and>
     pk_proof_type (zk_grouped_2_handles_validity Z) = TypeBatchedGroupedCiphertext2HandlesValidity \<and>
     pk_proof_type (zk_percentage_with_cap Z) = TypePercentageWithCap \<and>
     pk_proof_type (zk_range_proof_u64 Z) = TypeBatchedRangeProofU64 \<and>
     pk_proof_type (zk_range_proof_u128 Z) = TypeBatchedRangeProofU128 \<and>
     pk_proof_type (zk_range_proof_u256 Z) = TypeBatchedRangeProofU256"

definition in_transaction :: "zk \<Rightarrow> client \<Rightarrow> instruction list \<Rightarrow> store \<Rightarrow> bool" where
  "in_transaction Z C instructions st \<longleftrightarrow>
     (\<forall>n < length instructions.
        zk_get_instruction_relative Z (int n) (cl_instructions_sysvar C) (st (cl_instructions_sysvar C)) =
          Inr (ix_program_id (instructions ! n), ix_data (instructions ! n)))"

text \<open>A proof given by an offset is found in the transaction: the context read is the one in its data.\<close>

definition proof_attached :: "zk \<Rightarrow> client \<Rightarrow> instruction list result \<Rightarrow> proof_location \<Rightarrow> 'u proof_kind \<Rightarrow> bool" where
  "proof_attached Z C r l K \<longleftrightarrow>
     (\<forall>instructions offset data held st.
        r = Inr instructions \<and> l = InstructionOffset offset data \<and> in_transaction Z C instructions st \<longrightarrow>
        (\<exists>kind. zk_proof_type_to_instruction (pk_proof_type K) = Inr kind \<and>
           located Z C K held l st =
             ok_or (pk_instruction_context K (ix_data (cl_encode_verify_proof C kind data))) InvalidInstructionData))"

lemma sint_small_byte:
  fixes x :: u8
  assumes "unat x < 128"
  shows "sint x = int (unat x)"
proof -
  have "int (unat x) < 128" using assms by linarith
  then have "uint x < 2 ^ 7" by simp
  then have "signed_take_bit 7 (uint x) = uint x" by (intro signed_take_bit_int_eq_self) (simp_all add: order_trans [OF _ uint_ge_0])
  then show ?thesis by (simp add: sint_uint)
qed

lemma proof_attachedI:
  assumes "proof_program_laws Z C" and "zk_proof_type_to_instruction (pk_proof_type K) = Inr kind"
    and "\<And>instructions offset data. r = Inr instructions \<Longrightarrow> l = InstructionOffset offset data \<Longrightarrow>
      unat offset < length instructions \<and> unat offset < 128 \<and>
      instructions ! unat offset = cl_encode_verify_proof C kind data"
  shows "proof_attached Z C r l K"
proof -
  have "located Z C K held l st =
      ok_or (pk_instruction_context K (ix_data (cl_encode_verify_proof C kind data))) InvalidInstructionData"
    if r: "r = Inr instructions" and l: "l = InstructionOffset offset data" and st: "in_transaction Z C instructions st"
    for instructions offset data held st
  proof -
    let ?i = "cl_encode_verify_proof C kind data"
    from assms(3) [OF r l] have "sint offset = int (unat offset)" by (simp only: sint_small_byte)
    with assms(3) [OF r l] st
    have "zk_get_instruction_relative Z (sint offset) (cl_instructions_sysvar C) (st (cl_instructions_sysvar C)) =
        Inr (ix_program_id ?i, ix_data ?i)"
      unfolding in_transaction_def by metis
    moreover have "ix_program_id ?i = zk_program_id Z" "zk_instruction_type Z (ix_data ?i) = Some kind"
      using assms(1) unfolding proof_program_laws_def by blast+
    ultimately show ?thesis
      using assms(2) by (simp add: located_def l decode_proof_instruction_context_def)
  qed
  with assms(2) show ?thesis unfolding proof_attached_def by blast
qed

lemma unat_byte_Suc: "unat (e :: u8) < 255 \<Longrightarrow> unat (e + 1) = Suc (unat e)"
  by (simp add: unat_word_ariths)

lemma appended_proofs_nth:
  assumes "appended_proofs C e locations = Inr ps" and "(InstructionOffset offset data, kind) \<in> set locations"
    and "unat e + length locations < 128"
  shows "\<exists>n < length ps. unat offset = unat e + n \<and> unat offset < 128 \<and> ps ! n = cl_encode_verify_proof C kind data"
  using assms
proof (induction C e locations arbitrary: ps rule: appended_proofs.induct)
  case (2 C e l k locations)
  show ?case
  proof (cases l)
    case (InstructionOffset o' d')
    with 2(3) obtain qs where q: "o' = e" "appended_proofs C (e + 1) locations = Inr qs"
      "ps = cl_encode_verify_proof C k d' # qs"
      by (auto simp: result_simps)
    show ?thesis
    proof (cases "(InstructionOffset offset data, kind) = (l, k)")
      case True
      with q InstructionOffset 2(5) show ?thesis by (intro exI [of _ 0]) auto
    next
      case False
      with 2(4) have m: "(InstructionOffset offset data, kind) \<in> set locations" by auto
      from 2(5) have "unat (e + 1) = Suc (unat e)" by (intro unat_byte_Suc) simp
      with 2(1) [OF InstructionOffset q(2) m] q 2(5) obtain n where
        "n < length qs" "unat offset = Suc (unat e) + n" "unat offset < 128" "qs ! n = cl_encode_verify_proof C kind data"
        by (auto simp: ensure_def)
      with q show ?thesis by (intro exI [of _ "Suc n"]) auto
    qed
  next
    case (ContextStateAccount a)
    with 2(2) [OF ContextStateAccount] 2(3-5) show ?thesis by (cases "l = InstructionOffset offset data") auto
  qed
qed simp

lemma with_proofs_attached:
  assumes "proof_program_laws Z C" and "zk_proof_type_to_instruction (pk_proof_type K) = Inr kind"
    and "(l, kind) \<in> set locations" and "length locations < 100"
  shows "proof_attached Z C (with_proofs C inner locations) l K"
proof (rule proof_attachedI [OF assms(1,2)])
  fix instructions offset data
  assume "with_proofs C inner locations = Inr instructions" "l = InstructionOffset offset data"
  moreover from this(1) obtain i ps where "instructions = i # ps" "appended_proofs C 1 locations = Inr ps"
    by (auto simp: with_proofs_def result_simps)
  moreover from appended_proofs_nth [OF this(2), of offset data kind] assms(3,4) \<open>l = InstructionOffset offset data\<close>
  obtain n where "n < length ps" "unat offset = Suc n" "unat offset < 128" "ps ! n = cl_encode_verify_proof C kind data"
    by auto
  ultimately show "unat offset < length instructions \<and> unat offset < 128 \<and>
      instructions ! unat offset = cl_encode_verify_proof C kind data"
    by simp
qed

text \<open>The locations worked through one after the other: the offset, and where its instruction is.\<close>

lemma process_proof_location_Inr:
  assumes run: "process_proof_location C accounts e ps l push kind = Inr (offset, accounts', e', ps')"
    and e: "unat e = Suc (length ps)" "unat e < 128"
  shows "unat e' = Suc (length ps')" and "unat e' < 128" and "\<exists>qs. ps' = ps @ qs"
    and "l = InstructionOffset o' data \<Longrightarrow>
      unat o' = Suc (length ps) \<and> unat o' < 128 \<and> ps' = ps @ [cl_encode_verify_proof C kind data]"
proof -
  have "unat (e + 1) = Suc (unat e) \<and> unat (e + 1) < 128" if "sint e < 127"
    using that e(2) sint_small_byte [OF e(2)] unat_byte_Suc [of e] by linarith
  with run e show "unat e' = Suc (length ps')" and "unat e' < 128" and "\<exists>qs. ps' = ps @ qs"
    and "l = InstructionOffset o' data \<Longrightarrow>
      unat o' = Suc (length ps) \<and> unat o' < 128 \<and> ps' = ps @ [cl_encode_verify_proof C kind data]"
    by (auto simp: process_proof_location_def result_simps split: proof_location.splits)
qed

lemma rotate_attached:
  assumes "proof_program_laws Z C"
  shows "proof_attached Z C (rotate_supply_elgamal_pubkey_ix C program_id mint authority signers pubkey location)
    location (zk_ciphertext_ciphertext_equality Z)"
proof (rule proof_attachedI [where kind = VerifyCiphertextCiphertextEquality, OF assms])
  show "zk_proof_type_to_instruction (pk_proof_type (zk_ciphertext_ciphertext_equality Z)) = Inr VerifyCiphertextCiphertextEquality"
    using assms by (simp add: proof_program_laws_def zk_proof_type_to_instruction_def)
next
  fix instructions offset data
  assume "rotate_supply_elgamal_pubkey_ix C program_id mint authority signers pubkey location = Inr instructions"
    and l: "location = InstructionOffset offset data"
  then obtain o1 a1 e1 p1 i where
    "process_proof_location C [meta_new mint False] 1 [] location True VerifyCiphertextCiphertextEquality = Inr (o1, a1, e1, p1)"
    "instructions = i # p1"
    by (auto simp: rotate_supply_elgamal_pubkey_ix_def result_simps)
  with process_proof_location_Inr(4) [OF this(1) _ _ l] show "unat offset < length instructions \<and> unat offset < 128 \<and>
      instructions ! unat offset = cl_encode_verify_proof C VerifyCiphertextCiphertextEquality data"
    by simp
qed

lemma permissioned_burn_locations:
  assumes "permissioned_confidential_burn_ix C program_id account mint burn_authority balance lo hi authority signers
      equality validity range_proof = Inr instructions"
  obtains i o1 a1 e1 p1 o2 a2 e2 p2 o3 a3 e3 p3 where
    "process_proof_location C [meta_new account False, meta_new mint False] 1 [] equality True
       VerifyCiphertextCommitmentEquality = Inr (o1, a1, e1, p1)"
    "process_proof_location C a1 e1 p1 validity False VerifyBatchedGroupedCiphertext3HandlesValidity = Inr (o2, a2, e2, p2)"
    "process_proof_location C a2 e2 p2 range_proof False VerifyBatchedRangeProofU128 = Inr (o3, a3, e3, p3)"
    "instructions = i # p3" "program_id = TOKEN_2022_ID" "ix_program_id i = program_id"
    "ix_accounts i = a3 @ [meta_readonly burn_authority True] @ authority_metas authority signers"
    "ix_data i = pack PermissionedBurnExtension @ 3 # le_bytes 36 balance @ le_bytes 64 lo @ le_bytes 64 hi @ [o1, o2, o3]"
  using assms
  by (auto simp: permissioned_confidential_burn_ix_def result_simps check_program_account_built encode_instruction_def built_def)

lemma permissioned_burn_attached:
  assumes "proof_program_laws Z C"
    and r: "r = permissioned_confidential_burn_ix C program_id account mint burn_authority balance lo hi authority signers
      equality validity range_proof"
  shows "proof_attached Z C r equality (zk_ciphertext_commitment_equality Z)"
    and "proof_attached Z C r validity (zk_grouped_3_handles_validity Z)"
    and "proof_attached Z C r range_proof (zk_range_proof_u128 Z)"
proof -
  have at: "(equality = InstructionOffset offset data \<longrightarrow> unat offset < length instructions \<and> unat offset < 128 \<and>
        instructions ! unat offset = cl_encode_verify_proof C VerifyCiphertextCommitmentEquality data) \<and>
      (validity = InstructionOffset offset data \<longrightarrow> unat offset < length instructions \<and> unat offset < 128 \<and>
        instructions ! unat offset = cl_encode_verify_proof C VerifyBatchedGroupedCiphertext3HandlesValidity data) \<and>
      (range_proof = InstructionOffset offset data \<longrightarrow> unat offset < length instructions \<and> unat offset < 128 \<and>
        instructions ! unat offset = cl_encode_verify_proof C VerifyBatchedRangeProofU128 data)"
    if "r = Inr instructions" for instructions offset data
  proof -
    from that obtain i o1 a1 e1 p1 o2 a2 e2 p2 o3 a3 e3 p3 where
      1: "process_proof_location C [meta_new account False, meta_new mint False] 1 [] equality True
        VerifyCiphertextCommitmentEquality = Inr (o1, a1, e1, p1)" and
      2: "process_proof_location C a1 e1 p1 validity False VerifyBatchedGroupedCiphertext3HandlesValidity = Inr (o2, a2, e2, p2)" and
      3: "process_proof_location C a2 e2 p2 range_proof False VerifyBatchedRangeProofU128 = Inr (o3, a3, e3, p3)" and
      ix: "instructions = i # p3"
      unfolding r by (rule permissioned_burn_locations)
    note l1 = process_proof_location_Inr [OF 1, simplified]
    note l2 = process_proof_location_Inr [OF 2 l1(1,2)]
    note l3 = process_proof_location_Inr [OF 3 l2(1,2)]
    obtain q2 q3 where "p2 = p1 @ q2" "p3 = p2 @ q3" using l2(3) l3(3) by blast
    with ix l1(4) [of offset data] l2(4) [of offset data] l3(4) [of offset data] show ?thesis
      by (auto simp: nth_append)
  qed
  have kinds: "zk_proof_type_to_instruction (pk_proof_type (zk_ciphertext_commitment_equality Z)) = Inr VerifyCiphertextCommitmentEquality"
    "zk_proof_type_to_instruction (pk_proof_type (zk_grouped_3_handles_validity Z)) = Inr VerifyBatchedGroupedCiphertext3HandlesValidity"
    "zk_proof_type_to_instruction (pk_proof_type (zk_range_proof_u128 Z)) = Inr VerifyBatchedRangeProofU128"
    using assms(1) by (simp_all add: proof_program_laws_def zk_proof_type_to_instruction_def)
  show "proof_attached Z C r equality (zk_ciphertext_commitment_equality Z)"
    by (rule proof_attachedI [OF assms(1) kinds(1)]) (use at in blast)
  show "proof_attached Z C r validity (zk_grouped_3_handles_validity Z)"
    by (rule proof_attachedI [OF assms(1) kinds(2)]) (use at in blast)
  show "proof_attached Z C r range_proof (zk_range_proof_u128 Z)"
    by (rule proof_attachedI [OF assms(1) kinds(3)]) (use at in blast)
qed

lemmas outer_defs =
  configure_account_ix_def empty_account_ix_def withdraw_ix_def confidential_transfer_ix_def transfer_with_fee_ix_def
  confidential_withdraw_withheld_from_mint_ix_def confidential_withdraw_withheld_from_accounts_ix_def
  confidential_mint_ix_def confidential_burn_ix_def

text \<open>
  C38. A transaction a client builds carries every proof it does not keep in an account, at the offset the
  instruction names: what the program reads there is the context in the data of that very proof.
\<close>

theorem built_transactions_carry_proofs:
  assumes "proof_program_laws Z C"
  shows "
    proof_attached Z C (configure_account_ix C program_id account mint balance counter authority signers location)
      location (zk_pubkey_validity Z) \<and>
    proof_attached Z C (empty_account_ix C program_id account authority signers location)
      location (zk_zero_ciphertext Z) \<and>
    proof_attached Z C (withdraw_ix C program_id account mint amount decimals balance authority signers equality range_proof)
      equality (zk_ciphertext_commitment_equality Z) \<and>
    proof_attached Z C (withdraw_ix C program_id account mint amount decimals balance authority signers equality range_proof)
      range_proof (zk_range_proof_u64 Z) \<and>
    proof_attached Z C (confidential_transfer_ix C program_id account mint destination balance lo hi authority signers equality validity range_proof)
      equality (zk_ciphertext_commitment_equality Z) \<and>
    proof_attached Z C (confidential_transfer_ix C program_id account mint destination balance lo hi authority signers equality validity range_proof)
      validity (zk_grouped_3_handles_validity Z) \<and>
    proof_attached Z C (confidential_transfer_ix C program_id account mint destination balance lo hi authority signers equality validity range_proof)
      range_proof (zk_range_proof_u128 Z) \<and>
    proof_attached Z C (transfer_with_fee_ix C program_id account mint destination balance lo hi authority signers equality validity fee_sigma fee_validity range_proof)
      equality (zk_ciphertext_commitment_equality Z) \<and>
    proof_attached Z C (transfer_with_fee_ix C program_id account mint destination balance lo hi authority signers equality validity fee_sigma fee_validity range_proof)
      validity (zk_grouped_3_handles_validity Z) \<and>
    proof_attached Z C (transfer_with_fee_ix C program_id account mint destination balance lo hi authority signers equality validity fee_sigma fee_validity range_proof)
      fee_sigma (zk_percentage_with_cap Z) \<and>
    proof_attached Z C (transfer_with_fee_ix C program_id account mint destination balance lo hi authority signers equality validity fee_sigma fee_validity range_proof)
      fee_validity (zk_grouped_2_handles_validity Z) \<and>
    proof_attached Z C (transfer_with_fee_ix C program_id account mint destination balance lo hi authority signers equality validity fee_sigma fee_validity range_proof)
      range_proof (zk_range_proof_u256 Z) \<and>
    proof_attached Z C (confidential_withdraw_withheld_from_mint_ix C program_id mint destination balance authority signers location)
      location (zk_ciphertext_ciphertext_equality Z) \<and>
    proof_attached Z C (confidential_withdraw_withheld_from_accounts_ix C program_id mint destination balance authority signers sources location)
      location (zk_ciphertext_ciphertext_equality Z) \<and>
    proof_attached Z C (rotate_supply_elgamal_pubkey_ix C program_id mint authority signers pubkey location)
      location (zk_ciphertext_ciphertext_equality Z) \<and>
    proof_attached Z C (confidential_mint_ix C program_id account mint lo hi authority signers equality validity range_proof balance)
      equality (zk_ciphertext_commitment_equality Z) \<and>
    proof_attached Z C (confidential_mint_ix C program_id account mint lo hi authority signers equality validity range_proof balance)
      validity (zk_grouped_3_handles_validity Z) \<and>
    proof_attached Z C (confidential_mint_ix C program_id account mint lo hi authority signers equality validity range_proof balance)
      range_proof (zk_range_proof_u128 Z) \<and>
    proof_attached Z C (confidential_burn_ix C program_id account mint balance lo hi authority signers equality validity range_proof)
      equality (zk_ciphertext_commitment_equality Z) \<and>
    proof_attached Z C (confidential_burn_ix C program_id account mint balance lo hi authority signers equality validity range_proof)
      validity (zk_grouped_3_handles_validity Z) \<and>
    proof_attached Z C (confidential_burn_ix C program_id account mint balance lo hi authority signers equality validity range_proof)
      range_proof (zk_range_proof_u128 Z) \<and>
    proof_attached Z C (permissioned_confidential_burn_ix C program_id account mint burn_authority balance lo hi authority signers equality validity range_proof)
      equality (zk_ciphertext_commitment_equality Z) \<and>
    proof_attached Z C (permissioned_confidential_burn_ix C program_id account mint burn_authority balance lo hi authority signers equality validity range_proof)
      validity (zk_grouped_3_handles_validity Z) \<and>
    proof_attached Z C (permissioned_confidential_burn_ix C program_id account mint burn_authority balance lo hi authority signers equality validity range_proof)
      range_proof (zk_range_proof_u128 Z)"
proof -
  note laws = assms [unfolded proof_program_laws_def]
  show ?thesis
    by (intro conjI rotate_attached [OF assms] permissioned_burn_attached [OF assms refl];
        (unfold outer_defs, rule with_proofs_attached [OF assms],
         simp add: laws zk_proof_type_to_instruction_def, simp, simp))
qed

section \<open>Two constructors the program refuses\<close>

lemma presented_keys: "map ai_key (presented metas) = map am_pubkey metas"
  by (simp add: presented_def comp_def)

text \<open>An account other than the sysvar in its place: no proof can be found by an offset.\<close>

lemma verify_other_stuck:
  assumes "verify_and_extract_context Z K held it offset (Some i) st = Inr y" and "offset \<noteq> 0"
    and "\<forall>offset acct. \<exists>err. zk_get_instruction_relative Z offset (ai_key i) acct = Inl err"
  shows False
  using assms(1,2) spec [OF spec [OF assms(3), of offset], of "st (ai_key i)"]
  by (auto simp: verify_and_extract_context_def result_simps)

lemma verify_other_sysvar:
  assumes "verify_amount_proofs Z verify_and_extract held (i # it) e v r st = Inr x" and "v \<noteq> 0 \<or> r \<noteq> 0"
    and "\<forall>offset acct. \<exists>err. zk_get_instruction_relative Z offset (ai_key i) acct = Inl err"
  shows False
proof -
  from assms(2) have "list_ex (\<lambda>offset. offset \<noteq> 0) [e, v, r]" by auto
  with assms(1) obtain it1 it2 y1 y2 y3 it3 where
    c: "verify_and_extract_context Z (zk_grouped_3_handles_validity Z) held it1 v (Some i) st = Inr (y1, it2)"
    "verify_and_extract_context Z (zk_range_proof_u128 Z) held it2 r (Some i) st = Inr (y2, it3)"
    by (auto simp: verify_amount_proofs_def proof_sysvar_account_def next_account_info_def result_simps)
  from assms(2) show False
    using verify_other_stuck [OF c(1) _ assms(3)] verify_other_stuck [OF c(2) _ assms(3)] by blast
qed

lemma permissioned_burn_accounts:
  assumes "permissioned_confidential_burn_ix C program_id account mint burn_authority balance lo hi authority signers
      (ContextStateAccount a) validity range_proof = Inr (ix # ps)"
  obtains rest where "ix_accounts ix = meta_new account False # meta_new mint False # meta_readonly a False # rest"
    "ix_program_id ix = TOKEN_2022_ID"
    "ix_data ix = pack PermissionedBurnExtension @ 3 # le_bytes 36 balance @ le_bytes 64 lo @ le_bytes 64 hi @
       [0, location_offset validity, location_offset range_proof]"
    "is_instruction_offset validity \<or> is_instruction_offset range_proof \<longrightarrow>
       sint (location_offset validity) \<noteq> 0 \<or> sint (location_offset range_proof) \<noteq> 0"
proof -
  from assms show thesis
    by (elim permissioned_burn_locations)
      (cases validity; cases range_proof; rule that;
        auto simp: process_proof_location_def location_offset_def is_instruction_offset_def result_simps sint_byte_zero)
qed

lemma process_permissioned_burn:
  assumes "process E TOKEN_2022_ID accounts (pack PermissionedBurnExtension @ 3 # le_bytes 36 balance @ le_bytes 64 lo @
      le_bytes 64 hi @ [equality_offset, validity_offset, range_offset]) w = Inr w'"
  obtains st' where "process_confidential_burn (en_zk E) (en_platform E) TOKEN_2022_ID accounts balance lo hi
      equality_offset validity_offset range_offset BurnPermissioned (fst w) = Inr st'"
  using assms
  by (auto simp: process_extension extension_instruction_def well_formed_instruction_def execute_def on_store_def
      permissioned_burn_process_instruction_def check_program_account_def decode_instruction_type_def enum_try_from_def
      permissioned_confidential_burn_def decode_instruction_data_def supply_burn_of_bytes_def codec_simps seg_Cons nth_append
      result_simps split: if_splits)

text \<open>
  C39. A permissioned confidential burn built with the equality proof in an account and another proof in an
  instruction never succeeds: the constructor leaves out the instructions sysvar, and the program
  takes the account of the equality proof for it.
\<close>

theorem permissioned_burn_without_sysvar_refused:
  assumes "permissioned_confidential_burn_ix C program_id account mint burn_authority balance lo hi authority signers
      (ContextStateAccount a) validity range_proof = Inr (ix # ps)"
    and "is_instruction_offset validity \<or> is_instruction_offset range_proof"
    and "\<forall>offset acct. \<exists>err. zk_get_instruction_relative (en_zk E) offset a acct = Inl err"
  shows "\<exists>err. process E (ix_program_id ix) (presented (ix_accounts ix)) (ix_data ix) w = Inl err"
proof (cases "process E (ix_program_id ix) (presented (ix_accounts ix)) (ix_data ix) w")
  case (Inr w')
  from assms(1) obtain rest where
    ix: "ix_accounts ix = meta_new account False # meta_new mint False # meta_readonly a False # rest"
    "ix_program_id ix = TOKEN_2022_ID"
    "ix_data ix = pack PermissionedBurnExtension @ 3 # le_bytes 36 balance @ le_bytes 64 lo @ le_bytes 64 hi @
       [0, location_offset validity, location_offset range_proof]"
    and offsets: "is_instruction_offset validity \<or> is_instruction_offset range_proof \<longrightarrow>
       sint (location_offset validity) \<noteq> 0 \<or> sint (location_offset range_proof) \<noteq> 0"
    by (rule permissioned_burn_accounts)
  from presented_keys [of "ix_accounts ix"] obtain ai mi si it where
    accounts: "presented (ix_accounts ix) = ai # mi # si # it" "ai_key si = a"
    by (auto simp: ix(1) meta_readonly_def map_eq_Cons_conv)
  from Inr [unfolded ix(2,3)] obtain st' where "process_confidential_burn (en_zk E) (en_platform E) TOKEN_2022_ID
      (presented (ix_accounts ix)) balance lo hi 0 (location_offset validity) (location_offset range_proof)
      BurnPermissioned (fst w) = Inr st'"
    by (rule process_permissioned_burn)
  then obtain x where "verify_burn_proof (en_zk E) [ai_key mi] (si # it) 0 (location_offset validity)
      (location_offset range_proof) (fst w) = Inr x"
    by (auto simp: accounts(1) process_confidential_burn_def next_account_info_def bindr_eq_Inr)
  from this [unfolded verify_burn_proof_def] mp [OF offsets assms(2)] have False
    by (rule verify_other_sysvar) (use assms(3) accounts(2) in simp)
  then show ?thesis ..
qed simp

text \<open>
  The constructors that update a mint's confidential configuration or approve an account leave the
  authority unsigned when they are given signers of a multisignature; the program, which knows
  no multisignatures here, refuses.
\<close>

theorem multisig_mint_configuration_refused:
  assumes "en_zk_ops E" and "multisig_signers \<noteq> []" and "authority \<notin> set multisig_signers"
    and "confidential_update_mint_ix (en_platform E) program_id mint authority multisig_signers auto_approve auditor = Inr ix \<or>
      approve_account_ix program_id account mint authority multisig_signers = Inr ix"
  shows "\<exists>err. process E (ix_program_id ix) (presented (ix_accounts ix)) (ix_data ix) w = Inl err"
proof -
  have unsigned: "\<not> ai_is_signer auth" if "presented (ix_accounts ix) = front @ auth # infos" "ai_key auth = authority"
    "\<And>m. m \<in> set (ix_accounts ix) \<Longrightarrow> am_is_signer m \<Longrightarrow> am_pubkey m \<noteq> authority" for front auth infos
  proof -
    from that(1) have "auth \<in> set (presented (ix_accounts ix))" by simp
    with that(2,3) show ?thesis by (auto simp: presented_def)
  qed
  show ?thesis
    using assms(4)
  proof
    assume "confidential_update_mint_ix (en_platform E) program_id mint authority multisig_signers auto_approve auditor = Inr ix"
    then obtain k where ix: "ix_accounts ix = [meta_new mint False] @ authority_metas authority multisig_signers"
      "ix_program_id ix = TOKEN_2022_ID"
      "ix_data ix = pack ConfidentialTransferExtension @ encode_confidential_transfer
         (ConfidentialUpdateMint (pl_pod_from_bool (en_platform E) auto_approve) k)"
      by (auto simp: clientc_defs check_program_account_built result_simps)
    from presented_keys [of "ix_accounts ix"] obtain mi auth infos where
      accounts: "presented (ix_accounts ix) = mi # auth # infos" "ai_key auth = authority"
      by (auto simp: ix(1) authority_metas_def meta_readonly_def map_eq_Cons_conv)
    have "\<not> ai_is_signer auth"
      using accounts assms(2,3) by (intro unsigned [of "[mi]"]) (auto simp: ix(1) authority_metas_def meta_readonly_def meta_new_def)
    then show ?thesis
      unfolding ix(2,3) process_confidential(1) [OF assms(1) refl]
      by (cases "on_store (confidential_transfer_handler (en_zk E) (en_platform E) TOKEN_2022_ID (presented (ix_accounts ix))
          (ConfidentialUpdateMint (pl_pod_from_bool (en_platform E) auto_approve) k)) w")
        (auto simp: accounts(1) confidential_transfer_handler_def confidential_transfer_update_mint_def on_store_def
          initialized_view_def on_tlv_def next_account_info_def result_simps)
  next
    assume "approve_account_ix program_id account mint authority multisig_signers = Inr ix"
    then have ix: "ix_accounts ix = [meta_new account False, meta_readonly mint False] @ authority_metas authority multisig_signers"
      "ix_program_id ix = TOKEN_2022_ID"
      "ix_data ix = pack ConfidentialTransferExtension @ encode_confidential_transfer ConfidentialApproveAccount"
      by (auto simp: clientc_defs check_program_account_built result_simps)
    from presented_keys [of "ix_accounts ix"] obtain ti mi auth infos where
      accounts: "presented (ix_accounts ix) = ti # mi # auth # infos" "ai_key auth = authority"
      by (auto simp: ix(1) authority_metas_def meta_readonly_def map_eq_Cons_conv)
    have "\<not> ai_is_signer auth"
      using accounts assms(2,3) by (intro unsigned [of "[ti, mi]"]) (auto simp: ix(1) authority_metas_def meta_readonly_def meta_new_def)
    then show ?thesis
      unfolding ix(2,3) process_confidential(1) [OF assms(1) refl]
      by (cases "on_store (confidential_transfer_handler (en_zk E) (en_platform E) TOKEN_2022_ID (presented (ix_accounts ix))
          ConfidentialApproveAccount) w")
        (auto simp: accounts(1) confidential_transfer_handler_def process_approve_account_def on_store_def
          initialized_view_def on_tlv_def next_account_info_def result_simps)
  qed
qed

section \<open>Witnesses\<close>

definition sample_client :: client where
  "sample_client =
     \<lparr>cl_instructions_sysvar = 99,
      cl_encode_verify_proof = \<lambda>kind data.
        \<lparr>ix_program_id = 60, ix_accounts = [],
         ix_data = case_proof_instruction 0 1 2 3 4 5 6 7 8 9 10 11 12 kind # data\<rparr>\<rparr>"

text \<open>A proof program in a transaction: the instructions sysvar gives the instructions of it, from the current one on.\<close>

definition sample_proof_program :: "instruction list \<Rightarrow> zk" where
  "sample_proof_program instructions =
     sample_zk\<lparr>zk_get_instruction_relative := \<lambda>n k _.
       (if k = 99 \<and> 0 \<le> n \<and> nat n < length instructions
        then Inr (ix_program_id (instructions ! nat n), ix_data (instructions ! nat n)) else Inl InvalidArgument),
     zk_instruction_type := \<lambda>data.
       (case data of [] \<Rightarrow> None
        | tag # _ \<Rightarrow> Some ([CloseContextState, VerifyZeroCiphertext, VerifyCiphertextCiphertextEquality,
            VerifyCiphertextCommitmentEquality, VerifyPubkeyValidity, VerifyPercentageWithCap,
            VerifyBatchedRangeProofU64, VerifyBatchedRangeProofU128, VerifyBatchedRangeProofU256,
            VerifyGroupedCiphertext2HandlesValidity, VerifyBatchedGroupedCiphertext2HandlesValidity,
            VerifyGroupedCiphertext3HandlesValidity, VerifyBatchedGroupedCiphertext3HandlesValidity] ! unat tag))\<rparr>"

lemma sample_proof_program_laws: "proof_program_laws (sample_proof_program instructions) sample_client"
proof -
  have "zk_instruction_type (sample_proof_program instructions) (ix_data (cl_encode_verify_proof sample_client kind data)) =
      Some kind" for kind data
    by (cases kind) (simp_all add: sample_proof_program_def sample_client_def)
  then show ?thesis
    by (simp add: proof_program_laws_def sample_proof_program_def sample_client_def sample_zk_def sample_kind_def)
qed

lemma sample_in_transaction: "in_transaction (sample_proof_program instructions) sample_client instructions st"
  by (simp add: in_transaction_def sample_proof_program_def sample_client_def)

theorem built_proofs_found_witness:
  "proofs_found sample_platform
     (inner_empty_account_ix sample_client TOKEN_2022_ID 5 30 [] (InstructionOffset 1 [7])) 1
     (\<lambda>it. verify_and_extract_context sample_zk (zk_zero_ciphertext sample_zk) [] it 1 None)
     (located sample_zk sample_client (zk_zero_ciphertext sample_zk) [] (InstructionOffset 1 [7])) 0 30 []"
proof -
  have "list_all nonzero_offset [InstructionOffset 1 [7], ContextStateAccount 61, ContextStateAccount 62,
      ContextStateAccount 63, ContextStateAccount 64, ContextStateAccount 65]"
    by (simp add: nonzero_offset_def)
  from built_proofs_found [OF this, where P = sample_platform and C = sample_client and program_id = TOKEN_2022_ID
      and account = 5 and authority = 30 and signers = "[]" and Z = sample_zk and held = "[]", THEN conjunct2, THEN conjunct1]
  show ?thesis by (simp add: location_offset_def)
qed

theorem built_transactions_carry_proofs_witness:
  "\<exists>instructions.
     empty_account_ix sample_client TOKEN_2022_ID 5 30 [] (InstructionOffset 1 [7]) = Inr instructions \<and>
     length instructions = 2 \<and>
     in_transaction (sample_proof_program instructions) sample_client instructions (sample_store []) \<and>
     located (sample_proof_program instructions) sample_client (zk_zero_ciphertext (sample_proof_program instructions)) []
       (InstructionOffset 1 [7]) (sample_store []) = Inr \<lparr>zcc_pubkey = 7, zcc_ciphertext = 0\<rparr>"
proof -
  obtain instructions where built:
    "empty_account_ix sample_client TOKEN_2022_ID 5 30 [] (InstructionOffset 1 [7]) = Inr instructions"
    "length instructions = 2"
    by (simp add: empty_account_ix_def inner_empty_account_ix_def with_proofs_def confidential_transfer_built_def built_def
        check_program_account_def)
  let ?Z = "sample_proof_program instructions"
  from built_transactions_carry_proofs [OF sample_proof_program_laws [of instructions], where program_id = TOKEN_2022_ID
      and account = 5 and authority = 30 and signers = "[]" and location = "InstructionOffset 1 [7]",
      THEN conjunct2, THEN conjunct1]
  have "proof_attached ?Z sample_client (Inr instructions) (InstructionOffset 1 [7]) (zk_zero_ciphertext ?Z)"
    by (simp only: built(1))
  with sample_in_transaction [of instructions "sample_store []"]
  have "located ?Z sample_client (zk_zero_ciphertext ?Z) [] (InstructionOffset 1 [7]) (sample_store []) =
      ok_or (pk_instruction_context (zk_zero_ciphertext ?Z) [1, 7]) InvalidInstructionData"
    by (auto simp: proof_attached_def sample_proof_program_def sample_client_def sample_zk_def sample_kind_def
        zk_proof_type_to_instruction_def)
  then have "located ?Z sample_client (zk_zero_ciphertext ?Z) [] (InstructionOffset 1 [7]) (sample_store []) =
      Inr \<lparr>zcc_pubkey = 7, zcc_ciphertext = 0\<rparr>"
    by (simp add: sample_proof_program_def sample_zk_def sample_kind_def seg_def of_le_def)
  with built sample_in_transaction show ?thesis by blast
qed

theorem permissioned_burn_without_sysvar_refused_witness:
  "\<exists>ix ps. permissioned_confidential_burn_ix sample_client TOKEN_2022_ID 5 4 31 0 0 0 30 [] (ContextStateAccount 61)
       (InstructionOffset 1 [7]) (ContextStateAccount 63) = Inr (ix # ps) \<and>
     (\<exists>err. process sample_environment (ix_program_id ix) (presented (ix_accounts ix)) (ix_data ix) (sample_store [], []) = Inl err)"
proof -
  obtain ix ps where "permissioned_confidential_burn_ix sample_client TOKEN_2022_ID 5 4 31 0 0 0 30 [] (ContextStateAccount 61)
      (InstructionOffset 1 [7]) (ContextStateAccount 63) = Inr (ix # ps)"
    by (auto simp: permissioned_confidential_burn_ix_def check_program_account_def process_proof_location_def
        encode_instruction_def built_def)
  moreover from permissioned_burn_without_sysvar_refused [OF this, where E = sample_environment and w = "(sample_store [], [])"]
  have "\<exists>err. process sample_environment (ix_program_id ix) (presented (ix_accounts ix)) (ix_data ix) (sample_store [], []) = Inl err"
    by (simp add: is_instruction_offset_def sample_environment_def sample_zk_def)
  ultimately show ?thesis by blast
qed

theorem multisig_mint_configuration_refused_witness:
  "\<exists>ix. approve_account_ix TOKEN_2022_ID 5 4 30 [40, 41] = Inr ix \<and>
     (\<exists>err. process sample_environment (ix_program_id ix) (presented (ix_accounts ix)) (ix_data ix) (sample_store [], []) = Inl err)"
proof -
  obtain ix where ix: "approve_account_ix TOKEN_2022_ID 5 4 30 [40, 41] = Inr ix"
    by (auto simp: approve_account_ix_def check_program_account_def confidential_transfer_built_def built_def)
  have "en_zk_ops sample_environment" by (simp add: sample_environment_def)
  from multisig_mint_configuration_refused [OF this, where multisig_signers = "[40, 41]" and authority = 30, OF _ _ disjI2, OF _ _ ix]
  show ?thesis using ix by auto
qed

end
