(* ===== verification/Cpi_Guard.thy ===== *)
theory Cpi_Guard
  imports Account_Config Confidential_Balance Confidential_Supply
begin

text \<open>
  What the CPI guard is for (interface/src/extension/cpi_guard/mod.rs and instruction.rs): every check of
  the guard in program/src/processor.rs and in the confidential instructions, seen from an account whose
  guard is on while the program runs inside a CPI. A check that asks for the owner's key stops the owner
  only, so that a delegate may still act; the others stop everybody.
\<close>

text \<open>The encrypted instructions have no delegates: who may act is the owner, and the owner is stopped.\<close>

lemma guarded_owner_stopped:
  assumes "cpi_guard_locked P s" and "in_cpi P"
  shows "\<not> (validate_owner P pid (a_owner (ps_base s)) i (length (info_data st i)) signers st = Inr () \<and>
     check_cpi_guard_transfer P i s e = Inr ())"
  using assms
  by (auto simp: validate_owner_authorizes check_cpi_guard_transfer_def cpi_guard_locked_def ensure_def
      dest: authorizes_key split: sum.splits)

lemma guarded_debit_stopped:
  assumes "unpack account_base (info_data st src) = Inr s" and "cpi_guard_locked P s" and "in_cpi P"
  shows "debit_confidential_source Z P pid src m auth signers key lo hi new dec st \<noteq> Inr st'"
  using assms(1) guarded_owner_stopped [OF assms(2,3)]
  by (auto simp: debit_confidential_source_def initialized_view_Inr info_data_def result_simps)

lemma guarded_confidential_burn_stopped:
  assumes "unpack account_base (info_data st src) = Inr s" and "cpi_guard_locked P s" and "in_cpi P"
  shows "process_confidential_burn Z P pid (src # rest) dec lo hi o1 o2 o3 v st \<noteq> Inr st'"
  using assms(1) guarded_owner_stopped [OF assms(2,3)]
  by (clarsimp simp: process_confidential_burn_def result_simps simp del: coption_simps)

lemma guarded_confidential_transfer_stopped:
  assumes "unpack account_base (info_data st src) = Inr s" and "cpi_guard_locked P s" and "in_cpi P"
  shows "confidential_process_transfer Z P pid (src # rest) dec lo hi o1 o2 o3 o4 o5 st \<noteq> Inr st'"
  using guarded_debit_stopped [OF assms]
  by (auto simp: confidential_process_transfer_def process_source_for_transfer_def
      process_source_for_transfer_with_fee_def result_simps simp del: coption_simps split: sum.splits)

text \<open>
  C30. While the CPI guard of an account is on, inside a CPI the signature of its owner cannot be used to
  transfer or burn its tokens, publicly or encrypted; and nobody can approve a delegate, with or
  without checks, change the owner, set a close authority, close the account to somebody else than the
  owner, take lamports out of it, wrapped or in excess, or turn the guard off.
\<close>

theorem cpi_guard_protects:
  assumes "unpack account_base (info_data st src) = Inr s" and "cpi_guard_locked P s" and "in_cpi P"
    and "ai_key owner = a_owner (ps_base s)" and "\<not> is_owned_by_system_program_or_incinerator P (ps_base s)"
  shows "process_transfer P pid (src # dst # owner # xs) n TransferUnchecked st \<noteq> Inr st' \<and>
     process_transfer P pid (src # mint # dst # owner # xs) n (TransferChecked d) st \<noteq> Inr st' \<and>
     process_transfer P pid (src # mint # dst # owner # xs) n (TransferCheckedWithFee d f) st \<noteq> Inr st' \<and>
     process_burn P pid (src # mint # owner # xs) n BurnStandard v st \<noteq> Inr st' \<and>
     process_burn P pid (src # mint # approver # owner # xs) n BurnPermissioned v st \<noteq> Inr st' \<and>
     confidential_process_transfer Z P pid (src # rest) dec lo hi o1 o2 o3 o4 o5 st \<noteq> Inr st' \<and>
     process_confidential_burn Z P pid (src # rest) dec lo hi q1 q2 q3 bv st \<noteq> Inr st' \<and>
     process_approve P pid (src # rest) n v st \<noteq> Inr st' \<and>
     process_set_authority P pid (src # rest) AuthAccountOwner new_owner st \<noteq> Inr st' \<and>
     (coption_is_some new_authority \<longrightarrow>
        process_set_authority P pid (src # rest) AuthCloseAccount new_authority st \<noteq> Inr st') \<and>
     (ai_key dst \<noteq> a_owner (ps_base s) \<longrightarrow> process_close_account P pid (src # dst # rest) st \<noteq> Inr st') \<and>
     process_unwrap_lamports P pid (src # rest) amount st \<noteq> Inr st' \<and>
     process_withdraw_excess_lamports P pid (src # rest) st \<noteq> Inr st' \<and>
     process_toggle_cpi_guard P pid (src # rest) enable st \<noteq> Inr st'"
proof -
  have g: "check_cpi_guard_transfer P owner s e = Inl e" for e
    using assms by (auto simp: check_cpi_guard_transfer_def cpi_guard_locked_def ensure_def split: sum.splits)
  have e: "cpi_guard_enabled P (ps_tlv s)"
    using assms(2) by (simp add: cpi_guard_locked_def cpi_guard_enabled_def)
  have u: "unpack account_base (ac_data (st (ai_key src))) = Inr s"
    "unpack_ref account_base (info_data st src) = Inr (ps_base s, ps_tlv s)"
    using assms(1) by (simp_all add: info_data_def account_st.unpack_ref_eq)
  have "process_transfer P pid (src # dst # owner # xs) n TransferUnchecked st \<noteq> Inr st'"
    "process_transfer P pid (src # mint # dst # owner # xs) n (TransferChecked d) st \<noteq> Inr st'"
    "process_transfer P pid (src # mint # dst # owner # xs) n (TransferCheckedWithFee d f) st \<noteq> Inr st'"
    using assms(1) g by (auto simp: process_transfer_def transfer_accounts_def Let_def result_simps)
  moreover have "process_burn P pid (src # mint # owner # xs) n BurnStandard v st \<noteq> Inr st'"
    "process_burn P pid (src # mint # approver # owner # xs) n BurnPermissioned v st \<noteq> Inr st'"
    using assms(1) g by (auto simp: process_burn_def result_simps)
  moreover have "process_approve P pid (src # rest) n v st \<noteq> Inr st'"
    using u assms(2,3) by (auto simp: process_approve_def result_simps)
  moreover have "process_set_authority P pid (src # rest) AuthAccountOwner new_owner st \<noteq> Inr st'"
    "coption_is_some new_authority \<longrightarrow>
       process_set_authority P pid (src # rest) AuthCloseAccount new_authority st \<noteq> Inr st'"
    using u assms(1,2,3)
    by (auto simp: process_set_authority_def set_account_authority_def Let_def result_simps)
  moreover have "process_close_account P pid (src # dst # rest) st \<noteq> Inr st'" if "ai_key dst \<noteq> a_owner (ps_base s)"
    using u(2) e assms(3,5) that
    by (auto simp: process_close_account_def check_account_closable_def Let_def result_simps)
  moreover have "process_unwrap_lamports P pid (src # rest) amount st \<noteq> Inr st'"
    "process_withdraw_excess_lamports P pid (src # rest) st \<noteq> Inr st'"
    using u(2) e assms(1,2,3)
    by (auto simp: process_unwrap_lamports_def process_withdraw_excess_lamports_def Let_def result_simps)
  moreover have "process_toggle_cpi_guard P pid (src # rest) enable st \<noteq> Inr st'"
    using u assms(3) by (auto simp: process_toggle_cpi_guard_def result_simps)
  moreover have "confidential_process_transfer Z P pid (src # rest) dec lo hi o1 o2 o3 o4 o5 st \<noteq> Inr st'"
    by (rule guarded_confidential_transfer_stopped [OF assms(1-3)])
  moreover have "process_confidential_burn Z P pid (src # rest) dec lo hi q1 q2 q3 bv st \<noteq> Inr st'"
    by (rule guarded_confidential_burn_stopped [OF assms(1-3)])
  ultimately show ?thesis by blast
qed

definition guard_account :: "pod_account pod_state" where
  "guard_account = single account_base (sample_account 4 30 50 Initialized) cpi_guard_ext \<lparr>cg_lock_cpi = 1\<rparr>"

definition guard_store :: store where
  "guard_store = sample_store [(5, token_acct 200 (state_bytes account_base guard_account))]"

definition cpi_platform :: platform where
  "cpi_platform = sample_platform\<lparr>pl_stack_height := 2\<rparr>"

lemma cpi_guard_protects_witness:
  "\<forall>st'. process_transfer cpi_platform TOKEN_2022_ID [plain_info 5, plain_info 6, signer_info 30] 20 TransferUnchecked
      guard_store \<noteq> Inr st' \<and>
     process_approve cpi_platform TOKEN_2022_ID [plain_info 5, plain_info 4, plain_info 7, signer_info 30] 20
      (VariantChecked 2) guard_store \<noteq> Inr st' \<and>
     process_set_authority cpi_platform TOKEN_2022_ID [plain_info 5, signer_info 30] AuthCloseAccount (coption_some 31)
      guard_store \<noteq> Inr st'"
proof -
  have u: "unpack account_base (info_data guard_store (plain_info 5)) = Inr guard_account"
    unfolding guard_store_def guard_account_def
    by (simp add: info_data_def) (rule unpack_single_account; simp add: cpi_guard_ext_def)
  have g: "get_extension AtAccount cpi_guard_ext (ps_tlv guard_account) = Inr \<lparr>cg_lock_cpi = 1\<rparr>"
    unfolding guard_account_def single_simps by (rule cpi_guard_x.get_entry) (simp_all add: cpi_guard_ext_def get_account_type_def)
  have p: "cpi_guard_locked cpi_platform guard_account" "in_cpi cpi_platform"
    by (simp_all add: cpi_guard_locked_def g in_cpi_def cpi_platform_def sample_platform_def)
  have o: "ai_key (signer_info 30) = a_owner (ps_base guard_account)"
    "\<not> is_owned_by_system_program_or_incinerator cpi_platform (ps_base guard_account)"
    by (simp_all add: guard_account_def is_owned_by_system_program_or_incinerator_def cpi_platform_def sample_platform_def)
  show ?thesis
    by (simp add: cpi_guard_protects [OF u p o] coption_is_some_def coption_some_def COPTION_SOME_def)
qed

end
