(* ===== verification/Spec2Isabelle.thy ===== *)
theory Spec2Isabelle
  imports Solvency Confidential_Worth Client_Proofs Cpi_Guard
begin

text \<open>
  A verification of the Token-2022 program of Solana: the on-chain program (program/src) with the state
  and instruction formats it shares with its clients (interface/src).

  The program keeps no memory of its own. Its state is the accounts it owns: a mint is 82 bytes, a
  token account 165, a multisignature 355, and a mint or token account may be followed by an
  account-type byte and a buffer of extensions in type-length-value form. An instruction names a list
  of accounts and carries bytes; the processor decodes the bytes, a handler checks the accounts'
  owners, flags and authorities and rewrites some of them. A batch runs several instructions.

  \<^bold>\<open>State and conventions.\<close> A \<open>store\<close> maps addresses (256-bit words) to accounts with an owner, lamports
  and data; an \<open>account_info\<close> is an address with its signer and writable flags, so two infos of one
  address alias one account, as in the runtime. Handlers read data from the store, unpack it to records
  and write the bytes back; a second mutable borrow of an account, a slice out of range or an
  \<open>unwrap\<close> on nothing is the error \<open>Panic\<close>. A result is \<open>Inl\<close> of a \<open>ProgramError\<close> or
  \<open>Inr\<close> of a value, \<open>bindr\<close> is the question-mark operator, and checks stand in the order of the code,
  so the first failing one gives the error. Machine integers are words: \<open>checked_add\<close> and its kin
  return \<open>None\<close> where Rust does, signed ones are read with \<open>sint\<close>, and \<open>usize\<close> is \<open>nat\<close>. Loops over
  bytes are functions with a termination measure; no definition takes fuel.

  \<^bold>\<open>Theories and sources.\<close>
  \<^item> Token_Prelude: results, checked and saturating arithmetic, little-endian codecs, \<open>try_for_each\<close>,
    and the collections \<open>result_simps\<close> and \<open>codec_simps\<close>.
  \<^item> Token_Error: interface/src/error.rs.
  \<^item> Transfer_Fee: interface/src/extension/transfer_fee/mod.rs, the fee schedule and its arithmetic.
  \<^item> Extension_Type: the extension types, sizes, required and forbidden combinations of
    interface/src/extension/mod.rs and account_len.rs.
  \<^item> Pod, State_Pack: the two codecs of the base states, interface/src/pod.rs and state.rs.
  \<^item> Tlv, Tlv_Layout: the extension buffer of interface/src/extension/mod.rs, its byte-level operations,
    and their refinement to a finite map.
  \<^item> Extension_Data, Single_Ext: the struct of every fixed-length extension, interface/src/extension/*/mod.rs.
  \<^item> Platform: accounts, and the runtime as a record of parameters.
  \<^item> State_Ext, Views: \<open>PodStateWithExtensions(Mut)\<close>, account types, the locale \<open>base_contract\<close> of a
    base state and the locale \<open>extension_contract\<close> of an extension struct, interpreted for every one.
  \<^item> Authority, Initialize, Token_Transfer, Supply, Account_Control, Lifecycle: the handlers of
    program/src/processor.rs: \<open>validate_owner\<close> and multisignatures; initialisation; transfers; mint and
    burn; approve, revoke, freeze, set authority; close, sync native, withdraw and unwrap lamports.
  \<^item> Fee_Processor, Mint_Config, Account_Config: the processors of program/src/extension/*: transfer
    fees; default state, pausable, permissioned burn, interest, pointers, scaled amounts, transfer hook;
    required memos, CPI guard, reallocate.
  \<^item> Cpi_Guard: what the guard protects against, over every handler that checks it.
  \<^item> Ui_Amount: the decimal strings of amounts (program/src/lib.rs and the two UI extensions).
  \<^item> Instruction: interface/src/instruction.rs and program/src/pod_instruction.rs, all instructions with
    their packing, unpacking and field decoders.
  \<^item> Ciphertext: confidential/ciphertext-arithmetic/src/lib.rs, sums and differences of ElGamal ciphertexts,
    and what they do to the values the ciphertexts commit to.
  \<^item> Proof_Context: confidential/proof-extraction/src and the verify_proof.rs of the program: finding the
    statements that zero-knowledge proofs have proved and checking that they fit together.
  \<^item> Confidential_Transfer, Confidential_Balance, Confidential_Fee, Confidential_Supply,
    Confidential_Instruction: the processors of program/src/extension/confidential_* (configuration;
    deposits, withdrawals and transfers; fees; mint and burn) and their instruction formats.
  \<^item> Confidential_Worth: the worth of encrypted balances and what the instructions do to it.
  \<^item> Alloc_Serialize: \<open>alloc_and_serialize\<close> and its sibling for values of variable length
    (interface/src/extension/mod.rs), which resize an account to fit an extension.
  \<^item> Token_Group, Token_Metadata: the processors of program/src/extension/token_group and token_metadata.
  \<^item> Processor: \<open>process\<close>, \<open>_process_inner\<close>, \<open>process_batch\<close> and the \<open>process_instruction\<close> of the
    extensions.
  \<^item> Client_Instruction, Client_Extension: the constructors of instructions in interface/src/instruction.rs
    and interface/src/extension/*/instruction.rs, and that what they build runs.
  \<^item> Client_Confidential, Client_Proofs: the constructors of the confidential instructions, the proofs they
    place in accounts or transactions (\<open>process_proof_location\<close> of confidential/proof-extraction/src), and
    that the program finds them there.
  \<^item> Ledger, Ledger_Handlers, Ledger_Moves, Ledger_Confidential, Ledger_Interfaces, Solvency: a
    specification on top, the books of the program.

  \<^bold>\<open>Parameters and hypotheses.\<close> The record \<open>platform\<close> holds what is not in the repository: sysvars, stack
  heights, the sibling instruction, well-known addresses, the \<open>Bool\<close> and \<open>MaybeNull\<close> wrappers, account
  resizing, system-program calls and the transfer-hook call. What the proofs use of it is named:
  \<open>bool_laws\<close>, \<open>maybe_null_laws\<close>, \<open>resize_laws\<close>, \<open>hook_laws\<close> and \<open>system_laws\<close> (another program cannot
  touch an account of this one and hands accounts over zeroed), \<open>system_transfer_law\<close>, \<open>pack_law\<close> for
  the external \<open>Pack::unpack\<close>. Floating-point operations are the record \<open>float_ops\<close>, about which nothing
  is assumed. The record \<open>zk\<close> holds what the confidential extensions take from other crates and programs:
  proof and context formats, grouped ciphertexts, the instructions sysvar, and the record \<open>curve\<close> of the
  point operations. \<open>curve_laws\<close> says that these compute in a group, \<open>extraction_laws\<close> that the handles
  of a grouped ciphertext share its commitment. Nothing is assumed of the proofs themselves. The record
  \<open>client\<close> holds the address of the instructions sysvar and the encoding of proof instructions;
  \<open>proof_program_laws\<close> says that an encoded proof is an instruction of its kind. The records
  \<open>group_interface\<close> and \<open>metadata_interface\<close> hold the types, operations and instruction formats of the two
  interface crates; \<open>group_laws\<close> says that groups and members are plain data, \<open>metadata_laws\<close> that metadata
  are encoded in the length announced and decode again. The build feature zk-ops is the flag
  \<open>en_zk_ops\<close>. \<open>sample_platform\<close>, \<open>sample_zk\<close>, \<open>sample_groups\<close> and \<open>sample_metadatas\<close> satisfy the
  laws and carry the witnesses.

  \<^bold>\<open>What is shown.\<close> Per handler: that success implies the required authority and
  state, and what it then does, exactly, with a frame for all other accounts (functional properties); on
  plain transfers, the outcome of every branch; that the CPI guard stops every handler that checks it.
  On data: codecs round-trip, two decoders agree, the extension buffer is a finite map, its walk ends,
  instructions decode to what was packed. On arithmetic: the u128 fee is the mathematical one, its
  inverse the least preimage, interest averages stay in range. On the whole: the program runs the packed
  instruction, an instruction built by a client's constructor names the documented accounts with their
  privileges, runs its handler on them and passes the authority it names, the proofs a client attaches
  are the ones the program reads, a batch is its instructions in sequence; and by induction over all
  runs, with arbitrary steps of other programs in between, the supply of every mint but the native one
  is exactly what accounts hold, fees withheld and collected, and the ledger \<open>h\<close> of what
  was deposited into encrypted balances and not withdrawn, every account's data stays well typed, and
  hence an authorised plain transfer can never fail by overflow. A run is \<open>covered\<close> when no
  more leaves the encrypted balances of a mint than came in. On encrypted balances: a transfer conserves
  the sum of what all ciphertexts commit to, deposits and withdrawals change it by the commitment to
  their public amount, and applying a pending balance moves its whole worth. Metadata and group members
  are written under the authorities the mint and the group name, and nothing else of the mints changes.

  \<^bold>\<open>Not modelled.\<close> Every instruction of the program is. The verification of zero-knowledge
  proofs is another program; that it lets nobody withdraw more than was deposited is the hypothesis
  \<open>covered\<close>. The generation of proofs and the programs and libraries of clients, serde glue and the CPI
  helpers of onchain.rs and offchain.rs are not part of the program, nor is the registry of ElGamal keys,
  whose accounts are read. Logging, compute costs and rent collection are not observable in the model.
\<close>

end
